(* ===== verification/Prelude.thy ===== *)
theory Prelude
  imports Main "HOL-Library.List_Lexorder" "HOL-Library.Char_ord" "HOL-Library.Product_Lexorder"
begin

text \<open>
  What every theory of the development shares: the type names, the result type of code that
  may throw, the collections of rewrite rules, and generic lemmas on lists and options.

  Conventions.
  \<^item> JavaScript strings are HOL strings (lists of 8-bit code units).
  \<^item> An ISO timestamp written by \<open>toISOString\<close> is the instant it names, in milliseconds
    since the epoch (\<open>iso\<close>). The format has a fixed width for the years 0 to 9999, so the
    string comparisons of the code and of its SQL statements are comparisons of instants.
  \<^item> A function that may throw returns \<open>Inl message\<close> or \<open>Inr value\<close>.
  \<^item> \<open>null\<close> and \<open>undefined\<close> are \<open>None\<close>.
\<close>

section \<open>Types\<close>

type_synonym iso = int
type_synonym millis = int
type_synonym ident = string
type_synonym 'a throws = "string + 'a"

abbreviation throw :: "string \<Rightarrow> 'a throws" where
  "throw m \<equiv> Inl m"

abbreviation return :: "'a \<Rightarrow> 'a throws" where
  "return x \<equiv> Inr x"

fun bind_throws :: "'a throws \<Rightarrow> ('a \<Rightarrow> 'b throws) \<Rightarrow> 'b throws" where
  "bind_throws (Inl m) f = Inl m"
| "bind_throws (Inr x) f = f x"

text \<open>\<open>Number.isSafeInteger\<close> on a value that is already an integer.\<close>

definition is_safe_integer :: "int \<Rightarrow> bool" where
  "is_safe_integer n = (- 9007199254740991 \<le> n \<and> n \<le> 9007199254740991)"

text \<open>\<open>Array.prototype.findIndex\<close>, with \<open>None\<close> for -1.\<close>

fun find_index :: "('a \<Rightarrow> bool) \<Rightarrow> 'a list \<Rightarrow> nat option" where
  "find_index p [] = None"
| "find_index p (x # xs) = (if p x then Some 0 else map_option Suc (find_index p xs))"

text \<open>\<open>[...new Set(xs)]\<close>: the first occurrence of every element, in order.\<close>

fun unique :: "'a list \<Rightarrow> 'a list" where
  "unique [] = []"
| "unique (x # xs) = x # unique (filter (\<lambda>y. y \<noteq> x) xs)"

section \<open>Rewrite collections\<close>

named_theorems table_simps \<open>what a statement does to a table\<close>
named_theorems queue_defs \<open>the statements of the execution queue\<close>
named_theorems schema_defs \<open>the contract schemas as predicates\<close>

section \<open>Lemmas\<close>

lemma bind_throws_Inr_iff [simp]:
  "bind_throws r f = Inr y \<longleftrightarrow> (\<exists>x. r = Inr x \<and> f x = Inr y)"
  by (cases r) auto

lemma find_Some_iff_first:
  "find p xs = Some x \<Longrightarrow> x \<in> set xs \<and> p x"
  by (induction xs) (auto split: if_splits)

lemma find_None_iff_set [simp]: "find p xs = None \<longleftrightarrow> (\<forall>x \<in> set xs. \<not> p x)"
  by (induction xs) auto

lemma find_map_key:
  assumes "\<And>x. x \<in> set xs \<Longrightarrow> p (f x) = p x"
  shows "find p (map f xs) = map_option f (find p xs)"
  using assms by (induction xs) auto

lemma distinct_key_eq:
  assumes "distinct (map k xs)" and "x \<in> set xs" and "y \<in> set xs" and "k x = k y"
  shows "x = y"
  using assms by (induction xs) (auto simp: rev_image_eqI)

lemma find_by_key:
  assumes "distinct (map k xs)" and "x \<in> set xs"
  shows "find (\<lambda>r. k r = k x) xs = Some x"
  using assms
proof (induction xs)
  case (Cons y ys)
  then show ?case by (cases "y = x") (auto simp: rev_image_eqI)
qed simp

lemma find_index_Some:
  "find_index p xs = Some i \<Longrightarrow> i < length xs \<and> p (xs ! i) \<and> (\<forall>j < i. \<not> p (xs ! j))"
proof (induction xs arbitrary: i)
  case (Cons x xs)
  then show ?case by (auto split: if_splits simp: nth_Cons split: nat.splits)
qed simp

lemma find_index_None [simp]: "find_index p xs = None \<longleftrightarrow> (\<forall>x \<in> set xs. \<not> p x)"
  by (induction xs) auto

lemma set_unique [simp]: "set (unique xs) = set xs"
  by (induction xs rule: unique.induct) auto

lemma distinct_unique [simp]: "distinct (unique xs)"
  by (induction xs rule: unique.induct) auto

lemma unique_distinct_id [simp]: "distinct xs \<Longrightarrow> unique xs = xs"
proof (induction xs rule: unique.induct)
  case (2 x xs)
  then have "filter (\<lambda>y. y \<noteq> x) xs = xs" by (auto intro: filter_True)
  with 2 show ?case by simp
qed simp

lemma length_filter_partition:
  "length (filter p xs) + length (filter (\<lambda>x. \<not> p x) xs) = length xs"
  by (induction xs) auto

lemma sum_list_map_add:
  "(\<Sum>x \<leftarrow> xs. f x + g x) = (\<Sum>x \<leftarrow> xs. f x) + (\<Sum>x \<leftarrow> xs. (g x :: 'a :: comm_monoid_add))"
  by (induction xs) (auto simp: ac_simps)

lemma sort_key_Cons_least:
  assumes "sort_key k xs = x # ys" and "y \<in> set xs"
  shows "k x \<le> k y"
proof -
  have "sorted (map k (x # ys))" using assms(1) sorted_sort_key [of k xs] by simp
  moreover have "y \<in> set (x # ys)" using assms set_sort [of k xs] by metis
  ultimately show ?thesis by auto
qed

end
