(* ===== verification/Browser_Contracts.thy ===== *)
theory Browser_Contracts
  imports Complex_Main Js_Base
begin

text \<open>
  The browser audit contract (\<open>packages/contracts/src/browser-audit.ts\<close> and
  \<open>regions.ts\<close>): the flow DSL, the audit policy, the result of an audit, its artifacts
  and its statuses, with the refinements of the zod schemas as bool-valued functions.

  A schema function takes the predicate \<open>is_url\<close> (what \<open>z.string().url()\<close> accepts,
  which is the URL parser of the runtime). JavaScript numbers that are not integers (scores,
  timings of a page) are rationals. The preprocessing of results stored before the v1
  contract is not modelled: values are in the v1 form the preprocessing leaves.
\<close>

section \<open>Identifiers\<close>

text \<open>\<open>/^[a-z0-9]([a-z0-9-]{0,62}[a-z0-9])?$/\<close>, 1 to 64 characters.\<close>

definition region_char :: "char \<Rightarrow> bool" where
  "region_char c = (is_lower c \<or> is_digit c)"

definition runtime_region_id_ok :: "string \<Rightarrow> bool" where
  "runtime_region_id_ok s =
     (1 \<le> length s \<and> length s \<le> 64 \<and> region_char (hd s) \<and> region_char (last s)
      \<and> (\<forall>c \<in> set s. region_char c \<or> c = CHR ''-''))"

definition audit_identifier_ok :: "string \<Rightarrow> bool" where
  "audit_identifier_ok s =
     (1 \<le> length s \<and> length s \<le> 120 \<and> region_char (hd s)
      \<and> (\<forall>c \<in> set s. region_char c \<or> c \<in> set ''._-''))"

definition artifact_storage_segment_ok :: "string \<Rightarrow> bool" where
  "artifact_storage_segment_ok s =
     (1 \<le> length s \<and> length s \<le> 160 \<and> is_alnum (hd s)
      \<and> (\<forall>c \<in> set s. is_alnum c \<or> c \<in> set ''_-''))"

definition len_between :: "nat \<Rightarrow> nat \<Rightarrow> string \<Rightarrow> bool" where
  "len_between lo hi s = (lo \<le> length s \<and> length s \<le> hi)"

definition opt_ok :: "('a \<Rightarrow> bool) \<Rightarrow> 'a option \<Rightarrow> bool" where
  "opt_ok p v = (case v of None \<Rightarrow> True | Some x \<Rightarrow> p x)"

lemma opt_ok_simps [simp]: "opt_ok p None" "opt_ok p (Some x) = p x"
  by (simp_all add: opt_ok_def)

text \<open>A list without repetitions under a key, as the \<open>Set\<close>-based refinements check it.\<close>

fun no_repeats :: "string list \<Rightarrow> string list \<Rightarrow> bool" where
  "no_repeats seen [] = True"
| "no_repeats seen (k # ks) = (k \<notin> set seen \<and> no_repeats (k # seen) ks)"

lemma no_repeats_iff: "no_repeats seen ks \<longleftrightarrow> distinct ks \<and> set ks \<inter> set seen = {}"
  by (induction ks arbitrary: seen) auto

section \<open>Artifacts\<close>

definition default_artifact_content_types :: "string list" where
  "default_artifact_content_types =
     [''application/gzip'', ''application/json'', ''application/zip'', ''image/jpeg'',
      ''image/png'', ''image/webp'', ''text/html'', ''text/plain'', ''video/mp4'', ''video/webm'']"

definition standard_artifact_content_types :: "(string \<times> string list) list" where
  "standard_artifact_content_types =
     [(''lighthouse-json'', [''application/json'']),
      (''lighthouse-html'', [''text/html'']),
      (''screenshot'', [''image/jpeg'', ''image/png'', ''image/webp'']),
      (''trace'', [''application/gzip'', ''application/json'', ''application/zip'']),
      (''har'', [''application/json'']),
      (''filmstrip'', [''application/zip'', ''image/jpeg'', ''image/png'', ''image/webp'']),
      (''video'', [''video/mp4'', ''video/webm'']),
      (''waterfall'', [''image/jpeg'', ''image/png'', ''image/webp'']),
      (''log'', [''application/json'', ''text/plain''])]"

definition artifact_content_types_for_kind :: "string \<Rightarrow> string list" where
  "artifact_content_types_for_kind k =
     (case map_of standard_artifact_content_types k of
        Some ts \<Rightarrow> ts
      | None \<Rightarrow> default_artifact_content_types)"

definition parse_artifact_kind :: "string \<Rightarrow> string option" where
  "parse_artifact_kind v =
     (let k = (if v = ''json'' then ''lighthouse-json''
               else if v = ''html'' then ''lighthouse-html'' else v)
      in if audit_identifier_ok (js_trim k) then Some (js_trim k) else None)"

record artifact_ref =
  art_id :: ident
  art_kind :: string
  art_url :: string
  art_filename :: "string option"
  art_contentType :: string
  art_byteSize :: "int option"
  art_sha256 :: "string option"
  art_createdAt :: iso

definition artifact_ref_ok :: "artifact_ref \<Rightarrow> bool" where
  "artifact_ref_ok a =
     (art_id a \<noteq> [] \<and> parse_artifact_kind (art_kind a) = Some (art_kind a) \<and> art_url a \<noteq> []
      \<and> opt_ok (len_between 1 255) (art_filename a) \<and> len_between 1 200 (art_contentType a)
      \<and> opt_ok (\<lambda>n. 0 \<le> n) (art_byteSize a)
      \<and> opt_ok (\<lambda>h. length h = 64 \<and> (\<forall>c \<in> set h. is_lower_hex c)) (art_sha256 a))"

section \<open>The flow DSL\<close>

datatype audit_preset = Mobile | Desktop

datatype provider_class = BestEffort | Fixed

datatype selector_state = Attached | Visible | Hidden | Detached

datatype url_match = MatchEquals | MatchIncludes | MatchRegex

datatype same_site = Strict | Lax | SameSiteNone

record audit_header =
  hdr_name :: string
  hdr_value :: string

record audit_cookie =
  ck_name :: string
  ck_value :: string
  ck_url :: "string option"
  ck_domain :: "string option"
  ck_path :: "string option"
  ck_expires :: "rat option"
  ck_httpOnly :: "bool option"
  ck_secure :: "bool option"
  ck_sameSite :: "same_site option"

record viewport =
  vp_width :: int
  vp_height :: int
  vp_deviceScaleFactor :: "rat option"
  vp_isMobile :: "bool option"
  vp_hasTouch :: "bool option"

datatype flow_step =
    Navigate "string option" "string option"
  | WaitForSelector string "selector_state option"
  | WaitForUrl string url_match
  | Click string
  | TypeText string string bool
  | Press string
  | SelectValues string "string list"
  | WaitForTimeout int
  | SetViewport viewport
  | SetCookie audit_cookie
  | SetExtraHeaders "audit_header list"
  | Snapshot "string option"
  | TimespanStart "string option"
  | TimespanEnd "string option"

definition audit_header_ok :: "audit_header \<Rightarrow> bool" where
  "audit_header_ok h = (len_between 1 120 (hdr_name h) \<and> length (hdr_value h) \<le> 4000)"

definition audit_cookie_ok :: "(string \<Rightarrow> bool) \<Rightarrow> audit_cookie \<Rightarrow> bool" where
  "audit_cookie_ok is_url c =
     (len_between 1 120 (ck_name c) \<and> length (ck_value c) \<le> 4000 \<and> opt_ok is_url (ck_url c)
      \<and> opt_ok (len_between 1 255) (ck_domain c) \<and> opt_ok (len_between 1 255) (ck_path c))"

definition viewport_ok :: "viewport \<Rightarrow> bool" where
  "viewport_ok v =
     (320 \<le> vp_width v \<and> vp_width v \<le> 2560 \<and> 320 \<le> vp_height v \<and> vp_height v \<le> 2560
      \<and> opt_ok (\<lambda>f. 0 < f \<and> f \<le> 4) (vp_deviceScaleFactor v))"

fun flow_step_ok :: "(string \<Rightarrow> bool) \<Rightarrow> flow_step \<Rightarrow> bool" where
  "flow_step_ok is_url (Navigate url label) = (opt_ok is_url url \<and> opt_ok (len_between 1 120) label)"
| "flow_step_ok is_url (WaitForSelector sel st) = len_between 1 500 sel"
| "flow_step_ok is_url (WaitForUrl url m) = len_between 1 500 url"
| "flow_step_ok is_url (Click sel) = len_between 1 500 sel"
| "flow_step_ok is_url (TypeText sel txt clear) = (len_between 1 500 sel \<and> length txt \<le> 10000)"
| "flow_step_ok is_url (Press key) = len_between 1 120 key"
| "flow_step_ok is_url (SelectValues sel vs) =
     (len_between 1 500 sel \<and> 1 \<le> length vs \<and> length vs \<le> 20 \<and> list_all (len_between 1 200) vs)"
| "flow_step_ok is_url (WaitForTimeout ms) = (0 \<le> ms \<and> ms \<le> 60000)"
| "flow_step_ok is_url (SetViewport v) = viewport_ok v"
| "flow_step_ok is_url (SetCookie c) = audit_cookie_ok is_url c"
| "flow_step_ok is_url (SetExtraHeaders hs) =
     (1 \<le> length hs \<and> length hs \<le> 20 \<and> list_all audit_header_ok hs)"
| "flow_step_ok is_url (Snapshot label) = opt_ok (len_between 1 120) label"
| "flow_step_ok is_url (TimespanStart label) = opt_ok (len_between 1 120) label"
| "flow_step_ok is_url (TimespanEnd label) = opt_ok (len_between 1 120) label"

text \<open>The counters of the flow's \<open>superRefine\<close>, and the issues it adds.\<close>

record flow_scan =
  navigateCount :: nat
  activeTimespan :: bool
  checkpointCount :: nat
  flow_issues :: "string list"

fun scan_flow_step :: "flow_step \<Rightarrow> flow_scan \<Rightarrow> flow_scan" where
  "scan_flow_step (Navigate _ _) s =
     s\<lparr>navigateCount := navigateCount s + 1, checkpointCount := checkpointCount s + 1\<rparr>"
| "scan_flow_step (Snapshot _) s = s\<lparr>checkpointCount := checkpointCount s + 1\<rparr>"
| "scan_flow_step (TimespanStart _) s =
     s\<lparr>flow_issues := flow_issues s @
          (if activeTimespan s then [''timespanStart cannot be nested''] else []),
       activeTimespan := True\<rparr>"
| "scan_flow_step (TimespanEnd _) s =
     (if \<not> activeTimespan s
      then s\<lparr>flow_issues := flow_issues s @ [''timespanEnd must follow timespanStart'']\<rparr>
      else s\<lparr>activeTimespan := False, checkpointCount := checkpointCount s + 1\<rparr>)"
| "scan_flow_step _ s = s"

definition flow_scan_start :: flow_scan where
  "flow_scan_start =
     \<lparr>navigateCount = 0, activeTimespan = False, checkpointCount = 0, flow_issues = []\<rparr>"

definition flow_dsl_issues :: "flow_step list \<Rightarrow> string list" where
  "flow_dsl_issues steps =
     (let s = fold scan_flow_step steps flow_scan_start in
      flow_issues s
      @ (if navigateCount s \<noteq> 1 then [''Flow must include exactly one navigate step''] else [])
      @ (if activeTimespan s then [''Flow cannot end with an open timespan''] else [])
      @ (if checkpointCount s > 3
         then [''Flow can include one navigation plus up to two additional checkpoints''] else []))"

definition flow_dsl_ok :: "(string \<Rightarrow> bool) \<Rightarrow> flow_step list \<Rightarrow> bool" where
  "flow_dsl_ok is_url steps =
     (1 \<le> length steps \<and> length steps \<le> 20 \<and> list_all (flow_step_ok is_url) steps
      \<and> flow_dsl_issues steps = [])"

section \<open>Policy\<close>

record artifacts_config =
  want_json :: bool
  want_html :: bool
  want_screenshot :: bool
  want_trace :: bool

record audit_timeouts =
  totalTimeoutMs :: millis
  stepTimeoutMs :: millis

record audit_policy =
  pol_enabled :: bool
  pol_required :: bool
  pol_preset :: audit_preset
  pol_providerClass :: provider_class
  pol_artifacts :: artifacts_config
  pol_timeouts :: audit_timeouts
  pol_flow :: "flow_step list"

definition audit_timeouts_ok :: "audit_timeouts \<Rightarrow> bool" where
  "audit_timeouts_ok t =
     (5000 \<le> totalTimeoutMs t \<and> totalTimeoutMs t \<le> 120000
      \<and> 1000 \<le> stepTimeoutMs t \<and> stepTimeoutMs t \<le> 30000)"

definition audit_policy_ok :: "(string \<Rightarrow> bool) \<Rightarrow> audit_policy \<Rightarrow> bool" where
  "audit_policy_ok is_url p = (audit_timeouts_ok (pol_timeouts p) \<and> flow_dsl_ok is_url (pol_flow p))"

section \<open>Results\<close>

datatype audit_status =
  AQueued | AProvisioning | ARunning | AUploading | ASucceeded | AFailed | ACancelled

definition is_terminal_audit_status :: "audit_status \<Rightarrow> bool" where
  "is_terminal_audit_status s = (s \<in> {ASucceeded, AFailed, ACancelled})"

record core_metrics =
  cm_fcpMs :: "rat option"
  cm_lcpMs :: "rat option"
  cm_cls :: "rat option"
  cm_inpMs :: "rat option"
  cm_tbtMs :: "rat option"
  cm_speedIndexMs :: "rat option"

definition core_metrics_ok :: "core_metrics \<Rightarrow> bool" where
  "core_metrics_ok m =
     list_all (opt_ok (\<lambda>v. 0 \<le> v))
       [cm_fcpMs m, cm_lcpMs m, cm_cls m, cm_inpMs m, cm_tbtMs m, cm_speedIndexMs m]"

definition score_key_ok :: "string \<Rightarrow> bool" where
  "score_key_ok k = (k \<noteq> [] \<and> length k \<le> 120 \<and> is_lower (hd k) \<and> list_all is_alnum k)"

type_synonym audit_scores = "(string \<times> rat option) list"

definition audit_scores_ok :: "audit_scores \<Rightarrow> bool" where
  "audit_scores_ok scores =
     (length scores \<le> 50
      \<and> list_all (\<lambda>(k, v). score_key_ok k \<and> opt_ok (\<lambda>x. 0 \<le> x \<and> x \<le> 1) v) scores)"

datatype metric_value = MetricNum rat | MetricStr string | MetricBool bool | MetricNull

record extended_metric =
  em_id :: string
  em_label :: "string option"
  em_value :: metric_value
  em_unit :: "string option"

definition extended_metric_ok :: "extended_metric \<Rightarrow> bool" where
  "extended_metric_ok m =
     (audit_identifier_ok (em_id m) \<and> opt_ok (len_between 1 200) (em_label m)
      \<and> (case em_value m of MetricStr s \<Rightarrow> length s \<le> 1000 | _ \<Rightarrow> True)
      \<and> opt_ok (len_between 1 40) (em_unit m))"

definition extended_metrics_ok :: "extended_metric list \<Rightarrow> bool" where
  "extended_metrics_ok ms =
     (length ms \<le> 200 \<and> list_all extended_metric_ok ms \<and> no_repeats [] (map em_id ms))"

datatype issue_severity = Info | Warning | SevError

record audit_issue =
  iss_code :: string
  iss_severity :: issue_severity
  iss_message :: string

definition audit_issue_ok :: "audit_issue \<Rightarrow> bool" where
  "audit_issue_ok i = (len_between 1 120 (iss_code i) \<and> len_between 1 1000 (iss_message i))"

record toolchain =
  tc_engine :: "string \<times> string"
  tc_browser :: "string \<times> string"
  tc_runtime :: "string \<times> string"
  tc_components :: "(string \<times> string) list"

definition named_version_ok :: "string \<times> string \<Rightarrow> bool" where
  "named_version_ok nv = (len_between 1 120 (fst nv) \<and> len_between 1 200 (snd nv))"

definition toolchain_ok :: "toolchain \<Rightarrow> bool" where
  "toolchain_ok t =
     (audit_identifier_ok (fst (tc_engine t)) \<and> len_between 1 200 (snd (tc_engine t))
      \<and> named_version_ok (tc_browser t) \<and> named_version_ok (tc_runtime t)
      \<and> length (tc_components t) \<le> 50 \<and> list_all named_version_ok (tc_components t))"

datatype checkpoint_mode = NavigationMode | SnapshotMode | TimespanMode

record checkpoint_result =
  cp_id :: ident
  cp_mode :: checkpoint_mode
  cp_label :: "string option"
  cp_finalUrl :: "string option"
  cp_statusCode :: "int option"
  cp_coreMetrics :: core_metrics
  cp_scores :: audit_scores
  cp_extendedMetrics :: "extended_metric list"

definition status_code_ok :: "int \<Rightarrow> bool" where
  "status_code_ok n = (100 \<le> n \<and> n \<le> 599)"

definition checkpoint_result_ok :: "(string \<Rightarrow> bool) \<Rightarrow> checkpoint_result \<Rightarrow> bool" where
  "checkpoint_result_ok is_url c =
     (cp_id c \<noteq> [] \<and> opt_ok (len_between 1 120) (cp_label c) \<and> opt_ok is_url (cp_finalUrl c)
      \<and> opt_ok status_code_ok (cp_statusCode c) \<and> core_metrics_ok (cp_coreMetrics c)
      \<and> audit_scores_ok (cp_scores c) \<and> extended_metrics_ok (cp_extendedMetrics c))"

record audit_result =
  ar_coreMetrics :: core_metrics
  ar_scores :: audit_scores
  ar_extendedMetrics :: "extended_metric list"
  ar_checkpoints :: "checkpoint_result list"
  ar_issues :: "audit_issue list"
  ar_artifacts :: "artifact_ref list"
  ar_toolchain :: toolchain
  ar_startedAt :: iso
  ar_completedAt :: iso

definition audit_result_ok :: "(string \<Rightarrow> bool) \<Rightarrow> audit_result \<Rightarrow> bool" where
  "audit_result_ok is_url r =
     (core_metrics_ok (ar_coreMetrics r) \<and> audit_scores_ok (ar_scores r)
      \<and> extended_metrics_ok (ar_extendedMetrics r)
      \<and> length (ar_checkpoints r) \<le> 3 \<and> list_all (checkpoint_result_ok is_url) (ar_checkpoints r)
      \<and> list_all audit_issue_ok (ar_issues r)
      \<and> length (ar_artifacts r) \<le> 50 \<and> list_all artifact_ref_ok (ar_artifacts r)
      \<and> toolchain_ok (ar_toolchain r)
      \<and> \<not> ar_completedAt r < ar_startedAt r
      \<and> no_repeats [] (map art_id (ar_artifacts r)))"

record audit_execution_summary =
  aes_executionId :: ident
  aes_status :: audit_status
  aes_region :: "string option"
  aes_result :: "audit_result option"
  aes_requestedAt :: iso
  aes_startedAt :: "iso option"
  aes_completedAt :: "iso option"

record audit_run_summary =
  ars_total :: nat
  ars_queued :: nat
  ars_running :: nat
  ars_succeeded :: nat
  ars_failed :: nat

record upload_config =
  up_baseUrl :: string
  up_bearerToken :: string
  up_expiresAt :: iso
  up_maxArtifactBytes :: int
  up_allowedContentTypes :: "string list"

record audit_worker_request =
  wr_executionId :: ident
  wr_targetUrl :: string
  wr_region :: "string option"
  wr_policy :: audit_policy
  wr_customHeaders :: "audit_header list"
  wr_cookies :: "audit_cookie list"
  wr_artifactUpload :: "upload_config option"
  wr_timestamp :: iso
  wr_signature :: string

record audit_worker_response =
  wres_executionId :: ident
  wres_succeeded :: bool
  wres_result :: "audit_result option"
  wres_error :: "string option"

end
