(* ===== verification/Contracts.thy ===== *)
theory Contracts
  imports Browser_Contracts
begin

text \<open>
  The data of the public API and of the execution queue
  (\<open>packages/contracts/src/public-api.ts\<close>, \<open>execution.ts\<close>,
  \<open>execution-resources.ts\<close>, \<open>identifiers.ts\<close>, \<open>probe-api.ts\<close>,
  \<open>probe-model.ts\<close>): one record per object schema, one datatype per enum or tagged
  union, and each schema's checks as a bool-valued function. Values are those the schemas
  produce (defaults filled in, strings trimmed). The \<open>datetime()\<close> checks are carried by the
  type \<open>iso\<close>.
\<close>

section \<open>Identifiers\<close>

definition bounded_id_char :: "char \<Rightarrow> bool" where
  "bounded_id_char c = (is_alnum c \<or> c \<in> set ''._:-'')"

definition bounded_id_ok :: "nat \<Rightarrow> string \<Rightarrow> bool" where
  "bounded_id_ok hi s =
     (1 \<le> length s \<and> length s \<le> hi \<and> is_alnum (hd s) \<and> list_all bounded_id_char s)"

definition bounded_job_id_ok :: "string \<Rightarrow> bool" where
  "bounded_job_id_ok s = bounded_id_ok 160 s"

definition bounded_target_id_ok :: "string \<Rightarrow> bool" where
  "bounded_target_id_ok s = bounded_id_ok 256 s"

section \<open>Measurements\<close>

datatype target_status =
  TQueued | TSlotAllocating | TDeploying | THealthy | TMeasuring | TSucceeded | TFailed

datatype error_class = Retryable | Terminal

datatype job_status =
  JQueued | JSlotAllocating | JDeploying | JHealthy | JMeasuring | JSucceeded | JFailed | JPartial

datatype request_method = GET | HEAD | POST | PUT | PATCH | DELETE | OPTIONS

datatype probe_impl = Go | Rust

record request_header =
  rh_name :: string
  rh_value :: string

record request_body =
  rb_contentType :: "string option"
  rb_value :: string

record request_config =
  rc_method :: request_method
  rc_headers :: "request_header list"
  rc_body :: "request_body option"

definition header_value_ok :: "string \<Rightarrow> bool" where
  "header_value_ok v =
     (length v \<le> 4000 \<and> list_all (\<lambda>c. code c = 9 \<or> (32 \<le> code c \<and> code c \<le> 126)) v)"

definition header_name_char :: "char \<Rightarrow> bool" where
  "header_name_char c = (is_alnum c \<or> c \<in> set ''!#$%&*+-.^_`|~'' \<or> code c = 39)"

definition request_header_ok :: "request_header \<Rightarrow> bool" where
  "request_header_ok h =
     (len_between 1 120 (rh_name h) \<and> list_all header_name_char (rh_name h)
      \<and> header_value_ok (rh_value h))"

definition request_body_ok :: "request_body \<Rightarrow> bool" where
  "request_body_ok b =
     (opt_ok (\<lambda>t. header_value_ok t \<and> len_between 1 120 t) (rb_contentType b)
      \<and> length (rb_value b) \<le> 10000)"

definition request_config_ok :: "request_config \<Rightarrow> bool" where
  "request_config_ok r =
     (length (rc_headers r) \<le> 20 \<and> list_all request_header_ok (rc_headers r)
      \<and> opt_ok request_body_ok (rc_body r)
      \<and> \<not> ((rc_method r = GET \<or> rc_method r = HEAD) \<and> rc_body r \<noteq> None))"

record probe_timings =
  pt_totalMs :: int
  pt_dnsMs :: "int option"
  pt_tcpMs :: "int option"
  pt_tlsMs :: "int option"
  pt_ttfbMs :: "int option"

record probe_tls =
  ptls_version :: "string option"
  ptls_alpn :: "string option"
  ptls_cipherSuite :: "string option"
  ptls_serverName :: "string option"

record measurement =
  me_region :: string
  me_url :: string
  me_latencyMs :: int
  me_measuredAt :: iso
  me_statusCode :: "int option"
  me_success :: bool
  me_probeImpl :: probe_impl
  me_finalUrl :: "string option"
  me_redirectCount :: int
  me_timings :: probe_timings
  me_tls :: "probe_tls option"
  me_error :: "string option"

record probe_provenance =
  pp_implementation :: probe_impl
  pp_version :: "string option"
  pp_imageDigest :: "string option"

record probe_response =
  pr_jobId :: "ident option"
  pr_targetId :: "ident option"
  pr_provenance :: "probe_provenance option"
  pr_measurement :: measurement

record probe_request =
  pq_jobId :: ident
  pq_targetId :: ident
  pq_region :: string
  pq_url :: string
  pq_request :: "request_config option"
  pq_timestamp :: iso
  pq_signature :: string

section \<open>Monitoring and alerts\<close>

datatype monitor_type = Latency | Uptime

datatype success_rule = Status2xx3xx

datatype monitor_status = MHealthy | MWarning | MFailed

record monitor_policy =
  mp_monitorType :: monitor_type
  mp_successRule :: success_rule
  mp_latencyThresholdMs :: "int option"

record alert_trigger =
  onFailure :: bool
  onLatencyThresholdBreach :: bool
  onRegression :: bool

record webhook_target =
  wt_id :: ident
  wt_name :: string
  wt_url :: string
  wt_enabled :: bool
  wt_secret :: "string option"

record alert_config =
  al_enabled :: bool
  al_webhookTargets :: "webhook_target list"
  al_triggers :: alert_trigger

datatype runner_type = RunnerNetworkProbe | RunnerBrowserAudit

datatype location_mode = LocationBestEffort | LocationFixed

record execution_meta =
  xm_runnerType :: runner_type
  xm_provider :: string
  xm_locationMode :: location_mode
  xm_region :: "string option"
  xm_city :: "string option"
  xm_runnerVersion :: "string option"

record monitor_evaluation =
  ev_monitorType :: monitor_type
  ev_successRule :: success_rule
  ev_status :: monitor_status
  ev_totalChecks :: nat
  ev_healthyChecks :: nat
  ev_failedChecks :: nat
  ev_latencyThresholdMs :: "int option"
  ev_thresholdBreached :: bool
  ev_thresholdBreachedCount :: nat
  ev_worstLatencyMs :: "int option"
  ev_regressionDetected :: bool
  ev_regressedCount :: nat

datatype delivery_status = DeliverySent | DeliveryFailed

record alert_delivery =
  ad_targetId :: ident
  ad_targetName :: string
  ad_url :: string
  ad_deliveredAt :: iso
  ad_status :: delivery_status
  ad_responseStatus :: "int option"
  ad_error :: "string option"

section \<open>Properties, route sets and checks\<close>

record property =
  prop_id :: ident
  prop_name :: string
  prop_baseUrl :: string
  prop_createdAt :: iso
  prop_updatedAt :: iso

record route_set_route =
  rsr_id :: ident
  rsr_label :: string
  rsr_url :: string

record route_set =
  rs_id :: ident
  rs_propertyId :: ident
  rs_name :: string
  rs_routes :: "route_set_route list"
  rs_createdAt :: iso
  rs_updatedAt :: iso

record check_schedule =
  sch_intervalMinutes :: int
  sch_nextRunAt :: "iso option"
  sch_lastRunAt :: "iso option"
  sch_lastRunJobCount :: "nat option"

record check_baseline =
  bl_runId :: ident
  bl_pinnedAt :: iso

datatype run_trigger = Manual | Schedule

datatype migration_status = MigApplied | MigRequiresReview | MigAccepted

datatype migration_reason =
  SingletonMatchesRuntime | LegacyMultiRegion | LegacyRegionMismatch | LegacyRegionPackMissing

record location_migration =
  lm_sourceRegionPackId :: ident
  lm_sourceRegions :: "string list"
  lm_runtimeRegionId :: string
  lm_status :: migration_status
  lm_reason :: migration_reason
  lm_acknowledgedAt :: "iso option"

record check_profile =
  cpf_id :: ident
  cpf_propertyId :: ident
  cpf_routeSetId :: ident
  cpf_name :: string
  cpf_note :: "string option"
  cpf_request :: "request_config option"
  cpf_monitorPolicy :: "monitor_policy option"
  cpf_alerts :: "alert_config option"
  cpf_browserAuditPolicy :: "audit_policy option"
  cpf_schedule :: "check_schedule option"
  cpf_baseline :: "check_baseline option"
  cpf_locationMigration :: "location_migration option"
  cpf_createdAt :: iso
  cpf_updatedAt :: iso

section \<open>Jobs and runs\<close>

record job_target =
  tgt_jobId :: ident
  tgt_region :: string
  tgt_status :: target_status
  tgt_attemptNo :: int
  tgt_maxAttempts :: int
  tgt_latencyMs :: "int option"
  tgt_statusCode :: "int option"
  tgt_success :: "bool option"
  tgt_probeImpl :: "probe_impl option"
  tgt_measurement :: "measurement option"
  tgt_execution :: "execution_meta option"
  tgt_slotId :: "string option"
  tgt_errorCode :: "string option"
  tgt_errorClass :: "error_class option"
  tgt_errorMessage :: "string option"
  tgt_startedAt :: "iso option"
  tgt_finishedAt :: "iso option"
  tgt_updatedAt :: iso

record job_summary =
  sm_total :: nat
  sm_succeeded :: nat
  sm_failed :: nat
  sm_inflight :: nat

record latency_job =
  job_id :: ident
  job_url :: string
  job_status :: job_status
  job_note :: "string option"
  job_request :: "request_config option"
  job_monitorPolicy :: "monitor_policy option"
  job_requestedAt :: iso
  job_startedAt :: "iso option"
  job_completedAt :: "iso option"
  job_requesterIp :: "string option"
  job_region :: string
  job_historicalRegions :: "string list option"
  job_targets :: "job_target list"
  job_evaluation :: "monitor_evaluation option"
  job_summary :: job_summary

record run_route =
  rr_routeId :: ident
  rr_routeLabel :: string
  rr_url :: string
  rr_jobId :: ident
  rr_browserAudit :: "audit_execution_summary option"

record profile_run =
  run_id :: ident
  run_profileId :: ident
  run_trigger :: run_trigger
  run_createdAt :: iso
  run_routeCount :: nat
  run_routes :: "run_route list"
  run_browserAuditSummary :: "audit_run_summary option"
  run_evaluation :: "monitor_evaluation option"
  run_alertDeliveries :: "alert_delivery list"

record audit_resource =
  aud_id :: ident
  aud_targetUrl :: string
  aud_region :: "string option"
  aud_status :: audit_status
  aud_requestedAt :: iso
  aud_startedAt :: "iso option"
  aud_completedAt :: "iso option"
  aud_policy :: audit_policy
  aud_customHeaders :: "audit_header list"
  aud_cookies :: "audit_cookie list"
  aud_result :: "audit_result option"
  aud_error :: "string option"

section \<open>Comparisons, reports, exports and analyses\<close>

datatype classification = Improved | Regressed | Unchanged | MissingPrevious | MissingCurrent

datatype comparison_mode = LatestPrevious | Baseline | CustomRun

record region_comparison =
  rg_region :: string
  rg_currentJobId :: "ident option"
  rg_previousJobId :: "ident option"
  rg_currentStatus :: "job_status option"
  rg_previousStatus :: "job_status option"
  rg_currentLatencyMs :: "int option"
  rg_previousLatencyMs :: "int option"
  rg_currentStatusCode :: "int option"
  rg_previousStatusCode :: "int option"
  rg_currentFinalUrl :: "string option"
  rg_previousFinalUrl :: "string option"
  rg_currentProbeImpl :: "probe_impl option"
  rg_previousProbeImpl :: "probe_impl option"
  rg_currentErrorMessage :: "string option"
  rg_previousErrorMessage :: "string option"
  rg_latencyDeltaMs :: "int option"
  rg_latencyDeltaPct :: "rat option"
  rg_classification :: classification
  rg_statusChanged :: bool

record route_comparison =
  rtc_routeId :: ident
  rtc_routeLabel :: string
  rtc_url :: string
  rtc_regions :: "region_comparison list"

record comparison_summary =
  routesCompared :: nat
  regionsCompared :: nat
  cs_improved :: nat
  cs_regressed :: nat
  cs_unchanged :: nat
  cs_missingPrevious :: nat
  cs_missingCurrent :: nat

record profile_comparison =
  cmp_currentRun :: profile_run
  cmp_comparedRun :: "profile_run option"
  cmp_mode :: comparison_mode
  cmp_summary :: comparison_summary
  cmp_routes :: "route_comparison list"

record latest_comparison =
  lc_profile :: check_profile
  lc_currentRun :: profile_run
  lc_previousRun :: "profile_run option"
  lc_comparedRun :: "profile_run option"
  lc_baselineRun :: "profile_run option"
  lc_mode :: comparison_mode
  lc_summary :: comparison_summary
  lc_routes :: "route_comparison list"

record run_report_summary =
  rrs_runId :: ident
  rrs_createdAt :: iso
  rrs_trigger :: run_trigger
  rrs_routeCount :: nat
  rrs_jobCount :: nat
  rrs_status :: monitor_status
  rrs_evaluation :: "monitor_evaluation option"
  rrs_alertDeliveries :: "alert_delivery list"
  rrs_baselinePinned :: bool

record run_detail =
  rd_profile :: check_profile
  rd_run :: profile_run
  rd_jobs :: "latency_job list"

record profile_report =
  rep_profile :: check_profile
  rep_latestRun :: "run_detail option"
  rep_latestRunSummary :: "run_report_summary option"
  rep_latestComparison :: "latest_comparison option"
  rep_baselineComparison :: "profile_comparison option"
  rep_recentRuns :: "run_report_summary list"

datatype comparison_target = TargetBaseline | TargetLatestPrevious | TargetRun ident

record comparison_resource =
  cr_id :: ident
  cr_createdAt :: iso
  cr_checkId :: ident
  cr_comparison :: profile_comparison

datatype export_format = FormatJson | FormatCsv

datatype export_source = ExportCheckReport ident | ExportComparison ident

datatype export_status = ExportPending | ExportSucceeded | ExportFailed

record export_resource =
  ex_id :: ident
  ex_createdAt :: iso
  ex_source :: export_source
  ex_format :: export_format
  ex_status :: export_status
  ex_filename :: string
  ex_contentType :: string
  ex_body :: string

datatype analysis_source = AnalysisComparison ident | AnalysisRun ident ident

datatype severity = Low | Medium | High

record analysis_finding =
  fi_id :: ident
  fi_kind :: string
  fi_severity :: severity
  fi_summary :: string
  fi_evidenceRefs :: "string list"

record analysis_recommendation =
  rec_id :: ident
  rec_kind :: string
  rec_summary :: string

record analysis_output =
  out_findings :: "analysis_finding list"
  out_recommendations :: "analysis_recommendation list"
  out_narrative :: "string option"

datatype analysis_status = AnalysisPending | AnalysisRunning | AnalysisSucceeded | AnalysisFailed

record analysis_resource =
  an_id :: ident
  an_createdAt :: iso
  an_source :: analysis_source
  an_status :: analysis_status
  an_output :: analysis_output

record dispatch_entry =
  de_profileId :: ident
  de_jobIds :: "ident list"
  de_nextRunAt :: "iso option"

record dispatch_response =
  dr_dispatchedAt :: iso
  dr_triggeredCount :: nat
  dr_triggeredProfiles :: "dispatch_entry list"

end
