(* ===== verification/Schemas.thy ===== *)
theory Schemas
  imports Contracts
begin

text \<open>
  The checks of the persisted resource schemas of \<open>packages/contracts/src/public-api.ts\<close>
  and \<open>probe-model.ts\<close>, one function per schema. They decide which stored rows the
  repository can read back, and what it refuses to write.
\<close>

section \<open>Measurements\<close>

definition request_schema :: "request_config \<Rightarrow> bool" where
  [schema_defs]: "request_schema r = request_config_ok r"

definition timing_ok :: "int option \<Rightarrow> bool" where
  [schema_defs]: "timing_ok t = opt_ok (\<lambda>v. 0 \<le> v) t"

definition probe_timings_schema :: "probe_timings \<Rightarrow> bool" where
  [schema_defs]: "probe_timings_schema t =
     (0 \<le> pt_totalMs t \<and> timing_ok (pt_dnsMs t) \<and> timing_ok (pt_tcpMs t)
      \<and> timing_ok (pt_tlsMs t) \<and> timing_ok (pt_ttfbMs t))"

definition probe_tls_schema :: "probe_tls \<Rightarrow> bool" where
  [schema_defs]: "probe_tls_schema t =
     (list_all (opt_ok (\<lambda>s. s \<noteq> []))
        [ptls_version t, ptls_alpn t, ptls_cipherSuite t, ptls_serverName t])"

definition measurement_schema :: "(string \<Rightarrow> bool) \<Rightarrow> measurement \<Rightarrow> bool" where
  [schema_defs]: "measurement_schema is_url m =
     (runtime_region_id_ok (me_region m) \<and> is_url (me_url m) \<and> 0 \<le> me_latencyMs m
      \<and> opt_ok status_code_ok (me_statusCode m) \<and> opt_ok is_url (me_finalUrl m)
      \<and> 0 \<le> me_redirectCount m \<and> probe_timings_schema (me_timings m)
      \<and> opt_ok probe_tls_schema (me_tls m) \<and> opt_ok (\<lambda>s. s \<noteq> []) (me_error m))"

definition probe_provenance_schema :: "probe_provenance \<Rightarrow> bool" where
  [schema_defs]: "probe_provenance_schema p =
     (opt_ok (len_between 1 120) (pp_version p)
      \<and> opt_ok (\<lambda>d. starts_with ''sha256:'' d \<and> length d = 71
           \<and> list_all is_lower_hex (drop 7 d)) (pp_imageDigest p))"

definition probe_response_schema :: "(string \<Rightarrow> bool) \<Rightarrow> probe_response \<Rightarrow> bool" where
  [schema_defs]: "probe_response_schema is_url r =
     (opt_ok bounded_job_id_ok (pr_jobId r) \<and> opt_ok bounded_target_id_ok (pr_targetId r)
      \<and> opt_ok probe_provenance_schema (pr_provenance r) \<and> measurement_schema is_url (pr_measurement r))"

section \<open>Alerts\<close>

definition monitor_policy_schema :: "monitor_policy \<Rightarrow> bool" where
  [schema_defs]: "monitor_policy_schema p = opt_ok (\<lambda>v. 0 < v) (mp_latencyThresholdMs p)"

definition webhook_target_schema :: "(string \<Rightarrow> bool) \<Rightarrow> webhook_target \<Rightarrow> bool" where
  [schema_defs]: "webhook_target_schema is_url t =
     (wt_id t \<noteq> [] \<and> len_between 1 120 (wt_name t) \<and> is_url (wt_url t)
      \<and> opt_ok (len_between 1 200) (wt_secret t))"

definition alert_config_schema :: "(string \<Rightarrow> bool) \<Rightarrow> alert_config \<Rightarrow> bool" where
  [schema_defs]: "alert_config_schema is_url c =
     (length (al_webhookTargets c) \<le> 5 \<and> list_all (webhook_target_schema is_url) (al_webhookTargets c))"

definition provider_char :: "char \<Rightarrow> bool" where
  "provider_char c = (is_lower c \<or> is_digit c)"

definition execution_meta_schema :: "execution_meta \<Rightarrow> bool" where
  [schema_defs]: "execution_meta_schema m =
     (len_between 1 120 (xm_provider m) \<and> provider_char (hd (xm_provider m))
      \<and> list_all (\<lambda>c. provider_char c \<or> c \<in> set ''_-'') (xm_provider m)
      \<and> opt_ok runtime_region_id_ok (xm_region m)
      \<and> opt_ok (\<lambda>s. s \<noteq> []) (xm_city m) \<and> opt_ok (\<lambda>s. s \<noteq> []) (xm_runnerVersion m))"

definition monitor_evaluation_schema :: "monitor_evaluation \<Rightarrow> bool" where
  [schema_defs]: "monitor_evaluation_schema e =
     (opt_ok (\<lambda>v. 0 < v) (ev_latencyThresholdMs e) \<and> opt_ok (\<lambda>v. 0 \<le> v) (ev_worstLatencyMs e))"

definition alert_delivery_schema :: "(string \<Rightarrow> bool) \<Rightarrow> alert_delivery \<Rightarrow> bool" where
  [schema_defs]: "alert_delivery_schema is_url d =
     (ad_targetId d \<noteq> [] \<and> len_between 1 120 (ad_targetName d) \<and> is_url (ad_url d)
      \<and> opt_ok status_code_ok (ad_responseStatus d) \<and> opt_ok (\<lambda>s. s \<noteq> []) (ad_error d))"

section \<open>Jobs and runs\<close>

definition job_target_schema :: "(string \<Rightarrow> bool) \<Rightarrow> job_target \<Rightarrow> bool" where
  [schema_defs]: "job_target_schema is_url t =
     (bounded_job_id_ok (tgt_jobId t) \<and> runtime_region_id_ok (tgt_region t)
      \<and> 0 \<le> tgt_attemptNo t \<and> 0 < tgt_maxAttempts t
      \<and> opt_ok (\<lambda>v. 0 \<le> v) (tgt_latencyMs t) \<and> opt_ok status_code_ok (tgt_statusCode t)
      \<and> opt_ok (measurement_schema is_url) (tgt_measurement t)
      \<and> opt_ok execution_meta_schema (tgt_execution t)
      \<and> opt_ok (\<lambda>s. s \<noteq> []) (tgt_slotId t) \<and> opt_ok (\<lambda>s. s \<noteq> []) (tgt_errorCode t)
      \<and> opt_ok (\<lambda>s. s \<noteq> []) (tgt_errorMessage t))"

definition latency_job_schema :: "(string \<Rightarrow> bool) \<Rightarrow> latency_job \<Rightarrow> bool" where
  [schema_defs]: "latency_job_schema is_url j =
     (bounded_job_id_ok (job_id j) \<and> is_url (job_url j)
      \<and> opt_ok (\<lambda>n. length n \<le> 200) (job_note j) \<and> opt_ok request_schema (job_request j)
      \<and> opt_ok monitor_policy_schema (job_monitorPolicy j)
      \<and> opt_ok (\<lambda>s. s \<noteq> []) (job_requesterIp j) \<and> runtime_region_id_ok (job_region j)
      \<and> opt_ok (\<lambda>rs. 1 \<le> length rs \<and> length rs \<le> 4 \<and> list_all runtime_region_id_ok rs)
          (job_historicalRegions j)
      \<and> list_all (job_target_schema is_url) (job_targets j)
      \<and> opt_ok monitor_evaluation_schema (job_evaluation j))"

definition audit_execution_summary_schema ::
    "(string \<Rightarrow> bool) \<Rightarrow> audit_execution_summary \<Rightarrow> bool" where
  [schema_defs]: "audit_execution_summary_schema is_url s =
     (aes_executionId s \<noteq> [] \<and> opt_ok runtime_region_id_ok (aes_region s)
      \<and> opt_ok (audit_result_ok is_url) (aes_result s))"

definition run_route_schema :: "(string \<Rightarrow> bool) \<Rightarrow> run_route \<Rightarrow> bool" where
  [schema_defs]: "run_route_schema is_url r =
     (rr_routeId r \<noteq> [] \<and> len_between 1 120 (rr_routeLabel r) \<and> is_url (rr_url r)
      \<and> bounded_job_id_ok (rr_jobId r)
      \<and> opt_ok (audit_execution_summary_schema is_url) (rr_browserAudit r))"

definition profile_run_schema :: "(string \<Rightarrow> bool) \<Rightarrow> profile_run \<Rightarrow> bool" where
  [schema_defs]: "profile_run_schema is_url r =
     (run_id r \<noteq> [] \<and> run_profileId r \<noteq> [] \<and> 0 < run_routeCount r
      \<and> run_routes r \<noteq> [] \<and> list_all (run_route_schema is_url) (run_routes r)
      \<and> opt_ok monitor_evaluation_schema (run_evaluation r)
      \<and> list_all (alert_delivery_schema is_url) (run_alertDeliveries r))"

definition audit_resource_schema :: "(string \<Rightarrow> bool) \<Rightarrow> audit_resource \<Rightarrow> bool" where
  [schema_defs]: "audit_resource_schema is_url a =
     (aud_id a \<noteq> [] \<and> is_url (aud_targetUrl a) \<and> opt_ok runtime_region_id_ok (aud_region a)
      \<and> audit_policy_ok is_url (aud_policy a)
      \<and> length (aud_customHeaders a) \<le> 20 \<and> list_all audit_header_ok (aud_customHeaders a)
      \<and> length (aud_cookies a) \<le> 20 \<and> list_all (audit_cookie_ok is_url) (aud_cookies a)
      \<and> opt_ok (audit_result_ok is_url) (aud_result a) \<and> opt_ok (\<lambda>s. s \<noteq> []) (aud_error a))"

definition upload_config_schema :: "(string \<Rightarrow> bool) \<Rightarrow> upload_config \<Rightarrow> bool" where
  "upload_config_schema is_url c =
     (is_url (up_baseUrl c) \<and> up_bearerToken c \<noteq> [] \<and> up_maxArtifactBytes c > 0
      \<and> list_all (len_between 1 200) (up_allowedContentTypes c)
      \<and> 1 \<le> length (up_allowedContentTypes c) \<and> length (up_allowedContentTypes c) \<le> 32)"

section \<open>Properties, route sets and checks\<close>

definition property_schema :: "(string \<Rightarrow> bool) \<Rightarrow> property \<Rightarrow> bool" where
  [schema_defs]: "property_schema is_url p =
     (prop_id p \<noteq> [] \<and> len_between 1 120 (prop_name p) \<and> is_url (prop_baseUrl p))"

definition route_set_route_schema :: "(string \<Rightarrow> bool) \<Rightarrow> route_set_route \<Rightarrow> bool" where
  [schema_defs]: "route_set_route_schema is_url r =
     (rsr_id r \<noteq> [] \<and> len_between 1 120 (rsr_label r) \<and> is_url (rsr_url r))"

definition route_set_schema :: "(string \<Rightarrow> bool) \<Rightarrow> route_set \<Rightarrow> bool" where
  [schema_defs]: "route_set_schema is_url s =
     (rs_id s \<noteq> [] \<and> rs_propertyId s \<noteq> [] \<and> len_between 1 120 (rs_name s)
      \<and> 1 \<le> length (rs_routes s) \<and> length (rs_routes s) \<le> 20
      \<and> list_all (route_set_route_schema is_url) (rs_routes s))"

definition check_schedule_schema :: "check_schedule \<Rightarrow> bool" where
  [schema_defs]: "check_schedule_schema s = (5 \<le> sch_intervalMinutes s)"

definition location_migration_schema :: "location_migration \<Rightarrow> bool" where
  [schema_defs]: "location_migration_schema m =
     (lm_sourceRegionPackId m \<noteq> [] \<and> length (lm_sourceRegions m) \<le> 4
      \<and> list_all runtime_region_id_ok (lm_sourceRegions m)
      \<and> runtime_region_id_ok (lm_runtimeRegionId m))"

definition check_profile_schema :: "(string \<Rightarrow> bool) \<Rightarrow> check_profile \<Rightarrow> bool" where
  [schema_defs]: "check_profile_schema is_url p =
     (cpf_id p \<noteq> [] \<and> cpf_propertyId p \<noteq> [] \<and> cpf_routeSetId p \<noteq> []
      \<and> len_between 1 120 (cpf_name p) \<and> opt_ok (\<lambda>n. length n \<le> 200) (cpf_note p)
      \<and> opt_ok request_schema (cpf_request p) \<and> opt_ok monitor_policy_schema (cpf_monitorPolicy p)
      \<and> opt_ok (alert_config_schema is_url) (cpf_alerts p)
      \<and> opt_ok (audit_policy_ok is_url) (cpf_browserAuditPolicy p)
      \<and> opt_ok check_schedule_schema (cpf_schedule p)
      \<and> opt_ok (\<lambda>b. bl_runId b \<noteq> []) (cpf_baseline p)
      \<and> opt_ok location_migration_schema (cpf_locationMigration p))"

section \<open>Comparisons, exports and analyses\<close>

definition region_comparison_schema :: "(string \<Rightarrow> bool) \<Rightarrow> region_comparison \<Rightarrow> bool" where
  [schema_defs]: "region_comparison_schema is_url r =
     (runtime_region_id_ok (rg_region r)
      \<and> opt_ok bounded_job_id_ok (rg_currentJobId r) \<and> opt_ok bounded_job_id_ok (rg_previousJobId r)
      \<and> opt_ok status_code_ok (rg_currentStatusCode r) \<and> opt_ok status_code_ok (rg_previousStatusCode r)
      \<and> opt_ok is_url (rg_currentFinalUrl r) \<and> opt_ok is_url (rg_previousFinalUrl r)
      \<and> opt_ok (\<lambda>s. s \<noteq> []) (rg_currentErrorMessage r)
      \<and> opt_ok (\<lambda>s. s \<noteq> []) (rg_previousErrorMessage r))"

definition route_comparison_schema :: "(string \<Rightarrow> bool) \<Rightarrow> route_comparison \<Rightarrow> bool" where
  [schema_defs]: "route_comparison_schema is_url r =
     (rtc_routeId r \<noteq> [] \<and> len_between 1 120 (rtc_routeLabel r) \<and> is_url (rtc_url r)
      \<and> rtc_regions r \<noteq> [] \<and> list_all (region_comparison_schema is_url) (rtc_regions r))"

definition comparison_resource_schema :: "(string \<Rightarrow> bool) \<Rightarrow> comparison_resource \<Rightarrow> bool" where
  [schema_defs]: "comparison_resource_schema is_url c =
     (cr_id c \<noteq> [] \<and> cr_checkId c \<noteq> []
      \<and> profile_run_schema is_url (cmp_currentRun (cr_comparison c))
      \<and> opt_ok (profile_run_schema is_url) (cmp_comparedRun (cr_comparison c))
      \<and> list_all (route_comparison_schema is_url) (cmp_routes (cr_comparison c)))"

definition export_resource_schema :: "export_resource \<Rightarrow> bool" where
  [schema_defs]: "export_resource_schema e =
     (ex_id e \<noteq> [] \<and> (case ex_source e of ExportCheckReport i \<Rightarrow> i \<noteq> [] | ExportComparison i \<Rightarrow> i \<noteq> [])
      \<and> ex_filename e \<noteq> [] \<and> ex_contentType e \<noteq> [])"

definition analysis_resource_schema :: "analysis_resource \<Rightarrow> bool" where
  [schema_defs]: "analysis_resource_schema a =
     (an_id a \<noteq> []
      \<and> (case an_source a of AnalysisComparison i \<Rightarrow> i \<noteq> [] | AnalysisRun r c \<Rightarrow> r \<noteq> [] \<and> c \<noteq> [])
      \<and> list_all (\<lambda>f. fi_id f \<noteq> [] \<and> fi_kind f \<noteq> [] \<and> fi_summary f \<noteq> []
                    \<and> list_all (\<lambda>e. e \<noteq> []) (fi_evidenceRefs f)) (out_findings (an_output a))
      \<and> list_all (\<lambda>r. rec_id r \<noteq> [] \<and> rec_kind r \<noteq> [] \<and> rec_summary r \<noteq> [])
          (out_recommendations (an_output a))
      \<and> opt_ok (\<lambda>n. n \<noteq> []) (out_narrative (an_output a)))"

end
