(* ===== verification/Execution_Contracts.thy ===== *)
theory Execution_Contracts
  imports Schemas
begin

text \<open>
  The contract of the execution queue (\<open>packages/contracts/src/execution.ts\<close> and
  \<open>execution-resources.ts\<close>): durable execution jobs, the JSON payloads they carry, the three
  payload schemas with their decoders, the context a runner receives and the result it sends.
\<close>

section \<open>Execution jobs\<close>

datatype exec_kind = NetworkProbe | BrowserAudit | WebhookDelivery

datatype exec_status = EQueued | ELeased | ERunning | ESucceeded | EFailed | ECancelled

record exec_error =
  xe_code :: string
  xe_message :: string
  xe_retryable :: bool

record exec_job =
  ej_id :: ident
  ej_kind :: exec_kind
  ej_resourceId :: ident
  ej_status :: exec_status
  ej_leaseOwner :: "string option"
  ej_leaseExpiresAt :: "iso option"
  ej_attemptCount :: int
  ej_maxAttempts :: int
  ej_availableAt :: iso
  ej_payload :: json
  ej_error :: "exec_error option"
  ej_createdAt :: iso
  ej_updatedAt :: iso
  ej_completedAt :: "iso option"

record enqueue_job =
  eq_id :: ident
  eq_kind :: exec_kind
  eq_resourceId :: ident
  eq_maxAttempts :: int
  eq_availableAt :: "iso option"
  eq_payload :: json

section \<open>Limits\<close>

definition execution_payload_max_depth :: nat where "execution_payload_max_depth = 32"
definition execution_payload_max_bytes :: nat where "execution_payload_max_bytes = 256 * 1024"
definition default_execution_retry_delay_ms :: millis where "default_execution_retry_delay_ms = 1000"
definition execution_job_max_attempts :: int where "execution_job_max_attempts = 20"
definition execution_lease_owner_max_length :: nat where "execution_lease_owner_max_length = 160"
definition execution_lease_duration_min_ms :: millis where "execution_lease_duration_min_ms = 1000"
definition execution_lease_duration_max_ms :: millis where "execution_lease_duration_max_ms = 3600000"
definition execution_retry_delay_max_ms :: millis where "execution_retry_delay_max_ms = 86400000"
definition execution_availability_max_delay_ms :: millis where
  "execution_availability_max_delay_ms = 7 * 24 * 60 * 60 * 1000"
definition execution_error_code_max_length :: nat where "execution_error_code_max_length = 120"
definition execution_error_message_max_length :: nat where "execution_error_message_max_length = 1000"
definition network_probe_max_jobs :: nat where "network_probe_max_jobs = 20"
definition execution_followup_max_jobs :: nat where "execution_followup_max_jobs = 20"

lemmas limit_defs =
  execution_payload_max_depth_def execution_payload_max_bytes_def
  default_execution_retry_delay_ms_def execution_job_max_attempts_def
  execution_lease_owner_max_length_def execution_lease_duration_min_ms_def
  execution_lease_duration_max_ms_def execution_retry_delay_max_ms_def
  execution_availability_max_delay_ms_def execution_error_code_max_length_def
  execution_error_message_max_length_def network_probe_max_jobs_def execution_followup_max_jobs_def

section \<open>JSON payloads\<close>

definition reserved_json_keys :: "string list" where
  "reserved_json_keys = [''__proto__'', ''constructor'', ''prototype'']"

definition is_safe_json_record :: "(string \<times> json) list \<Rightarrow> bool" where
  "is_safe_json_record kvs = (\<not> (\<exists>k \<in> set (map fst kvs). k \<in> set reserved_json_keys))"

fun create_json_value_schema :: "nat \<Rightarrow> json \<Rightarrow> bool" where
  "create_json_value_schema depth (JArr vs) =
     (depth < execution_payload_max_depth \<and> list_all (create_json_value_schema (depth + 1)) vs)"
| "create_json_value_schema depth (JObj kvs) =
     (depth < execution_payload_max_depth \<and> is_safe_json_record kvs
      \<and> list_all (\<lambda>kv. create_json_value_schema (depth + 1) (snd kv)) kvs)"
| "create_json_value_schema depth _ = True"

definition json_value_schema :: "json \<Rightarrow> bool" where
  "json_value_schema v =
     (create_json_value_schema 0 v
      \<and> \<not> utf8_length (json_stringify v) > execution_payload_max_bytes)"

section \<open>Job schemas\<close>

definition execution_error_schema :: "exec_error \<Rightarrow> bool" where
  "execution_error_schema e =
     (len_between 1 execution_error_code_max_length (xe_code e)
      \<and> len_between 1 execution_error_message_max_length (xe_message e))"

definition lease_owner_ok :: "string \<Rightarrow> bool" where
  "lease_owner_ok s = len_between 1 execution_lease_owner_max_length s"

definition is_leased_status :: "exec_status \<Rightarrow> bool" where
  "is_leased_status s = (s = ELeased \<or> s = ERunning)"

definition is_terminal_status :: "exec_status \<Rightarrow> bool" where
  "is_terminal_status s = (s = ESucceeded \<or> s = EFailed \<or> s = ECancelled)"

definition lease_fields_ok :: "exec_job \<Rightarrow> bool" where
  "lease_fields_ok j =
     (let leased = is_leased_status (ej_status j); terminal = is_terminal_status (ej_status j) in
      \<not> (leased \<and> (ej_leaseOwner j = None \<or> ej_leaseExpiresAt j = None))
      \<and> \<not> (\<not> leased \<and> (ej_leaseOwner j \<noteq> None \<or> ej_leaseExpiresAt j \<noteq> None))
      \<and> (terminal = (ej_completedAt j \<noteq> None)))"

definition execution_job_schema :: "exec_job \<Rightarrow> bool" where
  "execution_job_schema j =
     (bounded_job_id_ok (ej_id j) \<and> bounded_job_id_ok (ej_resourceId j)
      \<and> opt_ok lease_owner_ok (ej_leaseOwner j)
      \<and> 0 \<le> ej_attemptCount j
      \<and> 0 < ej_maxAttempts j \<and> ej_maxAttempts j \<le> execution_job_max_attempts
      \<and> json_value_schema (ej_payload j)
      \<and> opt_ok execution_error_schema (ej_error j)
      \<and> ej_attemptCount j \<le> ej_maxAttempts j
      \<and> lease_fields_ok j)"

definition enqueue_job_schema :: "enqueue_job \<Rightarrow> bool" where
  "enqueue_job_schema e =
     (bounded_job_id_ok (eq_id e) \<and> bounded_job_id_ok (eq_resourceId e)
      \<and> 0 < eq_maxAttempts e \<and> eq_maxAttempts e \<le> execution_job_max_attempts
      \<and> json_value_schema (eq_payload e))"

definition lease_request_schema :: "string \<Rightarrow> millis \<Rightarrow> bool" where
  "lease_request_schema owner duration =
     (lease_owner_ok owner \<and> execution_lease_duration_min_ms \<le> duration
      \<and> duration \<le> execution_lease_duration_max_ms)"

definition fail_request_schema :: "string \<Rightarrow> exec_error \<Rightarrow> millis option \<Rightarrow> bool" where
  "fail_request_schema owner err delay =
     (lease_owner_ok owner \<and> execution_error_schema err
      \<and> opt_ok (\<lambda>d. 0 \<le> d \<and> d \<le> execution_retry_delay_max_ms) delay)"

section \<open>The three payloads\<close>

record network_payload =
  np_jobIds :: "ident list"
  np_checkId :: "ident option"
  np_runId :: "ident option"

record webhook_payload =
  wp_runId :: ident
  wp_target :: webhook_target
  wp_body :: json

fun dec_string :: "nat \<Rightarrow> nat \<Rightarrow> json option \<Rightarrow> string option" where
  "dec_string lo hi (Some (JStr s)) = (if len_between lo hi s then Some s else None)"
| "dec_string lo hi _ = None"

fun dec_nullable :: "nat \<Rightarrow> nat \<Rightarrow> json option \<Rightarrow> string option option" where
  "dec_nullable lo hi None = Some None"
| "dec_nullable lo hi (Some JNull) = Some None"
| "dec_nullable lo hi (Some (JStr s)) = (if len_between lo hi s then Some (Some s) else None)"
| "dec_nullable lo hi _ = None"

fun dec_bool :: "bool \<Rightarrow> json option \<Rightarrow> bool option" where
  "dec_bool dflt None = Some dflt"
| "dec_bool dflt (Some (JBool b)) = Some b"
| "dec_bool dflt _ = None"

fun dec_strings :: "nat \<Rightarrow> nat \<Rightarrow> json list \<Rightarrow> string list option" where
  "dec_strings lo hi [] = Some []"
| "dec_strings lo hi (v # vs) =
     (case (dec_string lo hi (Some v), dec_strings lo hi vs) of
        (Some s, Some ss) \<Rightarrow> Some (s # ss)
      | _ \<Rightarrow> None)"

fun version_v1 :: "(string \<times> json) list \<Rightarrow> bool" where
  "version_v1 kvs = (json_field ''version'' kvs = Some (JStr ''v1''))"

fun decode_network_payload :: "json \<Rightarrow> network_payload option" where
  "decode_network_payload (JObj kvs) =
     (if \<not> version_v1 kvs then None
      else case json_field ''jobIds'' kvs of
        Some (JArr vs) \<Rightarrow>
          (case (dec_strings 1 160 vs, dec_nullable 1 160 (json_field ''checkId'' kvs),
                 dec_nullable 1 160 (json_field ''runId'' kvs)) of
             (Some ids, Some chk, Some run) \<Rightarrow>
               if 1 \<le> length ids \<and> length ids \<le> network_probe_max_jobs
                  \<and> \<not> ((chk \<noteq> None) \<noteq> (run \<noteq> None))
               then Some \<lparr>np_jobIds = ids, np_checkId = chk, np_runId = run\<rparr>
               else None
           | _ \<Rightarrow> None)
      | _ \<Rightarrow> None)"
| "decode_network_payload _ = None"

fun decode_audit_payload :: "json \<Rightarrow> ident option" where
  "decode_audit_payload (JObj kvs) =
     (if version_v1 kvs then dec_string 1 160 (json_field ''auditId'' kvs) else None)"
| "decode_audit_payload _ = None"

text \<open>An empty stored secret reads as \<open>null\<close> (the schema's preprocessing).\<close>

fun dec_secret :: "json option \<Rightarrow> string option option" where
  "dec_secret (Some (JStr s)) = (if s = [] then Some None else dec_nullable 1 200 (Some (JStr s)))"
| "dec_secret v = dec_nullable 1 200 v"

fun decode_webhook_target :: "(string \<Rightarrow> bool) \<Rightarrow> json option \<Rightarrow> webhook_target option" where
  "decode_webhook_target is_url (Some (JObj kvs)) =
     (case (json_field ''id'' kvs, dec_string 1 120 (json_field ''name'' kvs),
            json_field ''url'' kvs, dec_bool True (json_field ''enabled'' kvs),
            dec_secret (json_field ''secret'' kvs)) of
        (Some (JStr i), Some n, Some (JStr u), Some e, Some s) \<Rightarrow>
          if i \<noteq> [] \<and> is_url u
          then Some \<lparr>wt_id = i, wt_name = n, wt_url = u, wt_enabled = e, wt_secret = s\<rparr>
          else None
      | _ \<Rightarrow> None)"
| "decode_webhook_target is_url _ = None"

fun decode_webhook_payload :: "(string \<Rightarrow> bool) \<Rightarrow> json \<Rightarrow> webhook_payload option" where
  "decode_webhook_payload is_url (JObj kvs) =
     (if \<not> version_v1 kvs then None
      else case (dec_string 1 160 (json_field ''runId'' kvs),
                 decode_webhook_target is_url (json_field ''target'' kvs),
                 json_field ''body'' kvs) of
        (Some r, Some t, Some b) \<Rightarrow>
          if json_value_schema b then Some \<lparr>wp_runId = r, wp_target = t, wp_body = b\<rparr> else None
      | _ \<Rightarrow> None)"
| "decode_webhook_payload is_url _ = None"

section \<open>Contexts and results\<close>

record network_context =
  nc_executionJob :: exec_job
  nc_payload :: network_payload
  nc_jobs :: "latency_job list"
  nc_check :: "check_profile option"
  nc_run :: "profile_run option"
  nc_comparedRun :: "profile_run option"
  nc_comparedJobs :: "latency_job list"
  nc_comparisonMode :: "comparison_mode option"

datatype exec_context =
    NetworkContext network_context
  | AuditContext exec_job ident audit_resource
  | WebhookContext exec_job webhook_payload profile_run

datatype exec_result =
    NetworkResult "latency_job list" "profile_run option"
  | AuditResult audit_resource
  | WebhookResult ident alert_delivery

text \<open>The refinement of \<open>networkProbeExecutionContextSchema\<close>.\<close>

definition network_context_ok :: "network_context \<Rightarrow> bool" where
  "network_context_ok c =
     (let hasComparison = (nc_comparisonMode c \<noteq> None) in
      1 \<le> length (nc_jobs c) \<and> length (nc_jobs c) \<le> network_probe_max_jobs
      \<and> length (nc_comparedJobs c) \<le> network_probe_max_jobs
      \<and> nc_comparisonMode c \<noteq> Some CustomRun
      \<and> \<not> (hasComparison \<noteq> (nc_comparedRun c \<noteq> None))
      \<and> \<not> (hasComparison = (nc_comparedJobs c = [])))"

fun exec_result_schema :: "(string \<Rightarrow> bool) \<Rightarrow> exec_result \<Rightarrow> bool" where
  "exec_result_schema is_url (NetworkResult jobs run) =
     (1 \<le> length jobs \<and> length jobs \<le> network_probe_max_jobs
      \<and> list_all (latency_job_schema is_url) jobs \<and> opt_ok (profile_run_schema is_url) run)"
| "exec_result_schema is_url (AuditResult a) = audit_resource_schema is_url a"
| "exec_result_schema is_url (WebhookResult r d) =
     (len_between 1 160 r \<and> alert_delivery_schema is_url d)"

fun result_kind :: "exec_result \<Rightarrow> exec_kind" where
  "result_kind (NetworkResult _ _) = NetworkProbe"
| "result_kind (AuditResult _) = BrowserAudit"
| "result_kind (WebhookResult _ _) = WebhookDelivery"

definition followups_schema :: "enqueue_job list \<Rightarrow> bool" where
  "followups_schema js =
     (1 \<le> length js \<and> length js \<le> execution_followup_max_jobs \<and> list_all enqueue_job_schema js)"

section \<open>Lemmas\<close>

lemma terminal_not_leased: "is_terminal_status s \<Longrightarrow> \<not> is_leased_status s"
  by (auto simp: is_terminal_status_def is_leased_status_def)

lemma status_cases3: "s = EQueued \<or> is_leased_status s \<or> is_terminal_status s"
  by (cases s) (auto simp: is_terminal_status_def is_leased_status_def)

lemma lease_fields_leased:
  "is_leased_status (ej_status j) \<Longrightarrow>
   lease_fields_ok j \<longleftrightarrow>
     ej_leaseOwner j \<noteq> None \<and> ej_leaseExpiresAt j \<noteq> None \<and> ej_completedAt j = None"
  using terminal_not_leased by (auto simp: lease_fields_ok_def Let_def)

lemma lease_fields_free:
  "\<not> is_leased_status (ej_status j) \<Longrightarrow>
   lease_fields_ok j \<longleftrightarrow>
     ej_leaseOwner j = None \<and> ej_leaseExpiresAt j = None
     \<and> (is_terminal_status (ej_status j) = (ej_completedAt j \<noteq> None))"
  by (auto simp: lease_fields_ok_def Let_def)

lemma create_json_value_depth_mono:
  "create_json_value_schema d v \<Longrightarrow> d' \<le> d \<Longrightarrow> create_json_value_schema d' v"
proof (induction d v arbitrary: d' rule: create_json_value_schema.induct)
  case (1 depth vs)
  then show ?case by (fastforce simp: list_all_iff)
next
  case (2 depth kvs)
  then show ?case by (fastforce simp: list_all_iff)
qed simp_all

end
