(* ===== verification/Js_Collections.thy ===== *)
theory Js_Collections
  imports Complex_Main Js_Base
begin

text \<open>
  More of the JavaScript library: a \<open>Map\<close> built from an array of entries, \<open>toFixed(2)\<close>,
  \<open>toISOString\<close>, and the stable array sort. The doubles of \<open>toFixed\<close> are exact rationals here.
\<close>

section \<open>Maps built from entries\<close>

text \<open>\<open>new Map(entries)\<close>: the last entry of a key gives its value, the first its position.\<close>

definition js_map_get :: "('k \<times> 'v) list \<Rightarrow> 'k \<Rightarrow> 'v option" where
  "js_map_get kvs k = map_of (rev kvs) k"

definition js_map_keys :: "('k \<times> 'v) list \<Rightarrow> 'k list" where
  "js_map_keys kvs = unique (map fst kvs)"

lemma js_map_get_None [simp]: "js_map_get kvs k = None \<longleftrightarrow> k \<notin> fst ` set kvs"
  by (simp add: js_map_get_def map_of_eq_None_iff)

lemma js_map_get_Some: "js_map_get kvs k = Some v \<Longrightarrow> (k, v) \<in> set kvs"
  by (auto simp: js_map_get_def dest: map_of_SomeD)

lemma js_map_get_distinct:
  "distinct (map fst kvs) \<Longrightarrow> js_map_get kvs k = map_of kvs k"
  using map_of_inject_set [of "rev kvs" kvs] by (simp add: js_map_get_def rev_map [symmetric])

lemma js_map_keys_set [simp]: "set (js_map_keys kvs) = fst ` set kvs"
  by (simp add: js_map_keys_def)

lemma js_map_keys_distinct [simp]: "distinct (js_map_keys kvs)"
  by (simp add: js_map_keys_def)

lemma filter_unique: "filter p (unique zs) = unique (filter p zs)"
proof (induction zs rule: unique.induct)
  case (2 x xs)
  have "\<not> p x \<Longrightarrow> filter (\<lambda>y. p y \<and> y \<noteq> x) xs = filter p xs" by (rule filter_cong) auto
  with 2 show ?case by (auto simp: conj_commute)
qed simp

lemma unique_append_unique: "unique (unique xs @ unique ys) = unique (xs @ ys)"
proof (induction xs arbitrary: ys rule: unique.induct)
  case 1
  then show ?case by simp
next
  case (2 x xs)
  then show ?case by (simp add: filter_unique)
qed

section \<open>Numbers\<close>

definition to_fixed2 :: "rat \<Rightarrow> rat" where
  "to_fixed2 x =
     (let n = \<lfloor>\<bar>x\<bar> * 100 + 1 / 2\<rfloor> in (if x < 0 then - of_int n else of_int n) / 100)"

section \<open>Instants\<close>

text \<open>\<open>toISOString\<close> for the years 0 to 9999: year, month and day of the day number, in the
  calendar that counts years from March.\<close>

definition pad :: "nat \<Rightarrow> int \<Rightarrow> string" where
  "pad w n = (let s = show_nat (nat n) in replicate (w - length s) (CHR ''0'') @ s)"

definition civil_of_days :: "int \<Rightarrow> int \<times> int \<times> int" where
  "civil_of_days days =
     (let z = days + 719468;
          era = z div 146097;
          doe = z mod 146097;
          yoe = (doe - doe div 1460 + doe div 36524 - doe div 146096) div 365;
          doy = doe - (365 * yoe + yoe div 4 - yoe div 100);
          mp = (5 * doy + 2) div 153;
          d = doy - (153 * mp + 2) div 5 + 1;
          m = (if mp < 10 then mp + 3 else mp - 9)
      in (yoe + era * 400 + (if m \<le> 2 then 1 else 0), m, d))"

definition to_iso_string :: "iso \<Rightarrow> string" where
  "to_iso_string t =
     (let (y, m, d) = civil_of_days (t div 86400000); r = t mod 86400000 in
      pad 4 y @ ''-'' @ pad 2 m @ ''-'' @ pad 2 d @ ''T'' @ pad 2 (r div 3600000) @ '':''
      @ pad 2 (r div 60000 mod 60) @ '':'' @ pad 2 (r div 1000 mod 60) @ ''.'' @ pad 3 (r mod 1000) @ ''Z'')"

lemma to_iso_string_examples:
  "to_iso_string 0 = ''1970-01-01T00:00:00.000Z''"
  "to_iso_string 1709210096789 = ''2024-02-29T12:34:56.789Z''"
  by code_simp+

end
