(* ===== verification/Report_Core.thy ===== *)
theory Report_Core
  imports Execution_Contracts Js_Collections
begin

text \<open>
  \<open>packages/report-core/src/index.ts\<close>: the status of a job from its targets, the comparison of
  two check runs, the monitor's verdict on a run, and the CSV report.
\<close>

section \<open>Job status\<close>

definition is_terminal_target_status :: "target_status \<Rightarrow> bool" where
  "is_terminal_target_status s = (s = TSucceeded \<or> s = TFailed)"

definition summarize_targets :: "job_target list \<Rightarrow> job_summary" where
  "summarize_targets ts =
     \<lparr>sm_total = length ts,
      sm_succeeded = length (filter (\<lambda>t. tgt_status t = TSucceeded) ts),
      sm_failed = length (filter (\<lambda>t. tgt_status t = TFailed) ts),
      sm_inflight = length (filter (\<lambda>t. \<not> is_terminal_target_status (tgt_status t)) ts)\<rparr>"

definition derive_job_status :: "job_target list \<Rightarrow> job_status" where
  "derive_job_status ts =
     (if length ts = 0 then JQueued
      else let statuses = map tgt_status ts in
      if list_all (\<lambda>s. s = TSucceeded) statuses then JSucceeded
      else if list_all (\<lambda>s. s = TFailed) statuses then JFailed
      else if list_all is_terminal_target_status statuses then JPartial
      else if TMeasuring \<in> set statuses then JMeasuring
      else if THealthy \<in> set statuses then JHealthy
      else if TDeploying \<in> set statuses then JDeploying
      else if TSlotAllocating \<in> set statuses then JSlotAllocating
      else JQueued)"

section \<open>Comparison of two runs\<close>

record run_route_job =
  rrj_routeId :: ident
  rrj_routeLabel :: string
  rrj_url :: string
  rrj_job :: "latency_job option"

definition build_run_route_jobs :: "profile_run \<Rightarrow> latency_job list \<Rightarrow> run_route_job list" where
  "build_run_route_jobs run jobs =
     (let jobMap = map (\<lambda>j. (job_id j, j)) jobs in
      map (\<lambda>r. \<lparr>rrj_routeId = rr_routeId r, rrj_routeLabel = rr_routeLabel r, rrj_url = rr_url r,
                rrj_job = js_map_get jobMap (rr_jobId r)\<rparr>) (run_routes run))"

definition classify_run_delta ::
    "job_target option \<Rightarrow> job_target option \<Rightarrow> latency_job option \<Rightarrow> latency_job option \<Rightarrow> classification"
where
  "classify_run_delta currentTarget previousTarget currentJob previousJob =
     (case (previousTarget, previousJob) of
        (Some p, Some _) \<Rightarrow>
          (case (currentTarget, currentJob) of
             (Some c, Some _) \<Rightarrow>
               if tgt_success c \<noteq> tgt_success p
               then (if tgt_success c = Some True then Improved else Regressed)
               else (case (tgt_latencyMs c, tgt_latencyMs p) of
                       (Some lc, Some lp) \<Rightarrow>
                         if lc < lp then Improved else if lc > lp then Regressed else Unchanged
                     | _ \<Rightarrow> Unchanged)
           | _ \<Rightarrow> MissingCurrent)
      | _ \<Rightarrow> MissingPrevious)"

definition latency_delta_pct :: "int option \<Rightarrow> int option \<Rightarrow> rat option" where
  "latency_delta_pct currentLatency previousLatency =
     (case (currentLatency, previousLatency) of
        (Some c, Some p) \<Rightarrow>
          if p > 0 then Some (to_fixed2 (of_int (c - p) / of_int p * 100)) else None
      | _ \<Rightarrow> None)"

definition job_targets_of :: "run_route_job option \<Rightarrow> job_target list" where
  "job_targets_of r = (case Option.bind r rrj_job of None \<Rightarrow> [] | Some j \<Rightarrow> job_targets j)"

definition compare_region ::
    "run_route_job option \<Rightarrow> run_route_job option \<Rightarrow> string \<Rightarrow> region_comparison" where
  "compare_region current previous region =
     (let currentJob = Option.bind current rrj_job;
          previousJob = Option.bind previous rrj_job;
          currentTarget = find (\<lambda>t. tgt_region t = region) (job_targets_of current);
          previousTarget = find (\<lambda>t. tgt_region t = region) (job_targets_of previous);
          currentLatency = Option.bind currentTarget tgt_latencyMs;
          previousLatency = Option.bind previousTarget tgt_latencyMs
      in \<lparr>rg_region = region,
          rg_currentJobId = map_option job_id currentJob,
          rg_previousJobId = map_option job_id previousJob,
          rg_currentStatus = map_option job_status currentJob,
          rg_previousStatus = map_option job_status previousJob,
          rg_currentLatencyMs = currentLatency,
          rg_previousLatencyMs = previousLatency,
          rg_currentStatusCode = Option.bind currentTarget tgt_statusCode,
          rg_previousStatusCode = Option.bind previousTarget tgt_statusCode,
          rg_currentFinalUrl = Option.bind (Option.bind currentTarget tgt_measurement) me_finalUrl,
          rg_previousFinalUrl = Option.bind (Option.bind previousTarget tgt_measurement) me_finalUrl,
          rg_currentProbeImpl = Option.bind currentTarget tgt_probeImpl,
          rg_previousProbeImpl = Option.bind previousTarget tgt_probeImpl,
          rg_currentErrorMessage = Option.bind currentTarget tgt_errorMessage,
          rg_previousErrorMessage = Option.bind previousTarget tgt_errorMessage,
          rg_latencyDeltaMs =
            (case (currentLatency, previousLatency) of (Some c, Some p) \<Rightarrow> Some (c - p) | _ \<Rightarrow> None),
          rg_latencyDeltaPct = latency_delta_pct currentLatency previousLatency,
          rg_classification = classify_run_delta currentTarget previousTarget currentJob previousJob,
          rg_statusChanged = (map_option job_status currentJob \<noteq> map_option job_status previousJob)\<rparr>)"

definition compare_route ::
    "(ident \<Rightarrow> run_route_job option) \<Rightarrow> (ident \<Rightarrow> run_route_job option) \<Rightarrow> ident \<Rightarrow> route_comparison"
where
  "compare_route currentMap comparedMap routeId =
     (let current = currentMap routeId;
          previous = comparedMap routeId;
          first = (case current of Some c \<Rightarrow> Some c | None \<Rightarrow> previous);
          regionKeys = unique (map tgt_region (job_targets_of current)
                               @ map tgt_region (job_targets_of previous))
      in \<lparr>rtc_routeId = routeId,
          rtc_routeLabel = (case first of Some r \<Rightarrow> rrj_routeLabel r | None \<Rightarrow> routeId),
          rtc_url = (case first of Some r \<Rightarrow> rrj_url r | None \<Rightarrow> ''http://invalid.local''),
          rtc_regions = map (compare_region current previous) regionKeys\<rparr>)"

fun count_region :: "region_comparison \<Rightarrow> comparison_summary \<Rightarrow> comparison_summary" where
  "count_region region s =
     (let s = s\<lparr>regionsCompared := regionsCompared s + 1\<rparr> in
      (case rg_classification region of
         Improved \<Rightarrow> s\<lparr>cs_improved := cs_improved s + 1\<rparr>
       | Regressed \<Rightarrow> s\<lparr>cs_regressed := cs_regressed s + 1\<rparr>
       | MissingPrevious \<Rightarrow> s\<lparr>cs_missingPrevious := cs_missingPrevious s + 1\<rparr>
       | MissingCurrent \<Rightarrow> s\<lparr>cs_missingCurrent := cs_missingCurrent s + 1\<rparr>
       | Unchanged \<Rightarrow> s\<lparr>cs_unchanged := cs_unchanged s + 1\<rparr>))"

definition empty_comparison_summary :: comparison_summary where
  "empty_comparison_summary =
     \<lparr>routesCompared = 0, regionsCompared = 0, cs_improved = 0, cs_regressed = 0, cs_unchanged = 0,
      cs_missingPrevious = 0, cs_missingCurrent = 0\<rparr>"

definition summarize_run_comparison :: "route_comparison list \<Rightarrow> comparison_summary" where
  "summarize_run_comparison routes =
     foldl (\<lambda>summary route.
              fold count_region (rtc_regions route)
                (summary\<lparr>routesCompared := routesCompared summary + 1\<rparr>))
       empty_comparison_summary routes"

definition build_check_profile_comparison ::
    "profile_run \<Rightarrow> latency_job list \<Rightarrow> profile_run option \<Rightarrow> latency_job list \<Rightarrow> comparison_mode
     \<Rightarrow> profile_comparison" where
  "build_check_profile_comparison currentRun currentJobs comparedRun comparedJobs mode =
     (let entries = map (\<lambda>i. (rrj_routeId i, i));
          currentMap = entries (build_run_route_jobs currentRun currentJobs);
          comparedMap = (case comparedRun of
                           None \<Rightarrow> []
                         | Some r \<Rightarrow> entries (build_run_route_jobs r comparedJobs));
          routeIds = unique (js_map_keys currentMap @ js_map_keys comparedMap);
          routes = map (compare_route (js_map_get currentMap) (js_map_get comparedMap)) routeIds
      in \<lparr>cmp_currentRun = currentRun, cmp_comparedRun = comparedRun, cmp_mode = mode,
          cmp_summary = summarize_run_comparison routes, cmp_routes = routes\<rparr>)"

definition compare_check_profile_runs ::
    "profile_run \<Rightarrow> latency_job list \<Rightarrow> profile_run option \<Rightarrow> latency_job list
     \<Rightarrow> comparison_summary \<times> route_comparison list" where
  "compare_check_profile_runs currentRun currentJobs previousRun previousJobs =
     (let c = build_check_profile_comparison currentRun currentJobs previousRun previousJobs LatestPrevious
      in (cmp_summary c, cmp_routes c))"

section \<open>The monitor's verdict\<close>

definition default_monitor_policy :: monitor_policy where
  "default_monitor_policy =
     \<lparr>mp_monitorType = Latency, mp_successRule = Status2xx3xx, mp_latencyThresholdMs = None\<rparr>"

definition is_target_successful :: "job_target \<Rightarrow> bool" where
  "is_target_successful t =
     (if tgt_status t \<noteq> TSucceeded then False
      else if tgt_errorMessage t \<notin> {None, Some []} then False
      else (case tgt_statusCode t of None \<Rightarrow> False | Some c \<Rightarrow> 200 \<le> c \<and> c < 400))"

definition threshold_breaches :: "int option \<Rightarrow> job_target list \<Rightarrow> nat" where
  "threshold_breaches threshold ts =
     (case threshold of
        None \<Rightarrow> 0
      | Some limit \<Rightarrow>
          if limit = 0 then 0
          else length (filter (\<lambda>t. case tgt_latencyMs t of None \<Rightarrow> False | Some l \<Rightarrow> l > limit) ts))"

definition worst_latency :: "job_target list \<Rightarrow> int option" where
  "worst_latency ts =
     foldl (\<lambda>worst v. case worst of None \<Rightarrow> Some v | Some w \<Rightarrow> if v > w then Some v else worst)
       None (List.map_filter tgt_latencyMs ts)"

definition evaluate_monitor_targets ::
    "monitor_policy option \<Rightarrow> job_target list \<Rightarrow> nat \<Rightarrow> monitor_evaluation" where
  "evaluate_monitor_targets monitorPolicy targets regressedCount =
     (let policy = (case monitorPolicy of Some p \<Rightarrow> p | None \<Rightarrow> default_monitor_policy);
          failedChecks = length (filter (\<lambda>t. \<not> is_target_successful t) targets);
          breaches = threshold_breaches (mp_latencyThresholdMs policy) targets;
          thresholdBreached = breaches > 0;
          regressionDetected = regressedCount > 0
      in \<lparr>ev_monitorType = mp_monitorType policy, ev_successRule = mp_successRule policy,
          ev_status = (if failedChecks > 0 then MFailed
                       else if thresholdBreached \<or> regressionDetected then MWarning else MHealthy),
          ev_totalChecks = length targets,
          ev_healthyChecks = length targets - failedChecks,
          ev_failedChecks = failedChecks,
          ev_latencyThresholdMs = mp_latencyThresholdMs policy,
          ev_thresholdBreached = thresholdBreached, ev_thresholdBreachedCount = breaches,
          ev_worstLatencyMs = worst_latency targets,
          ev_regressionDetected = regressionDetected, ev_regressedCount = regressedCount\<rparr>)"

definition summarize_check_profile_run_report ::
    "check_profile \<Rightarrow> profile_run \<Rightarrow> latency_job list \<Rightarrow> nat \<Rightarrow> run_report_summary" where
  "summarize_check_profile_run_report profile run jobs regressedCount =
     (let targets = concat (map job_targets jobs);
          evaluation = (case run_evaluation run of
                          Some e \<Rightarrow> e
                        | None \<Rightarrow> evaluate_monitor_targets (cpf_monitorPolicy profile) targets regressedCount)
      in \<lparr>rrs_runId = run_id run, rrs_createdAt = run_createdAt run, rrs_trigger = run_trigger run,
          rrs_routeCount = run_routeCount run, rrs_jobCount = length jobs,
          rrs_status = ev_status evaluation, rrs_evaluation = Some evaluation,
          rrs_alertDeliveries = run_alertDeliveries run,
          rrs_baselinePinned = (map_option bl_runId (cpf_baseline profile) = Some (run_id run))\<rparr>)"

section \<open>The CSV report\<close>

fun show_trigger :: "run_trigger \<Rightarrow> string" where
  "show_trigger Manual = ''manual''"
| "show_trigger Schedule = ''schedule''"

fun show_monitor_status :: "monitor_status \<Rightarrow> string" where
  "show_monitor_status MHealthy = ''healthy''"
| "show_monitor_status MWarning = ''warning''"
| "show_monitor_status MFailed = ''failed''"

fun show_monitor_type :: "monitor_type \<Rightarrow> string" where
  "show_monitor_type Latency = ''latency''"
| "show_monitor_type Uptime = ''uptime''"

fun show_job_status :: "job_status \<Rightarrow> string" where
  "show_job_status JQueued = ''queued''"
| "show_job_status JSlotAllocating = ''slot_allocating''"
| "show_job_status JDeploying = ''deploying''"
| "show_job_status JHealthy = ''healthy''"
| "show_job_status JMeasuring = ''measuring''"
| "show_job_status JSucceeded = ''succeeded''"
| "show_job_status JPartial = ''partial''"
| "show_job_status JFailed = ''failed''"

definition show_bool :: "bool \<Rightarrow> string" where
  "show_bool b = (if b then ''true'' else ''false'')"

definition csv_header :: "string list" where
  "csv_header =
     [''profile_id'', ''profile_name'', ''run_id'', ''created_at'', ''trigger'', ''route_count'',
      ''job_count'', ''status'', ''monitor_type'', ''failed_checks'', ''threshold_breached'',
      ''regression_detected'', ''baseline_pinned'']"

definition csv_row :: "check_profile \<Rightarrow> run_report_summary \<Rightarrow> string list" where
  "csv_row p r =
     [cpf_id p, cpf_name p, rrs_runId r, to_iso_string (rrs_createdAt r), show_trigger (rrs_trigger r),
      show_nat (rrs_routeCount r), show_nat (rrs_jobCount r), show_monitor_status (rrs_status r),
      (case rrs_evaluation r of None \<Rightarrow> [] | Some e \<Rightarrow> show_monitor_type (ev_monitorType e)),
      (case rrs_evaluation r of None \<Rightarrow> ''0'' | Some e \<Rightarrow> show_nat (ev_failedChecks e)),
      show_bool (case rrs_evaluation r of None \<Rightarrow> False | Some e \<Rightarrow> ev_thresholdBreached e),
      show_bool (case rrs_evaluation r of None \<Rightarrow> False | Some e \<Rightarrow> ev_regressionDetected e),
      show_bool (rrs_baselinePinned r)]"

definition csv_cell :: "string \<Rightarrow> string" where
  "csv_cell v =
     (let escaped = replace_char (CHR 0x22) [CHR 0x22, CHR 0x22] v in
      if (\<exists>c \<in> set escaped. c \<in> {CHR 0x22, CHR '','', CHR 0x0A})
      then [CHR 0x22] @ escaped @ [CHR 0x22] else escaped)"

definition build_check_profile_report_csv :: "check_profile \<Rightarrow> run_report_summary list \<Rightarrow> string" where
  "build_check_profile_report_csv profile runs =
     join [CHR 0x0A] (map (\<lambda>row. join '','' (map csv_cell row))
                        (csv_header # map (csv_row profile) runs))"

section \<open>Facts on job status\<close>

lemma length_filter_all: "length (filter p xs) = length xs \<longleftrightarrow> list_all p xs"
  by (metis filter_True filter_id_conv length_filter_less list_all_iff order_less_irrefl)

lemma list_all_map: "list_all p (map f xs) = list_all (\<lambda>x. p (f x)) xs"
  by (induction xs) auto

lemma terminal_target_cases: "is_terminal_target_status s \<longleftrightarrow> s \<in> {TSucceeded, TFailed}"
  by (auto simp: is_terminal_target_status_def)

lemma summary_partition:
  "sm_succeeded (summarize_targets ts) + sm_failed (summarize_targets ts)
   + sm_inflight (summarize_targets ts) = sm_total (summarize_targets ts)"
  by (induction ts) (auto simp: summarize_targets_def is_terminal_target_status_def)

lemma inflight_0_iff:
  "sm_inflight (summarize_targets ts) = 0 \<longleftrightarrow> list_all (\<lambda>t. is_terminal_target_status (tgt_status t)) ts"
  by (simp add: summarize_targets_def filter_empty_conv list_all_iff)

lemma derive_succeeded_iff:
  "derive_job_status ts = JSucceeded \<longleftrightarrow> ts \<noteq> [] \<and> list_all (\<lambda>t. tgt_status t = TSucceeded) ts"
  by (simp add: derive_job_status_def Let_def list_all_map)

lemma derive_failed_iff:
  "derive_job_status ts = JFailed \<longleftrightarrow> ts \<noteq> [] \<and> list_all (\<lambda>t. tgt_status t = TFailed) ts"
  by (cases ts) (auto simp: derive_job_status_def Let_def list_all_map)

lemma derive_partial_iff:
  "derive_job_status ts = JPartial \<longleftrightarrow>
     list_all (\<lambda>t. is_terminal_target_status (tgt_status t)) ts
     \<and> \<not> list_all (\<lambda>t. tgt_status t = TSucceeded) ts \<and> \<not> list_all (\<lambda>t. tgt_status t = TFailed) ts"
  by (cases ts) (auto simp: derive_job_status_def Let_def list_all_map)

lemma terminal_some_succeeded:
  "list_all (\<lambda>t. is_terminal_target_status (tgt_status t)) ts \<Longrightarrow>
   \<not> list_all (\<lambda>t. tgt_status t = TFailed) ts \<longleftrightarrow> 0 < sm_succeeded (summarize_targets ts)"
  by (induction ts) (auto simp: summarize_targets_def is_terminal_target_status_def)

lemma terminal_some_failed:
  "list_all (\<lambda>t. is_terminal_target_status (tgt_status t)) ts \<Longrightarrow>
   \<not> list_all (\<lambda>t. tgt_status t = TSucceeded) ts \<longleftrightarrow> 0 < sm_failed (summarize_targets ts)"
  by (induction ts) (auto simp: summarize_targets_def is_terminal_target_status_def)

text \<open>The status derived for a job agrees with the counts of its summary: every
  target is counted exactly once, the job has succeeded (failed) exactly when it has targets and all
  of them succeeded (failed), and it is partial exactly when nothing is in flight and both a success
  and a failure are present.\<close>

theorem job_status_agrees_with_summary:
  "sm_succeeded (summarize_targets ts) + sm_failed (summarize_targets ts)
     + sm_inflight (summarize_targets ts) = sm_total (summarize_targets ts)
   \<and> (derive_job_status ts = JSucceeded \<longleftrightarrow>
        0 < sm_total (summarize_targets ts)
        \<and> sm_succeeded (summarize_targets ts) = sm_total (summarize_targets ts))
   \<and> (derive_job_status ts = JFailed \<longleftrightarrow>
        0 < sm_total (summarize_targets ts)
        \<and> sm_failed (summarize_targets ts) = sm_total (summarize_targets ts))
   \<and> (derive_job_status ts = JPartial \<longleftrightarrow>
        sm_inflight (summarize_targets ts) = 0
        \<and> 0 < sm_succeeded (summarize_targets ts) \<and> 0 < sm_failed (summarize_targets ts))"
proof (intro conjI)
  show "derive_job_status ts = JSucceeded \<longleftrightarrow>
        0 < sm_total (summarize_targets ts)
        \<and> sm_succeeded (summarize_targets ts) = sm_total (summarize_targets ts)"
    unfolding derive_succeeded_iff by (simp add: summarize_targets_def length_filter_all)
  show "derive_job_status ts = JFailed \<longleftrightarrow>
        0 < sm_total (summarize_targets ts)
        \<and> sm_failed (summarize_targets ts) = sm_total (summarize_targets ts)"
    unfolding derive_failed_iff by (simp add: summarize_targets_def length_filter_all)
  show "derive_job_status ts = JPartial \<longleftrightarrow>
        sm_inflight (summarize_targets ts) = 0
        \<and> 0 < sm_succeeded (summarize_targets ts) \<and> 0 < sm_failed (summarize_targets ts)"
    unfolding derive_partial_iff inflight_0_iff
    using terminal_some_succeeded terminal_some_failed by blast
qed (rule summary_partition)

text \<open>A job is terminal exactly when it has targets and none is in flight.\<close>

definition is_terminal_job_status :: "job_status \<Rightarrow> bool" where
  "is_terminal_job_status s = (s \<in> {JSucceeded, JFailed, JPartial})"

lemma derive_terminal_iff:
  "is_terminal_job_status (derive_job_status ts) \<longleftrightarrow>
     ts \<noteq> [] \<and> list_all (\<lambda>t. is_terminal_target_status (tgt_status t)) ts"
  by (cases ts) (auto simp: derive_job_status_def is_terminal_job_status_def Let_def list_all_map
      is_terminal_target_status_def list_all_iff)

section \<open>Facts on comparisons\<close>

lemma foldl_add_step:
  fixes f :: "'s \<Rightarrow> nat"
  assumes "\<And>s x. f (g s x) = f s + h x"
  shows "f (foldl g s xs) = f s + (\<Sum>x \<leftarrow> xs. h x)"
  using assms by (induction xs arbitrary: s) auto

lemma fold_add_step:
  fixes f :: "'s \<Rightarrow> nat"
  assumes "\<And>x s. f (g x s) = f s + h x"
  shows "f (fold g xs s) = f s + (\<Sum>x \<leftarrow> xs. h x)"
  using assms by (induction xs arbitrary: s) auto

definition class_count :: "classification \<Rightarrow> route_comparison list \<Rightarrow> nat" where
  "class_count k routes =
     (\<Sum>r \<leftarrow> routes. length (filter (\<lambda>g. rg_classification g = k) (rtc_regions r)))"

lemma sum_list_indicator: "(\<Sum>x \<leftarrow> xs. if p x then 1 else (0::nat)) = length (filter p xs)"
  by (induction xs) auto

lemmas count_region_field =
  fold_add_step [where g = count_region and h = "\<lambda>g. if rg_classification g = k then 1 else 0" for k]

lemma fold_count_region:
  "routesCompared (fold count_region gs s) = routesCompared s"
  "regionsCompared (fold count_region gs s) = regionsCompared s + length gs"
  "cs_improved (fold count_region gs s) =
     cs_improved s + length (filter (\<lambda>g. rg_classification g = Improved) gs)"
  "cs_regressed (fold count_region gs s) =
     cs_regressed s + length (filter (\<lambda>g. rg_classification g = Regressed) gs)"
  "cs_unchanged (fold count_region gs s) =
     cs_unchanged s + length (filter (\<lambda>g. rg_classification g = Unchanged) gs)"
  "cs_missingPrevious (fold count_region gs s) =
     cs_missingPrevious s + length (filter (\<lambda>g. rg_classification g = MissingPrevious) gs)"
  "cs_missingCurrent (fold count_region gs s) =
     cs_missingCurrent s + length (filter (\<lambda>g. rg_classification g = MissingCurrent) gs)"
  by (induction gs arbitrary: s; simp add: Let_def split: classification.split)+

lemma summarize_run_comparison_counts:
  "routesCompared (summarize_run_comparison rs) = length rs"
  "regionsCompared (summarize_run_comparison rs) = (\<Sum>r \<leftarrow> rs. length (rtc_regions r))"
  "cs_improved (summarize_run_comparison rs) = class_count Improved rs"
  "cs_regressed (summarize_run_comparison rs) = class_count Regressed rs"
  "cs_unchanged (summarize_run_comparison rs) = class_count Unchanged rs"
  "cs_missingPrevious (summarize_run_comparison rs) = class_count MissingPrevious rs"
  "cs_missingCurrent (summarize_run_comparison rs) = class_count MissingCurrent rs"
  unfolding summarize_run_comparison_def class_count_def
  by (simp_all add: foldl_add_step [where f = routesCompared and h = "\<lambda>r. 1"]
      foldl_add_step [where f = regionsCompared and h = "\<lambda>r. length (rtc_regions r)"]
      foldl_add_step [where f = cs_improved
        and h = "\<lambda>r. length (filter (\<lambda>g. rg_classification g = Improved) (rtc_regions r))"]
      foldl_add_step [where f = cs_regressed
        and h = "\<lambda>r. length (filter (\<lambda>g. rg_classification g = Regressed) (rtc_regions r))"]
      foldl_add_step [where f = cs_unchanged
        and h = "\<lambda>r. length (filter (\<lambda>g. rg_classification g = Unchanged) (rtc_regions r))"]
      foldl_add_step [where f = cs_missingPrevious
        and h = "\<lambda>r. length (filter (\<lambda>g. rg_classification g = MissingPrevious) (rtc_regions r))"]
      foldl_add_step [where f = cs_missingCurrent
        and h = "\<lambda>r. length (filter (\<lambda>g. rg_classification g = MissingCurrent) (rtc_regions r))"]
      fold_count_region empty_comparison_summary_def sum_list_triv)

lemma class_partition_regions:
  "length (filter (\<lambda>g. rg_classification g = Improved) gs)
   + length (filter (\<lambda>g. rg_classification g = Regressed) gs)
   + length (filter (\<lambda>g. rg_classification g = Unchanged) gs)
   + length (filter (\<lambda>g. rg_classification g = MissingPrevious) gs)
   + length (filter (\<lambda>g. rg_classification g = MissingCurrent) gs) = length gs"
proof (induction gs)
  case (Cons g gs)
  then show ?case by (cases "rg_classification g") auto
qed simp

lemma class_partition:
  "class_count Improved rs + class_count Regressed rs + class_count Unchanged rs
   + class_count MissingPrevious rs + class_count MissingCurrent rs
   = (\<Sum>r \<leftarrow> rs. length (rtc_regions r))"
  unfolding class_count_def
proof (induction rs)
  case (Cons r rs)
  then show ?case using class_partition_regions [of "rtc_regions r"] by simp
qed simp

lemma comparison_route_ids:
  "map rtc_routeId (cmp_routes (build_check_profile_comparison cur cjobs cmp pjobs mode)) =
     unique (map rr_routeId (run_routes cur)
             @ (case cmp of None \<Rightarrow> [] | Some r \<Rightarrow> map rr_routeId (run_routes r)))"
proof -
  have e: "map fst (map (\<lambda>i. (rrj_routeId i, i)) (build_run_route_jobs r js)) = map rr_routeId (run_routes r)"
    for r js by (simp add: build_run_route_jobs_def Let_def)
  show ?thesis
    by (cases cmp) (simp_all add: build_check_profile_comparison_def Let_def js_map_keys_def compare_route_def
        e unique_append_unique build_run_route_jobs_def comp_def)
qed

text \<open>A comparison lists every route of either run exactly once, and its summary
  counts it: the five classes partition the compared regions.\<close>

theorem comparison_counts_each_region_once:
  "(let c = build_check_profile_comparison cur cjobs cmp pjobs mode; s = cmp_summary c in
    distinct (map rtc_routeId (cmp_routes c))
    \<and> rtc_routeId ` set (cmp_routes c) =
        rr_routeId ` set (run_routes cur)
        \<union> (case cmp of None \<Rightarrow> {} | Some r \<Rightarrow> rr_routeId ` set (run_routes r))
    \<and> routesCompared s = length (cmp_routes c)
    \<and> regionsCompared s = (\<Sum>r \<leftarrow> cmp_routes c. length (rtc_regions r))
    \<and> cs_improved s + cs_regressed s + cs_unchanged s + cs_missingPrevious s + cs_missingCurrent s
        = regionsCompared s
    \<and> cs_regressed s = class_count Regressed (cmp_routes c))"
proof -
  let ?c = "build_check_profile_comparison cur cjobs cmp pjobs mode"
  have ids: "rtc_routeId ` set (cmp_routes ?c) = set (map rtc_routeId (cmp_routes ?c))" by simp
  have s: "cmp_summary ?c = summarize_run_comparison (cmp_routes ?c)"
    by (simp add: build_check_profile_comparison_def Let_def)
  show ?thesis
    unfolding Let_def ids s comparison_route_ids
    by (cases cmp) (simp_all add: summarize_run_comparison_counts class_partition)
qed

fun mirror_class :: "classification \<Rightarrow> classification" where
  "mirror_class Improved = Regressed"
| "mirror_class Regressed = Improved"
| "mirror_class MissingPrevious = MissingCurrent"
| "mirror_class MissingCurrent = MissingPrevious"
| "mirror_class Unchanged = Unchanged"

text \<open>Swapping the two runs mirrors the class of a region measured in both, when both
  targets have a verdict: improved becomes regressed and back, unchanged stays.\<close>

theorem classify_run_delta_mirror:
  assumes "tgt_success c \<noteq> None" and "tgt_success p \<noteq> None"
  shows "classify_run_delta (Some p) (Some c) (Some jp) (Some jc)
       = mirror_class (classify_run_delta (Some c) (Some p) (Some jc) (Some jp))"
  using assms by (auto simp: classify_run_delta_def split: option.splits)

definition sample_target :: "target_status \<Rightarrow> bool option \<Rightarrow> int option \<Rightarrow> job_target" where
  "sample_target st ok latency =
     \<lparr>tgt_jobId = ''job-1'', tgt_region = ''eu'', tgt_status = st, tgt_attemptNo = 1, tgt_maxAttempts = 3,
      tgt_latencyMs = latency, tgt_statusCode = Some 200, tgt_success = ok, tgt_probeImpl = None,
      tgt_measurement = None, tgt_execution = None, tgt_slotId = None, tgt_errorCode = None,
      tgt_errorClass = None, tgt_errorMessage = None, tgt_startedAt = None, tgt_finishedAt = None,
      tgt_updatedAt = 0\<rparr>"

lemma classify_run_delta_mirror_witness:
  "\<forall>jp jc. classify_run_delta (Some (sample_target TFailed (Some False) None))
     (Some (sample_target TSucceeded (Some True) (Some 20))) (Some jp) (Some jc) = Regressed"
proof (intro allI)
  fix jp jc
  show "classify_run_delta (Some (sample_target TFailed (Some False) None))
     (Some (sample_target TSucceeded (Some True) (Some 20))) (Some jp) (Some jc) = Regressed"
    using classify_run_delta_mirror [of "sample_target TSucceeded (Some True) (Some 20)"
        "sample_target TFailed (Some False) None" jp jc]
    by (simp add: sample_target_def classify_run_delta_def)
qed

section \<open>Facts on the monitor's verdict\<close>

lemma worst_latency_foldl:
  "foldl (\<lambda>worst v. case worst of None \<Rightarrow> Some v | Some w \<Rightarrow> if v > w then Some v else worst) acc vs
   = (if vs = [] then acc else Some (Max (set vs \<union> set_option (acc :: int option))))"
proof (induction vs arbitrary: acc)
  case (Cons v vs)
  show ?case
  proof (cases acc)
    case None
    with Cons show ?thesis by (auto simp: insert_commute)
  next
    case (Some w)
    have m: "Max (insert w (insert v (set vs))) = Max (insert (max v w) (set vs))"
      by (cases "vs = []") (auto simp: max_def Max_insert)
    with Some Cons show ?thesis by (auto simp: max_def)
  qed
qed simp

lemma worst_latency_Max:
  "worst_latency ts =
     (if List.map_filter tgt_latencyMs ts = [] then None
      else Some (Max (set (List.map_filter tgt_latencyMs ts))))"
  by (simp add: worst_latency_def worst_latency_foldl)

text \<open>The verdict on a run: failed exactly when some target did not succeed with a 2xx
  or 3xx status and no error, healthy exactly when none failed, none was slower than the policy's
  threshold and nothing regressed; the checks add up, and the worst latency is the maximum.\<close>

theorem evaluate_monitor_targets_verdict:
  "(let e = evaluate_monitor_targets pol ts regressed in
    (ev_status e = MFailed \<longleftrightarrow> \<not> list_all is_target_successful ts)
    \<and> (ev_status e = MHealthy \<longleftrightarrow>
         list_all is_target_successful ts \<and> regressed = 0
         \<and> threshold_breaches (Option.bind pol mp_latencyThresholdMs) ts = 0)
    \<and> ev_healthyChecks e + ev_failedChecks e = ev_totalChecks e
    \<and> ev_healthyChecks e = length (filter is_target_successful ts)
    \<and> ev_worstLatencyMs e = (if List.map_filter tgt_latencyMs ts = [] then None
                             else Some (Max (set (List.map_filter tgt_latencyMs ts)))))"
proof -
  have pol: "mp_latencyThresholdMs (case pol of Some p \<Rightarrow> p | None \<Rightarrow> default_monitor_policy)
      = Option.bind pol mp_latencyThresholdMs"
    by (cases pol) (simp_all add: default_monitor_policy_def)
  have fc: "0 < length (filter (\<lambda>t. \<not> is_target_successful t) ts) \<longleftrightarrow> \<not> list_all is_target_successful ts"
    by (induction ts) auto
  have part: "length (filter is_target_successful ts)
      = length ts - length (filter (\<lambda>t. \<not> is_target_successful t) ts)"
    using length_filter_partition [of is_target_successful ts] by linarith
  have le: "length (filter (\<lambda>t. \<not> is_target_successful t) ts) \<le> length ts" by simp
  show ?thesis
    unfolding evaluate_monitor_targets_def Let_def pol fc
    by (simp add: part le worst_latency_Max)
qed

section \<open>Reading the CSV back\<close>

text \<open>A reader of the CSV format, against which the writer is checked.\<close>

fun read_quoted :: "string \<Rightarrow> string \<times> string" where
  "read_quoted [] = ([], [])"
| "read_quoted (c # s) =
     (if c = CHR 0x22
      then (case s of
              d # s' \<Rightarrow>
                (if d = CHR 0x22 then (let (w, r) = read_quoted s' in (CHR 0x22 # w, r)) else ([], s))
            | [] \<Rightarrow> ([], []))
      else (let (w, r) = read_quoted s in (c # w, r)))"

definition plain_char :: "char \<Rightarrow> bool" where
  "plain_char c = (c \<noteq> CHR '','' \<and> c \<noteq> CHR 0x0A)"

definition read_field :: "string \<Rightarrow> string \<times> string" where
  "read_field s =
     (if s \<noteq> [] \<and> hd s = CHR 0x22 then read_quoted (tl s)
      else (takeWhile plain_char s, dropWhile plain_char s))"

lemma read_quoted_length: "length (snd (read_quoted s)) \<le> length s"
proof (induction s rule: read_quoted.induct)
  case (2 c s)
  show ?case
  proof (cases "c = CHR 0x22")
    case True
    then show ?thesis
    proof (cases s)
      case (Cons d s')
      with True 2(1) [of d s'] show ?thesis
        by (cases "d = CHR 0x22") (simp_all add: case_prod_beta)
    qed simp
  next
    case False
    with 2(2) show ?thesis by (simp add: case_prod_beta)
  qed
qed simp

lemma read_field_length: "length (snd (read_field s)) \<le> length s"
  using read_quoted_length [of "tl s"]
  by (auto simp: read_field_def length_dropWhile_le)

function parse_csv :: "string \<Rightarrow> string list list" where
  "parse_csv s =
     (let (w, r) = read_field s in
      case r of
        [] \<Rightarrow> [[w]]
      | c # r' \<Rightarrow>
          (if c = CHR '',''
           then (case parse_csv r' of [] \<Rightarrow> [[w]] | row # rows \<Rightarrow> (w # row) # rows)
           else [w] # parse_csv r'))"
  by pat_completeness auto

termination
proof (relation "measure length")
  fix s x and w r :: string and c r'
  assume "x = read_field s" "(w, r) = x" "r = c # r'"
  then show "(r', s) \<in> measure length" using read_field_length [of s] by (metis Suc_le_lessD in_measure length_Cons snd_conv)
next
  fix s x and w r :: string and c r'
  assume "x = read_field s" "(w, r) = x" "r = c # r'"
  then show "(r', s) \<in> measure length" using read_field_length [of s] by (metis Suc_le_lessD in_measure length_Cons snd_conv)
qed simp

declare parse_csv.simps [simp del]

definition field_end :: "string \<Rightarrow> bool" where
  "field_end r = (r = [] \<or> \<not> plain_char (hd r))"

lemma field_end_not_quote: "field_end r \<Longrightarrow> r = [] \<or> hd r \<noteq> CHR 0x22"
  by (auto simp: field_end_def plain_char_def)

lemma read_quoted_escaped:
  "field_end r \<Longrightarrow>
   read_quoted (replace_char (CHR 0x22) [CHR 0x22, CHR 0x22] v @ CHR 0x22 # r) = (v, r)"
proof (induction v)
  case Nil
  then show ?case using field_end_not_quote [of r] by (cases r) auto
qed auto

lemma read_plain:
  assumes "\<not> (\<exists>c \<in> set v. c \<in> {CHR 0x22, CHR '','', CHR 0x0A})" and "field_end r"
  shows "read_field (v @ r) = (v, r)"
proof -
  have all: "\<forall>c \<in> set v. plain_char c" using assms(1) by (auto simp: plain_char_def)
  have "takeWhile plain_char r = []" "dropWhile plain_char r = r"
    using assms(2) by (cases r; auto simp: field_end_def)+
  with all have "takeWhile plain_char (v @ r) = v" "dropWhile plain_char (v @ r) = r" by auto
  note ends = this
  have "\<not> (v @ r \<noteq> [] \<and> hd (v @ r) = CHR 0x22)"
    using assms field_end_not_quote [OF assms(2)] by (cases v) auto
  from if_not_P [OF this] show ?thesis unfolding read_field_def by (simp only: ends)
qed

lemma escape_id:
  "CHR 0x22 \<notin> set v \<Longrightarrow> replace_char (CHR 0x22) t v = v"
  by (induction v) auto

lemma escape_keeps_specials:
  "c \<in> set v \<Longrightarrow> c \<in> set (replace_char (CHR 0x22) [CHR 0x22, CHR 0x22] v)"
  by (induction v) auto

lemma read_csv_cell:
  assumes "field_end r"
  shows "read_field (csv_cell v @ r) = (v, r)"
proof -
  let ?e = "replace_char (CHR 0x22) [CHR 0x22, CHR 0x22] v"
  let ?special = "\<lambda>s. \<exists>c \<in> set s. c \<in> {CHR 0x22, CHR '','', CHR 0x0A}"
  show ?thesis
  proof (cases "?special ?e")
    case True
    then have "csv_cell v = CHR 0x22 # ?e @ [CHR 0x22]" by (simp add: csv_cell_def Let_def)
    then show ?thesis by (simp add: read_field_def read_quoted_escaped [OF assms])
  next
    case False
    have plain: "\<not> ?special v"
    proof
      assume "?special v"
      then obtain c where "c \<in> set v" and c: "c \<in> {CHR 0x22, CHR '','', CHR 0x0A}" ..
      then have "c \<in> set ?e" by (simp add: escape_keeps_specials)
      with c False show False by blast
    qed
    then have "?e = v" by (intro escape_id) auto
    with False have "csv_cell v = v" by (simp add: csv_cell_def Let_def)
    with read_plain [OF plain assms] show ?thesis by simp
  qed
qed

lemma parse_csv_row:
  assumes "row \<noteq> []" and "field_end r" and "r = [] \<or> hd r = CHR 0x0A"
  shows "parse_csv (join '','' (map csv_cell row) @ r)
       = row # (if r = [] then [] else parse_csv (tl r))"
  using assms(1)
proof (induction row)
  case (Cons v row)
  show ?case
  proof (cases row)
    case Nil
    with assms(2,3) show ?thesis
      by (subst parse_csv.simps) (auto simp: read_csv_cell neq_Nil_conv)
  next
    case (Cons w ws)
    let ?rest = "join '','' (map csv_cell row) @ r"
    have "field_end (CHR '','' # ?rest)" by (simp add: field_end_def plain_char_def)
    then have "read_field (csv_cell v @ CHR '','' # ?rest) = (v, CHR '','' # ?rest)"
      by (rule read_csv_cell)
    moreover have "join '','' (map csv_cell (v # row)) @ r = csv_cell v @ CHR '','' # ?rest"
      using Cons by simp
    ultimately show ?thesis using Cons Cons.IH by (subst parse_csv.simps) simp
  qed
qed simp

lemma parse_csv_rows:
  assumes "rows \<noteq> []" and "\<forall>row \<in> set rows. row \<noteq> []"
  shows "parse_csv (join [CHR 0x0A] (map (\<lambda>row. join '','' (map csv_cell row)) rows)) = rows"
  using assms
proof (induction rows)
  case (Cons row rows)
  show ?case
  proof (cases rows)
    case Nil
    with Cons.prems parse_csv_row [of row "[]"] show ?thesis by (simp add: field_end_def)
  next
    case (Cons row2 rows2)
    with Cons.prems Cons.IH show ?thesis
      using parse_csv_row [of row "CHR 0x0A # join [CHR 0x0A] (map (\<lambda>row. join '','' (map csv_cell row)) rows)"]
      by (simp add: field_end_def plain_char_def)
  qed
qed simp

text \<open>Property C34. The CSV report can be read back: the header, then one row of thirteen cells per
  run, whatever quotes, commas and line breaks the names hold.\<close>

theorem report_csv_roundtrip:
  "parse_csv (build_check_profile_report_csv profile runs) = csv_header # map (csv_row profile) runs"
  unfolding build_check_profile_report_csv_def
  by (rule parse_csv_rows) (auto simp: csv_header_def csv_row_def)

end
