(* ===== verification/List_Query.thy ===== *)
theory List_Query
  imports Contracts
begin

text \<open>
  The list queries of \<open>packages/domain-core/src/index.ts\<close> (lines 26 to 167): the runtime
  location, parsing of a query, the text filter with offset pagination, and the date and check
  filters of derived resources. An array of the runtime has fewer than 2^32 elements
  (\<open>array_limit\<close>), which the statements on whole lists assume.
\<close>

section \<open>Runtime location\<close>

definition resolve_runtime_location :: "string \<Rightarrow> string option \<Rightarrow> (string \<times> string) throws" where
  "resolve_runtime_location regionId label =
     (let validated = js_trim regionId in
      if \<not> runtime_region_id_ok validated then throw ''ZodError''
      else return (validated,
        (case label of
           None \<Rightarrow> validated
         | Some l \<Rightarrow> (if js_trim l = [] then validated else js_trim l))))"

section \<open>Queries\<close>

record list_query =
  lq_pageSize :: nat
  lq_pageToken :: "string option"
  lq_filter :: "string option"

record derived_query = list_query +
  dq_createdAfter :: "iso option"
  dq_createdBefore :: "iso option"
  dq_checkId :: "string option"

record page_info =
  pi_pageSize :: nat
  pi_totalCount :: nat
  pi_nextPageToken :: "string option"
  pi_filter :: "string option"

definition default_list_query :: list_query where
  "default_list_query = \<lparr>lq_pageSize = 20, lq_pageToken = None, lq_filter = None\<rparr>"

definition page_size_ok :: "int \<Rightarrow> bool" where
  "page_size_ok n = (1 \<le> n \<and> n \<le> 100)"

definition page_token_ok :: "string \<Rightarrow> bool" where
  "page_token_ok s = (s \<noteq> [] \<and> list_all is_digit s)"

text \<open>\<open>pageSize\<close> is the number that \<open>z.coerce.number()\<close> made of the parameter, when there is one.\<close>

definition parse_list_query :: "int option \<Rightarrow> string option \<Rightarrow> string option \<Rightarrow> list_query throws" where
  "parse_list_query pageSize pageToken fltr =
     (let size = (case pageSize of None \<Rightarrow> 20 | Some n \<Rightarrow> n); trimmed = map_option js_trim fltr in
      if page_size_ok size \<and> opt_ok page_token_ok pageToken \<and> opt_ok (len_between 1 120) trimmed
      then return \<lparr>lq_pageSize = nat size, lq_pageToken = pageToken, lq_filter = trimmed\<rparr>
      else throw ''ZodError'')"

definition parse_derived_query ::
    "int option \<Rightarrow> string option \<Rightarrow> string option \<Rightarrow> iso option \<Rightarrow> iso option \<Rightarrow> string option
     \<Rightarrow> derived_query throws" where
  "parse_derived_query pageSize pageToken fltr createdAfter createdBefore checkId =
     bind_throws (parse_list_query pageSize pageToken fltr) (\<lambda>q.
       if opt_ok (len_between 1 120) checkId
       then return \<lparr>lq_pageSize = lq_pageSize q, lq_pageToken = lq_pageToken q, lq_filter = lq_filter q,
                    dq_createdAfter = createdAfter, dq_createdBefore = createdBefore, dq_checkId = checkId\<rparr>
       else throw ''ZodError'')"

section \<open>Filtering and paging\<close>

text \<open>Digits of 2^1024 - 2^970 and more read as \<open>Infinity\<close>.\<close>

definition is_finite_double :: "nat \<Rightarrow> bool" where
  "is_finite_double n = (n < 2 ^ 1024 - 2 ^ 970)"

definition normalized_filter :: "string option \<Rightarrow> string" where
  "normalized_filter fltr = (case fltr of None \<Rightarrow> [] | Some f \<Rightarrow> js_lower (js_trim f))"

definition filter_tokens :: "string option \<Rightarrow> string list" where
  "filter_tokens fltr =
     (let n = normalized_filter fltr in if length n > 0 then ws_words n else [])"

definition haystack :: "('a \<Rightarrow> string option list) \<Rightarrow> 'a \<Rightarrow> string" where
  "haystack searchable item = join '' '' (map js_lower (List.map_filter id (searchable item)))"

definition matches_tokens :: "('a \<Rightarrow> string option list) \<Rightarrow> string list \<Rightarrow> 'a \<Rightarrow> bool" where
  "matches_tokens searchable tokens item = list_all (\<lambda>t. js_includes t (haystack searchable item)) tokens"

definition filter_items :: "('a \<Rightarrow> string option list) \<Rightarrow> string option \<Rightarrow> 'a list \<Rightarrow> 'a list" where
  "filter_items searchable fltr items =
     (let tokens = filter_tokens fltr in
      if length tokens = 0 then items else filter (matches_tokens searchable tokens) items)"

definition page_offset :: "string option \<Rightarrow> nat" where
  "page_offset token =
     (case parse_int10 (case token of None \<Rightarrow> ''0'' | Some t \<Rightarrow> t) of
        Some n \<Rightarrow> if is_finite_double n then n else 0
      | None \<Rightarrow> 0)"

definition slice :: "nat \<Rightarrow> nat \<Rightarrow> 'a list \<Rightarrow> 'a list" where
  "slice a b xs = take (b - a) (drop a xs)"

definition apply_list_query ::
    "'a list \<Rightarrow> list_query option \<Rightarrow> ('a \<Rightarrow> string option list) \<Rightarrow> 'a list \<times> page_info" where
  "apply_list_query items query searchable =
     (let q = (case query of Some q \<Rightarrow> q | None \<Rightarrow> default_list_query);
          normalized = normalized_filter (lq_filter q);
          filtered = filter_items searchable (lq_filter q) items;
          offset = page_offset (lq_pageToken q);
          paged = slice offset (offset + lq_pageSize q) filtered;
          nextOffset = offset + length paged
      in (paged,
          \<lparr>pi_pageSize = lq_pageSize q, pi_totalCount = length filtered,
           pi_nextPageToken = (if nextOffset < length filtered then Some (show_nat nextOffset) else None),
           pi_filter = (if length normalized > 0 then Some normalized else None)\<rparr>))"

definition in_date_range :: "iso option \<Rightarrow> iso option \<Rightarrow> iso \<Rightarrow> bool" where
  "in_date_range after before created =
     (opt_ok (\<lambda>a. created \<ge> a) after \<and> opt_ok (\<lambda>b. created \<le> b) before)"

definition default_derived_query :: derived_query where
  "default_derived_query =
     \<lparr>lq_pageSize = 20, lq_pageToken = None, lq_filter = None,
      dq_createdAfter = None, dq_createdBefore = None, dq_checkId = None\<rparr>"

definition derived_filter ::
    "derived_query \<Rightarrow> ('a \<Rightarrow> iso) \<Rightarrow> ('a \<Rightarrow> string option) \<Rightarrow> 'a list \<Rightarrow> 'a list" where
  "derived_filter q createdAt checkId items =
     (let dated =
            (if dq_createdAfter q \<noteq> None \<or> dq_createdBefore q \<noteq> None
             then filter (\<lambda>i. in_date_range (dq_createdAfter q) (dq_createdBefore q) (createdAt i)) items
             else items)
      in (case dq_checkId q of
            None \<Rightarrow> dated
          | Some c \<Rightarrow> if c = [] then dated else filter (\<lambda>i. checkId i = Some c) dated))"

definition apply_derived_resource_list_query ::
    "'a list \<Rightarrow> derived_query option \<Rightarrow> ('a \<Rightarrow> iso) \<Rightarrow> ('a \<Rightarrow> string option list) \<Rightarrow> ('a \<Rightarrow> string option)
     \<Rightarrow> 'a list \<times> page_info" where
  "apply_derived_resource_list_query items query createdAt searchable checkId =
     (let q = (case query of Some q \<Rightarrow> q | None \<Rightarrow> default_derived_query) in
      apply_list_query (derived_filter q createdAt checkId items)
        (Some \<lparr>lq_pageSize = lq_pageSize q, lq_pageToken = lq_pageToken q, lq_filter = lq_filter q\<rparr>) searchable)"

section \<open>Facts\<close>

definition array_limit :: nat where "array_limit = 4294967296"

lemma finite_below_array_limit: "n < array_limit \<Longrightarrow> is_finite_double n"
  unfolding array_limit_def is_finite_double_def by (erule less_le_trans) simp

lemma page_offset_show: "n < array_limit \<Longrightarrow> page_offset (Some (show_nat n)) = n"
  by (simp add: page_offset_def finite_below_array_limit)

lemma page_offset_None [simp]: "page_offset None = 0"
proof -
  have "parse_int10 ''0'' = Some 0" by code_simp
  then show ?thesis by (simp add: page_offset_def is_finite_double_def)
qed

lemma length_filter_items: "length (filter_items searchable f items) \<le> length items"
  by (simp add: filter_items_def Let_def)

text \<open>A client that follows \<open>nextPageToken\<close>, fetching at most \<open>n\<close> pages.\<close>

fun fetch_pages ::
    "nat \<Rightarrow> 'a list \<Rightarrow> list_query \<Rightarrow> ('a \<Rightarrow> string option list) \<Rightarrow> 'a list option" where
  "fetch_pages 0 items q searchable = None"
| "fetch_pages (Suc n) items q searchable =
     (let (page, info) = apply_list_query items (Some q) searchable in
      case pi_nextPageToken info of
        None \<Rightarrow> Some page
      | Some t \<Rightarrow> map_option (append page) (fetch_pages n items (q\<lparr>lq_pageToken := Some t\<rparr>) searchable))"

lemma fetch_pages_from:
  assumes "1 \<le> lq_pageSize q" and "length items < array_limit"
    and "page_offset (lq_pageToken q) = off"
    and "off \<le> length (filter_items searchable (lq_filter q) items)"
    and "length (filter_items searchable (lq_filter q) items) < off + n * lq_pageSize q + 1" and "0 < n"
  shows "fetch_pages n items q searchable = Some (drop off (filter_items searchable (lq_filter q) items))"
  using assms
proof (induction n arbitrary: q off)
  case (Suc n)
  define fs where "fs = filter_items searchable (lq_filter q) items"
  define nxt where "nxt = off + min (lq_pageSize q) (length fs - off)"
  have off: "page_offset (lq_pageToken q) = off" using Suc.prems by simp
  show ?case
  proof (cases "nxt < length fs")
    case True
    have full: "nxt = off + lq_pageSize q" using True Suc.prems(4) by (auto simp: nxt_def fs_def)
    have "length fs \<le> length items" by (simp add: fs_def length_filter_items)
    then have "nxt < array_limit" using True Suc.prems(2) by simp
    then have "page_offset (Some (show_nat nxt)) = nxt" by (rule page_offset_show)
    moreover have "0 < n" using Suc.prems(5) True full by (cases n) (auto simp: fs_def)
    ultimately have rest: "fetch_pages n items (q\<lparr>lq_pageToken := Some (show_nat nxt)\<rparr>) searchable
        = Some (drop nxt fs)"
      using Suc.IH [of "q\<lparr>lq_pageToken := Some (show_nat nxt)\<rparr>" nxt] Suc.prems True full
      by (simp add: fs_def algebra_simps)
    have "take (lq_pageSize q) (drop off fs) @ drop nxt fs = drop off fs"
      using append_take_drop_id [of "lq_pageSize q" "drop off fs"] full by (simp add: add.commute)
    with True rest show ?thesis unfolding full
      by (simp add: apply_list_query_def Let_def slice_def off fs_def [symmetric])
  next
    case False
    then have "length fs - off \<le> lq_pageSize q" by (auto simp: nxt_def)
    with False show ?thesis
      by (simp add: apply_list_query_def Let_def slice_def off fs_def [symmetric] nxt_def)
  qed
qed simp

text \<open>Property C35. Paging is complete and ends: a client that starts without a token and follows
  \<open>nextPageToken\<close> receives exactly the items whose searchable holds every word of the filter, each
  once and in order, within as many pages as there are items plus one.\<close>

theorem pages_tile_the_filtered_list:
  assumes "1 \<le> lq_pageSize q" and "lq_pageToken q = None" and "length items < array_limit"
  shows "fetch_pages (length items + 1) items q searchable = Some (filter_items searchable (lq_filter q) items)
    \<and> filter_items searchable (lq_filter q) items =
        filter (matches_tokens searchable (filter_tokens (lq_filter q))) items"
proof
  have "length items \<le> length items * lq_pageSize q"
    using mult_le_mono2 [OF assms(1), of "length items"] by simp
  moreover have "(length items + 1) * lq_pageSize q = length items * lq_pageSize q + lq_pageSize q"
    by (simp add: distrib_right)
  ultimately have "length (filter_items searchable (lq_filter q) items)
      < 0 + (length items + 1) * lq_pageSize q + 1"
    using length_filter_items [of searchable "lq_filter q" items] by linarith
  with assms fetch_pages_from [of q items 0 searchable "length items + 1"]
  show "fetch_pages (length items + 1) items q searchable = Some (filter_items searchable (lq_filter q) items)"
    by simp
  have "matches_tokens searchable [] = (\<lambda>i. True)" by (simp add: matches_tokens_def fun_eq_iff)
  then show "filter_items searchable (lq_filter q) items =
      filter (matches_tokens searchable (filter_tokens (lq_filter q))) items"
    by (simp add: filter_items_def Let_def)
qed

lemma pages_tile_the_filtered_list_witness:
  "fetch_pages 4 [''Home page'', ''About'', ''Shop home'']
     \<lparr>lq_pageSize = 1, lq_pageToken = None, lq_filter = Some '' HOME''\<rparr> (\<lambda>s. [Some s])
   = Some [''Home page'', ''Shop home'']"
proof -
  have f: "filter (matches_tokens (\<lambda>s. [Some s]) (filter_tokens (Some '' HOME'')))
      [''Home page'', ''About'', ''Shop home''] = [''Home page'', ''Shop home'']"
    by code_simp
  let ?q = "\<lparr>lq_pageSize = 1, lq_pageToken = None, lq_filter = Some '' HOME''\<rparr>"
  let ?xs = "[''Home page'', ''About'', ''Shop home'']"
  have hyps: "1 \<le> lq_pageSize ?q" "lq_pageToken ?q = None" "length ?xs < array_limit"
    by (simp_all add: array_limit_def)
  have four: "length ?xs + 1 = 4" and flt: "lq_filter ?q = Some '' HOME''" by simp_all
  from pages_tile_the_filtered_list [OF hyps, of "\<lambda>s. [Some s]"]
  show ?thesis unfolding four flt f by simp
qed

lemma derived_filter_set:
  "set (derived_filter q createdAt checkId items) =
     {i \<in> set items. in_date_range (dq_createdAfter q) (dq_createdBefore q) (createdAt i)
        \<and> (dq_checkId q \<in> {None, Some []} \<or> checkId i = dq_checkId q)}"
  by (auto simp: derived_filter_def Let_def in_date_range_def opt_ok_def split: option.splits if_splits)

end
