(* ===== verification/Tables.thy ===== *)
theory Tables
  imports Prelude
begin

text \<open>
  The SQL statements the repository uses, on a table that is the list of its rows in insertion
  order: point lookup, upsert, \<open>INSERT ... ON CONFLICT DO NOTHING\<close>, \<open>UPDATE ... RETURNING\<close>,
  \<open>DELETE\<close> and \<open>ORDER BY\<close>. Rows that an \<open>ORDER BY\<close> does not separate keep their insertion
  order here; no statement of the development depends on it. The theory also holds the
  interface of a keyed store (\<open>keyed_store\<close>) and its interpretation on these tables.
\<close>

section \<open>Statements\<close>

definition row_get :: "('r \<Rightarrow> 'k) \<Rightarrow> 'k \<Rightarrow> 'r list \<Rightarrow> 'r option" where
  "row_get key k t = find (\<lambda>r. key r = k) t"

definition row_upsert :: "('r \<Rightarrow> 'k) \<Rightarrow> 'r \<Rightarrow> 'r list \<Rightarrow> 'r list" where
  "row_upsert key r t =
     (if key r \<in> key ` set t then map (\<lambda>x. if key x = key r then r else x) t else t @ [r])"

definition row_insert_new :: "('r \<Rightarrow> 'k) \<Rightarrow> 'r \<Rightarrow> 'r list \<Rightarrow> 'r list \<times> 'r option" where
  "row_insert_new key r t =
     (if key r \<in> key ` set t then (t, None) else (t @ [r], Some r))"

definition row_update :: "('r \<Rightarrow> bool) \<Rightarrow> ('r \<Rightarrow> 'r) \<Rightarrow> 'r list \<Rightarrow> 'r list \<times> 'r list" where
  "row_update p f t = (map (\<lambda>r. if p r then f r else r) t, map f (filter p t))"

definition row_delete :: "('r \<Rightarrow> bool) \<Rightarrow> 'r list \<Rightarrow> 'r list \<times> nat" where
  "row_delete p t = (filter (\<lambda>r. \<not> p r) t, length (filter p t))"

definition first_row :: "'r list \<Rightarrow> 'r option" where
  "first_row rs = (case rs of [] \<Rightarrow> None | r # _ \<Rightarrow> Some r)"

definition order_by :: "('r \<Rightarrow> 'o :: linorder) \<Rightarrow> 'r list \<Rightarrow> 'r list" where
  "order_by k t = sort_key k t"

definition order_by_desc :: "('r \<Rightarrow> int) \<Rightarrow> 'r list \<Rightarrow> 'r list" where
  "order_by_desc k t = sort_key (\<lambda>r. - k r) t"

section \<open>The interface of a keyed store\<close>

text \<open>What every client of a table keyed by an identifier relies on. \<open>valid\<close> are the values the
  store gives back unchanged.\<close>

locale keyed_store =
  fixes key :: "'v \<Rightarrow> 'k"
    and valid :: "'v \<Rightarrow> bool"
    and get :: "'k \<Rightarrow> 's \<Rightarrow> 'v option"
    and save :: "'v \<Rightarrow> 's \<Rightarrow> 's"
  assumes get_save_same: "valid v \<Longrightarrow> get (key v) (save v s) = Some v"
    and get_save_other: "k \<noteq> key v \<Longrightarrow> get k (save v s) = get k s"
begin

lemma get_save: "valid v \<Longrightarrow> get k (save v s) = (if k = key v then Some v else get k s)"
  by (simp add: get_save_same get_save_other)

lemma get_save_twice: "valid v \<Longrightarrow> get k (save v (save w s)) = (if k = key v then Some v else get k (save w s))"
  by (simp add: get_save)

lemma get_save_all_other:
  "k \<notin> key ` set vs \<Longrightarrow> get k (fold save vs s) = get k s"
  by (induction vs arbitrary: s) (auto simp: get_save_other)

lemma get_save_all:
  assumes "distinct (map key vs)" and "\<And>v. v \<in> set vs \<Longrightarrow> valid v" and "v \<in> set vs"
  shows "get (key v) (fold save vs s) = Some v"
  using assms
proof (induction vs arbitrary: s)
  case (Cons w ws)
  show ?case
  proof (cases "v = w")
    case True
    with Cons.prems have "key w \<notin> key ` set ws" by auto
    with True Cons.prems show ?thesis by (simp add: get_save_all_other get_save_same)
  next
    case False
    with Cons show ?thesis by simp
  qed
qed simp

lemma get_save_all_cases:
  assumes "\<And>v. v \<in> set vs \<Longrightarrow> valid v" and "get k (fold save vs s) = Some v"
  shows "v \<in> set vs \<or> get k s = Some v"
  using assms
proof (induction vs arbitrary: s)
  case (Cons w ws)
  then have "v \<in> set ws \<or> get k (save w s) = Some v" by simp
  then show ?case using Cons.prems(1) by (auto simp: get_save split: if_splits)
qed simp

end

section \<open>Facts on tables\<close>

lemma row_get_Some: "row_get key k t = Some r \<Longrightarrow> r \<in> set t \<and> key r = k"
  by (auto simp: row_get_def dest: find_Some_iff_first)

lemma row_get_None_iff: "row_get key k t = None \<longleftrightarrow> k \<notin> key ` set t"
  by (auto simp: row_get_def)

lemma row_get_absent: "k \<notin> key ` set t \<Longrightarrow> row_get key k t = None"
  by (simp add: row_get_None_iff)

lemma row_get_mem: "distinct (map key t) \<Longrightarrow> r \<in> set t \<Longrightarrow> row_get key (key r) t = Some r"
  unfolding row_get_def by (rule find_by_key)

lemma row_get_Nil [simp]: "row_get key k [] = None"
  by (simp add: row_get_def)

lemma row_get_Cons [simp]:
  "row_get key k (x # xs) = (if key x = k then Some x else row_get key k xs)"
  by (simp add: row_get_def)

lemma row_get_append:
  "row_get key k (t @ u) = (case row_get key k t of Some r \<Rightarrow> Some r | None \<Rightarrow> row_get key k u)"
  by (induction t) auto

lemma row_get_upsert [table_simps]:
  "row_get key k (row_upsert key r t) = (if k = key r then Some r else row_get key k t)"
proof (cases "key r \<in> key ` set t")
  case True
  let ?m = "map (\<lambda>x. if key x = key r then r else x)"
  have other: "row_get key k (?m u) = row_get key k u" if "k \<noteq> key r" for u
    using that by (induction u) auto
  have same: "row_get key (key r) (?m u) = Some r" if "key r \<in> key ` set u" for u
    using that by (induction u) auto
  from True other same show ?thesis by (simp add: row_upsert_def)
next
  case False
  then have "row_get key (key r) t = None" by (rule row_get_absent)
  with False show ?thesis by (auto simp: row_upsert_def row_get_append split: option.split)
qed

lemma keys_upsert: "key ` set (row_upsert key r t) = insert (key r) (key ` set t)"
  by (auto simp: row_upsert_def image_iff)

lemma distinct_upsert [table_simps]:
  "distinct (map key t) \<Longrightarrow> distinct (map key (row_upsert key r t))"
proof -
  assume d: "distinct (map key t)"
  have "map key (map (\<lambda>x. if key x = key r then r else x) t) = map key t"
    by (simp add: comp_def if_distrib cong: if_cong)
  with d show ?thesis by (auto simp: row_upsert_def simp del: map_map)
qed

lemma set_upsert_subset: "set (row_upsert key r t) \<subseteq> insert r (set t)"
  by (auto simp: row_upsert_def)

lemma row_get_insert_new [table_simps]:
  "row_get key k (fst (row_insert_new key r t)) =
     (case row_get key k t of Some x \<Rightarrow> Some x | None \<Rightarrow> if k = key r then Some r else None)"
proof (cases "key r \<in> key ` set t")
  case True
  then have "row_get key (key r) t \<noteq> None" by (simp add: row_get_None_iff)
  then show ?thesis using True by (auto simp: row_insert_new_def split: option.split)
next
  case False
  then show ?thesis by (simp add: row_insert_new_def row_get_append split: option.split)
qed

lemma distinct_insert_new [table_simps]:
  "distinct (map key t) \<Longrightarrow> distinct (map key (fst (row_insert_new key r t)))"
  by (auto simp: row_insert_new_def)

lemma row_get_update [table_simps]:
  assumes "\<And>r. key (f r) = key r"
  shows "row_get key k (fst (row_update p f t)) =
    map_option (\<lambda>r. if p r then f r else r) (row_get key k t)"
proof -
  have "find (\<lambda>r. key r = k) (map (\<lambda>r. if p r then f r else r) t)
      = map_option (\<lambda>r. if p r then f r else r) (find (\<lambda>r. key r = k) t)"
    by (rule find_map_key) (simp add: assms)
  then show ?thesis by (simp add: row_get_def row_update_def)
qed

lemma distinct_update [table_simps]:
  assumes "\<And>r. key (f r) = key r"
  shows "map key (fst (row_update p f t)) = map key t"
  by (simp add: row_update_def assms)

lemma set_update: "set (fst (row_update p f t)) = (\<lambda>r. if p r then f r else r) ` set t"
  by (simp add: row_update_def)

lemma returned_update: "set (snd (row_update p f t)) = f ` {r \<in> set t. p r}"
  by (auto simp: row_update_def)

lemma distinct_delete [table_simps]:
  "distinct (map key t) \<Longrightarrow> distinct (map key (fst (row_delete p t)))"
  by (simp add: row_delete_def distinct_map_filter)

lemma row_get_delete_key [table_simps]:
  "row_get key k (fst (row_delete (\<lambda>r. key r = k') t)) = (if k = k' then None else row_get key k t)"
  by (induction t) (auto simp: row_delete_def)

lemma filter_key_singleton:
  assumes "distinct (map key t)" and "r \<in> set t" and "q r"
  shows "filter (\<lambda>x. key x = key r \<and> q x) t = [r]"
  using assms
proof (induction t)
  case (Cons y ys)
  have none: "filter (\<lambda>x. key x = key r \<and> q x) ys = []" if "key r \<notin> key ` set ys"
    using that by (auto simp: filter_empty_conv rev_image_eqI)
  show ?case
  proof (cases "y = r")
    case True
    with Cons none show ?thesis by auto
  next
    case False
    with Cons.prems have "r \<in> set ys" by simp
    with Cons.prems have "key y \<noteq> key r" by force
    with Cons \<open>r \<in> set ys\<close> show ?thesis by simp
  qed
qed simp

text \<open>An update of one row by its key and a guard: what it returns.\<close>

lemma update_one_returned:
  assumes "distinct (map key t)"
  shows "first_row (snd (row_update (\<lambda>r. key r = k \<and> q r) f t)) =
    (case row_get key k t of Some r \<Rightarrow> if q r then Some (f r) else None | None \<Rightarrow> None)"
proof (cases "row_get key k t")
  case None
  then have "filter (\<lambda>r. key r = k \<and> q r) t = []"
    by (auto simp: filter_empty_conv row_get_None_iff)
  with None show ?thesis by (simp add: row_update_def first_row_def)
next
  case (Some r)
  then have r: "r \<in> set t" "key r = k" by (auto dest: row_get_Some)
  show ?thesis
  proof (cases "q r")
    case True
    with filter_key_singleton [OF assms r(1), of q] r Some show ?thesis
      by (simp add: row_update_def first_row_def)
  next
    case False
    have "x = r" if "x \<in> set t" "key x = k" for x
      using distinct_key_eq [OF assms that(1) r(1)] that(2) r(2) by simp
    with False have "filter (\<lambda>r. key r = k \<and> q r) t = []" by (auto simp: filter_empty_conv)
    with False Some show ?thesis by (simp add: row_update_def first_row_def)
  qed
qed

lemma set_order_by [simp]: "set (order_by k t) = set t"
  by (simp add: order_by_def)

lemma set_order_by_desc [simp]: "set (order_by_desc k t) = set t"
  by (simp add: order_by_desc_def)

lemma length_order_by [simp]: "length (order_by k t) = length t"
  by (simp add: order_by_def)

lemma first_order_by:
  assumes "first_row (order_by k t) = Some r"
  shows "r \<in> set t" and "\<And>x. x \<in> set t \<Longrightarrow> k r \<le> k x"
proof -
  obtain ys where ys: "sort_key k t = r # ys"
    using assms by (auto simp: first_row_def order_by_def split: list.splits)
  then show "r \<in> set t" by (metis list.set_intros(1) set_sort)
  show "k r \<le> k x" if "x \<in> set t" for x using sort_key_Cons_least [OF ys that] .
qed

lemma first_order_by_None_iff: "first_row (order_by k t) = None \<longleftrightarrow> t = []"
proof -
  have "sort_key k t = [] \<longleftrightarrow> t = []" by (metis length_0_conv length_sort)
  then show ?thesis by (auto simp: first_row_def order_by_def split: list.splits)
qed

interpretation table: keyed_store key "\<lambda>_. True" "row_get key" "row_upsert key" for key :: "'r \<Rightarrow> 'k"
  by unfold_locales (simp_all add: table_simps)

end
