(* ===== verification/Execution_Queue.thy ===== *)
theory Execution_Queue
  imports Execution_Contracts Tables
begin

text \<open>
  The table \<open>execution_jobs\<close> and the SQL statements on it
  (\<open>apps/api/src/repository.ts\<close>, lines 510 to 749). Payload and error columns are encrypted:
  a cell is either sealed with a value or unreadable under the configured keys. The CHECK
  constraints of the table (\<open>database/migrations/20260722_002_execution_jobs.ts\<close>) are
  \<open>exec_row_ok\<close>; every statement keeps them, so none of them can raise a constraint error.
\<close>

section \<open>Rows\<close>

datatype 'a cell = Sealed 'a | Unreadable

fun read_cell :: "('a \<Rightarrow> bool) \<Rightarrow> 'a cell \<Rightarrow> 'a option" where
  "read_cell ok (Sealed v) = (if ok v then Some v else None)"
| "read_cell ok Unreadable = None"

record exec_row =
  xr_id :: ident
  xr_kind :: exec_kind
  xr_resourceId :: ident
  xr_status :: exec_status
  xr_leaseOwner :: "string option"
  xr_leaseExpiresAt :: "iso option"
  xr_attemptCount :: int
  xr_maxAttempts :: int
  xr_availableAt :: iso
  xr_payload :: "json cell"
  xr_error :: "exec_error cell option"
  xr_createdAt :: iso
  xr_startedAt :: "iso option"
  xr_updatedAt :: iso
  xr_completedAt :: "iso option"

text \<open>\<open>parseExecutionJob\<close>.\<close>

definition parse_execution_job :: "exec_row \<Rightarrow> exec_job option" where
  "parse_execution_job r =
     (case read_cell (\<lambda>_. True) (xr_payload r) of
        None \<Rightarrow> None
      | Some payload \<Rightarrow>
          (case (case xr_error r of
                   None \<Rightarrow> Some None
                 | Some c \<Rightarrow> map_option Some (read_cell execution_error_schema c)) of
             None \<Rightarrow> None
           | Some err \<Rightarrow>
               (let j = \<lparr>ej_id = xr_id r, ej_kind = xr_kind r, ej_resourceId = xr_resourceId r,
                         ej_status = xr_status r, ej_leaseOwner = xr_leaseOwner r,
                         ej_leaseExpiresAt = xr_leaseExpiresAt r, ej_attemptCount = xr_attemptCount r,
                         ej_maxAttempts = xr_maxAttempts r, ej_availableAt = xr_availableAt r,
                         ej_payload = payload, ej_error = err, ej_createdAt = xr_createdAt r,
                         ej_updatedAt = xr_updatedAt r, ej_completedAt = xr_completedAt r\<rparr>
                in if execution_job_schema j then Some j else None)))"

section \<open>Constraints\<close>

definition exec_row_ok :: "exec_row \<Rightarrow> bool" where
  "exec_row_ok r =
     (0 < xr_maxAttempts r \<and> xr_maxAttempts r \<le> 20
      \<and> 0 \<le> xr_attemptCount r \<and> xr_attemptCount r \<le> xr_maxAttempts r
      \<and> ((is_leased_status (xr_status r) \<and> xr_leaseOwner r \<noteq> None
           \<and> xr_leaseExpiresAt r \<noteq> None \<and> xr_completedAt r = None)
         \<or> (xr_status r = EQueued \<and> xr_leaseOwner r = None
             \<and> xr_leaseExpiresAt r = None \<and> xr_completedAt r = None)
         \<or> (is_terminal_status (xr_status r) \<and> xr_leaseOwner r = None
             \<and> xr_leaseExpiresAt r = None \<and> xr_completedAt r \<noteq> None)))"

definition exec_table_ok :: "exec_row list \<Rightarrow> bool" where
  "exec_table_ok t = (distinct (map xr_id t) \<and> list_all exec_row_ok t)"

section \<open>Statements\<close>

definition get_execution_row :: "ident \<Rightarrow> exec_row list \<Rightarrow> exec_row option" where
  [queue_defs]: "get_execution_row i t = row_get xr_id i t"

definition enqueue_statement ::
    "enqueue_job \<Rightarrow> iso \<Rightarrow> iso \<Rightarrow> exec_row list \<Rightarrow> exec_row list \<times> exec_row option" where
  [queue_defs]: "enqueue_statement e availableAt now t =
     row_insert_new xr_id
       \<lparr>xr_id = eq_id e, xr_kind = eq_kind e, xr_resourceId = eq_resourceId e, xr_status = EQueued,
        xr_leaseOwner = None, xr_leaseExpiresAt = None, xr_attemptCount = 0,
        xr_maxAttempts = eq_maxAttempts e, xr_availableAt = availableAt,
        xr_payload = Sealed (eq_payload e), xr_error = None, xr_createdAt = now,
        xr_startedAt = None, xr_updatedAt = now, xr_completedAt = None\<rparr> t"

definition kind_matches :: "exec_kind option \<Rightarrow> exec_row \<Rightarrow> bool" where
  "kind_matches kind r = (kind = None \<or> kind = Some (xr_kind r))"

text \<open>Due: queued and available, or leased under a lease that has expired.\<close>

definition is_due :: "iso \<Rightarrow> exec_row \<Rightarrow> bool" where
  "is_due now r =
     ((xr_status r = EQueued \<and> xr_availableAt r \<le> now)
      \<or> (is_leased_status (xr_status r)
          \<and> (case xr_leaseExpiresAt r of None \<Rightarrow> False | Some e \<Rightarrow> e \<le> now)))"

lemma is_due_iff:
  "is_due now r \<longleftrightarrow>
     (xr_status r = EQueued \<and> xr_availableAt r \<le> now)
      \<or> (is_leased_status (xr_status r) \<and> (\<exists>e. xr_leaseExpiresAt r = Some e \<and> e \<le> now))"
  by (auto simp: is_due_def split: option.splits)

definition claim_key :: "exec_row \<Rightarrow> iso \<times> iso \<times> ident" where
  "claim_key r = (xr_availableAt r, xr_createdAt r, xr_id r)"

definition is_exhausted :: "exec_kind option \<Rightarrow> iso \<Rightarrow> exec_row \<Rightarrow> bool" where
  "is_exhausted kind now r =
     (xr_attemptCount r \<ge> xr_maxAttempts r \<and> kind_matches kind r \<and> is_due now r)"

definition is_claimable :: "exec_kind option \<Rightarrow> iso \<Rightarrow> exec_row \<Rightarrow> bool" where
  "is_claimable kind now r =
     (kind_matches kind r \<and> xr_attemptCount r < xr_maxAttempts r \<and> is_due now r)"

definition finalize_row :: "exec_error \<Rightarrow> iso \<Rightarrow> exec_row \<Rightarrow> exec_row" where
  "finalize_row err now r =
     r\<lparr>xr_status := EFailed, xr_leaseOwner := None, xr_leaseExpiresAt := None,
       xr_error := Some (Sealed err), xr_updatedAt := now, xr_completedAt := Some now\<rparr>"

definition exhaustion_batch_size :: nat where "exhaustion_batch_size = 50"

definition finalize_exhausted_statement ::
    "exec_error \<Rightarrow> exec_kind option \<Rightarrow> iso \<Rightarrow> exec_row list \<Rightarrow> exec_row list \<times> exec_row list" where
  [queue_defs]: "finalize_exhausted_statement err kind now t =
     (let ids = map xr_id (take exhaustion_batch_size
                  (order_by claim_key (filter (is_exhausted kind now) t)))
      in row_update (\<lambda>r. xr_id r \<in> set ids) (finalize_row err now) t)"

definition claim_row :: "string \<Rightarrow> iso \<Rightarrow> iso \<Rightarrow> exec_row \<Rightarrow> exec_row" where
  "claim_row owner expires now r =
     r\<lparr>xr_status := ELeased, xr_leaseOwner := Some owner, xr_leaseExpiresAt := Some expires,
       xr_attemptCount := xr_attemptCount r + 1, xr_startedAt := Some now, xr_updatedAt := now,
       xr_completedAt := None\<rparr>"

definition claim_statement ::
    "string \<Rightarrow> iso \<Rightarrow> exec_kind option \<Rightarrow> iso \<Rightarrow> exec_row list \<Rightarrow> exec_row list \<times> exec_row option" where
  [queue_defs]: "claim_statement owner expires kind now t =
     (case first_row (order_by claim_key (filter (is_claimable kind now) t)) of
        None \<Rightarrow> (t, None)
      | Some c \<Rightarrow>
          (let (t', rs) = row_update (\<lambda>r. xr_id r = xr_id c) (claim_row owner expires now) t
           in (t', first_row rs)))"

text \<open>The guard of every owner statement: the named row, leased by this owner, not expired.\<close>

definition holds_lease :: "string \<Rightarrow> iso \<Rightarrow> exec_row \<Rightarrow> bool" where
  "holds_lease owner now r =
     (xr_leaseOwner r = Some owner \<and> is_leased_status (xr_status r)
      \<and> (case xr_leaseExpiresAt r of None \<Rightarrow> False | Some e \<Rightarrow> e > now))"

definition owner_update ::
    "(exec_row \<Rightarrow> exec_row) \<Rightarrow> ident \<Rightarrow> string \<Rightarrow> iso \<Rightarrow> exec_row list \<Rightarrow> exec_row list \<times> exec_row option"
where
  [queue_defs]: "owner_update f i owner now t =
     (let (t', rs) = row_update (\<lambda>r. xr_id r = i \<and> holds_lease owner now r) f t
      in (t', first_row rs))"

definition running_row :: "iso \<Rightarrow> iso \<Rightarrow> exec_row \<Rightarrow> exec_row" where
  "running_row expires now r =
     r\<lparr>xr_status := ERunning, xr_leaseExpiresAt := Some expires, xr_updatedAt := now\<rparr>"

definition mark_running_statement ::
    "iso \<Rightarrow> ident \<Rightarrow> string \<Rightarrow> iso \<Rightarrow> exec_row list \<Rightarrow> exec_row list \<times> exec_row option" where
  [queue_defs]: "mark_running_statement expires i owner now = owner_update (running_row expires now) i owner now"

definition renewed_row :: "iso \<Rightarrow> iso \<Rightarrow> exec_row \<Rightarrow> exec_row" where
  "renewed_row expires now r = r\<lparr>xr_leaseExpiresAt := Some expires, xr_updatedAt := now\<rparr>"

definition renew_lease_statement ::
    "iso \<Rightarrow> ident \<Rightarrow> string \<Rightarrow> iso \<Rightarrow> exec_row list \<Rightarrow> exec_row list \<times> exec_row option" where
  [queue_defs]: "renew_lease_statement expires i owner now = owner_update (renewed_row expires now) i owner now"

definition completed_row :: "iso \<Rightarrow> exec_row \<Rightarrow> exec_row" where
  "completed_row now r =
     r\<lparr>xr_status := ESucceeded, xr_leaseOwner := None, xr_leaseExpiresAt := None, xr_error := None,
       xr_updatedAt := now, xr_completedAt := Some now\<rparr>"

definition complete_statement ::
    "ident \<Rightarrow> string \<Rightarrow> iso \<Rightarrow> exec_row list \<Rightarrow> exec_row list \<times> exec_row option" where
  [queue_defs]: "complete_statement i owner now = owner_update (completed_row now) i owner now"

definition failed_row ::
    "exec_status \<Rightarrow> iso \<Rightarrow> exec_error \<Rightarrow> iso option \<Rightarrow> iso \<Rightarrow> exec_row \<Rightarrow> exec_row" where
  "failed_row status availableAt err completedAt now r =
     r\<lparr>xr_status := status, xr_leaseOwner := None, xr_leaseExpiresAt := None, xr_startedAt := None,
       xr_availableAt := availableAt, xr_error := Some (Sealed err), xr_completedAt := completedAt,
       xr_updatedAt := now\<rparr>"

definition update_failed_statement ::
    "exec_status \<Rightarrow> iso \<Rightarrow> exec_error \<Rightarrow> iso option \<Rightarrow> ident \<Rightarrow> string \<Rightarrow> iso \<Rightarrow> exec_row list
     \<Rightarrow> exec_row list \<times> exec_row option" where
  [queue_defs]: "update_failed_statement status availableAt err completedAt i owner now =
     owner_update (failed_row status availableAt err completedAt now) i owner now"

definition cancelled_row :: "iso \<Rightarrow> exec_row \<Rightarrow> exec_row" where
  "cancelled_row now r =
     r\<lparr>xr_status := ECancelled, xr_leaseOwner := None, xr_leaseExpiresAt := None,
       xr_updatedAt := now, xr_completedAt := Some now\<rparr>"

definition cancel_statement ::
    "ident \<Rightarrow> iso \<Rightarrow> exec_row list \<Rightarrow> exec_row list \<times> exec_row option" where
  [queue_defs]: "cancel_statement i now t =
     (let (t', rs) = row_update (\<lambda>r. xr_id r = i \<and> \<not> is_terminal_status (xr_status r))
                       (cancelled_row now) t
      in (t', first_row rs))"

definition list_execution_rows :: "exec_row list \<Rightarrow> exec_row list" where
  "list_execution_rows t = rev (order_by (\<lambda>r. (xr_createdAt r, xr_id r)) t)"

section \<open>The statements keep the constraints\<close>

lemmas row_updates =
  finalize_row_def claim_row_def running_row_def renewed_row_def completed_row_def failed_row_def
  cancelled_row_def

lemma row_update_ids [simp]:
  "xr_id (finalize_row err now r) = xr_id r" "xr_id (claim_row owner expires now r) = xr_id r"
  "xr_id (running_row expires now r) = xr_id r" "xr_id (renewed_row expires now r) = xr_id r"
  "xr_id (completed_row now r) = xr_id r" "xr_id (failed_row st a err c now r) = xr_id r"
  "xr_id (cancelled_row now r) = xr_id r"
  by (simp_all add: row_updates)

lemma status_disjoint [simp]:
  "is_leased_status ELeased" "is_leased_status ERunning" "\<not> is_leased_status EQueued"
  "\<not> is_leased_status ESucceeded" "\<not> is_leased_status EFailed" "\<not> is_leased_status ECancelled"
  "is_terminal_status ESucceeded" "is_terminal_status EFailed" "is_terminal_status ECancelled"
  "\<not> is_terminal_status EQueued" "\<not> is_terminal_status ELeased" "\<not> is_terminal_status ERunning"
  by (simp_all add: is_leased_status_def is_terminal_status_def)

lemma exec_row_ok_updates:
  assumes "exec_row_ok r"
  shows "exec_row_ok (finalize_row err now r)"
    and "xr_attemptCount r < xr_maxAttempts r \<Longrightarrow> exec_row_ok (claim_row owner expires now r)"
    and "holds_lease owner now r \<Longrightarrow> exec_row_ok (running_row expires now r)"
    and "holds_lease owner now r \<Longrightarrow> exec_row_ok (renewed_row expires now r)"
    and "exec_row_ok (completed_row now r)"
    and "exec_row_ok (failed_row EFailed a err (Some now) now r)"
    and "exec_row_ok (failed_row EQueued a err None now r)"
    and "exec_row_ok (cancelled_row now r)"
  using assms terminal_not_leased
  by (auto simp: exec_row_ok_def row_updates holds_lease_def)

lemma exec_table_ok_update:
  assumes "exec_table_ok t" and "\<And>r. xr_id (f r) = xr_id r"
    and "\<And>r. r \<in> set t \<Longrightarrow> p r \<Longrightarrow> exec_row_ok r \<Longrightarrow> exec_row_ok (f r)"
  shows "exec_table_ok (fst (row_update p f t))"
  using assms by (auto simp: exec_table_ok_def distinct_update set_update list_all_iff)

lemma fst_case_first [simp]: "fst (case x of (t', rs) \<Rightarrow> (t', first_row rs)) = fst x"
  by (cases x) simp

lemma snd_case_first [simp]: "snd (case x of (t', rs) \<Rightarrow> (t', first_row rs)) = first_row (snd x)"
  by (cases x) simp

lemma enqueue_ok:
  assumes "exec_table_ok t" and "0 < eq_maxAttempts e" and "eq_maxAttempts e \<le> 20"
  shows "exec_table_ok (fst (enqueue_statement e a now t))"
  using assms
  by (auto simp: enqueue_statement_def row_insert_new_def exec_table_ok_def exec_row_ok_def)

lemma finalize_ok: "exec_table_ok t \<Longrightarrow> exec_table_ok (fst (finalize_exhausted_statement err kind now t))"
  unfolding finalize_exhausted_statement_def Let_def
  by (rule exec_table_ok_update) (auto simp: exec_row_ok_updates)

lemma claim_ok:
  assumes "exec_table_ok t"
  shows "exec_table_ok (fst (claim_statement owner expires kind now t))"
proof (cases "first_row (order_by claim_key (filter (is_claimable kind now) t))")
  case None
  then show ?thesis using assms by (simp add: claim_statement_def)
next
  case (Some c)
  then have c: "c \<in> set t" "is_claimable kind now c" using first_order_by(1) by force+
  have "exec_table_ok (fst (row_update (\<lambda>r. xr_id r = xr_id c) (claim_row owner expires now) t))"
  proof (rule exec_table_ok_update [OF assms])
    fix r assume r: "r \<in> set t" "xr_id r = xr_id c" "exec_row_ok r"
    then have "r = c" using distinct_key_eq [of xr_id t r c] assms c by (auto simp: exec_table_ok_def)
    with r c show "exec_row_ok (claim_row owner expires now r)"
      by (simp add: exec_row_ok_updates is_claimable_def)
  qed simp
  with Some show ?thesis by (simp add: claim_statement_def)
qed

lemma owner_update_ok:
  assumes "exec_table_ok t" and "\<And>r. xr_id (f r) = xr_id r"
    and "\<And>r. exec_row_ok r \<Longrightarrow> holds_lease owner now r \<Longrightarrow> exec_row_ok (f r)"
  shows "exec_table_ok (fst (owner_update f i owner now t))"
  unfolding owner_update_def Let_def fst_case_first
  using assms by (intro exec_table_ok_update) auto

lemma owner_statements_ok:
  assumes "exec_table_ok t"
  shows "exec_table_ok (fst (mark_running_statement expires i owner now t))"
    and "exec_table_ok (fst (renew_lease_statement expires i owner now t))"
    and "exec_table_ok (fst (complete_statement i owner now t))"
    and "exec_table_ok (fst (update_failed_statement EFailed a err (Some now) i owner now t))"
    and "exec_table_ok (fst (update_failed_statement EQueued a err None i owner now t))"
  unfolding mark_running_statement_def renew_lease_statement_def complete_statement_def
    update_failed_statement_def
  using assms by (auto intro!: owner_update_ok intro: exec_row_ok_updates)

lemma cancel_ok: "exec_table_ok t \<Longrightarrow> exec_table_ok (fst (cancel_statement i now t))"
  unfolding cancel_statement_def Let_def fst_case_first
  by (rule exec_table_ok_update) (auto simp: exec_row_ok_updates)

section \<open>What the statements return\<close>

lemma owner_update_returned:
  assumes "distinct (map xr_id t)"
  shows "snd (owner_update f i owner now t) =
    (case row_get xr_id i t of
       Some r \<Rightarrow> if holds_lease owner now r then Some (f r) else None
     | None \<Rightarrow> None)"
  unfolding owner_update_def Let_def snd_case_first by (rule update_one_returned [OF assms])

lemma owner_update_get:
  assumes "\<And>r. xr_id (f r) = xr_id r"
  shows "row_get xr_id k (fst (owner_update f i owner now t)) =
    map_option (\<lambda>r. if xr_id r = i \<and> holds_lease owner now r then f r else r) (row_get xr_id k t)"
  unfolding owner_update_def Let_def fst_case_first by (simp add: row_get_update assms)

lemma cancel_returned:
  assumes "distinct (map xr_id t)"
  shows "snd (cancel_statement i now t) =
    (case row_get xr_id i t of
       Some r \<Rightarrow> if is_terminal_status (xr_status r) then None else Some (cancelled_row now r)
     | None \<Rightarrow> None)"
  unfolding cancel_statement_def Let_def snd_case_first
  by (simp add: update_one_returned [OF assms] split: option.splits)

lemma cancel_get:
  "row_get xr_id k (fst (cancel_statement i now t)) =
    map_option (\<lambda>r. if xr_id r = i \<and> \<not> is_terminal_status (xr_status r) then cancelled_row now r else r)
      (row_get xr_id k t)"
  unfolding cancel_statement_def Let_def fst_case_first by (simp add: row_get_update)

lemma finalize_get:
  "row_get xr_id k (fst (finalize_exhausted_statement err kind now t)) =
    map_option (\<lambda>r. if xr_id r \<in> xr_id ` set (take exhaustion_batch_size
                        (order_by claim_key (filter (is_exhausted kind now) t)))
                    then finalize_row err now r else r) (row_get xr_id k t)"
  unfolding finalize_exhausted_statement_def Let_def by (simp add: row_get_update)

text \<open>The rows a finalization touches were exhausted.\<close>

lemma finalized_exhausted:
  assumes "distinct (map xr_id t)" and "r \<in> set t"
    and "xr_id r \<in> xr_id ` set (take n (order_by claim_key (filter (is_exhausted kind now) t)))"
  shows "is_exhausted kind now r"
proof -
  obtain x where x: "x \<in> set (take n (order_by claim_key (filter (is_exhausted kind now) t)))"
    and "xr_id r = xr_id x" using assms(3) by auto
  from x have "x \<in> set (order_by claim_key (filter (is_exhausted kind now) t))" by (rule in_set_takeD)
  then have "x \<in> set t" "is_exhausted kind now x" by auto
  moreover have "r = x" using distinct_key_eq [OF assms(1,2) \<open>x \<in> set t\<close>] \<open>xr_id r = xr_id x\<close> by simp
  ultimately show ?thesis by simp
qed

lemma claim_cases:
  assumes "distinct (map xr_id t)"
  obtains (none) "filter (is_claimable kind now) t = []"
      and "claim_statement owner expires kind now t = (t, None)"
  | (some) c where "c \<in> set t" and "is_claimable kind now c"
      and "\<And>x. x \<in> set t \<Longrightarrow> is_claimable kind now x \<Longrightarrow> claim_key c \<le> claim_key x"
      and "snd (claim_statement owner expires kind now t) = Some (claim_row owner expires now c)"
      and "\<And>k. row_get xr_id k (fst (claim_statement owner expires kind now t)) =
             (if k = xr_id c then Some (claim_row owner expires now c) else row_get xr_id k t)"
proof (cases "first_row (order_by claim_key (filter (is_claimable kind now) t))")
  case None
  moreover from None have "filter (is_claimable kind now) t = []" by (simp add: first_order_by_None_iff)
  ultimately show ?thesis using none by (simp add: claim_statement_def)
next
  case (Some c)
  have c: "c \<in> set t" "is_claimable kind now c" using first_order_by(1) [OF Some] by auto
  have least: "claim_key c \<le> claim_key x" if "x \<in> set t" "is_claimable kind now x" for x
    using first_order_by(2) [OF Some] that by simp
  have get: "row_get xr_id (xr_id c) t = Some c" using row_get_mem [OF assms c(1)] .
  have ret: "snd (claim_statement owner expires kind now t) = Some (claim_row owner expires now c)"
    using update_one_returned [OF assms, of "xr_id c" "\<lambda>_. True" "claim_row owner expires now"] get Some
    by (simp add: claim_statement_def)
  have after: "row_get xr_id k (fst (claim_statement owner expires kind now t)) =
      (if k = xr_id c then Some (claim_row owner expires now c) else row_get xr_id k t)" for k
  proof -
    have "map_option (\<lambda>r. if xr_id r = xr_id c then claim_row owner expires now r else r) (row_get xr_id k t)
        = (if k = xr_id c then Some (claim_row owner expires now c) else row_get xr_id k t)"
      using get by (cases "row_get xr_id k t") (auto dest: row_get_Some)
    then show ?thesis using Some by (simp add: claim_statement_def row_get_update)
  qed
  from some [OF c least ret after] show ?thesis .
qed

lemma claimable_not_exhausted: "is_claimable kind now r \<Longrightarrow> \<not> is_exhausted kind' now' r"
  by (simp add: is_claimable_def is_exhausted_def)

end
