(* ===== verification/Repository.thy ===== *)
theory Repository
  imports Report_Core Execution_Queue
begin

text \<open>
  \<open>createSqliteJobRepository\<close> (\<open>apps/api/src/repository.ts\<close>): the database as a record of
  tables and every method of the repository as a function on it. A method that runs in a
  transaction and throws leaves the database as it was, so it returns the message alone.
  The column \<open>jobs.updated_at\<close>, written with the wall clock and never read, is left out,
  and so are the warnings written to the console.

  The environment holds what the methods take from outside the file: what
  \<open>z.string().url()\<close> accepts, and \<open>redactUrlQuery\<close>, whose value only fills a column that no
  statement reads.
\<close>

section \<open>The database\<close>

record env =
  e_isUrl :: "string \<Rightarrow> bool"
  e_redactUrlQuery :: "string \<Rightarrow> string"

record job_row =
  jr_id :: ident
  jr_url :: string
  jr_status :: job_status
  jr_requestedAt :: iso
  jr_payload :: "latency_job cell"

record 'a entity_row =
  en_id :: ident
  en_createdAt :: iso
  en_updatedAt :: iso
  en_payload :: "'a cell"

record run_row =
  rn_id :: ident
  rn_profileId :: ident
  rn_createdAt :: iso
  rn_payload :: "profile_run cell"

record artifact_record =
  af_id :: ident
  af_auditId :: ident
  af_registryVersion :: string
  af_kind :: string
  af_filename :: string
  af_contentType :: string
  af_byteSize :: int
  af_sha256 :: string
  af_storageKey :: string
  af_createdAt :: iso

record db =
  db_jobs :: "job_row list"
  db_properties :: "property entity_row list"
  db_routeSets :: "route_set entity_row list"
  db_profiles :: "check_profile entity_row list"
  db_comparisons :: "comparison_resource entity_row list"
  db_exports :: "export_resource entity_row list"
  db_analyses :: "analysis_resource entity_row list"
  db_audits :: "audit_resource entity_row list"
  db_runs :: "run_row list"
  db_artifacts :: "artifact_record list"
  db_exec :: "exec_row list"

section \<open>Jobs\<close>

definition parse_job :: "env \<Rightarrow> job_row \<Rightarrow> latency_job option" where
  "parse_job env r = read_cell (latency_job_schema (e_isUrl env)) (jr_payload r)"

definition persist_job :: "env \<Rightarrow> latency_job \<Rightarrow> db \<Rightarrow> db" where
  "persist_job env j d =
     d\<lparr>db_jobs := row_upsert jr_id
         \<lparr>jr_id = job_id j, jr_url = e_redactUrlQuery env (job_url j), jr_status = job_status j,
          jr_requestedAt = job_requestedAt j, jr_payload = Sealed j\<rparr> (db_jobs d)\<rparr>"

definition get_job :: "env \<Rightarrow> ident \<Rightarrow> db \<Rightarrow> latency_job option" where
  "get_job env i d = Option.bind (row_get jr_id i (db_jobs d)) (parse_job env)"

text \<open>\<open>listJobs\<close> keeps the fields of \<open>LatencyJob\<close>: identity, request and times.\<close>

record job_item =
  ji_id :: ident
  ji_url :: string
  ji_status :: job_status
  ji_note :: "string option"
  ji_requestedAt :: iso
  ji_startedAt :: "iso option"
  ji_completedAt :: "iso option"
  ji_requesterIp :: "string option"
  ji_region :: string
  ji_historicalRegions :: "string list option"

definition job_item_of :: "latency_job \<Rightarrow> job_item" where
  "job_item_of j =
     \<lparr>ji_id = job_id j, ji_url = job_url j, ji_status = job_status j, ji_note = job_note j,
      ji_requestedAt = job_requestedAt j, ji_startedAt = job_startedAt j,
      ji_completedAt = job_completedAt j, ji_requesterIp = job_requesterIp j,
      ji_region = job_region j, ji_historicalRegions = job_historicalRegions j\<rparr>"

definition list_jobs :: "env \<Rightarrow> db \<Rightarrow> job_item list" where
  "list_jobs env d =
     map job_item_of (List.map_filter (parse_job env) (order_by_desc jr_requestedAt (db_jobs d)))"

definition minus_utc_days :: "iso \<Rightarrow> int \<Rightarrow> iso" where
  "minus_utc_days now days = now - days * 86400000"

definition prune_jobs_older_than :: "int \<Rightarrow> iso \<Rightarrow> db \<Rightarrow> db \<times> nat" where
  "prune_jobs_older_than retentionDays now d =
     (let cutoff = minus_utc_days now retentionDays;
          (jobs, n) = row_delete (\<lambda>r. jr_requestedAt r < cutoff \<and> is_terminal_job_status (jr_status r))
                        (db_jobs d)
      in (d\<lparr>db_jobs := jobs\<rparr>, n))"

definition count_jobs :: "db \<Rightarrow> nat" where
  "count_jobs d = length (db_jobs d)"

section \<open>Saved entities\<close>

definition parse_entity :: "('a \<Rightarrow> bool) \<Rightarrow> 'a entity_row \<Rightarrow> 'a option" where
  "parse_entity schema r = read_cell schema (en_payload r)"

definition get_entity :: "('a \<Rightarrow> bool) \<Rightarrow> ident \<Rightarrow> 'a entity_row list \<Rightarrow> 'a option" where
  "get_entity schema i t = Option.bind (row_get en_id i t) (parse_entity schema)"

definition list_entities :: "('a \<Rightarrow> bool) \<Rightarrow> 'a entity_row list \<Rightarrow> 'a list" where
  "list_entities schema t = List.map_filter (parse_entity schema) (order_by_desc en_updatedAt t)"

definition save_entity :: "ident \<Rightarrow> iso \<Rightarrow> iso \<Rightarrow> 'a \<Rightarrow> 'a entity_row list \<Rightarrow> 'a entity_row list" where
  "save_entity i createdAt updatedAt v t =
     row_upsert en_id \<lparr>en_id = i, en_createdAt = createdAt, en_updatedAt = updatedAt, en_payload = Sealed v\<rparr> t"

definition delete_entity :: "ident \<Rightarrow> 'a entity_row list \<Rightarrow> 'a entity_row list \<times> bool" where
  "delete_entity i t = (let (t', n) = row_delete (\<lambda>r. en_id r = i) t in (t', n > 0))"

definition get_property :: "env \<Rightarrow> ident \<Rightarrow> db \<Rightarrow> property option" where
  "get_property env i d = get_entity (property_schema (e_isUrl env)) i (db_properties d)"

definition list_properties :: "env \<Rightarrow> db \<Rightarrow> property list" where
  "list_properties env d = list_entities (property_schema (e_isUrl env)) (db_properties d)"

definition save_property :: "property \<Rightarrow> db \<Rightarrow> db" where
  "save_property p d =
     d\<lparr>db_properties := save_entity (prop_id p) (prop_createdAt p) (prop_updatedAt p) p (db_properties d)\<rparr>"

definition delete_property :: "ident \<Rightarrow> db \<Rightarrow> db \<times> bool" where
  "delete_property i d = (let (t, b) = delete_entity i (db_properties d) in (d\<lparr>db_properties := t\<rparr>, b))"

definition get_route_set :: "env \<Rightarrow> ident \<Rightarrow> db \<Rightarrow> route_set option" where
  "get_route_set env i d = get_entity (route_set_schema (e_isUrl env)) i (db_routeSets d)"

definition list_route_sets :: "env \<Rightarrow> db \<Rightarrow> route_set list" where
  "list_route_sets env d = list_entities (route_set_schema (e_isUrl env)) (db_routeSets d)"

definition save_route_set :: "route_set \<Rightarrow> db \<Rightarrow> db" where
  "save_route_set s d =
     d\<lparr>db_routeSets := save_entity (rs_id s) (rs_createdAt s) (rs_updatedAt s) s (db_routeSets d)\<rparr>"

definition delete_route_set :: "ident \<Rightarrow> db \<Rightarrow> db \<times> bool" where
  "delete_route_set i d = (let (t, b) = delete_entity i (db_routeSets d) in (d\<lparr>db_routeSets := t\<rparr>, b))"

definition get_check_profile :: "env \<Rightarrow> ident \<Rightarrow> db \<Rightarrow> check_profile option" where
  "get_check_profile env i d = get_entity (check_profile_schema (e_isUrl env)) i (db_profiles d)"

definition list_check_profiles :: "env \<Rightarrow> db \<Rightarrow> check_profile list" where
  "list_check_profiles env d = list_entities (check_profile_schema (e_isUrl env)) (db_profiles d)"

definition save_check_profile :: "check_profile \<Rightarrow> db \<Rightarrow> db" where
  "save_check_profile p d =
     d\<lparr>db_profiles := save_entity (cpf_id p) (cpf_createdAt p) (cpf_updatedAt p) p (db_profiles d)\<rparr>"

definition delete_check_profile :: "ident \<Rightarrow> db \<Rightarrow> db \<times> bool \<times> nat" where
  "delete_check_profile i d =
     (let (runs, n) = row_delete (\<lambda>r. rn_profileId r = i) (db_runs d);
          (t, b) = delete_entity i (db_profiles d)
      in (d\<lparr>db_runs := runs, db_profiles := t\<rparr>, b, n))"

definition get_comparison :: "env \<Rightarrow> ident \<Rightarrow> db \<Rightarrow> comparison_resource option" where
  "get_comparison env i d = get_entity (comparison_resource_schema (e_isUrl env)) i (db_comparisons d)"

definition list_comparisons :: "env \<Rightarrow> db \<Rightarrow> comparison_resource list" where
  "list_comparisons env d = list_entities (comparison_resource_schema (e_isUrl env)) (db_comparisons d)"

definition save_comparison :: "comparison_resource \<Rightarrow> db \<Rightarrow> db" where
  "save_comparison c d =
     d\<lparr>db_comparisons := save_entity (cr_id c) (cr_createdAt c) (cr_createdAt c) c (db_comparisons d)\<rparr>"

definition get_export :: "ident \<Rightarrow> db \<Rightarrow> export_resource option" where
  "get_export i d = get_entity export_resource_schema i (db_exports d)"

definition list_exports :: "db \<Rightarrow> export_resource list" where
  "list_exports d = list_entities export_resource_schema (db_exports d)"

definition save_export :: "export_resource \<Rightarrow> db \<Rightarrow> db" where
  "save_export e d =
     d\<lparr>db_exports := save_entity (ex_id e) (ex_createdAt e) (ex_createdAt e) e (db_exports d)\<rparr>"

definition get_analysis :: "ident \<Rightarrow> db \<Rightarrow> analysis_resource option" where
  "get_analysis i d = get_entity analysis_resource_schema i (db_analyses d)"

definition list_analyses :: "db \<Rightarrow> analysis_resource list" where
  "list_analyses d = list_entities analysis_resource_schema (db_analyses d)"

definition save_analysis :: "analysis_resource \<Rightarrow> db \<Rightarrow> db" where
  "save_analysis a d =
     d\<lparr>db_analyses := save_entity (an_id a) (an_createdAt a) (an_createdAt a) a (db_analyses d)\<rparr>"

definition get_browser_audit :: "env \<Rightarrow> ident \<Rightarrow> db \<Rightarrow> audit_resource option" where
  "get_browser_audit env i d = get_entity (audit_resource_schema (e_isUrl env)) i (db_audits d)"

definition list_browser_audits :: "env \<Rightarrow> db \<Rightarrow> audit_resource list" where
  "list_browser_audits env d = list_entities (audit_resource_schema (e_isUrl env)) (db_audits d)"

definition persist_browser_audit :: "audit_resource \<Rightarrow> db \<Rightarrow> db" where
  "persist_browser_audit a d =
     (let updatedAt = (case aud_completedAt a of
                         Some c \<Rightarrow> c
                       | None \<Rightarrow> (case aud_startedAt a of Some s \<Rightarrow> s | None \<Rightarrow> aud_requestedAt a))
      in d\<lparr>db_audits := save_entity (aud_id a) (aud_requestedAt a) updatedAt a (db_audits d)\<rparr>)"

section \<open>Check runs\<close>

definition parse_check_profile_run :: "env \<Rightarrow> run_row \<Rightarrow> profile_run option" where
  "parse_check_profile_run env r = read_cell (profile_run_schema (e_isUrl env)) (rn_payload r)"

definition persist_check_profile_run :: "profile_run \<Rightarrow> db \<Rightarrow> db" where
  "persist_check_profile_run r d =
     d\<lparr>db_runs := row_upsert rn_id
         \<lparr>rn_id = run_id r, rn_profileId = run_profileId r, rn_createdAt = run_createdAt r,
          rn_payload = Sealed r\<rparr> (db_runs d)\<rparr>"

definition get_check_profile_run :: "env \<Rightarrow> ident \<Rightarrow> db \<Rightarrow> profile_run option" where
  "get_check_profile_run env i d = Option.bind (row_get rn_id i (db_runs d)) (parse_check_profile_run env)"

definition list_check_profile_runs :: "env \<Rightarrow> ident \<Rightarrow> db \<Rightarrow> profile_run list" where
  "list_check_profile_runs env profileId d =
     List.map_filter (parse_check_profile_run env)
       (order_by_desc rn_createdAt (filter (\<lambda>r. rn_profileId r = profileId) (db_runs d)))"

definition append_alert_delivery :: "env \<Rightarrow> ident \<Rightarrow> alert_delivery \<Rightarrow> db \<Rightarrow> db throws" where
  "append_alert_delivery env runId delivery d =
     (case get_check_profile_run env runId d of
        None \<Rightarrow> throw ''Webhook execution references a missing run''
      | Some run \<Rightarrow>
          if (\<exists>item \<in> set (run_alertDeliveries run). ad_targetId item = ad_targetId delivery)
          then return d
          else return (persist_check_profile_run
                 (run\<lparr>run_alertDeliveries := run_alertDeliveries run @ [delivery]\<rparr>) d))"

section \<open>Artifacts\<close>

definition max_artifacts_per_audit :: nat where "max_artifacts_per_audit = 50"

definition normalize_artifact_record :: "artifact_record \<Rightarrow> artifact_record option" where
  "normalize_artifact_record a =
     (case parse_artifact_kind (af_kind a) of
        None \<Rightarrow> None
      | Some kind \<Rightarrow>
          if artifact_storage_segment_ok (af_auditId a) \<and> artifact_storage_segment_ok (af_id a)
             \<and> af_registryVersion a = ''v1''
             \<and> len_between 1 255 (af_filename a) \<and> len_between 1 200 (af_contentType a)
             \<and> 0 \<le> af_byteSize a
             \<and> length (af_sha256 a) = 64 \<and> list_all is_lower_hex (af_sha256 a)
             \<and> af_storageKey a = af_auditId a @ ''/'' @ af_id a
             \<and> af_contentType a \<in> set (artifact_content_types_for_kind kind)
          then Some (a\<lparr>af_kind := kind\<rparr>) else None)"

definition get_artifact_row :: "ident \<Rightarrow> ident \<Rightarrow> db \<Rightarrow> artifact_record option" where
  "get_artifact_row auditId artifactId d =
     first_row (filter (\<lambda>r. af_auditId r = auditId \<and> af_id r = artifactId) (db_artifacts d))"

definition count_artifacts :: "ident \<Rightarrow> db \<Rightarrow> nat" where
  "count_artifacts auditId d = length (filter (\<lambda>r. af_auditId r = auditId) (db_artifacts d))"

definition save_browser_audit_artifact :: "artifact_record \<Rightarrow> db \<Rightarrow> (db \<times> bool) throws" where
  "save_browser_audit_artifact artifact d =
     (case normalize_artifact_record artifact of
        None \<Rightarrow> throw ''Browser Audit artifact metadata is invalid''
      | Some a \<Rightarrow>
          if get_artifact_row (af_auditId a) (af_id a) d \<noteq> None then return (d, False)
          else if count_artifacts (af_auditId a) d \<ge> max_artifacts_per_audit then return (d, False)
          else (let (t, inserted) = row_insert_new af_id a (db_artifacts d)
                in return (d\<lparr>db_artifacts := t\<rparr>, inserted \<noteq> None)))"

definition get_browser_audit_artifact :: "ident \<Rightarrow> ident \<Rightarrow> db \<Rightarrow> artifact_record option" where
  "get_browser_audit_artifact auditId artifactId d =
     Option.bind (get_artifact_row auditId artifactId d) normalize_artifact_record"

definition list_browser_audit_artifacts :: "ident \<Rightarrow> db \<Rightarrow> artifact_record list" where
  "list_browser_audit_artifacts auditId d =
     List.map_filter normalize_artifact_record
       (order_by (\<lambda>r. (af_createdAt r, af_id r)) (filter (\<lambda>r. af_auditId r = auditId) (db_artifacts d)))"

definition list_artifact_storage_keys :: "db \<Rightarrow> string list" where
  "list_artifact_storage_keys d = map af_storageKey (order_by af_storageKey (db_artifacts d))"

section \<open>Terminal executions and their resources\<close>

definition settle_target :: "string \<Rightarrow> string \<Rightarrow> iso \<Rightarrow> job_target \<Rightarrow> job_target" where
  "settle_target errorCode errorMessage now t =
     (if tgt_status t = TSucceeded \<or> tgt_status t = TFailed then t
      else t\<lparr>tgt_status := TFailed, tgt_latencyMs := None, tgt_statusCode := None,
             tgt_success := Some False, tgt_probeImpl := None, tgt_measurement := None,
             tgt_slotId := None, tgt_errorCode := Some errorCode, tgt_errorClass := Some Terminal,
             tgt_errorMessage := Some errorMessage, tgt_finishedAt := Some now, tgt_updatedAt := now\<rparr>)"

definition settle_job :: "string \<Rightarrow> string \<Rightarrow> iso \<Rightarrow> latency_job \<Rightarrow> latency_job" where
  "settle_job errorCode errorMessage now job =
     (let targets = map (settle_target errorCode errorMessage now) (job_targets job) in
      job\<lparr>job_status := derive_job_status targets, job_completedAt := Some now, job_targets := targets,
          job_evaluation := None, job_summary := summarize_targets targets\<rparr>)"

definition sync_network_job :: "env \<Rightarrow> string \<Rightarrow> string \<Rightarrow> iso \<Rightarrow> ident \<Rightarrow> db \<Rightarrow> db" where
  "sync_network_job env errorCode errorMessage now jobId d =
     (case get_job env jobId d of
        None \<Rightarrow> d
      | Some job \<Rightarrow>
          if list_all (\<lambda>t. tgt_status t = TSucceeded \<or> tgt_status t = TFailed) (job_targets job)
          then d
          else persist_job env (settle_job errorCode errorMessage now job) d)"

definition terminal_error_code :: "exec_job \<Rightarrow> string" where
  "terminal_error_code ej =
     (if ej_status ej = ECancelled then ''execution_cancelled''
      else (case ej_error ej of Some e \<Rightarrow> xe_code e | None \<Rightarrow> ''execution_failed''))"

definition terminal_error_message :: "exec_job \<Rightarrow> string" where
  "terminal_error_message ej =
     (if ej_status ej = ECancelled then ''Network execution was cancelled before producing a result''
      else (case ej_error ej of
              Some e \<Rightarrow> xe_message e
            | None \<Rightarrow> ''Network execution stopped before producing a result''))"

definition sync_audit :: "exec_job \<Rightarrow> iso \<Rightarrow> audit_resource \<Rightarrow> audit_resource" where
  "sync_audit ej now a =
     (let cancelled = (ej_status ej = ECancelled) in
      a\<lparr>aud_status := (if cancelled then ACancelled else AFailed),
        aud_startedAt := (if cancelled then aud_startedAt a
                          else Some (case aud_startedAt a of Some s \<Rightarrow> s | None \<Rightarrow> now)),
        aud_completedAt := Some now, aud_result := None,
        aud_error := (if cancelled then None
                      else Some ''Browser Audit execution stopped before producing a result'')\<rparr>)"

definition sync_terminal_execution_resource :: "env \<Rightarrow> exec_job \<Rightarrow> iso \<Rightarrow> db \<Rightarrow> db" where
  "sync_terminal_execution_resource env ej now d =
     (case ej_kind ej of
        NetworkProbe \<Rightarrow>
          (case decode_network_payload (ej_payload ej) of
             None \<Rightarrow> d
           | Some p \<Rightarrow>
               fold (sync_network_job env (terminal_error_code ej) (terminal_error_message ej) now)
                 (np_jobIds p) d)
      | BrowserAudit \<Rightarrow>
          (case get_browser_audit env (ej_resourceId ej) d of
             None \<Rightarrow> d
           | Some a \<Rightarrow>
               if is_terminal_audit_status (aud_status a) then d
               else persist_browser_audit (sync_audit ej now a) d)
      | WebhookDelivery \<Rightarrow> d)"

section \<open>Enqueueing and results\<close>

definition enqueue_execution :: "env \<Rightarrow> enqueue_job \<Rightarrow> iso \<Rightarrow> db \<Rightarrow> (db \<times> exec_job) throws" where
  "enqueue_execution env e now d =
     (if \<not> enqueue_job_schema e then throw ''ZodError''
      else let availableAt = (case eq_availableAt e of Some a \<Rightarrow> a | None \<Rightarrow> now) in
      if availableAt - now > execution_availability_max_delay_ms
      then throw ''Execution availability must not be more than 7 days in the future''
      else let (t, row) = enqueue_statement e availableAt now (db_exec d);
               persisted = (case row of Some r \<Rightarrow> Some r | None \<Rightarrow> get_execution_row (eq_id e) t) in
      (case persisted of
         None \<Rightarrow> throw ''Execution job could not be persisted''
       | Some r \<Rightarrow>
           (case parse_execution_job r of
              None \<Rightarrow> throw ''Persisted execution job could not be decoded''
            | Some ej \<Rightarrow>
                if ej_kind ej \<noteq> eq_kind e \<or> ej_resourceId ej \<noteq> eq_resourceId e
                then throw ''Execution job id already belongs to a different resource''
                else return (d\<lparr>db_exec := t\<rparr>, ej))))"

definition get_execution_job :: "ident \<Rightarrow> db \<Rightarrow> exec_job option" where
  "get_execution_job i d = Option.bind (get_execution_row i (db_exec d)) parse_execution_job"

definition list_execution_jobs :: "db \<Rightarrow> exec_job list" where
  "list_execution_jobs d = List.map_filter parse_execution_job (list_execution_rows (db_exec d))"

definition owns_running_execution_lease :: "ident \<Rightarrow> string \<Rightarrow> iso \<Rightarrow> db \<Rightarrow> bool" where
  "owns_running_execution_lease i owner now d =
     (case get_execution_job i d of
        None \<Rightarrow> False
      | Some ej \<Rightarrow>
          ej_status ej = ERunning \<and> ej_leaseOwner ej = Some owner
          \<and> (case ej_leaseExpiresAt ej of None \<Rightarrow> False | Some e \<Rightarrow> e > now))"

fun persist_execution_resource :: "env \<Rightarrow> exec_result \<Rightarrow> db \<Rightarrow> db throws" where
  "persist_execution_resource env (NetworkResult jobs run) d =
     (let d1 = fold (persist_job env) jobs d in
      return (case run of None \<Rightarrow> d1 | Some r \<Rightarrow> persist_check_profile_run r d1))"
| "persist_execution_resource env (AuditResult audit) d = return (persist_browser_audit audit d)"
| "persist_execution_resource env (WebhookResult runId delivery) d =
     append_alert_delivery env runId delivery d"

definition create_execution_resource ::
    "env \<Rightarrow> enqueue_job \<Rightarrow> exec_result \<Rightarrow> iso \<Rightarrow> db \<Rightarrow> (db \<times> exec_job) throws" where
  "create_execution_resource env e result now d =
     (if eq_kind e \<noteq> result_kind result then throw ''Execution resource kind does not match its queue job''
      else bind_throws (persist_execution_resource env result d) (enqueue_execution env e now))"

definition save_execution_resource_result ::
    "env \<Rightarrow> ident \<Rightarrow> string \<Rightarrow> exec_result \<Rightarrow> iso \<Rightarrow> db \<Rightarrow> (db \<times> bool) throws" where
  "save_execution_resource_result env i owner result now d =
     (if \<not> owns_running_execution_lease i owner now d then return (d, False)
      else bind_throws (persist_execution_resource env result d) (\<lambda>d'. return (d', True)))"

fun enqueue_all :: "env \<Rightarrow> enqueue_job list \<Rightarrow> iso \<Rightarrow> db \<Rightarrow> (db \<times> exec_job list) throws" where
  "enqueue_all env [] now d = return (d, [])"
| "enqueue_all env (e # es) now d =
     bind_throws (enqueue_execution env e now d) (\<lambda>(d1, j).
       bind_throws (enqueue_all env es now d1) (\<lambda>(d2, js). return (d2, j # js)))"

definition enqueue_execution_jobs ::
    "env \<Rightarrow> ident \<Rightarrow> string \<Rightarrow> enqueue_job list \<Rightarrow> iso \<Rightarrow> db \<Rightarrow> (db \<times> exec_job list option) throws" where
  "enqueue_execution_jobs env i owner es now d =
     (if \<not> owns_running_execution_lease i owner now d then return (d, None)
      else bind_throws (enqueue_all env es now d) (\<lambda>(d', js). return (d', Some js)))"

section \<open>Leases\<close>

definition assert_lease_owner :: "string \<Rightarrow> unit throws" where
  "assert_lease_owner owner =
     (if length owner < 1 \<or> length owner > execution_lease_owner_max_length
      then throw ''Execution lease owner must contain between 1 and 160 characters'' else return ())"

definition get_lease_expires_at :: "string \<Rightarrow> millis \<Rightarrow> iso \<Rightarrow> iso throws" where
  "get_lease_expires_at owner duration now =
     bind_throws (assert_lease_owner owner) (\<lambda>_.
       if \<not> is_safe_integer duration \<or> duration < execution_lease_duration_min_ms
          \<or> duration > execution_lease_duration_max_ms
       then throw ''Execution lease duration must be an integer between 1000 and 3600000ms''
       else return (now + duration))"

definition exhausted_error :: exec_error where
  "exhausted_error =
     \<lparr>xe_code = ''lease_attempts_exhausted'',
      xe_message = ''Execution stopped after the maximum number of lease attempts'', xe_retryable = False\<rparr>"

definition sync_row :: "env \<Rightarrow> iso \<Rightarrow> exec_row \<Rightarrow> db \<Rightarrow> db" where
  "sync_row env now r d =
     (case parse_execution_job r of
        None \<Rightarrow> d
      | Some ej \<Rightarrow> sync_terminal_execution_resource env ej now d)"

definition claim_execution_job ::
    "env \<Rightarrow> string \<Rightarrow> millis \<Rightarrow> exec_kind option \<Rightarrow> iso \<Rightarrow> db \<Rightarrow> (db \<times> exec_job option) throws" where
  "claim_execution_job env owner duration kind now d =
     bind_throws (get_lease_expires_at owner duration now) (\<lambda>expires.
       let (t1, exhausted) = finalize_exhausted_statement exhausted_error kind now (db_exec d);
           d1 = fold (sync_row env now) exhausted (d\<lparr>db_exec := t1\<rparr>);
           (t2, row) = claim_statement owner expires kind now (db_exec d1)
       in return (d1\<lparr>db_exec := t2\<rparr>, Option.bind row parse_execution_job))"

definition mark_execution_job_running ::
    "ident \<Rightarrow> string \<Rightarrow> millis \<Rightarrow> iso \<Rightarrow> db \<Rightarrow> (db \<times> exec_job option) throws" where
  "mark_execution_job_running i owner duration now d =
     bind_throws (get_lease_expires_at owner duration now) (\<lambda>expires.
       let (t, row) = mark_running_statement expires i owner now (db_exec d)
       in return (d\<lparr>db_exec := t\<rparr>, Option.bind row parse_execution_job))"

definition renew_execution_job_lease ::
    "ident \<Rightarrow> string \<Rightarrow> millis \<Rightarrow> iso \<Rightarrow> db \<Rightarrow> (db \<times> exec_job option) throws" where
  "renew_execution_job_lease i owner duration now d =
     bind_throws (get_lease_expires_at owner duration now) (\<lambda>expires.
       let (t, row) = renew_lease_statement expires i owner now (db_exec d)
       in return (d\<lparr>db_exec := t\<rparr>, Option.bind row parse_execution_job))"

definition complete_execution_job ::
    "ident \<Rightarrow> string \<Rightarrow> iso \<Rightarrow> db \<Rightarrow> (db \<times> exec_job option) throws" where
  "complete_execution_job i owner now d =
     bind_throws (assert_lease_owner owner) (\<lambda>_.
       case get_execution_job i d of
         None \<Rightarrow> return (d, None)
       | Some ej \<Rightarrow>
           if ej_status ej = ESucceeded then return (d, Some ej)
           else if \<not> ((ej_status ej = ELeased \<or> ej_status ej = ERunning)
                     \<and> ej_leaseOwner ej = Some owner
                     \<and> (case ej_leaseExpiresAt ej of None \<Rightarrow> False | Some e \<Rightarrow> e > now))
           then return (d, None)
           else let (t, row) = complete_statement i owner now (db_exec d)
                in return (d\<lparr>db_exec := t\<rparr>, Option.bind row parse_execution_job))"

definition completed_or :: "exec_job \<Rightarrow> iso \<Rightarrow> iso" where
  "completed_or ej now = (case ej_completedAt ej of Some c \<Rightarrow> c | None \<Rightarrow> now)"

text \<open>The transaction of \<open>failExecutionJob\<close>, from the job it read.\<close>

definition settle_failed :: "env \<Rightarrow> iso \<Rightarrow> db \<Rightarrow> exec_row option \<Rightarrow> db \<times> exec_job option" where
  "settle_failed env now d row =
     (case Option.bind row parse_execution_job of
        Some fj \<Rightarrow>
          (if ej_status fj = EFailed then sync_terminal_execution_resource env fj now d else d, Some fj)
      | None \<Rightarrow> (d, None))"

definition fail_persisted ::
    "env \<Rightarrow> ident \<Rightarrow> string \<Rightarrow> exec_error \<Rightarrow> millis \<Rightarrow> iso \<Rightarrow> exec_job \<Rightarrow> db \<Rightarrow> db \<times> exec_job option" where
  "fail_persisted env i owner err delay now ej d =
     (if is_terminal_status (ej_status ej)
      then (if ej_status ej = EFailed
            then sync_terminal_execution_resource env ej (completed_or ej now) d else d, Some ej)
      else if ej_leaseOwner ej \<noteq> Some owner
              \<or> (case ej_leaseExpiresAt ej of None \<Rightarrow> True | Some e \<Rightarrow> e \<le> now)
      then (d, None)
      else let terminal = (\<not> xe_retryable err \<or> ej_attemptCount ej \<ge> ej_maxAttempts ej);
               availableAt = (if terminal then ej_availableAt ej else now + delay);
               (t, row) = update_failed_statement (if terminal then EFailed else EQueued) availableAt
                            err (if terminal then Some now else None) i owner now (db_exec d)
           in settle_failed env now (d\<lparr>db_exec := t\<rparr>) row)"

definition fail_execution_job ::
    "env \<Rightarrow> ident \<Rightarrow> string \<Rightarrow> exec_error \<Rightarrow> millis option \<Rightarrow> iso \<Rightarrow> db \<Rightarrow> (db \<times> exec_job option) throws"
where
  "fail_execution_job env i owner err retryDelay now d =
     bind_throws (assert_lease_owner owner) (\<lambda>_.
       if \<not> execution_error_schema err then throw ''ZodError''
       else let delay = (case retryDelay of Some r \<Rightarrow> r | None \<Rightarrow> default_execution_retry_delay_ms) in
       if \<not> is_safe_integer delay \<or> delay < 0 \<or> delay > execution_retry_delay_max_ms
       then throw ''Execution retry delay must be an integer between 0 and 86400000ms''
       else case get_execution_job i d of
         None \<Rightarrow> return (d, None)
       | Some ej \<Rightarrow> return (fail_persisted env i owner err delay now ej d))"

definition cancel_execution_job :: "env \<Rightarrow> ident \<Rightarrow> iso \<Rightarrow> db \<Rightarrow> db \<times> exec_job option" where
  "cancel_execution_job env i now d =
     (let (t, row) = cancel_statement i now (db_exec d); d1 = d\<lparr>db_exec := t\<rparr> in
      case row of
        Some r \<Rightarrow> (sync_row env now r d1, parse_execution_job r)
      | None \<Rightarrow>
          (case get_execution_job i d1 of
             Some ej \<Rightarrow>
               if ej_status ej = ECancelled
               then (sync_terminal_execution_resource env ej (completed_or ej now) d1, Some ej)
               else (d1, None)
           | None \<Rightarrow> (d1, None)))"

section \<open>The stores of the repository\<close>

lemma get_job_persist:
  "get_job env i (persist_job env j d) =
     (if i = job_id j then (if latency_job_schema (e_isUrl env) j then Some j else None) else get_job env i d)"
  by (simp add: get_job_def persist_job_def row_get_upsert parse_job_def)

lemma get_run_persist:
  "get_check_profile_run env i (persist_check_profile_run r d) =
     (if i = run_id r then (if profile_run_schema (e_isUrl env) r then Some r else None)
      else get_check_profile_run env i d)"
  by (simp add: get_check_profile_run_def persist_check_profile_run_def row_get_upsert
      parse_check_profile_run_def)

lemma get_entity_save:
  "get_entity schema i (save_entity k c u v t) =
     (if i = k then (if schema v then Some v else None) else get_entity schema i t)"
  by (simp add: get_entity_def save_entity_def row_get_upsert parse_entity_def)

lemma get_audit_persist:
  "get_browser_audit env i (persist_browser_audit a d) =
     (if i = aud_id a then (if audit_resource_schema (e_isUrl env) a then Some a else None)
      else get_browser_audit env i d)"
  by (simp add: get_browser_audit_def persist_browser_audit_def Let_def get_entity_save)

interpretation jobs: keyed_store job_id "latency_job_schema (e_isUrl env)" "get_job env" "persist_job env"
  for env by unfold_locales (simp_all add: get_job_persist)

interpretation runs: keyed_store run_id "profile_run_schema (e_isUrl env)" "get_check_profile_run env"
    persist_check_profile_run
  for env by unfold_locales (simp_all add: get_run_persist)

interpretation audits: keyed_store aud_id "audit_resource_schema (e_isUrl env)" "get_browser_audit env"
    persist_browser_audit
  for env by unfold_locales (simp_all add: get_audit_persist)

interpretation properties: keyed_store prop_id "property_schema (e_isUrl env)" "get_property env" save_property
  for env by unfold_locales (simp_all add: get_property_def save_property_def get_entity_save)

interpretation route_sets: keyed_store rs_id "route_set_schema (e_isUrl env)" "get_route_set env" save_route_set
  for env by unfold_locales (simp_all add: get_route_set_def save_route_set_def get_entity_save)

interpretation check_profiles: keyed_store cpf_id "check_profile_schema (e_isUrl env)" "get_check_profile env"
    save_check_profile
  for env by unfold_locales (simp_all add: get_check_profile_def save_check_profile_def get_entity_save)

interpretation comparisons: keyed_store cr_id "comparison_resource_schema (e_isUrl env)" "get_comparison env"
    save_comparison
  for env by unfold_locales (simp_all add: get_comparison_def save_comparison_def get_entity_save)

interpretation exports: keyed_store ex_id export_resource_schema get_export save_export
  by unfold_locales (simp_all add: get_export_def save_export_def get_entity_save)

interpretation analyses: keyed_store an_id analysis_resource_schema get_analysis save_analysis
  by unfold_locales (simp_all add: get_analysis_def save_analysis_def get_entity_save)

text \<open>Rows hold the value whose identifier is their key.\<close>

definition job_rows_ok :: "db \<Rightarrow> bool" where
  "job_rows_ok d = list_all (\<lambda>r. case jr_payload r of Sealed j \<Rightarrow> job_id j = jr_id r | Unreadable \<Rightarrow> True) (db_jobs d)"

definition run_rows_ok :: "db \<Rightarrow> bool" where
  "run_rows_ok d = list_all (\<lambda>r. case rn_payload r of Sealed x \<Rightarrow> run_id x = rn_id r | Unreadable \<Rightarrow> True) (db_runs d)"

definition audit_rows_ok :: "db \<Rightarrow> bool" where
  "audit_rows_ok d = list_all (\<lambda>r. case en_payload r of Sealed a \<Rightarrow> aud_id a = en_id r | Unreadable \<Rightarrow> True) (db_audits d)"

lemma list_all_upsert: "list_all p t \<Longrightarrow> p r \<Longrightarrow> list_all p (row_upsert key r t)"
  using set_upsert_subset [of key r t] by (auto simp: list_all_iff)

lemma job_rows_ok_persist [simp]: "job_rows_ok d \<Longrightarrow> job_rows_ok (persist_job env j d)"
  by (simp add: job_rows_ok_def persist_job_def list_all_upsert)

lemma run_rows_ok_persist [simp]: "run_rows_ok d \<Longrightarrow> run_rows_ok (persist_check_profile_run r d)"
  by (simp add: run_rows_ok_def persist_check_profile_run_def list_all_upsert)

lemma audit_rows_ok_persist [simp]: "audit_rows_ok d \<Longrightarrow> audit_rows_ok (persist_browser_audit a d)"
  by (simp add: audit_rows_ok_def persist_browser_audit_def Let_def save_entity_def list_all_upsert)

lemma get_job_id: "job_rows_ok d \<Longrightarrow> get_job env i d = Some j \<Longrightarrow> job_id j = i"
proof -
  assume ok: "job_rows_ok d" and "get_job env i d = Some j"
  then obtain r where r: "row_get jr_id i (db_jobs d) = Some r" and "parse_job env r = Some j"
    by (auto simp: get_job_def bind_eq_Some_conv)
  then have "jr_payload r = Sealed j" by (cases "jr_payload r") (auto simp: parse_job_def split: if_splits)
  with ok row_get_Some [OF r] show ?thesis by (auto simp: job_rows_ok_def list_all_iff)
qed

lemma get_run_id: "run_rows_ok d \<Longrightarrow> get_check_profile_run env i d = Some j \<Longrightarrow> run_id j = i"
proof -
  assume ok: "run_rows_ok d" and "get_check_profile_run env i d = Some j"
  then obtain r where r: "row_get rn_id i (db_runs d) = Some r" and "parse_check_profile_run env r = Some j"
    by (auto simp: get_check_profile_run_def bind_eq_Some_conv)
  then have "rn_payload r = Sealed j"
    by (cases "rn_payload r") (auto simp: parse_check_profile_run_def split: if_splits)
  with ok row_get_Some [OF r] show ?thesis by (auto simp: run_rows_ok_def list_all_iff)
qed

lemma get_audit_id: "audit_rows_ok d \<Longrightarrow> get_browser_audit env i d = Some j \<Longrightarrow> aud_id j = i"
proof -
  assume ok: "audit_rows_ok d" and "get_browser_audit env i d = Some j"
  then obtain r where r: "row_get en_id i (db_audits d) = Some r"
      and "parse_entity (audit_resource_schema (e_isUrl env)) r = Some j"
    by (auto simp: get_browser_audit_def get_entity_def bind_eq_Some_conv)
  then have "en_payload r = Sealed j" by (cases "en_payload r") (auto simp: parse_entity_def split: if_splits)
  with ok row_get_Some [OF r] show ?thesis by (auto simp: audit_rows_ok_def list_all_iff)
qed

end
