(* ===== verification/Queue_Safety.thy ===== *)
theory Queue_Safety
  imports Repository
begin

text \<open>
  The execution queue as a state machine. \<open>row_step\<close> is the specification of the life of one
  execution job: which action may change its row, when, and into what. \<open>repo_step\<close> is a call
  of the repository; the simulation lemma \<open>repo_step_row\<close> shows that every call moves every row
  by a \<open>row_step\<close>, and the safety properties of the queue (exclusive leases, bounded attempts,
  final statuses) are proved on \<open>row_step\<close>.
\<close>

section \<open>Rows that can be read back\<close>

fun payload_readable :: "json cell \<Rightarrow> bool" where
  "payload_readable (Sealed p) = json_value_schema p"
| "payload_readable Unreadable = False"

fun error_readable :: "exec_error cell option \<Rightarrow> bool" where
  "error_readable None = True"
| "error_readable (Some (Sealed e)) = execution_error_schema e"
| "error_readable (Some Unreadable) = False"

definition row_readable :: "exec_row \<Rightarrow> bool" where
  "row_readable r =
     (bounded_job_id_ok (xr_id r) \<and> bounded_job_id_ok (xr_resourceId r)
      \<and> opt_ok lease_owner_ok (xr_leaseOwner r)
      \<and> payload_readable (xr_payload r) \<and> error_readable (xr_error r))"

definition row_inv :: "exec_row \<Rightarrow> bool" where
  "row_inv r = (exec_row_ok r \<and> row_readable r)"

definition queue_inv :: "exec_row list \<Rightarrow> bool" where
  "queue_inv t = (distinct (map xr_id t) \<and> list_all row_inv t)"

lemma queue_inv_table: "queue_inv t \<Longrightarrow> exec_table_ok t"
  by (auto simp: queue_inv_def exec_table_ok_def row_inv_def list_all_iff)

lemma queue_inv_row: "queue_inv t \<Longrightarrow> row_get xr_id i t = Some r \<Longrightarrow> row_inv r"
  by (auto simp: queue_inv_def list_all_iff dest: row_get_Some)

lemma parse_fields:
  assumes "parse_execution_job r = Some ej"
  shows "ej_id ej = xr_id r" "ej_kind ej = xr_kind r" "ej_resourceId ej = xr_resourceId r"
    "ej_status ej = xr_status r" "ej_leaseOwner ej = xr_leaseOwner r"
    "ej_leaseExpiresAt ej = xr_leaseExpiresAt r" "ej_attemptCount ej = xr_attemptCount r"
    "ej_maxAttempts ej = xr_maxAttempts r" "ej_availableAt ej = xr_availableAt r"
    "ej_completedAt ej = xr_completedAt r" "execution_job_schema ej"
    "xr_payload r = Sealed (ej_payload ej)"
    "xr_error r = map_option Sealed (ej_error ej)"
  using assms
  by (cases "xr_payload r"; cases "xr_error r"; (cases "the (xr_error r)")?;
      auto simp: parse_execution_job_def Let_def split: if_splits)+

lemma parse_readable:
  assumes "row_inv r"
  shows "\<exists>ej. parse_execution_job r = Some ej"
proof -
  obtain p where p: "xr_payload r = Sealed p" "json_value_schema p"
    using assms by (cases "xr_payload r") (auto simp: row_inv_def row_readable_def)
  have lease: "lease_fields_ok j" if "ej_status j = xr_status r" "ej_leaseOwner j = xr_leaseOwner r"
      "ej_leaseExpiresAt j = xr_leaseExpiresAt r" "ej_completedAt j = xr_completedAt r" for j
    using assms that by (auto simp: row_inv_def exec_row_ok_def lease_fields_ok_def Let_def
        dest: terminal_not_leased)
  show ?thesis
  proof (cases "xr_error r")
    case None
    with assms p lease show ?thesis
      by (simp add: parse_execution_job_def Let_def execution_job_schema_def row_inv_def
          row_readable_def exec_row_ok_def execution_job_max_attempts_def)
  next
    case (Some c)
    then obtain e where "c = Sealed e" "execution_error_schema e"
      using assms by (cases c) (auto simp: row_inv_def row_readable_def)
    with Some assms p lease show ?thesis
      by (simp add: parse_execution_job_def Let_def execution_job_schema_def row_inv_def
          row_readable_def exec_row_ok_def execution_job_max_attempts_def opt_ok_def)
  qed
qed

section \<open>The life of one execution job\<close>

datatype repo_action = Enqueue | Claim string | Own ident string | Cancel ident | OtherWrite

inductive row_step :: "iso \<Rightarrow> repo_action \<Rightarrow> exec_row \<Rightarrow> exec_row \<Rightarrow> bool" where
  stay: "row_step now a r r"
| claimed: "is_claimable kind now r \<Longrightarrow> now < expires \<Longrightarrow> lease_owner_ok owner \<Longrightarrow>
    row_step now (Claim owner) r (claim_row owner expires now r)"
| exhausted: "is_exhausted kind now r \<Longrightarrow>
    row_step now (Claim owner) r (finalize_row exhausted_error now r)"
| started: "holds_lease owner now r \<Longrightarrow> now < expires \<Longrightarrow>
    row_step now (Own (xr_id r) owner) r (running_row expires now r)"
| renewed: "holds_lease owner now r \<Longrightarrow> now < expires \<Longrightarrow>
    row_step now (Own (xr_id r) owner) r (renewed_row expires now r)"
| completed: "holds_lease owner now r \<Longrightarrow>
    row_step now (Own (xr_id r) owner) r (completed_row now r)"
| failed: "holds_lease owner now r \<Longrightarrow> execution_error_schema err \<Longrightarrow>
    \<not> xe_retryable err \<or> xr_attemptCount r \<ge> xr_maxAttempts r \<Longrightarrow>
    row_step now (Own (xr_id r) owner) r (failed_row EFailed (xr_availableAt r) err (Some now) now r)"
| requeued: "holds_lease owner now r \<Longrightarrow> execution_error_schema err \<Longrightarrow>
    xe_retryable err \<Longrightarrow> xr_attemptCount r < xr_maxAttempts r \<Longrightarrow> 0 \<le> delay \<Longrightarrow>
    row_step now (Own (xr_id r) owner) r (failed_row EQueued (now + delay) err None now r)"
| cancelled: "\<not> is_terminal_status (xr_status r) \<Longrightarrow>
    row_step now (Cancel (xr_id r)) r (cancelled_row now r)"

inductive_cases row_step_enqueue: "row_step now Enqueue r r'"
inductive_cases row_step_write: "row_step now OtherWrite r r'"
inductive_cases row_step_claim: "row_step now (Claim owner) r r'"
inductive_cases row_step_own: "row_step now (Own i owner) r r'"
inductive_cases row_step_cancel: "row_step now (Cancel i) r r'"

lemmas row_step_elims = row_step_enqueue row_step_write row_step_claim row_step_own row_step_cancel

lemma row_step_same_job:
  "row_step now a r r' \<Longrightarrow> xr_id r' = xr_id r \<and> xr_maxAttempts r' = xr_maxAttempts r
     \<and> xr_kind r' = xr_kind r \<and> xr_resourceId r' = xr_resourceId r \<and> xr_payload r' = xr_payload r"
  by (induction rule: row_step.induct) (simp_all add: row_updates)

lemma row_step_attempts:
  "row_step now a r r' \<Longrightarrow>
     xr_attemptCount r' = xr_attemptCount r
     \<or> (\<exists>owner. a = Claim owner \<and> xr_attemptCount r' = xr_attemptCount r + 1
          \<and> xr_attemptCount r < xr_maxAttempts r)"
  by (induction rule: row_step.induct) (simp_all add: row_updates is_claimable_def)

lemma row_step_terminal:
  "row_step now a r r' \<Longrightarrow> is_terminal_status (xr_status r) \<Longrightarrow> r' = r"
proof (induction rule: row_step.induct)
  case (claimed kind now r expires owner)
  then show ?case by (auto simp: is_claimable_def is_due_iff dest: terminal_not_leased)
next
  case (exhausted kind now r owner)
  then show ?case by (auto simp: is_exhausted_def is_due_iff dest: terminal_not_leased)
qed (auto simp: holds_lease_def dest: terminal_not_leased)

lemma row_step_inv: "row_step now a r r' \<Longrightarrow> row_inv r \<Longrightarrow> row_inv r'"
proof (induction rule: row_step.induct)
  case (claimed kind now r expires owner)
  then have "exec_row_ok (claim_row owner expires now r)"
    by (simp add: row_inv_def is_claimable_def exec_row_ok_updates)
  moreover have "row_readable (claim_row owner expires now r)"
    using claimed by (simp add: row_inv_def row_readable_def claim_row_def)
  ultimately show ?case by (simp add: row_inv_def)
next
  case (exhausted kind now r owner)
  have "execution_error_schema exhausted_error"
    by (simp add: exhausted_error_def execution_error_schema_def len_between_def limit_defs)
  with exhausted show ?case
    by (simp add: row_inv_def exec_row_ok_updates row_readable_def) (simp add: finalize_row_def)
qed (simp_all add: row_inv_def exec_row_ok_updates row_readable_def, simp_all add: row_updates)

text \<open>A live lease keeps everyone out but its owner and a cancellation.\<close>

lemma row_step_leased:
  assumes "row_step now a r r'" and "is_leased_status (xr_status r)"
    and "xr_leaseOwner r = Some owner" and "xr_leaseExpiresAt r = Some e" and "now < e"
    and "a \<noteq> Own (xr_id r) owner" and "a \<noteq> Cancel (xr_id r)"
  shows "r' = r"
  using assms
proof (induction rule: row_step.induct)
  case (claimed kind now r expires own)
  then show ?case by (auto simp: is_claimable_def is_due_iff is_leased_status_def)
next
  case (exhausted kind now r own)
  then show ?case by (auto simp: is_exhausted_def is_due_iff is_leased_status_def)
qed (auto simp: holds_lease_def)

section \<open>Writes that leave the queue alone\<close>

lemma db_exec_writes [simp]:
  "db_exec (persist_job env j d) = db_exec d"
  "db_exec (persist_check_profile_run r d) = db_exec d"
  "db_exec (persist_browser_audit a d) = db_exec d"
  "db_exec (save_property p d) = db_exec d"
  "db_exec (save_route_set s d) = db_exec d"
  "db_exec (save_check_profile c d) = db_exec d"
  "db_exec (save_comparison cr d) = db_exec d"
  "db_exec (save_export ex d) = db_exec d"
  "db_exec (save_analysis an d) = db_exec d"
  "db_exec (fst (delete_property i d)) = db_exec d"
  "db_exec (fst (delete_route_set i d)) = db_exec d"
  "db_exec (fst (delete_check_profile i d)) = db_exec d"
  "db_exec (fst (prune_jobs_older_than days now d)) = db_exec d"
  by (simp_all add: persist_job_def persist_check_profile_run_def persist_browser_audit_def
      save_property_def save_route_set_def save_check_profile_def save_comparison_def save_export_def
      save_analysis_def delete_property_def delete_route_set_def delete_check_profile_def
      prune_jobs_older_than_def Let_def split_beta)

lemma db_exec_fold:
  "(\<And>x d. f (g x d) = f d) \<Longrightarrow> f (fold g xs d) = f d"
  by (induction xs arbitrary: d) simp_all

lemma db_exec_sync_job [simp]: "db_exec (sync_network_job env c m now i d) = db_exec d"
  by (simp add: sync_network_job_def split: option.splits)

lemma db_exec_sync [simp]: "db_exec (sync_terminal_execution_resource env ej now d) = db_exec d"
  by (simp add: sync_terminal_execution_resource_def db_exec_fold split: exec_kind.splits option.splits)

lemma db_exec_sync_row [simp]: "db_exec (sync_row env now r d) = db_exec d"
  by (simp add: sync_row_def split: option.splits)

lemma db_exec_append: "append_alert_delivery env i dl d = Inr d' \<Longrightarrow> db_exec d' = db_exec d"
  by (auto simp: append_alert_delivery_def split: option.splits if_splits)

lemma db_exec_persist: "persist_execution_resource env res d = Inr d' \<Longrightarrow> db_exec d' = db_exec d"
  by (cases res) (auto simp: Let_def db_exec_fold db_exec_append split: option.splits)

lemma db_exec_artifact: "save_browser_audit_artifact a d = Inr (d', b) \<Longrightarrow> db_exec d' = db_exec d"
  by (auto simp: save_browser_audit_artifact_def Let_def split: option.splits if_splits prod.splits)

lemma db_exec_result:
  "save_execution_resource_result env i owner res now d = Inr (d', b) \<Longrightarrow> db_exec d' = db_exec d"
  by (auto simp: save_execution_resource_result_def db_exec_persist split: if_splits)

section \<open>Calls of the repository\<close>

inductive repo_step :: "env \<Rightarrow> iso \<Rightarrow> repo_action \<Rightarrow> db \<Rightarrow> db \<Rightarrow> bool" for env where
  call_enqueue: "enqueue_execution env e now d = Inr (d', j) \<Longrightarrow> repo_step env now Enqueue d d'"
| call_create: "create_execution_resource env e res now d = Inr (d', j) \<Longrightarrow> repo_step env now Enqueue d d'"
| call_followups: "enqueue_execution_jobs env i owner es now d = Inr (d', js) \<Longrightarrow>
    repo_step env now Enqueue d d'"
| call_claim: "claim_execution_job env owner dur kind now d = Inr (d', j) \<Longrightarrow>
    repo_step env now (Claim owner) d d'"
| call_start: "mark_execution_job_running i owner dur now d = Inr (d', j) \<Longrightarrow>
    repo_step env now (Own i owner) d d'"
| call_renew: "renew_execution_job_lease i owner dur now d = Inr (d', j) \<Longrightarrow>
    repo_step env now (Own i owner) d d'"
| call_complete: "complete_execution_job i owner now d = Inr (d', j) \<Longrightarrow>
    repo_step env now (Own i owner) d d'"
| call_fail: "fail_execution_job env i owner err delay now d = Inr (d', j) \<Longrightarrow>
    repo_step env now (Own i owner) d d'"
| call_cancel: "cancel_execution_job env i now d = (d', j) \<Longrightarrow> repo_step env now (Cancel i) d d'"
| call_write: "db_exec d' = db_exec d \<Longrightarrow> repo_step env now OtherWrite d d'"
| call_retention: "db_exec d' = fst (row_delete q (db_exec d)) \<Longrightarrow>
    (\<And>r. q r \<Longrightarrow> is_terminal_status (xr_status r)) \<Longrightarrow> repo_step env now OtherWrite d d'"

text \<open>How a table may change: new rows may appear, terminal rows may be deleted by the retention,
  and every other row takes a \<open>row_step\<close>.\<close>

definition table_step :: "iso \<Rightarrow> repo_action \<Rightarrow> exec_row list \<Rightarrow> exec_row list \<Rightarrow> bool" where
  "table_step now a t t' =
     (queue_inv t'
      \<and> (\<forall>i r. row_get xr_id i t = Some r \<longrightarrow>
           (case row_get xr_id i t' of
              Some r' \<Rightarrow> row_step now a r r'
            | None \<Rightarrow> a = OtherWrite \<and> is_terminal_status (xr_status r))))"

lemma table_stepI:
  assumes "queue_inv t'"
    and "\<And>i r. row_get xr_id i t = Some r \<Longrightarrow> \<exists>r'. row_get xr_id i t' = Some r' \<and> row_step now a r r'"
  shows "table_step now a t t'"
  using assms unfolding table_step_def by (fastforce split: option.splits)

lemma table_step_refl: "queue_inv t \<Longrightarrow> table_step now a t t"
  by (rule table_stepI) (auto intro: stay)

lemma table_step_enqueue_trans:
  assumes "table_step now Enqueue t t1" and "table_step now Enqueue t1 t2"
  shows "table_step now Enqueue t t2"
proof (rule table_stepI)
  fix i r assume r: "row_get xr_id i t = Some r"
  then obtain r1 where r1: "row_get xr_id i t1 = Some r1" "row_step now Enqueue r r1"
    using assms(1) by (fastforce simp: table_step_def split: option.splits)
  then obtain r2 where "row_get xr_id i t2 = Some r2" "row_step now Enqueue r1 r2"
    using assms(2) by (fastforce simp: table_step_def split: option.splits)
  with r1 show "\<exists>r'. row_get xr_id i t2 = Some r' \<and> row_step now Enqueue r r'"
    by (auto elim: row_step_enqueue)
qed (use assms in \<open>simp add: table_step_def\<close>)

text \<open>An update in place whose new rows are \<open>row_step\<close>s of the old ones.\<close>

lemma table_step_update:
  assumes inv: "queue_inv t" and id: "\<And>r. xr_id (f r) = xr_id r"
    and step: "\<And>r. r \<in> set t \<Longrightarrow> p r \<Longrightarrow> row_step now a r (f r)"
  shows "table_step now a t (fst (row_update p f t))"
proof (rule table_stepI)
  have "row_inv (f r)" if "r \<in> set t" "p r" for r
    using row_step_inv [OF step [OF that]] that inv by (auto simp: queue_inv_def list_all_iff)
  with inv show "queue_inv (fst (row_update p f t))"
    by (auto simp: queue_inv_def list_all_iff distinct_update id set_update)
  fix i r assume r: "row_get xr_id i t = Some r"
  then have "r \<in> set t" by (auto dest: row_get_Some)
  with r step show "\<exists>r'. row_get xr_id i (fst (row_update p f t)) = Some r' \<and> row_step now a r r'"
    by (auto simp: row_get_update id intro: stay)
qed

section \<open>Every call is a step of every row\<close>

lemma fresh_row_inv:
  assumes "enqueue_job_schema e"
  shows "row_inv \<lparr>xr_id = eq_id e, xr_kind = eq_kind e, xr_resourceId = eq_resourceId e, xr_status = EQueued,
        xr_leaseOwner = None, xr_leaseExpiresAt = None, xr_attemptCount = 0,
        xr_maxAttempts = eq_maxAttempts e, xr_availableAt = a,
        xr_payload = Sealed (eq_payload e), xr_error = None, xr_createdAt = now,
        xr_startedAt = None, xr_updatedAt = now, xr_completedAt = None\<rparr>"
  using assms
  by (simp add: enqueue_job_schema_def row_inv_def exec_row_ok_def row_readable_def opt_ok_def
      execution_job_max_attempts_def)

lemma enqueue_statement_step:
  assumes "queue_inv t" and "enqueue_job_schema e"
  shows "table_step now Enqueue t (fst (enqueue_statement e a now t))"
proof (rule table_stepI)
  show "queue_inv (fst (enqueue_statement e a now t))"
    using assms fresh_row_inv [OF assms(2)]
    by (auto simp: queue_inv_def enqueue_statement_def row_insert_new_def)
  fix i r assume "row_get xr_id i t = Some r"
  then show "\<exists>r'. row_get xr_id i (fst (enqueue_statement e a now t)) = Some r' \<and> row_step now Enqueue r r'"
    by (simp add: enqueue_statement_def row_get_insert_new stay)
qed

lemma enqueue_execution_step:
  assumes "queue_inv (db_exec d)" and "enqueue_execution env e now d = Inr (d', j)"
  shows "table_step now Enqueue (db_exec d) (db_exec d')"
  using assms enqueue_statement_step [OF assms(1), of e now]
  by (auto simp: enqueue_execution_def Let_def split: if_splits option.splits prod.splits)
     (metis fst_conv)+

lemma enqueue_all_step:
  "queue_inv (db_exec d) \<Longrightarrow> enqueue_all env es now d = Inr (d', js) \<Longrightarrow>
   table_step now Enqueue (db_exec d) (db_exec d')"
proof (induction es arbitrary: d js)
  case (Cons e es)
  then obtain d1 j js' where 1: "enqueue_execution env e now d = Inr (d1, j)"
    and 2: "enqueue_all env es now d1 = Inr (d', js')" by fastforce
  have s1: "table_step now Enqueue (db_exec d) (db_exec d1)"
    by (rule enqueue_execution_step [OF Cons.prems(1) 1])
  then have "queue_inv (db_exec d1)" by (simp add: table_step_def)
  from table_step_enqueue_trans [OF s1 Cons.IH [OF this 2]] show ?case .
qed (simp add: table_step_refl)

lemma lease_expires_at_Inr:
  "get_lease_expires_at owner dur now = Inr e \<longleftrightarrow>
     lease_owner_ok owner \<and> 1000 \<le> dur \<and> dur \<le> 3600000 \<and> e = now + dur"
  by (cases owner)
    (auto simp: get_lease_expires_at_def assert_lease_owner_def lease_owner_ok_def len_between_def
      is_safe_integer_def limit_defs)

lemma owner_update_step:
  assumes "queue_inv t" and "\<And>r. xr_id (f r) = xr_id r"
    and "\<And>r. r \<in> set t \<Longrightarrow> xr_id r = i \<Longrightarrow> holds_lease owner now r \<Longrightarrow> row_step now (Own i owner) r (f r)"
  shows "table_step now (Own i owner) t (fst (owner_update f i owner now t))"
  unfolding owner_update_def Let_def fst_case_first
  by (rule table_step_update) (use assms in auto)

lemma mark_running_step:
  assumes "queue_inv (db_exec d)" and "mark_execution_job_running i owner dur now d = Inr (d', j)"
  shows "table_step now (Own i owner) (db_exec d) (db_exec d')"
proof -
  from assms(2) have "db_exec d' = fst (mark_running_statement (now + dur) i owner now (db_exec d))"
    and "1000 \<le> dur"
    by (auto simp: mark_execution_job_running_def lease_expires_at_Inr Let_def split: prod.splits)
  moreover have "table_step now (Own i owner) (db_exec d)
      (fst (mark_running_statement (now + dur) i owner now (db_exec d)))"
    unfolding mark_running_statement_def
    by (rule owner_update_step) (use assms(1) \<open>1000 \<le> dur\<close> in \<open>auto intro: started\<close>)
  ultimately show ?thesis by simp
qed

lemma renew_step:
  assumes "queue_inv (db_exec d)" and "renew_execution_job_lease i owner dur now d = Inr (d', j)"
  shows "table_step now (Own i owner) (db_exec d) (db_exec d')"
proof -
  from assms(2) have "db_exec d' = fst (renew_lease_statement (now + dur) i owner now (db_exec d))"
    and "1000 \<le> dur"
    by (auto simp: renew_execution_job_lease_def lease_expires_at_Inr Let_def split: prod.splits)
  moreover have "table_step now (Own i owner) (db_exec d)
      (fst (renew_lease_statement (now + dur) i owner now (db_exec d)))"
    unfolding renew_lease_statement_def
    by (rule owner_update_step) (use assms(1) \<open>1000 \<le> dur\<close> in \<open>auto intro: renewed\<close>)
  ultimately show ?thesis by simp
qed

lemma complete_statement_step:
  "queue_inv t \<Longrightarrow> table_step now (Own i owner) t (fst (complete_statement i owner now t))"
  unfolding complete_statement_def by (rule owner_update_step) (auto intro: completed)

lemma complete_step:
  assumes "queue_inv (db_exec d)" and "complete_execution_job i owner now d = Inr (d', j)"
  shows "table_step now (Own i owner) (db_exec d) (db_exec d')"
  using assms complete_statement_step [OF assms(1), of now i owner] table_step_refl [OF assms(1)]
  by (auto simp: complete_execution_job_def Let_def split: option.splits if_splits prod.splits)

lemma get_execution_job_row:
  assumes "get_execution_job i d = Some ej"
  obtains r where "row_get xr_id i (db_exec d) = Some r" and "parse_execution_job r = Some ej"
  using assms by (auto simp: get_execution_job_def get_execution_row_def bind_eq_Some_conv)

text \<open>The statement that a failure runs, given the job the transaction read.\<close>

lemma fail_statement_step:
  assumes inv: "queue_inv (db_exec d)" and job: "get_execution_job i d = Some ej"
    and err: "execution_error_schema err" and delay: "0 \<le> delay"
    and terminal: "terminal \<longleftrightarrow> \<not> xe_retryable err \<or> ej_attemptCount ej \<ge> ej_maxAttempts ej"
  shows "table_step now (Own i owner) (db_exec d)
    (fst (update_failed_statement (if terminal then EFailed else EQueued)
       (if terminal then ej_availableAt ej else now + delay) err
       (if terminal then Some now else None) i owner now (db_exec d)))"
  unfolding update_failed_statement_def
proof (rule owner_update_step [OF inv])
  fix r assume r: "r \<in> set (db_exec d)" "xr_id r = i" and lease: "holds_lease owner now r"
  obtain r0 where r0: "row_get xr_id i (db_exec d) = Some r0" "parse_execution_job r0 = Some ej"
    using job by (rule get_execution_job_row)
  have "row_get xr_id i (db_exec d) = Some r"
    using row_get_mem [of xr_id "db_exec d" r] r inv by (simp add: queue_inv_def)
  with r0 have ej: "parse_execution_job r = Some ej" by simp
  note fields = parse_fields [OF ej]
  show "row_step now (Own i owner) r (failed_row (if terminal then EFailed else EQueued)
      (if terminal then ej_availableAt ej else now + delay) err (if terminal then Some now else None) now r)"
  proof (cases terminal)
    case True
    then show ?thesis using failed [OF lease err] terminal r(2) fields by simp
  next
    case False
    then show ?thesis using requeued [OF lease err _ _ delay] terminal r(2) fields by simp
  qed
qed simp

lemma db_exec_settle [simp]: "db_exec (fst (settle_failed env now d row)) = db_exec d"
  by (simp add: settle_failed_def split: option.split)

lemma db_exec_fail_persisted:
  "db_exec (fst (fail_persisted env i owner err delay now ej d)) = db_exec d
   \<or> db_exec (fst (fail_persisted env i owner err delay now ej d)) =
       fst (update_failed_statement
             (if \<not> xe_retryable err \<or> ej_attemptCount ej \<ge> ej_maxAttempts ej then EFailed else EQueued)
             (if \<not> xe_retryable err \<or> ej_attemptCount ej \<ge> ej_maxAttempts ej
              then ej_availableAt ej else now + delay) err
             (if \<not> xe_retryable err \<or> ej_attemptCount ej \<ge> ej_maxAttempts ej then Some now else None)
             i owner now (db_exec d))"
  by (cases "is_terminal_status (ej_status ej)";
      cases "ej_leaseOwner ej \<noteq> Some owner
        \<or> (case ej_leaseExpiresAt ej of None \<Rightarrow> True | Some e \<Rightarrow> e \<le> now)")
    (simp_all add: fail_persisted_def Let_def split_beta)

lemma fail_step:
  assumes inv: "queue_inv (db_exec d)" and run: "fail_execution_job env i owner err delay now d = Inr (d', j)"
  shows "table_step now (Own i owner) (db_exec d) (db_exec d')"
proof -
  define dl where "dl = (case delay of Some r \<Rightarrow> r | None \<Rightarrow> default_execution_retry_delay_ms)"
  from run have err: "execution_error_schema err" and dl: "0 \<le> dl"
    and body: "(case get_execution_job i d of None \<Rightarrow> (d, None)
        | Some ej \<Rightarrow> fail_persisted env i owner err dl now ej d) = (d', j)"
    by (auto simp: fail_execution_job_def Let_def dl_def [symmetric] split: if_splits option.splits)
  show ?thesis
  proof (cases "get_execution_job i d")
    case None
    with body have "d' = d" by simp
    then show ?thesis by (simp add: table_step_refl [OF inv])
  next
    case (Some ej)
    with body have d': "d' = fst (fail_persisted env i owner err dl now ej d)" by simp
    from db_exec_fail_persisted [of env i owner err dl now ej d]
      fail_statement_step [OF inv Some err dl refl, of now owner]
    show ?thesis unfolding d' by (metis table_step_refl [OF inv])
  qed
qed

lemma cancel_statement_step:
  "queue_inv t \<Longrightarrow> table_step now (Cancel i) t (fst (cancel_statement i now t))"
  unfolding cancel_statement_def Let_def fst_case_first
  by (rule table_step_update) (auto intro: cancelled)

lemma db_exec_cancel:
  "db_exec (fst (cancel_execution_job env i now d)) = fst (cancel_statement i now (db_exec d))"
  by (simp add: cancel_execution_job_def Let_def split: prod.splits option.splits)

lemma finalize_step:
  assumes "queue_inv t"
  shows "table_step now (Claim owner) t (fst (finalize_exhausted_statement exhausted_error kind now t))"
  unfolding finalize_exhausted_statement_def Let_def
proof (rule table_step_update [OF assms])
  fix r assume r: "r \<in> set t"
    and i: "xr_id r \<in> set (map xr_id (take exhaustion_batch_size
              (order_by claim_key (filter (is_exhausted kind now) t))))"
  have "is_exhausted kind now r"
    using finalized_exhausted [of t r exhaustion_batch_size kind now] assms r i
    by (simp add: queue_inv_def)
  then show "row_step now (Claim owner) r (finalize_row exhausted_error now r)" by (rule exhausted)
qed simp

lemma claim_statement_step:
  assumes inv: "queue_inv t" and "now < expires" and "lease_owner_ok owner"
  shows "table_step now (Claim owner) t (fst (claim_statement owner expires kind now t))"
proof -
  have d: "distinct (map xr_id t)" using inv by (simp add: queue_inv_def)
  show ?thesis
proof (cases rule: claim_cases [OF d, of kind now owner expires, case_names none some])
  case none
  then show ?thesis by (simp add: table_step_refl [OF inv])
next
  case (some c)
  show ?thesis
  proof (rule table_stepI)
    have "row_inv c" using some(1) inv by (auto simp: queue_inv_def list_all_iff)
    then have new: "row_inv (claim_row owner expires now c)"
      using row_step_inv [OF claimed [OF some(2) assms(2,3)]] by simp
    have tab: "exec_table_ok (fst (claim_statement owner expires kind now t))"
      by (rule claim_ok [OF queue_inv_table [OF inv]])
    then have d: "distinct (map xr_id (fst (claim_statement owner expires kind now t)))"
      by (simp add: exec_table_ok_def)
    have "row_inv r" if r: "r \<in> set (fst (claim_statement owner expires kind now t))" for r
      using row_get_mem [OF d r] some(5) [of "xr_id r"] new queue_inv_row [OF inv] by (auto split: if_splits)
    with d show "queue_inv (fst (claim_statement owner expires kind now t))"
      by (simp add: queue_inv_def list_all_iff)
    fix i r assume r: "row_get xr_id i t = Some r"
    show "\<exists>r'. row_get xr_id i (fst (claim_statement owner expires kind now t)) = Some r'
        \<and> row_step now (Claim owner) r r'"
    proof (cases "i = xr_id c")
      case True
      with r row_get_mem [of xr_id t c] some(1) inv have "r = c" by (simp add: queue_inv_def)
      with True some(5) claimed [OF some(2) assms(2,3)] show ?thesis by auto
    next
      case False
      with r some(5) show ?thesis by (auto intro: stay)
    qed
  qed
qed
qed

text \<open>A finalization and the claim that follows it change a row at most once.\<close>

lemma finalize_claim_step:
  assumes inv: "queue_inv t" and "now < expires" and "lease_owner_ok owner"
  shows "table_step now (Claim owner) t
    (fst (claim_statement owner expires kind now (fst (finalize_exhausted_statement exhausted_error kind now t))))"
proof -
  let ?t1 = "fst (finalize_exhausted_statement exhausted_error kind now t)"
  have s1: "table_step now (Claim owner) t ?t1" by (rule finalize_step [OF inv])
  then have inv1: "queue_inv ?t1" by (simp add: table_step_def)
  have s2: "table_step now (Claim owner) ?t1 (fst (claim_statement owner expires kind now ?t1))"
    by (rule claim_statement_step [OF inv1 assms(2,3)])
  show ?thesis
  proof (rule table_stepI)
    show "queue_inv (fst (claim_statement owner expires kind now ?t1))" using s2 by (simp add: table_step_def)
    fix i r assume r: "row_get xr_id i t = Some r"
    then obtain r1 where r1: "row_get xr_id i ?t1 = Some r1" and a: "row_step now (Claim owner) r r1"
      and fin: "r1 = r \<or> r1 = finalize_row exhausted_error now r"
      using s1 by (fastforce simp: table_step_def finalize_get split: option.splits if_splits)
    then obtain r2 where r2: "row_get xr_id i (fst (claim_statement owner expires kind now ?t1)) = Some r2"
      and b: "row_step now (Claim owner) r1 r2"
      using s2 by (fastforce simp: table_step_def split: option.splits)
    have "row_step now (Claim owner) r r2"
    proof (cases "r1 = r")
      case True
      with b show ?thesis by simp
    next
      case False
      with fin have "is_terminal_status (xr_status r1)" by (auto simp: finalize_row_def)
      with b have "r2 = r1" by (rule row_step_terminal)
      with a show ?thesis by simp
    qed
    with r2 show "\<exists>r'. row_get xr_id i (fst (claim_statement owner expires kind now ?t1)) = Some r'
        \<and> row_step now (Claim owner) r r'" by auto
  qed
qed

lemma db_exec_claim:
  assumes "claim_execution_job env owner dur kind now d = Inr (d', j)"
  shows "lease_owner_ok owner" and "1000 \<le> dur"
    and "db_exec d' = fst (claim_statement owner (now + dur) kind now
           (fst (finalize_exhausted_statement exhausted_error kind now (db_exec d))))"
    and "j = Option.bind (snd (claim_statement owner (now + dur) kind now
           (fst (finalize_exhausted_statement exhausted_error kind now (db_exec d))))) parse_execution_job"
  using assms
  by (auto simp: claim_execution_job_def lease_expires_at_Inr Let_def split_beta
      db_exec_fold [where f = db_exec])

lemma retention_step:
  assumes inv: "queue_inv t" and "\<And>r. q r \<Longrightarrow> is_terminal_status (xr_status r)"
  shows "table_step now OtherWrite t (fst (row_delete q t))"
proof -
  have inv': "queue_inv (fst (row_delete q t))"
    using inv by (auto simp: queue_inv_def list_all_iff distinct_delete row_delete_def distinct_map_filter)
  have "row_get xr_id i (fst (row_delete q t)) = (if q r then None else Some r)"
    if r: "row_get xr_id i t = Some r" for i r
  proof (cases "q r")
    case True
    have "x = r" if "x \<in> set t" "xr_id x = i" for x
      using distinct_key_eq [of xr_id t x r] that inv row_get_Some [OF r] by (auto simp: queue_inv_def)
    with True show ?thesis by (auto simp: row_get_None_iff row_delete_def)
  next
    case False
    then have "r \<in> set (fst (row_delete q t))" using row_get_Some [OF r] by (simp add: row_delete_def)
    with row_get_mem [of xr_id "fst (row_delete q t)" r] inv' row_get_Some [OF r] False
    show ?thesis by (simp add: queue_inv_def)
  qed
  with inv' assms(2) show ?thesis by (simp add: table_step_def stay)
qed

theorem repo_step_row:
  assumes "repo_step env now a d d'" and "queue_inv (db_exec d)"
  shows "table_step now a (db_exec d) (db_exec d')"
  using assms
proof (cases rule: repo_step.cases)
  case (call_create e res j)
  then obtain d1 where p: "persist_execution_resource env res d = Inr d1"
    and "enqueue_execution env e now d1 = Inr (d', j)"
    by (auto simp: create_execution_resource_def split: if_splits)
  with call_create assms(2) db_exec_persist [OF p] enqueue_execution_step [of d1 env e now d' j] show ?thesis by simp
next
  case (call_followups i owner es js)
  then show ?thesis using assms(2) enqueue_all_step
    by (auto simp: enqueue_execution_jobs_def intro: table_step_refl split: if_splits)
next
  case (call_claim owner dur kind j)
  note c = db_exec_claim [OF call_claim(2)]
  show ?thesis unfolding call_claim(1) c(3)
    by (rule finalize_claim_step [OF assms(2) _ c(1)]) (use c(2) in simp)
next
  case (call_cancel i j)
  then have "db_exec d' = fst (cancel_statement i now (db_exec d))"
    using db_exec_cancel [of env i now d] by simp
  with call_cancel assms(2) show ?thesis by (simp add: cancel_statement_step)
qed (auto intro: enqueue_execution_step mark_running_step renew_step complete_step fail_step
      retention_step table_step_refl)

section \<open>Reachable databases and traces\<close>

definition empty_db :: db where
  "empty_db = \<lparr>db_jobs = [], db_properties = [], db_routeSets = [], db_profiles = [], db_comparisons = [],
     db_exports = [], db_analyses = [], db_audits = [], db_runs = [], db_artifacts = [], db_exec = []\<rparr>"

inductive reachable :: "env \<Rightarrow> db \<Rightarrow> bool" for env where
  initial: "reachable env empty_db"
| step: "reachable env d \<Longrightarrow> repo_step env now a d d' \<Longrightarrow> reachable env d'"

inductive repo_trace :: "env \<Rightarrow> (iso \<times> repo_action) list \<Rightarrow> db \<Rightarrow> db \<Rightarrow> bool" for env where
  trace_nil: "repo_trace env [] d d"
| trace_cons: "repo_step env now a d d1 \<Longrightarrow> repo_trace env tr d1 d' \<Longrightarrow>
    repo_trace env ((now, a) # tr) d d'"

lemma reachable_inv: "reachable env d \<Longrightarrow> queue_inv (db_exec d)"
proof (induction rule: reachable.induct)
  case initial
  then show ?case by (simp add: empty_db_def queue_inv_def)
next
  case (step d now a d')
  then show ?case using repo_step_row by (fastforce simp: table_step_def)
qed

lemma reachable_trace: "repo_trace env tr d d' \<Longrightarrow> reachable env d \<Longrightarrow> reachable env d'"
  by (induction rule: repo_trace.induct) (auto intro: reachable.step)

lemma job_row:
  assumes "get_execution_job i d = Some ej"
  shows "\<exists>r. row_get xr_id i (db_exec d) = Some r \<and> parse_execution_job r = Some ej"
  using assms by (auto simp: get_execution_job_def get_execution_row_def bind_eq_Some_conv)

lemma job_of_row:
  "row_get xr_id i (db_exec d) = Some r \<Longrightarrow> get_execution_job i d = parse_execution_job r"
  by (simp add: get_execution_job_def get_execution_row_def)

text \<open>One call, seen through the jobs it reads.\<close>

lemma repo_step_job:
  assumes "reachable env d" and "repo_step env now a d d'" and "get_execution_job i d = Some ej"
  obtains (kept) r r' ej' where "row_get xr_id i (db_exec d) = Some r" "parse_execution_job r = Some ej"
      "row_get xr_id i (db_exec d') = Some r'" "row_step now a r r'"
      "get_execution_job i d' = Some ej'" "parse_execution_job r' = Some ej'"
  | (removed) "get_execution_job i d' = None" "a = OtherWrite" "is_terminal_status (ej_status ej)"
proof -
  obtain r where r: "row_get xr_id i (db_exec d) = Some r" "parse_execution_job r = Some ej"
    using job_row [OF assms(3)] by blast
  have inv: "queue_inv (db_exec d)" using reachable_inv [OF assms(1)] .
  note tab = repo_step_row [OF assms(2) inv]
  show ?thesis
  proof (cases "row_get xr_id i (db_exec d')")
    case None
    with tab r(1) have "a = OtherWrite" "is_terminal_status (xr_status r)"
      by (fastforce simp: table_step_def)+
    moreover have "get_execution_job i d' = None"
      using None by (simp add: get_execution_job_def get_execution_row_def)
    ultimately show ?thesis using removed parse_fields(4) [OF r(2)] by simp
  next
    case (Some r')
    with tab r(1) have "row_step now a r r'" by (fastforce simp: table_step_def)
    moreover have "row_inv r'" using tab Some by (auto simp: table_step_def intro: queue_inv_row)
    then obtain ej' where "parse_execution_job r' = Some ej'" using parse_readable by blast
    ultimately show ?thesis using kept r Some job_of_row [OF Some] by simp
  qed
qed

end
