(* ===== verification/Queue_Properties.thy ===== *)
theory Queue_Properties
  imports Queue_Safety
begin

text \<open>
  The properties of the durable execution queue, for every database the repository can reach:
  table constraints, exclusive leases, which job a claim takes, bounded attempts and final
  statuses, the outcome of a completion and of a failure, what a terminal execution leaves in
  its resource, and who may write a result.
\<close>

section \<open>A small example\<close>

definition demo_env :: env where
  "demo_env = \<lparr>e_isUrl = (\<lambda>_. True), e_redactUrlQuery = (\<lambda>u. u)\<rparr>"

definition demo_payload :: json where
  "demo_payload = JObj [(''version'', JStr ''v1''), (''jobIds'', JArr [JStr ''j1''])]"

definition demo_job :: enqueue_job where
  "demo_job = \<lparr>eq_id = ''x1'', eq_kind = NetworkProbe, eq_resourceId = ''j1'', eq_maxAttempts = 2,
     eq_availableAt = None, eq_payload = demo_payload\<rparr>"

definition demo_row :: exec_row where
  "demo_row = \<lparr>xr_id = ''x1'', xr_kind = NetworkProbe, xr_resourceId = ''j1'', xr_status = EQueued,
     xr_leaseOwner = None, xr_leaseExpiresAt = None, xr_attemptCount = 0, xr_maxAttempts = 2,
     xr_availableAt = 0, xr_payload = Sealed demo_payload, xr_error = None, xr_createdAt = 0,
     xr_startedAt = None, xr_updatedAt = 0, xr_completedAt = None\<rparr>"

definition demo_db :: db where
  "demo_db = empty_db\<lparr>db_exec := [demo_row]\<rparr>"

lemma demo_payload_ok: "json_value_schema demo_payload"
  by (simp add: json_value_schema_def demo_payload_def utf8_length_def quote_json_def escape_char_def
      limit_defs is_safe_json_record_def reserved_json_keys_def)

lemma demo_job_ok: "enqueue_job_schema demo_job"
  by (simp add: enqueue_job_schema_def demo_job_def demo_payload_ok bounded_job_id_ok_def bounded_id_ok_def
      bounded_id_char_def is_alnum_def is_lower_def is_upper_def is_digit_def limit_defs)

lemma demo_row_inv: "row_inv demo_row"
  using fresh_row_inv [OF demo_job_ok, of 0 0] by (simp add: demo_row_def demo_job_def)

lemma demo_enqueued: "\<exists>j. enqueue_execution demo_env demo_job 0 empty_db = Inr (demo_db, j)"
proof -
  obtain ej where ej: "parse_execution_job demo_row = Some ej" using parse_readable [OF demo_row_inv] ..
  have st: "enqueue_statement demo_job 0 0 [] = ([demo_row], Some demo_row)"
    by (simp add: enqueue_statement_def row_insert_new_def demo_job_def demo_row_def)
  show ?thesis
    using ej st parse_fields(2,3) [OF ej] demo_job_ok
    by (simp add: enqueue_execution_def Let_def demo_db_def empty_db_def limit_defs)
       (simp add: demo_job_def demo_row_def)
qed

lemma demo_reachable: "reachable demo_env demo_db"
  using demo_enqueued reachable.intros repo_step.call_enqueue by metis

definition demo_claimed :: db where
  "demo_claimed = demo_db\<lparr>db_exec := [claim_row ''w1'' 1005 5 demo_row]\<rparr>"

lemma w_ok: "lease_owner_ok ''w1''" "lease_owner_ok ''w2''"
  by (simp_all add: lease_owner_ok_def len_between_def limit_defs)

lemma demo_claim: "\<exists>j. claim_execution_job demo_env ''w1'' 1000 None 5 demo_db = Inr (demo_claimed, j)"
proof -
  have e: "get_lease_expires_at ''w1'' 1000 5 = Inr 1005" by (simp add: lease_expires_at_Inr w_ok)
  have f: "finalize_exhausted_statement exhausted_error None 5 [demo_row] = ([demo_row], [])"
    by (simp add: finalize_exhausted_statement_def is_exhausted_def demo_row_def order_by_def row_update_def)
  have c: "claim_statement ''w1'' 1005 None 5 [demo_row]
      = ([claim_row ''w1'' 1005 5 demo_row], Some (claim_row ''w1'' 1005 5 demo_row))"
    by (simp add: claim_statement_def is_claimable_def is_due_iff kind_matches_def demo_row_def order_by_def
        row_update_def first_row_def)
  show ?thesis
    by (simp add: claim_execution_job_def e f c Let_def demo_db_def demo_claimed_def)
qed

lemma demo_claimed_reachable: "reachable demo_env demo_claimed"
  using demo_claim demo_reachable reachable.step repo_step.call_claim by metis

lemma demo_claimed_job:
  "\<exists>ej. get_execution_job ''x1'' demo_claimed = Some ej \<and> ej_status ej = ELeased
     \<and> ej_leaseOwner ej = Some ''w1'' \<and> ej_leaseExpiresAt ej = Some 1005 \<and> ej_attemptCount ej = 1"
proof -
  have "row_get xr_id ''x1'' (db_exec demo_claimed) = Some (claim_row ''w1'' 1005 5 demo_row)"
    by (simp add: demo_claimed_def) (simp add: demo_row_def)
  from job_of_row [OF this] parse_readable [OF queue_inv_row [OF reachable_inv [OF demo_claimed_reachable] this]]
  obtain ej where ej: "get_execution_job ''x1'' demo_claimed = Some ej"
    and p: "parse_execution_job (claim_row ''w1'' 1005 5 demo_row) = Some ej" by auto
  from ej parse_fields [OF p] show ?thesis by (simp add: claim_row_def demo_row_def)
qed

lemma demo_rival_claim: "\<exists>j. claim_execution_job demo_env ''w2'' 1000 None 900 demo_claimed = Inr (demo_claimed, j)"
proof -
  have e: "get_lease_expires_at ''w2'' 1000 900 = Inr 1900" by (simp add: lease_expires_at_Inr w_ok)
  have f: "finalize_exhausted_statement exhausted_error None 900 (db_exec demo_claimed) = (db_exec demo_claimed, [])"
    by (simp add: finalize_exhausted_statement_def is_exhausted_def is_due_iff demo_row_def demo_claimed_def
        claim_row_def order_by_def row_update_def)
  have c: "claim_statement ''w2'' 1900 None 900 (db_exec demo_claimed) = (db_exec demo_claimed, None)"
    by (simp add: claim_statement_def is_claimable_def is_due_iff demo_row_def demo_claimed_def
        claim_row_def order_by_def first_row_def)
  show ?thesis
    by (simp add: claim_execution_job_def e f c Let_def)
qed

section \<open>Constraints\<close>

lemma list_execution_jobs_length:
  assumes "queue_inv (db_exec d)"
  shows "length (list_execution_jobs d) = length (db_exec d)"
proof -
  have "parse_execution_job r \<noteq> None" if "r \<in> set (list_execution_rows (db_exec d))" for r
    using that parse_readable assms by (fastforce simp: list_execution_rows_def queue_inv_def list_all_iff)
  then have "length (List.map_filter parse_execution_job (list_execution_rows (db_exec d)))
      = length (list_execution_rows (db_exec d))"
    by (simp add: List.map_filter_def)
  then show ?thesis by (simp add: list_execution_jobs_def list_execution_rows_def)
qed

text \<open>Property C6. In every reachable database the execution table satisfies its primary key and
  CHECK constraints, and every row can be read back as a contract-conforming job.\<close>

theorem queue_constraints_hold:
  assumes "reachable env d"
  shows "exec_table_ok (db_exec d) \<and> length (list_execution_jobs d) = length (db_exec d)"
  using reachable_inv [OF assms] by (simp add: queue_inv_table list_execution_jobs_length)

lemma queue_constraints_hold_witness:
  "exec_table_ok (db_exec demo_db) \<and> length (list_execution_jobs demo_db) = length (db_exec demo_db)"
  by (rule queue_constraints_hold [OF demo_reachable])

section \<open>Leases\<close>

text \<open>Property C2. A live lease is exclusive: as long as every later call happens before the lease
  expires and is neither made by its owner on that job nor a cancellation of it, the job keeps its
  owner, status, attempts and expiry, whoever else claims, renews, completes or fails.\<close>

theorem live_lease_is_exclusive:
  assumes "repo_trace env tr d d'" and "reachable env d" and "get_execution_job i d = Some ej"
    and "ej_leaseOwner ej = Some owner" and "ej_leaseExpiresAt ej = Some e"
    and "list_all (\<lambda>(now, a). now < e \<and> a \<noteq> Own i owner \<and> a \<noteq> Cancel i) tr"
  shows "get_execution_job i d' = Some ej"
  using assms
proof (induction rule: repo_trace.induct)
  case (trace_nil d)
  then show ?case by simp
next
  case (trace_cons now a d d1 tr d')
  have "get_execution_job i d1 = Some ej"
    using trace_cons.prems(1) trace_cons.hyps(1) trace_cons.prems(2)
  proof (cases rule: repo_step_job)
    case (kept r r' ej')
    note f = parse_fields [OF kept(2)]
    have id: "xr_id r = i" using kept(1) by (auto dest: row_get_Some)
    have "exec_row_ok r" using queue_inv_row [OF reachable_inv [OF trace_cons.prems(1)] kept(1)]
      by (simp add: row_inv_def)
    then have "is_leased_status (xr_status r)" using trace_cons.prems f by (auto simp: exec_row_ok_def)
    with kept(4) have "r' = r"
      by (rule row_step_leased [where owner = owner and e = e]) (use trace_cons.prems f id in auto)
    with kept show ?thesis by simp
  next
    case removed
    have "lease_fields_ok ej" using job_row [OF trace_cons.prems(2)] parse_fields(11)
      by (auto simp: execution_job_schema_def)
    with removed trace_cons.prems show ?thesis
      by (auto simp: lease_fields_free dest: terminal_not_leased)
  qed
  with trace_cons reachable.step [OF trace_cons.prems(1) trace_cons.hyps(1)] show ?case by simp
qed

lemma live_lease_is_exclusive_witness:
  "\<exists>ej. get_execution_job ''x1'' demo_claimed = Some ej \<and> ej_leaseOwner ej = Some ''w1''"
proof -
  obtain j where "claim_execution_job demo_env ''w2'' 1000 None 900 demo_claimed = Inr (demo_claimed, j)"
    using demo_rival_claim by blast
  then have "repo_step demo_env 900 (Claim ''w2'') demo_claimed demo_claimed" by (rule call_claim)
  then have tr: "repo_trace demo_env [(900, Claim ''w2'')] demo_claimed demo_claimed"
    by (rule trace_cons [OF _ trace_nil])
  obtain ej where ej: "get_execution_job ''x1'' demo_claimed = Some ej"
    and l: "ej_leaseOwner ej = Some ''w1''" "ej_leaseExpiresAt ej = Some 1005"
    using demo_claimed_job by auto
  from live_lease_is_exclusive [OF tr demo_claimed_reachable ej l] l show ?thesis by simp
qed

section \<open>Claims\<close>

lemma claimable_after_finalize:
  assumes "queue_inv t"
  shows "{r \<in> set (fst (finalize_exhausted_statement err k now t)). is_claimable kind now r}
       = {r \<in> set t. is_claimable kind now r}"
proof -
  let ?ids = "set (map xr_id (take exhaustion_batch_size (order_by claim_key (filter (is_exhausted k now) t))))"
  have fin: "\<not> is_claimable kind now (finalize_row err now r)" for r
    by (auto simp: is_claimable_def is_due_iff finalize_row_def)
  have keep: "xr_id r \<notin> ?ids" if "r \<in> set t" "is_claimable kind now r" for r
    using finalized_exhausted [of t r exhaustion_batch_size k now] that claimable_not_exhausted assms
    by (auto simp: queue_inv_def)
  show ?thesis
    unfolding finalize_exhausted_statement_def Let_def set_update using fin keep by auto
qed

text \<open>What a claim takes.\<close>

lemma claim_first_claimable:
  assumes "reachable env d" and "claim_execution_job env owner dur kind now d = Inr (d', res)"
  shows "case res of
      None \<Rightarrow> filter (is_claimable kind now) (db_exec d) = []
    | Some ej \<Rightarrow>
        (\<exists>r \<in> set (db_exec d). is_claimable kind now r
           \<and> list_all (\<lambda>x. claim_key r \<le> claim_key x) (filter (is_claimable kind now) (db_exec d))
           \<and> get_execution_job (xr_id r) d' = Some ej
           \<and> parse_execution_job (claim_row owner (now + dur) now r) = Some ej)"
proof -
  let ?t1 = "fst (finalize_exhausted_statement exhausted_error kind now (db_exec d))"
  note c = db_exec_claim [OF assms(2)]
  have inv: "queue_inv (db_exec d)" using reachable_inv [OF assms(1)] .
  have inv1: "queue_inv ?t1" using finalize_step [OF inv] by (simp add: table_step_def)
  then have d1: "distinct (map xr_id ?t1)" by (simp add: queue_inv_def)
  have same: "{r \<in> set ?t1. is_claimable kind now r} = {r \<in> set (db_exec d). is_claimable kind now r}"
    by (rule claimable_after_finalize [OF inv])
  show ?thesis
  proof (cases rule: claim_cases [OF d1, of kind now owner "now + dur", case_names none some])
    case none
    then have "{r \<in> set ?t1. is_claimable kind now r} = {}" by (simp add: filter_empty_conv)
    then have "filter (is_claimable kind now) (db_exec d) = []" unfolding same by (simp add: filter_empty_conv)
    with none c(4) show ?thesis by simp
  next
    case (some r)
    have r: "r \<in> set (db_exec d)" using same some(1,2) by blast
    have least: "list_all (\<lambda>x. claim_key r \<le> claim_key x) (filter (is_claimable kind now) (db_exec d))"
      using same some(3) by (auto simp: list_all_iff)
    have "row_inv (claim_row owner (now + dur) now r)"
      using row_step_inv [OF claimed [OF some(2) _ c(1)]] c(2) queue_inv_row [OF inv1] some(1)
        row_get_mem [OF d1 some(1)] by simp
    then obtain ej where ej: "parse_execution_job (claim_row owner (now + dur) now r) = Some ej"
      using parse_readable by blast
    have "get_execution_job (xr_id r) d' = Some ej"
      using ej job_of_row [of "xr_id r" d'] some(5) [of "xr_id r"] c(3) by simp
    with r some(2,4) least ej c(4) show ?thesis by auto
  qed
qed



section \<open>Attempts and final statuses\<close>

text \<open>Property C4. No call of the repository changes a job that has succeeded, failed or been
  cancelled (only the retention may remove it), attempts never exceed their maximum, and only a claim
  raises them, by one.\<close>

theorem jobs_end_once_with_bounded_attempts:
  assumes "reachable env d" and "repo_step env now a d d'" and "get_execution_job i d = Some ej"
  shows "case get_execution_job i d' of
      None \<Rightarrow> is_terminal_status (ej_status ej) \<and> a = OtherWrite
    | Some ej' \<Rightarrow>
        ej_attemptCount ej' \<le> ej_maxAttempts ej' \<and> ej_maxAttempts ej' = ej_maxAttempts ej
        \<and> (if is_terminal_status (ej_status ej) then ej' = ej
           else ej_attemptCount ej' = ej_attemptCount ej
             + (if ej_attemptCount ej' = ej_attemptCount ej then 0 else 1)
             \<and> (ej_attemptCount ej' = ej_attemptCount ej \<or> (\<exists>owner. a = Claim owner)))"
  using assms
proof (cases rule: repo_step_job)
  case (kept r r' ej')
  note f = parse_fields [OF kept(2)] and f' = parse_fields [OF kept(6)]
  have "is_terminal_status (ej_status ej) \<Longrightarrow> ej' = ej"
    using row_step_terminal [OF kept(4)] f(4) kept(2,6) by simp
  with kept(5) row_step_attempts [OF kept(4)] row_step_same_job [OF kept(4)] f f' show ?thesis
    by (auto simp: execution_job_schema_def)
next
  case removed
  then show ?thesis by simp
qed

lemma jobs_end_once_with_bounded_attempts_witness:
  "case get_execution_job ''x1'' demo_claimed of
     None \<Rightarrow> False | Some ej' \<Rightarrow> ej_attemptCount ej' \<le> ej_maxAttempts ej'"
proof -
  obtain j where "claim_execution_job demo_env ''w1'' 1000 None 5 demo_db = Inr (demo_claimed, j)"
    using demo_claim by blast
  then have st: "repo_step demo_env 5 (Claim ''w1'') demo_db demo_claimed" by (rule call_claim)
  have "row_get xr_id ''x1'' (db_exec demo_db) = Some demo_row" by (simp add: demo_db_def demo_row_def)
  then obtain ej where ej: "get_execution_job ''x1'' demo_db = Some ej"
    using parse_readable [OF demo_row_inv] job_of_row by fastforce
  obtain ej' where ej': "get_execution_job ''x1'' demo_claimed = Some ej'" using demo_claimed_job by blast
  from jobs_end_once_with_bounded_attempts [OF demo_reachable st ej] ej' show ?thesis by simp
qed

section \<open>Completion and failure\<close>

definition holds_live_lease :: "string \<Rightarrow> iso \<Rightarrow> exec_job \<Rightarrow> bool" where
  "holds_live_lease owner now ej =
     (is_leased_status (ej_status ej) \<and> ej_leaseOwner ej = Some owner
      \<and> (case ej_leaseExpiresAt ej of None \<Rightarrow> False | Some e \<Rightarrow> now < e))"

lemma holds_lease_job:
  "parse_execution_job r = Some ej \<Longrightarrow> holds_lease owner now r = holds_live_lease owner now ej"
  by (auto simp: holds_lease_def holds_live_lease_def parse_fields)

lemma owner_update_job:
  assumes inv: "queue_inv (db_exec d)" and job: "get_execution_job i d = Some ej"
    and id: "\<And>r. xr_id (f r) = xr_id r"
    and step: "\<And>r. parse_execution_job r = Some ej \<Longrightarrow> xr_id r = i \<Longrightarrow> holds_lease owner now r \<Longrightarrow>
                 row_step now (Own i owner) r (f r)"
    and d': "d' = d\<lparr>db_exec := fst (owner_update f i owner now (db_exec d))\<rparr>"
    and lease: "holds_live_lease owner now ej"
  obtains r ej' where "row_get xr_id i (db_exec d) = Some r" and "parse_execution_job r = Some ej"
    and "snd (owner_update f i owner now (db_exec d)) = Some (f r)"
    and "parse_execution_job (f r) = Some ej'" and "get_execution_job i d' = Some ej'"
proof -
  obtain r where r: "row_get xr_id i (db_exec d) = Some r" "parse_execution_job r = Some ej"
    using job_row [OF job] by blast
  have h: "holds_lease owner now r" using lease holds_lease_job [OF r(2)] by simp
  have xi: "xr_id r = i" using r(1) by (auto dest: row_get_Some)
  have "row_inv (f r)" using row_step_inv [OF step [OF r(2) xi h]] queue_inv_row [OF inv r(1)] by simp
  then obtain ej' where ej': "parse_execution_job (f r) = Some ej'" using parse_readable by blast
  have ret: "snd (owner_update f i owner now (db_exec d)) = Some (f r)"
    using owner_update_returned [of "db_exec d" f i owner now] inv r(1) h by (simp add: queue_inv_def)
  have "row_get xr_id i (db_exec d') = Some (f r)" unfolding d'
    using owner_update_get [OF id, of i i owner now "db_exec d"] r(1) xi h by simp
  with that r ret ej' job_of_row [of i d'] show ?thesis by simp
qed

text \<open>A completion succeeds exactly for the holder of a live lease, or when the job has
  already succeeded: it then returns the job as succeeded, without lease and without error; anyone else
  gets nothing and changes nothing.\<close>

theorem complete_needs_the_lease:
  assumes "reachable env d" and "get_execution_job i d = Some ej" and "lease_owner_ok owner"
  shows "\<exists>d' res. complete_execution_job i owner now d = Inr (d', res)
    \<and> (if ej_status ej = ESucceeded then d' = d \<and> res = Some ej
       else if holds_live_lease owner now ej
       then get_execution_job i d' = res
         \<and> res = Some (ej\<lparr>ej_status := ESucceeded, ej_leaseOwner := None, ej_leaseExpiresAt := None,
                        ej_error := None, ej_updatedAt := now, ej_completedAt := Some now\<rparr>)
       else d' = d \<and> res = None)"
proof -
  have owner: "assert_lease_owner owner = Inr ()"
    using assms(3) by (cases owner)
      (auto simp: assert_lease_owner_def lease_owner_ok_def len_between_def limit_defs)
  have inv: "queue_inv (db_exec d)" using reachable_inv [OF assms(1)] .
  have guard: "((ej_status ej = ELeased \<or> ej_status ej = ERunning) \<and> ej_leaseOwner ej = Some owner
      \<and> (case ej_leaseExpiresAt ej of None \<Rightarrow> False | Some e \<Rightarrow> e > now)) = holds_live_lease owner now ej"
    by (simp add: holds_live_lease_def is_leased_status_def)
  show ?thesis
  proof (cases "ej_status ej \<noteq> ESucceeded \<and> holds_live_lease owner now ej")
    case False
    then show ?thesis using owner assms(2) guard by (auto simp: complete_execution_job_def)
  next
    case True
    let ?f = "completed_row now"
    define d' where "d' = d\<lparr>db_exec := fst (owner_update ?f i owner now (db_exec d))\<rparr>"
    obtain r ej' where r: "row_get xr_id i (db_exec d) = Some r" "parse_execution_job r = Some ej"
      and ret: "snd (owner_update ?f i owner now (db_exec d)) = Some (?f r)"
      and ej': "parse_execution_job (?f r) = Some ej'" "get_execution_job i d' = Some ej'"
    proof (rule owner_update_job [OF inv assms(2) _ _ d'_def])
      show "row_step now (Own i owner) x (completed_row now x)"
        if "xr_id x = i" "holds_lease owner now x" for x
        using completed [OF that(2)] that(1) by simp
    qed (use True in auto)
    have "ej' = ej\<lparr>ej_status := ESucceeded, ej_leaseOwner := None, ej_leaseExpiresAt := None,
        ej_error := None, ej_updatedAt := now, ej_completedAt := Some now\<rparr>"
      using r(2) ej'(1)
      by (cases "xr_payload r")
         (auto simp: parse_execution_job_def completed_row_def Let_def split: option.splits if_splits)
    moreover have "complete_execution_job i owner now d = Inr (d', Some ej')"
      using True owner assms(2) guard ret ej'(1)
      by (simp add: complete_execution_job_def complete_statement_def Let_def d'_def split_beta)
    ultimately show ?thesis using True ej'(2) by simp
  qed
qed

lemma complete_needs_the_lease_witness:
  "\<exists>d' res. complete_execution_job ''x1'' ''w2'' 900 demo_claimed = Inr (d', res) \<and> res = None \<and> d' = demo_claimed"
proof -
  obtain ej where ej: "get_execution_job ''x1'' demo_claimed = Some ej"
    and "ej_status ej = ELeased" "ej_leaseOwner ej = Some ''w1''"
    using demo_claimed_job by auto
  with complete_needs_the_lease [OF demo_claimed_reachable ej w_ok(2), of 900] show ?thesis
    by (simp add: holds_live_lease_def)
qed

lemma fail_persisted_leased:
  assumes "holds_live_lease owner now ej"
  shows "fail_persisted env i owner err delay now ej d =
    (let terminal = (\<not> xe_retryable err \<or> ej_attemptCount ej \<ge> ej_maxAttempts ej);
         u = owner_update (failed_row (if terminal then EFailed else EQueued)
               (if terminal then ej_availableAt ej else now + delay) err
               (if terminal then Some now else None) now) i owner now (db_exec d)
     in settle_failed env now (d\<lparr>db_exec := fst u\<rparr>) (snd u))"
proof -
  have nt: "\<not> is_terminal_status (ej_status ej)"
    using assms terminal_not_leased by (auto simp: holds_live_lease_def)
  have g: "\<not> (ej_leaseOwner ej \<noteq> Some owner
      \<or> (case ej_leaseExpiresAt ej of None \<Rightarrow> True | Some e \<Rightarrow> e \<le> now))"
    using assms by (auto simp: holds_live_lease_def split: option.splits)
  show ?thesis
    unfolding fail_persisted_def if_not_P [OF nt] if_not_P [OF g] update_failed_statement_def Let_def split_beta
    by (rule refl)
qed

text \<open>Property C5. A failure reported by the holder of a live lease puts the job back into the queue,
  available after the retry delay, exactly when the error is retryable and attempts are left; otherwise
  the job is failed for good. Either way the lease is gone and the error is recorded.\<close>

theorem failure_requeues_or_ends:
  assumes "reachable env d" and "get_execution_job i d = Some ej" and "lease_owner_ok owner"
    and "holds_live_lease owner now ej" and "execution_error_schema err"
    and "0 \<le> delay" and "delay \<le> 86400000"
  shows "\<exists>d' ej'. fail_execution_job env i owner err (Some delay) now d = Inr (d', Some ej')
    \<and> get_execution_job i d' = Some ej'
    \<and> ej' = ej\<lparr>ej_status := (if xe_retryable err \<and> ej_attemptCount ej < ej_maxAttempts ej then EQueued else EFailed),
                 ej_leaseOwner := None, ej_leaseExpiresAt := None,
                 ej_availableAt := (if xe_retryable err \<and> ej_attemptCount ej < ej_maxAttempts ej
                                    then now + delay else ej_availableAt ej),
                 ej_error := Some err, ej_updatedAt := now,
                 ej_completedAt := (if xe_retryable err \<and> ej_attemptCount ej < ej_maxAttempts ej
                                    then None else Some now)\<rparr>"
proof -
  define retry where "retry = (xe_retryable err \<and> ej_attemptCount ej < ej_maxAttempts ej)"
  define terminal where "terminal = (\<not> xe_retryable err \<or> ej_attemptCount ej \<ge> ej_maxAttempts ej)"
  define f where "f = failed_row (if terminal then EFailed else EQueued)
      (if terminal then ej_availableAt ej else now + delay) err (if terminal then Some now else None) now"
  define d1 where "d1 = d\<lparr>db_exec := fst (owner_update f i owner now (db_exec d))\<rparr>"
  have owner: "assert_lease_owner owner = Inr ()"
    using assms(3) by (cases owner)
      (auto simp: assert_lease_owner_def lease_owner_ok_def len_between_def limit_defs)
  have retry: "retry = (\<not> terminal)" by (auto simp: retry_def terminal_def)
  obtain r ej' where r: "parse_execution_job r = Some ej"
    and ret: "snd (owner_update f i owner now (db_exec d)) = Some (f r)"
    and ej': "parse_execution_job (f r) = Some ej'" "get_execution_job i d1 = Some ej'"
  proof (rule owner_update_job [OF reachable_inv [OF assms(1)] assms(2) _ _ d1_def assms(4)])
    fix x assume x: "parse_execution_job x = Some ej" "xr_id x = i" "holds_lease owner now x"
    note fx = parse_fields [OF x(1)]
    show "row_step now (Own i owner) x (f x)"
    proof (cases terminal)
      case True
      with failed [OF x(3) assms(5)] x(2) fx show ?thesis by (simp add: f_def terminal_def)
    next
      case False
      with requeued [OF x(3) assms(5) _ _ assms(6)] x(2) fx show ?thesis by (simp add: f_def terminal_def)
    qed
  qed (simp_all add: f_def)
  have fields: "ej' = ej\<lparr>ej_status := (if retry then EQueued else EFailed), ej_leaseOwner := None,
      ej_leaseExpiresAt := None, ej_availableAt := (if retry then now + delay else ej_availableAt ej),
      ej_error := Some err, ej_updatedAt := now, ej_completedAt := (if retry then None else Some now)\<rparr>"
    using r ej'(1) assms(5) parse_fields(9) [OF r] retry
    by (cases "xr_payload r")
       (auto simp: parse_execution_job_def f_def failed_row_def Let_def split: option.splits if_splits)
  define d2 where "d2 = fst (settle_failed env now d1 (Some (f r)))"
  have "fail_persisted env i owner err delay now ej d = (d2, Some ej')"
    unfolding fail_persisted_leased [OF assms(4)] Let_def terminal_def [symmetric] f_def [symmetric]
      d1_def [symmetric] d2_def using ret ej'(1) by (simp add: settle_failed_def)
  then have run: "fail_execution_job env i owner err (Some delay) now d = Inr (d2, Some ej')"
    using owner assms by (simp add: fail_execution_job_def is_safe_integer_def limit_defs)
  have d2: "db_exec d2 = db_exec d1" by (simp add: d2_def)
  from d2 ej'(2) have "get_execution_job i d2 = Some ej'"
    by (simp add: get_execution_job_def get_execution_row_def)
  with run fields show ?thesis unfolding retry_def by blast
qed

definition demo_error :: "bool \<Rightarrow> exec_error" where
  "demo_error retryable = \<lparr>xe_code = ''timeout'', xe_message = ''probe timed out'', xe_retryable = retryable\<rparr>"

lemma demo_error_ok: "execution_error_schema (demo_error b)"
  by (simp add: demo_error_def execution_error_schema_def len_between_def limit_defs)

lemma failure_requeues_or_ends_witness:
  "\<exists>d' ej'. fail_execution_job demo_env ''x1'' ''w1'' (demo_error True) (Some 2000) 100 demo_claimed = Inr (d', Some ej')
     \<and> ej_status ej' = EQueued \<and> ej_availableAt ej' = 2100 \<and> ej_leaseOwner ej' = None"
proof -
  obtain ej where ej: "get_execution_job ''x1'' demo_claimed = Some ej"
    and l: "ej_status ej = ELeased" "ej_leaseOwner ej = Some ''w1''" "ej_leaseExpiresAt ej = Some 1005"
      "ej_attemptCount ej = 1"
    using demo_claimed_job by auto
  obtain r where r: "row_get xr_id ''x1'' (db_exec demo_claimed) = Some r" "parse_execution_job r = Some ej"
    using job_row [OF ej] by blast
  then have "r = claim_row ''w1'' 1005 5 demo_row" by (auto simp: demo_claimed_def split: if_splits)
  then have m: "ej_maxAttempts ej = 2" using parse_fields(8) [OF r(2)] by (simp add: claim_row_def demo_row_def)
  have "holds_live_lease ''w1'' 100 ej" using l by (simp add: holds_live_lease_def)
  from failure_requeues_or_ends [OF demo_claimed_reachable ej w_ok(1) this demo_error_ok [of True], of 2000]
  obtain d' ej' where f: "fail_execution_job demo_env ''x1'' ''w1'' (demo_error True) (Some 2000) 100 demo_claimed
      = Inr (d', Some ej')"
    and e: "ej' = ej\<lparr>ej_status := (if xe_retryable (demo_error True) \<and> ej_attemptCount ej < ej_maxAttempts ej then EQueued else EFailed),
                 ej_leaseOwner := None, ej_leaseExpiresAt := None,
                 ej_availableAt := (if xe_retryable (demo_error True) \<and> ej_attemptCount ej < ej_maxAttempts ej
                                    then 100 + 2000 else ej_availableAt ej),
                 ej_error := Some (demo_error True), ej_updatedAt := 100,
                 ej_completedAt := (if xe_retryable (demo_error True) \<and> ej_attemptCount ej < ej_maxAttempts ej
                                    then None else Some 100)\<rparr>"
    by auto
  have "xe_retryable (demo_error True) \<and> ej_attemptCount ej < ej_maxAttempts ej"
    using l(4) m by (simp add: demo_error_def)
  with f e show ?thesis by simp
qed

end
