(* ===== verification/Resource_Properties.thy ===== *)
theory Resource_Properties
  imports Queue_Properties
begin

text \<open>
  What executions do to the resources they serve: a terminal execution leaves no target of its
  jobs in flight and no audit unfinished, a result is stored only under a running lease, webhook
  deliveries are recorded once per target, and an audit never has more than fifty artifacts.
\<close>

section \<open>Settled jobs\<close>

definition job_settled :: "latency_job \<Rightarrow> bool" where
  "job_settled j = list_all (\<lambda>t. is_terminal_target_status (tgt_status t)) (job_targets j)"

lemma settle_target_terminal: "is_terminal_target_status (tgt_status (settle_target c m now t))"
  by (simp add: settle_target_def is_terminal_target_status_def)

lemma settle_job_settled: "job_settled (settle_job c m now j)"
  by (simp add: job_settled_def settle_job_def Let_def list_all_iff settle_target_terminal)

lemma settle_job_id [simp]: "job_id (settle_job c m now j) = job_id j"
  by (simp add: settle_job_def Let_def)

text \<open>The targets that had ended keep their result; the others fail with the given error.\<close>

lemma settle_job_targets:
  "job_targets (settle_job c m now j) = map (settle_target c m now) (job_targets j)"
  by (simp add: settle_job_def Let_def)

lemma sync_job_rows_ok [simp]:
  "job_rows_ok d \<Longrightarrow> job_rows_ok (sync_network_job env c m now i d)"
  by (simp add: sync_network_job_def split: option.split)

lemma sync_job_get:
  assumes "job_rows_ok d" and "get_job env k (sync_network_job env c m now i d) = Some j"
  shows "get_job env k d = Some j \<or> job_settled j"
  using assms get_job_id [OF assms(1)] settle_job_settled
  by (auto simp: sync_network_job_def get_job_persist split: option.splits if_splits)

lemma sync_job_settles:
  assumes "job_rows_ok d" and "get_job env i (sync_network_job env c m now i d) = Some j"
  shows "job_settled j"
proof (cases "get_job env i d")
  case None
  with assms show ?thesis by (simp add: sync_network_job_def)
next
  case (Some job)
  with assms get_job_id [OF assms(1) Some] settle_job_settled show ?thesis
    by (auto simp: sync_network_job_def get_job_persist job_settled_def is_terminal_target_status_def
        split: if_splits)
qed

lemma fold_sync_settled:
  assumes "job_rows_ok d" and "get_job env k (fold (sync_network_job env c m now) ids d) = Some j"
    and "k \<in> set ids \<or> (\<forall>j. get_job env k d = Some j \<longrightarrow> job_settled j)"
  shows "job_settled j"
  using assms
proof (induction ids arbitrary: d)
  case (Cons i ids)
  have "k \<in> set ids \<or> (\<forall>j. get_job env k (sync_network_job env c m now i d) = Some j \<longrightarrow> job_settled j)"
    using Cons.prems(1,3) sync_job_settles sync_job_get by (metis set_ConsD)
  from Cons.IH [OF sync_job_rows_ok [OF Cons.prems(1)] _ this] Cons.prems(2) show ?case by simp
qed simp


definition demo_latency_job :: latency_job where
  "demo_latency_job = \<lparr>job_id = ''j1'', job_url = ''https://a.example/'', job_status = JMeasuring, job_note = None,
     job_request = None, job_monitorPolicy = None, job_requestedAt = 0, job_startedAt = Some 1,
     job_completedAt = None, job_requesterIp = None, job_region = ''eu'', job_historicalRegions = None,
     job_targets = [(sample_target TMeasuring None None)\<lparr>tgt_statusCode := None\<rparr>], job_evaluation = None,
     job_summary = \<lparr>sm_total = 1, sm_succeeded = 0, sm_failed = 0, sm_inflight = 1\<rparr>\<rparr>"

definition demo_job_db :: db where
  "demo_job_db = persist_job demo_env demo_latency_job demo_claimed"

lemma demo_rows_ok: "job_rows_ok demo_claimed" "audit_rows_ok demo_claimed" "run_rows_ok demo_claimed"
  by (simp_all add: job_rows_ok_def audit_rows_ok_def run_rows_ok_def demo_claimed_def demo_db_def empty_db_def)

lemma demo_job_db_ok: "job_rows_ok demo_job_db" "audit_rows_ok demo_job_db"
  using demo_rows_ok by (simp_all add: demo_job_db_def) (simp add: audit_rows_ok_def persist_job_def)

lemma demo_decode: "decode_network_payload demo_payload = Some \<lparr>np_jobIds = [''j1''], np_checkId = None, np_runId = None\<rparr>"
  by (simp add: demo_payload_def json_field_def len_between_def limit_defs)


section \<open>Results\<close>

text \<open>Property C8. A result is stored only for the owner of a running, unexpired lease on the
  execution; any other caller gets \<open>false\<close> and the database is unchanged. Storing a result never
  touches the queue.\<close>

theorem result_needs_a_running_lease:
  assumes "save_execution_resource_result env i owner result now d = Inr (d', saved)"
  shows "db_exec d' = db_exec d
    \<and> (if saved
       then (\<exists>ej e. get_execution_job i d = Some ej \<and> ej_status ej = ERunning \<and> ej_leaseOwner ej = Some owner
               \<and> ej_leaseExpiresAt ej = Some e \<and> now < e)
            \<and> persist_execution_resource env result d = Inr d'
       else d' = d \<and> \<not> owns_running_execution_lease i owner now d)"
  using assms db_exec_result [OF assms]
  by (auto simp: save_execution_resource_result_def owns_running_execution_lease_def
      split: if_splits option.splits)

definition demo_running :: db where
  "demo_running = demo_claimed\<lparr>db_exec := [running_row 1200 200 (claim_row ''w1'' 1005 5 demo_row)]\<rparr>"

lemma demo_start: "\<exists>j. mark_execution_job_running ''x1'' ''w1'' 1000 200 demo_claimed = Inr (demo_running, j)"
proof -
  have e: "get_lease_expires_at ''w1'' 1000 200 = Inr 1200" by (simp add: lease_expires_at_Inr w_ok)
  show ?thesis
    by (simp add: mark_execution_job_running_def e mark_running_statement_def owner_update_def row_update_def
        demo_claimed_def demo_running_def holds_lease_def first_row_def Let_def)
       (simp add: claim_row_def demo_row_def)
qed

lemma demo_running_reachable: "reachable demo_env demo_running"
  using demo_start demo_claimed_reachable reachable.step repo_step.call_start by metis

lemma demo_owns: "owns_running_execution_lease ''x1'' ''w1'' 300 demo_running"
proof -
  have g: "row_get xr_id ''x1'' (db_exec demo_running) = Some (running_row 1200 200 (claim_row ''w1'' 1005 5 demo_row))"
    by (simp add: demo_running_def) (simp add: demo_row_def)
  obtain ej where ej: "parse_execution_job (running_row 1200 200 (claim_row ''w1'' 1005 5 demo_row)) = Some ej"
    using parse_readable [OF queue_inv_row [OF reachable_inv [OF demo_running_reachable] g]] by blast
  with job_of_row [OF g] parse_fields [OF ej] show ?thesis
    by (simp add: owns_running_execution_lease_def running_row_def claim_row_def)
qed

lemma result_needs_a_running_lease_witness:
  "\<exists>ej. get_execution_job ''x1'' demo_running = Some ej \<and> ej_status ej = ERunning \<and> ej_leaseOwner ej = Some ''w1''"
proof -
  have "save_execution_resource_result demo_env ''x1'' ''w1'' (NetworkResult [demo_latency_job] None) 300 demo_running
      = Inr (persist_job demo_env demo_latency_job demo_running, True)"
    by (simp add: save_execution_resource_result_def demo_owns)
  from result_needs_a_running_lease [OF this] show ?thesis by auto
qed

section \<open>Deliveries\<close>

text \<open>Recording a webhook delivery is idempotent per target: the first delivery to a
  target is appended to the run, and a repetition of the call, with whatever outcome, changes nothing.\<close>

theorem delivery_recorded_once:
  assumes "run_rows_ok d" and "append_alert_delivery env i dl d = Inr d1"
    and "get_check_profile_run env i d1 = Some run" and "ad_targetId dl2 = ad_targetId dl"
  shows "append_alert_delivery env i dl2 d1 = Inr d1
    \<and> ad_targetId dl \<in> ad_targetId ` set (run_alertDeliveries run)"
proof -
  obtain run0 where r0: "get_check_profile_run env i d = Some run0"
    using assms(2) by (auto simp: append_alert_delivery_def split: option.splits)
  have id: "run_id run0 = i" by (rule get_run_id [OF assms(1) r0])
  have "\<exists>item \<in> set (run_alertDeliveries run). ad_targetId item = ad_targetId dl"
    using assms(2,3) r0 id
    by (auto simp: append_alert_delivery_def get_run_persist split: if_splits)
  then obtain item where item: "item \<in> set (run_alertDeliveries run)" "ad_targetId item = ad_targetId dl" ..
  then have "ad_targetId dl \<in> ad_targetId ` set (run_alertDeliveries run)" by (metis imageI)
  moreover have "append_alert_delivery env i dl2 d1 = Inr d1"
    using assms(3,4) item by (auto simp: append_alert_delivery_def)
  ultimately show ?thesis by blast
qed

definition demo_run :: profile_run where
  "demo_run = \<lparr>run_id = ''r1'', run_profileId = ''c1'', run_trigger = Manual, run_createdAt = 0, run_routeCount = 1,
     run_routes = [\<lparr>rr_routeId = ''home'', rr_routeLabel = ''Home'', rr_url = ''https://a.example/'', rr_jobId = ''j1'',
                    rr_browserAudit = None\<rparr>],
     run_browserAuditSummary = None, run_evaluation = None, run_alertDeliveries = []\<rparr>"

definition demo_delivery :: "delivery_status \<Rightarrow> alert_delivery" where
  "demo_delivery st = \<lparr>ad_targetId = ''t1'', ad_targetName = ''Ops'', ad_url = ''https://h.example/'',
     ad_deliveredAt = 5, ad_status = st, ad_responseStatus = None, ad_error = None\<rparr>"

lemmas schema_eval =
  schema_defs opt_ok_simps len_between_def bounded_job_id_ok_def bounded_id_ok_def bounded_id_char_def
  is_alnum_def is_lower_def is_upper_def is_digit_def

lemma demo_run_ok:
  "profile_run_schema (e_isUrl demo_env) demo_run"
  "profile_run_schema (e_isUrl demo_env) (demo_run\<lparr>run_alertDeliveries := [demo_delivery st]\<rparr>)"
  by (simp_all add: demo_run_def demo_env_def demo_delivery_def schema_eval)

lemma delivery_recorded_once_witness:
  "\<exists>d1. append_alert_delivery demo_env ''r1'' (demo_delivery DeliveryFailed) (persist_check_profile_run demo_run demo_claimed) = Inr d1
     \<and> append_alert_delivery demo_env ''r1'' (demo_delivery DeliverySent) d1 = Inr d1"
proof -
  let ?d = "persist_check_profile_run demo_run demo_claimed"
  let ?r1 = "demo_run\<lparr>run_alertDeliveries := [demo_delivery DeliveryFailed]\<rparr>"
  have ok: "run_rows_ok ?d" using demo_rows_ok(3) by simp
  have id: "run_id demo_run = ''r1''" "run_alertDeliveries demo_run = []" by (simp_all add: demo_run_def)
  have a: "append_alert_delivery demo_env ''r1'' (demo_delivery DeliveryFailed) ?d
      = Inr (persist_check_profile_run ?r1 ?d)"
    by (simp add: append_alert_delivery_def get_run_persist demo_run_ok id)
  have g: "get_check_profile_run demo_env ''r1'' (persist_check_profile_run ?r1 ?d) = Some ?r1"
    by (simp add: get_run_persist demo_run_ok id)
  have "ad_targetId (demo_delivery DeliverySent) = ad_targetId (demo_delivery DeliveryFailed)"
    by (simp add: demo_delivery_def)
  from delivery_recorded_once [OF ok a g this] a show ?thesis by blast
qed

section \<open>Artifacts\<close>

definition artifact_row_ok :: "artifact_record \<Rightarrow> bool" where
  "artifact_row_ok r =
     (artifact_storage_segment_ok (af_auditId r) \<and> artifact_storage_segment_ok (af_id r)
      \<and> af_storageKey r = af_auditId r @ ''/'' @ af_id r)"

definition artifact_table_ok :: "db \<Rightarrow> bool" where
  "artifact_table_ok d =
     (distinct (map af_id (db_artifacts d)) \<and> list_all artifact_row_ok (db_artifacts d)
      \<and> (\<forall>audit. count_artifacts audit d \<le> 50))"

lemma normalize_fields:
  assumes "normalize_artifact_record a = Some b"
  shows "af_id b = af_id a" "af_auditId b = af_auditId a" "artifact_row_ok b"
  using assms by (auto simp: normalize_artifact_record_def artifact_row_ok_def split: option.splits if_splits)

lemma get_artifact_row_mem:
  "get_artifact_row x i d \<noteq> None \<Longrightarrow> i \<in> af_id ` set (db_artifacts d)"
proof -
  assume "get_artifact_row x i d \<noteq> None"
  then obtain r rs where "filter (\<lambda>r. af_auditId r = x \<and> af_id r = i) (db_artifacts d) = r # rs"
    by (auto simp: get_artifact_row_def first_row_def split: list.splits)
  then have "r \<in> set (filter (\<lambda>r. af_auditId r = x \<and> af_id r = i) (db_artifacts d))" by simp
  then show ?thesis by auto
qed

text \<open>Artifacts: an audit never has more than fifty, identifiers stay unique, and a save
  answers \<open>true\<close> exactly when the identifier was free and the audit had room; only then is one row
  added.\<close>

theorem artifact_limit_holds:
  assumes "artifact_table_ok d" and "save_browser_audit_artifact a d = Inr (d', saved)"
  shows "artifact_table_ok d'
    \<and> saved = (af_id a \<notin> af_id ` set (db_artifacts d) \<and> count_artifacts (af_auditId a) d < 50)
    \<and> count_artifacts (af_auditId a) d' = count_artifacts (af_auditId a) d + (if saved then 1 else 0)"
proof -
  obtain b where b: "normalize_artifact_record a = Some b"
    using assms(2) by (auto simp: save_browser_audit_artifact_def split: option.splits)
  note nf = normalize_fields [OF b]
  define room where "room = (count_artifacts (af_auditId a) d < 50)"
  consider (skip) "d' = d" "\<not> saved" "af_id a \<in> af_id ` set (db_artifacts d) \<or> \<not> room"
    | (add) "d' = d\<lparr>db_artifacts := db_artifacts d @ [b]\<rparr>" "saved"
        "af_id a \<notin> af_id ` set (db_artifacts d)" "room"
    using assms(2) b nf get_artifact_row_mem [of "af_auditId a" "af_id a" d]
    by (fastforce simp: save_browser_audit_artifact_def row_insert_new_def room_def
        max_artifacts_per_audit_def Let_def split: if_splits)
  then show ?thesis
  proof cases
    case skip
    with assms(1) show ?thesis by (auto simp: room_def)
  next
    case add
    have count: "count_artifacts x d' = count_artifacts x d + (if x = af_auditId a then 1 else 0)" for x
      using add(1) nf(2) by (simp add: count_artifacts_def)
    have "count_artifacts x d' \<le> 50" for x
      using assms(1) add(4) count [of x] by (auto simp: artifact_table_ok_def room_def)
    with assms(1) add nf count show ?thesis by (auto simp: artifact_table_ok_def room_def)
  qed
qed

definition demo_artifact :: artifact_record where
  "demo_artifact = \<lparr>af_id = ''a1'', af_auditId = ''audit1'', af_registryVersion = ''v1'', af_kind = ''har'',
     af_filename = ''x.har'', af_contentType = ''application/json'', af_byteSize = 10,
     af_sha256 = replicate 64 (CHR ''a''), af_storageKey = ''audit1/a1'', af_createdAt = 0\<rparr>"

lemma demo_artifact_ok: "normalize_artifact_record demo_artifact = Some demo_artifact"
proof -
  have k: "parse_artifact_kind ''har'' = Some ''har''" by code_simp
  have t: "artifact_content_types_for_kind ''har'' = [''application/json'']"
    by (simp add: artifact_content_types_for_kind_def standard_artifact_content_types_def)
  show ?thesis
    by (simp add: normalize_artifact_record_def demo_artifact_def k t artifact_storage_segment_ok_def
        is_alnum_def is_lower_def is_upper_def is_digit_def len_between_def is_lower_hex_def list_all_iff)
qed

lemma artifact_limit_holds_witness:
  "\<exists>d'. save_browser_audit_artifact demo_artifact demo_claimed = Inr (d', True) \<and> count_artifacts ''audit1'' d' = 1"
proof -
  have e: "db_artifacts demo_claimed = []" by (simp add: demo_claimed_def demo_db_def empty_db_def)
  have ok: "artifact_table_ok demo_claimed" by (simp add: artifact_table_ok_def e count_artifacts_def)
  obtain d' s where s: "save_browser_audit_artifact demo_artifact demo_claimed = Inr (d', s)"
    using demo_artifact_ok
    by (simp add: save_browser_audit_artifact_def get_artifact_row_def e first_row_def row_insert_new_def
        count_artifacts_def max_artifacts_per_audit_def)
  have "af_auditId demo_artifact = ''audit1''" by (simp add: demo_artifact_def)
  with artifact_limit_holds [OF ok s] s e show ?thesis by (simp add: count_artifacts_def)
qed

text \<open>The normalizer trims the kind after it has mapped the legacy names, so a record whose kind is
  \<open>' json'\<close> is accepted and stored under the legacy name, and cannot be read back.\<close>

definition odd_artifact :: artifact_record where
  "odd_artifact = demo_artifact\<lparr>af_kind := '' json'', af_contentType := ''text/html''\<rparr>"

lemma stored_artifact_may_be_unreadable:
  "\<exists>b. normalize_artifact_record odd_artifact = Some b \<and> normalize_artifact_record b = None"
proof -
  have k: "parse_artifact_kind '' json'' = Some ''json''" "parse_artifact_kind ''json'' = Some ''lighthouse-json''"
    by code_simp+
  have t: "artifact_content_types_for_kind ''json'' = default_artifact_content_types"
    "artifact_content_types_for_kind ''lighthouse-json'' = [''application/json'']"
    by (simp_all add: artifact_content_types_for_kind_def standard_artifact_content_types_def)
  have "normalize_artifact_record odd_artifact = Some (odd_artifact\<lparr>af_kind := ''json''\<rparr>)"
    by (simp add: normalize_artifact_record_def odd_artifact_def demo_artifact_def k t artifact_storage_segment_ok_def
        is_alnum_def is_lower_def is_upper_def is_digit_def len_between_def is_lower_hex_def list_all_iff
        default_artifact_content_types_def)
  moreover have "normalize_artifact_record (odd_artifact\<lparr>af_kind := ''json''\<rparr>) = None"
    by (simp add: normalize_artifact_record_def k t odd_artifact_def)
  ultimately show ?thesis by blast
qed

end
