(* ===== verification/Retention.thy ===== *)
theory Retention
  imports Queue_Safety
begin

text \<open>
  \<open>cleanupSqliteRetention\<close> (\<open>apps/api/src/database/operations.ts\<close>): the deletion of old
  data in bounded batches, on a migrated database whose rows of the discontinued regional runtime
  (\<open>regional_execution_targets\<close> and the entities of kind \<open>regional_execution\<close>) are absent, as they
  are unless it was upgraded from the release that had that runtime: the two regional phases then
  delete nothing and the \<open>NOT EXISTS\<close> clauses on target links are true. A statement with
  \<open>LIMIT\<close> deletes the first rows it meets; the derived entities share one table, taken here in
  the order comparisons, exports, analyses, audits. The batches are not one transaction: when the
  limit is exceeded the rows deleted so far are gone and the call throws. A retention so long that
  the cutoff leaves the range of \<open>Date\<close> makes \<open>toISOString\<close> throw.
\<close>

section \<open>Deletion in batches\<close>

definition retention_delete_batch_size :: nat where "retention_delete_batch_size = 500"
definition retention_delete_maximum_batches :: nat where "retention_delete_maximum_batches = 200"

fun delete_limit :: "nat \<Rightarrow> ('r \<Rightarrow> bool) \<Rightarrow> 'r list \<Rightarrow> 'r list" where
  "delete_limit n p [] = []"
| "delete_limit n p (r # rs) =
     (if n \<noteq> 0 \<and> p r then delete_limit (n - 1) p rs else r # delete_limit n p rs)"

fun delete_batches :: "nat \<Rightarrow> ('r \<Rightarrow> bool) \<Rightarrow> 'r list \<Rightarrow> nat \<Rightarrow> 'r list \<times> nat throws" where
  "delete_batches 0 p t deleted = (t, throw ''SQLite general retention exceeded its bounded batch limit'')"
| "delete_batches (Suc k) p t deleted =
     (let t' = delete_limit retention_delete_batch_size p t; changes = length t - length t' in
      if changes < retention_delete_batch_size then (t', return (deleted + changes))
      else delete_batches k p t' (deleted + changes))"

definition delete_rows_in_batches :: "('r \<Rightarrow> bool) \<Rightarrow> 'r list \<Rightarrow> 'r list \<times> nat throws" where
  "delete_rows_in_batches p t = delete_batches retention_delete_maximum_batches p t 0"

section \<open>The cleanup\<close>

record retention_result =
  ret_jobs :: nat
  ret_checkRuns :: nat
  ret_executionJobs :: nat
  ret_derivedResources :: nat
  ret_regionalExecutions :: nat
  ret_regionalTargetLinks :: nat
  ret_artifactIndexes :: nat

definition old_job :: "iso \<Rightarrow> job_row \<Rightarrow> bool" where
  "old_job cutoff r = (jr_requestedAt r < cutoff \<and> is_terminal_job_status (jr_status r))"

definition old_run :: "iso \<Rightarrow> run_row \<Rightarrow> bool" where
  "old_run cutoff r = (rn_createdAt r < cutoff)"

definition old_execution :: "iso \<Rightarrow> exec_row \<Rightarrow> bool" where
  "old_execution cutoff r =
     (is_terminal_status (xr_status r)
      \<and> (case xr_completedAt r of None \<Rightarrow> False | Some c \<Rightarrow> c < cutoff))"

datatype derived_row =
    DComparison "comparison_resource entity_row"
  | DExport "export_resource entity_row"
  | DAnalysis "analysis_resource entity_row"
  | DAudit "audit_resource entity_row"

definition derived_rows :: "db \<Rightarrow> derived_row list" where
  "derived_rows d =
     map DComparison (db_comparisons d) @ map DExport (db_exports d)
     @ map DAnalysis (db_analyses d) @ map DAudit (db_audits d)"

definition has_active_execution :: "exec_row list \<Rightarrow> ident \<Rightarrow> bool" where
  "has_active_execution t audit =
     (\<exists>x \<in> set t. xr_kind x = BrowserAudit \<and> xr_resourceId x = audit \<and> \<not> is_terminal_status (xr_status x))"

fun old_derived :: "exec_row list \<Rightarrow> iso \<Rightarrow> derived_row \<Rightarrow> bool" where
  "old_derived t cutoff (DComparison r) = (en_updatedAt r < cutoff)"
| "old_derived t cutoff (DExport r) = (en_updatedAt r < cutoff)"
| "old_derived t cutoff (DAnalysis r) = (en_updatedAt r < cutoff)"
| "old_derived t cutoff (DAudit r) = (en_updatedAt r < cutoff \<and> \<not> has_active_execution t (en_id r))"

fun the_comparison :: "derived_row \<Rightarrow> comparison_resource entity_row option" where
  "the_comparison (DComparison r) = Some r" | "the_comparison _ = None"
fun the_export :: "derived_row \<Rightarrow> export_resource entity_row option" where
  "the_export (DExport r) = Some r" | "the_export _ = None"
fun the_analysis :: "derived_row \<Rightarrow> analysis_resource entity_row option" where
  "the_analysis (DAnalysis r) = Some r" | "the_analysis _ = None"
fun the_audit :: "derived_row \<Rightarrow> audit_resource entity_row option" where
  "the_audit (DAudit r) = Some r" | "the_audit _ = None"

definition put_derived :: "derived_row list \<Rightarrow> db \<Rightarrow> db" where
  "put_derived rs d =
     d\<lparr>db_comparisons := List.map_filter the_comparison rs, db_exports := List.map_filter the_export rs,
       db_analyses := List.map_filter the_analysis rs, db_audits := List.map_filter the_audit rs\<rparr>"

definition orphan_artifact :: "db \<Rightarrow> artifact_record \<Rightarrow> bool" where
  "orphan_artifact d a = (af_auditId a \<notin> en_id ` set (db_audits d))"

text \<open>One phase: delete in batches and go on, or stop with the error.\<close>

definition retention_phase ::
    "('r \<Rightarrow> bool) \<Rightarrow> 'r list \<Rightarrow> ('r list \<Rightarrow> db) \<Rightarrow> (nat \<Rightarrow> db \<Rightarrow> db \<times> retention_result throws)
     \<Rightarrow> db \<times> retention_result throws" where
  "retention_phase p t put go =
     (case delete_rows_in_batches p t of
        (t', Inl e) \<Rightarrow> (put t', throw e)
      | (t', Inr n) \<Rightarrow> go n (put t'))"

text \<open>The instants a JavaScript \<open>Date\<close> can hold.\<close>

definition is_date :: "int \<Rightarrow> bool" where
  "is_date t = (- 8640000000000000 \<le> t \<and> t \<le> 8640000000000000)"

definition cleanup_sqlite_retention :: "int \<Rightarrow> iso \<Rightarrow> db \<Rightarrow> db \<times> retention_result throws" where
  "cleanup_sqlite_retention retentionDays now d =
     (if \<not> is_safe_integer retentionDays \<or> retentionDays < 1
      then (d, throw ''SQLite retention days must be a positive integer'')
      else let cutoff = minus_utc_days now retentionDays in
      if \<not> is_date cutoff then (d, throw ''Invalid Date'') else
      retention_phase (old_job cutoff) (db_jobs d) (\<lambda>t. d\<lparr>db_jobs := t\<rparr>) (\<lambda>jobs d1.
      retention_phase (old_run cutoff) (db_runs d1) (\<lambda>t. d1\<lparr>db_runs := t\<rparr>) (\<lambda>runs d2.
      retention_phase (old_execution cutoff) (db_exec d2) (\<lambda>t. d2\<lparr>db_exec := t\<rparr>) (\<lambda>execs d3.
      retention_phase (old_derived (db_exec d3) cutoff) (derived_rows d3) (\<lambda>t. put_derived t d3) (\<lambda>derived d4.
      retention_phase (orphan_artifact d4) (db_artifacts d4) (\<lambda>t. d4\<lparr>db_artifacts := t\<rparr>) (\<lambda>arts d5.
        (d5, return \<lparr>ret_jobs = jobs, ret_checkRuns = runs, ret_executionJobs = execs,
                     ret_derivedResources = derived, ret_regionalExecutions = 0,
                     ret_regionalTargetLinks = 0, ret_artifactIndexes = arts\<rparr>)))))))"

section \<open>Facts\<close>

lemma length_filter_diff: "length (filter p t) = length t - length (filter (\<lambda>r. \<not> p r) t)"
  using length_filter_partition [of p t] by arith

lemma delete_limit_all: "length (filter p t) \<le> n \<Longrightarrow> delete_limit n p t = filter (\<lambda>r. \<not> p r) t"
  by (induction n p t rule: delete_limit.induct) auto

lemma delete_limit_kept: "filter (\<lambda>r. \<not> p r) (delete_limit n p t) = filter (\<lambda>r. \<not> p r) t"
  by (induction n p t rule: delete_limit.induct) auto

lemma delete_limit_count:
  "length (filter p (delete_limit n p t)) = length (filter p t) - n"
  by (induction n p t rule: delete_limit.induct) auto

lemma delete_limit_length:
  "length t - length (delete_limit n p t) = min n (length (filter p t))"
proof -
  have "length (delete_limit n p t)
      = length (filter p (delete_limit n p t)) + length (filter (\<lambda>r. \<not> p r) (delete_limit n p t))"
    using length_filter_partition [of p "delete_limit n p t"] by simp
  moreover have "length t = length (filter p t) + length (filter (\<lambda>r. \<not> p r) t)"
    using length_filter_partition [of p t] by simp
  ultimately show ?thesis by (simp add: delete_limit_count delete_limit_kept)
qed

lemma delete_batches_kept: "filter (\<lambda>r. \<not> p r) (fst (delete_batches k p t n)) = filter (\<lambda>r. \<not> p r) t"
  by (induction k arbitrary: t n) (simp_all add: Let_def delete_limit_kept)

lemma delete_batches_done:
  "length (filter p t) < k * 500 \<Longrightarrow>
   delete_batches k p t n = (filter (\<lambda>r. \<not> p r) t, Inr (n + length (filter p t)))"
proof (induction k arbitrary: t n)
  case (Suc k)
  let ?t' = "delete_limit 500 p t"
  show ?case
  proof (cases "length (filter p t) < 500")
    case True
    moreover have "length t - length (filter (\<lambda>r. \<not> p r) t) = length (filter p t)"
      using length_filter_partition [of p t] by arith
    ultimately show ?thesis
      by (simp add: Let_def retention_delete_batch_size_def delete_limit_all)
  next
    case False
    then have "length (filter p ?t') < k * 500" using Suc.prems by (simp add: delete_limit_count)
    from Suc.IH [OF this, of "n + 500"] False show ?thesis
      by (simp add: Let_def retention_delete_batch_size_def delete_limit_length delete_limit_kept
          delete_limit_count)
  qed
qed simp

lemma delete_batches_overflow:
  "k * 500 \<le> length (filter p t) \<Longrightarrow> \<exists>e. snd (delete_batches k p t n) = Inl e"
proof (induction k arbitrary: t n)
  case (Suc k)
  then have "\<not> length (filter p t) < 500" by simp
  moreover from Suc.prems have "k * 500 \<le> length (filter p (delete_limit 500 p t))"
    by (simp add: delete_limit_count)
  ultimately show ?case
    using Suc.IH by (simp add: Let_def retention_delete_batch_size_def delete_limit_length)
qed simp

text \<open>The batches delete every matching row, or, from 100,000 of them on, report the overflow; they
  never delete another row.\<close>

lemma delete_rows_in_batches_spec:
  "filter (\<lambda>r. \<not> p r) (fst (delete_rows_in_batches p t)) = filter (\<lambda>r. \<not> p r) t"
  "length (filter p t) < 100000 \<Longrightarrow>
     delete_rows_in_batches p t = (filter (\<lambda>r. \<not> p r) t, Inr (length (filter p t)))"
  "100000 \<le> length (filter p t) \<Longrightarrow> \<exists>e. snd (delete_rows_in_batches p t) = Inl e"
  using delete_batches_done [of p t 200 0] delete_batches_overflow [of 200 p t 0]
  by (simp_all add: delete_rows_in_batches_def retention_delete_maximum_batches_def delete_batches_kept)

lemma delete_done_filter:
  "delete_rows_in_batches p t = (t', Inr n) \<Longrightarrow> t' = filter (\<lambda>r. \<not> p r) t \<and> n = length (filter p t)"
  using delete_rows_in_batches_spec(2,3) [of p t] by (cases "length (filter p t) < 100000") auto

text \<open>The four derived tables, taken apart again.\<close>

lemma map_filter_map_other [simp]: "(\<And>x. g (f x) = None) \<Longrightarrow> List.map_filter g (map f xs) = []"
  by (induction xs) (auto simp: List.map_filter_def)

lemma map_filter_map_same [simp]: "(\<And>x. g (f x) = Some x) \<Longrightarrow> List.map_filter g (map f xs) = xs"
  by (induction xs) (auto simp: List.map_filter_def)

lemma map_filter_append [simp]: "List.map_filter g (xs @ ys) = List.map_filter g xs @ List.map_filter g ys"
  by (simp add: List.map_filter_def)

lemma filter_map_comp: "filter p (map f xs) = map f (filter (\<lambda>x. p (f x)) xs)"
  by (simp add: filter_map comp_def)

lemma put_derived_filter:
  "put_derived (filter (\<lambda>r. \<not> old_derived t cutoff r) (derived_rows d)) d =
     d\<lparr>db_comparisons := filter (\<lambda>r. \<not> en_updatedAt r < cutoff) (db_comparisons d),
       db_exports := filter (\<lambda>r. \<not> en_updatedAt r < cutoff) (db_exports d),
       db_analyses := filter (\<lambda>r. \<not> en_updatedAt r < cutoff) (db_analyses d),
       db_audits := filter (\<lambda>r. \<not> (en_updatedAt r < cutoff \<and> \<not> has_active_execution t (en_id r))) (db_audits d)\<rparr>"
  by (simp add: put_derived_def derived_rows_def filter_map_comp)


lemma delete_rows_in_batches_Nil [simp]: "delete_rows_in_batches p [] = ([], Inr 0)"
  using delete_rows_in_batches_spec(2) [of p "[]"] by simp


end
