(* ===== verification/Js_Url.thy ===== *)
theory Js_Url
  imports Js_Base
begin

text \<open>
  The parts of a parsed URL the source reads, and replacement by a pattern. \<open>new URL(value)\<close> is a
  parameter \<open>parse_url\<close> of the definitions that call it (\<open>None\<close> where it throws): the parser is the
  platform's, and the code only reads the components below from its result.
  \<open>replace_all\<close> is \<open>String.prototype.replaceAll\<close> with a global pattern: the pattern is a function that
  gives the length of the match at a position, from the word character class of the previous character and
  the rest of the string. They model the language, not files of the repository.
\<close>

record url =
  u_protocol :: string
  u_username :: string
  u_password :: string
  u_hostname :: string
  u_port :: string
  u_pathname :: string
  u_search :: string
  u_hash :: string

definition is_word_char :: "char \<Rightarrow> bool" where
  "is_word_char c = (is_alnum c \<or> c = CHR ''_'')"

function replace_all :: "(bool \<Rightarrow> string \<Rightarrow> nat option) \<Rightarrow> string \<Rightarrow> bool \<Rightarrow> string \<Rightarrow> string" where
  "replace_all m r w [] = []"
| "replace_all m r w (c # s) =
     (case m w (c # s) of
        None \<Rightarrow> c # replace_all m r (is_word_char c) s
      | Some n \<Rightarrow> r @ replace_all m r (is_word_char ((c # s) ! min (n - 1) (length s))) (drop (n - 1) s))"
  by pat_completeness auto
termination by (relation "measure (\<lambda>(m, r, w, s). length s)") auto

text \<open>A case-insensitive literal at the front of a string.\<close>

definition starts_with_i :: "string \<Rightarrow> string \<Rightarrow> bool" where
  "starts_with_i p s = (js_lower (take (length p) s) = p)"

end
