(* ===== verification/Js_Number.thy ===== *)
theory Js_Number
  imports Complex_Main "HOL-Library.Log_Nat"
begin

text \<open>
  The arithmetic of JavaScript numbers where the source leaves the integers: a product or a sum
  of doubles is the exact value rounded to 53 significant bits, ties to even (\<open>to_double\<close>, with the
  subnormal grid of \<open>2 ^ -1074\<close>; overflow is out of reach of the code modelled), and \<open>Math.round\<close> rounds
  half up. Numbers are rationals. It models the language, not files of the repository.
\<close>

definition round_even :: "rat \<Rightarrow> int" where
  "round_even y =
     (let f = \<lfloor>y\<rfloor>; r = y - of_int f in
      if r < 1 / 2 \<or> (r = 1 / 2 \<and> even f) then f else f + 1)"

definition double_unit :: "rat \<Rightarrow> nat" where
  "double_unit y = nat (bitlen \<lfloor>y\<rfloor> - 53)"

definition subnormal_bits :: nat where "subnormal_bits = 1074"

definition to_double_nonneg :: "rat \<Rightarrow> rat" where
  "to_double_nonneg x =
     (let y = x * 2 ^ subnormal_bits; u = 2 ^ double_unit y in of_int (round_even (y / u)) * u / 2 ^ subnormal_bits)"

definition to_double :: "rat \<Rightarrow> rat" where
  "to_double x = (if x < 0 then - to_double_nonneg (- x) else to_double_nonneg x)"

definition math_round :: "rat \<Rightarrow> int" where
  "math_round x = \<lfloor>x + 1 / 2\<rfloor>"

lemma round_even_le: "y \<le> of_int m \<Longrightarrow> round_even y \<le> m"
  unfolding round_even_def Let_def by (auto simp: not_less) linarith+

lemma round_even_ge: "of_int m \<le> y \<Longrightarrow> m \<le> round_even y"
  unfolding round_even_def Let_def by (auto simp: le_floor_iff intro: order_trans [of _ "of_int \<lfloor>y\<rfloor>"])

lemma round_even_near:
  assumes "of_int m - 1 / 2 < y" and "y < of_int m + 1 / 2"
  shows "round_even y = m"
proof -
  have "\<lfloor>y\<rfloor> = m \<or> \<lfloor>y\<rfloor> = m - 1" using assms by linarith
  then show ?thesis using assms by (auto simp: round_even_def Let_def)
qed

lemma round_even_int [simp]: "round_even (of_int m) = m"
  by (simp add: round_even_def)

lemma double_unit_bound:
  assumes "0 \<le> x" and "x < 2 ^ 53"
  shows "double_unit (x * 2 ^ subnormal_bits) \<le> subnormal_bits"
proof -
  have "x * 2 ^ subnormal_bits < (2 ^ 53 * 2 ^ subnormal_bits :: rat)"
    using assms(2) by (rule mult_strict_right_mono) simp
  then have "\<lfloor>x * 2 ^ subnormal_bits\<rfloor> < 2 ^ (53 + subnormal_bits)" by (simp add: floor_less_iff power_add)
  moreover have "0 \<le> \<lfloor>x * 2 ^ subnormal_bits\<rfloor>" using assms by simp
  moreover have "nat (53 + int subnormal_bits) = 53 + subnormal_bits" by simp
  ultimately have "bitlen \<lfloor>x * 2 ^ subnormal_bits\<rfloor> \<le> 53 + int subnormal_bits"
    by (simp only: bitlen_le_iff_power) simp
  then show ?thesis by (simp add: double_unit_def)
qed

text \<open>Rounding never crosses an integer.\<close>

lemma to_double_le:
  assumes "0 \<le> x" and "x \<le> of_int n" and "n < 2 ^ 53"
  shows "to_double x \<le> of_int n"
proof -
  define k where "k = double_unit (x * 2 ^ subnormal_bits)"
  have "(of_int n :: rat) < of_int (2 ^ 53)" using assms(3) by (simp only: of_int_less_iff)
  then have "x < 2 ^ 53" using assms(2) by simp
  then have k: "k \<le> subnormal_bits" using double_unit_bound assms(1) by (simp add: k_def)
  then have split: "(2 :: rat) ^ subnormal_bits = 2 ^ (subnormal_bits - k) * 2 ^ k" by (simp flip: power_add)
  have "x * 2 ^ subnormal_bits / 2 ^ k = x * 2 ^ (subnormal_bits - k)" by (simp add: split)
  also have "\<dots> \<le> of_int (n * 2 ^ (subnormal_bits - k))" using assms(2) by (simp add: mult_right_mono)
  finally have "round_even (x * 2 ^ subnormal_bits / 2 ^ k) \<le> n * 2 ^ (subnormal_bits - k)" by (rule round_even_le)
  then have "(of_int (round_even (x * 2 ^ subnormal_bits / 2 ^ k)) :: rat) \<le> of_int (n * 2 ^ (subnormal_bits - k))"
    by (simp only: of_int_le_iff)
  then have "of_int (round_even (x * 2 ^ subnormal_bits / 2 ^ k)) * 2 ^ k \<le> (of_int n * 2 ^ subnormal_bits :: rat)"
    by (simp add: split mult_right_mono)
  then show ?thesis
    using assms(1) by (simp add: to_double_def to_double_nonneg_def Let_def k_def divide_le_eq)
qed

lemma to_double_ge:
  assumes "0 \<le> x" and "of_int n \<le> x" and "x < 2 ^ 53"
  shows "of_int n \<le> to_double x"
proof -
  define k where "k = double_unit (x * 2 ^ subnormal_bits)"
  have k: "k \<le> subnormal_bits" using double_unit_bound assms by (simp add: k_def)
  then have split: "(2 :: rat) ^ subnormal_bits = 2 ^ (subnormal_bits - k) * 2 ^ k" by (simp flip: power_add)
  have "of_int (n * 2 ^ (subnormal_bits - k)) \<le> x * 2 ^ (subnormal_bits - k)" using assms(2) by (simp add: mult_right_mono)
  also have "\<dots> = x * 2 ^ subnormal_bits / 2 ^ k" by (simp add: split)
  finally have "n * 2 ^ (subnormal_bits - k) \<le> round_even (x * 2 ^ subnormal_bits / 2 ^ k)" by (rule round_even_ge)
  then have "of_int (n * 2 ^ (subnormal_bits - k)) \<le> (of_int (round_even (x * 2 ^ subnormal_bits / 2 ^ k)) :: rat)"
    by (simp only: of_int_le_iff)
  then have "of_int n * 2 ^ subnormal_bits \<le> of_int (round_even (x * 2 ^ subnormal_bits / 2 ^ k)) * (2 ^ k :: rat)"
    by (simp add: split mult_right_mono)
  then show ?thesis
    using assms(1) by (simp add: to_double_def to_double_nonneg_def Let_def k_def le_divide_eq)
qed

lemma to_double_int: "0 \<le> n \<Longrightarrow> n < 2 ^ 53 \<Longrightarrow> to_double (of_int n) = of_int n"
proof -
  assume n: "0 \<le> n" "n < 2 ^ 53"
  have "(of_int n :: rat) < of_int (2 ^ 53)" using n(2) by (simp only: of_int_less_iff)
  then show ?thesis using n to_double_le [of "of_int n" n] to_double_ge [of "of_int n" n] by simp
qed

text \<open>Rounding in the binade whose unit is \<open>2 ^ -j\<close>.\<close>

lemma to_double_normal:
  assumes "0 \<le> x" and "2 ^ 52 \<le> x * 2 ^ j" and "x * 2 ^ j < 2 ^ 53" and "j \<le> subnormal_bits"
  shows "to_double x = of_int (round_even (x * 2 ^ j)) / 2 ^ j"
proof -
  define k where "k = subnormal_bits - j"
  have split: "(2 :: rat) ^ subnormal_bits = 2 ^ j * 2 ^ k" using assms(4) by (simp add: k_def flip: power_add)
  have lo: "2 ^ (52 + k) \<le> x * 2 ^ subnormal_bits" and hi: "x * 2 ^ subnormal_bits < 2 ^ (53 + k)"
    using mult_right_mono [OF assms(2), of "2 ^ k"] mult_strict_right_mono [OF assms(3), of "2 ^ k"]
    by (simp_all add: split power_add mult.assoc)
  have n: "(2 :: int) ^ (52 + k) \<le> \<lfloor>x * 2 ^ subnormal_bits\<rfloor>" "\<lfloor>x * 2 ^ subnormal_bits\<rfloor> < 2 ^ (53 + k)"
    using lo hi by (simp_all add: le_floor_iff floor_less_iff)
  have "nat (53 + int k) = 53 + k" "nat (52 + int k) = 52 + k" by simp_all
  with n have "bitlen \<lfloor>x * 2 ^ subnormal_bits\<rfloor> \<le> 53 + int k" "\<not> bitlen \<lfloor>x * 2 ^ subnormal_bits\<rfloor> \<le> 52 + int k"
    by (simp_all only: bitlen_le_iff_power) simp_all
  then have "double_unit (x * 2 ^ subnormal_bits) = k" by (simp add: double_unit_def)
  then show ?thesis using assms(1) by (simp add: to_double_def to_double_nonneg_def Let_def split)
qed

lemma to_double_near:
  assumes "2 ^ 52 \<le> x * 2 ^ j" and "x * 2 ^ j < 2 ^ 53" and "j \<le> subnormal_bits"
    and "of_int m - 1 / 2 < x * 2 ^ j" and "x * 2 ^ j < of_int m + 1 / 2"
  shows "to_double x = of_int m / 2 ^ j"
proof -
  have "0 < x * 2 ^ j" by (rule less_le_trans [OF _ assms(1)]) simp
  then have "0 \<le> x" by (simp add: zero_less_mult_iff)
  from to_double_normal [OF this assms(1-3)] round_even_near [OF assms(4,5)] show ?thesis by simp
qed

lemma math_round_le: "x \<le> of_int n \<Longrightarrow> math_round x \<le> n"
  unfolding math_round_def by linarith

lemma math_round_ge: "of_int n \<le> x \<Longrightarrow> n \<le> math_round x"
  unfolding math_round_def by linarith

end
