(* ===== verification/Scheduler_Loop.thy ===== *)
theory Scheduler_Loop
  imports Js_Url Js_Number Contracts
begin

text \<open>
  The scheduler (\<open>packages/domain-core/src/scheduler-loop.ts\<close>): one dispatch request to the API, the
  polling loop with its backoff, and what may be logged of an error.

  The outcome of a request is an input: how \<open>fetch\<close> settles, how the body settles, and whether the
  caller's signal or the timeout had fired by then. The loop runs over a script with one entry per round.
  \<open>Math.log2\<close> of the ratio of the two delays, rounded up, is the least exponent whose power of two reaches
  the ratio: the delays are integers below \<open>2 ^ 28\<close>, so a ratio above a power of two exceeds it by more than
  the error of the logarithm.
\<close>

section \<open>Errors\<close>

datatype dispatch_error_code = RequestFailed | RequestTimeout | ResponseInvalid

fun show_dispatch_code :: "dispatch_error_code \<Rightarrow> string" where
  "show_dispatch_code RequestFailed = ''request_failed''"
| "show_dispatch_code RequestTimeout = ''request_timeout''"
| "show_dispatch_code ResponseInvalid = ''response_invalid''"

definition build_dispatch_error_message :: "dispatch_error_code \<Rightarrow> nat option \<Rightarrow> string" where
  "build_dispatch_error_message kind status =
     (case (kind, status) of
        (RequestTimeout, None) \<Rightarrow> ''Scheduler dispatch request timed out''
      | (RequestTimeout, Some s) \<Rightarrow> ''Scheduler dispatch response timed out with HTTP '' @ show_nat s
      | (ResponseInvalid, _) \<Rightarrow> ''Scheduler dispatch response was invalid''
      | (RequestFailed, None) \<Rightarrow> ''Scheduler dispatch request failed''
      | (RequestFailed, Some s) \<Rightarrow> ''Scheduler dispatch request failed with HTTP '' @ show_nat s)"

text \<open>What a promise rejects with: an error of the dispatch, another \<open>Error\<close> with its name, message and
  \<open>code\<close> property, or a value that is no \<open>Error\<close>.\<close>

datatype scheduler_error =
    DispatchError dispatch_error_code "nat option"
  | PlainError string string "string option"
  | NoError "string option"

definition is_error :: "scheduler_error \<Rightarrow> bool" where
  "is_error e = (case e of NoError _ \<Rightarrow> False | _ \<Rightarrow> True)"

definition normalize_scheduler_abort_error ::
    "scheduler_error option \<Rightarrow> scheduler_error option \<Rightarrow> scheduler_error" where
  "normalize_scheduler_abort_error reason fallback =
     (case reason of
        Some r \<Rightarrow> if is_error r then r
          else (case fallback of
                  Some f \<Rightarrow> if is_error f then f
                    else PlainError ''AbortError'' ''Scheduler operation was aborted'' None
                | None \<Rightarrow> PlainError ''AbortError'' ''Scheduler operation was aborted'' None)
      | None \<Rightarrow> (case fallback of
                  Some f \<Rightarrow> if is_error f then f
                    else PlainError ''AbortError'' ''Scheduler operation was aborted'' None
                | None \<Rightarrow> PlainError ''AbortError'' ''Scheduler operation was aborted'' None))"

section \<open>One dispatch\<close>

definition default_scheduler_request_timeout_ms :: int where
  "default_scheduler_request_timeout_ms = 30000"
definition max_scheduler_request_timeout_ms :: int where
  "max_scheduler_request_timeout_ms = 5 * 60000"
definition max_scheduler_backoff_ms :: int where
  "max_scheduler_backoff_ms = 2 * 86400000"
definition minimum_scheduler_backoff_ceiling_ms :: int where
  "minimum_scheduler_backoff_ceiling_ms = 15 * 60000"

text \<open>How the signals stand when a promise has rejected: the caller's signal with its reason, and the
  timeout's.\<close>

record signals =
  sg_aborted :: bool
  sg_reason :: "scheduler_error option"
  sg_timedOut :: bool

datatype body_outcome =
    BodyRejects scheduler_error signals
  | BodyJson "dispatch_response option"

datatype fetch_outcome =
    FetchRejects scheduler_error signals
  | FetchResponds nat body_outcome

definition dispatch_entry_schema :: "dispatch_entry \<Rightarrow> bool" where
  [schema_defs]: "dispatch_entry_schema e =
     (de_profileId e \<noteq> [] \<and> de_jobIds e \<noteq> [] \<and> list_all bounded_job_id_ok (de_jobIds e))"

definition dispatch_response_schema :: "dispatch_response \<Rightarrow> bool" where
  [schema_defs]: "dispatch_response_schema r = list_all dispatch_entry_schema (dr_triggeredProfiles r)"

record dispatch_result =
  ds_payload :: dispatch_response
  ds_createdJobCount :: nat

text \<open>The order of the checks in a rejected request: the caller's abort, the timeout, the failure.\<close>

definition settle_rejection ::
    "signals \<Rightarrow> scheduler_error \<Rightarrow> dispatch_error_code \<Rightarrow> nat option \<Rightarrow> scheduler_error" where
  "settle_rejection sg e kind status =
     (if sg_aborted sg then normalize_scheduler_abort_error (sg_reason sg) (Some e)
      else if sg_timedOut sg then DispatchError RequestTimeout status
      else DispatchError kind status)"

definition is_ok_status :: "nat \<Rightarrow> bool" where
  "is_ok_status s = (200 \<le> s \<and> s \<le> 299)"

definition settle_dispatch :: "fetch_outcome \<Rightarrow> scheduler_error + dispatch_result" where
  "settle_dispatch outcome =
     (case outcome of
        FetchRejects e sg \<Rightarrow> Inl (settle_rejection sg e RequestFailed None)
      | FetchResponds status body \<Rightarrow>
          if \<not> is_ok_status status then Inl (DispatchError RequestFailed (Some status))
          else (case body of
                  BodyRejects e sg \<Rightarrow> Inl (settle_rejection sg e ResponseInvalid (Some status))
                | BodyJson None \<Rightarrow> Inl (DispatchError ResponseInvalid (Some status))
                | BodyJson (Some r) \<Rightarrow>
                    if \<not> dispatch_response_schema r then Inl (DispatchError ResponseInvalid (Some status))
                    else Inr \<lparr>ds_payload = r,
                              ds_createdJobCount = foldl (\<lambda>count e. count + length (de_jobIds e)) 0
                                                     (dr_triggeredProfiles r)\<rparr>))"

definition is_scheduler_origin :: "url \<Rightarrow> bool" where
  "is_scheduler_origin u =
     (u_protocol u \<in> {''http:'', ''https:''} \<and> u_username u = [] \<and> u_password u = []
      \<and> u_pathname u = ''/'' \<and> u_search u = [] \<and> u_hash u = [])"

definition dispatch_scheduled_checks ::
    "(string \<Rightarrow> url option) \<Rightarrow> string \<Rightarrow> string \<Rightarrow> int \<Rightarrow> fetch_outcome \<Rightarrow> scheduler_error + dispatch_result" where
  "dispatch_scheduled_checks parse_url apiBaseUrl internalSecret requestTimeoutMs outcome =
     (if length (js_trim internalSecret) < 16
      then Inl (PlainError ''Error'' ''Scheduler internal secret must contain at least 16 characters'' None)
      else if \<not> is_safe_integer requestTimeoutMs \<or> requestTimeoutMs < 1
              \<or> requestTimeoutMs > max_scheduler_request_timeout_ms
      then Inl (PlainError ''Error''
             (''Scheduler request timeout must be an integer between 1 and ''
              @ show_int max_scheduler_request_timeout_ms @ ''ms'') None)
      else case parse_url apiBaseUrl of
        None \<Rightarrow> Inl (PlainError ''Error'' ''Scheduler API base URL is invalid'' None)
      | Some u \<Rightarrow>
          if \<not> is_scheduler_origin u
          then Inl (PlainError ''Error'' ''Scheduler API base URL must be a credential-free HTTP(S) origin'' None)
          else settle_dispatch outcome)"

section \<open>The polling loop\<close>

text \<open>The least \<open>n\<close> with \<open>maxBackoff <= poll * 2 ^ n\<close>, for a positive interval.\<close>

function maximum_exponent :: "int \<Rightarrow> int \<Rightarrow> nat" where
  "maximum_exponent pollIntervalMs maxBackoffMs =
     (if pollIntervalMs \<le> 0 \<or> maxBackoffMs \<le> pollIntervalMs then 0
      else Suc (maximum_exponent (pollIntervalMs * 2) maxBackoffMs))"
  by pat_completeness auto
termination by (relation "measure (\<lambda>(p, b). nat (b - p))") auto

declare maximum_exponent.simps [simp del]

definition calculate_scheduler_poll_delay :: "int \<Rightarrow> nat \<Rightarrow> int \<Rightarrow> int" where
  "calculate_scheduler_poll_delay pollIntervalMs consecutiveFailures maxBackoffMs =
     (if consecutiveFailures < 1 then pollIntervalMs
      else let exponent = min consecutiveFailures (maximum_exponent pollIntervalMs maxBackoffMs)
           in min maxBackoffMs (pollIntervalMs * 2 ^ exponent))"

definition calculate_default_scheduler_max_backoff_ms :: "int \<Rightarrow> int" where
  "calculate_default_scheduler_max_backoff_ms pollIntervalMs =
     min max_scheduler_backoff_ms (max minimum_scheduler_backoff_ceiling_ms (pollIntervalMs * 2))"

text \<open>A round of the loop: whether the signal had aborted at its head, when it starts, how the dispatch
  settles, and whether the signal had aborted by then.\<close>

record round =
  rd_abortedBefore :: bool
  rd_startedAt :: iso
  rd_outcome :: "scheduler_error + dispatch_result"
  rd_abortedAfter :: bool

datatype scheduler_event =
    DispatchSucceeded iso iso nat nat
  | DispatchFailed iso scheduler_error
  | Waited int

fun scheduler_rounds :: "int \<Rightarrow> int \<Rightarrow> nat \<Rightarrow> round list \<Rightarrow> scheduler_event list" where
  "scheduler_rounds poll maxBackoff failures [] = []"
| "scheduler_rounds poll maxBackoff failures (r # rs) =
     (if rd_abortedBefore r \<or> rd_abortedAfter r then []
      else case rd_outcome r of
        Inr result \<Rightarrow>
          DispatchSucceeded (rd_startedAt r) (dr_dispatchedAt (ds_payload result))
            (dr_triggeredCount (ds_payload result)) (ds_createdJobCount result)
          # Waited (calculate_scheduler_poll_delay poll 0 maxBackoff)
          # scheduler_rounds poll maxBackoff 0 rs
      | Inl e \<Rightarrow>
          DispatchFailed (rd_startedAt r) e
          # Waited (calculate_scheduler_poll_delay poll (failures + 1) maxBackoff)
          # scheduler_rounds poll maxBackoff (failures + 1) rs)"

definition run_scheduler :: "int \<Rightarrow> int option \<Rightarrow> round list \<Rightarrow> scheduler_event list throws" where
  "run_scheduler pollIntervalMs maxBackoff rounds =
     (let maxBackoffMs = (case maxBackoff of Some b \<Rightarrow> b
                          | None \<Rightarrow> calculate_default_scheduler_max_backoff_ms pollIntervalMs) in
      if \<not> is_safe_integer pollIntervalMs \<or> pollIntervalMs < 1 \<or> pollIntervalMs > 86400000
      then throw ''Scheduler poll interval must be an integer between 1 and 86400000ms''
      else if \<not> is_safe_integer maxBackoffMs \<or> maxBackoffMs \<le> pollIntervalMs
              \<or> maxBackoffMs > max_scheduler_backoff_ms
      then throw (''Scheduler maximum backoff must be an integer greater than the poll interval and no more than ''
                  @ show_int max_scheduler_backoff_ms @ ''ms'')
      else return (scheduler_rounds pollIntervalMs maxBackoffMs 0 rounds))"

section \<open>What is logged of an error\<close>

definition is_name_char :: "char \<Rightarrow> bool" where
  "is_name_char c = (is_alnum c \<or> c \<in> {CHR ''_'', CHR ''.'', CHR '':'', CHR ''-''})"

definition is_system_code :: "string \<Rightarrow> bool" where
  "is_system_code s =
     (1 \<le> length s \<and> length s \<le> 64 \<and> list_all (\<lambda>c. is_upper c \<or> is_digit c \<or> c = CHR ''_'') s)"

definition is_text_char :: "char \<Rightarrow> bool" where
  "is_text_char c = (\<not> is_ws c \<and> c \<noteq> CHR '','' \<and> c \<noteq> CHR '';'')"

definition is_token_char :: "char \<Rightarrow> bool" where
  "is_token_char c = (is_alnum c \<or> c \<in> {CHR ''+'', CHR ''/'', CHR ''_'', CHR ''='', CHR ''-''})"

definition is_printable :: "char \<Rightarrow> bool" where
  "is_printable c = (32 \<le> code c \<and> code c \<le> 126)"

definition match_credential :: "bool \<Rightarrow> string \<Rightarrow> nat option" where
  "match_credential afterWord s =
     (if afterWord then None
      else let k = (if starts_with_i ''bearer'' s then 6 else if starts_with_i ''basic'' s then 5 else 0);
               blanks = length (takeWhile is_ws (drop k s));
               value = length (takeWhile is_text_char (drop (k + blanks) s))
           in if 0 < k \<and> 0 < blanks \<and> 0 < value then Some (k + blanks + value) else None)"

definition match_http_url :: "bool \<Rightarrow> string \<Rightarrow> nat option" where
  "match_http_url afterWord s =
     (let k = (if starts_with_i ''https://'' s then 8 else if starts_with_i ''http://'' s then 7 else 0);
          value = length (takeWhile is_text_char (drop k s))
      in if 0 < k \<and> 0 < value then Some (k + value) else None)"

definition match_long_token :: "bool \<Rightarrow> string \<Rightarrow> nat option" where
  "match_long_token afterWord s =
     (let n = length (takeWhile is_token_char s) in if 16 \<le> n then Some n else None)"

definition sanitize_scheduler_error_message :: "string \<Rightarrow> string" where
  "sanitize_scheduler_error_message value =
     (let credentials = replace_all match_credential ''[REDACTED]'' False value;
          urls = replace_all match_http_url ''[URL]'' False credentials;
          tokens = replace_all match_long_token ''[REDACTED]'' False urls
      in take 200 (js_trim (filter is_printable tokens)))"

record scheduler_diagnostic =
  sd_errorType :: string
  sd_errorCode :: "string option"
  sd_status :: "nat option"
  sd_systemCode :: "string option"
  sd_errorMessage :: "string option"

definition safe_system_code :: "string option \<Rightarrow> string option" where
  "safe_system_code c = (case c of Some s \<Rightarrow> if is_system_code s then Some s else None | None \<Rightarrow> None)"

definition describe_scheduler_error :: "scheduler_error \<Rightarrow> scheduler_diagnostic" where
  "describe_scheduler_error e =
     (case e of
        DispatchError kind status \<Rightarrow>
          \<lparr>sd_errorType = ''SchedulerDispatchError'', sd_errorCode = Some (show_dispatch_code kind),
           sd_status = status, sd_systemCode = None, sd_errorMessage = None\<rparr>
      | PlainError name message kind \<Rightarrow>
          (let t = take 120 (filter is_name_char name); m = sanitize_scheduler_error_message message in
           \<lparr>sd_errorType = (if t = [] then ''Error'' else t), sd_errorCode = None, sd_status = None,
            sd_systemCode = safe_system_code kind, sd_errorMessage = (if m = [] then None else Some m)\<rparr>)
      | NoError kind \<Rightarrow>
          \<lparr>sd_errorType = ''UnknownError'', sd_errorCode = None, sd_status = None,
           sd_systemCode = safe_system_code kind, sd_errorMessage = None\<rparr>)"

section \<open>Facts on the delays\<close>

lemma maximum_exponent_reaches:
  "0 < p \<Longrightarrow> b \<le> p * 2 ^ maximum_exponent p b"
proof (induction p b rule: maximum_exponent.induct)
  case (1 p b)
  then show ?case by (subst maximum_exponent.simps) (auto simp: mult.assoc)
qed

lemma poll_delay_eq:
  assumes "0 < p" and "p \<le> b"
  shows "calculate_scheduler_poll_delay p f b = min b (p * 2 ^ f)"
proof -
  let ?m = "maximum_exponent p b"
  have "min b (p * 2 ^ min f ?m) = min b (p * 2 ^ f)"
  proof (cases "f \<le> ?m")
    case False
    then have "(2 :: int) ^ ?m \<le> 2 ^ f" by simp
    then have "p * 2 ^ ?m \<le> p * 2 ^ f" using assms(1) by (rule mult_left_mono [OF _ less_imp_le])
    with maximum_exponent_reaches [OF assms(1), of b] False show ?thesis by (simp add: min_def)
  qed (simp add: min_def)
  with assms show ?thesis by (cases f) (auto simp: calculate_scheduler_poll_delay_def Let_def)
qed

text \<open>The failures in a row that end a list of outcomes.\<close>

fun trailing_failures :: "nat \<Rightarrow> ('e + 'a) list \<Rightarrow> nat" where
  "trailing_failures n [] = n"
| "trailing_failures n (Inl e # os) = trailing_failures (n + 1) os"
| "trailing_failures n (Inr x # os) = trailing_failures 0 os"

definition waits :: "scheduler_event list \<Rightarrow> int list" where
  "waits es = List.map_filter (\<lambda>e. case e of Waited d \<Rightarrow> Some d | _ \<Rightarrow> None) es"

lemma waits_simps [simp]:
  "waits [] = []" "waits (Waited d # es) = d # waits es"
  "waits (DispatchSucceeded a b c n # es) = waits es" "waits (DispatchFailed a e # es) = waits es"
  by (simp_all add: waits_def List.map_filter_def)

lemma scheduler_rounds_waits:
  assumes "list_all (\<lambda>r. \<not> rd_abortedBefore r \<and> \<not> rd_abortedAfter r) rs"
  shows "waits (scheduler_rounds p b n rs)
    = map (\<lambda>k. calculate_scheduler_poll_delay p (trailing_failures n (map rd_outcome (take (Suc k) rs))) b)
        [0..<length rs]"
  using assms
proof (induction rs arbitrary: n)
  case (Cons r rs)
  have shift: "map f [0..<length (r # rs)] = f 0 # map (\<lambda>k. f (Suc k)) [0..<length rs]" for f :: "nat \<Rightarrow> int"
    by (simp add: map_upt_Suc del: upt_Suc)
  from Cons show ?case unfolding shift by (cases "rd_outcome r") simp_all
qed simp

text \<open>The scheduler's pauses: with valid options, a run whose rounds are not interrupted
  pauses once after each round, for the poll interval doubled once per failure in a row up to that round
  and capped at the maximum; so a success brings the interval back at once, and no pause is shorter than
  the interval or longer than the maximum.\<close>

theorem scheduler_backoff:
  assumes "run_scheduler poll maxBackoff rounds = Inr events"
    and "list_all (\<lambda>r. \<not> rd_abortedBefore r \<and> \<not> rd_abortedAfter r) rounds"
  shows "\<exists>b. poll < b \<and> b \<le> 172800000
    \<and> waits events = map (\<lambda>k. min b (poll * 2 ^ trailing_failures 0 (map rd_outcome (take (Suc k) rounds))))
                       [0..<length rounds]
    \<and> list_all (\<lambda>w. poll \<le> w \<and> w \<le> b) (waits events)"
proof -
  define b where "b = (case maxBackoff of Some b \<Rightarrow> b | None \<Rightarrow> calculate_default_scheduler_max_backoff_ms poll)"
  have r: "0 < poll" "poll < b" "b \<le> 172800000" "events = scheduler_rounds poll b 0 rounds"
    using assms(1) unfolding run_scheduler_def Let_def b_def [symmetric] max_scheduler_backoff_ms_def
    by (simp_all split: if_splits)
  have one: "poll \<le> poll * 2 ^ n" for n using r(1) by simp
  have w: "waits events = map (\<lambda>k. min b (poll * 2 ^ trailing_failures 0 (map rd_outcome (take (Suc k) rounds))))
      [0..<length rounds]"
    using r by (simp add: scheduler_rounds_waits [OF assms(2)] poll_delay_eq)
  have "list_all (\<lambda>w. poll \<le> w \<and> w \<le> b) (waits events)"
    using r(2) one unfolding w by (auto simp: list_all_iff)
  with r(2,3) w show ?thesis by blast
qed

definition sample_round :: "(scheduler_error + dispatch_result) \<Rightarrow> round" where
  "sample_round out = \<lparr>rd_abortedBefore = False, rd_startedAt = 0, rd_outcome = out, rd_abortedAfter = False\<rparr>"

lemma scheduler_backoff_witness:
  "\<exists>es. run_scheduler 1000 (Some 5000) (replicate 4 (sample_round (Inl (DispatchError RequestTimeout None)))) = Inr es
     \<and> waits es = [2000, 4000, 5000, 5000]"
proof -
  let ?rs = "replicate 4 (sample_round (Inl (DispatchError RequestTimeout None)))"
  obtain es where es: "run_scheduler 1000 (Some 5000) ?rs = Inr es"
    by (simp add: run_scheduler_def is_safe_integer_def max_scheduler_backoff_ms_def)
  have "list_all (\<lambda>r. \<not> rd_abortedBefore r \<and> \<not> rd_abortedAfter r) ?rs" by (simp add: sample_round_def numeral_eq_Suc)
  from scheduler_backoff [OF es this]
  obtain b where "b \<le> 172800000" "waits es = map (\<lambda>k. min b (1000 * 2 ^ trailing_failures 0 (map rd_outcome (take (Suc k) ?rs)))) [0..<length ?rs]"
    by blast
  moreover have "waits es = [2000, 4000, 5000, 5000]"
    using es by (auto simp: run_scheduler_def is_safe_integer_def max_scheduler_backoff_ms_def numeral_eq_Suc
        sample_round_def poll_delay_eq)
  ultimately show ?thesis using es by blast
qed

section \<open>Facts on what is logged\<close>

fun short_tokens :: "string \<Rightarrow> bool" where
  "short_tokens [] = True"
| "short_tokens (c # s) = (length (takeWhile is_token_char (c # s)) < 16 \<and> short_tokens s)"

lemma short_tokens_run: "short_tokens (v @ w) \<Longrightarrow> list_all is_token_char v \<Longrightarrow> length v < 16"
  by (cases v) (auto simp: list_all_iff takeWhile_append)

lemma short_tokens_drop: "short_tokens (u @ v) \<Longrightarrow> short_tokens v"
  by (induction u) auto

lemma short_tokens_break:
  "\<not> is_token_char c \<Longrightarrow> short_tokens u \<Longrightarrow> short_tokens s \<Longrightarrow> short_tokens (u @ c # s)"
proof (induction u)
  case (Cons d u)
  have "takeWhile is_token_char (d # u @ c # s) = takeWhile is_token_char (d # u)"
    using takeWhile_tail [of is_token_char c "d # u" s] Cons.prems(1) by simp
  with Cons show ?case by simp
qed simp

lemma long_tokens_replaced:
  "short_tokens (replace_all match_long_token ''[REDACTED]'' w s)
   \<and> (length (takeWhile is_token_char s) < 16 \<longrightarrow>
      takeWhile is_token_char (replace_all match_long_token ''[REDACTED]'' w s) = takeWhile is_token_char s)"
proof (induction "match_long_token" "''[REDACTED]''" w s rule: replace_all.induct)
  case (2 w c s)
  show ?case
  proof (cases "match_long_token w (c # s)")
    case None
    then have run: "length (takeWhile is_token_char (c # s)) < 16"
      by (simp add: match_long_token_def Let_def split: if_splits)
    then have "length (takeWhile is_token_char s) < 16 \<or> \<not> is_token_char c" by auto
    with None run 2(1) [OF None] show ?thesis by auto
  next
    case (Some n)
    then have "\<not> length (takeWhile is_token_char (c # s)) < 16"
      by (auto simp: match_long_token_def Let_def split: if_splits)
    moreover have "short_tokens (''[REDACTED'' @ CHR '']'' # t)" if "short_tokens t" for t
      by (rule short_tokens_break [OF _ _ that]) (simp_all add: is_token_char_def is_alnum_def is_digit_def is_lower_def is_upper_def)
    ultimately show ?thesis using Some 2(2) [OF Some] by simp
  qed
qed simp

lemma replace_all_set: "set (replace_all m r w s) \<subseteq> set r \<union> set s"
proof (induction m r w s rule: replace_all.induct)
  case (2 m r w c s)
  show ?case
  proof (cases "m w (c # s)")
    case None
    with 2(1) show ?thesis by auto
  next
    case (Some n)
    with 2(2) [OF Some] show ?thesis by (auto dest: in_set_dropD)
  qed
qed simp

lemma sanitized_printable: "list_all is_printable (sanitize_scheduler_error_message m)"
proof -
  have "set (js_trim s) \<subseteq> set s" for s
    by (auto simp: js_trim_def dest!: set_dropWhileD)
  then show ?thesis
    unfolding sanitize_scheduler_error_message_def Let_def by (fastforce simp: list_all_iff dest: in_set_takeD)
qed

lemma js_trim_part: "\<exists>u w. s = u @ js_trim s @ w"
proof -
  let ?d = "dropWhile is_ws s"
  have "s = takeWhile is_ws s @ js_trim s @ rev (takeWhile is_ws (rev ?d))"
    by (metis js_trim_def rev_append rev_rev_ident takeWhile_dropWhile_id)
  then show ?thesis by blast
qed

text \<open>Logged error messages: at most 200 printable ASCII characters, and, when the message
  had only such characters, no run of 16 or more characters of the alphabet of tokens and keys.\<close>

theorem logged_message_is_safe:
  assumes "sd_errorMessage (describe_scheduler_error e) = Some m"
  shows "length m \<le> 200 \<and> list_all is_printable m
    \<and> (\<forall>name message c u v w. e = PlainError name message c \<longrightarrow> list_all is_printable message \<longrightarrow>
         m = u @ v @ w \<longrightarrow> list_all is_token_char v \<longrightarrow> length v < 16)"
proof (intro conjI allI impI)
  from assms obtain name message c where e: "e = PlainError name message c"
    and m: "m = sanitize_scheduler_error_message message"
    by (cases e) (auto simp: describe_scheduler_error_def Let_def split: if_splits)
  show "length m \<le> 200" by (simp add: m sanitize_scheduler_error_message_def Let_def)
  show "list_all is_printable m" unfolding m by (rule sanitized_printable)
  fix name' message' c' u v w
  assume e': "e = PlainError name' message' c'" and p: "list_all is_printable message'"
    and s: "m = u @ v @ w" and v: "list_all is_token_char v"
  let ?u = "replace_all match_http_url ''[URL]'' False (replace_all match_credential ''[REDACTED]'' False message)"
  let ?t = "replace_all match_long_token ''[REDACTED]'' False ?u"
  have "set ?t \<subseteq> set ''[REDACTED]'' \<union> (set ''[URL]'' \<union> (set ''[REDACTED]'' \<union> set message))"
    using replace_all_set [of match_long_token "''[REDACTED]''" False ?u]
      replace_all_set [of match_http_url "''[URL]''" False "replace_all match_credential ''[REDACTED]'' False message"]
      replace_all_set [of match_credential "''[REDACTED]''" False message] by blast
  moreover have "\<forall>x \<in> set message. is_printable x" using p e e' by (simp add: list_all_iff)
  ultimately have "\<forall>x \<in> set ?t. is_printable x"
    by (auto simp: is_printable_def subset_iff)
  then have "filter is_printable ?t = ?t" by simp
  then have "m = take 200 (js_trim ?t)" by (simp add: m sanitize_scheduler_error_message_def Let_def)
  then obtain b where "js_trim ?t = u @ v @ w @ b" using s by (metis append.assoc append_take_drop_id)
  then obtain a d where "?t = (a @ u) @ (v @ w @ b @ d)" using js_trim_part [of ?t] by (metis append.assoc)
  then have "short_tokens (v @ (w @ b @ d))" using long_tokens_replaced [of False ?u] short_tokens_drop by metis
  then show "length v < 16" using v by (rule short_tokens_run)
qed

lemma logged_message_is_safe_witness:
  "\<exists>m. sd_errorMessage (describe_scheduler_error
        (PlainError ''Error'' ''Basic ab at http://x'' None)) = Some m \<and> length m \<le> 200"
proof -
  let ?e = "PlainError ''Error'' ''Basic ab at http://x'' None"
  have "sanitize_scheduler_error_message ''Basic ab at http://x''
      = ''[REDACTED] at [URL]''" by code_simp
  then have m: "sd_errorMessage (describe_scheduler_error ?e) = Some ''[REDACTED] at [URL]''"
    by (simp add: describe_scheduler_error_def Let_def)
  from logged_message_is_safe [OF m] m show ?thesis by blast
qed

end
