(* ===== verification/Executor_Loop.thy ===== *)
theory Executor_Loop
  imports Execution_Contracts Js_Number
begin

text \<open>
  The executor's loop (\<open>apps/executor/src/runner.ts\<close>, \<open>execution-utils.ts\<close>, \<open>diagnostics.ts\<close>): what it
  reports of an error, its delays, the claim loop, and the processing of one leased job, where the handler,
  the lease heartbeat, the time limit and the shutdown run side by side. The processing is a state machine:
  \<open>proc_step\<close> takes the next event (a promise settles, a timer fires, a signal aborts) and gives the new state,
  or \<open>None\<close> when that event cannot happen there; what the loop asks of the API and what it logs are part of
  the state. The clock readings of the code are parts of the events. While the handler is awaited no abort is
  pending, since an abort ends the wait; so the code's check of the signal after the wait never fires here. The
  timeout of the heartbeat's shutdown is taken to be valid (1 to 60000 ms), as its default is.
\<close>

section \<open>Errors\<close>

record exec_failure =
  xf_code :: string
  xf_message :: string
  xf_retryable :: bool
  xf_retryDelayMs :: "millis option"

text \<open>An \<open>ExecutorApiError\<close>: its status, and of its cause the name (when the cause is an \<open>Error\<close>) and the
  \<open>code\<close>.\<close>

record api_error =
  ae_status :: "int option"
  ae_incidentId :: "string option"
  ae_serverCode :: "string option"
  ae_causeName :: "string option"
  ae_causeCode :: "string option"

datatype thrown =
    ThrownFailure exec_failure
  | ThrownApi api_error
  | ThrownError string "string option"
  | ThrownValue "string option"

record safe_diagnostic =
  dg_errorType :: string
  dg_status :: "int option"
  dg_incidentId :: "string option"
  dg_serverCode :: "string option"
  dg_causeType :: "string option"
  dg_systemCode :: "string option"

definition normalize_error_name :: "string \<Rightarrow> string" where
  "normalize_error_name value =
     (if 1 \<le> length value \<and> length value \<le> 80
         \<and> list_all (\<lambda>c. is_alnum c \<or> c \<in> {CHR ''_'', CHR ''.'', CHR ''-''}) value
      then value else ''UnknownError'')"

definition safe_code :: "string option \<Rightarrow> string option" where
  "safe_code systemCode =
     (case systemCode of
        Some s \<Rightarrow>
          if 1 \<le> length s \<and> length s \<le> 64 \<and> list_all (\<lambda>c. is_upper c \<or> is_digit c \<or> c = CHR ''_'') s
          then Some s else None
      | None \<Rightarrow> None)"

text \<open>Empty incident identifiers and server codes are dropped, as falsy.\<close>

definition non_empty :: "string option \<Rightarrow> string option" where
  "non_empty s = (case s of Some t \<Rightarrow> if t = [] then None else Some t | None \<Rightarrow> None)"

definition plain_diagnostic :: "string \<Rightarrow> string option \<Rightarrow> safe_diagnostic" where
  "plain_diagnostic name systemCode =
     \<lparr>dg_errorType = name, dg_status = None, dg_incidentId = None, dg_serverCode = None,
      dg_causeType = None, dg_systemCode = safe_code systemCode\<rparr>"

definition describe_safe_error :: "thrown \<Rightarrow> safe_diagnostic" where
  "describe_safe_error error =
     (case error of
        ThrownApi a \<Rightarrow>
          \<lparr>dg_errorType = normalize_error_name ''ExecutorApiError'', dg_status = ae_status a,
           dg_incidentId = non_empty (ae_incidentId a), dg_serverCode = non_empty (ae_serverCode a),
           dg_causeType = map_option normalize_error_name (ae_causeName a),
           dg_systemCode = safe_code (ae_causeCode a)\<rparr>
      | ThrownFailure f \<Rightarrow> plain_diagnostic (normalize_error_name ''ExecutionFailure'') (Some (xf_code f))
      | ThrownError name systemCode \<Rightarrow> plain_diagnostic (normalize_error_name name) systemCode
      | ThrownValue systemCode \<Rightarrow> plain_diagnostic ''UnknownError'' systemCode)"

definition create_lease_lost_failure :: exec_failure where
  "create_lease_lost_failure =
     \<lparr>xf_code = ''lease_lost'', xf_message = ''Execution lease was lost before completion'',
      xf_retryable = True, xf_retryDelayMs = Some 1000\<rparr>"

definition create_lease_renewal_expired_failure :: exec_failure where
  "create_lease_renewal_expired_failure =
     \<lparr>xf_code = ''lease_renewal_expired'',
      xf_message = ''Execution lease could not be renewed before its deadline'',
      xf_retryable = True, xf_retryDelayMs = Some 1000\<rparr>"

definition create_shutdown_failure :: exec_failure where
  "create_shutdown_failure =
     \<lparr>xf_code = ''executor_shutdown'', xf_message = ''Executor shutdown interrupted active work'',
      xf_retryable = True, xf_retryDelayMs = Some 1000\<rparr>"

definition create_timeout_failure :: exec_failure where
  "create_timeout_failure =
     \<lparr>xf_code = ''execution_timeout'', xf_message = ''Execution exceeded the configured time limit'',
      xf_retryable = True, xf_retryDelayMs = Some 1000\<rparr>"

definition normalize_retry_delay :: "millis option \<Rightarrow> millis option" where
  "normalize_retry_delay value =
     (case value of
        Some v \<Rightarrow> if is_safe_integer v \<and> v \<ge> 0 \<and> v \<le> 86400000 then Some v else None
      | None \<Rightarrow> None)"

record failure_report =
  fr_error :: exec_error
  fr_retryDelayMs :: "millis option"

definition is_failure_code :: "string \<Rightarrow> bool" where
  "is_failure_code s =
     (1 \<le> length s \<and> length s \<le> 120
      \<and> list_all (\<lambda>c. is_alnum c \<or> c \<in> {CHR ''_'', CHR '':'', CHR ''-''}) s)"

definition normalize_execution_failure :: "thrown \<Rightarrow> failure_report" where
  "normalize_execution_failure error =
     (case error of
        ThrownFailure f \<Rightarrow>
          (let message = take 1000 (js_trim (xf_message f)) in
           \<lparr>fr_error =
              \<lparr>xe_code = (if is_failure_code (xf_code f) then xf_code f else ''execution_failed''),
               xe_message = (if message = [] then ''Execution handler failed'' else message),
               xe_retryable = xf_retryable f\<rparr>,
            fr_retryDelayMs = normalize_retry_delay (xf_retryDelayMs f)\<rparr>)
      | _ \<Rightarrow>
          (case dg_systemCode (describe_safe_error error) of
             Some s \<Rightarrow>
               \<lparr>fr_error = \<lparr>xe_code = ''execution_'' @ js_lower s,
                            xe_message = ''Execution handler failed ('' @ s @ '')'', xe_retryable = True\<rparr>,
                fr_retryDelayMs = None\<rparr>
           | None \<Rightarrow>
               \<lparr>fr_error = \<lparr>xe_code = ''execution_failed'', xe_message = ''Execution handler failed'',
                            xe_retryable = True\<rparr>,
                fr_retryDelayMs = None\<rparr>))"

definition is_definitive_lease_renewal_error :: "thrown \<Rightarrow> bool" where
  "is_definitive_lease_renewal_error error =
     (case error of
        ThrownApi a \<Rightarrow>
          (case ae_status a of
             None \<Rightarrow> False
           | Some s \<Rightarrow> s \<noteq> 408 \<and> s \<noteq> 429 \<and> s < 500)
      | _ \<Rightarrow> True)"

section \<open>Delays\<close>

definition is_retryable_http_status :: "int \<Rightarrow> bool" where
  "is_retryable_http_status status = (status = 408 \<or> status = 429 \<or> status \<ge> 500)"

definition retry_delay_ms :: "int \<Rightarrow> rat \<Rightarrow> int" where
  "retry_delay_ms attemptCount random =
     (let exponent = nat (max 0 (min 16 (attemptCount - 1)));
          baseDelay = min 60000 (1000 * 2 ^ exponent);
          jitter = to_double (of_int baseDelay * to_double (1 / 10));
          low = to_double (of_int baseDelay - jitter);
          spread = to_double (to_double (jitter * 2) * random)
      in min 60000 (math_round (to_double (low + spread))))"

text \<open>\<open>Math.random()\<close> or what the caller passes for it; \<open>None\<close> is a value that is not finite.\<close>

definition calculate_claim_backoff :: "int \<Rightarrow> nat \<Rightarrow> rat option \<Rightarrow> int" where
  "calculate_claim_backoff pollIntervalMs consecutiveFailures random =
     (let exponential = min (pollIntervalMs * 2 ^ min (consecutiveFailures - 1) 8) 60000;
          boundedRandom = (case random of Some r \<Rightarrow> min 1 (max 0 r) | None \<Rightarrow> 0);
          minimum = max pollIntervalMs \<lfloor>to_double (of_int exponential * to_double (9 / 10))\<rfloor>;
          maximum = min 60000 \<lceil>to_double (of_int exponential * to_double (11 / 10))\<rceil>
      in math_round (to_double (of_int minimum
           + to_double (of_int (maximum - minimum) * boundedRandom))))"

record loop_options =
  lo_leaseOwner :: string
  lo_leaseDurationMs :: millis
  lo_heartbeatIntervalMs :: millis
  lo_maxExecutionMs :: millis
  lo_pollIntervalMs :: millis

definition validate_executor_loop_options :: "loop_options \<Rightarrow> unit throws" where
  "validate_executor_loop_options p =
     (if length (lo_leaseOwner p) < 1 \<or> length (lo_leaseOwner p) > 160
      then throw ''Executor lease owner must contain between 1 and 160 characters''
      else if \<not> is_safe_integer (lo_leaseDurationMs p) \<or> lo_leaseDurationMs p < 1000
              \<or> lo_leaseDurationMs p > 3600000
      then throw ''Executor lease duration must be an integer between 1000 and 3600000ms''
      else if \<not> is_safe_integer (lo_heartbeatIntervalMs p) \<or> lo_heartbeatIntervalMs p < 1
              \<or> lo_heartbeatIntervalMs p * 3 > lo_leaseDurationMs p
      then throw ''Executor heartbeat interval must be at most one third of the lease duration''
      else if \<not> is_safe_integer (lo_pollIntervalMs p) \<or> lo_pollIntervalMs p < 1 \<or> lo_pollIntervalMs p > 60000
      then throw ''Executor poll interval must be an integer between 1 and 60000ms''
      else if \<not> is_safe_integer (lo_maxExecutionMs p) \<or> lo_maxExecutionMs p < 1000
              \<or> lo_maxExecutionMs p > 86400000
      then throw ''Executor max execution time must be an integer between 1000 and 86400000ms''
      else return ())"

section \<open>The claim loop\<close>

text \<open>A round: whether the signal had aborted at its head, how the claim settles, and the random number of
  the backoff.\<close>

record claim_round =
  cl_aborted :: bool
  cl_claim :: "thrown + exec_job option"
  cl_random :: "rat option"

datatype loop_event =
    ClaimFailed nat int
  | PolledEmpty int
  | Processed exec_job

fun executor_rounds :: "int \<Rightarrow> nat \<Rightarrow> claim_round list \<Rightarrow> loop_event list" where
  "executor_rounds poll failures [] = []"
| "executor_rounds poll failures (r # rs) =
     (if cl_aborted r then []
      else case cl_claim r of
        Inl e \<Rightarrow>
          ClaimFailed (failures + 1) (calculate_claim_backoff poll (failures + 1) (cl_random r))
          # executor_rounds poll (failures + 1) rs
      | Inr None \<Rightarrow> PolledEmpty poll # executor_rounds poll 0 rs
      | Inr (Some job) \<Rightarrow> Processed job # executor_rounds poll 0 rs)"

definition run_executor :: "loop_options \<Rightarrow> claim_round list \<Rightarrow> loop_event list throws" where
  "run_executor p rounds =
     bind_throws (validate_executor_loop_options p) (\<lambda>_. return (executor_rounds (lo_pollIntervalMs p) 0 rounds))"

section \<open>Processing one job\<close>

record lease =
  ls_owner :: string
  ls_durationMs :: millis

record proc_config =
  pc_lease :: lease
  pc_heartbeatIntervalMs :: millis
  pc_heartbeatShutdownTimeoutMs :: millis

text \<open>The heartbeat: waiting until the next renewal, with the deadline of the lease as far as it knows it;
  a renewal requested at an instant and not answered yet; or ended.\<close>

datatype heartbeat =
    HbWaiting iso millis
  | HbRenewing iso millis iso
  | HbEnded

text \<open>Where the processing is: the start request made at an instant; the report of a failed start; the handler
  at work; the completion, or the failure with its report, requested; the heartbeat awaited; ended.\<close>

datatype phase =
    Starting iso
  | ReportingStart
  | Working
  | Completing
  | Failing failure_report
  | Stopping
  | Ended

datatype api_call =
    CallStart
  | CallRenew
  | CallComplete
  | CallFail exec_error "millis option"

datatype proc_log =
    LogStartFailed safe_diagnostic
  | LogStartFailureRecorded exec_status
  | LogStartFailurePersistFailed safe_diagnostic
  | LogLeaseLost safe_diagnostic
  | LogRenewRetry millis safe_diagnostic
  | LogHandlerErrorAfterAbort safe_diagnostic
  | LogCompletionRejected
  | LogCompleted int
  | LogFailed string bool exec_status
  | LogFailurePersistFailed string safe_diagnostic
  | LogHeartbeatShutdownTimeout millis

record proc =
  pr_phase :: phase
  pr_abort :: "exec_failure option"
  pr_shutdown :: bool
  pr_settled :: bool
  pr_heartbeat :: heartbeat
  pr_calls :: "api_call list"
  pr_log :: "proc_log list"

datatype proc_event =
    StartReturns iso "thrown + exec_job"
  | StartReportReturns "thrown + exec_job"
  | ShutdownSignal
  | TimeLimit
  | HandlerSettles "thrown option"
  | HeartbeatDue iso
  | RenewReturns iso "thrown + exec_job"
  | CompleteReturns "thrown + exec_job"
  | FailReturns "thrown + exec_job"
  | HeartbeatTimeout

definition start_failure :: exec_error where
  "start_failure =
     \<lparr>xe_code = ''execution_start_failed'', xe_message = ''Executor could not start leased work'',
      xe_retryable = True\<rparr>"

definition add_log :: "proc_log \<Rightarrow> proc \<Rightarrow> proc" where
  "add_log l p = p\<lparr>pr_log := pr_log p @ [l]\<rparr>"

definition add_call :: "api_call \<Rightarrow> proc \<Rightarrow> proc" where
  "add_call c p = p\<lparr>pr_calls := pr_calls p @ [c]\<rparr>"

text \<open>The \<open>catch\<close> block: the failure is normalized and reported.\<close>

definition report_failure :: "thrown \<Rightarrow> proc \<Rightarrow> proc" where
  "report_failure error p =
     (let failure = normalize_execution_failure error in
      add_call (CallFail (fr_error failure) (fr_retryDelayMs failure)) (p\<lparr>pr_phase := Failing failure\<rparr>))"

text \<open>\<open>workController.abort(reason)\<close>: the first reason stays; while the handler is awaited, the race is lost to
  the abort at once.\<close>

definition abort_work :: "exec_failure \<Rightarrow> proc \<Rightarrow> proc" where
  "abort_work reason p =
     (if pr_abort p \<noteq> None then p
      else let p' = p\<lparr>pr_abort := Some reason\<rparr> in
           if pr_phase p' = Working then report_failure (ThrownFailure reason) p' else p')"

text \<open>The \<open>finally\<close> block: the heartbeat is told to stop; one that waits ends at once, one that awaits an
  answer is awaited.\<close>

definition stop_heartbeat :: "proc \<Rightarrow> proc" where
  "stop_heartbeat p =
     (case pr_heartbeat p of
        HbRenewing deadline delay startedAt \<Rightarrow> p\<lparr>pr_phase := Stopping\<rparr>
      | _ \<Rightarrow> p\<lparr>pr_phase := Ended, pr_heartbeat := HbEnded\<rparr>)"

definition lose_lease :: "thrown \<Rightarrow> proc \<Rightarrow> proc" where
  "lose_lease error p =
     abort_work create_lease_lost_failure
       (add_log (LogLeaseLost (describe_safe_error error)) (p\<lparr>pr_heartbeat := HbEnded\<rparr>))"

definition expired_error :: thrown where
  "expired_error = ThrownFailure create_lease_renewal_expired_failure"

text \<open>The answer to a renewal requested at \<open>startedAt\<close>, read at \<open>now\<close>.\<close>

definition settle_renewal ::
    "proc_config \<Rightarrow> iso \<Rightarrow> iso \<Rightarrow> iso \<Rightarrow> thrown + exec_job \<Rightarrow> proc \<Rightarrow> proc" where
  "settle_renewal cfg deadline startedAt now answer p =
     (case answer of
        Inr renewed \<Rightarrow>
          (let nextDeadline = startedAt + ls_durationMs (pc_lease cfg) in
           if now \<ge> nextDeadline \<or> ej_leaseOwner renewed \<noteq> Some (ls_owner (pc_lease cfg))
              \<or> (ej_status renewed \<noteq> ELeased \<and> ej_status renewed \<noteq> ERunning)
           then lose_lease expired_error p
           else p\<lparr>pr_heartbeat := HbWaiting nextDeadline (pc_heartbeatIntervalMs cfg)\<rparr>)
      | Inl error \<Rightarrow>
          if is_definitive_lease_renewal_error error then lose_lease error p
          else if now \<ge> deadline then lose_lease expired_error p
          else let remaining = deadline - now;
                   delay = min (pc_heartbeatIntervalMs cfg) (max 1 (remaining div 2))
               in add_log (LogRenewRetry delay (describe_safe_error error))
                    (p\<lparr>pr_heartbeat := HbWaiting deadline delay\<rparr>))"

definition proc_init :: "bool \<Rightarrow> iso \<Rightarrow> proc" where
  "proc_init shutdown now =
     \<lparr>pr_phase = Starting now, pr_abort = None, pr_shutdown = shutdown, pr_settled = False,
      pr_heartbeat = HbEnded, pr_calls = [CallStart], pr_log = []\<rparr>"

fun proc_step :: "proc_config \<Rightarrow> proc_event \<Rightarrow> proc \<Rightarrow> proc option" where
  "proc_step cfg (StartReturns now answer) p =
     (case pr_phase p of
        Starting requestedAt \<Rightarrow>
          (let deadline = requestedAt + ls_durationMs (pc_lease cfg);
               result = (case answer of Inl e \<Rightarrow> Inl e
                         | Inr j \<Rightarrow> if now \<ge> deadline then Inl expired_error else Inr j)
           in case result of
             Inl e \<Rightarrow>
               Some (add_call (CallFail start_failure (Some 1000))
                 (add_log (LogStartFailed (describe_safe_error e)) (p\<lparr>pr_phase := ReportingStart\<rparr>)))
           | Inr j \<Rightarrow>
               (let p' = p\<lparr>pr_phase := Working, pr_heartbeat := HbWaiting deadline (pc_heartbeatIntervalMs cfg)\<rparr>
                in Some (if pr_shutdown p then abort_work create_shutdown_failure p' else p')))
      | _ \<Rightarrow> None)"
| "proc_step cfg (StartReportReturns answer) p =
     (if pr_phase p = ReportingStart
      then Some (add_log (case answer of
                    Inr failed \<Rightarrow> LogStartFailureRecorded (ej_status failed)
                  | Inl e \<Rightarrow> LogStartFailurePersistFailed (describe_safe_error e)) (p\<lparr>pr_phase := Ended\<rparr>))
      else None)"
| "proc_step cfg ShutdownSignal p =
     (if pr_shutdown p then None
      else let p' = p\<lparr>pr_shutdown := True\<rparr> in
           case pr_phase p of
             Starting _ \<Rightarrow> Some p'
           | ReportingStart \<Rightarrow> Some p'
           | Stopping \<Rightarrow> Some p'
           | Ended \<Rightarrow> Some p'
           | _ \<Rightarrow> Some (abort_work create_shutdown_failure p'))"
| "proc_step cfg TimeLimit p =
     (if pr_phase p = Working then Some (abort_work create_timeout_failure p) else None)"
| "proc_step cfg (HandlerSettles outcome) p =
     (if pr_settled p then None
      else let p' = p\<lparr>pr_settled := True\<rparr> in
      case pr_phase p of
        Starting _ \<Rightarrow> None
      | ReportingStart \<Rightarrow> None
      | Working \<Rightarrow>
          (case outcome of
             None \<Rightarrow> Some (add_call CallComplete (p'\<lparr>pr_phase := Completing\<rparr>))
           | Some e \<Rightarrow> Some (report_failure e p'))
      | _ \<Rightarrow>
          (case (outcome, pr_abort p) of
             (Some e, Some _) \<Rightarrow> Some (add_log (LogHandlerErrorAfterAbort (describe_safe_error e)) p')
           | _ \<Rightarrow> Some p'))"
| "proc_step cfg (HeartbeatDue now) p =
     (case pr_heartbeat p of
        HbWaiting deadline delay \<Rightarrow>
          if now \<ge> deadline then Some (lose_lease expired_error p)
          else Some (add_call CallRenew (p\<lparr>pr_heartbeat := HbRenewing deadline delay now\<rparr>))
      | _ \<Rightarrow> None)"
| "proc_step cfg (RenewReturns now answer) p =
     (case pr_heartbeat p of
        HbRenewing deadline delay startedAt \<Rightarrow>
          (let p' = settle_renewal cfg deadline startedAt now answer p in
           Some (if pr_phase p' = Stopping \<or> pr_phase p' = Ended
                 then p'\<lparr>pr_phase := Ended, pr_heartbeat := HbEnded\<rparr> else p'))
      | _ \<Rightarrow> None)"
| "proc_step cfg (CompleteReturns answer) p =
     (if pr_phase p \<noteq> Completing then None
      else case answer of
        Inr completed \<Rightarrow> Some (stop_heartbeat (add_log (LogCompleted (ej_attemptCount completed)) p))
      | Inl error \<Rightarrow>
          (case error of
             ThrownApi a \<Rightarrow>
               if ae_status a = Some 409 then Some (stop_heartbeat (add_log LogCompletionRejected p))
               else Some (report_failure error p)
           | _ \<Rightarrow> Some (report_failure error p)))"
| "proc_step cfg (FailReturns answer) p =
     (case pr_phase p of
        Failing failure \<Rightarrow>
          Some (stop_heartbeat (add_log (case answer of
            Inr failed \<Rightarrow> LogFailed (xe_code (fr_error failure)) (xe_retryable (fr_error failure)) (ej_status failed)
          | Inl e \<Rightarrow> LogFailurePersistFailed (xe_code (fr_error failure)) (describe_safe_error e)) p))
      | _ \<Rightarrow> None)"
| "proc_step cfg HeartbeatTimeout p =
     (if pr_phase p = Stopping
      then Some (add_log (LogHeartbeatShutdownTimeout (pc_heartbeatShutdownTimeoutMs cfg)) (p\<lparr>pr_phase := Ended\<rparr>))
      else None)"

fun proc_run :: "proc_config \<Rightarrow> proc_event list \<Rightarrow> proc \<Rightarrow> proc option" where
  "proc_run cfg [] p = Some p"
| "proc_run cfg (e # es) p = Option.bind (proc_step cfg e p) (proc_run cfg es)"

end
