(* ===== verification/Executor_Properties.thy ===== *)
theory Executor_Properties
  imports Executor_Loop
begin

text \<open>
  What the executor's loop guarantees on its own: its failure reports are accepted by the API's schema, its
  delays keep their bounds, a processed job is reported exactly once, and nothing is completed after its
  lease was lost, its time ran out or the executor was told to stop.
\<close>

section \<open>Failure reports\<close>

lemma length_js_lower [simp]: "length (js_lower s) = length s"
  by (simp add: js_lower_def)

lemma safe_code_length: "safe_code c = Some s \<Longrightarrow> 1 \<le> length s \<and> length s \<le> 64"
  by (auto simp: safe_code_def split: option.splits if_splits)

lemma describe_code_length: "dg_systemCode (describe_safe_error e) = Some s \<Longrightarrow> 1 \<le> length s \<and> length s \<le> 64"
  by (auto simp: describe_safe_error_def plain_diagnostic_def split: thrown.splits dest: safe_code_length)

text \<open>Property C16. Whatever the handler throws, the failure the executor reports of it satisfies the
  schema of the API's failure request, so the report is not rejected for its form.\<close>

theorem failure_report_meets_schema:
  assumes "lease_owner_ok owner"
  shows "fail_request_schema owner (fr_error (normalize_execution_failure e))
           (fr_retryDelayMs (normalize_execution_failure e))"
proof (cases e)
  case (ThrownFailure f)
  then show ?thesis
    using assms
    by (auto simp: normalize_execution_failure_def fail_request_schema_def execution_error_schema_def len_between_def
        limit_defs Let_def is_failure_code_def normalize_retry_delay_def opt_ok_def Suc_le_eq
        split: option.splits)
next
  case (ThrownApi a)
  then show ?thesis
    using assms describe_code_length [of e]
    by (auto simp: normalize_execution_failure_def fail_request_schema_def execution_error_schema_def len_between_def
        limit_defs opt_ok_def split: option.splits)
next
  case (ThrownError n c)
  then show ?thesis
    using assms describe_code_length [of e]
    by (auto simp: normalize_execution_failure_def fail_request_schema_def execution_error_schema_def len_between_def
        limit_defs opt_ok_def split: option.splits)
next
  case (ThrownValue c)
  then show ?thesis
    using assms describe_code_length [of e]
    by (auto simp: normalize_execution_failure_def fail_request_schema_def execution_error_schema_def len_between_def
        limit_defs opt_ok_def split: option.splits)
qed

lemma failure_report_meets_schema_witness:
  "fail_request_schema ''w1'' (fr_error (normalize_execution_failure (ThrownError ''Error'' (Some ''ECONNRESET''))))
     (fr_retryDelayMs (normalize_execution_failure (ThrownError ''Error'' (Some ''ECONNRESET''))))"
  by (rule failure_report_meets_schema) (simp add: lease_owner_ok_def len_between_def limit_defs)

section \<open>Delays\<close>

lemma claim_exponential:
  assumes "1 \<le> poll" and "poll \<le> 60000"
  shows "poll \<le> min (poll * 2 ^ k) (60000 :: int)" and "min (poll * 2 ^ k) (60000 :: int) \<le> 60000"
  using assms mult_left_mono [of 1 "2 ^ k" poll] by (auto simp: min_def)

lemma scaled_bounds:
  assumes "0 \<le> e" and "e \<le> 60000"
  shows "\<lfloor>to_double (of_int e * to_double (9 / 10))\<rfloor> \<le> e"
    and "e \<le> \<lceil>to_double (of_int e * to_double (11 / 10))\<rceil>"
proof -
  have c: "0 \<le> to_double (9 / 10)" "to_double (9 / 10) \<le> 1" "1 \<le> to_double (11 / 10)" "to_double (11 / 10) \<le> 2"
    using to_double_le [of "9 / 10" 1] to_double_ge [of "9 / 10" 0] to_double_ge [of "11 / 10" 1]
      to_double_le [of "11 / 10" 2] by simp_all
  have e: "0 \<le> (of_int e :: rat)" "of_int e \<le> (60000 :: rat)" using assms by simp_all
  have "of_int e * to_double (9 / 10) \<le> of_int e" using mult_left_mono [OF c(2) e(1)] by simp
  then have "to_double (of_int e * to_double (9 / 10)) \<le> of_int e"
    using to_double_le [of "of_int e * to_double (9 / 10)" e] assms c(1) by simp
  then show "\<lfloor>to_double (of_int e * to_double (9 / 10))\<rfloor> \<le> e" by (simp add: floor_le_iff)
  have "of_int e \<le> of_int e * to_double (11 / 10)" using mult_left_mono [OF c(3) e(1)] by simp
  moreover have "of_int e * to_double (11 / 10) \<le> 60000 * 2" using e c by (intro mult_mono) auto
  ultimately have "of_int e \<le> to_double (of_int e * to_double (11 / 10))"
    using to_double_ge [of "of_int e * to_double (11 / 10)" e] e by simp
  then show "e \<le> \<lceil>to_double (of_int e * to_double (11 / 10))\<rceil>" by (simp add: le_ceiling_iff)
qed

text \<open>Between two failed claims the executor waits at least its poll interval and at most a
  minute, whatever the number of failures and the random number.\<close>

theorem claim_backoff_bounds:
  assumes "1 \<le> poll" and "poll \<le> 60000"
  shows "poll \<le> calculate_claim_backoff poll n random \<and> calculate_claim_backoff poll n random \<le> 60000"
proof -
  define e where "e = min (poll * 2 ^ min (n - 1) 8) (60000 :: int)"
  have e: "poll \<le> e" "e \<le> 60000" using claim_exponential [OF assms, of "min (n - 1) 8"] by (simp_all add: e_def)
  define r where "r = (case random of Some r \<Rightarrow> min 1 (max 0 r) | None \<Rightarrow> 0)"
  have r: "0 \<le> r" "r \<le> 1" by (simp_all add: r_def split: option.split)
  define lo where "lo = max poll \<lfloor>to_double (of_int e * to_double (9 / 10))\<rfloor>"
  define hi where "hi = min 60000 \<lceil>to_double (of_int e * to_double (11 / 10))\<rceil>"
  have b: "poll \<le> lo" "lo \<le> hi" "hi \<le> 60000"
    using scaled_bounds [of e] e assms unfolding lo_def hi_def by linarith+
  have s0: "0 \<le> of_int (hi - lo) * r" using b r by simp
  have s1: "of_int (hi - lo) * r \<le> of_int (hi - lo)" using mult_left_mono [OF r(2), of "of_int (hi - lo)"] b by simp
  have d: "0 \<le> to_double (of_int (hi - lo) * r)" "to_double (of_int (hi - lo) * r) \<le> of_int (hi - lo)"
  proof -
    have "of_int (hi - lo) < (2 ^ 53 :: rat)" using b assms by simp
    then show "0 \<le> to_double (of_int (hi - lo) * r)"
      using to_double_ge [of "of_int (hi - lo) * r" 0] s0 s1 by simp
    show "to_double (of_int (hi - lo) * r) \<le> of_int (hi - lo)"
      by (rule to_double_le) (use s0 s1 b assms in auto)
  qed
  have t: "0 \<le> of_int lo + to_double (of_int (hi - lo) * r)" "of_int lo + to_double (of_int (hi - lo) * r) \<le> of_int hi"
    using d b assms by (auto simp: algebra_simps)
  have "of_int lo + to_double (of_int (hi - lo) * r) < (2 ^ 53 :: rat)"
    by (rule le_less_trans [OF t(2)]) (use b in simp)
  then have "of_int lo \<le> to_double (of_int lo + to_double (of_int (hi - lo) * r))"
    using to_double_ge [OF t(1), of lo] d by simp
  moreover have "to_double (of_int lo + to_double (of_int (hi - lo) * r)) \<le> of_int hi"
    by (rule to_double_le [OF t]) (use b in simp)
  ultimately have "lo \<le> math_round (to_double (of_int lo + to_double (of_int (hi - lo) * r)))"
    and "math_round (to_double (of_int lo + to_double (of_int (hi - lo) * r))) \<le> hi"
    by (auto intro: math_round_ge math_round_le)
  moreover have "calculate_claim_backoff poll n random
      = math_round (to_double (of_int lo + to_double (of_int (hi - lo) * r)))"
    by (simp add: calculate_claim_backoff_def Let_def lo_def hi_def e_def r_def)
  ultimately show ?thesis using b by linarith
qed

lemma claim_backoff_bounds_witness:
  "1000 \<le> calculate_claim_backoff 1000 7 (Some (1 / 3)) \<and> calculate_claim_backoff 1000 7 (Some (1 / 3)) \<le> 60000"
  by (rule claim_backoff_bounds) simp_all

section \<open>The retry delay of a handler\<close>

lemma to_double_tenth: "to_double (1 / 10) = 7205759403792794 / 2 ^ 56"
  using to_double_near [of "1 / 10" 56 7205759403792794] by (simp add: subnormal_bits_def)

text \<open>A tenth of each base delay is exact, since the error of the factor is below half a unit.\<close>

lemma tenth_exact:
  assumes "2 ^ 52 \<le> q * 2 ^ j" and "q * 2 ^ j < 2 ^ 52 * 2 - 1" and "j \<le> 1074" and "q = of_int n"
  shows "to_double (q * 10 * to_double (1 / 10)) = q"
proof -
  define y where "y = q * 2 ^ j"
  have y: "2 ^ 52 \<le> y" "y < 2 ^ 52 * 2 - 1" using assms(1,2) by (simp_all add: y_def)
  have x: "q * 10 * to_double (1 / 10) * 2 ^ j = y + y * (4 / 72057594037927936)"
    by (simp add: to_double_tenth y_def)
  have "to_double (q * 10 * to_double (1 / 10)) = of_int (n * 2 ^ j) / 2 ^ j"
  proof (rule to_double_near)
    have n: "of_int (n * 2 ^ j) = y" using assms(4) by (simp add: y_def)
    show "2 ^ 52 \<le> q * 10 * to_double (1 / 10) * 2 ^ j" "q * 10 * to_double (1 / 10) * 2 ^ j < 2 ^ 53"
      "of_int (n * 2 ^ j) - 1 / 2 < q * 10 * to_double (1 / 10) * 2 ^ j"
      "q * 10 * to_double (1 / 10) * 2 ^ j < of_int (n * 2 ^ j) + 1 / 2"
      unfolding x n using y by simp_all
    show "j \<le> subnormal_bits" using assms(3) by (simp add: subnormal_bits_def)
  qed
  then show ?thesis using assms(4) by simp
qed

lemma jitter_exact:
  assumes "b \<in> {1000, 2000, 4000, 8000, 16000, 32000, 60000 :: int}"
  shows "to_double (of_int b * to_double (1 / 10)) = of_int (b div 10)"
proof -
  have exact: "to_double (of_int (n * 10) * to_double (1 / 10)) = of_int (n * 10 div 10)"
    if "2 ^ 52 \<le> (of_int n :: rat) * 2 ^ j" "(of_int n :: rat) * 2 ^ j < 2 ^ 52 * 2 - 1" "j \<le> 1074" for n j
    using tenth_exact [OF that refl] by simp
  from assms consider "b = 100 * 10" | "b = 200 * 10" | "b = 400 * 10" | "b = 800 * 10" | "b = 1600 * 10"
    | "b = 3200 * 10" | "b = 6000 * 10" by auto
  then show ?thesis
  proof cases
    case 1 show ?thesis unfolding 1 by (rule exact [of _ 46]) simp_all
  next
    case 2 show ?thesis unfolding 2 by (rule exact [of _ 45]) simp_all
  next
    case 3 show ?thesis unfolding 3 by (rule exact [of _ 44]) simp_all
  next
    case 4 show ?thesis unfolding 4 by (rule exact [of _ 43]) simp_all
  next
    case 5 show ?thesis unfolding 5 by (rule exact [of _ 42]) simp_all
  next
    case 6 show ?thesis unfolding 6 by (rule exact [of _ 41]) simp_all
  next
    case 7 show ?thesis unfolding 7 by (rule exact [of _ 40]) simp_all
  qed
qed

lemma base_delay_cases:
  "min 60000 (1000 * 2 ^ nat (max 0 (min 16 (a - 1)))) \<in> {1000, 2000, 4000, 8000, 16000, 32000, 60000 :: int}"
proof -
  define k where "k = nat (max 0 (min 16 (a - 1)))"
  show ?thesis
  proof (cases "k < 6")
    case True
    then have "k = 0 \<or> k = 1 \<or> k = 2 \<or> k = 3 \<or> k = 4 \<or> k = 5" by arith
    then show ?thesis unfolding k_def [symmetric] by auto
  next
    case False
    then have "(2 :: int) ^ 6 \<le> 2 ^ k" by (intro power_increasing) auto
    then show ?thesis unfolding k_def [symmetric] by simp
  qed
qed

text \<open>The retry delay of the handlers doubles from one second with the attempts up to a minute,
  varied by at most a tenth either way and never above a minute.\<close>

theorem retry_delay_bounds:
  assumes "0 \<le> random" and "random \<le> 1"
  shows "let base = min 60000 (1000 * 2 ^ nat (max 0 (min 16 (attempt - 1)))) :: int in
    base - base div 10 \<le> retry_delay_ms attempt random
    \<and> retry_delay_ms attempt random \<le> min 60000 (base + base div 10)"
proof -
  define b :: int where "b = min 60000 (1000 * 2 ^ nat (max 0 (min 16 (attempt - 1))))"
  have b: "b \<in> {1000, 2000, 4000, 8000, 16000, 32000, 60000 :: int}" unfolding b_def by (rule base_delay_cases)
  define q where "q = b div 10"
  have q: "b = 10 * q" "100 \<le> q" "q \<le> 6000" using b by (auto simp: q_def)
  have jitter: "to_double (of_int b * to_double (1 / 10)) = of_int q" using jitter_exact [OF b] by (simp add: q_def)
  have low: "to_double (of_int b - of_int q) = of_int (9 * q)"
    using to_double_int [of "9 * q"] q by simp
  have twice: "to_double (of_int q * 2) = of_int (2 * q)"
    using to_double_int [of "2 * q"] q by (simp add: mult.commute)
  define s where "s = to_double (of_int (2 * q) * random)"
  have p: "of_int (2 * q) * random \<le> of_int (2 * q)" "0 \<le> of_int (2 * q) * random"
    using mult_left_mono [OF assms(2), of "of_int (2 * q)"] assms(1) q by simp_all
  moreover have "of_int (2 * q) * random < 2 ^ 53" by (rule le_less_trans [OF p(1)]) (use q in simp)
  ultimately have s: "0 \<le> s" "s \<le> of_int (2 * q)"
    using to_double_le [of "of_int (2 * q) * random" "2 * q"] to_double_ge [of "of_int (2 * q) * random" 0] q
    by (simp_all add: s_def)
  have t: "of_int (9 * q) \<le> to_double (of_int (9 * q) + s)" "to_double (of_int (9 * q) + s) \<le> of_int (11 * q)"
    using to_double_ge [of "of_int (9 * q) + s" "9 * q"] to_double_le [of "of_int (9 * q) + s" "11 * q"] s q
    by (simp_all add: le_less_trans)
  have "retry_delay_ms attempt random = min 60000 (math_round (to_double (of_int (9 * q) + s)))"
    unfolding retry_delay_ms_def Let_def b_def [symmetric] jitter low twice s_def ..
  with math_round_ge [OF t(1)] math_round_le [OF t(2)] q show ?thesis
    unfolding Let_def b_def [symmetric] by (simp add: q_def [symmetric])
qed

lemma retry_delay_bounds_witness:
  "1800 \<le> retry_delay_ms 2 (1 / 2) \<and> retry_delay_ms 2 (1 / 2) \<le> 2200"
  using retry_delay_bounds [of "1 / 2" 2] by (simp add: Let_def)

section \<open>One report per job\<close>

fun is_fail_call :: "api_call \<Rightarrow> bool" where
  "is_fail_call (CallFail e d) = True"
| "is_fail_call c = False"

definition failure_reports :: "proc \<Rightarrow> nat" where
  "failure_reports p = length (filter is_fail_call (pr_calls p))"

definition completion_requests :: "proc \<Rightarrow> nat" where
  "completion_requests p = length (filter (\<lambda>c. c = CallComplete) (pr_calls p))"

fun is_completion_answer :: "proc_log \<Rightarrow> bool" where
  "is_completion_answer (LogCompleted n) = True"
| "is_completion_answer LogCompletionRejected = True"
| "is_completion_answer l = False"

definition completion_answered :: "proc \<Rightarrow> bool" where
  "completion_answered p = list_ex is_completion_answer (pr_log p)"

fun phase_inv :: "phase \<Rightarrow> nat \<Rightarrow> nat \<Rightarrow> bool \<Rightarrow> bool \<Rightarrow> heartbeat \<Rightarrow> bool" where
  "phase_inv (Starting t) f c answered aborted hb = (f = 0 \<and> c = 0 \<and> \<not> answered \<and> \<not> aborted \<and> hb = HbEnded)"
| "phase_inv ReportingStart f c answered aborted hb = (f = 1 \<and> c = 0 \<and> \<not> answered \<and> hb = HbEnded)"
| "phase_inv Working f c answered aborted hb = (f = 0 \<and> c = 0 \<and> \<not> answered \<and> \<not> aborted)"
| "phase_inv Completing f c answered aborted hb = (f = 0 \<and> c = 1 \<and> \<not> answered)"
| "phase_inv (Failing r) f c answered aborted hb = (f = 1 \<and> c \<le> 1 \<and> \<not> answered)"
| "phase_inv _ f c answered aborted hb = (c \<le> 1 \<and> (if answered then f = 0 \<and> c = 1 else f = 1))"

definition proc_inv :: "proc \<Rightarrow> bool" where
  "proc_inv p = phase_inv (pr_phase p) (failure_reports p) (completion_requests p) (completion_answered p)
     (pr_abort p \<noteq> None) (pr_heartbeat p)"

lemmas count_defs = failure_reports_def completion_requests_def completion_answered_def
lemmas proc_defs = proc_inv_def count_defs add_log_def add_call_def

lemma abort_work_inv:
  assumes "proc_inv p" and "\<forall>t. pr_phase p \<noteq> Starting t"
  shows "proc_inv (abort_work r p)"
  using assms by (cases "pr_phase p") (auto simp: abort_work_def report_failure_def Let_def proc_defs)

lemma abort_work_phase:
  "(pr_phase (abort_work r p) = Starting t) = (pr_phase p = Starting t)"
  "(pr_phase (abort_work r p) = Stopping) = (pr_phase p = Stopping)"
  "(pr_phase (abort_work r p) = Ended) = (pr_phase p = Ended)"
  by (auto simp: abort_work_def report_failure_def Let_def add_call_def)

lemma lose_lease_inv:
  assumes "proc_inv p" and "\<forall>t. pr_phase p \<noteq> Starting t"
  shows "proc_inv (lose_lease e p)"
  unfolding lose_lease_def
  by (rule abort_work_inv) (use assms in \<open>cases "pr_phase p"; auto simp: proc_defs\<close>)+

lemma settle_renewal_inv:
  assumes "proc_inv p" and "pr_heartbeat p \<noteq> HbEnded"
  shows "proc_inv (settle_renewal cfg d s now answer p)"
proof -
  have "\<forall>t. pr_phase p \<noteq> Starting t" using assms by (auto simp: proc_inv_def)
  moreover have "proc_inv (p\<lparr>pr_heartbeat := h\<rparr>)" "proc_inv (add_log (LogRenewRetry n g) (p\<lparr>pr_heartbeat := h\<rparr>))" for h n g
    using assms by (cases "pr_phase p"; auto simp: proc_defs)+
  ultimately show ?thesis
    using lose_lease_inv [OF assms(1)] by (auto simp: settle_renewal_def Let_def split: sum.split)
qed

lemma stop_heartbeat_inv:
  assumes "(c = 1 \<and> f = 0 \<and> completion_answered p) \<or> (c \<le> 1 \<and> f = 1 \<and> \<not> completion_answered p)"
    and "failure_reports p = f" and "completion_requests p = c"
  shows "proc_inv (stop_heartbeat p)"
  using assms by (auto simp: stop_heartbeat_def proc_defs split: heartbeat.split)

lemma proc_step_inv:
  assumes "proc_step cfg e p = Some p'" and "proc_inv p"
  shows "proc_inv p'"
proof (cases e)
  case (StartReturns now answer)
  with assms show ?thesis
    by (auto simp: Let_def abort_work_def report_failure_def proc_defs split: phase.splits sum.splits if_splits)
next
  case (StartReportReturns answer)
  with assms show ?thesis by (auto simp: proc_defs split: if_splits sum.splits)
next
  case ShutdownSignal
  have "proc_inv (p\<lparr>pr_shutdown := True\<rparr>)" using assms(2) by (simp add: proc_defs)
  with ShutdownSignal assms show ?thesis
    using abort_work_inv [of "p\<lparr>pr_shutdown := True\<rparr>"]
    by (auto simp: Let_def split: if_splits phase.splits)
next
  case TimeLimit
  with assms show ?thesis by (auto intro: abort_work_inv split: if_splits)
next
  case (HandlerSettles outcome)
  with assms show ?thesis
    by (auto simp: Let_def report_failure_def proc_defs split: if_splits phase.splits option.splits)
next
  case (HeartbeatDue now)
  then obtain d n where h: "pr_heartbeat p = HbWaiting d n" using assms(1) by (auto split: heartbeat.splits)
  then have s: "\<forall>t. pr_phase p \<noteq> Starting t" using assms(2) by (auto simp: proc_inv_def)
  have "proc_inv (add_call CallRenew (p\<lparr>pr_heartbeat := HbRenewing d n now\<rparr>))"
    using assms(2) h by (cases "pr_phase p") (auto simp: proc_defs)
  with HeartbeatDue h assms lose_lease_inv [OF assms(2) s] show ?thesis by (auto split: if_splits)
next
  case (RenewReturns now answer)
  then obtain d n s where h: "pr_heartbeat p = HbRenewing d n s" using assms(1) by (auto split: heartbeat.splits)
  let ?q = "settle_renewal cfg d s now answer p"
  have q: "proc_inv ?q" by (rule settle_renewal_inv [OF assms(2)]) (simp add: h)
  then have "pr_phase ?q = Stopping \<or> pr_phase ?q = Ended \<Longrightarrow> proc_inv (?q\<lparr>pr_phase := Ended, pr_heartbeat := HbEnded\<rparr>)"
    by (auto simp: proc_defs)
  with q RenewReturns h assms(1) show ?thesis by (auto simp: Let_def split: if_splits)
next
  case (CompleteReturns answer)
  then have c: "failure_reports p = 0" "completion_requests p = 1" "\<not> completion_answered p" "pr_phase p = Completing"
    using assms by (auto simp: proc_inv_def split: if_splits)
  have "proc_inv (stop_heartbeat (add_log l p))" if "is_completion_answer l" for l
    by (rule stop_heartbeat_inv [where c = 1 and f = 0]) (use that c in \<open>simp_all add: count_defs add_log_def\<close>)
  moreover have "proc_inv (report_failure x p)" for x
    using c by (simp add: report_failure_def Let_def proc_defs)
  ultimately show ?thesis
    using CompleteReturns assms(1) by (auto split: if_splits sum.splits thrown.splits)
next
  case (FailReturns answer)
  then obtain r where r: "pr_phase p = Failing r" using assms(1) by (auto split: phase.splits)
  then have c: "failure_reports p = 1" "completion_requests p \<le> 1" "\<not> completion_answered p"
    using assms(2) by (auto simp: proc_inv_def)
  have "proc_inv (stop_heartbeat (add_log l p))" if "\<not> is_completion_answer l" for l
    by (rule stop_heartbeat_inv [OF _ refl refl]) (use that c in \<open>simp add: count_defs add_log_def\<close>)
  with FailReturns r assms(1) show ?thesis by (auto split: sum.splits)
next
  case HeartbeatTimeout
  with assms show ?thesis by (auto simp: proc_defs split: if_splits)
qed

lemma proc_run_induct_inv:
  assumes "proc_run cfg es p = Some p'" and "I p"
    and "\<And>e p p'. proc_step cfg e p = Some p' \<Longrightarrow> I p \<Longrightarrow> I p'"
  shows "I p'"
  using assms by (induction es arbitrary: p) (auto simp: bind_eq_Some_conv)

lemma proc_init_inv: "proc_inv (proc_init s t)"
  by (simp add: proc_init_def proc_defs)

text \<open>Property C14. Whatever happens while a job is processed, in whatever order, the executor asks at most once for
  its completion and reports at most one failure; when the processing has ended, either the completion was answered
  (accepted, or refused because the lease was lost) and no failure was reported, or exactly one failure was.\<close>

theorem job_is_reported_once:
  assumes "proc_run cfg es (proc_init shutdown now) = Some p"
  shows "failure_reports p \<le> 1 \<and> completion_requests p \<le> 1
    \<and> (if pr_phase p = Stopping \<or> pr_phase p = Ended
       then (completion_answered p \<and> completion_requests p = 1 \<and> failure_reports p = 0)
          \<or> (\<not> completion_answered p \<and> failure_reports p = 1)
       else \<not> completion_answered p)"
proof -
  have "proc_inv p" using proc_run_induct_inv [where I = proc_inv, OF assms proc_init_inv] proc_step_inv by blast
  then show ?thesis by (cases "pr_phase p") (auto simp: proc_inv_def split: if_splits)
qed

definition sample_config :: proc_config where
  "sample_config = \<lparr>pc_lease = \<lparr>ls_owner = ''w1'', ls_durationMs = 30000\<rparr>, pc_heartbeatIntervalMs = 10000,
     pc_heartbeatShutdownTimeoutMs = 5000\<rparr>"

definition sample_job :: exec_job where
  "sample_job = \<lparr>ej_id = ''x1'', ej_kind = NetworkProbe, ej_resourceId = ''j1'', ej_status = ERunning,
     ej_leaseOwner = Some ''w1'', ej_leaseExpiresAt = Some 30000, ej_attemptCount = 1, ej_maxAttempts = 3,
     ej_availableAt = 0, ej_payload = JNull, ej_error = None, ej_createdAt = 0, ej_updatedAt = 0,
     ej_completedAt = None\<rparr>"

definition refused :: "thrown + exec_job" where
  "refused = Inl (ThrownApi \<lparr>ae_status = Some 409, ae_incidentId = None, ae_serverCode = None,
     ae_causeName = None, ae_causeCode = None\<rparr>)"

text \<open>The lease is lost while the handler works: the failure is reported, and the heartbeat has ended.\<close>

definition lost_lease_run :: "proc_event list" where
  "lost_lease_run = [StartReturns 5 (Inr sample_job), HeartbeatDue 10005, RenewReturns 10010 refused]"

lemma lost_lease_run_result:
  "\<exists>p. proc_run sample_config lost_lease_run (proc_init False 0) = Some p \<and> pr_abort p \<noteq> None
     \<and> CallComplete \<notin> set (pr_calls p) \<and> pr_phase p \<noteq> Ended \<and> failure_reports p = 1"
  by (simp add: lost_lease_run_def sample_config_def proc_init_def refused_def settle_renewal_def lose_lease_def
      is_definitive_lease_renewal_error_def abort_work_def report_failure_def add_call_def add_log_def Let_def
      failure_reports_def)

lemma job_is_reported_once_witness:
  "\<exists>p. proc_run sample_config (lost_lease_run @ [HandlerSettles None, FailReturns refused]) (proc_init False 0) = Some p
     \<and> failure_reports p = 1 \<and> pr_phase p = Ended"
proof -
  let ?es = "lost_lease_run @ [HandlerSettles None, FailReturns refused]"
  obtain p where p: "proc_run sample_config ?es (proc_init False 0) = Some p" "pr_phase p = Ended"
      "\<not> completion_answered p"
    by (simp add: lost_lease_run_def sample_config_def proc_init_def refused_def settle_renewal_def lose_lease_def
        is_definitive_lease_renewal_error_def abort_work_def report_failure_def add_call_def add_log_def Let_def
        stop_heartbeat_def completion_answered_def)
  from job_is_reported_once [OF p(1)] p show ?thesis by auto
qed

section \<open>No completion of aborted work\<close>

definition aborted_inv :: "proc \<Rightarrow> bool" where
  "aborted_inv p = (pr_abort p \<noteq> None \<and> (\<forall>t. pr_phase p \<noteq> Starting t) \<and> pr_phase p \<noteq> Working)"

lemma aborted_inv_intro: "proc_inv p \<Longrightarrow> pr_abort p \<noteq> None \<Longrightarrow> aborted_inv p"
  by (cases "pr_phase p") (auto simp: aborted_inv_def proc_inv_def)

lemma abort_work_aborted: "aborted_inv p \<Longrightarrow> abort_work r p = p"
  by (auto simp: aborted_inv_def abort_work_def)

lemma lose_lease_aborted:
  assumes "aborted_inv p"
  shows "lose_lease e p = add_log (LogLeaseLost (describe_safe_error e)) (p\<lparr>pr_heartbeat := HbEnded\<rparr>)"
  unfolding lose_lease_def by (rule abort_work_aborted) (use assms in \<open>simp add: aborted_inv_def add_log_def\<close>)

lemma settle_renewal_aborted:
  assumes "aborted_inv p"
  shows "aborted_inv (settle_renewal cfg d s now answer p) \<and> pr_calls (settle_renewal cfg d s now answer p) = pr_calls p
    \<and> pr_phase (settle_renewal cfg d s now answer p) = pr_phase p"
  using assms
  by (cases answer)
    (auto simp: settle_renewal_def lose_lease_aborted [OF assms] Let_def aborted_inv_def add_log_def)

lemma aborted_step:
  assumes "proc_step cfg e p = Some p'" and "aborted_inv p"
  shows "aborted_inv p' \<and> completion_requests p' = completion_requests p"
proof -
  have stop: "aborted_inv (stop_heartbeat q) \<and> pr_calls (stop_heartbeat q) = pr_calls q" if "aborted_inv q" for q
    using that by (auto simp: stop_heartbeat_def aborted_inv_def split: heartbeat.split)
  have log: "aborted_inv (add_log l p)" "pr_calls (add_log l p) = pr_calls p" for l
    using assms(2) by (simp_all add: aborted_inv_def add_log_def)
  note abort = abort_work_aborted [OF assms(2)]
  show ?thesis
  proof (cases e)
    case (StartReturns now answer)
    with assms show ?thesis by (auto simp: aborted_inv_def split: phase.splits)
  next
    case (StartReportReturns answer)
    with assms show ?thesis by (auto simp: aborted_inv_def add_log_def completion_requests_def split: if_splits)
  next
    case ShutdownSignal
    have "aborted_inv (p\<lparr>pr_shutdown := True\<rparr>)" using assms(2) by (simp add: aborted_inv_def)
    from abort_work_aborted [OF this] this ShutdownSignal assms(1) show ?thesis
      by (auto simp: Let_def completion_requests_def split: if_splits phase.splits)
  next
    case TimeLimit
    with assms show ?thesis by (simp add: aborted_inv_def split: if_splits)
  next
    case (HandlerSettles outcome)
    with assms show ?thesis
      by (auto simp: aborted_inv_def Let_def add_log_def completion_requests_def
          split: if_splits phase.splits option.splits)
  next
    case (HeartbeatDue now)
    have "aborted_inv (p\<lparr>pr_heartbeat := HbEnded\<rparr>)" using assms(2) by (simp add: aborted_inv_def)
    then have "aborted_inv (lose_lease expired_error p) \<and> pr_calls (lose_lease expired_error p) = pr_calls p"
      by (auto simp: lose_lease_def abort_work_def aborted_inv_def add_log_def)
    with HeartbeatDue assms show ?thesis
      by (auto simp: completion_requests_def add_call_def aborted_inv_def split: if_splits heartbeat.splits)
  next
    case (RenewReturns now answer)
    then obtain d n s where "pr_heartbeat p = HbRenewing d n s" using assms(1) by (auto split: heartbeat.splits)
    with RenewReturns assms(1) settle_renewal_aborted [OF assms(2), of cfg d s now answer] show ?thesis
      by (auto simp: Let_def completion_requests_def aborted_inv_def split: if_splits)
  next
    case (CompleteReturns answer)
    have "aborted_inv (report_failure x p) \<and> completion_requests (report_failure x p) = completion_requests p" for x
      using assms(2) by (simp add: report_failure_def Let_def aborted_inv_def add_call_def completion_requests_def)
    with CompleteReturns assms(1) stop log show ?thesis
      by (auto simp: completion_requests_def split: if_splits sum.splits thrown.splits)
  next
    case (FailReturns answer)
    with assms(1) stop log show ?thesis
      by (auto simp: completion_requests_def split: phase.splits)
  next
    case HeartbeatTimeout
    with assms show ?thesis by (auto simp: aborted_inv_def add_log_def completion_requests_def split: if_splits)
  qed
qed

text \<open>Property C15. Work that was aborted, because its lease was lost, its time ran out or the executor is shutting
  down, is never completed: from then on the executor never asks for its completion.\<close>

theorem aborted_work_is_not_completed:
  assumes "proc_run cfg es (proc_init shutdown now) = Some p" and "pr_abort p \<noteq> None"
    and "proc_run cfg es' p = Some p'"
  shows "completion_requests p' = completion_requests p"
proof -
  have "proc_inv p" using proc_run_induct_inv [where I = proc_inv, OF assms(1) proc_init_inv] proc_step_inv by blast
  then have "aborted_inv p" using assms(2) by (rule aborted_inv_intro)
  then have "aborted_inv p' \<and> completion_requests p' = completion_requests p"
    using proc_run_induct_inv [where I = "\<lambda>q. aborted_inv q \<and> completion_requests q = completion_requests p", OF assms(3)]
      aborted_step by fastforce
  then show ?thesis ..
qed

lemma aborted_work_is_not_completed_witness:
  "\<exists>p p'. proc_run sample_config lost_lease_run (proc_init False 0) = Some p
     \<and> proc_run sample_config [HandlerSettles None] p = Some p' \<and> completion_requests p' = completion_requests p"
proof -
  obtain p where p: "proc_run sample_config lost_lease_run (proc_init False 0) = Some p" "pr_abort p \<noteq> None"
    using lost_lease_run_result by blast
  have "\<exists>p'. proc_run sample_config [HandlerSettles None] p = Some p'"
    using p(1) by (auto simp: lost_lease_run_def sample_config_def proc_init_def refused_def settle_renewal_def
        lose_lease_def is_definitive_lease_renewal_error_def abort_work_def report_failure_def add_call_def add_log_def Let_def)
  with aborted_work_is_not_completed [OF p] p show ?thesis by blast
qed

section \<open>Renewals are retried in time\<close>

text \<open>When a renewal fails for a reason that may pass, the heartbeat keeps the deadline it had and
  asks again after at most the heartbeat interval and, unless only one millisecond is left, before that deadline;
  any other failure, or one that comes after the deadline, ends the heartbeat and aborts the work.\<close>

theorem renewal_is_retried_in_time:
  assumes "proc_step cfg (RenewReturns now (Inl e)) p = Some p'" and "pr_heartbeat p = HbRenewing D n t"
    and "pr_phase p = Working" and "pr_abort p = None" and "1 \<le> pc_heartbeatIntervalMs cfg"
  shows "if \<not> is_definitive_lease_renewal_error e \<and> now < D
    then \<exists>n'. pr_heartbeat p' = HbWaiting D n' \<and> pr_phase p' = Working
           \<and> 1 \<le> n' \<and> n' \<le> pc_heartbeatIntervalMs cfg
           \<and> (if D = now + 1 then n' = 1 else now + n' < D)
    else pr_heartbeat p' = HbEnded \<and> pr_abort p' = Some create_lease_lost_failure \<and> failure_reports p' = Suc (failure_reports p)"
proof (cases "\<not> is_definitive_lease_renewal_error e \<and> now < D")
  case True
  define n' where "n' = min (pc_heartbeatIntervalMs cfg) (max 1 ((D - now) div 2))"
  have "1 \<le> n'" "n' \<le> pc_heartbeatIntervalMs cfg" "D = now + 1 \<Longrightarrow> n' = 1" "D \<noteq> now + 1 \<Longrightarrow> now + n' < D"
    using True assms(5) unfolding n'_def by (simp_all add: min_def max_def) linarith
  moreover have "pr_heartbeat p' = HbWaiting D n' \<and> pr_phase p' = Working"
    using assms(1-3) True by (auto simp: settle_renewal_def Let_def add_log_def n'_def)
  ultimately show ?thesis using True by auto
next
  case False
  then have "p' = lose_lease (if is_definitive_lease_renewal_error e then e else expired_error) p"
    using assms by (auto simp: settle_renewal_def Let_def lose_lease_def abort_work_def report_failure_def add_log_def
        add_call_def split: if_splits)
  then show ?thesis
    using assms(3,4) False
    by (auto simp: lose_lease_def abort_work_def add_log_def report_failure_def Let_def add_call_def failure_reports_def)
qed

lemma renewal_is_retried_in_time_witness:
  "\<exists>p p' n. proc_run sample_config [StartReturns 5 (Inr sample_job), HeartbeatDue 10005] (proc_init False 0) = Some p
     \<and> proc_step sample_config (RenewReturns 29990 (Inl (ThrownApi \<lparr>ae_status = None, ae_incidentId = None,
          ae_serverCode = None, ae_causeName = None, ae_causeCode = None\<rparr>))) p = Some p'
     \<and> pr_heartbeat p' = HbWaiting 30000 n \<and> 29990 + n < 30000"
proof -
  let ?e = "ThrownApi \<lparr>ae_status = None, ae_incidentId = None, ae_serverCode = None, ae_causeName = None, ae_causeCode = None\<rparr>"
  obtain p where p: "proc_run sample_config [StartReturns 5 (Inr sample_job), HeartbeatDue 10005] (proc_init False 0) = Some p"
      "pr_heartbeat p = HbRenewing 30000 10000 10005" "pr_phase p = Working" "pr_abort p = None"
    by (simp add: sample_config_def proc_init_def add_call_def)
  obtain p' where p': "proc_step sample_config (RenewReturns 29990 (Inl ?e)) p = Some p'" using p(2) by (simp add: Let_def)
  from renewal_is_retried_in_time [OF p' p(2-4)] obtain n where "pr_heartbeat p' = HbWaiting 30000 n" "29990 + n < 30000"
    by (auto simp: sample_config_def is_definitive_lease_renewal_error_def)
  with p(1) p' show ?thesis by blast
qed

end
