(* ===== verification/Executor_Safety.thy ===== *)
theory Executor_Safety
  imports Executor_Properties Queue_Properties
begin

text \<open>
  The executor and the queue together. The executor trusts a deadline it computes itself, the instant it sent a
  request plus the duration of the lease; the API grants the lease from the instant it handles the request. The
  interface between the two is the locale \<open>lease_service\<close>; its interpretation is the repository behind the API's
  handler of start and renew requests, and the clients of the interface are the steps of the composed system, in
  which requests are handled late, answers get lost, and everybody else goes on using the repository. Both sides
  read the same clock.
\<close>

section \<open>The API's side\<close>

definition lease_conflict :: thrown where
  "lease_conflict = ThrownApi \<lparr>ae_status = Some 409, ae_incidentId = None, ae_serverCode = None,
     ae_causeName = None, ae_causeCode = None\<rparr>"

definition server_error :: thrown where
  "server_error = ThrownApi \<lparr>ae_status = Some 500, ae_incidentId = None, ae_serverCode = None,
     ae_causeName = None, ae_causeCode = None\<rparr>"

definition handle_lease_request ::
    "ident \<Rightarrow> string \<Rightarrow> millis \<Rightarrow> bool \<Rightarrow> iso \<Rightarrow> db \<Rightarrow> db \<times> (thrown + exec_job)" where
  "handle_lease_request i owner dur start now d =
     (case (if start then mark_execution_job_running i owner dur now d
            else renew_execution_job_lease i owner dur now d) of
        Inl m \<Rightarrow> (d, Inl server_error)
      | Inr (d', Some j) \<Rightarrow> (d', Inr j)
      | Inr (d', None) \<Rightarrow> (d', Inl lease_conflict))"

section \<open>The composed system\<close>

record 'd system =
  sy_store :: 'd
  sy_proc :: proc
  sy_clock :: iso
  sy_reply :: "(thrown + exec_job) option"

fun is_work_event :: "iso \<Rightarrow> proc_event \<Rightarrow> bool" where
  "is_work_event now ShutdownSignal = True"
| "is_work_event now TimeLimit = True"
| "is_work_event now (HandlerSettles outcome) = True"
| "is_work_event now (HeartbeatDue t) = (t = now)"
| "is_work_event now e = False"

text \<open>A request is handled once and answered, or its answer is lost and the handling comes late or not at all; in
  between time passes and others use the store.\<close>

inductive system_step ::
    "(bool \<Rightarrow> iso \<Rightarrow> 'd \<Rightarrow> 'd \<times> (thrown + exec_job)) \<Rightarrow> (iso \<Rightarrow> 'd \<Rightarrow> 'd \<Rightarrow> bool) \<Rightarrow> proc_config
     \<Rightarrow> 'd system \<Rightarrow> 'd system \<Rightarrow> bool" for serve others cfg where
  time_passes: "sy_clock s \<le> t \<Longrightarrow> system_step serve others cfg s (s\<lparr>sy_clock := t\<rparr>)"
| others_act: "others (sy_clock s) (sy_store s) d' \<Longrightarrow> system_step serve others cfg s (s\<lparr>sy_store := d'\<rparr>)"
| start_handled: "pr_phase (sy_proc s) = Starting t \<Longrightarrow> sy_reply s = None \<Longrightarrow>
    serve True (sy_clock s) (sy_store s) = (d', answer) \<Longrightarrow>
    system_step serve others cfg s (s\<lparr>sy_store := d', sy_reply := Some answer\<rparr>)"
| renewal_handled: "pr_phase (sy_proc s) = Working \<Longrightarrow> pr_heartbeat (sy_proc s) = HbRenewing D n t \<Longrightarrow>
    sy_reply s = None \<Longrightarrow> serve False (sy_clock s) (sy_store s) = (d', answer) \<Longrightarrow>
    system_step serve others cfg s (s\<lparr>sy_store := d', sy_reply := Some answer\<rparr>)"
| handled_late: "pr_phase (sy_proc s) = Working \<Longrightarrow> serve start (sy_clock s) (sy_store s) = (d', answer) \<Longrightarrow>
    system_step serve others cfg s (s\<lparr>sy_store := d'\<rparr>)"
| answer_lost: "pr_phase (sy_proc s) = Starting t \<or> pr_heartbeat (sy_proc s) = HbRenewing D n t \<Longrightarrow>
    system_step serve others cfg s (s\<lparr>sy_reply := Some (Inl e)\<rparr>)"
| start_answered: "sy_reply s = Some answer \<Longrightarrow>
    proc_step cfg (StartReturns (sy_clock s) answer) (sy_proc s) = Some p' \<Longrightarrow>
    system_step serve others cfg s (s\<lparr>sy_proc := p', sy_reply := None\<rparr>)"
| renewal_answered: "sy_reply s = Some answer \<Longrightarrow>
    proc_step cfg (RenewReturns (sy_clock s) answer) (sy_proc s) = Some p' \<Longrightarrow>
    system_step serve others cfg s (s\<lparr>sy_proc := p', sy_reply := None\<rparr>)"
| works: "is_work_event (sy_clock s) e \<Longrightarrow> proc_step cfg e (sy_proc s) = Some p' \<Longrightarrow>
    system_step serve others cfg s (s\<lparr>sy_proc := p'\<rparr>)"

definition system_init :: "'d \<Rightarrow> bool \<Rightarrow> iso \<Rightarrow> 'd system" where
  "system_init d shutdown now =
     \<lparr>sy_store = d, sy_proc = proc_init shutdown now, sy_clock = now, sy_reply = None\<rparr>"

fun heartbeat_deadline :: "heartbeat \<Rightarrow> iso option" where
  "heartbeat_deadline (HbWaiting D n) = Some D"
| "heartbeat_deadline (HbRenewing D n t) = Some D"
| "heartbeat_deadline HbEnded = None"

text \<open>The three outcomes of a renewal.\<close>

lemma settle_renewal_cases:
  obtains (lost) e where "settle_renewal cfg D t now answer p = lose_lease e p"
  | (renewed) j where "answer = Inr j" "now < t + ls_durationMs (pc_lease cfg)"
      "settle_renewal cfg D t now answer p
       = p\<lparr>pr_heartbeat := HbWaiting (t + ls_durationMs (pc_lease cfg)) (pc_heartbeatIntervalMs cfg)\<rparr>"
  | (retry) n l where "settle_renewal cfg D t now answer p = add_log l (p\<lparr>pr_heartbeat := HbWaiting D n\<rparr>)"
proof (cases answer)
  case (Inl e)
  show ?thesis
  proof (cases "is_definitive_lease_renewal_error e \<or> D \<le> now")
    case True
    then have "settle_renewal cfg D t now answer p
        = lose_lease (if is_definitive_lease_renewal_error e then e else expired_error) p"
      using Inl by (auto simp: settle_renewal_def)
    then show ?thesis by (rule lost)
  next
    case False
    with Inl retry show ?thesis by (simp add: settle_renewal_def Let_def)
  qed
next
  case (Inr j)
  define bad where "bad = (now \<ge> t + ls_durationMs (pc_lease cfg) \<or> ej_leaseOwner j \<noteq> Some (ls_owner (pc_lease cfg))
    \<or> (ej_status j \<noteq> ELeased \<and> ej_status j \<noteq> ERunning))"
  then have "settle_renewal cfg D t now answer p = (if bad then lose_lease expired_error p
      else p\<lparr>pr_heartbeat := HbWaiting (t + ls_durationMs (pc_lease cfg)) (pc_heartbeatIntervalMs cfg)\<rparr>)"
    by (simp only: settle_renewal_def Inr sum.case Let_def)
  then show ?thesis using lost renewed [OF Inr] by (cases bad) (auto simp: bad_def)
qed

section \<open>The interface\<close>

locale lease_service =
  fixes usable :: "'d \<Rightarrow> bool"
    and held :: "'d \<Rightarrow> iso \<Rightarrow> bool"
    and serve :: "bool \<Rightarrow> iso \<Rightarrow> 'd \<Rightarrow> 'd \<times> (thrown + exec_job)"
    and others :: "iso \<Rightarrow> 'd \<Rightarrow> 'd \<Rightarrow> bool"
    and dur :: millis
  assumes serve_usable: "usable d \<Longrightarrow> serve k now d = (d', answer) \<Longrightarrow> usable d'"
    and others_usable: "usable d \<Longrightarrow> others now d d' \<Longrightarrow> usable d'"
    and serve_grants: "usable d \<Longrightarrow> serve k now d = (d', Inr j) \<Longrightarrow> held d' (now + dur)"
    and serve_keeps: "usable d \<Longrightarrow> serve k now d = (d', answer) \<Longrightarrow> held d e \<Longrightarrow> e \<le> now + dur \<Longrightarrow> held d' e"
    and others_keep: "usable d \<Longrightarrow> others now d d' \<Longrightarrow> held d e \<Longrightarrow> now < e \<Longrightarrow> held d' e"
    and held_weaken: "held d e \<Longrightarrow> e' \<le> e \<Longrightarrow> held d e'"
begin

text \<open>A promise of the lease until an instant is good while that instant is ahead.\<close>

definition good :: "'d system \<Rightarrow> iso \<Rightarrow> bool" where
  "good s e = (e \<le> sy_clock s + dur \<and> (e \<le> sy_clock s \<or> held (sy_store s) e))"

definition answer_good :: "'d system \<Rightarrow> iso \<Rightarrow> bool" where
  "answer_good s t = (t \<le> sy_clock s \<and> (\<forall>j. sy_reply s = Some (Inr j) \<longrightarrow> good s (t + dur)))"

definition system_inv :: "'d system \<Rightarrow> bool" where
  "system_inv s =
     (usable (sy_store s)
      \<and> (case pr_phase (sy_proc s) of
           Starting t \<Rightarrow> pr_heartbeat (sy_proc s) = HbEnded \<and> answer_good s t \<and> pr_abort (sy_proc s) = None
         | Working \<Rightarrow> pr_abort (sy_proc s) = None
             \<and> (case pr_heartbeat (sy_proc s) of
                  HbWaiting D n \<Rightarrow> good s D \<and> sy_reply s = None
                | HbRenewing D n t \<Rightarrow> good s D \<and> answer_good s t
                | HbEnded \<Rightarrow> False)
         | _ \<Rightarrow> True))"

lemma good_later: "good s e \<Longrightarrow> sy_clock s \<le> t \<Longrightarrow> good (s\<lparr>sy_clock := t\<rparr>) e"
  by (auto simp: good_def)

lemma good_others: "good s e \<Longrightarrow> usable (sy_store s) \<Longrightarrow> others (sy_clock s) (sy_store s) d' \<Longrightarrow>
    good (s\<lparr>sy_store := d'\<rparr>) e"
  using others_keep [of "sy_store s" "sy_clock s" d' e] by (cases "sy_clock s < e") (auto simp: good_def)

lemma good_served: "good s e \<Longrightarrow> usable (sy_store s) \<Longrightarrow> serve k (sy_clock s) (sy_store s) = (d', answer) \<Longrightarrow>
    good (s\<lparr>sy_store := d'\<rparr>) e"
  using serve_keeps [of "sy_store s" k "sy_clock s" d' answer e] by (auto simp: good_def)

lemma good_granted: "usable (sy_store s) \<Longrightarrow> serve k (sy_clock s) (sy_store s) = (d', Inr j) \<Longrightarrow> t \<le> sy_clock s \<Longrightarrow>
    good (s\<lparr>sy_store := d'\<rparr>) (t + dur)"
  using serve_grants held_weaken by (fastforce simp: good_def)

lemma good_proc [simp]:
  "good (s\<lparr>sy_proc := p\<rparr>) e = good s e" "good (s\<lparr>sy_reply := r\<rparr>) e = good s e"
  by (simp_all add: good_def)

lemma start_step_inv:
  assumes "system_inv s" and "sy_reply s = Some answer" and "ls_durationMs (pc_lease cfg) = dur"
    and "proc_step cfg (StartReturns (sy_clock s) answer) (sy_proc s) = Some p'"
  shows "system_inv (s\<lparr>sy_proc := p', sy_reply := None\<rparr>)"
proof -
  obtain t where t: "pr_phase (sy_proc s) = Starting t" using assms(4) by (auto split: phase.splits)
  then have inv: "usable (sy_store s)" "answer_good s t" "pr_abort (sy_proc s) = None"
    using assms(1) by (auto simp: system_inv_def)
  note step = assms(4) [unfolded proc_step.simps assms(3)]
  show ?thesis
    using assms(2) step inv t
    by (auto simp: system_inv_def answer_good_def abort_work_def report_failure_def add_call_def add_log_def Let_def
        split: sum.splits if_splits)
qed

lemma lose_lease_working:
  "pr_phase p = Working \<Longrightarrow> pr_abort p = None \<Longrightarrow> \<exists>r. pr_phase (lose_lease e p) = Failing r"
  by (auto simp: lose_lease_def abort_work_def add_log_def report_failure_def Let_def add_call_def)

lemma not_working_inv:
  "usable (sy_store s) \<Longrightarrow> pr_phase p' = Failing r \<Longrightarrow> system_inv (s\<lparr>sy_proc := p', sy_reply := x\<rparr>)"
  by (simp add: system_inv_def)

lemma renewal_step_inv:
  assumes "system_inv s" and "sy_reply s = Some answer" and "ls_durationMs (pc_lease cfg) = dur"
    and "proc_step cfg (RenewReturns (sy_clock s) answer) (sy_proc s) = Some p'"
  shows "system_inv (s\<lparr>sy_proc := p', sy_reply := None\<rparr>)"
proof -
  let ?p = "sy_proc s"
  obtain D n t where h: "pr_heartbeat ?p = HbRenewing D n t" using assms(4) by (auto split: heartbeat.splits)
  have u: "usable (sy_store s)" using assms(1) by (simp add: system_inv_def)
  define q where "q = settle_renewal cfg D t (sy_clock s) answer ?p"
  show ?thesis
  proof (cases "pr_phase ?p = Working")
    case True
    with assms(1) h have inv: "pr_abort ?p = None" "good s D" "answer_good s t" by (simp_all add: system_inv_def)
    have "system_inv (s\<lparr>sy_proc := q, sy_reply := None\<rparr>) \<and> pr_phase q \<noteq> Stopping \<and> pr_phase q \<noteq> Ended"
    proof (cases rule: settle_renewal_cases [of cfg D t "sy_clock s" answer ?p])
      case (lost e)
      obtain r where "pr_phase q = Failing r" using lose_lease_working [OF True inv(1)] lost q_def by metis
      with not_working_inv [OF u] show ?thesis by simp
    next
      case (renewed j)
      then have "good s (t + dur)" using inv(3) assms(2) by (simp add: answer_good_def)
      with renewed inv True u show ?thesis by (simp add: q_def system_inv_def assms(3))
    next
      case (retry n l)
      with inv True u show ?thesis by (simp add: q_def system_inv_def add_log_def)
    qed
    with assms(4) h show ?thesis by (auto simp: q_def Let_def)
  next
    case False
    have "\<forall>t. pr_phase ?p \<noteq> Starting t" using assms(1) h by (auto simp: system_inv_def)
    then have "pr_phase p' \<noteq> Working \<and> (\<forall>t. pr_phase p' \<noteq> Starting t)"
      using False assms(4) h
      by (auto simp: Let_def settle_renewal_def lose_lease_def abort_work_def add_log_def split: if_splits sum.splits)
    with u show ?thesis by (auto simp: system_inv_def split: phase.split)
  qed
qed

lemma work_step_inv:
  assumes "system_inv s" and "is_work_event (sy_clock s) e" and "proc_step cfg e (sy_proc s) = Some p'"
  shows "system_inv (s\<lparr>sy_proc := p'\<rparr>)"
proof -
  let ?p = "sy_proc s"
  have u: "usable (sy_store s)" using assms(1) by (simp add: system_inv_def)
  consider (starting) t where "pr_phase ?p = Starting t" | (working) "pr_phase ?p = Working"
    | (other) "\<forall>t. pr_phase ?p \<noteq> Starting t" "pr_phase ?p \<noteq> Working" by blast
  then show ?thesis
  proof cases
    case starting
    with assms show ?thesis
      by (cases e) (auto simp: system_inv_def answer_good_def Let_def split: if_splits heartbeat.splits)
  next
    case working
    with assms(1) have a: "pr_abort ?p = None" by (simp add: system_inv_def)
    obtain r where "pr_phase (lose_lease expired_error ?p) = Failing r"
      using lose_lease_working [OF working a] by blast
    with working a assms show ?thesis
      by (cases e)
        (auto simp: system_inv_def answer_good_def Let_def abort_work_def report_failure_def add_call_def
          split: if_splits heartbeat.splits option.splits phase.splits)
  next
    case other
    then have "pr_phase p' \<noteq> Working \<and> (\<forall>t. pr_phase p' \<noteq> Starting t)"
      using assms(2,3)
      by (cases e) (auto simp: Let_def abort_work_def lose_lease_def add_log_def add_call_def report_failure_def
          split: if_splits heartbeat.splits option.splits phase.splits)
    with u show ?thesis by (auto simp: system_inv_def split: phase.split)
  qed
qed

lemma handled_inv:
  assumes "system_inv s" and "serve k (sy_clock s) (sy_store s) = (d', answer)"
  shows "system_inv (s\<lparr>sy_store := d'\<rparr>)"
proof -
  have u: "usable (sy_store s)" using assms(1) by (simp add: system_inv_def)
  note g = good_served [OF _ u assms(2)]
  show ?thesis
    using assms serve_usable [OF u assms(2)] g
    by (auto simp: system_inv_def answer_good_def split: phase.splits heartbeat.splits)
qed

lemma answered_inv:
  assumes "system_inv s" and "sy_reply s = None" and "serve k (sy_clock s) (sy_store s) = (d', answer)"
    and "(\<exists>t. pr_phase (sy_proc s) = Starting t) \<or> (\<exists>D n t. pr_heartbeat (sy_proc s) = HbRenewing D n t)"
  shows "system_inv (s\<lparr>sy_store := d', sy_reply := Some answer\<rparr>)"
proof -
  have u: "usable (sy_store s)" using assms(1) by (simp add: system_inv_def)
  have g: "good (s\<lparr>sy_store := d'\<rparr>) (t + dur)" if "answer = Inr j" "t \<le> sy_clock s" for t j
    using good_granted [OF u] assms(3) that by simp
  have "system_inv (s\<lparr>sy_store := d'\<rparr>)" by (rule handled_inv [OF assms(1,3)])
  then show ?thesis
    using assms(4) g
    by (auto simp: system_inv_def answer_good_def good_def split: phase.splits heartbeat.splits)
qed

lemma system_step_inv:
  assumes "system_step serve others cfg s s'" and "system_inv s" and "ls_durationMs (pc_lease cfg) = dur"
  shows "system_inv s'"
  using assms(1)
proof (cases rule: system_step.cases)
  case (time_passes t)
  with assms(2) show ?thesis
    by (auto simp: system_inv_def answer_good_def good_later split: phase.splits heartbeat.splits)
next
  case (others_act d')
  with assms(2) others_usable good_others show ?thesis
    by (auto simp: system_inv_def answer_good_def split: phase.splits heartbeat.splits)
next
  case (start_handled t d' answer)
  then show ?thesis using answered_inv [OF assms(2), of True] by auto
next
  case (renewal_handled D n t d' answer)
  then show ?thesis using answered_inv [OF assms(2), of False] by auto
next
  case (handled_late start d' answer)
  then show ?thesis using handled_inv [OF assms(2)] by auto
next
  case (answer_lost t D n e)
  with assms(2) show ?thesis
    by (auto simp: system_inv_def answer_good_def split: phase.splits heartbeat.splits)
next
  case (start_answered answer p')
  then show ?thesis using start_step_inv [OF assms(2) _ assms(3)] by simp
next
  case (renewal_answered answer p')
  then show ?thesis using renewal_step_inv [OF assms(2) _ assms(3)] by simp
next
  case (works e p')
  then show ?thesis using work_step_inv [OF assms(2)] by simp
qed

lemma working_lease:
  assumes "(system_step serve others cfg)\<^sup>*\<^sup>* (system_init d shutdown now) s"
    and "usable d" and "ls_durationMs (pc_lease cfg) = dur" and "0 \<le> dur"
    and "pr_phase (sy_proc s) = Working"
  shows "\<exists>D. heartbeat_deadline (pr_heartbeat (sy_proc s)) = Some D \<and> (sy_clock s < D \<longrightarrow> held (sy_store s) D)"
proof -
  have "system_inv s"
    using assms(1)
  proof (induction rule: rtranclp_induct)
    case base
    then show ?case using assms(2) by (simp add: system_inv_def system_init_def proc_init_def answer_good_def)
  next
    case (step y z)
    then show ?case using system_step_inv assms(3) by blast
  qed
  then show ?thesis using assms(5) by (auto simp: system_inv_def good_def split: heartbeat.splits)
qed

end

section \<open>The repository provides it\<close>

definition lease_held :: "env \<Rightarrow> ident \<Rightarrow> string \<Rightarrow> db \<Rightarrow> iso \<Rightarrow> bool" where
  "lease_held env i owner d e =
     (case get_execution_job i d of
        None \<Rightarrow> False
      | Some ej \<Rightarrow> is_leased_status (ej_status ej) \<and> ej_leaseOwner ej = Some owner
          \<and> (case ej_leaseExpiresAt ej of None \<Rightarrow> False | Some x \<Rightarrow> e \<le> x))"

definition other_users :: "env \<Rightarrow> ident \<Rightarrow> string \<Rightarrow> iso \<Rightarrow> db \<Rightarrow> db \<Rightarrow> bool" where
  "other_users env i owner now d d' = (\<exists>a. repo_step env now a d d' \<and> a \<noteq> Own i owner \<and> a \<noteq> Cancel i)"


lemma lease_held_row:
  assumes "reachable env d"
  shows "lease_held env i owner d e \<longleftrightarrow>
    (\<exists>r x. row_get xr_id i (db_exec d) = Some r \<and> is_leased_status (xr_status r)
       \<and> xr_leaseOwner r = Some owner \<and> xr_leaseExpiresAt r = Some x \<and> e \<le> x)"
proof (cases "row_get xr_id i (db_exec d)")
  case None
  then show ?thesis by (simp add: lease_held_def get_execution_job_def get_execution_row_def)
next
  case (Some r)
  obtain ej where ej: "parse_execution_job r = Some ej"
    using parse_readable queue_inv_row [OF reachable_inv [OF assms] Some] by blast
  with Some show ?thesis
    by (auto simp: lease_held_def job_of_row parse_fields [OF ej] split: option.split)
qed

text \<open>What a start or a renewal does to the row of the job.\<close>

lemma lease_request_row:
  assumes "reachable env d" and "handle_lease_request i owner dur start now d = (d', answer)"
  obtains (granted) r r' j where "row_get xr_id i (db_exec d) = Some r" "holds_lease owner now r" "answer = Inr j"
      "row_get xr_id i (db_exec d') = Some r'" "is_leased_status (xr_status r')" "xr_leaseOwner r' = Some owner"
      "xr_leaseExpiresAt r' = Some (now + dur)" "reachable env d'"
  | (denied) e where "d' = d \<or> (reachable env d' \<and> row_get xr_id i (db_exec d') = row_get xr_id i (db_exec d))"
      "answer = Inl e"
proof -
  have q: "queue_inv (db_exec d)" by (rule reachable_inv [OF assms(1)])
  then have dist: "distinct (map xr_id (db_exec d))" by (simp add: queue_inv_def)
  define f where "f = (if start then running_row (now + dur) now else renewed_row (now + dur) now)"
  have fid: "xr_id (f r) = xr_id r" for r by (simp add: f_def)
  define op where "op = (if start then mark_execution_job_running i owner dur now d
    else renew_execution_job_lease i owner dur now d)"
  show ?thesis
  proof (cases op)
    case (Inl m)
    with assms(2) denied show ?thesis by (auto simp: handle_lease_request_def op_def)
  next
    case (Inr a)
    obtain d1 res where a: "a = (d1, res)" by force
    then have d1: "d1 = d\<lparr>db_exec := fst (owner_update f i owner now (db_exec d))\<rparr>"
      and res: "res = Option.bind (snd (owner_update f i owner now (db_exec d))) parse_execution_job"
      using Inr
      by (auto simp: op_def f_def mark_execution_job_running_def renew_execution_job_lease_def lease_expires_at_Inr
          mark_running_statement_def renew_lease_statement_def Let_def split: if_splits prod.splits)
    have reach: "reachable env d1"
      using Inr a assms(1) by (auto simp: op_def split: if_splits intro: reachable.step call_start call_renew)
    have get: "row_get xr_id i (db_exec d1) =
        map_option (\<lambda>r. if xr_id r = i \<and> holds_lease owner now r then f r else r) (row_get xr_id i (db_exec d))"
      by (simp add: d1 owner_update_get fid)
    have ret: "snd (owner_update f i owner now (db_exec d)) =
        (case row_get xr_id i (db_exec d) of Some r \<Rightarrow> if holds_lease owner now r then Some (f r) else None | None \<Rightarrow> None)"
      by (rule owner_update_returned [OF dist])
    show ?thesis
    proof (cases "\<exists>r. row_get xr_id i (db_exec d) = Some r \<and> holds_lease owner now r")
      case True
      then obtain r where r: "row_get xr_id i (db_exec d) = Some r" "holds_lease owner now r" by blast
      have g: "row_get xr_id i (db_exec d1) = Some (f r)" using get r row_get_Some [OF r(1)] by simp
      obtain j where j: "parse_execution_job (f r) = Some j"
        using parse_readable queue_inv_row [OF reachable_inv [OF reach] g] by blast
      have "is_leased_status (xr_status (f r)) \<and> xr_leaseOwner (f r) = Some owner
          \<and> xr_leaseExpiresAt (f r) = Some (now + dur)"
        using r(2) by (simp add: f_def running_row_def renewed_row_def holds_lease_def)
      moreover have "d' = d1 \<and> answer = Inr j"
        using assms(2) Inr a res ret r j by (simp add: handle_lease_request_def op_def)
      ultimately show ?thesis using granted [OF r] g reach by blast
    next
      case False
      then have "res = None" using res ret by (auto split: option.splits)
      then have "d' = d1 \<and> answer = Inl lease_conflict"
        using assms(2) Inr a by (simp add: handle_lease_request_def op_def)
      moreover have "row_get xr_id i (db_exec d1) = row_get xr_id i (db_exec d)"
        using False get by (cases "row_get xr_id i (db_exec d)") auto
      ultimately show ?thesis using denied reach by blast
    qed
  qed
qed

interpretation queue_lease: lease_service "reachable env" "lease_held env i owner"
  "handle_lease_request i owner dur" "other_users env i owner" dur for env i owner dur
proof
  fix d k now d' answer
  assume d: "reachable env d" and h: "handle_lease_request i owner dur k now d = (d', answer)"
  show reach: "reachable env d'" by (rule lease_request_row [OF d h]) (use d in auto)
  fix e assume e: "lease_held env i owner d e" "e \<le> now + dur"
  show "lease_held env i owner d' e"
    by (rule lease_request_row [OF d h]) (use e in \<open>auto simp: lease_held_row [OF d] lease_held_row [OF reach]\<close>)
next
  fix d now d' assume d: "reachable env d" and o: "other_users env i owner now d d'"
  then obtain a where a: "repo_step env now a d d'" "a \<noteq> Own i owner" "a \<noteq> Cancel i" by (auto simp: other_users_def)
  show "reachable env d'" using d a(1) by (rule reachable.step)
  fix e assume "lease_held env i owner d e" and n: "now < e"
  then obtain ej x where ej: "get_execution_job i d = Some ej" "is_leased_status (ej_status ej)"
      "ej_leaseOwner ej = Some owner" "ej_leaseExpiresAt ej = Some x" "e \<le> x"
    by (auto simp: lease_held_def split: option.splits)
  have "get_execution_job i d' = Some ej"
  proof (cases rule: repo_step_job [OF d a(1) ej(1), case_names kept removed])
    case (kept r r' ej')
    have "r' = r"
      by (rule row_step_leased [OF kept(4), where owner = owner and e = x])
        (use ej n a kept(1) parse_fields [OF kept(2)] in \<open>auto dest: row_get_Some\<close>)
    with kept ej show ?thesis by simp
  next
    case removed
    with ej(2) terminal_not_leased show ?thesis by auto
  qed
  with ej show "lease_held env i owner d' e" by (simp add: lease_held_def)
next
  fix d k now d' j assume d: "reachable env d" and h: "handle_lease_request i owner dur k now d = (d', Inr j)"
  show "lease_held env i owner d' (now + dur)"
    by (rule lease_request_row [OF d h]) (auto simp: lease_held_row)
next
  fix d e e' assume "lease_held env i owner d e" "e' \<le> e"
  then show "lease_held env i owner d e'" by (auto simp: lease_held_def split: option.splits)
qed

text \<open>Property C1. The executor's own deadline is safe: whenever a handler is at work, the executor knows a deadline,
  and while its clock is before that deadline the queue has the job leased to it until then or later; so a
  completion it sends in time is accepted, and nobody else can have claimed the job. This holds however long the
  requests and answers take, whichever answers are lost, and whatever all other users of the API do, short of
  cancelling the job.\<close>

theorem lease_deadline_is_safe:
  assumes "(system_step (handle_lease_request i owner dur) (other_users env i owner) cfg)\<^sup>*\<^sup>*
      (system_init d shutdown now) s"
    and "reachable env d" and "ls_durationMs (pc_lease cfg) = dur" and "0 \<le> dur"
    and "pr_phase (sy_proc s) = Working"
  shows "\<exists>D. heartbeat_deadline (pr_heartbeat (sy_proc s)) = Some D
    \<and> (sy_clock s < D \<longrightarrow> lease_held env i owner (sy_store s) D)"
  by (rule queue_lease.working_lease [OF assms])

definition demo_config :: proc_config where
  "demo_config = \<lparr>pc_lease = \<lparr>ls_owner = ''w1'', ls_durationMs = 1000\<rparr>, pc_heartbeatIntervalMs = 300,
     pc_heartbeatShutdownTimeoutMs = 5000\<rparr>"

lemma demo_started:
  "\<exists>d' j. handle_lease_request ''x1'' ''w1'' 1000 True 6 demo_claimed = (d', Inr j)"
proof -
  let ?r = "claim_row ''w1'' 1005 5 demo_row"
  let ?m = "mark_running_statement 1006 ''x1'' ''w1'' 6 [?r]"
  have e: "get_lease_expires_at ''w1'' 1000 6 = Inr 1006" by (simp add: lease_expires_at_Inr w_ok)
  have s: "?m = ([running_row 1006 6 ?r], Some (running_row 1006 6 ?r))"
    by (simp add: mark_running_statement_def owner_update_def row_update_def first_row_def holds_lease_def
        claim_row_def demo_row_def is_leased_status_def)
  have m: "mark_execution_job_running ''x1'' ''w1'' 1000 6 demo_claimed
      = Inr (demo_claimed\<lparr>db_exec := [running_row 1006 6 ?r]\<rparr>, parse_execution_job (running_row 1006 6 ?r))"
    by (simp add: mark_execution_job_running_def e s demo_claimed_def)
  have "reachable demo_env (demo_claimed\<lparr>db_exec := [running_row 1006 6 ?r]\<rparr>)"
    using demo_claimed_reachable m by (auto intro: reachable.step call_start)
  then have "row_inv (running_row 1006 6 ?r)"
    by (auto dest!: reachable_inv simp: queue_inv_def)
  then obtain j where "parse_execution_job (running_row 1006 6 ?r) = Some j" using parse_readable by blast
  with m show ?thesis by (simp add: handle_lease_request_def)
qed

lemma lease_deadline_is_safe_witness:
  "\<exists>(s :: db system) D. pr_phase (sy_proc s) = Working \<and> sy_clock s < D
     \<and> heartbeat_deadline (pr_heartbeat (sy_proc s)) = Some D
     \<and> lease_held demo_env ''x1'' ''w1'' (sy_store s) D"
proof -
  obtain d' j where h: "handle_lease_request ''x1'' ''w1'' 1000 True 6 demo_claimed = (d', Inr j)"
    using demo_started by blast
  let ?step = "system_step (handle_lease_request ''x1'' ''w1'' 1000) (other_users demo_env ''x1'' ''w1'') demo_config"
  define s0 where "s0 = system_init demo_claimed False 6"
  define s1 where "s1 = s0\<lparr>sy_store := d', sy_reply := Some (Inr j)\<rparr>"
  have 1: "?step s0 s1"
    unfolding s1_def
    by (rule start_handled [where t = 6]) (simp_all add: s0_def system_init_def proc_init_def h)
  obtain p' where p': "proc_step demo_config (StartReturns (sy_clock s1) (Inr j)) (sy_proc s1) = Some p'"
      "pr_phase p' = Working" "pr_heartbeat p' = HbWaiting 1006 300"
    by (simp add: s1_def s0_def system_init_def proc_init_def demo_config_def)
  define s where "s = s1\<lparr>sy_proc := p', sy_reply := None\<rparr>"
  have 2: "?step s1 s"
    unfolding s_def by (rule start_answered [OF _ p'(1)]) (simp add: s1_def)
  from 1 2 have run: "?step\<^sup>*\<^sup>* (system_init demo_claimed False 6) s" by (simp add: s0_def [symmetric])
  have w: "pr_phase (sy_proc s) = Working" "heartbeat_deadline (pr_heartbeat (sy_proc s)) = Some 1006" "sy_clock s = 6"
    by (simp_all add: s_def p' s1_def s0_def system_init_def)
  from lease_deadline_is_safe [OF run demo_claimed_reachable _ _ w(1)] w
  have "lease_held demo_env ''x1'' ''w1'' (sy_store s) 1006" by (simp add: demo_config_def)
  with w show ?thesis by (intro exI [of _ s] exI [of _ 1006]) simp
qed

end
