(* ===== verification/Js_Net.thy ===== *)
theory Js_Net
  imports Js_Url "HOL-Library.Word"
begin

text \<open>
  IP addresses of the platform: \<open>net.isIP\<close> and \<open>net.BlockList\<close>. An address text is read by
  \<open>inet_pton\<close> (the scanners below follow it, one character at a time for IPv6), an address is its
  128-bit value, IPv4 at \<open>::ffff:0:0/96\<close>: a block list compares IPv4 addresses and their IPv6 notation
  alike. A subnet of a block list matches an address whose leading bits are those of the network.
  IPv6 zone identifiers are not modelled: an address text with \<open>%\<close> is no address here.
  The theory models the platform, not files of the repository.
\<close>

section \<open>Hexadecimal and dotted text\<close>

fun show_hex :: "nat \<Rightarrow> string" where
  "show_hex n = (if n < 16 then [hex_digit n] else show_hex (n div 16) @ [hex_digit (n mod 16)])"

declare show_hex.simps [simp del]

definition read_hex :: "string \<Rightarrow> nat" where
  "read_hex s = foldl (\<lambda>n c. 16 * n + hex_value c) 0 s"

definition is_hex_char :: "char \<Rightarrow> bool" where
  "is_hex_char c = (is_digit c \<or> (97 \<le> code c \<and> code c \<le> 102) \<or> (65 \<le> code c \<and> code c \<le> 70))"

definition is_ipv4_octet :: "string \<Rightarrow> bool" where
  "is_ipv4_octet s = (s \<noteq> [] \<and> length s \<le> 3 \<and> list_all is_digit s \<and> (hd s = CHR ''0'' \<longrightarrow> s = ''0'') \<and> read_digits s \<le> 255)"

definition parse_ipv4 :: "string \<Rightarrow> nat list option" where
  "parse_ipv4 s =
     (let parts = split_char CHR ''.'' s in
      if length parts = 4 \<and> list_all is_ipv4_octet parts then Some (map read_digits parts) else None)"

section \<open>IPv6 text\<close>

text \<open>The state of the scanner: the text from the start of the current group, the digits of that group
  seen so far and their value, the 16-bit groups stored, and where \<open>::\<close> stands.\<close>

definition pton6_end :: "nat \<Rightarrow> nat \<Rightarrow> nat list \<Rightarrow> nat option \<Rightarrow> nat list option" where
  "pton6_end seen v ws gap =
     (if seen > 0 \<and> length ws \<ge> 8 then None
      else let ws' = (if seen > 0 then ws @ [v] else ws) in
        (case gap of
           None \<Rightarrow> if length ws' = 8 then Some ws' else None
         | Some k \<Rightarrow>
             if length ws' \<ge> 8 then None
             else Some (take k ws' @ replicate (8 - length ws') 0 @ drop k ws')))"

fun pton6_loop :: "string \<Rightarrow> string \<Rightarrow> nat \<Rightarrow> nat \<Rightarrow> nat list \<Rightarrow> nat option \<Rightarrow> nat list option" where
  "pton6_loop [] tok seen v ws gap = pton6_end seen v ws gap"
| "pton6_loop (c # s) tok seen v ws gap =
     (if is_hex_char c
      then (if seen + 1 > 4 then None else pton6_loop s tok (seen + 1) (16 * v + hex_value c) ws gap)
      else if c = CHR '':''
      then (if seen = 0
            then (if gap \<noteq> None then None else pton6_loop s s 0 0 ws (Some (length ws)))
            else if s = [] \<or> length ws \<ge> 8 then None
            else pton6_loop s s 0 0 (ws @ [v]) gap)
      else if c = CHR ''.'' \<and> length ws \<le> 6
      then (case parse_ipv4 tok of
              Some [a, b, d, e] \<Rightarrow> pton6_end 0 0 (ws @ [256 * a + b, 256 * d + e]) gap
            | _ \<Rightarrow> None)
      else None)"

definition parse_ipv6 :: "string \<Rightarrow> nat list option" where
  "parse_ipv6 s =
     (if starts_with '':'' s \<and> \<not> starts_with ''::'' s then None
      else let t = (if starts_with '':'' s then tl s else s) in pton6_loop t t 0 0 [] None)"

section \<open>Addresses\<close>

definition address_of_groups :: "nat list \<Rightarrow> 128 word" where
  "address_of_groups ws = of_nat (foldl (\<lambda>n w. 65536 * n + w) 0 ws)"

definition address_of_octets :: "nat list \<Rightarrow> 128 word" where
  "address_of_octets os = of_nat (foldl (\<lambda>n w. 256 * n + w) 65535 os)"

definition is_ip :: "string \<Rightarrow> nat" where
  "is_ip s = (if parse_ipv4 s \<noteq> None then 4 else if parse_ipv6 s \<noteq> None then 6 else 0)"

definition ip_value :: "string \<Rightarrow> 128 word option" where
  "ip_value s =
     (case parse_ipv4 s of
        Some os \<Rightarrow> Some (address_of_octets os)
      | None \<Rightarrow> map_option address_of_groups (parse_ipv6 s))"

section \<open>Block lists\<close>

type_synonym subnet = "128 word \<times> nat"

definition subnet4 :: "nat list \<Rightarrow> nat \<Rightarrow> subnet" where
  "subnet4 os prefix = (address_of_octets os, 96 + prefix)"

definition subnet6 :: "nat list \<Rightarrow> nat \<Rightarrow> subnet" where
  "subnet6 ws prefix = (address_of_groups ws, prefix)"

definition in_subnet :: "128 word \<Rightarrow> subnet \<Rightarrow> bool" where
  "in_subnet a n = (drop_bit (128 - snd n) a = drop_bit (128 - snd n) (fst n))"

definition block_list_check :: "subnet list \<Rightarrow> 128 word \<Rightarrow> bool" where
  "block_list_check ns a = list_ex (in_subnet a) ns"

section \<open>Lemmas\<close>

lemma uint_drop_bit: "uint (drop_bit k (a :: 128 word)) = uint a div 2 ^ k"
  unfolding unsigned_drop_bit_eq by (simp add: bintr_uint drop_bit_eq_div [of k "uint a"])

lemma in_subnet_div:
  "in_subnet a (n, p) \<longleftrightarrow> uint a div 2 ^ (128 - p) = uint n div 2 ^ (128 - p)"
  unfolding in_subnet_def word_uint_eq_iff uint_drop_bit by simp

lemma div_eq_iff_interval:
  fixes a n m :: int
  assumes "0 < m"
  shows "a div m = n div m \<longleftrightarrow> m * (n div m) \<le> a \<and> a < m * (n div m) + m"
proof
  assume "a div m = n div m"
  then show "m * (n div m) \<le> a \<and> a < m * (n div m) + m"
    using assms by (metis div_mult_mod_eq le_add_same_cancel1 mult.commute
        pos_mod_bound pos_mod_sign add_less_cancel_left)
next
  assume "m * (n div m) \<le> a \<and> a < m * (n div m) + m"
  then show "a div m = n div m"
    using assms by (intro div_pos_pos_trivial int_div_pos_eq [of _ _ _ "a - m * (n div m)"]) auto
qed

lemma in_subnet_interval:
  "in_subnet a (n, p) \<longleftrightarrow>
     (let m = 2 ^ (128 - p); base = m * (uint n div m) in base \<le> uint a \<and> uint a < base + m)"
  by (simp add: in_subnet_div div_eq_iff_interval Let_def)

lemma code_hex_digit: "n < 16 \<Longrightarrow> code (hex_digit n) = (if n < 10 then 48 + n else 87 + n)"
  by (simp add: hex_digit_def)

lemma hex_value_digit [simp]: "n < 16 \<Longrightarrow> hex_value (hex_digit n) = n"
  by (auto simp: hex_value_def is_digit_def is_lower_def code_hex_digit)

lemma is_lower_hex_digit [simp]: "n < 16 \<Longrightarrow> is_lower_hex (hex_digit n)"
  by (auto simp: is_lower_hex_def is_digit_def code_hex_digit)

lemma is_lower_hex_is_hex [simp]: "is_lower_hex c \<Longrightarrow> is_hex_char c"
  by (auto simp: is_lower_hex_def is_hex_char_def)

lemma is_digit_lower_hex [simp]: "is_digit c \<Longrightarrow> is_lower_hex c"
  by (simp add: is_lower_hex_def)

lemma hex_value_less: "is_hex_char c \<Longrightarrow> hex_value c < 16"
  by (auto simp: hex_value_def is_hex_char_def is_digit_def is_lower_def)

lemma read_hex_Nil [simp]: "read_hex [] = 0"
  by (simp add: read_hex_def)

lemma read_hex_snoc [simp]: "read_hex (s @ [c]) = 16 * read_hex s + hex_value c"
  by (simp add: read_hex_def)

lemma read_show_hex [simp]: "read_hex (show_hex n) = n"
proof (induction n rule: show_hex.induct)
  case (1 n)
  then show ?case
    by (cases "n < 16"; subst show_hex.simps) (auto simp: read_hex_def)
qed

lemma show_hex_hex: "list_all is_lower_hex (show_hex n)"
proof (induction n rule: show_hex.induct)
  case (1 n)
  then show ?case by (cases "n < 16"; subst show_hex.simps) auto
qed

lemma show_hex_not_Nil [simp]: "show_hex n \<noteq> []"
  by (subst show_hex.simps) simp

lemma length_show_hex: "n < 16 ^ Suc k \<Longrightarrow> length (show_hex n) \<le> Suc k"
proof (induction k arbitrary: n)
  case (Suc k)
  then have "n div 16 < 16 ^ Suc k" by (simp add: less_mult_imp_div_less mult.commute)
  from Suc.IH [OF this] show ?case by (subst show_hex.simps) simp
qed (subst show_hex.simps, simp)

end
