(* ===== verification/Outbound_Policy.thy ===== *)
theory Outbound_Policy
  imports Js_Net
begin

text \<open>
  Outbound requests of the executor, \<open>src/apps/executor/src/outbound-http.ts\<close>: which addresses a target
  may resolve to, the name lookup with its deadline, what is handed to the socket, and how much of a response is kept;
  and \<open>isLoopbackHostname\<close> of \<open>src/packages/config/src/selfhost-executor.ts\<close>.
  \<open>parse_url\<close> is \<open>new URL\<close>; a lookup is a parameter that gives its answer and the time it takes; sockets,
  TLS and timers are the platform's. The lemmas show that the parser of the code and the
  one of the platform read the same address, and which addresses each policy lets through.
\<close>

section \<open>Types and constants\<close>

datatype address_policy = PublicOnly | LoopbackOnly | TrustedPrivate

datatype policy_code = InvalidTarget | DnsFailed | AddressBlocked

datatype outbound_error =
    PolicyError policy_code string
  | AbortReason
  | PlainError string
  | SocketError string

record lookup_address =
  la_address :: string
  la_family :: int

record resolved_target =
  rt_url :: url
  rt_address :: string
  rt_family :: nat

definition default_dns_timeout_ms :: int where "default_dns_timeout_ms = 10000"
definition default_request_timeout_ms :: int where "default_request_timeout_ms = 30000"
definition default_maximum_response_bytes :: int where "default_maximum_response_bytes = 1048576"

definition blocked_ipv4 :: "(nat list \<times> nat) list" where
  "blocked_ipv4 =
     [([0, 0, 0, 0], 8), ([10, 0, 0, 0], 8), ([100, 64, 0, 0], 10), ([127, 0, 0, 0], 8),
      ([169, 254, 0, 0], 16), ([172, 16, 0, 0], 12), ([192, 0, 0, 0], 24), ([192, 0, 2, 0], 24),
      ([192, 168, 0, 0], 16), ([198, 18, 0, 0], 15), ([198, 51, 100, 0], 24), ([203, 0, 113, 0], 24),
      ([224, 0, 0, 0], 4), ([240, 0, 0, 0], 4)]"

definition trusted_private_blocked_ipv4 :: "(nat list \<times> nat) list" where
  "trusted_private_blocked_ipv4 =
     [([0, 0, 0, 0], 8), ([100, 64, 0, 0], 10), ([127, 0, 0, 0], 8),
      ([169, 254, 0, 0], 16), ([192, 0, 0, 0], 24), ([192, 0, 2, 0], 24),
      ([198, 18, 0, 0], 15), ([198, 51, 100, 0], 24), ([203, 0, 113, 0], 24),
      ([224, 0, 0, 0], 4), ([240, 0, 0, 0], 4)]"

definition blocked_ipv6 :: "(nat list \<times> nat) list" where
  "blocked_ipv6 =
     [([0, 0, 0, 0, 0, 0, 0, 0], 96), ([0x64, 0xff9b, 0, 0, 0, 0, 0, 0], 96), ([0x100, 0, 0, 0, 0, 0, 0, 0], 64),
      ([0x2001, 0, 0, 0, 0, 0, 0, 0], 32), ([0x2001, 0xdb8, 0, 0, 0, 0, 0, 0], 32), ([0x2002, 0, 0, 0, 0, 0, 0, 0], 16),
      ([0xfc00, 0, 0, 0, 0, 0, 0, 0], 7), ([0xfe80, 0, 0, 0, 0, 0, 0, 0], 10), ([0xff00, 0, 0, 0, 0, 0, 0, 0], 8)]"

definition trusted_private_blocked_ipv6 :: "(nat list \<times> nat) list" where
  "trusted_private_blocked_ipv6 =
     [([0, 0, 0, 0, 0, 0, 0, 0], 96), ([0x64, 0xff9b, 0, 0, 0, 0, 0, 0], 96), ([0x100, 0, 0, 0, 0, 0, 0, 0], 64),
      ([0x2001, 0, 0, 0, 0, 0, 0, 0], 32), ([0x2001, 0xdb8, 0, 0, 0, 0, 0, 0], 32), ([0x2002, 0, 0, 0, 0, 0, 0, 0], 16),
      ([0xfe80, 0, 0, 0, 0, 0, 0, 0], 10), ([0xff00, 0, 0, 0, 0, 0, 0, 0], 8)]"

definition blocked_addresses :: "subnet list" where
  "blocked_addresses = map (\<lambda>(n, p). subnet4 n p) blocked_ipv4 @ map (\<lambda>(n, p). subnet6 n p) blocked_ipv6"

definition trusted_private_blocked_addresses :: "subnet list" where
  "trusted_private_blocked_addresses =
     map (\<lambda>(n, p). subnet4 n p) trusted_private_blocked_ipv4
     @ map (\<lambda>(n, p). subnet6 n p) trusted_private_blocked_ipv6"

section \<open>Address texts\<close>

definition strip_opening :: "string \<Rightarrow> string" where
  "strip_opening s = (if starts_with ''['' s then tl s else s)"

definition strip_ending :: "char \<Rightarrow> string \<Rightarrow> string" where
  "strip_ending c s = (if ends_with [c] s then butlast s else s)"

definition normalize_outbound_hostname :: "string \<Rightarrow> string" where
  "normalize_outbound_hostname hostname =
     js_lower (strip_ending CHR ''.'' (strip_ending CHR '']'' (strip_opening hostname)))"

text \<open>The group of \<open>/(?:^|:)(\d+\.\d+\.\d+\.\d+)$/\<close>: the text after the last colon.\<close>

definition dotted_tail :: "string \<Rightarrow> string option" where
  "dotted_tail s =
     (let w = last (split_char CHR '':'' s); parts = split_char CHR ''.'' w in
      if length parts = 4 \<and> list_all (\<lambda>p. p \<noteq> [] \<and> list_all is_digit p) parts then Some w else None)"

fun split_gap :: "string \<Rightarrow> string list" where
  "split_gap [] = [[]]"
| "split_gap [c] = [[c]]"
| "split_gap (c # d # s) =
     (if c = CHR '':'' \<and> d = CHR '':'' then [] # split_gap s
      else (case split_gap (d # s) of [] \<Rightarrow> [[c]] | w # ws \<Rightarrow> (c # w) # ws))"

definition is_ipv6_part :: "string \<Rightarrow> bool" where
  "is_ipv6_part p = (1 \<le> length p \<and> length p \<le> 4 \<and> list_all is_lower_hex p)"

definition parse_ipv6_groups :: "string \<Rightarrow> nat list option" where
  "parse_ipv6_groups normalized =
     (let halves = split_gap normalized in
      if length halves > 2 then None
      else
        let parts = (\<lambda>i. if i < length halves \<and> halves ! i \<noteq> [] then split_char CHR '':'' (halves ! i) else []);
            left = parts 0; right = parts 1 in
        if \<not> list_all is_ipv6_part left \<or> \<not> list_all is_ipv6_part right then None
        else
          let missing = 8 - int (length left) - int (length right) in
          if (length halves = 1 \<and> missing \<noteq> 0) \<or> (length halves = 2 \<and> missing < 1) then None
          else Some (map read_hex left @ replicate (nat missing) 0 @ map read_hex right))"

definition parse_ipv6_words :: "string \<Rightarrow> nat list option" where
  "parse_ipv6_words value =
     (let normalized = normalize_outbound_hostname value in
      case dotted_tail normalized of
        None \<Rightarrow> parse_ipv6_groups normalized
      | Some tail_text \<Rightarrow>
          (case parse_ipv4 tail_text of
             Some [a, b, d, e] \<Rightarrow>
               parse_ipv6_groups
                 (take (length normalized - length tail_text) normalized
                  @ show_hex (256 * a + b) @ '':'' @ show_hex (256 * d + e))
           | _ \<Rightarrow> None))"

definition normalize_mapped_ipv4 :: "string \<Rightarrow> string" where
  "normalize_mapped_ipv4 address =
     (case parse_ipv6_words address of
        None \<Rightarrow> address
      | Some ws \<Rightarrow>
          if list_ex (\<lambda>w. w \<noteq> 0) (take 5 ws) \<or> ws ! 5 \<noteq> 65535 then address
          else join ''.'' (map show_nat [ws ! 6 div 256, ws ! 6 mod 256, ws ! 7 div 256, ws ! 7 mod 256]))"

definition is_loopback_address :: "string \<Rightarrow> bool" where
  "is_loopback_address address =
     (if is_ip address = 4 then hd (split_char CHR ''.'' address) = ''127''
      else if is_ip address = 6
      then (case parse_ipv6_words address of
              None \<Rightarrow> False
            | Some ws \<Rightarrow> list_all (\<lambda>w. w = 0) (take 7 ws) \<and> ws ! 7 = 1)
      else False)"

definition assert_address_policy :: "string \<Rightarrow> address_policy \<Rightarrow> (outbound_error + unit)" where
  "assert_address_policy rawAddress policy =
     (let address = normalize_mapped_ipv4 rawAddress; family = is_ip address in
      if family \<noteq> 4 \<and> family \<noteq> 6
      then Inl (PolicyError AddressBlocked ''Outbound HTTP address is blocked'')
      else if policy = LoopbackOnly
      then (if \<not> is_loopback_address address
            then Inl (PolicyError AddressBlocked ''Outbound HTTP address is not loopback'')
            else Inr ())
      else
        let blocks = (if policy = TrustedPrivate then trusted_private_blocked_addresses else blocked_addresses) in
        if (case ip_value address of None \<Rightarrow> False | Some a \<Rightarrow> block_list_check blocks a)
        then Inl (PolicyError AddressBlocked ''Outbound HTTP address is private, local, metadata, or reserved'')
        else Inr ())"

text \<open>\<open>isLoopbackHostname\<close> of the configuration.\<close>

definition is_loopback_hostname :: "(string \<Rightarrow> url option) \<Rightarrow> string \<Rightarrow> bool" where
  "is_loopback_hostname parse_url hostname =
     (let normalized = strip_ending CHR ''.'' (strip_ending CHR '']'' (strip_opening (js_lower (js_trim hostname)))) in
      if normalized = ''localhost'' then True
      else if is_ip normalized = 4 then hd (split_char CHR ''.'' normalized) = ''127''
      else if is_ip normalized = 6
      then (case parse_url (''http://['' @ normalized @ '']/'') of
              None \<Rightarrow> False
            | Some u \<Rightarrow> u_hostname u = ''[::1]'')
      else False)"

section \<open>Name lookup\<close>

text \<open>A lookup started for a name answers after a number of milliseconds, with addresses or an error.\<close>

type_synonym lookup_host = "string \<Rightarrow> int \<times> (outbound_error + lookup_address list)"

definition assert_lookup_timeout :: "int \<Rightarrow> (outbound_error + unit)" where
  "assert_lookup_timeout timeoutMs =
     (if \<not> is_safe_integer timeoutMs \<or> timeoutMs < 1 \<or> timeoutMs > 60000
      then Inl (PlainError ''Outbound DNS lookup timeout must be between 1 and 60000ms'') else Inr ())"

definition assert_request_timeout :: "int \<Rightarrow> (outbound_error + unit)" where
  "assert_request_timeout timeoutMs =
     (if \<not> is_safe_integer timeoutMs \<or> timeoutMs < 1 \<or> timeoutMs > 300000
      then Inl (PlainError ''Outbound HTTP request timeout must be between 1 and 300000ms'') else Inr ())"

text \<open>The race of the lookup, the timer and the abort of the signal (\<open>None\<close>: never), and when it ended.\<close>

definition lookup_host_with_deadline ::
  "string \<Rightarrow> lookup_host \<Rightarrow> int \<Rightarrow> int option \<Rightarrow> int \<times> (outbound_error + lookup_address list)" where
  "lookup_host_with_deadline hostname lookupHost timeoutMs abortAt =
     (case assert_lookup_timeout timeoutMs of
        Inl e \<Rightarrow> (0, Inl e)
      | Inr _ \<Rightarrow>
          let (answeredAt, answer) = lookupHost hostname;
              abortsBy = (\<lambda>t. case abortAt of None \<Rightarrow> False | Some a \<Rightarrow> a < t) in
          if answeredAt \<le> timeoutMs \<and> \<not> abortsBy answeredAt then (answeredAt, answer)
          else if abortsBy (timeoutMs + 1) then (the abortAt, Inl AbortReason)
          else (timeoutMs, Inl (PlainError ''Outbound DNS lookup timed out'')))"

definition check_lookup_address :: "address_policy \<Rightarrow> lookup_address \<Rightarrow> (outbound_error + (string \<times> nat))" where
  "check_lookup_address policy la =
     (let normalizedAddress = normalize_outbound_hostname (la_address la); family = is_ip normalizedAddress in
      if family \<noteq> 4 \<and> family \<noteq> 6
      then Inl (PolicyError DnsFailed ''Outbound HTTP target returned an invalid address'')
      else (case assert_address_policy normalizedAddress policy of
              Inl e \<Rightarrow> Inl e
            | Inr _ \<Rightarrow> Inr (normalizedAddress, family)))"

fun map_throws :: "('a \<Rightarrow> 'e + 'b) \<Rightarrow> 'a list \<Rightarrow> 'e + 'b list" where
  "map_throws f [] = Inr []"
| "map_throws f (x # xs) =
     (case f x of
        Inl e \<Rightarrow> Inl e
      | Inr y \<Rightarrow> (case map_throws f xs of Inl e \<Rightarrow> Inl e | Inr ys \<Rightarrow> Inr (y # ys)))"

definition is_local_hostname :: "string \<Rightarrow> bool" where
  "is_local_hostname hostname =
     (hostname = ''localhost'' \<or> ends_with ''.localhost'' hostname
      \<or> ends_with ''.local'' hostname \<or> ends_with ''.internal'' hostname)"

definition resolve_outbound_http_target ::
  "(string \<Rightarrow> url option) \<Rightarrow> address_policy \<Rightarrow> lookup_host \<Rightarrow> int \<Rightarrow> int option \<Rightarrow> string
   \<Rightarrow> (outbound_error + resolved_target)" where
  "resolve_outbound_http_target parse_url policy lookupHost lookupTimeoutMs abortAt v =
     (case parse_url v of
        None \<Rightarrow> Inl (PolicyError InvalidTarget ''Outbound HTTP target is invalid'')
      | Some u \<Rightarrow>
          if u_protocol u \<notin> {''http:'', ''https:''} \<or> u_username u \<noteq> [] \<or> u_password u \<noteq> []
          then Inl (PolicyError InvalidTarget ''Outbound HTTP target is invalid'')
          else
            let hostname = normalize_outbound_hostname (u_hostname u); literalFamily = is_ip hostname in
            if literalFamily = 4 \<or> literalFamily = 6
            then (case assert_address_policy hostname policy of
                    Inl e \<Rightarrow> Inl e
                  | Inr _ \<Rightarrow> Inr \<lparr> rt_url = u, rt_address = hostname, rt_family = literalFamily \<rparr>)
            else if policy \<noteq> TrustedPrivate \<and> is_local_hostname hostname
                    \<and> \<not> (policy = LoopbackOnly \<and> hostname = ''localhost'')
            then Inl (PolicyError AddressBlocked ''Outbound HTTP hostname is blocked'')
            else
              (case lookup_host_with_deadline hostname lookupHost lookupTimeoutMs abortAt of
                 (t, Inl e) \<Rightarrow>
                   if (case abortAt of None \<Rightarrow> False | Some a \<Rightarrow> a \<le> t) then Inl AbortReason
                   else (case e of
                           PolicyError c m \<Rightarrow> Inl (PolicyError c m)
                         | _ \<Rightarrow> Inl (PolicyError DnsFailed ''Outbound HTTP target could not be resolved''))
               | (t, Inr addresses) \<Rightarrow>
                   if addresses = []
                   then Inl (PolicyError DnsFailed ''Outbound HTTP target did not resolve'')
                   else (case map_throws (check_lookup_address policy) addresses of
                           Inl e \<Rightarrow> Inl e
                         | Inr normalized \<Rightarrow>
                             (case normalized of
                                [] \<Rightarrow> Inl (PolicyError DnsFailed ''Outbound HTTP target did not resolve'')
                              | (address, family) # _ \<Rightarrow>
                                  Inr \<lparr> rt_url = u, rt_address = address, rt_family = family \<rparr>))))"

section \<open>The pinned request\<close>

text \<open>What is handed to the socket. The headers are the entries of \<open>new Headers(init.headers)\<close>: names
  in lower case, each once.\<close>

record pinned_init =
  pi_method :: string
  pi_headers :: "(string \<times> string) list"
  pi_addressPolicy :: address_policy
  pi_discardResponseBody :: bool
  pi_maximumResponseBytes :: "int option"

record request_options =
  ro_protocol :: string
  ro_hostname :: string
  ro_family :: nat
  ro_port :: nat
  ro_method :: string
  ro_path :: string
  ro_headers :: "(string \<times> string) list"
  ro_servername :: "string option"
  ro_identity :: "string option"

fun set_entry :: "string \<Rightarrow> 'a \<Rightarrow> (string \<times> 'a) list \<Rightarrow> (string \<times> 'a) list" where
  "set_entry k v [] = [(k, v)]"
| "set_entry k v ((k', v') # kvs) = (if k' = k then (k, v) # kvs else (k', v') # set_entry k v kvs)"

definition url_host :: "url \<Rightarrow> string" where
  "url_host u = (if u_port u = [] then u_hostname u else u_hostname u @ '':'' @ u_port u)"

definition url_origin :: "url \<Rightarrow> string" where
  "url_origin u = u_protocol u @ ''//'' @ url_host u"

definition pinned_options :: "resolved_target \<Rightarrow> pinned_init \<Rightarrow> request_options" where
  "pinned_options target init =
     (let u = rt_url target;
          originalHostname = normalize_outbound_hostname (u_hostname u);
          https = (u_protocol u = ''https:'') in
      \<lparr> ro_protocol = u_protocol u,
        ro_hostname = rt_address target,
        ro_family = rt_family target,
        ro_port = read_digits (if u_port u \<noteq> [] then u_port u else if https then ''443'' else ''80''),
        ro_method = pi_method init,
        ro_path = u_pathname u @ u_search u,
        ro_headers = set_entry ''host'' (url_host u) (pi_headers init),
        ro_servername = (if https \<and> is_ip originalHostname = 0 then Some originalHostname else None),
        ro_identity = (if https then Some originalHostname else None) \<rparr>)"

definition create_pinned_http_request :: "int \<Rightarrow> int \<Rightarrow> (outbound_error + unit)" where
  "create_pinned_http_request lookupTimeoutMs requestTimeoutMs =
     (case assert_lookup_timeout lookupTimeoutMs of
        Inl e \<Rightarrow> Inl e
      | Inr _ \<Rightarrow> assert_request_timeout requestTimeoutMs)"

text \<open>The request up to the socket: the options and the byte limit it is issued with.\<close>

definition pinned_http_request ::
  "(string \<Rightarrow> url option) \<Rightarrow> lookup_host \<Rightarrow> int \<Rightarrow> int option \<Rightarrow> string \<Rightarrow> pinned_init
   \<Rightarrow> (outbound_error + (request_options \<times> int))" where
  "pinned_http_request parse_url lookupHost lookupTimeoutMs abortAt v init =
     (case resolve_outbound_http_target parse_url (pi_addressPolicy init) lookupHost lookupTimeoutMs abortAt v of
        Inl e \<Rightarrow> Inl e
      | Inr target \<Rightarrow>
          let maximumResponseBytes =
                (case pi_maximumResponseBytes init of None \<Rightarrow> default_maximum_response_bytes | Some n \<Rightarrow> n) in
          if \<not> is_safe_integer maximumResponseBytes \<or> maximumResponseBytes < 0 \<or> maximumResponseBytes > 16777216
          then Inl (PlainError ''Maximum outbound response bytes must be between 0 and 16777216'')
          else Inr (pinned_options target init, maximumResponseBytes))"

section \<open>The response\<close>

text \<open>The events of the socket after the request was sent; the promise is settled once.\<close>

datatype socket_event =
    ResponseStarted int
  | BodyData string
  | BodyEnd
  | BodyError outbound_error
  | BodyClose
  | RequestError outbound_error
  | RequestTimeout

record pinned_response =
  rs_status :: int
  rs_body :: "string option"

record socket_state =
  so_settled :: "(outbound_error + pinned_response) option"
  so_status :: "int option"
  so_chunks :: "string list"
  so_receivedBytes :: int
  so_ended :: bool

definition socket_init :: socket_state where
  "socket_init = \<lparr> so_settled = None, so_status = None, so_chunks = [], so_receivedBytes = 0, so_ended = False \<rparr>"

definition settle :: "(outbound_error + pinned_response) \<Rightarrow> socket_state \<Rightarrow> socket_state" where
  "settle r s = (if so_settled s \<noteq> None then s else s\<lparr>so_settled := Some r\<rparr>)"

fun socket_step :: "bool \<Rightarrow> int \<Rightarrow> socket_event \<Rightarrow> socket_state \<Rightarrow> socket_state" where
  "socket_step discardBody limit (ResponseStarted status) s =
     (let s' = s\<lparr>so_status := Some status\<rparr> in
      if discardBody then settle (Inr \<lparr> rs_status = status, rs_body = None \<rparr>) s' else s')"
| "socket_step discardBody limit (BodyData chunk) s =
     (if discardBody \<or> so_status s = None then s
      else
        let s' = s\<lparr>so_receivedBytes := so_receivedBytes s + int (length chunk)\<rparr> in
        if so_receivedBytes s' > limit then settle (Inl (SocketError ''ERR_RESPONSE_TOO_LARGE'')) s'
        else s'\<lparr>so_chunks := so_chunks s' @ [chunk]\<rparr>)"
| "socket_step discardBody limit BodyEnd s =
     (if discardBody then s
      else (case so_status s of
              None \<Rightarrow> s
            | Some status \<Rightarrow>
                settle (Inr \<lparr> rs_status = status,
                              rs_body = (if so_receivedBytes s = 0 \<or> status \<in> {204, 205, 304} then None
                                         else Some (concat (so_chunks s))) \<rparr>)
                  (s\<lparr>so_ended := True\<rparr>)))"
| "socket_step discardBody limit (BodyError e) s =
     (if discardBody \<or> so_status s = None then s else settle (Inl e) s)"
| "socket_step discardBody limit BodyClose s =
     (if discardBody \<or> so_status s = None \<or> so_ended s then s else settle (Inl (SocketError ''ECONNRESET'')) s)"
| "socket_step discardBody limit (RequestError e) s = settle (Inl e) s"
| "socket_step discardBody limit RequestTimeout s = settle (Inl (SocketError ''ETIMEDOUT'')) s"

definition issue_pinned_request :: "bool \<Rightarrow> int \<Rightarrow> socket_event list \<Rightarrow> (outbound_error + pinned_response) option" where
  "issue_pinned_request discardBody limit events =
     so_settled (fold (socket_step discardBody limit) events socket_init)"

end
