(* ===== verification/Address_Parsing.thy ===== *)
theory Address_Parsing
  imports Outbound_Policy
begin

text \<open>
  The IPv6 parser of the code, which splits the text at \<open>::\<close> and at colons, and the scanner of the
  platform read the same groups from every normalized text, dotted IPv4 tails included.
\<close>

section \<open>What the scanner does on groups\<close>

abbreviation finish6 :: "nat list \<Rightarrow> nat option \<Rightarrow> nat list option" where
  "finish6 ws gap \<equiv> pton6_end 0 0 ws gap"

definition lower_hex_or_colon :: "char \<Rightarrow> bool" where
  "lower_hex_or_colon c = (is_lower_hex c \<or> c = CHR '':'')"

lemma colon_not_hex [simp]: "\<not> is_hex_char CHR '':''" "\<not> is_lower_hex CHR '':''" "\<not> is_digit CHR '':''"
  by (simp_all add: is_hex_char_def is_lower_hex_def is_digit_def)

lemma dot_not_hex [simp]: "\<not> is_hex_char CHR ''.''" "\<not> is_lower_hex CHR ''.''" "\<not> is_digit CHR ''.''"
  by (simp_all add: is_hex_char_def is_lower_hex_def is_digit_def)

lemma pton6_end_push: "0 < seen \<Longrightarrow> length ws < 8 \<Longrightarrow> pton6_end seen v ws gap = finish6 (ws @ [v]) gap"
  by (simp add: pton6_end_def)

lemma pton6_digits:
  "\<lbrakk>list_all is_lower_hex p; seen + length p \<le> 4\<rbrakk>
   \<Longrightarrow> pton6_loop (p @ rest) tok seen v ws gap
       = pton6_loop rest tok (seen + length p) (foldl (\<lambda>n c. 16 * n + hex_value c) v p) ws gap"
  by (induction p arbitrary: seen v) auto

lemma pton6_part:
  "is_ipv6_part p \<Longrightarrow> pton6_loop (p @ rest) tok 0 0 ws gap = pton6_loop rest tok (length p) (read_hex p) ws gap"
  using pton6_digits [of p 0 rest tok 0 ws gap] by (simp add: is_ipv6_part_def read_hex_def)

lemma is_ipv6_part_ne [simp]: "is_ipv6_part p \<Longrightarrow> p \<noteq> []" "is_ipv6_part p \<Longrightarrow> 0 < length p"
  by (auto simp: is_ipv6_part_def)

lemma is_ipv6_part_colon: "is_ipv6_part p \<Longrightarrow> CHR '':'' \<notin> set p"
  by (auto simp: is_ipv6_part_def list_all_iff)

lemma is_ipv6_part_ends [simp]:
  "is_ipv6_part p \<Longrightarrow> hd p \<noteq> CHR '':''" "is_ipv6_part p \<Longrightarrow> last p \<noteq> CHR '':''"
  by (metis is_ipv6_part_ne(1) is_ipv6_part_colon hd_in_set, metis is_ipv6_part_ne(1) is_ipv6_part_colon last_in_set)

lemma pton6_part_end:
  "\<lbrakk>is_ipv6_part p; length ws < 8\<rbrakk> \<Longrightarrow> pton6_loop p tok 0 0 ws gap = finish6 (ws @ [read_hex p]) gap"
  using pton6_part [of p "[]" tok ws gap] by (simp add: pton6_end_push)

lemma pton6_part_colon:
  "\<lbrakk>is_ipv6_part p; length ws < 8; s \<noteq> []\<rbrakk>
   \<Longrightarrow> pton6_loop (p @ CHR '':'' # s) tok 0 0 ws gap = pton6_loop s s 0 0 (ws @ [read_hex p]) gap"
  by (simp add: pton6_part)

lemma join_ne: "qs \<noteq> [] \<Longrightarrow> list_all is_ipv6_part qs \<Longrightarrow> join sep qs \<noteq> []"
  by (cases qs; cases "tl qs") auto

lemma pton6_parts:
  "\<lbrakk>ps \<noteq> []; list_all is_ipv6_part ps; length ws + length ps \<le> 8\<rbrakk>
   \<Longrightarrow> pton6_loop (join '':'' ps) tok 0 0 ws gap = finish6 (ws @ map read_hex ps) gap"
proof (induction "'':''" ps arbitrary: tok ws rule: join.induct)
  case (3 w v vs)
  then have "join '':'' (v # vs) \<noteq> []" by (intro join_ne) auto
  with 3 show ?case by (simp add: pton6_part_colon)
qed (auto simp: pton6_part_end)

lemma pton6_parts_gap:
  "\<lbrakk>ps \<noteq> []; list_all is_ipv6_part ps; length ws + length ps \<le> 8\<rbrakk>
   \<Longrightarrow> pton6_loop (join '':'' ps @ ''::'' @ r) tok 0 0 ws None
       = pton6_loop r r 0 0 (ws @ map read_hex ps) (Some (length ws + length ps))"
proof (induction "'':''" ps arbitrary: tok ws rule: join.induct)
  case (2 w)
  then show ?case by (simp add: pton6_part_colon)
next
  case (3 w v vs)
  have "join '':'' (v # vs) @ ''::'' @ r \<noteq> []" by simp
  with 3 show ?case by (simp add: pton6_part_colon)
qed auto

section \<open>The halves of a text\<close>

lemma split_gap_ne [simp]: "split_gap s \<noteq> []"
  by (induction s rule: split_gap.induct) (auto split: list.splits)

lemma join_Cons_ne: "ws \<noteq> [] \<Longrightarrow> join sep (w # ws) = w @ sep @ join sep ws"
  by (cases ws) auto

lemma join_split_gap: "join ''::'' (split_gap s) = s"
proof (induction s rule: split_gap.induct)
  case (3 c d s)
  show ?case
  proof (cases "c = CHR '':'' \<and> d = CHR '':''")
    case True
    then have "join ''::'' (split_gap (c # d # s)) = join ''::'' ([] # split_gap s)" by simp
    also have "\<dots> = ''::'' @ join ''::'' (split_gap s)" by (simp only: join_Cons_ne [OF split_gap_ne] append_Nil)
    finally show ?thesis using True 3(1) [OF True] by simp
  next
    case False
    obtain w ws where w: "split_gap (d # s) = w # ws"
      using split_gap_ne [of "d # s"] by (cases "split_gap (d # s)") auto
    with False 3(2) [OF False] show ?thesis by (cases ws) auto
  qed
qed auto

definition no_gap :: "string \<Rightarrow> bool" where
  "no_gap s = (\<not> js_includes ''::'' s)"

lemma split_gap_no_gap: "no_gap s \<Longrightarrow> split_gap s = [s]"
proof (induction s rule: split_gap.induct)
  case (3 c d s)
  then have "no_gap (d # s)" and "\<not> (c = CHR '':'' \<and> d = CHR '':'')"
    by (auto simp: no_gap_def starts_with_def)
  with 3 show ?case by auto
qed auto

lemma split_gap_append:
  "\<lbrakk>no_gap h; h \<noteq> [] \<longrightarrow> last h \<noteq> CHR '':''\<rbrakk> \<Longrightarrow> split_gap (h @ ''::'' @ r) = h # split_gap r"
proof (induction h rule: split_gap.induct)
  case (3 c d s)
  then have "no_gap (d # s)" and "\<not> (c = CHR '':'' \<and> d = CHR '':'')"
    by (auto simp: no_gap_def starts_with_def)
  with 3 show ?case by auto
qed auto

lemma hd_join_part: "qs \<noteq> [] \<Longrightarrow> list_all is_ipv6_part qs \<Longrightarrow> hd (join '':'' qs) \<noteq> CHR '':''"
  by (cases qs; cases "tl qs") (auto simp: hd_append)

lemma no_gap_no_colon: "CHR '':'' \<notin> set s \<Longrightarrow> no_gap s"
  by (auto simp: no_gap_def js_includes_iff)

lemma no_gap_Cons: "no_gap s \<Longrightarrow> (c = CHR '':'' \<longrightarrow> s = [] \<or> hd s \<noteq> CHR '':'') \<Longrightarrow> no_gap (c # s)"
  by (cases s) (auto simp: no_gap_def starts_with_def)

lemma no_gap_part_append: "CHR '':'' \<notin> set p \<Longrightarrow> no_gap s \<Longrightarrow> no_gap (p @ s)"
  by (induction p) (auto intro: no_gap_Cons)

lemma no_gap_join: "list_all is_ipv6_part ps \<Longrightarrow> no_gap (join '':'' ps)"
proof (induction "'':''" ps rule: join.induct)
  case (3 w v vs)
  then have "hd (join '':'' (v # vs)) \<noteq> CHR '':''" by (intro hd_join_part) auto
  with 3 have "no_gap ('':'' @ join '':'' (v # vs))" by (auto intro: no_gap_Cons)
  with 3 show ?case using no_gap_part_append [of w "'':'' @ join '':'' (v # vs)"] is_ipv6_part_colon [of w]
    by simp
qed (auto simp: no_gap_def starts_with_def dest: is_ipv6_part_colon no_gap_no_colon [unfolded no_gap_def])

lemma last_join_part: "qs \<noteq> [] \<Longrightarrow> list_all is_ipv6_part qs \<Longrightarrow> last (join '':'' qs) \<noteq> CHR '':''"
proof (induction "'':''" qs rule: join.induct)
  case (2 w)
  then show ?case by simp
next
  case (3 w v vs)
  then show ?case using join_ne [of "v # vs" "'':''"] by simp
qed auto

lemma split_join_parts: "qs \<noteq> [] \<Longrightarrow> list_all is_ipv6_part qs \<Longrightarrow> split_char CHR '':'' (join '':'' qs) = qs"
  by (rule split_char_join) (auto simp: list_all_iff is_ipv6_part_colon)

section \<open>The grammar both parsers follow\<close>

definition ipv6_text :: "string \<Rightarrow> nat list \<Rightarrow> bool" where
  "ipv6_text s ws \<longleftrightarrow>
     (\<exists>ps. list_all is_ipv6_part ps \<and> length ps = 8 \<and> s = join '':'' ps \<and> ws = map read_hex ps)
     \<or> (\<exists>ps qs. list_all is_ipv6_part ps \<and> list_all is_ipv6_part qs \<and> length ps + length qs \<le> 7
          \<and> s = join '':'' ps @ ''::'' @ join '':'' qs
          \<and> ws = map read_hex ps @ replicate (8 - length ps - length qs) 0 @ map read_hex qs)"

lemma ipv6_text_full:
  "\<lbrakk>list_all is_ipv6_part ps; length ps = 8; s = join '':'' ps; ws = map read_hex ps\<rbrakk> \<Longrightarrow> ipv6_text s ws"
  by (auto simp: ipv6_text_def)

lemma ipv6_text_gap:
  "\<lbrakk>list_all is_ipv6_part ps; list_all is_ipv6_part qs; length ps + length qs \<le> 7;
    s = join '':'' ps @ ''::'' @ join '':'' qs;
    ws = map read_hex ps @ replicate (8 - length ps - length qs) 0 @ map read_hex qs\<rbrakk> \<Longrightarrow> ipv6_text s ws"
  unfolding ipv6_text_def by blast

definition half_parts :: "string \<Rightarrow> string list" where
  "half_parts h = (if h = [] then [] else split_char CHR '':'' h)"

lemma half_parts_join [simp]: "list_all is_ipv6_part ps \<Longrightarrow> half_parts (join '':'' ps) = ps"
  by (cases "ps = []") (simp_all add: half_parts_def join_ne split_join_parts)

lemma join_half_parts: "join '':'' (half_parts h) = h"
  by (simp add: half_parts_def join_split_char)

lemma parse_ipv6_groups_halves:
  "parse_ipv6_groups s =
     (case split_gap s of
        [h] \<Rightarrow> if list_all is_ipv6_part (half_parts h) \<and> length (half_parts h) = 8
                 then Some (map read_hex (half_parts h)) else None
      | [h, k] \<Rightarrow> if list_all is_ipv6_part (half_parts h) \<and> list_all is_ipv6_part (half_parts k)
                       \<and> length (half_parts h) + length (half_parts k) \<le> 7
                    then Some (map read_hex (half_parts h)
                               @ replicate (8 - length (half_parts h) - length (half_parts k)) 0
                               @ map read_hex (half_parts k)) else None
      | _ \<Rightarrow> None)"
proof -
  have nat8: "nat (8 - int a - int b) = 8 - a - b" for a b by simp
  consider h where "split_gap s = [h]" | h k where "split_gap s = [h, k]"
    | h k l ls where "split_gap s = h # k # l # ls"
    using split_gap_ne [of s] by (metis list.exhaust)
  then show ?thesis
  proof cases
    case 1
    then show ?thesis by (auto simp: parse_ipv6_groups_def Let_def half_parts_def)
  next
    case 2
    then show ?thesis
      unfolding parse_ipv6_groups_def Let_def half_parts_def nat8 by auto
  next
    case 3
    then show ?thesis by (simp add: parse_ipv6_groups_def)
  qed
qed

lemma parse_ipv6_groups_iff: "parse_ipv6_groups s = Some ws \<longleftrightarrow> ipv6_text s ws"
proof
  assume r: "parse_ipv6_groups s = Some ws"
  consider h where "split_gap s = [h]" | h k where "split_gap s = [h, k]"
    | h k l ls where "split_gap s = h # k # l # ls"
    using split_gap_ne [of s] by (metis list.exhaust)
  then show "ipv6_text s ws"
  proof cases
    case 1
    with r join_split_gap [of s] show ?thesis
      by (intro ipv6_text_full [of "half_parts h"]) (simp_all add: parse_ipv6_groups_halves join_half_parts split: if_splits)
  next
    case 2
    with r join_split_gap [of s] show ?thesis
      by (intro ipv6_text_gap [of "half_parts h" "half_parts k"])
        (simp_all add: parse_ipv6_groups_halves join_half_parts split: if_splits)
  qed (use r in \<open>simp add: parse_ipv6_groups_halves\<close>)
next
  assume "ipv6_text s ws"
  then show "parse_ipv6_groups s = Some ws"
    unfolding ipv6_text_def
  proof (elim disjE exE conjE)
    fix ps assume "list_all is_ipv6_part ps" "length ps = 8" "s = join '':'' ps" "ws = map read_hex ps"
    then show ?thesis by (simp add: parse_ipv6_groups_halves split_gap_no_gap no_gap_join)
  next
    fix ps qs
    assume ps: "list_all is_ipv6_part ps" and qs: "list_all is_ipv6_part qs" and n: "length ps + length qs \<le> 7"
      and s: "s = join '':'' ps @ ''::'' @ join '':'' qs"
      and ws: "ws = map read_hex ps @ replicate (8 - length ps - length qs) 0 @ map read_hex qs"
    have "join '':'' ps \<noteq> [] \<longrightarrow> last (join '':'' ps) \<noteq> CHR '':''"
      using ps last_join_part [of ps] by (cases "ps = []") auto
    then have "split_gap s = join '':'' ps # split_gap (join '':'' qs)"
      unfolding s by (rule split_gap_append [OF no_gap_join [OF ps]])
    also have "split_gap (join '':'' qs) = [join '':'' qs]" by (rule split_gap_no_gap [OF no_gap_join [OF qs]])
    finally have "split_gap s = [join '':'' ps, join '':'' qs]" .
    with ps qs n ws show ?thesis by (simp add: parse_ipv6_groups_halves)
  qed
qed

section \<open>The scanner\<close>

lemma finish6_gap:
  assumes "length qs + length ws \<le> 7" "k = length ws"
  shows "finish6 (ws @ qs) (Some k) = Some (ws @ replicate (8 - length ws - length qs) 0 @ qs)"
  using assms by (simp add: pton6_end_def Let_def)

lemma pton6_loop_parts0:
  "\<lbrakk>list_all is_ipv6_part qs; length ws + length qs \<le> 8\<rbrakk>
   \<Longrightarrow> pton6_loop (join '':'' qs) (join '':'' qs) 0 0 ws gap = finish6 (ws @ map read_hex qs) gap"
  by (cases "qs = []") (auto simp: pton6_parts)

lemma starts_with_colon: "starts_with '':'' s \<longleftrightarrow> s \<noteq> [] \<and> hd s = CHR '':''"
  by (cases s) (auto simp: starts_with_def)

lemma parse_ipv6_text:
  assumes "ipv6_text s ws"
  shows "parse_ipv6 s = Some ws"
  using assms unfolding ipv6_text_def
proof (elim disjE exE conjE)
  fix ps assume ps: "list_all is_ipv6_part ps" "length ps = 8" and s: "s = join '':'' ps" and ws: "ws = map read_hex ps"
  from ps have "ps \<noteq> []" by auto
  with ps hd_join_part [of ps] have "\<not> starts_with '':'' s" by (simp add: s starts_with_colon)
  then have "parse_ipv6 s = pton6_loop s s 0 0 [] None" by (simp add: parse_ipv6_def)
  also have "\<dots> = finish6 ws None" using ps ws by (simp add: s pton6_loop_parts0)
  finally show ?thesis using ps ws by (simp add: pton6_end_def)
next
  fix ps qs
  assume ps: "list_all is_ipv6_part ps" and qs: "list_all is_ipv6_part qs" and n: "length ps + length qs \<le> 7"
    and s: "s = join '':'' ps @ ''::'' @ join '':'' qs"
    and ws: "ws = map read_hex ps @ replicate (8 - length ps - length qs) 0 @ map read_hex qs"
  let ?r = "join '':'' qs"
  have "parse_ipv6 s = pton6_loop ?r ?r 0 0 (map read_hex ps) (Some (length ps))"
  proof (cases "ps = []")
    case True
    then show ?thesis by (simp add: parse_ipv6_def s starts_with_def)
  next
    case False
    with ps hd_join_part [of ps] join_ne [of ps "'':''"] have "\<not> starts_with '':'' s" by (simp add: s starts_with_colon)
    then have "parse_ipv6 s = pton6_loop s s 0 0 [] None" by (simp add: parse_ipv6_def)
    also have "\<dots> = pton6_loop ?r ?r 0 0 (map read_hex ps) (Some (length ps))"
      unfolding s using False ps n pton6_parts_gap [of ps "[]"] by simp
    finally show ?thesis .
  qed
  also have "\<dots> = finish6 (map read_hex ps @ map read_hex qs) (Some (length ps))"
    by (rule pton6_loop_parts0 [OF qs]) (use n in simp)
  also have "\<dots> = Some ws"
    unfolding ws by (subst finish6_gap) (use n in simp_all)
  finally show ?thesis .
qed

text \<open>What a text that the scanner accepts looks like, from any point of the scan.\<close>

definition scan_form :: "string \<Rightarrow> nat list \<Rightarrow> nat option \<Rightarrow> nat list \<Rightarrow> bool" where
  "scan_form s ws gap r \<longleftrightarrow>
     (\<exists>qs. list_all is_ipv6_part qs \<and> s = join '':'' qs \<and> finish6 (ws @ map read_hex qs) gap = Some r)
     \<or> (gap = None \<and> (\<exists>ps qs. list_all is_ipv6_part ps \<and> list_all is_ipv6_part qs \<and> ps \<noteq> []
           \<and> s = join '':'' ps @ ''::'' @ join '':'' qs
           \<and> finish6 (ws @ map read_hex ps @ map read_hex qs) (Some (length ws + length ps)) = Some r))
     \<or> (gap = None \<and> (\<exists>qs. list_all is_ipv6_part qs \<and> s = '':'' @ join '':'' qs
           \<and> finish6 (ws @ map read_hex qs) (Some (length ws)) = Some r))"

lemma scan_form_plainI:
  "\<lbrakk>list_all is_ipv6_part qs; s = join '':'' qs; finish6 (ws @ map read_hex qs) gap = Some r\<rbrakk> \<Longrightarrow> scan_form s ws gap r"
  by (auto simp: scan_form_def)

lemma scan_form_gapI:
  "\<lbrakk>list_all is_ipv6_part ps; list_all is_ipv6_part qs; ps \<noteq> []; s = join '':'' ps @ ''::'' @ join '':'' qs;
    finish6 (ws @ map read_hex ps @ map read_hex qs) (Some (length ws + length ps)) = Some r\<rbrakk>
   \<Longrightarrow> scan_form s ws None r"
  unfolding scan_form_def by blast

lemma scan_form_push:
  assumes "is_ipv6_part cur" and "s \<noteq> []" and "scan_form s (ws @ [read_hex cur]) gap r"
  shows "scan_form (cur @ CHR '':'' # s) ws gap r"
  using assms(3) unfolding scan_form_def [of s]
proof (elim disjE conjE exE)
  fix qs
  assume "list_all is_ipv6_part qs" "s = join '':'' qs" "finish6 ((ws @ [read_hex cur]) @ map read_hex qs) gap = Some r"
  with assms show ?thesis by (intro scan_form_plainI [of "cur # qs"]) (cases qs; auto)+
next
  fix ps qs
  assume "gap = None" and ps: "list_all is_ipv6_part ps" "list_all is_ipv6_part qs" "ps \<noteq> []"
    and s: "s = join '':'' ps @ ''::'' @ join '':'' qs"
    and r: "finish6 ((ws @ [read_hex cur]) @ map read_hex ps @ map read_hex qs)
              (Some (length (ws @ [read_hex cur]) + length ps)) = Some r"
  from ps(3) have "join '':'' (cur # ps) = cur @ '':'' @ join '':'' ps" by (rule join_Cons_ne)
  with \<open>gap = None\<close> ps s r assms show ?thesis by (auto intro!: scan_form_gapI [of "cur # ps" qs])
next
  fix qs
  assume "gap = None" and "list_all is_ipv6_part qs" "s = '':'' @ join '':'' qs"
    and "finish6 ((ws @ [read_hex cur]) @ map read_hex qs) (Some (length (ws @ [read_hex cur]))) = Some r"
  with assms show ?thesis by (auto intro!: scan_form_gapI [of "[cur]" qs])
qed

lemma scan_form_start:
  "scan_form s ws (Some k) r \<Longrightarrow> k = length ws \<Longrightarrow> scan_form (CHR '':'' # s) ws None r"
  by (auto simp: scan_form_def)

lemma pton6_loop_form:
  "\<lbrakk>pton6_loop s (cur @ s) (length cur) (read_hex cur) ws gap = Some r; list_all lower_hex_or_colon s;
    list_all is_lower_hex cur; length cur \<le> 4\<rbrakk> \<Longrightarrow> scan_form (cur @ s) ws gap r"
proof (induction s arbitrary: cur ws gap)
  case Nil
  show ?case
  proof (cases "cur = []")
    case True
    with Nil show ?thesis by (intro scan_form_plainI [of "[]"]) simp_all
  next
    case False
    with Nil have "is_ipv6_part cur" by (cases cur) (auto simp: is_ipv6_part_def)
    with Nil False show ?thesis
      by (intro scan_form_plainI [of "[cur]"]) (simp_all add: pton6_end_def split: if_splits)
  qed
next
  case (Cons c s)
  show ?case
  proof (cases "is_lower_hex c")
    case True
    with Cons.prems show ?thesis
      using Cons.IH [of "cur @ [c]" ws gap] by (simp split: if_splits)
  next
    case False
    with Cons.prems have c: "c = CHR '':''" by (simp add: lower_hex_or_colon_def)
    show ?thesis
    proof (cases "cur = []")
      case True
      with Cons.prems c have "pton6_loop s s 0 0 ws (Some (length ws)) = Some r" and g: "gap = None"
        by (simp_all split: if_splits)
      with Cons.prems Cons.IH [of "[]" ws "Some (length ws)"] have "scan_form s ws (Some (length ws)) r" by simp
      then show ?thesis using True c g scan_form_start by simp
    next
      case False
      with Cons.prems have p: "is_ipv6_part cur" by (cases cur) (auto simp: is_ipv6_part_def)
      from False Cons.prems c have "pton6_loop s s 0 0 (ws @ [read_hex cur]) gap = Some r" and ne: "s \<noteq> []"
        by (simp_all split: if_splits)
      with Cons.prems Cons.IH [of "[]" "ws @ [read_hex cur]" gap] have "scan_form s (ws @ [read_hex cur]) gap r"
        by simp
      then show ?thesis using c scan_form_push [OF p ne] by simp
    qed
  qed
qed

lemma finish6_None: "finish6 ws None = Some r \<longleftrightarrow> length ws = 8 \<and> r = ws"
  by (auto simp: pton6_end_def)

lemma finish6_SomeD: "finish6 ws (Some k) = Some r \<Longrightarrow> length ws \<le> 7"
  by (simp add: pton6_end_def Let_def split: if_splits)

lemma finish6_text:
  assumes "list_all is_ipv6_part ps" "list_all is_ipv6_part qs" "s = join '':'' ps @ ''::'' @ join '':'' qs"
    and f: "finish6 (map read_hex ps @ map read_hex qs) (Some (length ps)) = Some r"
  shows "ipv6_text s r"
proof -
  from finish6_SomeD [OF f] have n: "length ps + length qs \<le> 7" by simp
  have "finish6 (map read_hex ps @ map read_hex qs) (Some (length ps))
        = Some (map read_hex ps @ replicate (8 - length ps - length qs) 0 @ map read_hex qs)"
    by (subst finish6_gap) (use n in simp_all)
  with f have r: "r = map read_hex ps @ replicate (8 - length ps - length qs) 0 @ map read_hex qs" by simp
  show ?thesis by (rule ipv6_text_gap [OF assms(1,2) n assms(3) r])
qed

lemma parse_ipv6_textD:
  assumes p: "parse_ipv6 s = Some r" and ch: "list_all lower_hex_or_colon s"
  shows "ipv6_text s r"
proof (cases "starts_with '':'' s")
  case True
  with p obtain t where s: "s = CHR '':'' # CHR '':'' # t"
    by (cases s; cases "tl s") (auto simp: parse_ipv6_def starts_with_def split: if_splits)
  with p have "pton6_loop t ([] @ t) (length ([]::string)) (read_hex []) [] (Some 0) = Some r"
    by (simp add: parse_ipv6_def starts_with_def)
  then have "scan_form ([] @ t) [] (Some 0) r"
    by (rule pton6_loop_form) (use ch s in simp_all)
  then obtain qs where "list_all is_ipv6_part qs" "t = join '':'' qs" "finish6 (map read_hex qs) (Some 0) = Some r"
    by (auto simp: scan_form_def)
  then show ?thesis by (intro finish6_text [of "[]" qs]) (simp_all add: s)
next
  case False
  with p have "pton6_loop s ([] @ s) (length ([]::string)) (read_hex []) [] None = Some r"
    by (simp add: parse_ipv6_def Let_def)
  then have "scan_form ([] @ s) [] None r" by (rule pton6_loop_form) (use ch in simp_all)
  then show ?thesis
    unfolding scan_form_def
  proof (elim disjE exE conjE)
    fix qs assume "list_all is_ipv6_part qs" "[] @ s = join '':'' qs" "finish6 ([] @ map read_hex qs) None = Some r"
    then show ?thesis by (intro ipv6_text_full [of qs]) (auto simp: finish6_None)
  next
    fix ps qs
    assume "list_all is_ipv6_part ps" "list_all is_ipv6_part qs" "[] @ s = join '':'' ps @ ''::'' @ join '':'' qs"
      "finish6 ([] @ map read_hex ps @ map read_hex qs) (Some (length ([]::nat list) + length ps)) = Some r"
    then show ?thesis by (intro finish6_text [of ps qs]) simp_all
  next
    fix qs assume "[] @ s = '':'' @ join '':'' qs"
    with False show ?thesis by (simp add: starts_with_def)
  qed
qed

lemma parse_ipv6_groups_eq:
  assumes "list_all lower_hex_or_colon s"
  shows "parse_ipv6_groups s = parse_ipv6 s"
proof -
  have "parse_ipv6_groups s = Some ws \<longleftrightarrow> parse_ipv6 s = Some ws" for ws
    using assms parse_ipv6_groups_iff parse_ipv6_text parse_ipv6_textD by blast
  then show ?thesis by (metis not_None_eq)
qed

section \<open>Dotted tails\<close>

definition group_start :: "string \<Rightarrow> bool" where
  "group_start p = (p = [] \<or> last p = CHR '':'')"

definition is_hex_or_colon :: "char \<Rightarrow> bool" where
  "is_hex_or_colon c = (is_hex_char c \<or> c = CHR '':'')"

lemma lower_hex_or_colon_hex: "lower_hex_or_colon c \<Longrightarrow> is_hex_or_colon c"
  by (auto simp: lower_hex_or_colon_def is_hex_or_colon_def)

lemma parse_ipv4_Some:
  assumes "parse_ipv4 t = Some os"
  obtains a b d e where "t = a @ ''.'' @ b @ ''.'' @ d @ ''.'' @ e" "is_ipv4_octet a" "is_ipv4_octet b"
    "is_ipv4_octet d" "is_ipv4_octet e" "os = [read_digits a, read_digits b, read_digits d, read_digits e]"
proof -
  from assms have "length (split_char CHR ''.'' t) = 4"
    by (simp add: parse_ipv4_def Let_def split: if_splits)
  then obtain a b d e where p: "split_char CHR ''.'' t = [a, b, d, e]"
    by (auto simp: numeral_eq_Suc length_Suc_conv)
  with join_split_char [of "CHR ''.''" t] have "t = a @ ''.'' @ b @ ''.'' @ d @ ''.'' @ e" by simp
  with that assms p show ?thesis by (simp add: parse_ipv4_def Let_def split: if_splits)
qed

lemma is_ipv4_octetD:
  assumes "is_ipv4_octet a"
  shows "a \<noteq> []" "list_all is_lower_hex a" "list_all is_digit a" "length a \<le> 4" "length a \<le> 3" "read_digits a \<le> 255"
  using assms by (auto simp: is_ipv4_octet_def list_all_iff)

lemma is_digit_colon: "list_all is_digit a \<Longrightarrow> CHR '':'' \<notin> set a" "list_all is_digit a \<Longrightarrow> CHR ''.'' \<notin> set a"
  by (auto simp: list_all_iff)

lemma parse_ipv4_chars:
  assumes "parse_ipv4 t = Some os"
  shows "CHR '':'' \<notin> set t" "CHR ''.'' \<in> set t" "t \<noteq> []"
proof -
  from parse_ipv4_Some [OF assms] obtain a b d e where
    t: "t = a @ ''.'' @ b @ ''.'' @ d @ ''.'' @ e" "is_ipv4_octet a" "is_ipv4_octet b" "is_ipv4_octet d" "is_ipv4_octet e"
    by metis
  from t(2-) is_digit_colon(1) is_ipv4_octetD(3)
  have "CHR '':'' \<notin> set a" "CHR '':'' \<notin> set b" "CHR '':'' \<notin> set d" "CHR '':'' \<notin> set e" by blast+
  with t(1) show "CHR '':'' \<notin> set t" "CHR ''.'' \<in> set t" "t \<noteq> []" by simp_all
qed

lemma parse_ipv4_octets:
  "\<lbrakk>is_ipv4_octet a; is_ipv4_octet b; is_ipv4_octet d; is_ipv4_octet e\<rbrakk>
   \<Longrightarrow> parse_ipv4 (a @ ''.'' @ b @ ''.'' @ d @ ''.'' @ e) = Some [read_digits a, read_digits b, read_digits d, read_digits e]"
  by (simp add: parse_ipv4_def split_char_append_delim split_char_no_delim is_digit_colon is_ipv4_octetD)

lemma is_hex_lower: "is_hex_char c \<Longrightarrow> lower_char c = c \<Longrightarrow> is_lower_hex c"
proof -
  assume h: "is_hex_char c" and l: "lower_char c = c"
  have "\<not> is_upper c"
  proof
    assume u: "is_upper c"
    then have "code (lower_char c) = code c + 32" by (simp add: lower_char_def is_upper_def)
    with l show False by simp
  qed
  with h show ?thesis by (auto simp: is_hex_char_def is_lower_hex_def is_upper_def is_digit_def)
qed

lemma pton6_loop_dotted:
  "\<lbrakk>pton6_loop s tok seen v ws gap = Some r; tok = cur @ s; list_all is_hex_or_colon cur\<rbrakk>
   \<Longrightarrow> list_all is_hex_or_colon tok
       \<or> (\<exists>p t. tok = p @ t \<and> parse_ipv4 t \<noteq> None \<and> group_start p \<and> list_all is_hex_or_colon p)"
proof (induction s tok seen v ws gap arbitrary: cur rule: pton6_loop.induct)
  case (2 c s tok seen v ws gap)
  show ?case
  proof (cases "is_hex_or_colon c")
    case False
    then have "\<not> is_hex_char c" "c \<noteq> CHR '':''" by (auto simp: is_hex_or_colon_def)
    with "2.prems"(1) have "parse_ipv4 tok \<noteq> None" by (auto split: if_splits option.splits)
    then show ?thesis by (intro disjI2 exI [of _ "[]"] exI [of _ tok]) (simp add: group_start_def)
  next
    case True
    show ?thesis
    proof (cases "is_hex_char c")
      case hex: True
      with "2.prems"(1) have "pton6_loop s tok (seen + 1) (16 * v + hex_value c) ws gap = Some r" "\<not> seen + 1 > 4"
        by (auto split: if_splits)
      with "2.IH"(1) [OF hex _ _, of "cur @ [c]"] "2.prems" True show ?thesis by auto
    next
      case nhex: False
      with True have c: "c = CHR '':''" by (simp add: is_hex_or_colon_def)
      have sub: "list_all is_hex_or_colon s
          \<or> (\<exists>p t. s = p @ t \<and> parse_ipv4 t \<noteq> None \<and> group_start p \<and> list_all is_hex_or_colon p)"
      proof (cases "seen = 0")
        case True
        with "2.prems"(1) c nhex have "\<not> gap \<noteq> None" "pton6_loop s s 0 0 ws (Some (length ws)) = Some r"
          by (auto split: if_splits)
        with "2.IH"(2) [OF nhex c True, of "[]"] show ?thesis by simp
      next
        case False
        with "2.prems"(1) c nhex have "\<not> (s = [] \<or> length ws \<ge> 8)" "pton6_loop s s 0 0 (ws @ [v]) gap = Some r"
          by (auto split: if_splits)
        with "2.IH"(3) [OF nhex c False, of "[]"] show ?thesis by simp
      qed
      then show ?thesis
      proof (elim disjE exE conjE)
        assume "list_all is_hex_or_colon s"
        with "2.prems" True show ?thesis by simp
      next
        fix p t assume "s = p @ t" "parse_ipv4 t \<noteq> None" "group_start p" "list_all is_hex_or_colon p"
        with "2.prems" True c show ?thesis
          by (intro disjI2 exI [of _ "cur @ c # p"] exI [of _ t]) (auto simp: group_start_def)
      qed
    qed
  qed
qed auto

lemma split_char_append: "split_char d (p @ d # t) = split_char d p @ split_char d t"
  by (induction p) (auto split: list.splits)

lemma last_split_char: "group_start p \<Longrightarrow> CHR '':'' \<notin> set t \<Longrightarrow> last (split_char CHR '':'' (p @ t)) = t"
proof (cases "p = []")
  case False
  assume "group_start p" "CHR '':'' \<notin> set t"
  with False have "p = butlast p @ [CHR '':'']" by (metis append_butlast_last_id group_start_def)
  then obtain q where "p = q @ [CHR '':'']" ..
  with \<open>CHR '':'' \<notin> set t\<close> show ?thesis by (simp add: split_char_append split_char_no_delim)
qed (simp add: split_char_no_delim)

lemma dotted_tail_split:
  assumes "dotted_tail s = Some t"
  obtains p where "s = p @ t" "group_start p" "CHR ''.'' \<in> set t" "CHR '':'' \<notin> set t"
proof -
  from assms have t: "t = last (split_char CHR '':'' s)" and l: "length (split_char CHR ''.'' t) = 4"
    by (auto simp: dotted_tail_def Let_def split: if_splits)
  have "CHR ''.'' \<in> set t"
  proof (rule ccontr)
    assume "CHR ''.'' \<notin> set t"
    with l show False by (simp add: split_char_no_delim)
  qed
  moreover have "CHR '':'' \<notin> set t" unfolding t by (rule split_char_segments [OF last_in_set [OF split_char_not_Nil]])
  moreover have "\<exists>p. s = p @ t \<and> group_start p"
    unfolding t
  proof (induction s)
    case (Cons c s)
    then obtain p where p: "s = p @ last (split_char CHR '':'' s)" "group_start p" by auto
    show ?case
    proof (cases "c = CHR '':''")
      case True
      with p show ?thesis by (intro exI [of _ "c # p"]) (auto simp: group_start_def)
    next
      case False
      obtain w ws where w: "split_char CHR '':'' s = w # ws"
        using split_char_not_Nil [of "CHR '':''" s] by (cases "split_char CHR '':'' s") auto
      show ?thesis
      proof (cases "ws = []")
        case True
        with w join_split_char [of "CHR '':''" s] have "s = w" by simp
        with False w True show ?thesis by (intro exI [of _ "[]"]) (simp add: group_start_def)
      next
        case nn: False
        have "p \<noteq> []"
        proof
          assume "p = []"
          with p(1) split_char_segments [OF last_in_set [OF split_char_not_Nil], of "CHR '':''" s]
          have "CHR '':'' \<notin> set s" by simp
          with w nn show False by (simp add: split_char_no_delim)
        qed
        with False w nn p show ?thesis by (intro exI [of _ "c # p"]) (auto simp: group_start_def)
      qed
    qed
  qed (simp add: group_start_def)
  ultimately show ?thesis using that by blast
qed

text \<open>A dotted tail is worth its two groups in hexadecimal.\<close>

lemma show_hex_part: "n < 65536 \<Longrightarrow> is_ipv6_part (show_hex n)"
  using length_show_hex [of n 3] by (simp add: is_ipv6_part_def show_hex_hex Suc_le_eq)

lemma pton6_octet:
  "is_ipv4_octet a \<Longrightarrow> pton6_loop (a @ CHR ''.'' # s) tok 0 0 ws gap
     = (if length ws \<le> 6
        then (case parse_ipv4 tok of
                Some [a, b, d, e] \<Rightarrow> finish6 (ws @ [256 * a + b, 256 * d + e]) gap
              | _ \<Rightarrow> None)
        else None)"
  using pton6_digits [of a 0 "CHR ''.'' # s" tok 0 ws gap] by (simp add: is_ipv4_octetD)

definition hex_tail :: "nat list \<Rightarrow> string" where
  "hex_tail os = show_hex (256 * os ! 0 + os ! 1) @ '':'' @ show_hex (256 * os ! 2 + os ! 3)"

lemma pton6_tail:
  assumes "parse_ipv4 t = Some os"
  shows "pton6_loop t t 0 0 ws gap = pton6_loop (hex_tail os) (hex_tail os) 0 0 ws gap"
proof -
  from parse_ipv4_Some [OF assms] obtain a b d e where
    t: "t = a @ ''.'' @ b @ ''.'' @ d @ ''.'' @ e" and
    o4: "is_ipv4_octet a" "is_ipv4_octet b" "is_ipv4_octet d" "is_ipv4_octet e"
    and os: "os = [read_digits a, read_digits b, read_digits d, read_digits e]" by metis
  let ?x = "256 * read_digits a + read_digits b" and ?y = "256 * read_digits d + read_digits e"
  have xy: "?x < 65536" "?y < 65536" using o4 [THEN is_ipv4_octetD(6)] by simp_all
  have "pton6_loop t t 0 0 ws gap = (if length ws \<le> 6 then finish6 (ws @ [?x, ?y]) gap else None)"
    using assms pton6_octet [OF o4(1), of "b @ ''.'' @ d @ ''.'' @ e" t ws gap] by (simp add: t os)
  moreover have "pton6_loop (hex_tail os) (hex_tail os) 0 0 ws gap
      = (if length ws \<le> 6 then finish6 (ws @ [?x, ?y]) gap else None)"
  proof (cases "length ws < 8")
    case True
    then have "pton6_loop (hex_tail os) (hex_tail os) 0 0 ws gap
        = pton6_loop (show_hex ?y) (show_hex ?y) 0 0 (ws @ [?x]) gap"
      using pton6_part_colon [OF show_hex_part [OF xy(1)], of ws "show_hex ?y" "hex_tail os" gap]
      by (simp add: hex_tail_def os)
    also have "\<dots> = (if length ws \<le> 6 then finish6 (ws @ [?x, ?y]) gap else None)"
    proof (cases "length ws \<le> 6")
      case True
      then show ?thesis
        using pton6_part_end [OF show_hex_part [OF xy(2)], of "ws @ [?x]" "show_hex ?y" gap] by simp
    next
      case False
      with True have "length (ws @ [?x]) \<ge> 8" by simp
      then show ?thesis
        using pton6_part [OF show_hex_part [OF xy(2)], of "[]" "show_hex ?y" "ws @ [?x]" gap] False
        by (simp add: pton6_end_def)
    qed
    finally show ?thesis .
  next
    case False
    then show ?thesis
      using pton6_part [OF show_hex_part [OF xy(1)], of "CHR '':'' # show_hex ?y" "hex_tail os" ws gap]
      by (simp add: hex_tail_def os)
  qed
  ultimately show ?thesis by simp
qed

lemma pton6_tail_at:
  "\<lbrakk>parse_ipv4 t = Some os; group_start p; list_all is_hex_or_colon p;
    p = [] \<longrightarrow> seen = 0 \<and> v = 0 \<and> tok = t \<and> tok' = hex_tail os\<rbrakk>
   \<Longrightarrow> pton6_loop (p @ t) tok seen v ws gap = pton6_loop (p @ hex_tail os) tok' seen v ws gap"
proof (induction p arbitrary: tok tok' seen v ws gap)
  case Nil
  then show ?case by (simp add: pton6_tail)
next
  case (Cons c p)
  show ?case
  proof (cases "is_hex_char c")
    case True
    then have "c \<noteq> CHR '':''" by auto
    with Cons.prems have "p \<noteq> []" by (auto simp: group_start_def split: if_splits)
    with Cons.prems Cons.IH [of "seen + 1" "16 * v + hex_value c" tok tok'] True show ?thesis
      by (auto simp: group_start_def)
  next
    case False
    with Cons.prems have c: "c = CHR '':''" by (simp add: is_hex_or_colon_def)
    have g: "group_start p" using Cons.prems(2) by (auto simp: group_start_def split: if_splits)
    have "t \<noteq> []" "hex_tail os \<noteq> []"
      using parse_ipv4_chars(3) [OF Cons.prems(1)] by (simp_all add: hex_tail_def)
    moreover have "pton6_loop (p @ t) (p @ t) 0 0 ws' gap' = pton6_loop (p @ hex_tail os) (p @ hex_tail os) 0 0 ws' gap'"
      for ws' gap'
      using Cons.prems g by (intro Cons.IH) auto
    ultimately show ?thesis using c by simp
  qed
qed

lemma octets_hd:
  assumes "parse_ipv4 t = Some os"
  shows "t \<noteq> []" "hd t \<noteq> CHR '':''" "hex_tail os \<noteq> []" "hd (hex_tail os) \<noteq> CHR '':''"
proof -
  show "t \<noteq> []" by (rule parse_ipv4_chars(3) [OF assms])
  with parse_ipv4_chars(1) [OF assms] show "hd t \<noteq> CHR '':''" by (metis hd_in_set)
  from parse_ipv4_Some [OF assms] obtain a b d e where
    "is_ipv4_octet a" "is_ipv4_octet b" "os = [read_digits a, read_digits b, read_digits d, read_digits e]" by metis
  with is_ipv4_octetD(6) [of a] is_ipv4_octetD(6) [of b] have "256 * os ! 0 + os ! 1 < 65536" by simp
  from show_hex_part [OF this] show "hex_tail os \<noteq> []" "hd (hex_tail os) \<noteq> CHR '':''"
    by (simp_all add: hex_tail_def)
qed

lemma parse_ipv6_tail:
  assumes t: "parse_ipv4 t = Some os" and p: "group_start p" "list_all is_hex_or_colon p"
  shows "parse_ipv6 (p @ t) = parse_ipv6 (p @ hex_tail os)"
proof (cases p)
  case Nil
  with octets_hd [OF t] have "\<not> starts_with '':'' t" "\<not> starts_with '':'' (hex_tail os)"
    by (simp_all add: starts_with_colon)
  with Nil pton6_tail [OF t] show ?thesis by (simp add: parse_ipv6_def Let_def)
next
  case (Cons c q)
  show ?thesis
  proof (cases "c = CHR '':''")
    case True
    have g: "group_start q" using p Cons by (auto simp: group_start_def split: if_splits)
    have "pton6_loop (q @ t) (q @ t) 0 0 [] None = pton6_loop (q @ hex_tail os) (q @ hex_tail os) 0 0 [] None"
      using p Cons by (intro pton6_tail_at [OF t g]) auto
    moreover have "starts_with ''::'' (c # q @ t) = starts_with ''::'' (c # q @ hex_tail os)"
      using octets_hd [OF t] True
      by (cases q; cases t; cases "hex_tail os") (auto simp: starts_with_def)
    ultimately show ?thesis using Cons True by (simp add: parse_ipv6_def starts_with_def Let_def)
  next
    case False
    have "pton6_loop (p @ t) (p @ t) 0 0 [] None = pton6_loop (p @ hex_tail os) (p @ hex_tail os) 0 0 [] None"
      using p Cons by (intro pton6_tail_at [OF t]) auto
    with Cons False show ?thesis by (simp add: parse_ipv6_def starts_with_colon)
  qed
qed

section \<open>Agreement\<close>

lemma ipv6_text_chars: "ipv6_text s ws \<Longrightarrow> list_all lower_hex_or_colon s"
proof -
  have j: "list_all lower_hex_or_colon (join '':'' ps)" if "list_all is_ipv6_part ps" for ps
    using that
    by (induction "'':''" ps rule: join.induct) (auto simp: is_ipv6_part_def list_all_iff lower_hex_or_colon_def)
  then show "ipv6_text s ws \<Longrightarrow> list_all lower_hex_or_colon s"
    by (auto simp: ipv6_text_def lower_hex_or_colon_def)
qed

lemma lower_hex_or_colon_iff:
  assumes "js_lower s = s"
  shows "list_all lower_hex_or_colon s \<longleftrightarrow> list_all is_hex_or_colon s"
proof -
  have "lower_char c = c" if "c \<in> set s" for c
    using assms that by (simp add: js_lower_def map_idI map_eq_conv [of _ _ "\<lambda>x. x", simplified])
  then show ?thesis
    by (auto simp: list_all_iff lower_hex_or_colon_def is_hex_or_colon_def is_hex_lower)
qed

lemma parse_ipv6_dotted:
  assumes "parse_ipv6 s = Some r" and "\<not> list_all is_hex_or_colon s"
  shows "\<exists>p t. s = p @ t \<and> parse_ipv4 t \<noteq> None \<and> group_start p \<and> list_all is_hex_or_colon p"
proof (cases "starts_with '':'' s")
  case True
  with assms obtain u where s: "s = CHR '':'' # u" and "pton6_loop u u 0 0 [] None = Some r"
    by (cases s) (auto simp: parse_ipv6_def starts_with_def split: if_splits)
  from pton6_loop_dotted [OF this(2), of "[]"] assms s
  obtain p t where "u = p @ t" "parse_ipv4 t \<noteq> None" "group_start p" "list_all is_hex_or_colon p"
    by (auto simp: is_hex_or_colon_def)
  with s show ?thesis
    by (intro exI [of _ "CHR '':'' # p"] exI [of _ t]) (auto simp: group_start_def is_hex_or_colon_def)
next
  case False
  with assms have "pton6_loop s s 0 0 [] None = Some r" by (simp add: parse_ipv6_def Let_def)
  from pton6_loop_dotted [OF this, of "[]"] assms show ?thesis by auto
qed

lemma dotted_tail_eq:
  assumes "group_start p" "parse_ipv4 t = Some os"
  shows "dotted_tail (p @ t) = Some t"
proof -
  have "last (split_char CHR '':'' (p @ t)) = t"
    using assms parse_ipv4_chars(1) [OF assms(2)] by (intro last_split_char)
  moreover from parse_ipv4_Some [OF assms(2)] obtain a b d e where
    "t = a @ ''.'' @ b @ ''.'' @ d @ ''.'' @ e" "is_ipv4_octet a" "is_ipv4_octet b" "is_ipv4_octet d" "is_ipv4_octet e"
    by metis
  ultimately show ?thesis
    by (simp add: dotted_tail_def split_char_append_delim split_char_no_delim is_digit_colon is_ipv4_octetD)
qed

lemma parse_ipv6_words_agrees:
  assumes "normalize_outbound_hostname s = s" and low: "js_lower s = s"
  shows "parse_ipv6_words s = parse_ipv6 s"
proof (cases "dotted_tail s")
  case None
  then have w: "parse_ipv6_words s = parse_ipv6_groups s"
    by (simp add: parse_ipv6_words_def assms(1))
  show ?thesis
  proof (cases "list_all is_hex_or_colon s")
    case True
    then show ?thesis using w low by (simp add: parse_ipv6_groups_eq lower_hex_or_colon_iff)
  next
    case False
    then have "parse_ipv6_groups s = None"
      using parse_ipv6_groups_iff ipv6_text_chars lower_hex_or_colon_iff [OF low] by (metis not_None_eq)
    moreover have "parse_ipv6 s = None"
    proof (rule ccontr)
      assume "parse_ipv6 s \<noteq> None"
      with False parse_ipv6_dotted obtain p t where "s = p @ t" "parse_ipv4 t \<noteq> None" "group_start p" by blast
      with dotted_tail_eq None show False by auto
    qed
    ultimately show ?thesis by (simp add: w)
  qed
next
  case (Some t)
  then obtain p where s: "s = p @ t" and g: "group_start p" and dot: "CHR ''.'' \<in> set t"
    by (rule dotted_tail_split)
  have nhex: "\<not> list_all is_hex_or_colon s"
    using dot by (auto simp: s list_all_iff is_hex_or_colon_def intro!: bexI [of _ "CHR ''.''"])
  have decomp: "parse_ipv4 t \<noteq> None \<and> list_all is_hex_or_colon p" if "parse_ipv6 s = Some r" for r
  proof -
    from parse_ipv6_dotted [OF that nhex] obtain q u where
      q: "s = q @ u" "parse_ipv4 u \<noteq> None" "group_start q" "list_all is_hex_or_colon q" by blast
    then have "dotted_tail s = Some u" using dotted_tail_eq by blast
    with Some q s show ?thesis by simp
  qed
  show ?thesis
  proof (cases "parse_ipv4 t")
    case None
    with decomp have "parse_ipv6 s = None" by (cases "parse_ipv6 s") auto
    with None Some show ?thesis by (simp add: parse_ipv6_words_def assms(1))
  next
    case os: (Some os)
    from parse_ipv4_Some [OF os] obtain a b d e where ol: "os = [a, b, d, e]" by metis
    have w: "parse_ipv6_words s = parse_ipv6_groups (p @ hex_tail os)"
      using Some os assms(1) [unfolded s] by (simp add: parse_ipv6_words_def s hex_tail_def ol)
    show ?thesis
    proof (cases "list_all is_hex_or_colon p")
      case True
      have "list_all lower_hex_or_colon p"
        using True low lower_hex_or_colon_iff [of p] by (simp add: s js_lower_def)
      then have "list_all lower_hex_or_colon (p @ hex_tail os)"
        using show_hex_hex by (auto simp: hex_tail_def lower_hex_or_colon_def list_all_iff)
      then show ?thesis
        using w parse_ipv6_groups_eq parse_ipv6_tail [OF os g True] by (simp add: s)
    next
      case False
      then have "\<not> list_all lower_hex_or_colon (p @ hex_tail os)"
        using lower_hex_or_colon_hex by (auto simp: list_all_iff)
      then have "parse_ipv6_groups (p @ hex_tail os) = None"
        using parse_ipv6_groups_iff ipv6_text_chars by (metis not_None_eq)
      moreover have "parse_ipv6 s = None" using decomp False by (cases "parse_ipv6 s") auto
      ultimately show ?thesis by (simp add: w)
    qed
  qed
qed

end
