(* ===== verification/Outbound_Properties.thy ===== *)
theory Outbound_Properties
  imports Address_Parsing
begin

text \<open>
  Which addresses the outbound policy lets through, as ranges of first and last addresses; what a resolved target
  can be; how much of a response is kept.
\<close>

section \<open>The policies as ranges\<close>

text \<open>Addresses as integers, IPv4 at \<open>::ffff:0:0/96\<close>.\<close>

definition v4 :: "int \<Rightarrow> int \<Rightarrow> int \<Rightarrow> int \<Rightarrow> int" where
  "v4 a b c d = 281470681743360 + a * 16777216 + b * 65536 + c * 256 + d"

definition v6 :: "int \<Rightarrow> int \<Rightarrow> int" where
  "v6 a b = a * 2 ^ 112 + b * 2 ^ 96"

type_synonym range = "int \<times> int"

definition in_ranges :: "range list \<Rightarrow> int \<Rightarrow> bool" where
  "in_ranges rs n = list_ex (\<lambda>(lo, hi). lo \<le> n \<and> n \<le> hi) rs"

definition private_ranges :: "range list" where
  "private_ranges =
     [(v4 10 0 0 0, v4 10 255 255 255), (v4 172 16 0 0, v4 172 31 255 255), (v4 192 168 0 0, v4 192 168 255 255),
      (v6 0xfc00 0, v6 0xfe00 0 - 1)]"

definition reserved_ranges :: "range list" where
  "reserved_ranges =
     [(v4 0 0 0 0, v4 0 255 255 255), (v4 100 64 0 0, v4 100 127 255 255), (v4 127 0 0 0, v4 127 255 255 255),
      (v4 169 254 0 0, v4 169 254 255 255), (v4 192 0 0 0, v4 192 0 0 255), (v4 192 0 2 0, v4 192 0 2 255),
      (v4 198 18 0 0, v4 198 19 255 255), (v4 198 51 100 0, v4 198 51 100 255), (v4 203 0 113 0, v4 203 0 113 255),
      (v4 224 0 0 0, v4 239 255 255 255), (v4 240 0 0 0, v4 255 255 255 255),
      (0, 4294967295), (v6 0x64 0xff9b, v6 0x64 0xff9b + 4294967295), (v6 0x100 0, v6 0x100 0 + 2 ^ 64 - 1),
      (v6 0x2001 0, v6 0x2001 1 - 1), (v6 0x2001 0xdb8, v6 0x2001 0xdb9 - 1), (v6 0x2002 0, v6 0x2003 0 - 1),
      (v6 0xfe80 0, v6 0xfec0 0 - 1), (v6 0xff00 0, v6 0x10000 0 - 1)]"

definition loopback_ranges :: "range list" where
  "loopback_ranges = [(v4 127 0 0 0, v4 127 255 255 255), (1, 1)]"

fun permitted :: "address_policy \<Rightarrow> int \<Rightarrow> bool" where
  "permitted PublicOnly n = (\<not> in_ranges reserved_ranges n \<and> \<not> in_ranges private_ranges n)"
| "permitted TrustedPrivate n = (\<not> in_ranges reserved_ranges n)"
| "permitted LoopbackOnly n = in_ranges loopback_ranges n"

lemma less_numeral_le: "(x::int) < numeral k \<longleftrightarrow> x \<le> numeral k - 1"
  by arith

lemmas range_defs = subnet4_def subnet6_def in_subnet_interval address_of_octets_def address_of_groups_def
  in_ranges_def reserved_ranges_def private_ranges_def v4_def v6_def Let_def block_list_check_def

lemma trusted_check: "block_list_check trusted_private_blocked_addresses a = in_ranges reserved_ranges (uint a)"
  by (simp add: trusted_private_blocked_addresses_def trusted_private_blocked_ipv4_def
      trusted_private_blocked_ipv6_def range_defs less_numeral_le)

lemma public_check:
  "block_list_check blocked_addresses a = (in_ranges reserved_ranges (uint a) \<or> in_ranges private_ranges (uint a))"
proof -
  have "block_list_check blocked_addresses a
      = (block_list_check trusted_private_blocked_addresses a
         \<or> block_list_check [subnet4 [10, 0, 0, 0] 8, subnet4 [172, 16, 0, 0] 12, subnet4 [192, 168, 0, 0] 16,
                             subnet6 [0xfc00, 0, 0, 0, 0, 0, 0, 0] 7] a)"
    by (auto simp: block_list_check_def blocked_addresses_def blocked_ipv4_def blocked_ipv6_def
        trusted_private_blocked_addresses_def trusted_private_blocked_ipv4_def trusted_private_blocked_ipv6_def)
  also have "block_list_check [subnet4 [10, 0, 0, 0] 8, subnet4 [172, 16, 0, 0] 12, subnet4 [192, 168, 0, 0] 16,
                             subnet6 [0xfc00, 0, 0, 0, 0, 0, 0, 0] 7] a = in_ranges private_ranges (uint a)"
    by (simp add: range_defs less_numeral_le)
  finally show ?thesis by (simp add: trusted_check)
qed

section \<open>Accepted texts\<close>

definition address_char :: "char \<Rightarrow> bool" where
  "address_char c = (is_hex_or_colon c \<or> c = CHR ''.'')"

lemma address_char_simps [simp]: "\<not> address_char CHR ''[''" "\<not> address_char CHR '']''"
  by (simp_all add: address_char_def is_hex_or_colon_def is_hex_char_def is_digit_def)

lemma parse_ipv4_address:
  assumes "parse_ipv4 s = Some os"
  shows "list_all address_char s" "s \<noteq> []" "last s \<noteq> CHR ''.''"
proof -
  from parse_ipv4_Some [OF assms] obtain a b d e where
    s: "s = a @ ''.'' @ b @ ''.'' @ d @ ''.'' @ e" and o4: "is_ipv4_octet a" "is_ipv4_octet b" "is_ipv4_octet d" "is_ipv4_octet e"
    by metis
  have dig: "list_all address_char x" if "is_ipv4_octet x" for x
    using is_ipv4_octetD(2) [OF that] by (auto simp: list_all_iff address_char_def is_hex_or_colon_def)
  show "list_all address_char s" unfolding s using o4 [THEN dig] by (simp add: address_char_def)
  show "s \<noteq> []" by (simp add: s)
  have "last e \<in> set e" "list_all is_digit e" using is_ipv4_octetD [OF o4(4)] by auto
  then have "last e \<noteq> CHR ''.''" by (auto simp: list_all_iff)
  then show "last s \<noteq> CHR ''.''" using is_ipv4_octetD(1) [OF o4(4)] by (simp add: s)
qed

lemma parse_ipv6_address:
  assumes "parse_ipv6 s = Some r"
  shows "list_all address_char s" "s \<noteq> [] \<longrightarrow> last s \<noteq> CHR ''.''"
proof -
  have "list_all address_char s \<and> (s \<noteq> [] \<longrightarrow> last s \<noteq> CHR ''.'')"
  proof (cases "list_all is_hex_or_colon s")
    case True
    then have "s \<noteq> [] \<longrightarrow> is_hex_or_colon (last s)" by (simp add: list_all_iff)
    then have "s \<noteq> [] \<longrightarrow> last s \<noteq> CHR ''.''" by (auto simp: is_hex_or_colon_def)
    with True show ?thesis by (auto simp: list_all_iff address_char_def)
  next
    case False
    from parse_ipv6_dotted [OF assms False] obtain p t os where
      "s = p @ t" "parse_ipv4 t = Some os" "list_all is_hex_or_colon p" by blast
    with parse_ipv4_address [of t os] show ?thesis by (auto simp: list_all_iff address_char_def)
  qed
  then show "list_all address_char s" "s \<noteq> [] \<longrightarrow> last s \<noteq> CHR ''.''" by auto
qed

lemma ends_with_one: "ends_with [c] s \<longleftrightarrow> s \<noteq> [] \<and> last s = c"
  by (cases s rule: rev_cases) (auto simp: ends_with_iff)

lemma starts_with_one: "starts_with [c] s \<longleftrightarrow> s \<noteq> [] \<and> hd s = c"
  by (cases s) (auto simp: starts_with_def)

lemma normalize_address:
  assumes "is_ip s \<noteq> 0" and low: "js_lower s = s"
  shows "normalize_outbound_hostname s = s"
proof -
  have ch: "list_all address_char s" and dot: "s \<noteq> [] \<longrightarrow> last s \<noteq> CHR ''.''"
    using assms(1) parse_ipv4_address parse_ipv6_address by (auto simp: is_ip_def split: if_splits)
  from ch have "\<not> starts_with ''['' s" "\<not> ends_with [CHR '']''] s"
    by (auto simp: starts_with_one ends_with_one list_all_iff dest: hd_in_set last_in_set)
      (metis address_char_simps hd_in_set last_in_set)+
  moreover from dot have "\<not> ends_with [CHR ''.''] s" by (auto simp: ends_with_one)
  ultimately show ?thesis
    using low by (simp add: normalize_outbound_hostname_def strip_opening_def strip_ending_def)
qed

lemma parse_ipv4_not_ipv6:
  assumes "parse_ipv4 s = Some os"
  shows "parse_ipv6 s = None"
proof -
  from parse_ipv4_Some [OF assms] obtain a b d e where
    s: "s = a @ CHR ''.'' # b @ ''.'' @ d @ ''.'' @ e" and o4: "is_ipv4_octet a"
    and os: "os = [read_digits a, read_digits b, read_digits d, read_digits e]" by (metis append_Cons append_Nil)
  from octets_hd [OF assms] have "parse_ipv6 s = pton6_loop s s 0 0 [] None"
    by (simp add: parse_ipv6_def Let_def starts_with_one)
  also have "\<dots> = None"
    using pton6_octet [OF o4, of "b @ ''.'' @ d @ ''.'' @ e" s "[]" None] assms
    by (simp add: s os pton6_end_def)
  finally show ?thesis .
qed

lemma is_ip_4: "is_ip s = 4 \<longleftrightarrow> parse_ipv4 s \<noteq> None"
  by (simp add: is_ip_def)

lemma is_ip_6: "is_ip s = 6 \<longleftrightarrow> parse_ipv6 s \<noteq> None"
  using parse_ipv4_not_ipv6 by (auto simp: is_ip_def)

lemma is_ip_cases: "is_ip s = 0 \<or> is_ip s = 4 \<or> is_ip s = 6"
  by (simp add: is_ip_def)

lemma words_of_address:
  assumes "is_ip s \<noteq> 0" and "js_lower s = s"
  shows "parse_ipv6_words s = parse_ipv6 s"
  using assms by (intro parse_ipv6_words_agrees normalize_address)

section \<open>The groups of an address\<close>

lemma read_hex_less: "list_all is_hex_char p \<Longrightarrow> read_hex p < 16 ^ length p"
proof (induction p rule: rev_induct)
  case (snoc c p)
  then have "read_hex p + 1 \<le> 16 ^ length p" "hex_value c < 16" using hex_value_less [of c] by auto
  then have "16 * read_hex p + hex_value c < 16 * (16 ^ length p)" by linarith
  then show ?case by simp
qed simp

lemma read_part_less: "is_ipv6_part p \<Longrightarrow> read_hex p < 65536"
proof -
  assume p: "is_ipv6_part p"
  then have "list_all is_hex_char p" by (auto simp: is_ipv6_part_def list_all_iff)
  then have "read_hex p < 16 ^ length p" by (rule read_hex_less)
  also have "\<dots> \<le> 16 ^ 4" using p by (intro power_increasing) (auto simp: is_ipv6_part_def)
  finally show ?thesis by simp
qed

lemma ipv6_text_groups: "ipv6_text s ws \<Longrightarrow> length ws = 8 \<and> (\<forall>w \<in> set ws. w < 65536)"
  by (auto simp: ipv6_text_def list_all_iff read_part_less)

lemma parse_ipv6_groups8:
  assumes "parse_ipv6 s = Some ws" and low: "js_lower s = s"
  shows "length ws = 8 \<and> (\<forall>w \<in> set ws. w < 65536)"
proof (cases "list_all is_hex_or_colon s")
  case True
  with low assms(1) have "ipv6_text s ws" by (intro parse_ipv6_textD) (simp_all add: lower_hex_or_colon_iff)
  then show ?thesis by (rule ipv6_text_groups)
next
  case False
  from parse_ipv6_dotted [OF assms(1) False] obtain p t os where
    s: "s = p @ t" and t: "parse_ipv4 t = Some os" and p: "group_start p" "list_all is_hex_or_colon p" by blast
  have "list_all lower_hex_or_colon p"
    using p low lower_hex_or_colon_iff [of p] by (simp add: s js_lower_def)
  then have "list_all lower_hex_or_colon (p @ hex_tail os)"
    using show_hex_hex by (auto simp: hex_tail_def lower_hex_or_colon_def list_all_iff)
  with assms(1) parse_ipv6_tail [OF t p] have "ipv6_text (p @ hex_tail os) ws"
    by (intro parse_ipv6_textD) (simp_all add: s)
  then show ?thesis by (rule ipv6_text_groups)
qed

section \<open>The check of a text is the check of its address\<close>

lemma list8:
  assumes "length ws = 8"
  obtains a b c d e f g h where "ws = [a, b, c, d, e, f, g, h]"
  using assms by (auto simp: numeral_eq_Suc length_Suc_conv)

lemma show_nat_octet: "n \<le> 255 \<Longrightarrow> is_ipv4_octet (show_nat n)"
proof -
  assume n: "n \<le> 255"
  have len: "length (show_nat n) \<le> 3"
    using n by (subst show_nat.simps, subst show_nat.simps, subst show_nat.simps) auto
  have hd0: "hd (show_nat m) = CHR ''0'' \<Longrightarrow> m = 0" for m
  proof (induction m rule: show_nat.induct)
    case (1 m)
    show ?case
    proof (cases "m < 10")
      case True
      with 1(2) have "code (digit_char m) = code CHR ''0''" by (subst (asm) show_nat.simps) simp
      with True show ?thesis by (simp add: digit_char_code)
    next
      case False
      with 1(2) have "hd (show_nat (m div 10)) = CHR ''0''" by (subst (asm) show_nat.simps) simp
      with 1(1) False show ?thesis by simp
    qed
  qed
  have "char_of (48 :: nat) = CHR ''0''" by code_simp
  then have "show_nat 0 = ''0''" by (subst show_nat.simps) (simp add: digit_char_def)
  with n len hd0 [of n] show ?thesis
    by (auto simp: is_ipv4_octet_def list_all_iff show_nat_digits)
qed

lemma show_nat_lower: "js_lower (show_nat n) = show_nat n"
proof -
  have "lower_char c = c" if "c \<in> set (show_nat n)" for c
    using show_nat_digits [OF that] by (auto simp: lower_char_def is_upper_def is_digit_def)
  then show ?thesis by (simp add: js_lower_def map_idI)
qed

lemma normalize_mapped:
  assumes "is_ip s \<noteq> 0" and low: "js_lower s = s"
  shows "is_ip (normalize_mapped_ipv4 s) \<noteq> 0" "js_lower (normalize_mapped_ipv4 s) = normalize_mapped_ipv4 s"
    "ip_value (normalize_mapped_ipv4 s) = ip_value s"
    "is_ip (normalize_mapped_ipv4 s) = 6 \<longrightarrow>
       (\<exists>ws. parse_ipv6 s = Some ws \<and> normalize_mapped_ipv4 s = s \<and> \<not> (list_all (\<lambda>w. w = 0) (take 5 ws) \<and> ws ! 5 = 65535))"
proof -
  have "is_ip (normalize_mapped_ipv4 s) \<noteq> 0 \<and> js_lower (normalize_mapped_ipv4 s) = normalize_mapped_ipv4 s
    \<and> ip_value (normalize_mapped_ipv4 s) = ip_value s
    \<and> (is_ip (normalize_mapped_ipv4 s) = 6 \<longrightarrow>
       (\<exists>ws. parse_ipv6 s = Some ws \<and> normalize_mapped_ipv4 s = s \<and> \<not> (list_all (\<lambda>w. w = 0) (take 5 ws) \<and> ws ! 5 = 65535)))"
  proof (cases "parse_ipv6 s")
    case None
    then show ?thesis using assms by (simp add: normalize_mapped_ipv4_def words_of_address is_ip_6)
  next
    case (Some ws)
    show ?thesis
    proof (cases "list_all (\<lambda>w. w = 0) (take 5 ws) \<and> ws ! 5 = 65535")
      case False
      then have "normalize_mapped_ipv4 s = s"
        using Some assms by (auto simp: normalize_mapped_ipv4_def words_of_address list_all_iff list_ex_iff)
      with False Some assms show ?thesis by simp
    next
      case True
      from parse_ipv6_groups8 [OF Some low] have l8: "length ws = 8" and lt: "\<forall>w \<in> set ws. w < 65536" by auto
      from list8 [OF l8] obtain a b c d e f g h where "ws = [a, b, c, d, e, f, g, h]" .
      with True have ws: "ws = [0, 0, 0, 0, 0, 65535, g, h]" by simp
      with lt have gh: "g < 65536" "h < 65536" by auto
      let ?o = "[g div 256, g mod 256, h div 256, h mod 256]"
      have n: "normalize_mapped_ipv4 s
          = show_nat (g div 256) @ ''.'' @ show_nat (g mod 256) @ ''.'' @ show_nat (h div 256) @ ''.'' @ show_nat (h mod 256)"
        using Some assms by (simp add: normalize_mapped_ipv4_def words_of_address ws)
      have le: "g div 256 \<le> 255" "g mod 256 \<le> 255" "h div 256 \<le> 255" "h mod 256 \<le> 255" using gh by auto
      have p: "parse_ipv4 (normalize_mapped_ipv4 s) = Some ?o"
        unfolding n by (subst parse_ipv4_octets) (use le in \<open>simp_all add: show_nat_octet\<close>)
      have "address_of_octets ?o = address_of_groups ws"
        by (simp add: address_of_octets_def address_of_groups_def ws algebra_simps flip: of_nat_add of_nat_mult)
      moreover have "parse_ipv4 s = None" using Some parse_ipv4_not_ipv6 by (cases "parse_ipv4 s") auto
      ultimately have "ip_value (normalize_mapped_ipv4 s) = ip_value s" using p Some by (simp add: ip_value_def)
      moreover have "js_lower (normalize_mapped_ipv4 s) = normalize_mapped_ipv4 s"
        unfolding n using show_nat_lower by (simp add: js_lower_def lower_char_def is_upper_def)
      ultimately show ?thesis using p by (simp add: is_ip_def)
    qed
  qed
  then show "is_ip (normalize_mapped_ipv4 s) \<noteq> 0" "js_lower (normalize_mapped_ipv4 s) = normalize_mapped_ipv4 s"
    "ip_value (normalize_mapped_ipv4 s) = ip_value s"
    "is_ip (normalize_mapped_ipv4 s) = 6 \<longrightarrow>
       (\<exists>ws. parse_ipv6 s = Some ws \<and> normalize_mapped_ipv4 s = s \<and> \<not> (list_all (\<lambda>w. w = 0) (take 5 ws) \<and> ws ! 5 = 65535))"
    by blast+
qed

lemma foldl_groups_less:
  "\<forall>w \<in> set ws. w < b \<Longrightarrow> 0 < b \<Longrightarrow> foldl (\<lambda>n w. b * n + w) 0 ws < (b :: nat) ^ length ws"
proof (induction ws rule: rev_induct)
  case (snoc w ws)
  then have "foldl (\<lambda>n w. b * n + w) 0 ws + 1 \<le> b ^ length ws" "w < b" by auto
  then have "b * (foldl (\<lambda>n w. b * n + w) 0 ws + 1) \<le> b * b ^ length ws" by (intro mult_le_mono2)
  with \<open>w < b\<close> show ?case by simp
qed simp

lemma foldl_groups_inj:
  "\<lbrakk>length ws = length vs; \<forall>w \<in> set ws. w < b; \<forall>w \<in> set vs. w < b;
    foldl (\<lambda>n w. b * n + w) (0::nat) ws = foldl (\<lambda>n w. b * n + w) 0 vs\<rbrakk> \<Longrightarrow> ws = vs"
proof (induction ws arbitrary: vs rule: rev_induct)
  case (snoc w ws)
  then obtain v vs' where vs: "vs = vs' @ [v]" by (cases vs rule: rev_cases) auto
  let ?f = "foldl (\<lambda>n w. b * n + w) (0::nat)"
  from snoc vs have e: "b * ?f ws + w = b * ?f vs' + v" and wv: "w < b" "v < b" by auto
  then have "(b * ?f ws + w) div b = (b * ?f vs' + v) div b" "(b * ?f ws + w) mod b = (b * ?f vs' + v) mod b" by simp_all
  with wv have "?f ws = ?f vs'" "w = v" by simp_all
  with snoc vs show ?case by auto
qed simp

lemma uint_groups:
  assumes "length ws = 8" "\<forall>w \<in> set ws. w < 65536"
  shows "uint (address_of_groups ws) = int (foldl (\<lambda>n w. 65536 * n + w) 0 ws)"
proof -
  have "foldl (\<lambda>n w. 65536 * n + w) 0 ws < 2 ^ 128"
    using foldl_groups_less [of ws 65536] assms by simp
  then have "unat (address_of_groups ws) = foldl (\<lambda>n w. 65536 * n + w) 0 ws"
    unfolding address_of_groups_def by (simp add: unat_of_nat)
  then show ?thesis by (metis uint_nat)
qed

lemma loopback_groups:
  assumes "length ws = 8" "\<forall>w \<in> set ws. w < 65536"
    and nm: "\<not> (list_all (\<lambda>w. w = 0) (take 5 ws) \<and> ws ! 5 = 65535)"
  shows "list_all (\<lambda>w. w = 0) (take 7 ws) \<and> ws ! 7 = 1 \<longleftrightarrow> in_ranges loopback_ranges (uint (address_of_groups ws))"
proof -
  from list8 [OF assms(1)] obtain a b c d e f g h where ws: "ws = [a, b, c, d, e, f, g, h]" .
  let ?F = "foldl (\<lambda>n w. 65536 * n + w) (0::nat)"
  let ?v = "?F ws"
  have one: "?v = 1 \<longleftrightarrow> ws = [0, 0, 0, 0, 0, 0, 0, 1]"
  proof
    assume "?v = 1"
    then have "?v = ?F [0, 0, 0, 0, 0, 0, 0, 1]" by simp
    then show "ws = [0, 0, 0, 0, 0, 0, 0, 1]" using assms by (intro foldl_groups_inj [where b = 65536]) auto
  qed simp
  have "\<not> (281472812449792 \<le> ?v \<and> ?v \<le> 281472829227007)"
  proof
    assume r: "281472812449792 \<le> ?v \<and> ?v \<le> 281472829227007"
    have "?v = 4294967296 * ?F [a, b, c, d, e, f] + (65536 * g + h)" by (simp add: ws)
    moreover have "65536 * g + h < 4294967296" using assms(2) by (simp add: ws)
    ultimately have "?F [a, b, c, d, e, f] = 65535" using r by linarith
    then have "?F [a, b, c, d, e, f] = ?F [0, 0, 0, 0, 0, 65535]" by simp
    then have "[a, b, c, d, e, f] = [0, 0, 0, 0, 0, 65535]"
      using assms(2) by (intro foldl_groups_inj [where b = 65536]) (auto simp: ws)
    with nm show False by (simp add: ws)
  qed
  then have "in_ranges loopback_ranges (int ?v) \<longleftrightarrow> ?v = 1"
    by (auto simp: in_ranges_def loopback_ranges_def v4_def)
  then show ?thesis using one unfolding uint_groups [OF assms(1,2)] by (simp add: ws)
qed

lemma octet_127: "is_ipv4_octet a \<Longrightarrow> a = ''127'' \<longleftrightarrow> read_digits a = 127"
proof
  assume o4: "is_ipv4_octet a" and v: "read_digits a = 127"
  have dv: "digit_value c \<le> 9 \<and> c = digit_char (digit_value c)" if "is_digit c" for c
    using that by (auto simp: is_digit_def digit_value_def digit_char_def)
  have dig: "list_all is_digit a" and l3: "length a \<le> 3" using is_ipv4_octetD [OF o4] by auto
  consider "a = []" | x where "a = [x]" | x y where "a = [x, y]" | x y z where "a = [x, y, z]"
  proof (cases a)
    case (Cons x b)
    with l3 that show thesis by (cases b; cases "tl b") auto
  qed (use that in simp)
  then show "a = ''127''"
  proof cases
    case (4 x y z)
    with v have "100 * digit_value x + 10 * digit_value y + digit_value z = 127" by (simp add: read_digits_def)
    moreover have "digit_value x \<le> 9" "digit_value y \<le> 9" "digit_value z \<le> 9" using dig dv 4 by auto
    moreover from calculation have "digit_value x = 1" by linarith
    moreover from calculation have "digit_value y = 2" by linarith
    ultimately have "digit_value x = 1" "digit_value y = 2" "digit_value z = 7" by linarith+
    with dv [of x] dv [of y] dv [of z] dig 4 have "x = digit_char 1" "y = digit_char 2" "z = digit_char 7" by auto
    moreover have "digit_char 1 = CHR ''1''" "digit_char 2 = CHR ''2''" "digit_char 7 = CHR ''7''" by code_simp+
    ultimately show ?thesis using 4 by simp
  next
    case (3 x y)
    with v dv [of x] dv [of y] dig show ?thesis by (simp add: read_digits_def)
  next
    case (2 x)
    with v dv [of x] dig show ?thesis by (simp add: read_digits_def)
  qed (use v in \<open>simp add: read_digits_def\<close>)
next
  have "read_digits ''127'' = 127" by code_simp
  then show "a = ''127'' \<Longrightarrow> read_digits a = 127" by simp
qed

lemma uint_octets:
  assumes "a \<le> 255" "b \<le> 255" "d \<le> 255" "e \<le> 255"
  shows "uint (address_of_octets [a, b, d, e]) = v4 (int a) (int b) (int d) (int e)"
proof -
  define N where "N = 281470681743360 + a * 16777216 + b * 65536 + d * 256 + e"
  have "N < 2 ^ 128" using assms by (simp add: N_def)
  then have "unat (of_nat N :: 128 word) = N" by (simp add: unat_of_nat)
  moreover have "address_of_octets [a, b, d, e] = of_nat N"
    unfolding address_of_octets_def N_def by (rule arg_cong [where f = of_nat]) simp
  ultimately have "uint (address_of_octets [a, b, d, e]) = int N" by (metis uint_nat)
  then show ?thesis by (simp add: v4_def N_def)
qed

lemma loopback_octets:
  assumes "parse_ipv4 s = Some os"
  shows "hd (split_char CHR ''.'' s) = ''127'' \<longleftrightarrow> in_ranges loopback_ranges (uint (address_of_octets os))"
proof -
  from parse_ipv4_Some [OF assms] obtain a b d e where
    s: "s = a @ CHR ''.'' # b @ ''.'' @ d @ ''.'' @ e"
    and o4: "is_ipv4_octet a" "is_ipv4_octet b" "is_ipv4_octet d" "is_ipv4_octet e"
    and os: "os = [read_digits a, read_digits b, read_digits d, read_digits e]"
    by (metis append_Cons append_Nil)
  note le = o4 [THEN is_ipv4_octetD(6)]
  have "hd (split_char CHR ''.'' s) = a" unfolding s
    using is_digit_colon(2) [OF is_ipv4_octetD(3) [OF o4(1)]] by (simp add: split_char_append_delim)
  moreover have "read_digits a = 127 \<longleftrightarrow> in_ranges loopback_ranges (uint (address_of_octets os))"
    unfolding os uint_octets [OF le] using le by (auto simp: in_ranges_def loopback_ranges_def v4_def)
  ultimately show ?thesis using octet_127 [OF o4(1)] by simp
qed

lemma is_loopback_mapped:
  assumes "is_ip s \<noteq> 0" "js_lower s = s"
  shows "is_loopback_address (normalize_mapped_ipv4 s) = in_ranges loopback_ranges (uint (the (ip_value s)))"
proof -
  let ?n = "normalize_mapped_ipv4 s"
  note n = normalize_mapped [OF assms]
  show ?thesis
  proof (cases "is_ip ?n = 4")
    case True
    then obtain os where os: "parse_ipv4 ?n = Some os" by (auto simp: is_ip_4)
    then have "ip_value s = Some (address_of_octets os)" using n(3) by (simp add: ip_value_def)
    then show ?thesis using True loopback_octets [OF os] by (simp add: is_loopback_address_def)
  next
    case False
    with n(1) is_ip_cases [of ?n] have six: "is_ip ?n = 6" by auto
    with n(4) obtain ws where ws: "parse_ipv6 s = Some ws" and id: "?n = s"
      and nm: "\<not> (list_all (\<lambda>w. w = 0) (take 5 ws) \<and> ws ! 5 = 65535)" by auto
    from parse_ipv6_groups8 [OF ws assms(2)] have g: "length ws = 8" "\<forall>w \<in> set ws. w < 65536" by auto
    have "ip_value s = Some (address_of_groups ws)"
      using ws parse_ipv4_not_ipv6 by (cases "parse_ipv4 s") (auto simp: ip_value_def)
    then show ?thesis
      using six id ws loopback_groups [OF g nm] assms
      by (simp add: is_loopback_address_def words_of_address)
  qed
qed

lemma ip_value_Some: "is_ip s \<noteq> 0 \<Longrightarrow> \<exists>a. ip_value s = Some a"
  by (auto simp: is_ip_def ip_value_def split: if_splits option.splits)

section \<open>Properties\<close>

lemma assert_policy_iff:
  assumes "is_ip s \<noteq> 0" and "js_lower s = s"
  shows "assert_address_policy s policy = Inr () \<longleftrightarrow> permitted policy (uint (the (ip_value s)))"
proof -
  from ip_value_Some [OF assms(1)] obtain a where a: "ip_value s = Some a" ..
  note n = normalize_mapped [OF assms]
  have "is_ip (normalize_mapped_ipv4 s) = 4 \<or> is_ip (normalize_mapped_ipv4 s) = 6"
    using n(1) is_ip_cases [of "normalize_mapped_ipv4 s"] by simp
  then show ?thesis
    using a n(3) is_loopback_mapped [OF assms] public_check [of a] trusted_check [of a]
    by (cases policy) (auto simp: assert_address_policy_def Let_def)
qed

text \<open>The answers of a lookup that were let through.\<close>

lemma map_throws_Inr: "map_throws f xs = Inr ys \<longleftrightarrow> list_all2 (\<lambda>x y. f x = Inr y) xs ys"
proof (induction xs arbitrary: ys)
  case (Cons x xs)
  show ?case
  proof (cases "f x")
    case (Inr y)
    show ?thesis
    proof (cases ys)
      case (Cons z zs)
      with Inr Cons.IH [of zs] show ?thesis by (auto split: sum.splits)
    qed (use Inr in \<open>auto split: sum.splits\<close>)
  qed (auto simp: list_all2_Cons1)
qed auto

lemma normalize_lower [simp]: "js_lower (normalize_outbound_hostname s) = normalize_outbound_hostname s"
  by (simp add: normalize_outbound_hostname_def)

lemma check_lookup_address_Inr:
  assumes "check_lookup_address policy la = Inr (t, fam)"
  shows "t = normalize_outbound_hostname (la_address la)" "is_ip t = fam" "fam = 4 \<or> fam = 6"
    "permitted policy (uint (the (ip_value t)))"
proof -
  let ?n = "normalize_outbound_hostname (la_address la)"
  from assms have t: "t = ?n" "is_ip ?n = fam" "is_ip ?n \<noteq> 0" "assert_address_policy ?n policy = Inr ()"
    by (auto simp: check_lookup_address_def Let_def is_ip_def split: if_splits sum.splits)
  with assert_policy_iff [OF t(3), of policy] show "t = ?n" "is_ip t = fam" "permitted policy (uint (the (ip_value t)))"
    by simp_all
  show "fam = 4 \<or> fam = 6" using t is_ip_cases [of ?n] by auto
qed

text \<open>Property C17. The outbound policy decides an address text by the address it denotes: a text the platform
  accepts as an address passes exactly when its address lies in the ranges of the policy, in whatever notation
  it is written (shortened groups, dotted tails, IPv4-mapped addresses).\<close>

theorem address_policy_ranges:
  assumes "is_ip s \<noteq> 0" and "js_lower s = s"
  shows "assert_address_policy s policy = Inr () \<longleftrightarrow> permitted policy (uint (the (ip_value s)))"
  by (rule assert_policy_iff [OF assms])

theorem address_policy_ranges_witness:
  "assert_address_policy ''::1'' LoopbackOnly = Inr () \<longleftrightarrow> permitted LoopbackOnly (uint (the (ip_value ''::1'')))"
proof (rule address_policy_ranges)
  show "is_ip ''::1'' \<noteq> 0" by code_simp
  show "js_lower ''::1'' = ''::1''" by code_simp
qed

text \<open>Where the address of a resolved target comes from.\<close>

definition target_source :: "address_policy \<Rightarrow> lookup_host \<Rightarrow> string \<Rightarrow> string \<Rightarrow> bool" where
  "target_source policy lookupHost hostname address \<longleftrightarrow>
     (address = hostname
      \<or> (\<exists>las. snd (lookupHost hostname) = Inr las \<and> las \<noteq> [] \<and> address = normalize_outbound_hostname (la_address (hd las))
           \<and> (\<forall>la \<in> set las. permitted policy (uint (the (ip_value (normalize_outbound_hostname (la_address la))))))))"

lemma lookup_deadline_Inr:
  "lookup_host_with_deadline h lookupHost limit abortAt = (t, Inr las) \<Longrightarrow> snd (lookupHost h) = Inr las"
  by (auto simp: lookup_host_with_deadline_def Let_def split: sum.splits prod.splits if_splits)

lemma all2_Inr_ex: "list_all2 (\<lambda>x y. f x = Inr y) xs ys \<Longrightarrow> x \<in> set xs \<Longrightarrow> \<exists>y. f x = Inr y"
  by (induction rule: list_all2_induct) auto

lemma checked_answers:
  assumes "map_throws (check_lookup_address policy) las = Inr ((address, family) # rest)"
  shows "las \<noteq> []" "address = normalize_outbound_hostname (la_address (hd las))" "is_ip address = family"
    "family = 4 \<or> family = 6" "permitted policy (uint (the (ip_value address)))"
    "\<forall>la \<in> set las. permitted policy (uint (the (ip_value (normalize_outbound_hostname (la_address la)))))"
proof -
  from assms have l2: "list_all2 (\<lambda>x y. check_lookup_address policy x = Inr y) las ((address, family) # rest)"
    by (simp add: map_throws_Inr)
  then obtain la las' where las: "las = la # las'" and c: "check_lookup_address policy la = Inr (address, family)"
    by (auto simp: list_all2_Cons2)
  from check_lookup_address_Inr [OF c] las show "las \<noteq> []"
    "address = normalize_outbound_hostname (la_address (hd las))" "is_ip address = family"
    "family = 4 \<or> family = 6" "permitted policy (uint (the (ip_value address)))" by simp_all
  show "\<forall>la \<in> set las. permitted policy (uint (the (ip_value (normalize_outbound_hostname (la_address la)))))"
  proof
    fix x assume "x \<in> set las"
    from all2_Inr_ex [OF l2 this] obtain y z where "check_lookup_address policy x = Inr (y, z)" by auto
    with check_lookup_address_Inr [of policy x y z]
    show "permitted policy (uint (the (ip_value (normalize_outbound_hostname (la_address x)))))" by simp
  qed
qed

lemma resolve_Inr:
  assumes "resolve_outbound_http_target parse_url policy lookupHost limit abortAt v = Inr t"
  shows "parse_url v = Some (rt_url t)" "u_protocol (rt_url t) \<in> {''http:'', ''https:''}"
    "u_username (rt_url t) = []" "u_password (rt_url t) = []" "is_ip (rt_address t) = rt_family t"
    "rt_family t = 4 \<or> rt_family t = 6" "permitted policy (uint (the (ip_value (rt_address t))))"
    "target_source policy lookupHost (normalize_outbound_hostname (u_hostname (rt_url t))) (rt_address t)"
proof -
  from assms obtain u where u: "parse_url v = Some u" and ok: "u_protocol u \<in> {''http:'', ''https:''}" "u_username u = []" "u_password u = []"
    by (auto simp: resolve_outbound_http_target_def split: option.splits if_splits)
  let ?h = "normalize_outbound_hostname (u_hostname u)"
  have "rt_url t = u \<and> is_ip (rt_address t) = rt_family t \<and> (rt_family t = 4 \<or> rt_family t = 6)
      \<and> permitted policy (uint (the (ip_value (rt_address t)))) \<and> target_source policy lookupHost ?h (rt_address t)"
  proof (cases "is_ip ?h = 4 \<or> is_ip ?h = 6")
    case True
    with assms u ok have "assert_address_policy ?h policy = Inr ()" "t = \<lparr> rt_url = u, rt_address = ?h, rt_family = is_ip ?h \<rparr>"
      by (auto simp: resolve_outbound_http_target_def Let_def split: sum.splits)
    with True assert_policy_iff [of ?h policy] show ?thesis by (auto simp: target_source_def)
  next
    case False
    from assms u ok False obtain tm las where
      l: "lookup_host_with_deadline ?h lookupHost limit abortAt = (tm, Inr las)"
      and r: "(case map_throws (check_lookup_address policy) las of Inl e \<Rightarrow> Inl e
               | Inr normalized \<Rightarrow>
                   (case normalized of [] \<Rightarrow> Inl (PolicyError DnsFailed ''Outbound HTTP target did not resolve'')
                    | (address, family) # _ \<Rightarrow> Inr \<lparr> rt_url = u, rt_address = address, rt_family = family \<rparr>)) = Inr t"
      by (auto simp: resolve_outbound_http_target_def Let_def split: if_splits prod.splits sum.splits outbound_error.splits)
    from r obtain address family rest where
      m: "map_throws (check_lookup_address policy) las = Inr ((address, family) # rest)"
      and t: "t = \<lparr> rt_url = u, rt_address = address, rt_family = family \<rparr>"
      by (auto split: sum.splits list.splits)
    from checked_answers [OF m] lookup_deadline_Inr [OF l] show ?thesis
      by (auto simp: t target_source_def)
  qed
  with u ok show "parse_url v = Some (rt_url t)" "u_protocol (rt_url t) \<in> {''http:'', ''https:''}"
    "u_username (rt_url t) = []" "u_password (rt_url t) = []" "is_ip (rt_address t) = rt_family t"
    "rt_family t = 4 \<or> rt_family t = 6" "permitted policy (uint (the (ip_value (rt_address t))))"
    "target_source policy lookupHost (normalize_outbound_hostname (u_hostname (rt_url t))) (rt_address t)"
    by simp_all
qed

text \<open>Property C18. A socket is only opened to a permitted address: when a pinned request is issued, the host it
  connects to is a literal address of the policy, the literal host of the URL or the first answer of its lookup,
  every answer of which was permitted too; the name is not resolved again, and the byte limit is in bounds.\<close>

theorem pinned_request_is_permitted:
  assumes "pinned_http_request parse_url lookupHost limit abortAt v init = Inr (options, bytes)"
  shows "is_ip (ro_hostname options) = ro_family options \<and> ro_family options \<noteq> 0
         \<and> permitted (pi_addressPolicy init) (uint (the (ip_value (ro_hostname options))))
         \<and> (\<exists>u. parse_url v = Some u \<and> u_protocol u \<in> {''http:'', ''https:''} \<and> u_username u = [] \<and> u_password u = []
              \<and> target_source (pi_addressPolicy init) lookupHost (normalize_outbound_hostname (u_hostname u)) (ro_hostname options)
              \<and> ro_protocol options = u_protocol u
              \<and> (u_protocol u = ''https:'' \<longrightarrow> ro_identity options = Some (normalize_outbound_hostname (u_hostname u))))
         \<and> 0 \<le> bytes \<and> bytes \<le> 16777216"
proof -
  from assms obtain t where t: "resolve_outbound_http_target parse_url (pi_addressPolicy init) lookupHost limit abortAt v = Inr t"
    and o1: "options = pinned_options t init" and b: "0 \<le> bytes" "bytes \<le> 16777216"
    by (auto simp: pinned_http_request_def Let_def split: sum.splits if_splits)
  from resolve_Inr [OF t] b show ?thesis
    by (auto simp: o1 pinned_options_def Let_def)
qed

theorem pinned_request_is_permitted_witness:
  "\<exists>url :: url. let parse_url = (\<lambda>_. Some url); init = \<lparr> pi_method = ''GET'', pi_headers = [], pi_addressPolicy = LoopbackOnly,
        pi_discardResponseBody = True, pi_maximumResponseBytes = Some 9 \<rparr>;
        result = pinned_http_request parse_url (\<lambda>_. (0, Inr [])) 1000 None [] init in
     \<exists>options bytes. result = Inr (options, bytes) \<and> ro_hostname options = ''::1'' \<and> permitted LoopbackOnly (uint (the (ip_value ''::1'')))"
proof -
  let ?u = "\<lparr> u_protocol = ''http:'', u_username = [], u_password = [], u_hostname = ''[::1]'', u_port = [],
              u_pathname = ''/'', u_search = [], u_hash = [] \<rparr>"
  let ?init = "\<lparr> pi_method = ''GET'', pi_headers = [], pi_addressPolicy = LoopbackOnly,
        pi_discardResponseBody = True, pi_maximumResponseBytes = Some 9 \<rparr>"
  have h: "normalize_outbound_hostname ''[::1]'' = ''::1''" by code_simp
  have ip: "is_ip ''::1'' = 6" and p: "parse_ipv6 ''::1'' = Some [0, 0, 0, 0, 0, 0, 0, 1]"
    and low: "js_lower ''::1'' = ''::1''" by code_simp+
  have w: "parse_ipv6_words ''::1'' = Some [0, 0, 0, 0, 0, 0, 0, 1]"
    using words_of_address [of "''::1''"] ip p low by simp
  have m: "normalize_mapped_ipv4 ''::1'' = ''::1''" by (simp add: normalize_mapped_ipv4_def w)
  have l: "is_loopback_address ''::1''" by (simp add: is_loopback_address_def w ip)
  have "assert_address_policy ''::1'' LoopbackOnly = Inr ()"
    by (simp add: assert_address_policy_def m ip l)
  then have "resolve_outbound_http_target (\<lambda>_. Some ?u) LoopbackOnly (\<lambda>_. (0, Inr [])) 1000 None []
      = Inr \<lparr> rt_url = ?u, rt_address = ''::1'', rt_family = 6 \<rparr>"
    by (simp add: resolve_outbound_http_target_def h ip)
  then have r: "pinned_http_request (\<lambda>_. Some ?u) (\<lambda>_. (0, Inr [])) 1000 None [] ?init
      = Inr (pinned_options \<lparr> rt_url = ?u, rt_address = ''::1'', rt_family = 6 \<rparr> ?init, 9)"
    by (simp add: pinned_http_request_def is_safe_integer_def)
  from pinned_request_is_permitted [OF r] r show ?thesis
    by (intro exI [of _ ?u]) (simp add: pinned_options_def Let_def)
qed

section \<open>Responses\<close>

lemma settle_so: "so_chunks (settle r s) = so_chunks s" "so_receivedBytes (settle r s) = so_receivedBytes s"
  "so_settled (settle r s) = (case so_settled s of None \<Rightarrow> Some r | Some x \<Rightarrow> Some x)"
  by (simp_all add: settle_def split: option.splits)

definition socket_inv :: "int \<Rightarrow> socket_state \<Rightarrow> bool" where
  "socket_inv limit s \<longleftrightarrow>
     int (length (concat (so_chunks s))) \<le> limit \<and> int (length (concat (so_chunks s))) \<le> so_receivedBytes s
     \<and> (\<forall>r b. so_settled s = Some (Inr r) \<longrightarrow> rs_body r = Some b \<longrightarrow> int (length b) \<le> limit)"

lemma socket_inv_step: "socket_inv limit s \<Longrightarrow> socket_inv limit (socket_step d limit e s)"
  by (cases e) (auto simp: socket_inv_def settle_so Let_def split: option.splits if_splits)

lemma socket_inv_fold: "socket_inv limit s \<Longrightarrow> socket_inv limit (fold (socket_step d limit) es s)"
  by (induction es arbitrary: s) (simp_all add: socket_inv_step)

lemma socket_settled_step: "so_settled s = Some r \<Longrightarrow> so_settled (socket_step d limit e s) = Some r"
  by (cases e) (auto simp: settle_so Let_def split: option.splits)

lemma socket_settled_fold: "so_settled s = Some r \<Longrightarrow> so_settled (fold (socket_step d limit) es s) = Some r"
  by (induction es arbitrary: s) (simp_all add: socket_settled_step)

text \<open>Property C19. Whatever the peer sends, a response is settled at most once, and a body that is handed on has
  at most the bytes of the limit; the time limit settles the request whatever happened before.\<close>

theorem response_is_bounded:
  assumes "0 \<le> limit"
  shows "(issue_pinned_request d limit events = Some (Inr r) \<and> rs_body r = Some b \<longrightarrow> int (length b) \<le> limit)
         \<and> (issue_pinned_request d limit events = Some res \<longrightarrow> issue_pinned_request d limit (events @ later) = Some res)
         \<and> (RequestTimeout \<in> set events \<longrightarrow> issue_pinned_request d limit events \<noteq> None)"
proof (intro conjI impI)
  have "socket_inv limit socket_init" using assms by (simp add: socket_inv_def socket_init_def)
  from socket_inv_fold [OF this, of d events]
  show "int (length b) \<le> limit" if "issue_pinned_request d limit events = Some (Inr r) \<and> rs_body r = Some b"
    using that by (simp add: issue_pinned_request_def socket_inv_def)
  show "issue_pinned_request d limit (events @ later) = Some res" if "issue_pinned_request d limit events = Some res"
    using that by (simp add: issue_pinned_request_def socket_settled_fold)
  assume "RequestTimeout \<in> set events"
  then obtain e1 e2 where e: "events = e1 @ RequestTimeout # e2" by (meson split_list)
  let ?s = "fold (socket_step d limit) e1 socket_init"
  obtain x where "so_settled (socket_step d limit RequestTimeout ?s) = Some x"
    by (cases "so_settled ?s") (simp_all add: settle_so)
  then show "issue_pinned_request d limit events \<noteq> None"
    by (simp add: issue_pinned_request_def e socket_settled_fold)
qed

theorem response_is_bounded_witness:
  "\<exists>r. issue_pinned_request False 3 [ResponseStarted 200, BodyData ''ab'', BodyData ''c'', BodyEnd] = Some (Inr r)
       \<and> rs_body r = Some ''abc'' \<and> int (length ''abc'') \<le> 3
       \<and> issue_pinned_request False 3 ([ResponseStarted 200, BodyData ''ab'', BodyData ''c'', BodyEnd] @ [RequestTimeout]) = Some (Inr r)"
proof -
  let ?ev = "[ResponseStarted 200, BodyData ''ab'', BodyData ''c'', BodyEnd]"
  have r: "issue_pinned_request False 3 ?ev = Some (Inr \<lparr> rs_status = 200, rs_body = Some ''abc'' \<rparr>)"
    by (simp add: issue_pinned_request_def socket_init_def settle_def Let_def)
  from response_is_bounded [of 3 False ?ev "\<lparr> rs_status = 200, rs_body = Some ''abc'' \<rparr>" "''abc''"
      "Inr \<lparr> rs_status = 200, rs_body = Some ''abc'' \<rparr>" "[RequestTimeout]"] r
  show ?thesis by simp
qed

end
