(* ===== verification/Js_Json.thy ===== *)
theory Js_Json
  imports Js_Base
begin

text \<open>
  \<open>JSON.stringify\<close> writes different values as different texts, even when more text follows: what follows a
  value inside an array, an object or at the end of the text can be told apart from the value.
  The theory models the language, not files of the repository.
\<close>

definition json_follows :: "string \<Rightarrow> bool" where
  "json_follows r = (r = [] \<or> hd r \<in> {CHR '','', CHR '']'', CHR ''}''})"

lemma json_follows_simps [simp]:
  "json_follows []" "json_follows (CHR '','' # r)" "json_follows (CHR '']'' # r)" "json_follows (CHR ''}'' # r)"
  by (simp_all add: json_follows_def)

section \<open>Strings\<close>

fun unescape :: "string \<Rightarrow> (char \<times> string) option" where
  "unescape [] = None"
| "unescape (c # s) =
     (if c \<noteq> CHR 0x5C then Some (c, s)
      else (case s of
              CHR ''u'' # _ # _ # a # b # t \<Rightarrow> Some (char_of (16 * hex_value a + hex_value b), t)
            | x # t \<Rightarrow>
                Some (if x = CHR ''b'' then char_of (8 :: nat) else if x = CHR ''t'' then char_of (9 :: nat)
                      else if x = CHR ''n'' then char_of (10 :: nat) else if x = CHR ''f'' then char_of (12 :: nat)
                      else if x = CHR ''r'' then char_of (13 :: nat) else x, t)
            | [] \<Rightarrow> None))"

lemma char_of_code: "code c = n \<Longrightarrow> c = char_of n"
  by auto

lemma hex_value_of_digit: "n < 16 \<Longrightarrow> hex_value (hex_digit n) = n"
  by (auto simp: hex_value_def hex_digit_def is_digit_def is_lower_def)

lemma char_consts: "char_of (34::nat) = CHR 0x22" "char_of (92::nat) = CHR 0x5C"
  by code_simp+

lemma code_consts: "code (CHR 0x22) = (34::nat)" "code (CHR 0x5C) = (92::nat)"
  by simp_all

lemma unescape_escape: "unescape (escape_char c @ s) = Some (c, s)"
proof -
  consider "code c = (34::nat)" | "code c = (92::nat)" | "code c = (8::nat)" | "code c = (9::nat)"
    | "code c = (10::nat)" | "code c = (12::nat)" | "code c = (13::nat)"
    | "code c < (32::nat)" "code c \<notin> {8, 9, 10, 12, 13::nat}"
    | "\<not> code c < (32::nat)" "code c \<notin> {34, 92::nat}" by force
  then show ?thesis
  proof cases
    case 8
    then have "16 * (code c div 16) + code c mod 16 = code c" "code c div 16 < (16::nat)" by auto
    with 8 show ?thesis by (simp add: escape_char_def Let_def hex_value_of_digit)
  next
    case 9
    then have "c \<noteq> CHR 0x5C" using code_consts by auto
    with 9 show ?thesis by (simp add: escape_char_def Let_def)
  next
    case 1
    then have "c = CHR 0x22" using char_of_code [OF 1] by (simp add: char_consts)
    then show ?thesis by (simp add: escape_char_def)
  next
    case 2
    then have "c = CHR 0x5C" using char_of_code [OF 2] by (simp add: char_consts)
    then show ?thesis by (simp add: escape_char_def)
  qed (auto simp: escape_char_def dest: char_of_code)
qed

lemma escape_quote: "escape_char c @ s \<noteq> CHR 0x22 # t"
proof
  assume "escape_char c @ s = CHR 0x22 # t"
  with unescape_escape [of c s] have c: "c = CHR 0x22" and "escape_char c @ s = CHR 0x22 # t" by auto
  then show False by (simp add: escape_char_def)
qed

lemma escapes_inj:
  "concat (map escape_char a) @ CHR 0x22 # r = concat (map escape_char b) @ CHR 0x22 # s \<Longrightarrow> a = b \<and> r = s"
proof (induction a arbitrary: b)
  case Nil
  show ?case
  proof (cases b)
    case (Cons d b')
    with Nil escape_quote [of d "concat (map escape_char b') @ CHR 0x22 # s" r] show ?thesis by simp
  qed (use Nil in simp)
next
  case (Cons c a)
  show ?case
  proof (cases b)
    case Nil
    with Cons.prems escape_quote [of c "concat (map escape_char a) @ CHR 0x22 # r" s] show ?thesis by simp
  next
    case (Cons d b')
    let ?x = "concat (map escape_char a) @ CHR 0x22 # r" and ?y = "concat (map escape_char b') @ CHR 0x22 # s"
    from Cons.prems Cons have "unescape (escape_char c @ ?x) = unescape (escape_char d @ ?y)" by simp
    then have "c = d" "?x = ?y" by (simp_all only: unescape_escape) auto
    with Cons.IH [of b'] Cons show ?thesis by simp
  qed
qed

lemma quote_json_inj: "quote_json a @ r = quote_json b @ s \<longleftrightarrow> a = b \<and> r = s"
  using escapes_inj [of a r b s] by (auto simp: quote_json_def)

section \<open>Numbers\<close>

definition int_char :: "char \<Rightarrow> bool" where
  "int_char c = (is_digit c \<or> c = CHR ''-'')"

lemma show_int_chars: "c \<in> set (show_int i) \<Longrightarrow> int_char c"
  by (auto simp: show_int_def int_char_def dest: show_nat_digits split: if_splits)

lemma show_int_inj: "show_int i = show_int j \<longleftrightarrow> i = j"
proof
  assume e: "show_int i = show_int j"
  have m: "show_nat n \<noteq> CHR ''-'' # t" for n t
    using show_nat_digits [of "CHR ''-''" n] by (auto simp: is_digit_def)
  show "i = j"
    using e m by (auto simp: show_int_def split: if_splits) (metis m)+
qed simp

lemma show_int_follows:
  assumes "show_int i @ r = show_int j @ s" and "json_follows r" and "json_follows s"
  shows "i = j \<and> r = s"
proof -
  have t: "takeWhile int_char (show_int k @ u) = show_int k" if "json_follows u" for k u
  proof -
    from that have "u \<noteq> [] \<Longrightarrow> \<not> int_char (hd u)" by (auto simp: json_follows_def int_char_def is_digit_def)
    then have "takeWhile int_char u = []" by (cases u) auto
    then show ?thesis using show_int_chars [of _ k] by (simp add: takeWhile_append)
  qed
  from assms t [of r i] t [of s j] have "show_int i = show_int j" by simp
  with assms show ?thesis by (simp add: show_int_inj)
qed

section \<open>Values\<close>

lemma show_int_hd: "show_int i \<noteq> [] \<and> int_char (hd (show_int i))"
proof -
  have "show_int i \<noteq> []" by (simp add: show_int_def)
  with show_int_chars [of "hd (show_int i)" i] show ?thesis by simp
qed

definition json_start :: "json \<Rightarrow> char" where
  "json_start j = hd (json_stringify j)"

lemma json_stringify_ne: "json_stringify j \<noteq> []"
  using show_int_hd by (cases j) (auto simp: quote_json_def)

lemma json_start_simps:
  "json_start JNull = CHR ''n''" "json_start (JBool b) = (if b then CHR ''t'' else CHR ''f'')"
  "int_char (json_start (JNum i))" "json_start (JStr s) = CHR 0x22" "json_start (JArr vs) = CHR ''[''"
  "json_start (JObj kvs) = CHR ''{''"
  using show_int_hd by (simp_all add: json_start_def quote_json_def)

lemma int_char_not: "\<not> int_char CHR ''n''" "\<not> int_char CHR ''t''" "\<not> int_char CHR ''f''" "\<not> int_char CHR 0x22"
  "\<not> int_char CHR ''[''" "\<not> int_char CHR ''{''" "\<not> int_char CHR '']''" "\<not> int_char CHR ''}''" "\<not> int_char CHR '',''"
  by (simp_all add: int_char_def is_digit_def)

lemma json_start_sep: "json_start j \<notin> {CHR '','', CHR '']'', CHR ''}''}"
proof (cases j)
  case (JNum i)
  then have "int_char (json_start j)" by (simp add: json_start_simps(3))
  with int_char_not show ?thesis by auto
qed (auto simp: json_start_simps)

lemma append_hd_eq: "a @ r = b @ s \<Longrightarrow> a \<noteq> [] \<Longrightarrow> b \<noteq> [] \<Longrightarrow> hd a = hd b"
  by (metis hd_append2)

lemma join_inj:
  assumes "\<And>v w r s. \<lbrakk>v \<in> set vs; json_follows r; json_follows s; f v @ r = f w @ s\<rbrakk> \<Longrightarrow> v = w \<and> r = s"
    and ne: "\<And>v. f v \<noteq> [] \<and> hd (f v) \<notin> {CHR '','', CHR '']'', CHR ''}''}"
    and c: "c \<in> {CHR '']'', CHR ''}''}"
  shows "join '','' (map f vs) @ c # r = join '','' (map f ws) @ c # s \<Longrightarrow> vs = ws \<and> r = s"
  using assms(1)
proof (induction vs arbitrary: ws)
  case Nil
  show ?case
  proof (cases ws)
    case (Cons w ws')
    with Nil have "c = hd (f w)" using ne [of w] by (cases ws') (auto simp: hd_append dest: arg_cong [where f = hd])
    with ne [of w] c show ?thesis by auto
  qed (use Nil in simp)
next
  case (Cons v vs)
  show ?case
  proof (cases ws)
    case Nil
    with Cons.prems(1) have "c = hd (f v)" using ne [of v] by (cases vs) (auto simp: hd_append dest!: arg_cong [where f = hd])
    with ne [of v] c show ?thesis by auto
  next
    case w: (Cons w ws')
    let ?t = "\<lambda>xs. if xs = [] then [] else CHR '','' # join '','' (map f xs)"
    have j: "join '','' (map f (x # xs)) = f x @ ?t xs" for x xs by (cases xs) auto
    from Cons.prems(1) w have "f v @ (?t vs @ c # r) = f w @ (?t ws' @ c # s)" by (simp only: j append_assoc)
    moreover have "json_follows (?t xs @ c # u)" for xs u using c by auto
    ultimately have vw: "v = w" and t: "?t vs @ c # r = ?t ws' @ c # s"
      using Cons.prems(2) [of v "?t vs @ c # r" "?t ws' @ c # s" w] by auto
    have "join '','' (map f vs) @ c # r = join '','' (map f ws') @ c # s"
      using t c by (auto split: if_splits)
    with Cons.IH [of ws'] Cons.prems(2) vw w show ?thesis by auto
  qed
qed

lemma json_stringify_follows:
  "\<lbrakk>json_stringify j @ r = json_stringify k @ s; json_follows r; json_follows s\<rbrakk> \<Longrightarrow> j = k \<and> r = s"
proof (induction j arbitrary: k r s)
  case (JArr vs)
  have "json_start (JArr vs) = json_start k"
    using append_hd_eq [OF JArr.prems(1)] json_stringify_ne unfolding json_start_def by blast
  then obtain ws where k: "k = JArr ws"
    using json_start_simps(3) int_char_not by (cases k) (auto simp: json_start_simps split: if_splits)
  have "vs = ws \<and> r = s"
  proof (rule join_inj [where f = json_stringify and c = "CHR '']''"])
    show "join '','' (map json_stringify vs) @ CHR '']'' # r = join '','' (map json_stringify ws) @ CHR '']'' # s"
      using JArr.prems(1) by (simp add: k)
    show "json_stringify v \<noteq> [] \<and> hd (json_stringify v) \<notin> {CHR '','', CHR '']'', CHR ''}''}" for v
      using json_stringify_ne json_start_sep [of v] by (simp add: json_start_def)
  qed (use JArr.IH in auto)
  with k show ?case by simp
next
  case (JObj kvs)
  let ?f = "\<lambda>(k, v). quote_json k @ '':'' @ json_stringify v"
  have "json_start (JObj kvs) = json_start k"
    using append_hd_eq [OF JObj.prems(1)] json_stringify_ne unfolding json_start_def by blast
  then obtain ws where k: "k = JObj ws"
    using json_start_simps(3) int_char_not by (cases k) (auto simp: json_start_simps split: if_splits)
  have "kvs = ws \<and> r = s"
  proof (rule join_inj [where f = ?f and c = "CHR ''}''"])
    show "join '','' (map ?f kvs) @ CHR ''}'' # r = join '','' (map ?f ws) @ CHR ''}'' # s"
      using JObj.prems(1) by (simp add: k)
    show "?f v \<noteq> [] \<and> hd (?f v) \<notin> {CHR '','', CHR '']'', CHR ''}''}" for v
      by (cases v) (simp add: quote_json_def)
    show "v = w \<and> r' = s'"
      if "v \<in> set kvs" "json_follows r'" "json_follows s'" "?f v @ r' = ?f w @ s'" for v w r' s'
    proof -
      obtain a x where v: "v = (a, x)" by (cases v)
      obtain b y where w: "w = (b, y)" by (cases w)
      from that(4) have "a = b \<and> '':'' @ json_stringify x @ r' = '':'' @ json_stringify y @ s'"
        using quote_json_inj [of a "'':'' @ json_stringify x @ r'" b "'':'' @ json_stringify y @ s'"] by (simp add: v w)
      with JObj.IH [of v x] that show ?thesis by (auto simp: v w)
    qed
  qed auto
  with k show ?case by simp
next
  case (JNum i)
  have "json_start (JNum i) = json_start k"
    using append_hd_eq [OF JNum.prems(1)] json_stringify_ne unfolding json_start_def by blast
  with json_start_simps(3) [of i] int_char_not obtain l where "k = JNum l"
    by (cases k) (auto simp: json_start_simps split: if_splits)
  with JNum show_int_follows [of i r l s] show ?case by simp
next
  case (JStr a)
  have "json_start (JStr a) = json_start k"
    using append_hd_eq [OF JStr.prems(1)] json_stringify_ne unfolding json_start_def by blast
  then obtain b where "k = JStr b"
    using json_start_simps(3) int_char_not by (cases k) (auto simp: json_start_simps split: if_splits)
  with JStr quote_json_inj [of a r b s] show ?case by simp
next
  case JNull
  have "json_start JNull = json_start k"
    using append_hd_eq [OF JNull.prems(1)] json_stringify_ne unfolding json_start_def by blast
  then have "k = JNull"
    using json_start_simps(3) int_char_not by (cases k) (auto simp: json_start_simps split: if_splits)
  with JNull show ?case by simp
next
  case (JBool b)
  have "json_start (JBool b) = json_start k"
    using append_hd_eq [OF JBool.prems(1)] json_stringify_ne unfolding json_start_def by blast
  then have "k = JBool b"
    using json_start_simps(3) int_char_not by (cases k) (auto simp: json_start_simps split: if_splits)
  with JBool show ?case by simp
qed

lemma json_stringify_inj: "json_stringify j = json_stringify k \<longleftrightarrow> j = k"
  using json_stringify_follows [of j "[]" k "[]"] by auto

end
