(* ===== verification/Url_Policy.thy ===== *)
theory Url_Policy
  imports Outbound_Policy Js_Json Js_Number Js_Collections Contracts
begin

text \<open>
  \<open>packages/domain-core/src/index.ts\<close>, the URL policy of measured targets and the request signatures, and
  \<open>apps/browser-audit-lighthouse/src/signatures.ts\<close>. \<open>parse_url\<close> is \<open>new URL\<close>; \<open>hmac secret text\<close> is the
  HMAC-SHA-256 of the UTF-8 bytes of a text, as bytes; \<open>lc\<close> is \<open>String.prototype.localeCompare\<close> of the
  runtime's locale, of which only the order of the sorted arrays depends.
\<close>

section \<open>The URL policy\<close>

datatype url_code = InvalidUrl | InvalidScheme | EmbeddedCredentials | InvalidPort | PrivateHostname | PrivateIp

record url_error =
  ue_code :: url_code
  ue_message :: string

definition allowed_ports :: "string list" where
  "allowed_ports = [''80'', ''443'']"

definition forbidden_hostnames :: "string list" where
  "forbidden_hostnames = [''localhost'']"

text \<open>\<open>Number(s)\<close> of a text without a dot: \<open>None\<close> for NaN. Blanks around it do not count, nothing is
  zero; digits with an exponent, or digits of a base after its prefix. \<open>Infinity\<close> is a number above all doubles.\<close>

definition read_base :: "nat \<Rightarrow> string \<Rightarrow> nat" where
  "read_base b s = foldl (\<lambda>n c. b * n + hex_value c) 0 s"

definition js_decimal :: "string \<Rightarrow> rat option" where
  "js_decimal s =
     (let m = takeWhile is_digit s; r = dropWhile is_digit s in
      if m = [] then None
      else if r = [] then Some (to_double (of_nat (read_digits m)))
      else if hd r \<in> {CHR ''e'', CHR ''E''}
      then (let u = tl r; neg = (starts_with ''-'' u);
                e = (if neg \<or> starts_with ''+'' u then tl u else u) in
            if e = [] \<or> \<not> list_all is_digit e then None
            else if neg then Some (to_double (of_nat (read_digits m) / 10 ^ read_digits e))
            else Some (to_double (of_nat (read_digits m) * 10 ^ read_digits e)))
      else None)"

definition js_number :: "string \<Rightarrow> rat option" where
  "js_number s =
     (let t = js_trim s in
      if t = [] then Some 0
      else if starts_with ''0x'' (js_lower t)
      then (if drop 2 t \<noteq> [] \<and> list_all is_hex_char (drop 2 t)
            then Some (to_double (of_nat (read_base 16 (drop 2 t)))) else None)
      else if starts_with ''0o'' (js_lower t)
      then (if drop 2 t \<noteq> [] \<and> list_all (\<lambda>c. is_digit c \<and> digit_value c < 8) (drop 2 t)
            then Some (to_double (of_nat (read_base 8 (drop 2 t)))) else None)
      else if starts_with ''0b'' (js_lower t)
      then (if drop 2 t \<noteq> [] \<and> list_all (\<lambda>c. is_digit c \<and> digit_value c < 2) (drop 2 t)
            then Some (to_double (of_nat (read_base 2 (drop 2 t)))) else None)
      else
        let neg = starts_with ''-'' t; u = (if neg \<or> starts_with ''+'' t then tl t else t);
            v = (if u = ''Infinity'' then Some (2 ^ 1024) else js_decimal u) in
        if neg then map_option uminus v else v)"

definition is_ipv4_private :: "string \<Rightarrow> bool" where
  "is_ipv4_private hostname =
     (let parts = split_char CHR ''.'' hostname in
      if length parts \<noteq> 4 \<or> list_ex (\<lambda>p. length p = 0 \<or> js_number p = None) parts then False
      else
        let a = the (js_number (parts ! 0)); b = the (js_number (parts ! 1)) in
        a = 0 \<or> a = 10 \<or> a = 127 \<or> (a = 100 \<and> b \<ge> 64 \<and> b \<le> 127) \<or> (a = 169 \<and> b = 254)
        \<or> (a = 172 \<and> b \<ge> 16 \<and> b \<le> 31) \<or> (a = 192 \<and> b = 168) \<or> (a = 198 \<and> (b = 18 \<or> b = 19)))"

definition is_ipv6_private :: "string \<Rightarrow> bool" where
  "is_ipv6_private hostname =
     (if CHR '':'' \<notin> set hostname then False
      else
        let normalized = js_lower hostname in
        normalized = ''::1'' \<or> normalized = ''::'' \<or> starts_with ''fc'' normalized \<or> starts_with ''fd'' normalized
        \<or> starts_with ''fe80:'' normalized \<or> starts_with ''fe90:'' normalized \<or> starts_with ''fea0:'' normalized
        \<or> starts_with ''feb0:'' normalized)"

definition is_forbidden_ip_literal :: "string \<Rightarrow> bool" where
  "is_forbidden_ip_literal hostname = (is_ipv4_private hostname \<or> is_ipv6_private hostname)"

definition validate_measurement_url :: "(string \<Rightarrow> url option) \<Rightarrow> string \<Rightarrow> url_error + url" where
  "validate_measurement_url parse_url v =
     (case parse_url v of
        None \<Rightarrow> Inl \<lparr> ue_code = InvalidUrl, ue_message = ''Target URL is invalid'' \<rparr>
      | Some u \<Rightarrow>
          if u_protocol u \<notin> {''http:'', ''https:''}
          then Inl \<lparr> ue_code = InvalidScheme, ue_message = ''Only http and https URLs are allowed'' \<rparr>
          else if u_username u \<noteq> [] \<or> u_password u \<noteq> []
          then Inl \<lparr> ue_code = EmbeddedCredentials, ue_message = ''Credentials in URLs are not allowed'' \<rparr>
          else if u_port u \<noteq> [] \<and> u_port u \<notin> set allowed_ports
          then Inl \<lparr> ue_code = InvalidPort, ue_message = ''Only ports 80 and 443 are allowed'' \<rparr>
          else
            let hostname = js_lower (u_hostname u) in
            if hostname \<in> set forbidden_hostnames \<or> ends_with ''.localhost'' hostname
               \<or> ends_with ''.local'' hostname \<or> ends_with ''.internal'' hostname
            then Inl \<lparr> ue_code = PrivateHostname, ue_message = ''Private or local hostnames are blocked'' \<rparr>
            else if is_forbidden_ip_literal hostname
            then Inl \<lparr> ue_code = PrivateIp, ue_message = ''Private or link-local IPs are blocked'' \<rparr>
            else Inr u)"

section \<open>Canonical requests\<close>

fun insert_by :: "('a \<Rightarrow> 'a \<Rightarrow> int) \<Rightarrow> 'a \<Rightarrow> 'a list \<Rightarrow> 'a list" where
  "insert_by cmp x [] = [x]"
| "insert_by cmp x (y # ys) = (if cmp x y \<le> 0 then x # y # ys else y # insert_by cmp x ys)"

definition js_sort :: "('a \<Rightarrow> 'a \<Rightarrow> int) \<Rightarrow> 'a list \<Rightarrow> 'a list" where
  "js_sort cmp xs = foldr (insert_by cmp) xs []"

definition default_custom_request_config :: request_config where
  "default_custom_request_config = \<lparr> rc_method = GET, rc_headers = [], rc_body = None \<rparr>"

definition normalize_request_header :: "request_header \<Rightarrow> request_header" where
  "normalize_request_header h = \<lparr> rh_name = js_lower (js_trim (rh_name h)), rh_value = js_trim (rh_value h) \<rparr>"

definition canonicalize_headers :: "(string \<Rightarrow> string \<Rightarrow> int) \<Rightarrow> request_header list \<Rightarrow> request_header list" where
  "canonicalize_headers lc headers =
     js_sort (\<lambda>l r. if rh_name l = rh_name r then lc (rh_value l) (rh_value r) else lc (rh_name l) (rh_name r))
       (filter (\<lambda>h. length (rh_name h) > 0) (map normalize_request_header headers))"

definition canonicalize_request_config :: "(string \<Rightarrow> string \<Rightarrow> int) \<Rightarrow> request_config option \<Rightarrow> request_config" where
  "canonicalize_request_config lc request =
     (let normalized = (case request of None \<Rightarrow> default_custom_request_config | Some r \<Rightarrow> r) in
      \<lparr> rc_method = rc_method normalized, rc_headers = canonicalize_headers lc (rc_headers normalized),
        rc_body = rc_body normalized \<rparr>)"

fun method_text :: "request_method \<Rightarrow> string" where
  "method_text GET = ''GET''"
| "method_text HEAD = ''HEAD''"
| "method_text POST = ''POST''"
| "method_text PUT = ''PUT''"
| "method_text PATCH = ''PATCH''"
| "method_text DELETE = ''DELETE''"
| "method_text OPTIONS = ''OPTIONS''"

definition json_opt :: "string option \<Rightarrow> json" where
  "json_opt v = (case v of None \<Rightarrow> JNull | Some s \<Rightarrow> JStr s)"

definition request_header_json :: "request_header \<Rightarrow> json" where
  "request_header_json h = JObj [(''name'', JStr (rh_name h)), (''value'', JStr (rh_value h))]"

definition request_config_json :: "request_config \<Rightarrow> json" where
  "request_config_json r =
     JObj [(''method'', JStr (method_text (rc_method r))),
           (''headers'', JArr (map request_header_json (rc_headers r))),
           (''body'', case rc_body r of
              None \<Rightarrow> JNull
            | Some b \<Rightarrow> JObj [(''mode'', JStr ''text''), (''contentType'', json_opt (rb_contentType b)),
                             (''value'', JStr (rb_value b))])]"

fun sort_json_value :: "(string \<Rightarrow> string \<Rightarrow> int) \<Rightarrow> json \<Rightarrow> json" where
  "sort_json_value lc (JArr vs) = JArr (map (sort_json_value lc) vs)"
| "sort_json_value lc (JObj kvs) =
     JObj (js_sort (\<lambda>l r. lc (fst l) (fst r)) (map (\<lambda>(k, v). (k, sort_json_value lc v)) kvs))"
| "sort_json_value lc v = v"

definition stable_stringify :: "(string \<Rightarrow> string \<Rightarrow> int) \<Rightarrow> json \<Rightarrow> string" where
  "stable_stringify lc v = json_stringify (sort_json_value lc v)"

definition to_probe_signature_payload :: "(string \<Rightarrow> string \<Rightarrow> int) \<Rightarrow> probe_request \<Rightarrow> string" where
  "to_probe_signature_payload lc r =
     stable_stringify lc
       (JObj [(''jobId'', JStr (pq_jobId r)), (''targetId'', JStr (pq_targetId r)), (''region'', JStr (pq_region r)),
              (''url'', JStr (pq_url r)),
              (''request'', request_config_json (canonicalize_request_config lc (pq_request r))),
              (''timestamp'', JStr (to_iso_string (pq_timestamp r)))])"

section \<open>Signatures\<close>

definition bytes_to_hex :: "nat list \<Rightarrow> string" where
  "bytes_to_hex bs = concat (map (\<lambda>b. let h = show_hex b in replicate (2 - length h) CHR ''0'' @ h) bs)"

fun hex_pairs :: "string \<Rightarrow> nat list" where
  "hex_pairs (a # b # s) = (16 * hex_value a + hex_value b) # hex_pairs s"
| "hex_pairs _ = []"

definition hex_to_bytes :: "string \<Rightarrow> nat list throws" where
  "hex_to_bytes v =
     (if length v mod 2 \<noteq> 0 \<or> \<not> list_all is_lower_hex v
      then throw ''Hex input must contain complete lowercase byte pairs'' else return (hex_pairs v))"

definition create_hmac_sha256 :: "(string \<Rightarrow> string \<Rightarrow> nat list) \<Rightarrow> string \<Rightarrow> string \<Rightarrow> string" where
  "create_hmac_sha256 hmac sharedSecret payload = bytes_to_hex (hmac sharedSecret payload)"

definition verify_hmac_sha256 :: "(string \<Rightarrow> string \<Rightarrow> nat list) \<Rightarrow> string \<Rightarrow> string \<Rightarrow> string \<Rightarrow> bool" where
  "verify_hmac_sha256 hmac sharedSecret payload signature =
     (if \<not> (length signature = 64 \<and> list_all is_lower_hex signature) then False
      else (case hex_to_bytes signature of
              Inl _ \<Rightarrow> False
            | Inr bytes \<Rightarrow> hmac sharedSecret payload = bytes))"

definition create_probe_signature ::
  "(string \<Rightarrow> string \<Rightarrow> nat list) \<Rightarrow> (string \<Rightarrow> string \<Rightarrow> int) \<Rightarrow> string \<Rightarrow> probe_request \<Rightarrow> string" where
  "create_probe_signature hmac lc sharedSecret request =
     create_hmac_sha256 hmac sharedSecret (to_probe_signature_payload lc request)"

definition normalize_browser_audit_headers :: "(string \<Rightarrow> string \<Rightarrow> int) \<Rightarrow> audit_header list \<Rightarrow> audit_header list" where
  "normalize_browser_audit_headers lc headers =
     js_sort (\<lambda>l r. let n = lc (hdr_name l) (hdr_name r) in if n \<noteq> 0 then n else lc (hdr_value l) (hdr_value r))
       (filter (\<lambda>h. length (hdr_name h) > 0) headers)"

definition normalize_browser_audit_cookies :: "(string \<Rightarrow> string \<Rightarrow> int) \<Rightarrow> audit_cookie list \<Rightarrow> audit_cookie list" where
  "normalize_browser_audit_cookies lc cookies =
     js_sort (\<lambda>l r. let n = lc (ck_name l) (ck_name r) in if n \<noteq> 0 then n else lc (ck_value l) (ck_value r)) cookies"

text \<open>The JSON of a policy and of a cookie, as the runtime writes the parsed objects.\<close>

record audit_json =
  aj_policy :: "audit_policy \<Rightarrow> json"
  aj_cookie :: "audit_cookie \<Rightarrow> json"

definition to_browser_audit_signature_payload ::
  "audit_json \<Rightarrow> (string \<Rightarrow> string \<Rightarrow> int) \<Rightarrow> audit_worker_request \<Rightarrow> string" where
  "to_browser_audit_signature_payload aj lc r =
     json_stringify
       (JObj [(''executionId'', JStr (wr_executionId r)), (''targetUrl'', JStr (wr_targetUrl r)),
              (''region'', json_opt (wr_region r)), (''policy'', aj_policy aj (wr_policy r)),
              (''customHeaders'', JArr (map (\<lambda>h. JObj [(''name'', JStr (hdr_name h)), (''value'', JStr (hdr_value h))])
                 (normalize_browser_audit_headers lc (wr_customHeaders r)))),
              (''cookies'', JArr (map (aj_cookie aj) (normalize_browser_audit_cookies lc (wr_cookies r)))),
              (''artifactUpload'', case wr_artifactUpload r of
                 None \<Rightarrow> JNull
               | Some u \<Rightarrow> JObj [(''baseUrl'', JStr (up_baseUrl u)), (''bearerToken'', JStr (up_bearerToken u)),
                                (''expiresAt'', JStr (to_iso_string (up_expiresAt u))),
                                (''maxArtifactBytes'', JNum (up_maxArtifactBytes u)),
                                (''allowedContentTypes'', JArr (map JStr (sort (up_allowedContentTypes u))))]),
              (''timestamp'', JStr (to_iso_string (wr_timestamp r))), (''keyVersion'', JStr ''current'')])"

definition create_browser_audit_signature ::
  "(string \<Rightarrow> string \<Rightarrow> nat list) \<Rightarrow> audit_json \<Rightarrow> (string \<Rightarrow> string \<Rightarrow> int) \<Rightarrow> string \<Rightarrow> audit_worker_request \<Rightarrow> string" where
  "create_browser_audit_signature hmac aj lc sharedSecret request =
     create_hmac_sha256 hmac sharedSecret (to_browser_audit_signature_payload aj lc request)"

text \<open>\<open>TextEncoder\<close> on 8-bit code units, and the comparison of the audit worker.\<close>

definition utf8_char :: "char \<Rightarrow> 8 word list" where
  "utf8_char c =
     (let n = code c :: nat in
      if n < 128 then [of_nat n] else [of_nat (192 + n div 64), of_nat (128 + n mod 64)])"

definition utf8_encode :: "string \<Rightarrow> 8 word list" where
  "utf8_encode s = concat (map utf8_char s)"

unbundle bit_operations_syntax

definition constant_time_equal :: "string \<Rightarrow> string \<Rightarrow> bool" where
  "constant_time_equal left right =
     (let leftBytes = utf8_encode left; rightBytes = utf8_encode right in
      if length leftBytes \<noteq> length rightBytes then False
      else foldl (\<lambda>diff index. diff OR (leftBytes ! index XOR rightBytes ! index)) 0 [0..<length leftBytes] = 0)"

definition verify_browser_audit_signature ::
  "(string \<Rightarrow> string \<Rightarrow> nat list) \<Rightarrow> audit_json \<Rightarrow> (string \<Rightarrow> string \<Rightarrow> int) \<Rightarrow> string option \<Rightarrow> audit_worker_request \<Rightarrow> bool" where
  "verify_browser_audit_signature hmac aj lc sharedSecret request =
     (case sharedSecret of
        None \<Rightarrow> False
      | Some secret \<Rightarrow>
          if secret = [] then False
          else constant_time_equal (create_browser_audit_signature hmac aj lc secret request) (wr_signature request))"

end
