(* ===== verification/Url_Properties.thy ===== *)
theory Url_Properties
  imports Url_Policy Outbound_Properties "HOL-Library.Multiset"
begin

text \<open>
  Properties of the URL policy and of the signatures: which IPv4 targets are accepted, what a signature
  binds, and what its verification compares.
\<close>

section \<open>IPv4 targets\<close>

definition measured_blocked_ranges :: "range list" where
  "measured_blocked_ranges =
     [(v4 0 0 0 0, v4 0 255 255 255), (v4 10 0 0 0, v4 10 255 255 255), (v4 127 0 0 0, v4 127 255 255 255),
      (v4 100 64 0 0, v4 100 127 255 255), (v4 169 254 0 0, v4 169 254 255 255), (v4 172 16 0 0, v4 172 31 255 255),
      (v4 192 168 0 0, v4 192 168 255 255), (v4 198 18 0 0, v4 198 19 255 255)]"

lemma octet_not_ws: "is_digit c \<Longrightarrow> \<not> is_ws c"
  by (auto simp: is_digit_def is_ws_def)

lemma trim_digits: "list_all is_digit s \<Longrightarrow> js_trim s = s"
  by (rule js_trim_fixed) (auto simp: list_all_iff octet_not_ws)

lemma digit_lower: "is_digit c \<Longrightarrow> lower_char c = c"
  by (auto simp: lower_char_def is_digit_def is_upper_def)

lemma js_number_digits:
  assumes "list_all is_digit s" "s \<noteq> []"
  shows "js_number s = Some (to_double (of_nat (read_digits s)))"
proof -
  have low: "js_lower s = s"
    using assms(1) by (auto simp: js_lower_def list_all_iff digit_lower intro!: map_idI)
  have h: "is_digit (hd s)" and t: "tl s \<noteq> [] \<longrightarrow> is_digit (hd (tl s))"
    using assms by (auto simp: list_all_iff) (metis hd_in_set list.set_sel(2))
  have pre: "\<not> starts_with (CHR ''0'' # [x]) s" if "\<not> is_digit x" for x
    using that t by (cases s; cases "tl s") (auto simp: starts_with_def)
  have nx: "\<not> is_digit CHR ''x''" "\<not> is_digit CHR ''o''" "\<not> is_digit CHR ''b''" "\<not> is_digit CHR ''-''" "\<not> is_digit CHR ''+''"
    "\<not> is_digit CHR ''I''" by (simp_all add: is_digit_def)
  have sg: "\<not> starts_with ''-'' s" "\<not> starts_with ''+'' s" "s \<noteq> ''Infinity''"
    using h nx assms(2) by (auto simp: starts_with_def) (cases s; auto)+
  have tk: "takeWhile is_digit s = s" and dr: "dropWhile is_digit s = []"
    using assms(1) by (auto simp: list_all_iff takeWhile_eq_all_conv)
  have "js_decimal s = Some (to_double (of_nat (read_digits s)))"
    unfolding js_decimal_def Let_def tk dr using assms(2) by simp
  with sg pre nx assms low show ?thesis by (simp add: js_number_def Let_def trim_digits)
qed

lemma to_double_octet: "n \<le> 255 \<Longrightarrow> to_double (of_nat n) = of_nat n"
  using to_double_int [of "int n"] by simp

lemma v4_range:
  assumes "0 \<le> b" "b \<le> 255" "0 \<le> d" "d \<le> 255" "0 \<le> e" "e \<le> 255" "0 \<le> y" "y \<le> z" "z \<le> 255"
  shows "v4 x y 0 0 \<le> v4 a b d e \<and> v4 a b d e \<le> v4 x z 255 255 \<longleftrightarrow> a = x \<and> y \<le> b \<and> b \<le> z"
proof
  assume "v4 x y 0 0 \<le> v4 a b d e \<and> v4 a b d e \<le> v4 x z 255 255"
  then have r: "x * 16777216 + y * 65536 \<le> a * 16777216 + b * 65536 + d * 256 + e"
    "a * 16777216 + b * 65536 + d * 256 + e \<le> x * 16777216 + z * 65536 + 65535" by (simp_all add: v4_def)
  have "\<not> a < x" using r(1) assms by linarith
  moreover have "\<not> x < a" using r(2) assms by linarith
  ultimately have "a = x" by simp
  with r assms show "a = x \<and> y \<le> b \<and> b \<le> z" by (intro conjI; linarith)
next
  assume "a = x \<and> y \<le> b \<and> b \<le> z"
  with assms show "v4 x y 0 0 \<le> v4 a b d e \<and> v4 a b d e \<le> v4 x z 255 255" by (simp add: v4_def)
qed

lemma ipv4_private_iff:
  assumes "parse_ipv4 h = Some [a, b, d, e]"
  shows "is_ipv4_private h \<longleftrightarrow> in_ranges measured_blocked_ranges (v4 (int a) (int b) (int d) (int e))"
    and "a \<le> 255" "b \<le> 255" "d \<le> 255" "e \<le> 255"
proof -
  from parse_ipv4_Some [OF assms] obtain w x y z where h: "h = w @ ''.'' @ x @ ''.'' @ y @ ''.'' @ z"
    and o4: "is_ipv4_octet w" "is_ipv4_octet x" "is_ipv4_octet y" "is_ipv4_octet z"
    and os: "[a, b, d, e] = [read_digits w, read_digits x, read_digits y, read_digits z]" by metis
  from os have vs: "a = read_digits w" "b = read_digits x" "d = read_digits y" "e = read_digits z" by simp_all
  note le = o4 [THEN is_ipv4_octetD(6)]
  then show le': "a \<le> 255" "b \<le> 255" "d \<le> 255" "e \<le> 255" by (simp_all add: vs)
  have parts: "split_char CHR ''.'' h = [w, x, y, z]"
    by (simp add: h o4 split_char_append_delim split_char_no_delim is_digit_colon is_ipv4_octetD)
  have num: "js_number v = Some (of_nat (read_digits v))" if "is_ipv4_octet v" for v
    using is_ipv4_octetD [OF that] by (simp add: js_number_digits to_double_octet)
  have "is_ipv4_private h \<longleftrightarrow>
      a = 0 \<or> a = 10 \<or> a = 127 \<or> (a = 100 \<and> b \<ge> 64 \<and> b \<le> 127) \<or> (a = 169 \<and> b = 254)
        \<or> (a = 172 \<and> b \<ge> 16 \<and> b \<le> 31) \<or> (a = 192 \<and> b = 168) \<or> (a = 198 \<and> (b = 18 \<or> b = 19))"
    using o4 by (simp add: is_ipv4_private_def parts num is_ipv4_octetD vs Let_def flip: of_nat_le_iff of_nat_eq_iff)
  also have "\<dots> \<longleftrightarrow> in_ranges measured_blocked_ranges (v4 (int a) (int b) (int d) (int e))"
    using le' by (simp add: in_ranges_def measured_blocked_ranges_def v4_range [simplified]) auto
  finally show "is_ipv4_private h \<longleftrightarrow> in_ranges measured_blocked_ranges (v4 (int a) (int b) (int d) (int e))" .
qed

lemma dotted_not_local:
  assumes "parse_ipv4 h = Some os"
  shows "h \<notin> set forbidden_hostnames" "\<not> ends_with ''.localhost'' h" "\<not> ends_with ''.local'' h" "\<not> ends_with ''.internal'' h"
    "\<not> is_ipv6_private h"
proof -
  note ch = parse_ipv4_address(1) [OF assms]
  have last: "last h \<in> set h" using parse_ipv4_address(2) [OF assms] by simp
  have nl: "\<not> address_char CHR ''l''" "\<not> address_char CHR ''t''"
    by (simp_all add: address_char_def is_hex_or_colon_def is_hex_char_def is_digit_def)
  have "last h \<noteq> CHR ''l''" "last h \<noteq> CHR ''t''" using ch last nl by (auto simp: list_all_iff)
  then show "\<not> ends_with ''.localhost'' h" "\<not> ends_with ''.local'' h" "\<not> ends_with ''.internal'' h"
    "h \<notin> set forbidden_hostnames"
    by (auto simp: ends_with_iff forbidden_hostnames_def)
  show "\<not> is_ipv6_private h" using parse_ipv4_chars(1) [OF assms] by (simp add: is_ipv6_private_def)
qed

text \<open>A measured URL whose host is an IPv4 address is accepted exactly when it is http or https without
  credentials on the ports 80 and 443 and the address is outside the blocked ranges, given by their first and last
  addresses.\<close>

theorem validated_ipv4_target:
  assumes "parse_url v = Some u" and "parse_ipv4 (js_lower (u_hostname u)) = Some [a, b, d, e]"
  shows "validate_measurement_url parse_url v = Inr u \<longleftrightarrow>
           u_protocol u \<in> {''http:'', ''https:''} \<and> u_username u = [] \<and> u_password u = []
           \<and> u_port u \<in> {[], ''80'', ''443''}
           \<and> \<not> in_ranges measured_blocked_ranges (v4 (int a) (int b) (int d) (int e))"
proof -
  note p = ipv4_private_iff(1) [OF assms(2)] and n = dotted_not_local [OF assms(2)]
  from n have f: "\<not> (js_lower (u_hostname u) \<in> set forbidden_hostnames \<or> ends_with ''.localhost'' (js_lower (u_hostname u))
       \<or> ends_with ''.local'' (js_lower (u_hostname u)) \<or> ends_with ''.internal'' (js_lower (u_hostname u)))"
    and g: "is_forbidden_ip_literal (js_lower (u_hostname u)) = is_ipv4_private (js_lower (u_hostname u))"
    by (simp_all add: is_forbidden_ip_literal_def)
  show ?thesis
    unfolding validate_measurement_url_def assms(1) option.case Let_def if_not_P [OF f] g p
    by (auto simp: allowed_ports_def)
qed

theorem validated_ipv4_target_witness:
  "\<exists>u :: url. validate_measurement_url (\<lambda>_. Some u) [] = Inr u \<longleftrightarrow>
       u_protocol u \<in> {''http:'', ''https:''} \<and> u_username u = [] \<and> u_password u = [] \<and> u_port u \<in> {[], ''80'', ''443''}
       \<and> \<not> in_ranges measured_blocked_ranges (v4 (int 1) (int 2) (int 3) (int 4))"
proof -
  let ?u = "\<lparr> u_protocol = ''http:'', u_username = [], u_password = [], u_hostname = ''1.2.3.4'', u_port = [],
              u_pathname = ''/'', u_search = [], u_hash = [] \<rparr>"
  have "parse_ipv4 (js_lower (u_hostname ?u)) = Some [1, 2, 3, 4]" by code_simp
  then show ?thesis by (intro exI [of _ ?u] validated_ipv4_target) simp_all
qed

section \<open>What a probe signature binds\<close>

lemma mset_insert_by [simp]: "mset (insert_by cmp x ys) = add_mset x (mset ys)"
  by (induction ys) auto

lemma mset_js_sort [simp]: "mset (js_sort cmp xs) = mset xs"
  by (induction xs) (auto simp: js_sort_def)

lemma keyed_eq:
  assumes "map fst A = map fst B" "distinct (map fst A)" "set A = set B"
  shows "A = B"
proof -
  have len: "length A = length B" using assms(1) by (metis length_map)
  have "A ! i = B ! i" if i: "i < length A" for i
  proof -
    obtain k x where A: "A ! i = (k, x)" by (cases "A ! i")
    with i assms(3) have "(k, x) \<in> set B" by (metis nth_mem)
    then obtain j where j: "j < length B" "B ! j = (k, x)" by (meson in_set_conv_nth)
    have "map fst A ! i = k" using A i by simp
    moreover have "map fst A ! j = k" using j len assms(1) by simp
    ultimately have "i = j" using assms(2) i j len by (metis length_map nth_eq_iff_index_eq)
    with A j show ?thesis by simp
  qed
  with len show ?thesis by (simp add: list_eq_iff_nth_eq)
qed

lemma sorted_object_eq:
  assumes "sort_json_value lc (JObj A) = sort_json_value lc (JObj B)"
    and "map fst A = map fst B" "distinct (map fst A)"
  shows "map (sort_json_value lc \<circ> snd) A = map (sort_json_value lc \<circ> snd) B"
proof -
  let ?f = "\<lambda>(k, v). (k, sort_json_value lc v)"
  from assms(1) have "js_sort (\<lambda>l r. lc (fst l) (fst r)) (map ?f A) = js_sort (\<lambda>l r. lc (fst l) (fst r)) (map ?f B)" by simp
  then have "mset (map ?f A) = mset (map ?f B)" by (metis mset_js_sort)
  then have "set (map ?f A) = set (map ?f B)" by (rule mset_eq_setD)
  moreover have fst_f: "map fst (map ?f X) = map fst X" for X :: "(string \<times> json) list"
    by (simp add: case_prod_beta)
  ultimately have "map ?f A = map ?f B"
    using assms(2,3) by (intro keyed_eq) (simp_all only: fst_f)
  then have "map snd (map ?f A) = map snd (map ?f B)" by simp
  then show ?thesis by (simp add: case_prod_beta comp_def)
qed

lemma method_text_inj: "method_text m = method_text n \<longleftrightarrow> m = n"
  by (cases m; cases n) simp_all

lemma sort_json_opt [simp]: "sort_json_value lc (json_opt v) = json_opt v"
  by (cases v) (simp_all add: json_opt_def)

lemma json_opt_inj [simp]: "json_opt v = json_opt w \<longleftrightarrow> v = w"
  by (cases v; cases w) (simp_all add: json_opt_def)

lemma sorted_header_inj:
  assumes "sort_json_value lc (request_header_json h) = sort_json_value lc (request_header_json g)"
  shows "h = g"
  using sorted_object_eq [OF assms [unfolded request_header_json_def]] by (cases h; cases g) simp

lemma map_inj_eq: "map f xs = map f ys \<Longrightarrow> (\<And>x y. f x = f y \<Longrightarrow> x = y) \<Longrightarrow> xs = ys"
  by (metis injI map_injective)

lemma sorted_config_inj:
  assumes "sort_json_value lc (request_config_json r) = sort_json_value lc (request_config_json q)"
  shows "r = q"
proof -
  have m: "rc_method r = rc_method q" and hs: "map (sort_json_value lc \<circ> request_header_json) (rc_headers r)
        = map (sort_json_value lc \<circ> request_header_json) (rc_headers q)"
    and b: "sort_json_value lc (case rc_body r of None \<Rightarrow> JNull
            | Some b \<Rightarrow> JObj [(''mode'', JStr ''text''), (''contentType'', json_opt (rb_contentType b)), (''value'', JStr (rb_value b))])
      = sort_json_value lc (case rc_body q of None \<Rightarrow> JNull
            | Some b \<Rightarrow> JObj [(''mode'', JStr ''text''), (''contentType'', json_opt (rb_contentType b)), (''value'', JStr (rb_value b))])"
    using sorted_object_eq [OF assms [unfolded request_config_json_def]] by (simp_all add: method_text_inj)
  from hs have "rc_headers r = rc_headers q" by (rule map_inj_eq) (simp add: sorted_header_inj)
  moreover have "rc_body r = rc_body q"
  proof (cases "rc_body r"; cases "rc_body q")
    fix x y assume xy: "rc_body r = Some x" "rc_body q = Some y"
    from sorted_object_eq [OF b [unfolded xy option.case]] have "x = y" by (cases x; cases y) simp
    with xy show ?thesis by simp
  qed (use b in simp_all)
  ultimately show ?thesis using m by (cases r; cases q) simp
qed

text \<open>The signed payload of a probe request determines the request: two requests with the same payload
  agree on job, target, region, URL and timestamp, and on the canonical method, headers and body.\<close>

theorem probe_payload_binds_request:
  assumes "to_probe_signature_payload lc r = to_probe_signature_payload lc q"
  shows "pq_jobId r = pq_jobId q \<and> pq_targetId r = pq_targetId q \<and> pq_region r = pq_region q \<and> pq_url r = pq_url q
         \<and> canonicalize_request_config lc (pq_request r) = canonicalize_request_config lc (pq_request q)
         \<and> to_iso_string (pq_timestamp r) = to_iso_string (pq_timestamp q)"
proof -
  from assms have "sort_json_value lc
       (JObj [(''jobId'', JStr (pq_jobId r)), (''targetId'', JStr (pq_targetId r)), (''region'', JStr (pq_region r)),
              (''url'', JStr (pq_url r)),
              (''request'', request_config_json (canonicalize_request_config lc (pq_request r))),
              (''timestamp'', JStr (to_iso_string (pq_timestamp r)))])
     = sort_json_value lc
       (JObj [(''jobId'', JStr (pq_jobId q)), (''targetId'', JStr (pq_targetId q)), (''region'', JStr (pq_region q)),
              (''url'', JStr (pq_url q)),
              (''request'', request_config_json (canonicalize_request_config lc (pq_request q))),
              (''timestamp'', JStr (to_iso_string (pq_timestamp q)))])"
    unfolding to_probe_signature_payload_def stable_stringify_def json_stringify_inj .
  from sorted_object_eq [OF this] show ?thesis
    by (auto dest: sorted_config_inj)
qed

theorem probe_payload_binds_request_witness:
  "\<exists>r q :: probe_request. r \<noteq> q \<and> pq_url r = pq_url q
     \<and> to_probe_signature_payload (\<lambda>_ _. 0) r = to_probe_signature_payload (\<lambda>_ _. 0) q
     \<and> canonicalize_request_config (\<lambda>_ _. 0) (pq_request r) = canonicalize_request_config (\<lambda>_ _. 0) (pq_request q)"
proof -
  let ?r = "\<lparr> pq_jobId = ''j'', pq_targetId = ''t'', pq_region = ''r'', pq_url = ''u'', pq_request = None,
              pq_timestamp = 0, pq_signature = [] \<rparr>"
  let ?q = "?r\<lparr>pq_request := Some default_custom_request_config\<rparr>"
  have e: "to_probe_signature_payload (\<lambda>_ _. 0) ?r = to_probe_signature_payload (\<lambda>_ _. 0) ?q"
    by (simp add: to_probe_signature_payload_def canonicalize_request_config_def)
  from probe_payload_binds_request [OF e] e show ?thesis
    by (intro exI [of _ ?r] exI [of _ ?q]) simp
qed

section \<open>Verification\<close>

lemma hex_pair: "b < 256 \<Longrightarrow> (let h = show_hex b in replicate (2 - length h) CHR ''0'' @ h) = [hex_digit (b div 16), hex_digit (b mod 16)]"
proof -
  assume "b < 256"
  have z: "hex_digit 0 = CHR ''0''" by code_simp
  show ?thesis
  proof (cases "b < 16")
    case True
    then show ?thesis using z by (subst show_hex.simps) simp
  next
    case False
    with \<open>b < 256\<close> have "b div 16 < 16" by simp
    then have "show_hex (b div 16) = [hex_digit (b div 16)]" by (subst show_hex.simps) simp
    with False have "show_hex b = [hex_digit (b div 16), hex_digit (b mod 16)]" by (subst show_hex.simps) simp
    then show ?thesis by simp
  qed
qed

lemma bytes_to_hex_Cons:
  "b < 256 \<Longrightarrow> bytes_to_hex (b # bs) = hex_digit (b div 16) # hex_digit (b mod 16) # bytes_to_hex bs"
  using hex_pair [of b] by (simp add: bytes_to_hex_def)

lemma hex_roundtrip:
  "list_all (\<lambda>b. b < 256) bs \<Longrightarrow> hex_to_bytes (bytes_to_hex bs) = return bs \<and> length (bytes_to_hex bs) = 2 * length bs"
proof (induction bs)
  case (Cons b bs)
  then have "b < 256" by simp
  then have "b div 16 < 16" "b mod 16 < 16" by auto
  with Cons bytes_to_hex_Cons [OF \<open>b < 256\<close>] show ?case
    by (auto simp: hex_to_bytes_def split: if_splits)
qed (simp add: bytes_to_hex_def hex_to_bytes_def)

lemma utf8_char_Cons:
  "utf8_char c @ x = utf8_char d @ y \<Longrightarrow> c = d \<and> x = y"
proof -
  assume e: "utf8_char c @ x = utf8_char d @ y"
  have lt: "code c < (256::nat)" "code d < (256::nat)" by simp_all
  have u: "unat (of_nat n :: 8 word) = n" if "n < 256" for n using that by (simp add: unat_of_nat)
  have w: "(of_nat m :: 8 word) = of_nat n \<longleftrightarrow> m = n" if "m < 256" "n < 256" for m n
    using u [OF that(1)] u [OF that(2)] by (metis)
  have dm: "k div 64 < 4" "k mod 64 < 64" if "k < 256" for k :: nat using that by auto
  have "code c = (code d :: nat) \<and> x = y"
  proof (cases "code c < (128::nat)"; cases "code d < (128::nat)")
    assume "code c < (128::nat)" "code d < (128::nat)"
    with e w [of "code c" "code d"] lt show ?thesis by (simp add: utf8_char_def Let_def)
  next
    assume "code c < (128::nat)" "\<not> code d < (128::nat)"
    with e w [of "code c" "192 + code d div 64"] dm(1) [OF lt(2)] lt show ?thesis by (simp add: utf8_char_def Let_def)
  next
    assume "\<not> code c < (128::nat)" "code d < (128::nat)"
    with e w [of "192 + code c div 64" "code d"] dm(1) [OF lt(1)] lt show ?thesis by (simp add: utf8_char_def Let_def)
  next
    assume "\<not> code c < (128::nat)" "\<not> code d < (128::nat)"
    with e w [of "192 + code c div 64" "192 + code d div 64"] w [of "128 + code c mod 64" "128 + code d mod 64"]
      dm [OF lt(1)] dm [OF lt(2)]
    have "code c div 64 = (code d div 64 :: nat)" "code c mod 64 = (code d mod 64 :: nat)" "x = y"
      by (simp_all add: utf8_char_def Let_def del: of_nat_add)
    then show ?thesis by (metis div_mult_mod_eq)
  qed
  then show ?thesis by auto
qed

lemma utf8_char_ne [simp]: "utf8_char c \<noteq> []"
  by (simp add: utf8_char_def Let_def)

lemma utf8_encode_inj: "utf8_encode a = utf8_encode b \<longleftrightarrow> a = b"
proof
  show "utf8_encode a = utf8_encode b \<Longrightarrow> a = b"
  proof (induction a arbitrary: b)
    case Nil
    then show ?case by (cases b) (auto simp: utf8_encode_def)
  next
    case (Cons c a)
    show ?case
    proof (cases b)
      case (Cons d b')
      with Cons.prems have "utf8_char c @ utf8_encode a = utf8_char d @ utf8_encode b'" by (simp add: utf8_encode_def)
      from utf8_char_Cons [OF this] Cons.IH [of b'] Cons show ?thesis by simp
    qed (use Cons.prems in \<open>simp add: utf8_encode_def\<close>)
  qed
qed simp

lemma or_zero: "(a OR b = 0) = (a = 0 \<and> (b :: 8 word) = 0)"
  by (metis or.left_neutral or.right_neutral or_eq_0_iff)

lemma xor_zero: "(a XOR b = 0) = (a = (b :: 8 word))"
  by (metis xor.assoc xor_self_eq xor.right_neutral xor.left_neutral)

lemma fold_diff_zero:
  "foldl (\<lambda>diff i. diff OR (f i XOR g i)) (d :: 8 word) is = 0 \<longleftrightarrow> d = 0 \<and> (\<forall>i \<in> set is. f i = g i)"
  by (induction "is" arbitrary: d) (auto simp: or_zero xor_zero)

lemma constant_time_equal_iff: "constant_time_equal l r \<longleftrightarrow> l = r"
proof -
  let ?l = "utf8_encode l" and ?r = "utf8_encode r"
  have "constant_time_equal l r \<longleftrightarrow> length ?l = length ?r \<and> (\<forall>i < length ?l. ?l ! i = ?r ! i)"
    by (auto simp: constant_time_equal_def Let_def fold_diff_zero)
  also have "\<dots> \<longleftrightarrow> ?l = ?r" by (metis nth_equalityI)
  finally show ?thesis by (simp add: utf8_encode_inj)
qed

text \<open>The audit worker accepts a request exactly when it holds a secret and the signature is the one
  this secret gives for the request: the comparison over the bytes is equality, and a worker without a secret
  accepts nothing. The hexadecimal text of a signature reads back to its bytes.\<close>

theorem audit_signature_verification:
  assumes "\<And>k m. length (hmac k m) = 32 \<and> list_all (\<lambda>b. b < 256) (hmac k m)"
  shows "(verify_browser_audit_signature hmac aj lc secret request \<longleftrightarrow>
            (\<exists>k. secret = Some k \<and> k \<noteq> [] \<and> wr_signature request = create_browser_audit_signature hmac aj lc k request))
         \<and> (verify_hmac_sha256 hmac k m sig \<longleftrightarrow> sig = create_hmac_sha256 hmac k m)"
proof (rule conjI)
  show "verify_browser_audit_signature hmac aj lc secret request \<longleftrightarrow>
      (\<exists>k. secret = Some k \<and> k \<noteq> [] \<and> wr_signature request = create_browser_audit_signature hmac aj lc k request)"
    by (cases secret) (auto simp: verify_browser_audit_signature_def constant_time_equal_iff)
  show "verify_hmac_sha256 hmac k m sig \<longleftrightarrow> sig = create_hmac_sha256 hmac k m"
  proof
    assume "sig = create_hmac_sha256 hmac k m"
    moreover have "list_all is_lower_hex (bytes_to_hex bs)" if "list_all (\<lambda>b. b < 256) bs" for bs
      using hex_roundtrip [OF that] by (simp add: hex_to_bytes_def split: if_splits)
    ultimately show "verify_hmac_sha256 hmac k m sig"
      using hex_roundtrip [of "hmac k m"] assms [of k m] by (simp add: verify_hmac_sha256_def create_hmac_sha256_def)
  next
    assume v: "verify_hmac_sha256 hmac k m sig"
    then have hx: "list_all is_lower_hex sig" and h: "hmac k m = hex_pairs sig" and even: "length sig mod 2 = 0"
      by (auto simp: verify_hmac_sha256_def hex_to_bytes_def split: if_splits sum.splits)
    have inv: "hex_digit (hex_value c) = c" if "is_lower_hex c" for c
    proof -
      from that consider "48 \<le> code c \<and> code c \<le> (57::nat)" | "97 \<le> code c \<and> code c \<le> (102::nat)"
        by (auto simp: is_lower_hex_def is_digit_def)
      then show ?thesis by cases (auto simp: hex_digit_def hex_value_def is_digit_def is_lower_def)
    qed
    have "bytes_to_hex (hex_pairs s) = s" if "list_all is_lower_hex s" "length s mod 2 = 0" for s
      using that
    proof (induction s rule: hex_pairs.induct)
      case (1 a b s)
      then have v: "hex_value a < 16" "hex_value b < 16" by (auto intro!: hex_value_less)
      with 1 inv [of a] inv [of b] show ?case by (simp add: bytes_to_hex_Cons)
    qed (auto simp: bytes_to_hex_def)
    from this [OF hx even] h show "sig = create_hmac_sha256 hmac k m" by (simp add: create_hmac_sha256_def)
  qed
qed

theorem audit_signature_verification_witness:
  "\<exists>hmac :: string \<Rightarrow> string \<Rightarrow> nat list. \<forall>aj lc request.
     (verify_browser_audit_signature hmac aj lc (Some ''k'') request \<longleftrightarrow>
        wr_signature request = create_browser_audit_signature hmac aj lc ''k'' request)
     \<and> verify_hmac_sha256 hmac ''k'' ''m'' (create_hmac_sha256 hmac ''k'' ''m'')"
proof (intro exI allI)
  let ?hmac = "\<lambda>(k :: string) (m :: string). replicate 32 (7 :: nat)"
  fix aj lc request
  have h: "length (?hmac k m) = 32 \<and> list_all (\<lambda>b. b < 256) (?hmac k m)" for k m by (simp add: list_all_iff)
  show "(verify_browser_audit_signature ?hmac aj lc (Some ''k'') request \<longleftrightarrow>
        wr_signature request = create_browser_audit_signature ?hmac aj lc ''k'' request)
     \<and> verify_hmac_sha256 ?hmac ''k'' ''m'' (create_hmac_sha256 ?hmac ''k'' ''m'')"
    using audit_signature_verification [of ?hmac aj lc "Some ''k''" request "''k''" "''m''" "create_hmac_sha256 ?hmac ''k'' ''m''", OF h]
    by simp
qed

end
