(* ===== verification/Programs.thy ===== *)
theory Programs
  imports Prelude
begin

text \<open>
  Programs with a state and errors: a program takes a state and gives what it threw or its result, and the state it
  left. The handlers of the executor and of the API are such programs, each over its own state. A triple is
  partial correctness: from a state in \<open>P\<close>, a result \<open>x\<close> comes with a state in \<open>Q x\<close>, and what is thrown, \<open>e\<close>,
  with a state in \<open>E e\<close>.
\<close>

section \<open>Programs\<close>

type_synonym ('s, 'e, 'a) act = "'s \<Rightarrow> ('e + 'a) \<times> 's"

definition ret :: "'a \<Rightarrow> ('s, 'e, 'a) act" where
  "ret x s = (Inr x, s)"

definition fail :: "'e \<Rightarrow> ('s, 'e, 'a) act" where
  "fail e s = (Inl e, s)"

definition and_then :: "('s, 'e, 'a) act \<Rightarrow> ('a \<Rightarrow> ('s, 'e, 'b) act) \<Rightarrow> ('s, 'e, 'b) act" where
  "and_then p f s = (case p s of (Inl e, s') \<Rightarrow> (Inl e, s') | (Inr x, s') \<Rightarrow> f x s')"

definition catch :: "('s, 'e, 'a) act \<Rightarrow> ('e \<Rightarrow> ('s, 'e, 'a) act) \<Rightarrow> ('s, 'e, 'a) act" where
  "catch p f s = (case p s of (Inl e, s') \<Rightarrow> f e s' | (Inr x, s') \<Rightarrow> (Inr x, s'))"

fun fold_prog :: "('x \<Rightarrow> 'a \<Rightarrow> ('s, 'e, 'a) act) \<Rightarrow> 'x list \<Rightarrow> 'a \<Rightarrow> ('s, 'e, 'a) act" where
  "fold_prog f [] a = ret a"
| "fold_prog f (x # xs) a = and_then (f x a) (fold_prog f xs)"

fun map_prog :: "('x \<Rightarrow> ('s, 'e, 'a) act) \<Rightarrow> 'x list \<Rightarrow> ('s, 'e, 'a list) act" where
  "map_prog f [] = ret []"
| "map_prog f (x # xs) = and_then (f x) (\<lambda>y. and_then (map_prog f xs) (\<lambda>ys. ret (y # ys)))"

lemma and_then_assoc: "and_then (and_then p f) g = and_then p (\<lambda>x. and_then (f x) g)"
  by (rule ext) (simp add: and_then_def split: sum.split prod.split)

section \<open>Partial correctness\<close>

definition triple ::
  "('s \<Rightarrow> bool) \<Rightarrow> ('s, 'e, 'a) act \<Rightarrow> ('a \<Rightarrow> 's \<Rightarrow> bool) \<Rightarrow> ('e \<Rightarrow> 's \<Rightarrow> bool) \<Rightarrow> bool"
where
  "triple P p Q E \<longleftrightarrow>
     (\<forall>s. P s \<longrightarrow> (case p s of (Inr x, s') \<Rightarrow> Q x s' | (Inl e, s') \<Rightarrow> E e s'))"

named_theorems triple_intros \<open>rules of the primitive programs\<close>

lemma tripleD_Inr: "triple P p Q E \<Longrightarrow> P s \<Longrightarrow> p s = (Inr x, s') \<Longrightarrow> Q x s'"
  unfolding triple_def by (drule spec [of _ s]) simp

lemma tripleD_Inl: "triple P p Q E \<Longrightarrow> P s \<Longrightarrow> p s = (Inl e, s') \<Longrightarrow> E e s'"
  unfolding triple_def by (drule spec [of _ s]) simp

lemma triple_pre: "triple P p Q E \<Longrightarrow> (\<And>s. P' s \<Longrightarrow> P s) \<Longrightarrow> triple P' p Q E"
  by (simp add: triple_def)

lemma triple_post:
  "triple P p Q E \<Longrightarrow> (\<And>x s. Q x s \<Longrightarrow> Q' x s) \<Longrightarrow> (\<And>e s. E e s \<Longrightarrow> E' e s) \<Longrightarrow> triple P p Q' E'"
  unfolding triple_def by (fastforce split: sum.splits prod.splits)

lemma triple_ret [triple_intros]: "(\<And>s. P s \<Longrightarrow> Q x s) \<Longrightarrow> triple P (ret x) Q E"
  by (simp add: triple_def ret_def)

lemma triple_fail [triple_intros]: "(\<And>s. P s \<Longrightarrow> E e s) \<Longrightarrow> triple P (fail e) Q E"
  by (simp add: triple_def fail_def)

lemma triple_and_then:
  "triple P p R E \<Longrightarrow> (\<And>x. triple (R x) (f x) Q E) \<Longrightarrow> triple P (and_then p f) Q E"
  unfolding triple_def and_then_def by (fastforce split: sum.splits prod.splits)

lemma triple_catch:
  "triple P p Q R \<Longrightarrow> (\<And>e. triple (R e) (f e) Q E) \<Longrightarrow> triple P (catch p f) Q E"
  unfolding triple_def catch_def by (fastforce split: sum.splits prod.splits)

lemma triple_if [triple_intros]:
  "(c \<Longrightarrow> triple P p Q E) \<Longrightarrow> (\<not> c \<Longrightarrow> triple P q Q E) \<Longrightarrow> triple P (if c then p else q) Q E"
  by simp

lemma triple_fold:
  assumes "\<And>x a. x \<in> set xs \<Longrightarrow> triple (I a) (f x a) I E"
  shows "triple (I a) (fold_prog f xs a) I E"
  using assms
proof (induction xs arbitrary: a)
  case Nil
  then show ?case by (auto intro!: triple_ret)
next
  case (Cons x xs)
  then show ?case by (auto intro!: triple_and_then [where R = I])
qed

lemma triple_fold_upt_from:
  assumes "\<And>i a. m \<le> i \<Longrightarrow> i < n \<Longrightarrow> triple (I i a) (f i a) (I (Suc i)) E"
  shows "m \<le> n \<Longrightarrow> triple (I m a) (fold_prog f [m..<n] a) (I n) E"
  using assms
proof (induction "n - m" arbitrary: m a)
  case 0
  then show ?case by (auto intro!: triple_ret)
next
  case (Suc k)
  then have "[m..<n] = m # [Suc m..<n]" by (simp add: upt_rec)
  moreover have "triple (I m a) (and_then (f m a) (fold_prog f [Suc m..<n])) (I n) E"
    using Suc by (intro triple_and_then [where R = "I (Suc m)"]) auto
  ultimately show ?case by simp
qed

lemma triple_fold_upt:
  "(\<And>i a. i < n \<Longrightarrow> triple (I i a) (f i a) (I (Suc i)) E) \<Longrightarrow> triple (I 0 a) (fold_prog f [0..<n] a) (I n) E"
  by (rule triple_fold_upt_from) auto

lemma triple_map_prog:
  assumes "\<And>x. x \<in> set xs \<Longrightarrow> triple I (f x) (\<lambda>_. I) E"
  shows "triple I (map_prog f xs) (\<lambda>_. I) E"
  using assms
proof (induction xs)
  case Nil
  then show ?case by (auto intro!: triple_ret)
next
  case (Cons x xs)
  then show ?case by (auto intro!: triple_and_then [where R = "\<lambda>_. I"] triple_ret)
qed

end
