(* ===== verification/Executor_Client.thy ===== *)
theory Executor_Client
  imports Executor_Loop Outbound_Policy
begin

text \<open>
  The executor's client of the control plane, \<open>apps/executor/src/client.ts\<close>: the checks of its configuration, one
  request, and what it keeps of an error body. A fetch is given by its outcome: it fails, or it gives a status and a
  body; \<open>parse_json\<close> is \<open>JSON.parse\<close>, \<open>decode\<close> the schema of the answer. Every operation of the client is one such
  request, so what it throws is an \<open>ExecutorApiError\<close>.
\<close>

section \<open>Configuration\<close>

record client_options =
  co_baseUrl :: string
  co_internalSecret :: string
  co_requestTimeoutMs :: int
  co_allowInsecureHttp :: bool

definition create_executor_api_client :: "(string \<Rightarrow> url option) \<Rightarrow> client_options \<Rightarrow> (url \<times> string) throws" where
  "create_executor_api_client parse_url opts =
     (if \<not> is_safe_integer (co_requestTimeoutMs opts) \<or> co_requestTimeoutMs opts < 100 \<or> co_requestTimeoutMs opts > 300000
      then throw ''Executor API timeout must be an integer between 100 and 300000ms''
      else
        let secret = js_trim (co_internalSecret opts) in
        if length secret < 16 then throw ''Executor API internal secret must contain at least 16 characters''
        else (case parse_url (co_baseUrl opts) of
                None \<Rightarrow> throw ''Executor API base URL is invalid''
              | Some u \<Rightarrow>
                  if u_protocol u \<notin> {''http:'', ''https:''} \<or> u_username u \<noteq> [] \<or> u_password u \<noteq> []
                     \<or> u_pathname u \<noteq> ''/'' \<or> u_search u \<noteq> [] \<or> u_hash u \<noteq> []
                  then throw ''Executor API base URL must be a credential-free HTTP(S) origin''
                  else if u_protocol u = ''http:'' \<and> \<not> is_loopback_hostname parse_url (u_hostname u)
                          \<and> \<not> co_allowInsecureHttp opts
                  then throw ''Executor API HTTP requires a loopback origin or explicit insecure opt-in''
                  else return (u, secret)))"

section \<open>Error bodies\<close>

definition maximum_executor_api_error_bytes :: nat where
  "maximum_executor_api_error_bytes = 16 * 1024"

text \<open>A body that may be read: its chunks, and whether reading fails after them.\<close>

record error_body =
  eb_declaredLength :: "int option"
  eb_chunks :: "string list option"
  eb_locked :: bool
  eb_fails :: bool

fun read_chunks :: "nat \<Rightarrow> nat \<Rightarrow> string list \<Rightarrow> string option" where
  "read_chunks limit n [] = Some []"
| "read_chunks limit n (c # cs) =
     (if n + length c > limit then None
      else map_option (\<lambda>r. c @ r) (read_chunks limit (n + length c) cs))"

text \<open>\<open>Inl\<close>: reading threw; \<open>Inr None\<close>: nothing to show for the body.\<close>

definition read_bounded_response_text :: "error_body \<Rightarrow> nat \<Rightarrow> string option throws" where
  "read_bounded_response_text b limit =
     (if (case eb_declaredLength b of None \<Rightarrow> False | Some n \<Rightarrow> n > int limit) then return None
      else (case eb_chunks b of
              None \<Rightarrow> return (Some [])
            | Some cs \<Rightarrow>
                if eb_locked b then return None
                else (case read_chunks limit 0 cs of
                        None \<Rightarrow> return None
                      | Some t \<Rightarrow> if eb_fails b then throw ''read failed'' else return (Some t))))"

definition is_hex_i :: "char \<Rightarrow> bool" where
  "is_hex_i c = is_hex_char c"

definition is_incident_id :: "string \<Rightarrow> bool" where
  "is_incident_id s =
     (map length (split_char CHR ''-'' s) = [8, 4, 4, 4, 12]
      \<and> list_all (list_all is_hex_i) (split_char CHR ''-'' s)
      \<and> code (s ! 14) \<in> {49 .. 53 :: nat} \<and> js_lower [s ! 19] \<in> {''8'', ''9'', ''a'', ''b''})"

definition is_server_code :: "string \<Rightarrow> bool" where
  "is_server_code s =
     (1 \<le> length s \<and> length s \<le> 80 \<and> is_upper (hd s)
      \<and> list_all (\<lambda>c. is_upper c \<or> is_digit c \<or> c = CHR ''_'') (tl s))"

definition text_field :: "string \<Rightarrow> (string \<Rightarrow> bool) \<Rightarrow> (string \<times> json) list \<Rightarrow> string option" where
  "text_field k p kvs = (case json_field k kvs of Some (JStr s) \<Rightarrow> if p s then Some s else None | _ \<Rightarrow> None)"

definition read_executor_api_error_details ::
  "(string \<Rightarrow> json option) \<Rightarrow> error_body \<Rightarrow> string option \<times> string option" where
  "read_executor_api_error_details parse_json b =
     (case read_bounded_response_text b maximum_executor_api_error_bytes of
        Inl _ \<Rightarrow> (None, None)
      | Inr t \<Rightarrow>
          (case t of
             None \<Rightarrow> (None, None)
           | Some s \<Rightarrow>
               if s = [] then (None, None)
               else (case parse_json s of
                       Some (JObj kvs) \<Rightarrow>
                         (text_field ''incidentId'' is_incident_id kvs, text_field ''code'' is_server_code kvs)
                     | _ \<Rightarrow> (None, None))))"

section \<open>One request\<close>

text \<open>What a cause is known by: its name and its \<open>code\<close>.\<close>

type_synonym cause = "string option \<times> string option"

datatype fetch_outcome =
    FetchFails cause
  | FetchResponds int error_body "cause + json"

definition api_failure :: "int option \<Rightarrow> cause \<Rightarrow> string option \<times> string option \<Rightarrow> api_error" where
  "api_failure status cause details =
     \<lparr> ae_status = status, ae_incidentId = fst details, ae_serverCode = snd details,
       ae_causeName = fst cause, ae_causeCode = snd cause \<rparr>"

definition no_cause :: cause where "no_cause = (None, None)"

definition client_request ::
  "(string \<Rightarrow> json option) \<Rightarrow> (json \<Rightarrow> 'a option) option \<Rightarrow> bool \<Rightarrow> fetch_outcome \<Rightarrow> (api_error + 'a option)" where
  "client_request parse_json schema allowEmpty outcome =
     (case outcome of
        FetchFails cause \<Rightarrow> Inl (api_failure None cause (None, None))
      | FetchResponds status body payload \<Rightarrow>
          if allowEmpty \<and> status = 204 then Inr None
          else if \<not> (200 \<le> status \<and> status \<le> 299)
          then Inl (api_failure (Some status) no_cause (read_executor_api_error_details parse_json body))
          else (case schema of
                  None \<Rightarrow> Inl (api_failure (Some status) no_cause (None, None))
                | Some decode \<Rightarrow>
                    (case payload of
                       Inl cause \<Rightarrow> Inl (api_failure (Some status) cause (None, None))
                     | Inr v \<Rightarrow>
                         (case decode v of
                            None \<Rightarrow> Inl (api_failure (Some status) (Some ''ZodError'', None) (None, None))
                          | Some x \<Rightarrow> Inr (Some x)))))"

text \<open>The operations that need an answer.\<close>

definition client_mutate ::
  "(string \<Rightarrow> json option) \<Rightarrow> (json \<Rightarrow> 'a option) \<Rightarrow> fetch_outcome \<Rightarrow> (api_error + 'a)" where
  "client_mutate parse_json decode outcome =
     (case client_request parse_json (Some decode) False outcome of
        Inl e \<Rightarrow> Inl e
      | Inr None \<Rightarrow> Inl (api_failure None no_cause (None, None))
      | Inr (Some x) \<Rightarrow> Inr x)"

definition client_claim ::
  "(string \<Rightarrow> json option) \<Rightarrow> (json \<Rightarrow> 'a option) \<Rightarrow> fetch_outcome \<Rightarrow> (api_error + 'a option)" where
  "client_claim parse_json decode outcome = client_request parse_json (Some decode) True outcome"

definition client_save_result :: "(string \<Rightarrow> json option) \<Rightarrow> fetch_outcome \<Rightarrow> (api_error + unit)" where
  "client_save_result parse_json outcome =
     (case client_request parse_json (None :: (json \<Rightarrow> unit option) option) True outcome of
        Inl e \<Rightarrow> Inl e
      | Inr _ \<Rightarrow> Inr ())"

lemma save_result_needs_204:
  "client_save_result parse_json outcome = Inr () \<longleftrightarrow> (\<exists>body payload. outcome = FetchResponds 204 body payload)"
  by (cases outcome) (auto simp: client_save_result_def client_request_def)

lemma mutate_never_empty: "client_mutate parse_json decode outcome = Inr x \<Longrightarrow> \<exists>v. decode v = Some x"
  by (auto simp: client_mutate_def client_request_def split: fetch_outcome.splits if_splits sum.splits option.splits)

end
