(* ===== verification/Handler_Base.thy ===== *)
theory Handler_Base
  imports Programs Url_Policy Executor_Client Report_Core
begin

text \<open>
  What the three execution handlers of the executor share (\<open>apps/executor/src/execution-utils.ts\<close> and the effects of
  the handlers). A handler runs in a world \<open>'w\<close> it cannot see into: the clock, \<open>Math.random\<close>, the abort signal, the
  control plane and the network are functions of a host, each gives its answer and the next world. The host's
  operations of the control plane throw \<open>ExecutorApiError\<close>s, as the client does. A program of a handler takes
  the world and the trace of the effects so far and gives its result, or what it threw, and both anew: the trace
  lists what was asked of the outside, in order.
\<close>

section \<open>Requests and answers\<close>

record pinned_post =
  pp_url :: url
  pp_headers :: "(string \<times> string) list"
  pp_body :: string
  pp_addressPolicy :: address_policy
  pp_discardResponseBody :: bool

text \<open>A response: its status, the headers the handlers read, and its body read as JSON and parsed by the schema
  of the handler (\<open>Inl\<close>: reading threw an error of this name and \<open>code\<close>; \<open>None\<close>: the schema rejects it).\<close>

record 'p http_response =
  hr_status :: int
  hr_retryAfter :: "string option"
  hr_contentType :: "string option"
  hr_json :: "(string \<times> string option) + 'p option"

definition hr_ok :: "'p http_response \<Rightarrow> bool" where
  "hr_ok r = (200 \<le> hr_status r \<and> hr_status r \<le> 299)"

datatype effect =
    Saved exec_result
  | Followups "enqueue_job list"
  | Posted pinned_post
  | Granted
  | Fetched url audit_worker_request
  | Logged string

section \<open>The host\<close>

record ('w, 'p) host =
  h_now :: "'w \<Rightarrow> iso \<times> 'w"
  h_random :: "'w \<Rightarrow> rat \<times> 'w"
  h_aborted :: "'w \<Rightarrow> thrown option"
  h_context :: "'w \<Rightarrow> (api_error + exec_context) \<times> 'w"
  h_save :: "exec_result \<Rightarrow> 'w \<Rightarrow> (api_error + unit) \<times> 'w"
  h_followups :: "enqueue_job list \<Rightarrow> 'w \<Rightarrow> (api_error + unit) \<times> 'w"
  h_grant :: "'w \<Rightarrow> (api_error + upload_config) \<times> 'w"
  h_post :: "pinned_post \<Rightarrow> 'w \<Rightarrow> (outbound_error + 'p http_response) \<times> 'w"
  h_fetch :: "url \<Rightarrow> audit_worker_request \<Rightarrow> 'w \<Rightarrow> (thrown + 'p http_response) \<times> 'w"

text \<open>What a handler catches of an outbound request: the name of the error and its \<open>code\<close>. The reason of an
  aborted signal is only rethrown by \<open>throwIfAborted\<close>, which the handlers call first.\<close>

fun policy_code_text :: "policy_code \<Rightarrow> string" where
  "policy_code_text InvalidTarget = ''invalid_target''"
| "policy_code_text DnsFailed = ''dns_failed''"
| "policy_code_text AddressBlocked = ''address_blocked''"

fun thrown_of_outbound :: "outbound_error \<Rightarrow> thrown" where
  "thrown_of_outbound (PolicyError c m) = ThrownError ''OutboundHttpPolicyError'' (Some (policy_code_text c))"
| "thrown_of_outbound AbortReason = ThrownValue None"
| "thrown_of_outbound (PlainError m) = ThrownError ''Error'' None"
| "thrown_of_outbound (SocketError c) = ThrownError ''Error'' (Some c)"

text \<open>The runtime the handlers use: \<open>new URL\<close>, HMAC, the locale's order, what \<open>url()\<close> accepts, the JSON of a policy
  and a cookie.\<close>

record runtime =
  rt_parseUrl :: "string \<Rightarrow> url option"
  rt_hmac :: "string \<Rightarrow> string \<Rightarrow> nat list"
  rt_localeCompare :: "string \<Rightarrow> string \<Rightarrow> int"
  rt_isUrl :: "string \<Rightarrow> bool"
  rt_auditJson :: audit_json

section \<open>Programs\<close>

type_synonym 'w run_state = "'w \<times> effect list"
type_synonym ('w, 'a) prog = "('w run_state, thrown, 'a) act"

definition now_p :: "('w, 'p) host \<Rightarrow> ('w, iso) prog" where
  "now_p h s = (let (t, w) = h_now h (fst s) in (Inr t, (w, snd s)))"

definition random_p :: "('w, 'p) host \<Rightarrow> ('w, rat) prog" where
  "random_p h s = (let (t, w) = h_random h (fst s) in (Inr t, (w, snd s)))"

definition log_p :: "string \<Rightarrow> ('w, unit) prog" where
  "log_p e s = (Inr (), (fst s, snd s @ [Logged e]))"

text \<open>\<open>throwIfAborted\<close>: the reason of the signal when it is an error, otherwise a failure.\<close>

definition throw_if_aborted :: "('w, 'p) host \<Rightarrow> ('w, unit) prog" where
  "throw_if_aborted h s =
     (case h_aborted h (fst s) of
        None \<Rightarrow> (Inr (), s)
      | Some (ThrownValue _) \<Rightarrow>
          (Inl (ThrownFailure \<lparr>xf_code = ''execution_aborted'', xf_message = ''Execution was aborted'',
                               xf_retryable = True, xf_retryDelayMs = Some 1000\<rparr>), s)
      | Some e \<Rightarrow> (Inl e, s))"

definition api_result :: "(api_error + 'a) \<times> 'w \<Rightarrow> effect list \<Rightarrow> (thrown + 'a) \<times> 'w run_state" where
  "api_result r t = (case r of (Inl e, w) \<Rightarrow> (Inl (ThrownApi e), (w, t)) | (Inr x, w) \<Rightarrow> (Inr x, (w, t)))"

definition context_p :: "('w, 'p) host \<Rightarrow> ('w, exec_context) prog" where
  "context_p h s = api_result (h_context h (fst s)) (snd s)"

definition save_p :: "('w, 'p) host \<Rightarrow> exec_result \<Rightarrow> ('w, unit) prog" where
  "save_p h r s = api_result (h_save h r (fst s)) (snd s @ [Saved r])"

definition followups_p :: "('w, 'p) host \<Rightarrow> enqueue_job list \<Rightarrow> ('w, unit) prog" where
  "followups_p h js s = api_result (h_followups h js (fst s)) (snd s @ [Followups js])"

definition grant_p :: "('w, 'p) host \<Rightarrow> ('w, upload_config) prog" where
  "grant_p h s = api_result (h_grant h (fst s)) (snd s @ [Granted])"

definition post_p :: "('w, 'p) host \<Rightarrow> pinned_post \<Rightarrow> ('w, 'p http_response) prog" where
  "post_p h r s =
     (case h_post h r (fst s) of
        (Inl e, w) \<Rightarrow> (Inl (thrown_of_outbound e), (w, snd s @ [Posted r]))
      | (Inr x, w) \<Rightarrow> (Inr x, (w, snd s @ [Posted r])))"

definition fetch_p :: "('w, 'p) host \<Rightarrow> url \<Rightarrow> audit_worker_request \<Rightarrow> ('w, 'p http_response) prog" where
  "fetch_p h u r s = (let (x, w) = h_fetch h u r (fst s) in (x, (w, snd s @ [Fetched u r])))"

definition json_p :: "'p http_response \<Rightarrow> ('w, 'p option) prog" where
  "json_p r s = (case hr_json r of Inl (name, c) \<Rightarrow> (Inl (ThrownError name c), s) | Inr p \<Rightarrow> (Inr p, s))"

definition retry_failure :: "string \<Rightarrow> string \<Rightarrow> int \<Rightarrow> thrown" where
  "retry_failure c m delay =
     ThrownFailure \<lparr>xf_code = c, xf_message = m, xf_retryable = True, xf_retryDelayMs = Some delay\<rparr>"

definition final_failure :: "string \<Rightarrow> string \<Rightarrow> thrown" where
  "final_failure c m =
     ThrownFailure \<lparr>xf_code = c, xf_message = m, xf_retryable = False, xf_retryDelayMs = None\<rparr>"

section \<open>Rules\<close>

lemma triple_now: "(\<And>t s w. P s \<Longrightarrow> Q t (w, snd s)) \<Longrightarrow> triple P (now_p h) Q E"
  unfolding triple_def now_p_def by (force split: prod.splits)

lemma triple_random: "(\<And>t s w. P s \<Longrightarrow> Q t (w, snd s)) \<Longrightarrow> triple P (random_p h) Q E"
  unfolding triple_def random_p_def by (force split: prod.splits)

lemma triple_log: "(\<And>s. P s \<Longrightarrow> Q () (fst s, snd s @ [Logged e])) \<Longrightarrow> triple P (log_p e) Q E"
  by (simp add: triple_def log_p_def)

lemma triple_api:
  assumes "\<And>s x w. P s \<Longrightarrow> Q x (w, t s)" "\<And>s e w. P s \<Longrightarrow> E (ThrownApi e) (w, t s)"
  shows "triple P (\<lambda>s. api_result (f s) (t s)) Q E"
  using assms unfolding triple_def api_result_def by (fastforce split: sum.splits prod.splits)

lemma triple_save:
  assumes "\<And>s w. P s \<Longrightarrow> Q () (w, snd s @ [Saved r])" "\<And>s e w. P s \<Longrightarrow> E (ThrownApi e) (w, snd s @ [Saved r])"
  shows "triple P (save_p h r) Q E"
  unfolding save_p_def by (rule triple_api) (use assms in auto)

lemma triple_followups:
  assumes "\<And>s w. P s \<Longrightarrow> Q () (w, snd s @ [Followups r])" "\<And>s e w. P s \<Longrightarrow> E (ThrownApi e) (w, snd s @ [Followups r])"
  shows "triple P (followups_p h r) Q E"
  unfolding followups_p_def by (rule triple_api) (use assms in auto)

lemma triple_context:
  assumes "\<And>s x w. P s \<Longrightarrow> Q x (w, snd s)" "\<And>s e w. P s \<Longrightarrow> E (ThrownApi e) (w, snd s)"
  shows "triple P (context_p h) Q E"
  unfolding context_p_def by (rule triple_api) (use assms in auto)

lemma triple_grant:
  assumes "\<And>s x w. P s \<Longrightarrow> Q x (w, snd s @ [Granted])" "\<And>s e w. P s \<Longrightarrow> E (ThrownApi e) (w, snd s @ [Granted])"
  shows "triple P (grant_p h) Q E"
  unfolding grant_p_def by (rule triple_api) (use assms in auto)

lemma triple_post_p:
  assumes "\<And>s x w. P s \<Longrightarrow> Q x (w, snd s @ [Posted r])"
    "\<And>s e w. P s \<Longrightarrow> E (thrown_of_outbound e) (w, snd s @ [Posted r])"
  shows "triple P (post_p h r) Q E"
  using assms unfolding triple_def post_p_def by (auto split: sum.splits prod.splits)

lemma triple_fetch_p:
  assumes "\<And>s x w. P s \<Longrightarrow> Q x (w, snd s @ [Fetched u r])" "\<And>s e w. P s \<Longrightarrow> E e (w, snd s @ [Fetched u r])"
  shows "triple P (fetch_p h u r) Q E"
  using assms unfolding triple_def fetch_p_def by (auto split: sum.splits prod.splits)

lemma triple_json:
  assumes "\<And>s x. P s \<Longrightarrow> Q x s" "\<And>s n c. P s \<Longrightarrow> E (ThrownError n c) s"
  shows "triple P (json_p r) Q E"
  using assms unfolding triple_def json_p_def by (auto split: sum.splits)

text \<open>An abort throws the reason of the signal or the failure of an abort.\<close>

definition abort_error :: "('w, 'p) host \<Rightarrow> thrown \<Rightarrow> bool" where
  "abort_error h e \<longleftrightarrow>
     (\<exists>w. h_aborted h w = Some e)
     \<or> e = ThrownFailure \<lparr>xf_code = ''execution_aborted'', xf_message = ''Execution was aborted'',
                           xf_retryable = True, xf_retryDelayMs = Some 1000\<rparr>"

lemma triple_abort:
  assumes "\<And>s. P s \<Longrightarrow> Q () s" "\<And>s e. P s \<Longrightarrow> abort_error h e \<Longrightarrow> E e s"
  shows "triple P (throw_if_aborted h) Q E"
  unfolding triple_def
proof (intro allI impI)
  fix s assume P: "P s"
  have "(\<exists>e. throw_if_aborted h s = (Inl e, s) \<and> abort_error h e) \<or> throw_if_aborted h s = (Inr (), s)"
    unfolding throw_if_aborted_def abort_error_def by (auto split: option.split thrown.split)
  with P assms show "case throw_if_aborted h s of (Inl e, s') \<Rightarrow> E e s' | (Inr x, s') \<Rightarrow> Q x s'" by auto
qed

text \<open>The context is asked for first, in the world the handler starts in.\<close>

lemma triple_context_at:
  assumes "\<And>e w'. E (ThrownApi e) (w', [])"
  shows "triple (\<lambda>s. s = (w, [])) (context_p h) (\<lambda>ctx s. snd s = [] \<and> fst (h_context h w) = Inr ctx) E"
  using assms unfolding triple_def context_p_def api_result_def by (auto split: sum.splits prod.splits)

text \<open>What was asked of the outside, and what was stored last.\<close>

definition posts :: "effect list \<Rightarrow> pinned_post list" where
  "posts tr = concat (map (\<lambda>e. case e of Posted r \<Rightarrow> [r] | _ \<Rightarrow> []) tr)"

definition fetches :: "effect list \<Rightarrow> (url \<times> audit_worker_request) list" where
  "fetches tr = concat (map (\<lambda>e. case e of Fetched u r \<Rightarrow> [(u, r)] | _ \<Rightarrow> []) tr)"

definition saves :: "effect list \<Rightarrow> exec_result list" where
  "saves tr = concat (map (\<lambda>e. case e of Saved r \<Rightarrow> [r] | _ \<Rightarrow> []) tr)"

definition last_saved :: "effect list \<Rightarrow> exec_result option" where
  "last_saved tr = (if saves tr = [] then None else Some (last (saves tr)))"

lemma trace_simps [simp]:
  "posts [] = []" "posts (a @ b) = posts a @ posts b"
  "posts (e # tr) = (case e of Posted r \<Rightarrow> [r] | _ \<Rightarrow> []) @ posts tr"
  "fetches [] = []" "fetches (a @ b) = fetches a @ fetches b"
  "fetches (e # tr) = (case e of Fetched u q \<Rightarrow> [(u, q)] | _ \<Rightarrow> []) @ fetches tr"
  "saves [] = []" "saves (a @ b) = saves a @ saves b"
  "saves (e # tr) = (case e of Saved r \<Rightarrow> [r] | _ \<Rightarrow> []) @ saves tr"
  by (simp_all add: posts_def fetches_def saves_def)

lemma last_saved_simps [simp]:
  "last_saved [] = None"
  "last_saved (tr @ [Saved r]) = Some r"
  "last_saved (tr @ [Followups js]) = last_saved tr"
  "last_saved (tr @ [Posted p]) = last_saved tr"
  "last_saved (tr @ [Granted]) = last_saved tr"
  "last_saved (tr @ [Fetched u q]) = last_saved tr"
  "last_saved (tr @ [Logged l]) = last_saved tr"
  by (simp_all add: last_saved_def saves_def)

end
