(* ===== verification/Network_Handler.thy ===== *)
theory Network_Handler
  imports Handler_Base
begin

text \<open>
  The network probe handler, \<open>apps/executor/src/network-handler.ts\<close>: every pending target of the jobs of an
  execution is measured by the probe, its outcome is stored after every step, and the run is evaluated at
  the end. The source updates the jobs in place; here a step takes a job and gives the updated one, and
  \<open>persist\<close> stores it with the others of the execution.
\<close>

section \<open>Options and delays\<close>

record net_options =
  no_probeSharedSecret :: string
  no_probeBaseUrl :: string
  no_allowInsecureProbeHttp :: bool

definition probe_measurement_timeout_ms :: int where "probe_measurement_timeout_ms = 40000"

definition probe_transport_response_timeout_ms :: int where
  "probe_transport_response_timeout_ms = probe_measurement_timeout_ms + 5000"

definition maximum_probe_retry_after_seconds :: int where
  "maximum_probe_retry_after_seconds = \<lceil>(of_int probe_measurement_timeout_ms / 1000 :: rat)\<rceil>"

definition probe_retry_delay_ms :: "string option \<Rightarrow> int \<Rightarrow> rat \<Rightarrow> int" where
  "probe_retry_delay_ms retryAfter attemptCount random =
     (let fallback = retry_delay_ms attemptCount random;
          v = (case retryAfter of None \<Rightarrow> [] | Some s \<Rightarrow> js_trim s) in
      if \<not> (1 \<le> length v \<and> length v \<le> 3 \<and> list_all is_digit v \<and> hd v \<noteq> CHR ''0'') then fallback
      else
        let seconds = int (read_digits v) in
        if seconds \<le> maximum_probe_retry_after_seconds then seconds * 1000 else fallback)"

section \<open>The probe origin\<close>

definition resolve_probe_measure_url :: "(string \<Rightarrow> url option) \<Rightarrow> string \<Rightarrow> bool \<Rightarrow> thrown + url" where
  "resolve_probe_measure_url parse_url baseUrl allowInsecureHttp =
     (let invalid = Inl (final_failure ''invalid_probe_origin'' ''Network probe origin is invalid'') in
      case parse_url baseUrl of
        None \<Rightarrow> invalid
      | Some u \<Rightarrow>
          let loopbackHostname = is_loopback_hostname parse_url (u_hostname u);
              protocolAllowed = (u_protocol u = ''https:''
                \<or> (u_protocol u = ''http:'' \<and> (loopbackHostname \<or> allowInsecureHttp))) in
          if \<not> protocolAllowed \<or> u_username u \<noteq> [] \<or> u_password u \<noteq> [] \<or> u_pathname u \<noteq> ''/''
             \<or> u_search u \<noteq> [] \<or> u_hash u \<noteq> []
          then invalid
          else Inr (u\<lparr>u_pathname := ''/measure'', u_search := [], u_hash := []\<rparr>))"

definition parse_probe_base_url :: "(string \<Rightarrow> url option) \<Rightarrow> string \<Rightarrow> bool \<Rightarrow> thrown + string" where
  "parse_probe_base_url parse_url baseUrl allowInsecureHttp =
     (if baseUrl = [] then Inl (ThrownError ''Error'' None)
      else (case resolve_probe_measure_url parse_url baseUrl allowInsecureHttp of
              Inl e \<Rightarrow> Inl e
            | Inr u \<Rightarrow> Inr (url_origin u)))"

definition probe_address_policy :: "(string \<Rightarrow> url option) \<Rightarrow> url \<Rightarrow> bool \<Rightarrow> address_policy" where
  "probe_address_policy parse_url u allowInsecureHttp =
     (if is_loopback_hostname parse_url (u_hostname u) then LoopbackOnly
      else if allowInsecureHttp
      then (let hostname = normalize_outbound_hostname (u_hostname u) in
            if is_ip hostname > 0 \<or> CHR ''.'' \<notin> set hostname \<or> ends_with ''.local'' hostname
               \<or> ends_with ''.internal'' hostname
            then TrustedPrivate else PublicOnly)
      else PublicOnly)"

section \<open>Targets\<close>

definition reset_target_measurement :: "job_target \<Rightarrow> job_target" where
  "reset_target_measurement t =
     t\<lparr>tgt_latencyMs := None, tgt_statusCode := None, tgt_success := None, tgt_probeImpl := None,
       tgt_measurement := None, tgt_errorCode := None, tgt_errorClass := None, tgt_errorMessage := None,
       tgt_finishedAt := None\<rparr>"

definition mark_target_retryable :: "string \<Rightarrow> iso \<Rightarrow> job_target \<Rightarrow> job_target" where
  "mark_target_retryable errorCode now t =
     (reset_target_measurement t)
       \<lparr>tgt_status := TQueued, tgt_errorCode := Some errorCode, tgt_errorClass := Some Retryable,
        tgt_errorMessage := Some ''Network probe will be retried'', tgt_finishedAt := None, tgt_updatedAt := now\<rparr>"

definition mark_target_failed :: "string \<Rightarrow> string \<Rightarrow> iso \<Rightarrow> iso \<Rightarrow> job_target \<Rightarrow> job_target" where
  "mark_target_failed errorCode errorMessage finishedAt updatedAt t =
     (reset_target_measurement t)
       \<lparr>tgt_status := TFailed, tgt_success := Some False, tgt_slotId := None, tgt_errorCode := Some errorCode,
        tgt_errorClass := Some Terminal, tgt_errorMessage := Some errorMessage,
        tgt_finishedAt := Some finishedAt, tgt_updatedAt := updatedAt\<rparr>"

definition build_status_failure_message :: "int option \<Rightarrow> string" where
  "build_status_failure_message statusCode =
     (case statusCode of
        None \<Rightarrow> ''Network probe did not return an HTTP status''
      | Some c \<Rightarrow> ''Status '' @ show_int c @ '' did not satisfy status_2xx_3xx'')"

definition apply_measurement :: "probe_response \<Rightarrow> iso \<Rightarrow> job_target \<Rightarrow> job_target" where
  "apply_measurement response now t =
     (let m = pr_measurement response;
          success = (me_error m = None
                     \<and> (case me_statusCode m of None \<Rightarrow> False | Some c \<Rightarrow> c \<ge> 200 \<and> c < 400));
          t1 = t\<lparr>tgt_status := (if success then TSucceeded else TFailed), tgt_latencyMs := Some (me_latencyMs m),
                 tgt_statusCode := me_statusCode m, tgt_success := Some success,
                 tgt_probeImpl := Some (me_probeImpl m), tgt_measurement := Some m,
                 tgt_errorCode := None, tgt_errorMessage := None\<rparr>;
          t2 = (if me_error m \<noteq> None \<and> me_error m \<noteq> Some []
                then t1\<lparr>tgt_errorCode := Some ''probe_measurement_failed'',
                        tgt_errorMessage := Some ''Network probe measurement failed''\<rparr>
                else if \<not> success
                then t1\<lparr>tgt_errorCode := Some ''status_rule_failed'',
                        tgt_errorMessage := Some (build_status_failure_message (me_statusCode m))\<rparr>
                else t1) in
      t2\<lparr>tgt_errorClass := (if success then None else Some Terminal),
         tgt_finishedAt := Some (me_measuredAt m), tgt_updatedAt := now\<rparr>)"

definition recompute_job :: "latency_job \<Rightarrow> latency_job" where
  "recompute_job j =
     j\<lparr>job_summary := summarize_targets (job_targets j), job_status := derive_job_status (job_targets j),
       job_evaluation := Some (evaluate_monitor_targets (job_monitorPolicy j) (job_targets j) 0)\<rparr>"

definition update_target :: "nat \<Rightarrow> (job_target \<Rightarrow> job_target) \<Rightarrow> latency_job \<Rightarrow> latency_job" where
  "update_target i f j = j\<lparr>job_targets := (job_targets j)[i := f (job_targets j ! i)]\<rparr>"

definition recompute_and_persist_job ::
  "(latency_job \<Rightarrow> ('w, unit) prog) \<Rightarrow> latency_job \<Rightarrow> ('w, latency_job) prog" where
  "recompute_and_persist_job persist j =
     (let j' = recompute_job j in and_then (persist j') (\<lambda>_. ret j'))"

definition fail_target ::
  "('w, 'p) host \<Rightarrow> (latency_job \<Rightarrow> ('w, unit) prog) \<Rightarrow> nat \<Rightarrow> string \<Rightarrow> string \<Rightarrow> latency_job \<Rightarrow> ('w, latency_job) prog"
where
  "fail_target h persist i errorCode errorMessage j =
     and_then (now_p h) (\<lambda>finishedAt. and_then (now_p h) (\<lambda>updatedAt.
       recompute_and_persist_job persist
         (update_target i (mark_target_failed errorCode errorMessage finishedAt updatedAt) j)))"

text \<open>Put the target back and end the execution with a retryable failure after the delay.\<close>

definition retry_target ::
  "('w, 'p) host \<Rightarrow> (latency_job \<Rightarrow> ('w, unit) prog) \<Rightarrow> nat \<Rightarrow> string \<Rightarrow> (rat \<Rightarrow> int) \<Rightarrow> latency_job
   \<Rightarrow> ('w, latency_job) prog" where
  "retry_target h persist i errorCode delay j =
     and_then (now_p h) (\<lambda>updatedAt.
     and_then (recompute_and_persist_job persist (update_target i (mark_target_retryable errorCode updatedAt) j)) (\<lambda>_.
     and_then (random_p h) (\<lambda>r.
       fail (retry_failure ''probe_temporarily_unavailable'' ''Network probe is temporarily unavailable'' (delay r)))))"

section \<open>One request to the probe\<close>

definition probe_target_url_ok :: "(string \<Rightarrow> bool) \<Rightarrow> (string \<Rightarrow> url option) \<Rightarrow> string \<Rightarrow> bool" where
  "probe_target_url_ok is_url parse_url v =
     (length v \<le> 8192 \<and> is_url v
      \<and> (case parse_url v of None \<Rightarrow> False | Some u \<Rightarrow> u_protocol u \<in> {''http:'', ''https:''}))"

definition signed_probe_request_schema :: "(string \<Rightarrow> bool) \<Rightarrow> (string \<Rightarrow> url option) \<Rightarrow> probe_request \<Rightarrow> bool" where
  "signed_probe_request_schema is_url parse_url r =
     (bounded_job_id_ok (pq_jobId r) \<and> bounded_target_id_ok (pq_targetId r) \<and> runtime_region_id_ok (pq_region r)
      \<and> probe_target_url_ok is_url parse_url (pq_url r) \<and> opt_ok request_schema (pq_request r)
      \<and> length (pq_signature r) = 64 \<and> list_all is_lower_hex (pq_signature r))"

definition probe_request_json :: "probe_request \<Rightarrow> json" where
  "probe_request_json r =
     JObj ([(''jobId'', JStr (pq_jobId r)), (''targetId'', JStr (pq_targetId r)), (''region'', JStr (pq_region r)),
            (''url'', JStr (pq_url r))]
           @ (case pq_request r of None \<Rightarrow> [] | Some c \<Rightarrow> [(''request'', request_config_json c)])
           @ [(''timestamp'', JStr (to_iso_string (pq_timestamp r))), (''signature'', JStr (pq_signature r)),
              (''keyVersion'', JStr ''current'')])"

definition expected_target_id :: "latency_job \<Rightarrow> job_target \<Rightarrow> string" where
  "expected_target_id j t = job_id j @ '':'' @ tgt_region t"

definition sign_probe_request :: "runtime \<Rightarrow> string \<Rightarrow> probe_request \<Rightarrow> probe_request" where
  "sign_probe_request rt secret r =
     r\<lparr>pq_signature := create_probe_signature (rt_hmac rt) (rt_localeCompare rt) secret r\<rparr>"

definition probe_request_of :: "runtime \<Rightarrow> net_options \<Rightarrow> latency_job \<Rightarrow> job_target \<Rightarrow> iso \<Rightarrow> probe_request" where
  "probe_request_of rt opts j t now =
     sign_probe_request rt (no_probeSharedSecret opts)
       \<lparr> pq_jobId = job_id j, pq_targetId = expected_target_id j t, pq_region = tgt_region t, pq_url = job_url j,
         pq_request = job_request j, pq_timestamp = now, pq_signature = [] \<rparr>"

definition probe_post :: "runtime \<Rightarrow> net_options \<Rightarrow> url \<Rightarrow> probe_request \<Rightarrow> pinned_post" where
  "probe_post rt opts measureUrl payload =
     \<lparr> pp_url = measureUrl, pp_headers = [(''content-type'', ''application/json'')],
       pp_body = json_stringify (probe_request_json payload),
       pp_addressPolicy = probe_address_policy (rt_parseUrl rt) measureUrl (no_allowInsecureProbeHttp opts),
       pp_discardResponseBody = False \<rparr>"

text \<open>What the answer of the probe means for the target.\<close>

definition settle_response ::
  "('w, probe_response) host \<Rightarrow> exec_job \<Rightarrow> (latency_job \<Rightarrow> ('w, unit) prog) \<Rightarrow> nat \<Rightarrow> latency_job
   \<Rightarrow> probe_response http_response \<Rightarrow> ('w, latency_job) prog" where
  "settle_response h ej persist i j response =
     (let t = job_targets j ! i; http_code = ''probe_http_'' @ show_int (hr_status response) in
      if \<not> hr_ok response
      then (if is_retryable_http_status (hr_status response) \<and> ej_attemptCount ej < ej_maxAttempts ej
            then retry_target h persist i http_code
                   (\<lambda>r. if hr_status response = 429
                        then probe_retry_delay_ms (hr_retryAfter response) (ej_attemptCount ej) r
                        else retry_delay_ms (ej_attemptCount ej) r) j
            else fail_target h persist i http_code ''Network probe rejected the request'' j)
      else
        and_then (json_p response) (\<lambda>parsed.
          case parsed of
            None \<Rightarrow> fail_target h persist i ''probe_invalid_payload'' ''Network probe returned an invalid result'' j
          | Some p \<Rightarrow>
              if (pr_jobId p \<noteq> None \<and> pr_jobId p \<noteq> Some (job_id j))
                 \<or> (pr_targetId p \<noteq> None \<and> pr_targetId p \<noteq> Some (expected_target_id j t))
              then fail_target h persist i ''probe_correlation_mismatch''
                     ''Network probe returned a result for a different request'' j
              else if me_region (pr_measurement p) \<noteq> tgt_region t
              then fail_target h persist i ''probe_region_mismatch''
                     (''Network probe returned region \"'' @ me_region (pr_measurement p) @ ''\" ''
                      @ ''but expected \"'' @ tgt_region t @ ''\"'') j
              else and_then (now_p h) (\<lambda>updatedAt.
                     recompute_and_persist_job persist (update_target i (apply_measurement p updatedAt) j))))"

definition try_probe ::
  "runtime \<Rightarrow> ('w, probe_response) host \<Rightarrow> net_options \<Rightarrow> exec_job \<Rightarrow> (latency_job \<Rightarrow> ('w, unit) prog) \<Rightarrow> nat
   \<Rightarrow> latency_job \<Rightarrow> ('w, latency_job) prog" where
  "try_probe rt h opts ej persist i j =
     and_then (now_p h) (\<lambda>timestamp.
       let payload = probe_request_of rt opts j (job_targets j ! i) timestamp in
       if \<not> signed_probe_request_schema (rt_isUrl rt) (rt_parseUrl rt) payload
       then fail (ThrownError ''ZodError'' None)
       else (case resolve_probe_measure_url (rt_parseUrl rt) (no_probeBaseUrl opts) (no_allowInsecureProbeHttp opts) of
               Inl e \<Rightarrow> fail e
             | Inr measureUrl \<Rightarrow>
                 and_then (post_p h (probe_post rt opts measureUrl payload)) (settle_response h ej persist i j)))"

definition is_blocked_origin :: "thrown \<Rightarrow> bool" where
  "is_blocked_origin e =
     (case e of
        ThrownError name c \<Rightarrow>
          name = ''OutboundHttpPolicyError'' \<and> c \<in> {Some ''address_blocked'', Some ''invalid_target''}
      | _ \<Rightarrow> False)"

definition recover_probe ::
  "('w, probe_response) host \<Rightarrow> exec_job \<Rightarrow> (latency_job \<Rightarrow> ('w, unit) prog) \<Rightarrow> nat \<Rightarrow> latency_job \<Rightarrow> thrown
   \<Rightarrow> ('w, latency_job) prog" where
  "recover_probe h ej persist i j error =
     and_then (throw_if_aborted h) (\<lambda>_.
       case error of
         ThrownApi a \<Rightarrow> fail (ThrownApi a)
       | ThrownFailure f \<Rightarrow> fail (ThrownFailure f)
       | _ \<Rightarrow>
           if is_blocked_origin error
           then fail_target h persist i ''probe_origin_blocked'' ''Network probe origin resolved to a blocked address'' j
           else and_then (log_p ''probe_request_failed'') (\<lambda>_.
                  if ej_attemptCount ej < ej_maxAttempts ej
                  then retry_target h persist i ''probe_transport_failed'' (retry_delay_ms (ej_attemptCount ej)) j
                  else fail_target h persist i ''probe_transport_failed'' ''Network probe request failed'' j))"

section \<open>A job\<close>

definition start_target :: "exec_job \<Rightarrow> nat \<Rightarrow> iso \<Rightarrow> latency_job \<Rightarrow> latency_job" where
  "start_target ej i now j =
     update_target i
       (\<lambda>t. t\<lparr>tgt_attemptNo := ej_attemptCount ej, tgt_status := TMeasuring,
              tgt_startedAt := (if tgt_startedAt t = None then Some now else tgt_startedAt t),
              tgt_finishedAt := None, tgt_updatedAt := now\<rparr>)
       (j\<lparr>job_startedAt := (if job_startedAt j = None then Some now else job_startedAt j), job_completedAt := None\<rparr>)"

definition process_target ::
  "runtime \<Rightarrow> ('w, probe_response) host \<Rightarrow> net_options \<Rightarrow> exec_job \<Rightarrow> (latency_job \<Rightarrow> ('w, unit) prog) \<Rightarrow> nat
   \<Rightarrow> latency_job \<Rightarrow> ('w, latency_job) prog" where
  "process_target rt h opts ej persist i j =
     (if is_terminal_target_status (tgt_status (job_targets j ! i)) then ret j
      else
        and_then (throw_if_aborted h) (\<lambda>_.
        and_then (now_p h) (\<lambda>now.
        and_then (recompute_and_persist_job persist (start_target ej i now j)) (\<lambda>j1.
          if no_probeBaseUrl opts = []
          then fail_target h persist i ''missing_probe_origin'' ''No probe origin is configured for this deployment'' j1
          else catch (try_probe rt h opts ej persist i j1) (recover_probe h ej persist i j1)))))"

definition complete_network_job ::
  "('w, probe_response) host \<Rightarrow> (latency_job \<Rightarrow> ('w, unit) prog) \<Rightarrow> latency_job \<Rightarrow> ('w, latency_job) prog" where
  "complete_network_job h persist j =
     (let j' = recompute_job j in
      and_then (if sm_inflight (job_summary j') = 0
                then and_then (now_p h) (\<lambda>now. ret (j'\<lparr>job_completedAt := Some now\<rparr>))
                else ret j') (\<lambda>j2.
      and_then (persist j2) (\<lambda>_. ret j2)))"

definition process_network_job ::
  "runtime \<Rightarrow> ('w, probe_response) host \<Rightarrow> net_options \<Rightarrow> exec_job \<Rightarrow> (latency_job \<Rightarrow> ('w, unit) prog) \<Rightarrow> latency_job
   \<Rightarrow> ('w, latency_job) prog" where
  "process_network_job rt h opts ej persist j =
     (if job_completedAt j \<noteq> None \<and> sm_inflight (job_summary j) = 0 then ret j
      else
        and_then (fold_prog (process_target rt h opts ej persist) [0..<length (job_targets j)] j)
          (complete_network_job h persist))"

section \<open>Alerts\<close>

definition json_int_opt :: "int option \<Rightarrow> json" where
  "json_int_opt v = (case v of None \<Rightarrow> JNull | Some n \<Rightarrow> JNum n)"

definition evaluation_json :: "monitor_evaluation \<Rightarrow> json" where
  "evaluation_json e =
     JObj [(''monitorType'', JStr (show_monitor_type (ev_monitorType e))), (''successRule'', JStr ''status_2xx_3xx''),
           (''status'', JStr (show_monitor_status (ev_status e))), (''totalChecks'', JNum (int (ev_totalChecks e))),
           (''healthyChecks'', JNum (int (ev_healthyChecks e))), (''failedChecks'', JNum (int (ev_failedChecks e))),
           (''latencyThresholdMs'', json_int_opt (ev_latencyThresholdMs e)),
           (''thresholdBreached'', JBool (ev_thresholdBreached e)),
           (''thresholdBreachedCount'', JNum (int (ev_thresholdBreachedCount e))),
           (''worstLatencyMs'', json_int_opt (ev_worstLatencyMs e)),
           (''regressionDetected'', JBool (ev_regressionDetected e)),
           (''regressedCount'', JNum (int (ev_regressedCount e)))]"

definition summary_json :: "job_summary \<Rightarrow> json" where
  "summary_json s =
     JObj [(''total'', JNum (int (sm_total s))), (''succeeded'', JNum (int (sm_succeeded s))),
           (''failed'', JNum (int (sm_failed s))), (''inflight'', JNum (int (sm_inflight s)))]"

definition comparison_summary_json :: "comparison_summary \<Rightarrow> json" where
  "comparison_summary_json c =
     JObj [(''routesCompared'', JNum (int (routesCompared c))), (''regionsCompared'', JNum (int (regionsCompared c))),
           (''improved'', JNum (int (cs_improved c))), (''regressed'', JNum (int (cs_regressed c))),
           (''unchanged'', JNum (int (cs_unchanged c))), (''missingPrevious'', JNum (int (cs_missingPrevious c))),
           (''missingCurrent'', JNum (int (cs_missingCurrent c)))]"

definition webhook_target_json :: "webhook_target \<Rightarrow> json" where
  "webhook_target_json t =
     JObj [(''id'', JStr (wt_id t)), (''name'', JStr (wt_name t)), (''url'', JStr (wt_url t)),
           (''enabled'', JBool (wt_enabled t)), (''secret'', json_opt (wt_secret t))]"

definition alert_body :: "profile_run \<Rightarrow> check_profile \<Rightarrow> latency_job list \<Rightarrow> comparison_summary option \<Rightarrow> monitor_evaluation \<Rightarrow> json" where
  "alert_body run chk jobs comparisonSummary evaluation =
     JObj [(''type'', JStr ''check.alert''),
           (''check'', JObj [(''id'', JStr (cpf_id chk)), (''name'', JStr (cpf_name chk))]),
           (''run'', JObj [(''id'', JStr (run_id run)), (''createdAt'', JStr (to_iso_string (run_createdAt run))),
                          (''trigger'', JStr (show_trigger (run_trigger run)))]),
           (''evaluation'', evaluation_json evaluation),
           (''jobs'', JArr (map (\<lambda>j. JObj [(''id'', JStr (job_id j)), (''url'', JStr (job_url j)),
                (''status'', JStr (show_job_status (job_status j))),
                (''evaluation'', case job_evaluation j of None \<Rightarrow> JNull | Some e \<Rightarrow> evaluation_json e),
                (''summary'', summary_json (job_summary j))]) jobs)),
           (''comparison'', case comparisonSummary of
              None \<Rightarrow> JNull | Some c \<Rightarrow> JObj [(''summary'', comparison_summary_json c)])]"

definition should_alert :: "alert_config \<Rightarrow> monitor_evaluation \<Rightarrow> bool" where
  "should_alert alerts e =
     ((onFailure (al_triggers alerts) \<and> ev_failedChecks e > 0)
      \<or> (onLatencyThresholdBreach (al_triggers alerts) \<and> ev_thresholdBreached e)
      \<or> (onRegression (al_triggers alerts) \<and> ev_regressionDetected e))"

definition webhook_followup :: "exec_job \<Rightarrow> profile_run \<Rightarrow> json \<Rightarrow> webhook_target \<Rightarrow> enqueue_job" where
  "webhook_followup ej run body t =
     \<lparr> eq_id = ''exec_'' @ run_id run @ ''_'' @ wt_id t, eq_kind = WebhookDelivery, eq_resourceId = run_id run,
       eq_maxAttempts = ej_maxAttempts ej, eq_availableAt = None,
       eq_payload = JObj [(''version'', JStr ''v1''), (''runId'', JStr (run_id run)), (''target'', webhook_target_json t),
                          (''body'', body)] \<rparr>"

definition build_webhook_followups ::
  "exec_job \<Rightarrow> profile_run \<Rightarrow> check_profile \<Rightarrow> latency_job list \<Rightarrow> comparison_summary option \<Rightarrow> thrown + enqueue_job list"
where
  "build_webhook_followups ej run chk jobs comparisonSummary =
     (case (cpf_alerts chk, run_evaluation run) of
        (Some alerts, Some evaluation) \<Rightarrow>
          if \<not> al_enabled alerts \<or> \<not> should_alert alerts evaluation then Inr []
          else
            let body = alert_body run chk jobs comparisonSummary evaluation in
            if \<not> json_value_schema body then Inl (ThrownError ''ZodError'' None)
            else Inr (map (webhook_followup ej run body) (filter wt_enabled (al_webhookTargets alerts)))
      | _ \<Rightarrow> Inr [])"

section \<open>The handler\<close>

definition process_job_at ::
  "runtime \<Rightarrow> ('w, probe_response) host \<Rightarrow> net_options \<Rightarrow> exec_job \<Rightarrow> profile_run option \<Rightarrow> nat \<Rightarrow> latency_job list
   \<Rightarrow> ('w, latency_job list) prog" where
  "process_job_at rt h opts ej run k jobs =
     and_then (process_network_job rt h opts ej (\<lambda>j. save_p h (NetworkResult (jobs[k := j]) run)) (jobs ! k))
       (\<lambda>j. ret (jobs[k := j]))"

definition finish_run ::
  "('w, probe_response) host \<Rightarrow> exec_job \<Rightarrow> network_context \<Rightarrow> profile_run \<Rightarrow> check_profile \<Rightarrow> latency_job list
   \<Rightarrow> ('w, unit) prog" where
  "finish_run h ej context run chk jobs =
     (let comparison = (case nc_comparisonMode context of
                          None \<Rightarrow> None
                        | Some mode \<Rightarrow>
                            Some (build_check_profile_comparison run jobs (nc_comparedRun context)
                                    (nc_comparedJobs context) mode));
          regressed = (case comparison of None \<Rightarrow> 0 | Some c \<Rightarrow> cs_regressed (cmp_summary c));
          run' = run\<lparr>run_evaluation :=
                       Some (evaluate_monitor_targets (cpf_monitorPolicy chk) (concat (map job_targets jobs)) regressed)\<rparr> in
      and_then (save_p h (NetworkResult jobs (Some run'))) (\<lambda>_.
        case build_webhook_followups ej run' chk jobs (map_option cmp_summary comparison) of
          Inl e \<Rightarrow> fail e
        | Inr followups \<Rightarrow> if length followups > 0 then followups_p h followups else ret ()))"

definition network_execution_handler ::
  "runtime \<Rightarrow> ('w, probe_response) host \<Rightarrow> net_options \<Rightarrow> exec_job \<Rightarrow> ('w, unit) prog" where
  "network_execution_handler rt h opts ej =
     and_then (context_p h) (\<lambda>ctx.
       case ctx of
         NetworkContext context \<Rightarrow>
           and_then (fold_prog (process_job_at rt h opts ej (nc_run context)) [0..<length (nc_jobs context)] (nc_jobs context))
             (\<lambda>jobs. case (nc_run context, nc_check context) of
                (Some run, Some chk) \<Rightarrow> finish_run h ej context run chk jobs
              | _ \<Rightarrow> ret ())
       | _ \<Rightarrow> fail (final_failure ''invalid_network_context''
                      ''Executor received an invalid network execution context''))"

end
