(* ===== verification/Network_Properties.thy ===== *)
theory Network_Properties
  imports Network_Handler
begin

text \<open>
  What the network handler leaves behind: when it returns every target has ended and the stored jobs say so;
  when it throws, a retry is asked for only while attempts are left, with the target put back.
\<close>

section \<open>Jobs\<close>

definition consistent_job :: "latency_job \<Rightarrow> bool" where
  "consistent_job j \<longleftrightarrow> job_summary j = summarize_targets (job_targets j) \<and> job_status j = derive_job_status (job_targets j)"

definition settled_job :: "latency_job \<Rightarrow> bool" where
  "settled_job j \<longleftrightarrow>
     list_all (\<lambda>t. is_terminal_target_status (tgt_status t)) (job_targets j) \<and> job_completedAt j \<noteq> None \<and> consistent_job j"

lemma inflight_zero:
  "sm_inflight (summarize_targets ts) = 0 \<longleftrightarrow> list_all (\<lambda>t. is_terminal_target_status (tgt_status t)) ts"
  by (simp add: summarize_targets_def list_all_iff filter_empty_conv)

lemma recompute_job_simps [simp]:
  "job_targets (recompute_job j) = job_targets j" "job_id (recompute_job j) = job_id j"
  "job_summary (recompute_job j) = summarize_targets (job_targets j)"
  "job_completedAt (recompute_job j) = job_completedAt j"
  "consistent_job (recompute_job j)"
  by (simp_all add: recompute_job_def consistent_job_def)

lemma update_target_simps [simp]:
  "length (job_targets (update_target i f j)) = length (job_targets j)" "job_id (update_target i f j) = job_id j"
  "i < length (job_targets j) \<Longrightarrow> job_targets (update_target i f j) ! i = f (job_targets j ! i)"
  "k \<noteq> i \<Longrightarrow> job_targets (update_target i f j) ! k = job_targets j ! k"
  by (simp_all add: update_target_def)

lemma marked_terminal [simp]:
  "is_terminal_target_status (tgt_status (mark_target_failed c m t1 t2 t))"
  "is_terminal_target_status (tgt_status (apply_measurement p now t))"
  by (simp_all add: mark_target_failed_def apply_measurement_def is_terminal_target_status_def Let_def)

lemma start_target_simps [simp]:
  "length (job_targets (start_target ej i now j)) = length (job_targets j)" "job_id (start_target ej i now j) = job_id j"
  "k \<noteq> i \<Longrightarrow> job_targets (start_target ej i now j) ! k = job_targets j ! k"
  by (simp_all add: start_target_def update_target_def)

text \<open>The targets below an index have ended; the others are as before the step, but for their number.\<close>

definition done_below :: "nat \<Rightarrow> nat \<Rightarrow> ident \<Rightarrow> latency_job \<Rightarrow> bool" where
  "done_below n i jid j \<longleftrightarrow>
     length (job_targets j) = n \<and> job_id j = jid \<and> (\<forall>k<i. is_terminal_target_status (tgt_status (job_targets j ! k)))"

lemma done_below_update:
  "done_below n i jid j \<Longrightarrow> i < n \<Longrightarrow> is_terminal_target_status (tgt_status (f (job_targets j ! i)))
   \<Longrightarrow> done_below n (Suc i) jid (recompute_job (update_target i f j))"
  by (auto simp: done_below_def less_Suc_eq)

lemma done_below_start: "done_below n i jid j \<Longrightarrow> done_below n i jid (recompute_job (start_target ej i now j))"
  by (simp add: done_below_def)

section \<open>What is thrown\<close>

text \<open>The target that is put back is queued again in what was stored last.\<close>

definition put_back :: "exec_result \<Rightarrow> bool" where
  "put_back r \<longleftrightarrow>
     (case r of
        NetworkResult jobs run \<Rightarrow>
          (\<exists>j \<in> set jobs. \<exists>t \<in> set (job_targets j). tgt_status t = TQueued \<and> tgt_errorClass t = Some Retryable)
      | _ \<Rightarrow> False)"

definition network_error :: "('w, 'p) host \<Rightarrow> exec_job \<Rightarrow> thrown \<Rightarrow> 'w run_state \<Rightarrow> bool" where
  "network_error h ej e s \<longleftrightarrow>
     (\<exists>a. e = ThrownApi a) \<or> abort_error h e \<or> (\<exists>f. e = ThrownFailure f \<and> \<not> xf_retryable f)
     \<or> e = ThrownError ''ZodError'' None
     \<or> (ej_attemptCount ej < ej_maxAttempts ej
        \<and> (\<exists>d. e = retry_failure ''probe_temporarily_unavailable'' ''Network probe is temporarily unavailable'' d)
        \<and> (\<exists>r. last_saved (snd s) = Some r \<and> put_back r))"

lemma network_error_simps [simp]:
  "network_error h ej (ThrownApi a) s" "abort_error h e \<Longrightarrow> network_error h ej e s"
  "network_error h ej (final_failure c m) s"
  by (auto simp: network_error_def final_failure_def)

text \<open>Inside the \<open>try\<close> block plain errors may be thrown as well; no failure escapes but those above.\<close>

definition probe_error :: "('w, 'p) host \<Rightarrow> exec_job \<Rightarrow> thrown \<Rightarrow> 'w run_state \<Rightarrow> bool" where
  "probe_error h ej e s \<longleftrightarrow> (\<forall>f. e = ThrownFailure f \<longrightarrow> network_error h ej e s)"

section \<open>The steps of a target\<close>

text \<open>How the job under work is stored: among the jobs of the execution.\<close>

definition stores :: "('w, 'p) host \<Rightarrow> (latency_job \<Rightarrow> exec_result) \<Rightarrow> (latency_job \<Rightarrow> ('w, unit) prog) \<Rightarrow> bool" where
  "stores h res persist \<longleftrightarrow> (\<forall>j. persist j = save_p h (res j)) \<and> (\<forall>j. \<exists>jobs run. res j = NetworkResult jobs run \<and> j \<in> set jobs)"

lemma triple_persist:
  assumes st: "stores h res persist"
    and "\<And>s w. P s \<Longrightarrow> Q () (w, snd s @ [Saved (res j)])" "\<And>s a w. P s \<Longrightarrow> E (ThrownApi a) (w, snd s @ [Saved (res j)])"
  shows "triple P (persist j) Q E"
  using assms by (simp add: stores_def triple_save)

lemma triple_recompute:
  assumes st: "stores h res persist"
    and "\<And>s w. P s \<Longrightarrow> Q (recompute_job j) (w, snd s @ [Saved (res (recompute_job j))])"
    "\<And>s a. E (ThrownApi a) s"
  shows "triple P (recompute_and_persist_job persist j) Q E"
  unfolding recompute_and_persist_job_def Let_def
  by (rule triple_and_then [where R = "\<lambda>_ s. Q (recompute_job j) s"])
    (auto intro!: triple_persist [OF st] triple_ret assms)

lemma triple_fail_target:
  assumes st: "stores h res persist"
    and "done_below n i jid j" "i < n" "\<And>s a. E (ThrownApi a) s"
  shows "triple P (fail_target h persist i c m j) (\<lambda>j' _. done_below n (Suc i) jid j') E"
  unfolding fail_target_def
  by (rule triple_and_then [where R = "\<lambda>_ _. True"], rule triple_now, simp,
      rule triple_and_then [where R = "\<lambda>_ _. True"], rule triple_now, simp,
      rule triple_recompute [OF st]) (use assms in \<open>auto intro!: done_below_update\<close>)

lemma triple_retry_target:
  assumes st: "stores h res persist"
    and "i < length (job_targets j)" "ej_attemptCount ej < ej_maxAttempts ej"
  shows "triple P (retry_target h persist i c d j) Q (network_error h ej)"
  unfolding retry_target_def
proof (rule triple_and_then [where R = "\<lambda>_ _. True"], rule triple_now, simp)
  fix t
  let ?j = "update_target i (mark_target_retryable c t) j"
  let ?S = "\<lambda>s. \<exists>r. last_saved (snd s) = Some r \<and> put_back r"
  have "put_back (res (recompute_job ?j))"
  proof -
    obtain jobs run where r: "res (recompute_job ?j) = NetworkResult jobs run" "recompute_job ?j \<in> set jobs"
      using st unfolding stores_def by metis
    have "job_targets ?j ! i \<in> set (job_targets ?j)" using assms(2) by (intro nth_mem) simp
    moreover have "tgt_status (job_targets ?j ! i) = TQueued" "tgt_errorClass (job_targets ?j ! i) = Some Retryable"
      using assms(2) by (simp_all add: mark_target_retryable_def)
    ultimately show ?thesis using r by (auto simp: put_back_def intro!: bexI [of _ "recompute_job ?j"])
  qed
  then show "triple (\<lambda>_. True)
      (and_then (recompute_and_persist_job persist ?j)
        (\<lambda>_. and_then (random_p h)
          (\<lambda>r. fail (retry_failure ''probe_temporarily_unavailable'' ''Network probe is temporarily unavailable'' (d r)))))
      Q (network_error h ej)"
    by (intro triple_and_then [where R = "\<lambda>_. ?S"] triple_recompute [OF st] triple_random triple_fail)
      (use assms(3) in \<open>auto simp: network_error_def\<close>)
qed

lemma triple_settle_response:
  assumes st: "stores h res persist" and d: "done_below n i jid j" and i: "i < n"
  shows "triple P (settle_response h ej persist i j response) (\<lambda>j' _. done_below n (Suc i) jid j') (probe_error h ej)"
proof -
  have len: "i < length (job_targets j)" using d i by (simp add: done_below_def)
  have f: "triple P' (fail_target h persist i c m j) (\<lambda>j' _. done_below n (Suc i) jid j') (probe_error h ej)" for P' c m
    by (rule triple_fail_target [OF st d i]) (simp add: probe_error_def)
  have r: "triple P' (retry_target h persist i c dl j) Q (probe_error h ej)"
    if "ej_attemptCount ej < ej_maxAttempts ej" for P' Q c dl
    by (rule triple_post [OF triple_retry_target [OF st len that]]) (auto simp: probe_error_def)
  have m: "triple P' (recompute_and_persist_job persist (update_target i (apply_measurement p t) j))
       (\<lambda>j' _. done_below n (Suc i) jid j') (probe_error h ej)" for P' p t
    by (rule triple_recompute [OF st]) (use d i in \<open>auto simp: probe_error_def intro!: done_below_update\<close>)
  show ?thesis
    unfolding settle_response_def Let_def
    by (auto intro!: triple_if f r m triple_and_then [where R = "\<lambda>_ _. True"] triple_json triple_now
        simp: probe_error_def split: option.split)
qed

lemma fail_target_ok:
  assumes "stores h res persist" "done_below n i jid j" "i < n"
  shows "triple P (fail_target h persist i c m j) (\<lambda>j' _. done_below n (Suc i) jid j') (network_error h ej)"
  by (rule triple_fail_target [OF assms]) simp

lemma triple_try_probe:
  assumes st: "stores h res persist" and d: "done_below n i jid j" and i: "i < n"
  shows "triple P (try_probe rt h opts ej persist i j) (\<lambda>j' _. done_below n (Suc i) jid j') (probe_error h ej)"
proof -
  have "triple P' (and_then (post_p h q) (settle_response h ej persist i j)) (\<lambda>j' _. done_below n (Suc i) jid j') (probe_error h ej)"
    for P' q
  proof (rule triple_and_then [where R = "\<lambda>_ _. True"])
    show "triple P' (post_p h q) (\<lambda>_ _. True) (probe_error h ej)"
    proof (rule triple_post_p)
      fix s e and w :: 'a
      show "probe_error h ej (thrown_of_outbound e) (w, snd s @ [Posted q])" by (cases e) (simp_all add: probe_error_def)
    qed simp
  qed (rule triple_settle_response [OF st d i])
  moreover have "resolve_probe_measure_url p b x = Inl e \<Longrightarrow> probe_error h ej e s" for p b x e s
    by (auto simp: resolve_probe_measure_url_def probe_error_def Let_def final_failure_def network_error_def
        split: option.splits if_splits)
  ultimately have body: "triple P'
      (case resolve_probe_measure_url (rt_parseUrl rt) (no_probeBaseUrl opts) (no_allowInsecureProbeHttp opts) of
         Inl e \<Rightarrow> fail e
       | Inr measureUrl \<Rightarrow> and_then (post_p h (probe_post rt opts measureUrl q)) (settle_response h ej persist i j))
      (\<lambda>j' _. done_below n (Suc i) jid j') (probe_error h ej)" for P' q
    by (cases "resolve_probe_measure_url (rt_parseUrl rt) (no_probeBaseUrl opts) (no_allowInsecureProbeHttp opts)")
      (auto intro!: triple_fail)
  show ?thesis
    unfolding try_probe_def Let_def
    by (intro triple_and_then [where R = "\<lambda>_ _. True"] triple_now triple_if triple_fail body)
      (simp_all add: probe_error_def)
qed

lemma triple_recover_probe:
  assumes st: "stores h res persist" and d: "done_below n i jid j" and i: "i < n"
  shows "triple (probe_error h ej e) (recover_probe h ej persist i j e) (\<lambda>j' _. done_below n (Suc i) jid j') (network_error h ej)"
proof -
  have len: "i < length (job_targets j)" using d i by (simp add: done_below_def)
  have plain: "triple P
      (if is_blocked_origin e'
       then fail_target h persist i ''probe_origin_blocked'' ''Network probe origin resolved to a blocked address'' j
       else and_then (log_p ''probe_request_failed'') (\<lambda>_.
              if ej_attemptCount ej < ej_maxAttempts ej
              then retry_target h persist i ''probe_transport_failed'' (retry_delay_ms (ej_attemptCount ej)) j
              else fail_target h persist i ''probe_transport_failed'' ''Network probe request failed'' j))
      (\<lambda>j' _. done_below n (Suc i) jid j') (network_error h ej)" for P and e' :: thrown
    by (auto intro!: triple_if fail_target_ok [OF st d i] triple_and_then [where R = "\<lambda>_ _. True"] triple_log
        triple_retry_target [OF st len])
  show ?thesis
    unfolding recover_probe_def
  proof (rule triple_and_then [where R = "\<lambda>_. probe_error h ej e"])
    show "triple (probe_error h ej e) (throw_if_aborted h) (\<lambda>_. probe_error h ej e) (network_error h ej)"
      by (rule triple_abort) simp_all
  next
    fix u :: unit
    show "triple (probe_error h ej e)
        (case e of ThrownApi a \<Rightarrow> fail (ThrownApi a) | ThrownFailure f \<Rightarrow> fail (ThrownFailure f)
         | _ \<Rightarrow>
           if is_blocked_origin e
           then fail_target h persist i ''probe_origin_blocked'' ''Network probe origin resolved to a blocked address'' j
           else and_then (log_p ''probe_request_failed'') (\<lambda>_.
                  if ej_attemptCount ej < ej_maxAttempts ej
                  then retry_target h persist i ''probe_transport_failed'' (retry_delay_ms (ej_attemptCount ej)) j
                  else fail_target h persist i ''probe_transport_failed'' ''Network probe request failed'' j))
        (\<lambda>j' _. done_below n (Suc i) jid j') (network_error h ej)"
    proof (cases e)
      case (ThrownError a b)
      show ?thesis unfolding ThrownError thrown.case by (rule plain)
    next
      case (ThrownValue a)
      show ?thesis unfolding ThrownValue thrown.case by (rule plain)
    qed (auto intro!: triple_fail simp: probe_error_def)
  qed
qed

lemma triple_process_target:
  assumes st: "stores h res persist" and i: "i < n"
  shows "triple (\<lambda>_. done_below n i jid j) (process_target rt h opts ej persist i j)
           (\<lambda>j' _. done_below n (Suc i) jid j') (network_error h ej)"
proof -
  let ?C = "\<lambda>j (_ :: 'a run_state). done_below n i jid j"
  have step: "triple (?C j1)
      (if no_probeBaseUrl opts = []
       then fail_target h persist i ''missing_probe_origin'' ''No probe origin is configured for this deployment'' j1
       else catch (try_probe rt h opts ej persist i j1) (recover_probe h ej persist i j1))
      (\<lambda>j' _. done_below n (Suc i) jid j') (network_error h ej)" for j1
  proof (cases "done_below n i jid j1")
    case True
    show ?thesis
      by (intro triple_if fail_target_ok [OF st True i] triple_catch [where R = "probe_error h ej"]
          triple_try_probe [OF st True i] triple_recover_probe [OF st True i])
  qed (simp add: triple_def)
  have start: "triple (?C j)
      (and_then (throw_if_aborted h) (\<lambda>_. and_then (now_p h) (\<lambda>now.
         and_then (recompute_and_persist_job persist (start_target ej i now j)) (\<lambda>j1.
          if no_probeBaseUrl opts = []
          then fail_target h persist i ''missing_probe_origin'' ''No probe origin is configured for this deployment'' j1
          else catch (try_probe rt h opts ej persist i j1) (recover_probe h ej persist i j1)))))
      (\<lambda>j' _. done_below n (Suc i) jid j') (network_error h ej)"
    by (intro triple_and_then [where R = "\<lambda>_. ?C j"] triple_and_then [where R = "?C"] triple_abort triple_now
        triple_recompute [OF st] step) (simp_all add: done_below_start)
  show ?thesis
    unfolding process_target_def
    by (intro triple_if start triple_ret) (auto simp: done_below_def less_Suc_eq)
qed

section \<open>Jobs of an execution\<close>

lemma triple_process_network_job:
  assumes st: "stores h res persist" and c: "consistent_job j"
  shows "triple (\<lambda>s. P s) (process_network_job rt h opts ej persist j)
           (\<lambda>j' s. settled_job j' \<and> job_id j' = job_id j \<and> ((j' = j \<and> P s) \<or> last_saved (snd s) = Some (res j'))) (network_error h ej)"
  (is "triple _ _ ?Q _")
proof (cases "job_completedAt j \<noteq> None \<and> sm_inflight (job_summary j) = 0")
  case True
  then have "settled_job j" using c inflight_zero [of "job_targets j"] by (simp add: settled_job_def consistent_job_def)
  with True show ?thesis by (auto simp: process_network_job_def intro!: triple_ret)
next
  case False
  let ?n = "length (job_targets j)" and ?E = "network_error h ej"
  have loop: "triple P (fold_prog (process_target rt h opts ej persist) [0..<?n] j)
      (\<lambda>j' _. done_below ?n ?n (job_id j) j') ?E"
  proof (rule triple_pre)
    show "triple (\<lambda>_. done_below ?n 0 (job_id j) j) (fold_prog (process_target rt h opts ej persist) [0..<?n] j)
        (\<lambda>j' _. done_below ?n ?n (job_id j) j') ?E"
      by (rule triple_fold_upt [where I = "\<lambda>i j' _. done_below ?n i (job_id j) j'"]) (rule triple_process_target [OF st])
  qed (simp add: done_below_def)
  have fin: "triple (\<lambda>_. done_below ?n ?n (job_id j) j') (complete_network_job h persist j') ?Q ?E" for j'
  proof (cases "done_below ?n ?n (job_id j) j'")
    case True
    then have t: "list_all (\<lambda>t. is_terminal_target_status (tgt_status t)) (job_targets j')" and jid: "job_id j' = job_id j"
      by (auto simp: done_below_def list_all_length)
    then have z: "sm_inflight (summarize_targets (job_targets j')) = 0" by (simp add: inflight_zero)
    let ?R = "\<lambda>j2 (_ :: 'a run_state). settled_job j2 \<and> job_id j2 = job_id j"
    have "triple (\<lambda>_. True) (and_then (now_p h) (\<lambda>now. ret ((recompute_job j')\<lparr>job_completedAt := Some now\<rparr>))) ?R ?E"
      by (intro triple_and_then [where R = "\<lambda>_ _. True"] triple_now triple_ret)
        (use t jid in \<open>simp_all add: settled_job_def consistent_job_def recompute_job_def\<close>)
    moreover have "triple (?R j2) (and_then (persist j2) (\<lambda>_. ret j2)) ?Q ?E" for j2
      by (intro triple_and_then [where R = "\<lambda>_ s. ?R j2 s \<and> last_saved (snd s) = Some (res j2)"] triple_persist [OF st] triple_ret)
        simp_all
    ultimately show ?thesis
      unfolding complete_network_job_def Let_def using z
      by (auto intro!: triple_and_then [where R = "?R"] intro: triple_pre)
  qed (simp add: triple_def)
  show ?thesis
    unfolding process_network_job_def if_not_P [OF False]
    by (rule triple_and_then [OF loop fin])
qed

definition jobs_below :: "nat \<Rightarrow> latency_job list \<Rightarrow> profile_run option \<Rightarrow> latency_job list \<Rightarrow> effect list \<Rightarrow> bool" where
  "jobs_below i orig run jobs tr \<longleftrightarrow>
     length jobs = length orig \<and> map job_id jobs = map job_id orig
     \<and> (\<forall>k<i. settled_job (jobs ! k)) \<and> (\<forall>k. i \<le> k \<and> k < length jobs \<longrightarrow> jobs ! k = orig ! k)
     \<and> ((jobs = orig \<and> last_saved tr = None) \<or> last_saved tr = Some (NetworkResult jobs run))"

lemma triple_process_job_at:
  assumes c: "list_all consistent_job orig" and i: "i < length orig"
  shows "triple (\<lambda>s. jobs_below i orig run jobs (snd s)) (process_job_at rt h opts ej run i jobs)
           (\<lambda>jobs' s. jobs_below (Suc i) orig run jobs' (snd s)) (network_error h ej)"
proof (cases "\<exists>tr. jobs_below i orig run jobs tr")
  case False
  then show ?thesis by (auto simp: triple_def)
next
  case True
  then have len: "length jobs = length orig" and ids: "map job_id jobs = map job_id orig" and ji: "jobs ! i = orig ! i"
    and below: "\<forall>k<i. settled_job (jobs ! k)" and above: "\<forall>k. i \<le> k \<and> k < length jobs \<longrightarrow> jobs ! k = orig ! k"
    using i by (auto simp: jobs_below_def)
  let ?res = "\<lambda>j. NetworkResult (jobs[i := j]) run"
  have st: "stores h ?res (\<lambda>j. save_p h (?res j))"
    using i len by (auto simp: stores_def set_update_memI)
  have cj: "consistent_job (jobs ! i)" using c i ji by (simp add: list_all_length)
  show ?thesis
    unfolding process_job_at_def
  proof (rule triple_and_then [OF triple_process_network_job [OF st cj]])
    fix j
    have nop: "jobs[i := orig ! i] = jobs" using ji by (metis list_update_id)
    have id: "map job_id (jobs[i := j]) = map job_id orig" if "job_id j = job_id (jobs ! i)"
      using that ids by (metis list_update_id map_update)
    show "triple
          (\<lambda>s. settled_job j \<and> job_id j = job_id (jobs ! i)
               \<and> (j = jobs ! i \<and> jobs_below i orig run jobs (snd s) \<or> last_saved (snd s) = Some (?res j)))
          (ret (jobs[i := j])) (\<lambda>jobs' s. jobs_below (Suc i) orig run jobs' (snd s)) (network_error h ej)"
      by (rule triple_ret)
        (use id len below above i nop ji in \<open>auto simp: jobs_below_def less_Suc_eq nth_list_update\<close>)
  qed
qed

lemma triple_finish_run:
  assumes "\<And>tr. P tr \<Longrightarrow> True"
  shows "triple (\<lambda>s. P (snd s)) (finish_run h ej c run chk jobs)
           (\<lambda>_ s. \<exists>run'. last_saved (snd s) = Some (NetworkResult jobs (Some run'))) (network_error h ej)"
proof -
  have b: "build_webhook_followups ej run' chk jobs cs = Inl e \<Longrightarrow> e = ThrownError ''ZodError'' None" for run' cs e
    by (auto simp: build_webhook_followups_def Let_def split: option.splits if_splits)
  show ?thesis
    unfolding finish_run_def Let_def
    by (rule triple_and_then [where R = "\<lambda>_ s. \<exists>run'. last_saved (snd s) = Some (NetworkResult jobs (Some run'))"])
      (auto intro!: triple_save triple_if triple_followups triple_ret triple_fail dest: b split: sum.split
        simp: network_error_def)
qed

lemma triple_network_handler:
  assumes "\<And>c. fst (h_context h w) = Inr (NetworkContext c) \<Longrightarrow> list_all consistent_job (nc_jobs c)"
  shows "triple (\<lambda>s. s = (w, [])) (network_execution_handler rt h opts ej)
     (\<lambda>_ s. \<exists>c jobs. fst (h_context h w) = Inr (NetworkContext c) \<and> map job_id jobs = map job_id (nc_jobs c)
            \<and> list_all settled_job jobs
            \<and> ((jobs = nc_jobs c \<and> last_saved (snd s) = None) \<or> (\<exists>run. last_saved (snd s) = Some (NetworkResult jobs run))))
     (network_error h ej)"
  (is "triple _ _ ?Q ?E")
proof -
  let ?R = "\<lambda>ctx s. snd s = [] \<and> fst (h_context h w) = Inr ctx"
  have ctx: "triple (\<lambda>s. s = (w, [])) (context_p h) ?R ?E"
    by (rule triple_context_at) (simp add: network_error_def)
  have net: "triple (?R (NetworkContext c))
       (and_then (fold_prog (process_job_at rt h opts ej (nc_run c)) [0..<length (nc_jobs c)] (nc_jobs c))
             (\<lambda>jobs. case (nc_run c, nc_check c) of
                (Some run, Some chk) \<Rightarrow> finish_run h ej c run chk jobs
              | _ \<Rightarrow> ret ())) ?Q ?E" for c
  proof (cases "fst (h_context h w) = Inr (NetworkContext c)")
    case False
    then show ?thesis by (auto simp: triple_def)
  next
    case w: True
    let ?o = "nc_jobs c" and ?n = "length (nc_jobs c)"
    let ?I = "\<lambda>i jobs s. jobs_below i ?o (nc_run c) jobs (snd s)"
    have "triple (?I 0 ?o) (fold_prog (process_job_at rt h opts ej (nc_run c)) [0..<?n] ?o) (?I ?n) ?E"
      by (rule triple_fold_upt [where I = ?I], rule triple_process_job_at [OF assms [OF w]])
    then have loop: "triple (?R (NetworkContext c)) (fold_prog (process_job_at rt h opts ej (nc_run c)) [0..<?n] ?o) (?I ?n) ?E"
      by (rule triple_pre) (simp add: jobs_below_def)
    have jb: "list_all settled_job jobs \<and> map job_id jobs = map job_id ?o \<and>
        ((jobs = ?o \<and> last_saved tr = None) \<or> last_saved tr = Some (NetworkResult jobs (nc_run c)))"
      if "jobs_below ?n ?o (nc_run c) jobs tr" for jobs tr
      using that by (auto simp: jobs_below_def list_all_length)
    have fin: "triple (?I ?n jobs) (case (nc_run c, nc_check c) of
                (Some run, Some chk) \<Rightarrow> finish_run h ej c run chk jobs
              | _ \<Rightarrow> ret ()) ?Q ?E" for jobs
    proof (cases "\<exists>tr. jobs_below ?n ?o (nc_run c) jobs tr")
      case False
      then show ?thesis by (auto simp: triple_def)
    next
      case True
      then have ok: "list_all settled_job jobs" "map job_id jobs = map job_id ?o" using jb by blast+
      have f: "triple (?I ?n jobs) (finish_run h ej c run chk jobs) ?Q ?E" for run chk
        by (rule triple_post [OF triple_finish_run [where P = "\<lambda>tr. jobs_below ?n ?o (nc_run c) jobs tr"]])
          (use ok w in auto)
      have r: "triple (?I ?n jobs) (ret ()) ?Q ?E" by (rule triple_ret) (use jb ok w in blast)
      show ?thesis by (cases "nc_run c"; cases "nc_check c") (use f r in simp_all)
    qed
    show ?thesis by (rule triple_and_then [OF loop fin])
  qed
  show ?thesis
    unfolding network_execution_handler_def
  proof (rule triple_and_then [OF ctx])
    fix x
    show "triple (?R x)
        (case x of
           NetworkContext context \<Rightarrow>
             and_then (fold_prog (process_job_at rt h opts ej (nc_run context)) [0..<length (nc_jobs context)] (nc_jobs context))
               (\<lambda>jobs. case (nc_run context, nc_check context) of
                  (Some run, Some chk) \<Rightarrow> finish_run h ej context run chk jobs
                | _ \<Rightarrow> ret ())
         | _ \<Rightarrow> fail (final_failure ''invalid_network_context''
                        ''Executor received an invalid network execution context'')) ?Q ?E"
    proof (cases x)
      case (NetworkContext c)
      show ?thesis unfolding NetworkContext exec_context.case by (rule net)
    qed (auto intro!: triple_fail)
  qed
qed

section \<open>Properties\<close>

text \<open>A deployment without a probe, and one whose requests never reach it.\<close>

definition demo_net_job :: latency_job where
  "demo_net_job =
     \<lparr> job_id = ''job-1'', job_url = ''u'', job_status = JQueued, job_note = None, job_request = None,
       job_monitorPolicy = None, job_requestedAt = 0, job_startedAt = None, job_completedAt = None,
       job_requesterIp = None, job_region = ''eu'', job_historicalRegions = None,
       job_targets = [sample_target TQueued None None], job_evaluation = None,
       job_summary = summarize_targets [sample_target TQueued None None] \<rparr>"

definition demo_exec_job :: exec_job where
  "demo_exec_job =
     \<lparr> ej_id = ''x'', ej_kind = NetworkProbe, ej_resourceId = ''job-1'', ej_status = ERunning, ej_leaseOwner = Some ''o'',
       ej_leaseExpiresAt = Some 9, ej_attemptCount = 1, ej_maxAttempts = 3, ej_availableAt = 0, ej_payload = JNull,
       ej_error = None, ej_createdAt = 0, ej_updatedAt = 0, ej_completedAt = None \<rparr>"

definition demo_context :: network_context where
  "demo_context =
     \<lparr> nc_executionJob = demo_exec_job, nc_payload = \<lparr> np_jobIds = [''job-1''], np_checkId = None, np_runId = None \<rparr>,
       nc_jobs = [demo_net_job], nc_check = None, nc_run = None, nc_comparedRun = None, nc_comparedJobs = [],
       nc_comparisonMode = None \<rparr>"

definition demo_host :: "(unit, 'p) host" where
  "demo_host =
     \<lparr> h_now = (\<lambda>w. (5, w)), h_random = (\<lambda>w. (0, w)), h_aborted = (\<lambda>_. None),
       h_context = (\<lambda>w. (Inr (NetworkContext demo_context), w)), h_save = (\<lambda>_ w. (Inr (), w)),
       h_followups = (\<lambda>_ w. (Inr (), w)), h_grant = (\<lambda>w. (Inl (api_failure None no_cause (None, None)), w)),
       h_post = (\<lambda>_ w. (Inl (PlainError []), w)), h_fetch = (\<lambda>_ _ w. (Inl (ThrownValue None), w)) \<rparr>"

definition demo_runtime :: runtime where
  "demo_runtime =
     \<lparr> rt_parseUrl = (\<lambda>_. None), rt_hmac = (\<lambda>_ _. []), rt_localeCompare = (\<lambda>_ _. 0), rt_isUrl = (\<lambda>_. False),
       rt_auditJson = \<lparr> aj_policy = (\<lambda>_. JNull), aj_cookie = (\<lambda>_. JNull) \<rparr> \<rparr>"

definition demo_net_options :: "string \<Rightarrow> net_options" where
  "demo_net_options base =
     \<lparr> no_probeSharedSecret = [], no_probeBaseUrl = base, no_allowInsecureProbeHttp = False \<rparr>"

lemmas prog_defs = and_then_def ret_def fail_def catch_def now_p_def random_p_def log_p_def throw_if_aborted_def
  api_result_def context_p_def save_p_def

lemma demo_context_consistent:
  "fst (h_context (demo_host :: (unit, 'p) host) w) = Inr (NetworkContext c) \<Longrightarrow> list_all consistent_job (nc_jobs c)"
  by (auto simp: demo_host_def demo_context_def demo_net_job_def consistent_job_def derive_job_status_def sample_target_def
      is_terminal_target_status_def)

lemma demo_not_finished: "\<not> (job_completedAt demo_net_job \<noteq> None \<and> sm_inflight (job_summary demo_net_job) = 0)"
  by (simp add: demo_net_job_def)

lemma demo_not_terminal: "\<not> is_terminal_target_status (tgt_status (job_targets demo_net_job ! 0))"
  by (simp add: demo_net_job_def sample_target_def is_terminal_target_status_def)

lemma demo_targets: "job_targets demo_net_job = [sample_target TQueued None None]"
  by (simp add: demo_net_job_def)

lemma demo_host_simps:
  "h_now demo_host w = (5, w)" "h_random demo_host w = (0, w)" "h_aborted demo_host w = None"
  "h_context demo_host w = (Inr (NetworkContext demo_context), w)" "h_save demo_host r w = (Inr (), w)"
  by (simp_all add: demo_host_def)

lemma demo_context_simps: "nc_jobs demo_context = [demo_net_job]" "nc_run demo_context = None"
  by (simp_all add: demo_context_def)

lemmas demo_simps = demo_host_simps demo_context_simps demo_targets network_execution_handler_def prog_defs
  process_job_at_def process_network_job_def process_target_def recompute_and_persist_job_def Let_def
  demo_net_options_def upt_rec

text \<open>Property C20. When the network handler returns, every target of every job of the execution has ended, every job
  is completed with the summary and status of its targets, and this is what it stored last, unless it stored nothing
  because the jobs were so already.\<close>

theorem network_return_settles:
  assumes "\<And>c. fst (h_context h w) = Inr (NetworkContext c) \<Longrightarrow> list_all consistent_job (nc_jobs c)"
    and "network_execution_handler rt h opts ej (w, []) = (Inr (), w', tr)"
  shows "\<exists>c jobs. fst (h_context h w) = Inr (NetworkContext c) \<and> map job_id jobs = map job_id (nc_jobs c)
            \<and> list_all settled_job jobs
            \<and> ((jobs = nc_jobs c \<and> last_saved tr = None) \<or> (\<exists>run. last_saved tr = Some (NetworkResult jobs run)))"
  using tripleD_Inr [OF triple_network_handler [OF assms(1)] _ assms(2)] by simp

theorem network_return_settles_witness:
  "\<exists>w' tr. network_execution_handler demo_runtime demo_host (demo_net_options []) demo_exec_job ((), []) = (Inr (), w', tr)
     \<and> (\<exists>jobs run. last_saved tr = Some (NetworkResult jobs run) \<and> list_all settled_job jobs)"
proof -
  have r: "\<exists>w' tr. network_execution_handler demo_runtime demo_host (demo_net_options []) demo_exec_job ((), []) = (Inr (), w', tr)
       \<and> last_saved tr \<noteq> None"
    using demo_not_finished demo_not_terminal
    by (simp add: demo_simps fail_target_def complete_network_job_def last_saved_def saves_def if_distribR)
  then obtain w' tr where run: "network_execution_handler demo_runtime demo_host (demo_net_options []) demo_exec_job ((), []) = (Inr (), w', tr)"
    and s: "last_saved tr \<noteq> None" by blast
  have "\<exists>c jobs. fst (h_context (demo_host :: (unit, probe_response) host) ()) = Inr (NetworkContext c)
       \<and> map job_id jobs = map job_id (nc_jobs c) \<and> list_all settled_job jobs
       \<and> ((jobs = nc_jobs c \<and> last_saved tr = None) \<or> (\<exists>run. last_saved tr = Some (NetworkResult jobs run)))"
    by (rule network_return_settles [OF _ run]) (rule demo_context_consistent)
  then obtain jobs run' where "last_saved tr = Some (NetworkResult jobs run')" "list_all settled_job jobs"
    using s by auto
  with run show ?thesis by (intro exI [of _ w'] exI [of _ tr]) simp
qed

text \<open>What the network handler throws: an error of the control plane, the reason of an abort, a failure
  that is not to be retried, a rejected alert body, or, only while the job has attempts left, a failure to be retried,
  and then the target is stored as queued again.\<close>

theorem network_retry_needs_attempts:
  assumes "\<And>c. fst (h_context h w) = Inr (NetworkContext c) \<Longrightarrow> list_all consistent_job (nc_jobs c)"
    and "network_execution_handler rt h opts ej (w, []) = (Inl e, w', tr)"
  shows "(\<exists>a. e = ThrownApi a) \<or> abort_error h e \<or> (\<exists>f. e = ThrownFailure f \<and> \<not> xf_retryable f)
     \<or> e = ThrownError ''ZodError'' None
     \<or> (ej_attemptCount ej < ej_maxAttempts ej
        \<and> (\<exists>d. e = retry_failure ''probe_temporarily_unavailable'' ''Network probe is temporarily unavailable'' d)
        \<and> (\<exists>r. last_saved tr = Some r \<and> put_back r))"
  using tripleD_Inl [OF triple_network_handler [OF assms(1)] _ assms(2)] by (simp add: network_error_def)

theorem network_retry_needs_attempts_witness:
  "\<exists>e w' tr. network_execution_handler demo_runtime demo_host (demo_net_options ''p'') demo_exec_job ((), []) = (Inl e, w', tr)
     \<and> (\<exists>r. last_saved tr = Some r \<and> put_back r)"
proof -
  let ?d = "retry_delay_ms 1 0"
  have "\<exists>w' tr. network_execution_handler demo_runtime demo_host (demo_net_options ''p'') demo_exec_job ((), [])
       = (Inl (retry_failure ''probe_temporarily_unavailable'' ''Network probe is temporarily unavailable'' ?d), w', tr)"
    using demo_not_finished demo_not_terminal
    by (simp add: demo_simps retry_target_def try_probe_def recover_probe_def signed_probe_request_schema_def
        probe_target_url_ok_def demo_runtime_def is_blocked_origin_def demo_exec_job_def)
  then obtain w' tr where run: "network_execution_handler demo_runtime demo_host (demo_net_options ''p'') demo_exec_job ((), [])
       = (Inl (retry_failure ''probe_temporarily_unavailable'' ''Network probe is temporarily unavailable'' ?d), w', tr)" by blast
  let ?e = "retry_failure ''probe_temporarily_unavailable'' ''Network probe is temporarily unavailable'' ?d"
  have na: "\<not> abort_error (demo_host :: (unit, probe_response) host) ?e"
    by (simp add: abort_error_def demo_host_def retry_failure_def)
  have "(\<exists>a. ?e = ThrownApi a) \<or> abort_error (demo_host :: (unit, probe_response) host) ?e
     \<or> (\<exists>f. ?e = ThrownFailure f \<and> \<not> xf_retryable f) \<or> ?e = ThrownError ''ZodError'' None
     \<or> (ej_attemptCount demo_exec_job < ej_maxAttempts demo_exec_job
        \<and> (\<exists>d. ?e = retry_failure ''probe_temporarily_unavailable'' ''Network probe is temporarily unavailable'' d)
        \<and> (\<exists>r. last_saved tr = Some r \<and> put_back r))"
    by (rule network_retry_needs_attempts [OF _ run]) (rule demo_context_consistent)
  with na run show ?thesis by (auto simp: retry_failure_def)
qed

end
