(* ===== verification/Webhook_Handler.thy ===== *)
theory Webhook_Handler
  imports Handler_Base
begin

text \<open>
  The handler that delivers an alert to a webhook, \<open>apps/executor/src/webhook-handler.ts\<close>. The validation of the
  target, the request and \<open>now\<close> are the defaults of its options. \<open>STATUS_CODES\<close> is the table of Node's
  \<open>http\<close> module. The fields of a log event beside its name are not modelled.
\<close>

section \<open>The target\<close>

definition validate_webhook_target_url :: "(string \<Rightarrow> url option) \<Rightarrow> bool \<Rightarrow> string \<Rightarrow> url_error + url" where
  "validate_webhook_target_url parse_url allowInsecureHttp v =
     (case validate_measurement_url parse_url v of
        Inl e \<Rightarrow> Inl e
      | Inr u \<Rightarrow>
          if u_protocol u \<noteq> ''https:'' \<and> \<not> allowInsecureHttp
          then Inl \<lparr> ue_code = InvalidScheme, ue_message = ''Webhook targets require HTTPS'' \<rparr>
          else Inr u)"

fun url_code_text :: "url_code \<Rightarrow> string" where
  "url_code_text InvalidUrl = ''invalid_url''"
| "url_code_text InvalidScheme = ''invalid_scheme''"
| "url_code_text EmbeddedCredentials = ''embedded_credentials''"
| "url_code_text InvalidPort = ''invalid_port''"
| "url_code_text PrivateHostname = ''private_hostname''"
| "url_code_text PrivateIp = ''private_ip''"

definition create_webhook_signature :: "(string \<Rightarrow> string \<Rightarrow> nat list) \<Rightarrow> string \<Rightarrow> int \<Rightarrow> string \<Rightarrow> string" where
  "create_webhook_signature hmac secret timestamp body =
     ''t='' @ show_int timestamp @ '',v1='' @ bytes_to_hex (hmac secret (show_int timestamp @ ''.'' @ body))"

section \<open>What a delivery says\<close>

definition status_codes :: "(int \<times> string) list" where
  "status_codes =
     [(100, ''Continue''), (101, ''Switching Protocols''), (102, ''Processing''), (103, ''Early Hints''),
      (200, ''OK''), (201, ''Created''), (202, ''Accepted''), (203, ''Non-Authoritative Information''),
      (204, ''No Content''), (205, ''Reset Content''), (206, ''Partial Content''), (207, ''Multi-Status''),
      (208, ''Already Reported''), (226, ''IM Used''), (300, ''Multiple Choices''), (301, ''Moved Permanently''),
      (302, ''Found''), (303, ''See Other''), (304, ''Not Modified''), (305, ''Use Proxy''),
      (307, ''Temporary Redirect''), (308, ''Permanent Redirect''), (400, ''Bad Request''), (401, ''Unauthorized''),
      (402, ''Payment Required''), (403, ''Forbidden''), (404, ''Not Found''), (405, ''Method Not Allowed''),
      (406, ''Not Acceptable''), (407, ''Proxy Authentication Required''), (408, ''Request Timeout''),
      (409, ''Conflict''), (410, ''Gone''), (411, ''Length Required''), (412, ''Precondition Failed''),
      (413, ''Payload Too Large''), (414, ''URI Too Long''), (415, ''Unsupported Media Type''),
      (416, ''Range Not Satisfiable''), (417, ''Expectation Failed''), (418, ''I'' @ [CHR 0x27] @ ''m a Teapot''),
      (421, ''Misdirected Request''), (422, ''Unprocessable Entity''), (423, ''Locked''), (424, ''Failed Dependency''),
      (425, ''Too Early''), (426, ''Upgrade Required''), (428, ''Precondition Required''), (429, ''Too Many Requests''),
      (431, ''Request Header Fields Too Large''), (451, ''Unavailable For Legal Reasons''),
      (500, ''Internal Server Error''), (501, ''Not Implemented''), (502, ''Bad Gateway''),
      (503, ''Service Unavailable''), (504, ''Gateway Timeout''), (505, ''HTTP Version Not Supported''),
      (506, ''Variant Also Negotiates''), (507, ''Insufficient Storage''), (508, ''Loop Detected''),
      (509, ''Bandwidth Limit Exceeded''), (510, ''Not Extended''), (511, ''Network Authentication Required'')]"

definition build_webhook_http_failure :: "int \<Rightarrow> string" where
  "build_webhook_http_failure status =
     (case map_of status_codes status of
        Some statusText \<Rightarrow>
          ''Webhook endpoint rejected the delivery (HTTP '' @ show_int status @ '' '' @ statusText @ '')''
      | None \<Rightarrow> ''Webhook endpoint rejected the delivery (HTTP '' @ show_int status @ '')'')"

definition build_webhook_transport_failure :: "safe_diagnostic \<Rightarrow> string" where
  "build_webhook_transport_failure diagnostic =
     ''Webhook delivery failed (''
     @ join '', '' (filter (\<lambda>s. s \<noteq> [])
         [dg_errorType diagnostic,
          case non_empty (dg_systemCode diagnostic) of None \<Rightarrow> [] | Some c \<Rightarrow> ''code '' @ c])
     @ '')''"

definition build_delivery :: "webhook_target \<Rightarrow> delivery_status \<Rightarrow> int option \<Rightarrow> string option \<Rightarrow> iso \<Rightarrow> alert_delivery" where
  "build_delivery target status responseStatus err deliveredAt =
     \<lparr> ad_targetId = wt_id target, ad_targetName = wt_name target, ad_url = wt_url target,
       ad_deliveredAt = deliveredAt, ad_status = status, ad_responseStatus = responseStatus, ad_error = err \<rparr>"

section \<open>The handler\<close>

record webhook_options =
  wo_allowInsecureHttp :: bool

definition webhook_retry :: "('w, 'p) host \<Rightarrow> exec_job \<Rightarrow> ('w, 'a) prog" where
  "webhook_retry h ej =
     and_then (random_p h) (\<lambda>r.
       fail (retry_failure ''webhook_temporarily_unavailable'' ''Webhook endpoint is temporarily unavailable''
               (retry_delay_ms (ej_attemptCount ej) r)))"

definition webhook_headers :: "runtime \<Rightarrow> exec_job \<Rightarrow> webhook_target \<Rightarrow> int \<Rightarrow> string \<Rightarrow> (string \<times> string) list" where
  "webhook_headers rt ej target timestamp body =
     [(''content-type'', ''application/json''), (''idempotency-key'', ej_id ej),
      (''x-webperf-timestamp'', show_int timestamp)]
     @ (case wt_secret target of
          None \<Rightarrow> []
        | Some secret \<Rightarrow> [(''x-webperf-signature'', create_webhook_signature (rt_hmac rt) secret timestamp body)])"

definition webhook_post :: "runtime \<Rightarrow> exec_job \<Rightarrow> webhook_target \<Rightarrow> int \<Rightarrow> string \<Rightarrow> url \<Rightarrow> pinned_post" where
  "webhook_post rt ej target timestamp body u =
     \<lparr> pp_url = u, pp_headers = webhook_headers rt ej target timestamp body, pp_body = body,
       pp_addressPolicy = PublicOnly, pp_discardResponseBody = True \<rparr>"

definition settle_webhook ::
  "('w, 'p) host \<Rightarrow> exec_job \<Rightarrow> webhook_target \<Rightarrow> 'p http_response \<Rightarrow> ('w, alert_delivery) prog" where
  "settle_webhook h ej target response =
     (if hr_ok response
      then and_then (now_p h) (\<lambda>t. ret (build_delivery target DeliverySent (Some (hr_status response)) None t))
      else if is_retryable_http_status (hr_status response) \<and> ej_attemptCount ej < ej_maxAttempts ej
      then webhook_retry h ej
      else and_then (now_p h) (\<lambda>t.
             ret (build_delivery target DeliveryFailed (Some (hr_status response))
                    (Some (build_webhook_http_failure (hr_status response))) t)))"

definition try_webhook ::
  "runtime \<Rightarrow> ('w, 'p) host \<Rightarrow> exec_job \<Rightarrow> webhook_target \<Rightarrow> int \<Rightarrow> string \<Rightarrow> ('w, alert_delivery) prog" where
  "try_webhook rt h ej target timestamp body =
     (case rt_parseUrl rt (wt_url target) of
        None \<Rightarrow> fail (ThrownError ''TypeError'' (Some ''ERR_INVALID_URL''))
      | Some u \<Rightarrow> and_then (post_p h (webhook_post rt ej target timestamp body u)) (settle_webhook h ej target))"

definition is_blocked_target :: "thrown \<Rightarrow> bool" where
  "is_blocked_target e =
     (case e of
        ThrownError name c \<Rightarrow>
          name = ''OutboundHttpPolicyError'' \<and> c \<in> {Some ''address_blocked'', Some ''invalid_target''}
      | _ \<Rightarrow> False)"

definition recover_webhook ::
  "('w, 'p) host \<Rightarrow> exec_job \<Rightarrow> webhook_target \<Rightarrow> thrown \<Rightarrow> ('w, alert_delivery) prog" where
  "recover_webhook h ej target error =
     and_then (throw_if_aborted h) (\<lambda>_.
       case error of
         ThrownFailure f \<Rightarrow> fail (ThrownFailure f)
       | _ \<Rightarrow>
           if is_blocked_target error
           then fail (final_failure ''webhook_target_private_ip'' ''Webhook target resolved to a blocked address'')
           else and_then (log_p ''webhook_delivery_failed'') (\<lambda>_.
                  if ej_attemptCount ej < ej_maxAttempts ej then webhook_retry h ej
                  else and_then (now_p h) (\<lambda>t.
                         ret (build_delivery target DeliveryFailed None
                                (Some (build_webhook_transport_failure (describe_safe_error error))) t))))"

definition webhook_execution_handler :: "runtime \<Rightarrow> ('w, 'p) host \<Rightarrow> webhook_options \<Rightarrow> exec_job \<Rightarrow> ('w, unit) prog" where
  "webhook_execution_handler rt h opts ej =
     and_then (context_p h) (\<lambda>ctx.
       case ctx of
         WebhookContext _ payload run \<Rightarrow>
           (let target = wp_target payload in
            if list_ex (\<lambda>d. ad_targetId d = wt_id target) (run_alertDeliveries run) then ret ()
            else
              case validate_webhook_target_url (rt_parseUrl rt) (wo_allowInsecureHttp opts) (wt_url target) of
                Inl e \<Rightarrow> fail (final_failure (''webhook_target_'' @ url_code_text (ue_code e))
                                ''Webhook target is not allowed'')
              | Inr _ \<Rightarrow>
                  let body = json_stringify (wp_body payload) in
                  and_then (now_p h) (\<lambda>t.
                  and_then (catch (try_webhook rt h ej target (t div 1000) body) (recover_webhook h ej target))
                    (\<lambda>delivery. save_p h (WebhookResult (run_id run) delivery))))
       | _ \<Rightarrow> fail (final_failure ''invalid_webhook_context''
                      ''Executor received an invalid webhook execution context''))"

end
