(* ===== verification/Webhook_Properties.thy ===== *)
theory Webhook_Properties
  imports Webhook_Handler Network_Properties
begin

text \<open>
  What the webhook handler does with one alert: a target that has its delivery is left alone; otherwise at most
  one request is sent, to the validated address and signed over its body, and at most one delivery is stored.
\<close>

section \<open>What is sent, stored and thrown\<close>

definition webhook_request :: "runtime \<Rightarrow> exec_job \<Rightarrow> webhook_payload \<Rightarrow> pinned_post \<Rightarrow> bool" where
  "webhook_request rt ej payload r \<longleftrightarrow>
     (\<exists>u t. rt_parseUrl rt (wt_url (wp_target payload)) = Some u
            \<and> r = webhook_post rt ej (wp_target payload) t (json_stringify (wp_body payload)) u)"

definition delivery_of :: "webhook_target \<Rightarrow> alert_delivery \<Rightarrow> bool" where
  "delivery_of t d \<longleftrightarrow>
     ad_targetId d = wt_id t \<and> ad_url d = wt_url t \<and> (ad_status d = DeliverySent \<longleftrightarrow> ad_error d = None)
     \<and> (ad_status d = DeliverySent \<longleftrightarrow> (\<exists>c. ad_responseStatus d = Some c \<and> 200 \<le> c \<and> c \<le> 299))"

definition webhook_retry_error :: "exec_job \<Rightarrow> thrown \<Rightarrow> bool" where
  "webhook_retry_error ej e \<longleftrightarrow>
     ej_attemptCount ej < ej_maxAttempts ej
     \<and> (\<exists>d. e = retry_failure ''webhook_temporarily_unavailable'' ''Webhook endpoint is temporarily unavailable'' d)"

definition webhook_error :: "('w, 'p) host \<Rightarrow> exec_job \<Rightarrow> thrown \<Rightarrow> bool" where
  "webhook_error h ej e \<longleftrightarrow>
     (\<exists>a. e = ThrownApi a) \<or> abort_error h e \<or> (\<exists>f. e = ThrownFailure f \<and> \<not> xf_retryable f) \<or> webhook_retry_error ej e"

definition requested :: "runtime \<Rightarrow> exec_job \<Rightarrow> webhook_payload \<Rightarrow> effect list \<Rightarrow> bool" where
  "requested rt ej payload tr \<longleftrightarrow> saves tr = [] \<and> (\<exists>r. posts tr = [r] \<and> webhook_request rt ej payload r)"

lemma requested_log: "requested rt ej payload tr \<Longrightarrow> requested rt ej payload (tr @ [Logged l])"
  by (auto simp: requested_def)

lemma build_delivery_of:
  "200 \<le> c \<and> c \<le> 299 \<Longrightarrow> delivery_of t (build_delivery t DeliverySent (Some c) None now)"
  "\<not> (200 \<le> c \<and> c \<le> 299) \<Longrightarrow> delivery_of t (build_delivery t DeliveryFailed (Some c) (Some m) now)"
  "delivery_of t (build_delivery t DeliveryFailed None (Some m) now)"
  by (auto simp: delivery_of_def build_delivery_def)

section \<open>The steps\<close>

lemma triple_webhook_retry:
  assumes "ej_attemptCount ej < ej_maxAttempts ej" "\<And>e. webhook_retry_error ej e \<Longrightarrow> F e"
  shows "triple (\<lambda>s. P (snd s)) (webhook_retry h ej) Q (\<lambda>e s. P (snd s) \<and> F e)"
  unfolding webhook_retry_def
  by (rule triple_and_then [where R = "\<lambda>_ s. P (snd s)"], rule triple_random, simp)
    (rule triple_fail, use assms in \<open>auto simp: webhook_retry_error_def\<close>)

lemma triple_deliver:
  assumes "\<And>now. delivery_of t (f now)"
  shows "triple (\<lambda>s. P (snd s)) (and_then (now_p h) (\<lambda>now. ret (f now))) (\<lambda>d s. P (snd s) \<and> delivery_of t d) E"
  by (rule triple_and_then [where R = "\<lambda>_ s. P (snd s)"], rule triple_now, simp) (rule triple_ret, use assms in simp)

lemma triple_settle_webhook:
  "triple (\<lambda>s. P (snd s)) (settle_webhook h ej t r) (\<lambda>d s. P (snd s) \<and> delivery_of t d)
     (\<lambda>e s. P (snd s) \<and> webhook_retry_error ej e)"
  unfolding settle_webhook_def hr_ok_def
  by (intro triple_if triple_deliver triple_webhook_retry build_delivery_of) auto

lemma thrown_of_outbound_no_failure: "thrown_of_outbound e \<noteq> ThrownFailure f"
  by (cases e) simp_all

lemma triple_try_webhook:
  assumes "rt_parseUrl rt (wt_url (wp_target payload)) = Some u"
  shows "triple (\<lambda>s. snd s = [])
           (try_webhook rt h ej (wp_target payload) now (json_stringify (wp_body payload)))
           (\<lambda>d s. requested rt ej payload (snd s) \<and> delivery_of (wp_target payload) d)
           (\<lambda>e s. requested rt ej payload (snd s) \<and> ((\<exists>f. e = ThrownFailure f) \<longrightarrow> webhook_retry_error ej e))"
proof -
  have "triple (\<lambda>s. snd s = [])
      (post_p h (webhook_post rt ej (wp_target payload) now (json_stringify (wp_body payload)) u))
      (\<lambda>_ s. requested rt ej payload (snd s))
      (\<lambda>e s. requested rt ej payload (snd s) \<and> ((\<exists>f. e = ThrownFailure f) \<longrightarrow> webhook_retry_error ej e))"
    by (rule triple_post_p)
      (use assms thrown_of_outbound_no_failure in \<open>auto simp: requested_def webhook_request_def\<close>)
  then show ?thesis
    unfolding try_webhook_def assms option.case
    by (rule triple_and_then) (rule triple_post [OF triple_settle_webhook], auto)
qed

lemma triple_recover_webhook:
  assumes "\<And>tr l. P tr \<Longrightarrow> P (tr @ [Logged l])"
  shows "triple (\<lambda>s. P (snd s) \<and> ((\<exists>f. e = ThrownFailure f) \<longrightarrow> webhook_retry_error ej e))
           (recover_webhook h ej t e)
           (\<lambda>d s. P (snd s) \<and> delivery_of t d) (\<lambda>e s. P (snd s) \<and> webhook_error h ej e)"
proof -
  let ?P = "\<lambda>s. P (snd s) \<and> ((\<exists>f. e = ThrownFailure f) \<longrightarrow> webhook_retry_error ej e)"
    and ?Q = "\<lambda>d s. P (snd s) \<and> delivery_of t d" and ?E = "\<lambda>e s. P (snd s) \<and> webhook_error h ej e"
  have weaken: "triple (\<lambda>s. P (snd s)) p ?Q ?E \<Longrightarrow> triple ?P p ?Q ?E" for p :: "('a, alert_delivery) prog"
    by (erule triple_pre) auto
  have blocked: "triple (\<lambda>s. P (snd s)) (fail (final_failure c m)) ?Q ?E" for c m
    by (rule triple_fail) (auto simp: webhook_error_def final_failure_def)
  have log: "triple (\<lambda>s. P (snd s)) (and_then (log_p l) (\<lambda>_.
        if ej_attemptCount ej < ej_maxAttempts ej then webhook_retry h ej
        else and_then (now_p h) (\<lambda>now. ret (build_delivery t DeliveryFailed None (Some m) now)))) ?Q ?E" for l m
    by (rule triple_and_then [where R = "\<lambda>_ s. P (snd s)"], rule triple_log, simp add: assms)
      (intro triple_if triple_deliver triple_webhook_retry build_delivery_of, auto simp: webhook_error_def)
  have rest: "triple ?P (if is_blocked_target e
        then fail (final_failure ''webhook_target_private_ip'' ''Webhook target resolved to a blocked address'')
        else and_then (log_p ''webhook_delivery_failed'') (\<lambda>_.
          if ej_attemptCount ej < ej_maxAttempts ej then webhook_retry h ej
          else and_then (now_p h) (\<lambda>now. ret (build_delivery t DeliveryFailed None
                 (Some (build_webhook_transport_failure (describe_safe_error e))) now)))) ?Q ?E"
    by (intro triple_if weaken blocked log)
  have fails: "triple ?P (fail (ThrownFailure f)) ?Q ?E" if "e = ThrownFailure f" for f
    by (rule triple_fail) (use that in \<open>auto simp: webhook_error_def\<close>)
  show ?thesis
    unfolding recover_webhook_def
  proof (rule triple_and_then)
    show "triple ?P (throw_if_aborted h) (\<lambda>_. ?P) ?E" by (rule triple_abort) (auto simp: webhook_error_def)
  qed (cases e, simp_all only: thrown.case, use rest fails in auto)
qed

definition webhook_outcome :: "runtime \<Rightarrow> ('w, 'p) host \<Rightarrow> exec_job \<Rightarrow> 'w \<Rightarrow> effect list \<Rightarrow> bool" where
  "webhook_outcome rt h ej w tr \<longleftrightarrow>
     (\<exists>ej' payload run. fst (h_context h w) = Inr (WebhookContext ej' payload run)
        \<and> (if \<exists>d \<in> set (run_alertDeliveries run). ad_targetId d = wt_id (wp_target payload) then tr = []
           else (\<exists>r d. posts tr = [r] \<and> webhook_request rt ej payload r
                       \<and> saves tr = [WebhookResult (run_id run) d] \<and> delivery_of (wp_target payload) d)))"

definition webhook_attempt :: "runtime \<Rightarrow> ('w, 'p) host \<Rightarrow> exec_job \<Rightarrow> 'w \<Rightarrow> thrown \<Rightarrow> effect list \<Rightarrow> bool" where
  "webhook_attempt rt h ej w e tr \<longleftrightarrow>
     webhook_error h ej e \<and> length (posts tr) \<le> 1 \<and> length (saves tr) \<le> 1
     \<and> (saves tr \<noteq> [] \<longrightarrow> (\<exists>a. e = ThrownApi a))"

lemma validated_parses: "validate_webhook_target_url p b v = Inr u \<Longrightarrow> p v = Some u"
  by (auto simp: validate_webhook_target_url_def validate_measurement_url_def Let_def
      split: option.splits if_splits sum.splits)

lemma triple_webhook_handler:
  "triple (\<lambda>s. s = (w, [])) (webhook_execution_handler rt h opts ej)
     (\<lambda>_ s. webhook_outcome rt h ej w (snd s)) (\<lambda>e s. webhook_attempt rt h ej w e (snd s))"
  (is "triple _ _ ?Q ?E")
proof -
  let ?R = "\<lambda>ctx s. snd s = [] \<and> fst (h_context h w) = Inr ctx"
  have final: "triple (?R ctx) (fail (final_failure c m)) ?Q ?E" for ctx c m
    by (rule triple_fail) (auto simp: webhook_attempt_def webhook_error_def final_failure_def)
  have run: "triple (?R (WebhookContext ej' payload run))
      (let target = wp_target payload in
       if list_ex (\<lambda>d. ad_targetId d = wt_id target) (run_alertDeliveries run) then ret ()
       else
         case validate_webhook_target_url (rt_parseUrl rt) (wo_allowInsecureHttp opts) (wt_url target) of
           Inl e \<Rightarrow> fail (final_failure (''webhook_target_'' @ url_code_text (ue_code e)) ''Webhook target is not allowed'')
         | Inr _ \<Rightarrow>
             let body = json_stringify (wp_body payload) in
             and_then (now_p h) (\<lambda>t.
             and_then (catch (try_webhook rt h ej target (t div 1000) body) (recover_webhook h ej target))
               (\<lambda>delivery. save_p h (WebhookResult (run_id run) delivery)))) ?Q ?E" for ej' payload run
  proof -
    let ?t = "wp_target payload" and ?R' = "?R (WebhookContext ej' payload run)"
    have deliver: "triple ?R' (and_then (now_p h) (\<lambda>t.
             and_then (catch (try_webhook rt h ej ?t (t div 1000) (json_stringify (wp_body payload))) (recover_webhook h ej ?t))
               (\<lambda>delivery. save_p h (WebhookResult (run_id run) delivery)))) ?Q ?E"
      if u: "rt_parseUrl rt (wt_url ?t) = Some u"
        and new: "\<not> list_ex (\<lambda>d. ad_targetId d = wt_id ?t) (run_alertDeliveries run)" for u
    proof (rule triple_and_then [where R = "\<lambda>_. ?R'"])
      show "triple ?R' (now_p h) (\<lambda>_. ?R') ?E" by (rule triple_now) simp
      fix t
      show "triple ?R' (and_then (catch (try_webhook rt h ej ?t (t div 1000) (json_stringify (wp_body payload)))
               (recover_webhook h ej ?t)) (\<lambda>delivery. save_p h (WebhookResult (run_id run) delivery))) ?Q ?E"
      proof (cases "fst (h_context h w) = Inr (WebhookContext ej' payload run)")
        case False
        then show ?thesis by (simp add: triple_def)
      next
        case ctx: True
        have c: "triple (\<lambda>s. snd s = []) (catch (try_webhook rt h ej ?t (t div 1000) (json_stringify (wp_body payload)))
               (recover_webhook h ej ?t)) (\<lambda>d s. requested rt ej payload (snd s) \<and> delivery_of ?t d)
               (\<lambda>e s. requested rt ej payload (snd s) \<and> webhook_error h ej e)"
          by (rule triple_catch [OF triple_try_webhook [OF u] triple_recover_webhook]) (rule requested_log)
        have s: "triple (\<lambda>s. requested rt ej payload (snd s) \<and> delivery_of ?t d)
              (save_p h (WebhookResult (run_id run) d)) ?Q ?E" for d
          by (rule triple_save)
            (use ctx new in \<open>auto simp: webhook_outcome_def webhook_attempt_def webhook_error_def requested_def list_ex_iff\<close>)
        have "triple (\<lambda>s. snd s = []) (catch (try_webhook rt h ej ?t (t div 1000) (json_stringify (wp_body payload)))
               (recover_webhook h ej ?t)) (\<lambda>d s. requested rt ej payload (snd s) \<and> delivery_of ?t d) ?E"
          by (rule triple_post [OF c]) (auto simp: webhook_attempt_def requested_def)
        then show ?thesis by (rule triple_and_then [OF triple_pre s]) simp
      qed
    qed
    have old: "triple ?R' (ret ()) ?Q ?E"
      if "list_ex (\<lambda>d. ad_targetId d = wt_id ?t) (run_alertDeliveries run)"
      by (rule triple_ret) (use that in \<open>auto simp: webhook_outcome_def list_ex_iff\<close>)
    show ?thesis
      unfolding Let_def
      by (rule triple_if, rule old, assumption)
        (cases "validate_webhook_target_url (rt_parseUrl rt) (wo_allowInsecureHttp opts) (wt_url ?t)",
          auto intro: final deliver dest: validated_parses)
  qed
  have ctx: "triple (\<lambda>s. s = (w, [])) (context_p h) ?R ?E"
    by (rule triple_context_at) (simp add: webhook_attempt_def webhook_error_def)
  show ?thesis
    unfolding webhook_execution_handler_def
  proof (rule triple_and_then [OF ctx])
    fix x
    show "triple (?R x) (case x of
         WebhookContext ej' payload run \<Rightarrow>
           (let target = wp_target payload in
            if list_ex (\<lambda>d. ad_targetId d = wt_id target) (run_alertDeliveries run) then ret ()
            else
              case validate_webhook_target_url (rt_parseUrl rt) (wo_allowInsecureHttp opts) (wt_url target) of
                Inl e \<Rightarrow> fail (final_failure (''webhook_target_'' @ url_code_text (ue_code e)) ''Webhook target is not allowed'')
              | Inr _ \<Rightarrow>
                  let body = json_stringify (wp_body payload) in
                  and_then (now_p h) (\<lambda>t.
                  and_then (catch (try_webhook rt h ej target (t div 1000) body) (recover_webhook h ej target))
                    (\<lambda>delivery. save_p h (WebhookResult (run_id run) delivery))))
       | _ \<Rightarrow> fail (final_failure ''invalid_webhook_context''
                      ''Executor received an invalid webhook execution context'')) ?Q ?E"
      by (cases x; simp only: exec_context.case) (rule final, rule final, rule run)
  qed
qed


section \<open>The property\<close>

text \<open>Property C21. One run of the webhook handler sends at most one request and stores at most one delivery. It
  returns only when the target already had its delivery, and then it asked nothing of the outside, or when exactly one
  request was sent, to the parsed address of the target with its body and signature, and the delivery stored is the
  target's, sent exactly for an answer of class 2xx. It throws an error of the control plane, the reason of an abort, a
  failure that is not to be retried, or a failure to be retried while attempts are left; a delivery was stored only
  when the control plane failed.\<close>

theorem webhook_delivers_once:
  assumes "webhook_execution_handler rt h opts ej (w, []) = (r, w', tr)"
  shows "case r of Inr _ \<Rightarrow> webhook_outcome rt h ej w tr | Inl e \<Rightarrow> webhook_attempt rt h ej w e tr"
  using triple_webhook_handler [of w rt h opts ej] assms
  by (cases r) (auto dest: tripleD_Inr tripleD_Inl)

text \<open>A target whose server never answers, at the last attempt.\<close>

definition demo_url :: url where
  "demo_url = \<lparr> u_protocol = ''https:'', u_username = [], u_password = [], u_hostname = ''h'', u_port = [],
                u_pathname = ''/'', u_search = [], u_hash = [] \<rparr>"

definition demo_run :: profile_run where
  "demo_run =
     \<lparr> run_id = ''r'', run_profileId = ''p'', run_trigger = Schedule, run_createdAt = 0, run_routeCount = 1,
       run_routes = [], run_browserAuditSummary = None, run_evaluation = None, run_alertDeliveries = [] \<rparr>"

definition demo_target :: webhook_target where
  "demo_target = \<lparr> wt_id = ''t'', wt_name = ''n'', wt_url = ''u'', wt_enabled = True, wt_secret = None \<rparr>"

definition demo_webhook_host :: "(unit, unit) host" where
  "demo_webhook_host =
     demo_host\<lparr>h_context := (\<lambda>w. (Inr (WebhookContext demo_exec_job
         \<lparr>wp_runId = ''r'', wp_target = demo_target, wp_body = JNull\<rparr> demo_run), w))\<rparr>"


definition demo_webhook_runtime :: runtime where
  "demo_webhook_runtime = demo_runtime\<lparr>rt_parseUrl := (\<lambda>_. Some demo_url)\<rparr>"

lemma demo_webhook_simps:
  "h_context demo_webhook_host u =
     (Inr (WebhookContext demo_exec_job \<lparr>wp_runId = ''r'', wp_target = demo_target, wp_body = JNull\<rparr> demo_run), u)"
  "h_now demo_webhook_host u = (5, u)" "h_aborted demo_webhook_host u = None"
  "h_save demo_webhook_host x u = (Inr (), u)" "h_post demo_webhook_host p u = (Inl (PlainError []), u)"
  "rt_parseUrl demo_webhook_runtime = (\<lambda>_. Some demo_url)" "run_alertDeliveries demo_run = []"
  by (simp_all add: demo_webhook_host_def demo_host_def demo_webhook_runtime_def demo_run_def)

lemma demo_target_valid: "validate_webhook_target_url (\<lambda>_. Some demo_url) b v = Inr demo_url"
  by (simp add: validate_webhook_target_url_def validate_measurement_url_def demo_url_def forbidden_hostnames_def
      js_lower_def lower_char_def is_upper_def ends_with_def starts_with_def is_forbidden_ip_literal_def is_ipv4_private_def
      is_ipv6_private_def)

theorem webhook_delivers_once_witness:
  "\<exists>w' tr. webhook_execution_handler demo_webhook_runtime demo_webhook_host \<lparr>wo_allowInsecureHttp = False\<rparr>
              (demo_exec_job\<lparr>ej_attemptCount := 3\<rparr>) ((), []) = (Inr (), w', tr)
     \<and> saves tr \<noteq> []
     \<and> webhook_outcome demo_webhook_runtime demo_webhook_host (demo_exec_job\<lparr>ej_attemptCount := 3\<rparr>) () tr"
proof -
  have "\<exists>w' tr. webhook_execution_handler demo_webhook_runtime demo_webhook_host \<lparr>wo_allowInsecureHttp = False\<rparr>
              (demo_exec_job\<lparr>ej_attemptCount := 3\<rparr>) ((), []) = (Inr (), w', tr) \<and> saves tr \<noteq> []"
    by (simp add: webhook_execution_handler_def prog_defs demo_webhook_simps demo_target_valid Let_def try_webhook_def
        post_p_def recover_webhook_def is_blocked_target_def demo_exec_job_def)
  then obtain w' tr where run: "webhook_execution_handler demo_webhook_runtime demo_webhook_host \<lparr>wo_allowInsecureHttp = False\<rparr>
              (demo_exec_job\<lparr>ej_attemptCount := 3\<rparr>) ((), []) = (Inr (), w', tr)" and s: "saves tr \<noteq> []" by blast
  from run s webhook_delivers_once [OF run] show ?thesis by auto
qed

end
