(* ===== verification/Audit_Handler.thy ===== *)
theory Audit_Handler
  imports Handler_Base
begin

text \<open>
  The handler of browser audits, \<open>apps/executor/src/browser-audit-handler.ts\<close>, and the redaction of
  \<open>execution-utils.ts\<close>. An audit is \<open>running\<close> when the runner is asked; it is stored after every step. The
  fields of a log event beside its name are not modelled.
\<close>

section \<open>Redaction\<close>

text \<open>\<open>replaceAll\<close> with a text that is not empty.\<close>

function replace_literal :: "string \<Rightarrow> string \<Rightarrow> string \<Rightarrow> string" where
  "replace_literal needle r [] = []"
| "replace_literal needle r (c # s) =
     (if needle \<noteq> [] \<and> starts_with needle (c # s)
      then r @ replace_literal needle r (drop (length needle - 1) s)
      else c # replace_literal needle r s)"
  by pat_completeness auto
termination by (relation "measure (\<lambda>(n, r, s). length s)") auto

definition redact_url_query :: "(string \<Rightarrow> url option) \<Rightarrow> string \<Rightarrow> string" where
  "redact_url_query parse_url v =
     (case parse_url v of
        None \<Rightarrow> ''[REDACTED_URL]''
      | Some u \<Rightarrow>
          u_protocol u @ ''//'' @ url_host u @ u_pathname u @ (if u_search u \<noteq> [] then ''?redacted'' else []))"

definition url_text_char :: "char \<Rightarrow> bool" where
  "url_text_char c = (\<not> is_ws c \<and> c \<notin> {CHR 0x22, CHR 0x27, CHR ''<'', CHR ''>''})"

text \<open>The length of the front of a text that \<open>/https?:\/\/[^\s"'<>]+/i\<close> matches.\<close>

definition match_execution_url :: "string \<Rightarrow> nat option" where
  "match_execution_url s =
     (let n = (if starts_with_i ''https://'' s then 8 else if starts_with_i ''http://'' s then 7 else 0);
          k = length (takeWhile url_text_char (drop n s)) in
      if n = 0 \<or> k = 0 then None else Some (n + k))"

function replace_urls :: "(string \<Rightarrow> string) \<Rightarrow> string \<Rightarrow> string" where
  "replace_urls f [] = []"
| "replace_urls f (c # s) =
     (case match_execution_url (c # s) of
        None \<Rightarrow> c # replace_urls f s
      | Some n \<Rightarrow> f (take n (c # s)) @ replace_urls f (drop (n - 1) s))"
  by pat_completeness auto
termination by (relation "measure (\<lambda>(f, s). length s)") auto

definition redact_execution_text :: "(string \<Rightarrow> url option) \<Rightarrow> string \<Rightarrow> string list \<Rightarrow> string" where
  "redact_execution_text parse_url v sensitiveValues =
     replace_urls (redact_url_query parse_url)
       (fold (\<lambda>s r. replace_literal s ''[REDACTED]'' r)
          (js_sort (\<lambda>left right. int (length right) - int (length left)) (filter (\<lambda>s. length s > 0) sensitiveValues))
          v)"

section \<open>The endpoint and the schemas\<close>

record audit_options =
  ao_sharedSecret :: "string option"
  ao_baseUrl :: "string option"
  ao_allowInsecureHttp :: bool

definition resolve_browser_audit_endpoint :: "(string \<Rightarrow> url option) \<Rightarrow> string \<Rightarrow> bool \<Rightarrow> url throws" where
  "resolve_browser_audit_endpoint parse_url baseUrl allowInsecureHttp =
     (case parse_url baseUrl of
        None \<Rightarrow> throw ''Browser Audit runner URL is invalid''
      | Some u \<Rightarrow>
          let loopbackHostname = is_loopback_hostname parse_url (u_hostname u);
              protocolAllowed = (u_protocol u = ''https:''
                \<or> (u_protocol u = ''http:'' \<and> (loopbackHostname \<or> allowInsecureHttp))) in
          if \<not> protocolAllowed \<or> u_username u \<noteq> [] \<or> u_password u \<noteq> [] \<or> u_pathname u \<noteq> ''/''
             \<or> u_search u \<noteq> [] \<or> u_hash u \<noteq> []
          then throw ''Browser Audit runner URL must be an allowed credential-free origin''
          else return (u\<lparr>u_pathname := ''/audit'', u_search := [], u_hash := []\<rparr>))"

definition audit_endpoint :: "runtime \<Rightarrow> audit_options \<Rightarrow> url option throws" where
  "audit_endpoint rt opts =
     (case ao_baseUrl opts of
        None \<Rightarrow> return None
      | Some b \<Rightarrow>
          if b = [] then return None
          else (case resolve_browser_audit_endpoint (rt_parseUrl rt) b (ao_allowInsecureHttp opts) of
                  Inl e \<Rightarrow> Inl e
                | Inr u \<Rightarrow> return (Some u)))"

definition audit_worker_request_schema :: "(string \<Rightarrow> bool) \<Rightarrow> audit_worker_request \<Rightarrow> bool" where
  "audit_worker_request_schema is_url r =
     (wr_executionId r \<noteq> [] \<and> is_url (wr_targetUrl r) \<and> opt_ok runtime_region_id_ok (wr_region r)
      \<and> audit_policy_ok is_url (wr_policy r)
      \<and> length (wr_customHeaders r) \<le> 20 \<and> list_all audit_header_ok (wr_customHeaders r)
      \<and> length (wr_cookies r) \<le> 20 \<and> list_all (audit_cookie_ok is_url) (wr_cookies r)
      \<and> opt_ok (upload_config_schema is_url) (wr_artifactUpload r)
      \<and> wr_signature r \<noteq> [] \<and> list_all is_lower_hex (wr_signature r))"

section \<open>Steps of an audit\<close>

definition parse_audit :: "runtime \<Rightarrow> audit_resource \<Rightarrow> ('w, audit_resource) prog" where
  "parse_audit rt a =
     (if audit_resource_schema (rt_isUrl rt) a then ret a else fail (ThrownError ''ZodError'' None))"

definition now_unless :: "('w, 'p) host \<Rightarrow> iso option \<Rightarrow> ('w, iso) prog" where
  "now_unless h v = (case v of None \<Rightarrow> now_p h | Some t \<Rightarrow> ret t)"

definition fail_audit :: "runtime \<Rightarrow> ('w, 'p) host \<Rightarrow> audit_resource \<Rightarrow> string \<Rightarrow> ('w, audit_resource) prog" where
  "fail_audit rt h a err =
     and_then (now_unless h (aud_startedAt a)) (\<lambda>startedAt.
     and_then (now_p h) (\<lambda>completedAt.
       parse_audit rt (a\<lparr>aud_status := AFailed, aud_startedAt := Some startedAt,
                         aud_completedAt := Some completedAt, aud_result := None, aud_error := Some err\<rparr>)))"

definition fail_and_persist :: "runtime \<Rightarrow> ('w, 'p) host \<Rightarrow> audit_resource \<Rightarrow> string \<Rightarrow> ('w, unit) prog" where
  "fail_and_persist rt h a err = and_then (fail_audit rt h a err) (\<lambda>a'. save_p h (AuditResult a'))"

definition retry_or_fail ::
  "runtime \<Rightarrow> ('w, 'p) host \<Rightarrow> exec_job \<Rightarrow> audit_resource \<Rightarrow> string \<Rightarrow> string \<Rightarrow> ('w, unit) prog" where
  "retry_or_fail rt h ej a failureCode failureMessage =
     (if ej_attemptCount ej < ej_maxAttempts ej
      then
        and_then (parse_audit rt (a\<lparr>aud_status := AQueued, aud_completedAt := None, aud_result := None,
                                    aud_error := Some ''Browser Audit execution will be retried''\<rparr>)) (\<lambda>a'.
        and_then (save_p h (AuditResult a')) (\<lambda>_.
        and_then (random_p h) (\<lambda>r.
          fail (retry_failure failureCode failureMessage (retry_delay_ms (ej_attemptCount ej) r)))))
      else fail_and_persist rt h a failureMessage)"

definition sanitize_worker_error :: "(string \<Rightarrow> url option) \<Rightarrow> string option \<Rightarrow> audit_resource \<Rightarrow> string \<Rightarrow> string" where
  "sanitize_worker_error parse_url err a bearerToken =
     redact_execution_text parse_url (case err of None \<Rightarrow> ''Browser Audit failed'' | Some e \<Rightarrow> e)
       ([bearerToken] @ map hdr_value (aud_customHeaders a) @ map ck_value (aud_cookies a))"

definition unsigned_audit_request :: "audit_resource \<Rightarrow> upload_config \<Rightarrow> iso \<Rightarrow> audit_worker_request" where
  "unsigned_audit_request a upload timestamp =
     \<lparr> wr_executionId = aud_id a, wr_targetUrl = aud_targetUrl a, wr_region = aud_region a, wr_policy = aud_policy a,
       wr_customHeaders = aud_customHeaders a, wr_cookies = aud_cookies a, wr_artifactUpload = Some upload,
       wr_timestamp = timestamp, wr_signature = [] \<rparr>"

definition sign_audit_request :: "runtime \<Rightarrow> string \<Rightarrow> audit_worker_request \<Rightarrow> audit_worker_request" where
  "sign_audit_request rt secret r =
     r\<lparr>wr_signature := create_browser_audit_signature (rt_hmac rt) (rt_auditJson rt) (rt_localeCompare rt) secret r\<rparr>"

text \<open>What the answer of the runner means for the audit. A body that is not JSON counts as \<open>null\<close>, which the
  schema rejects.\<close>

definition read_worker_response :: "audit_worker_response http_response \<Rightarrow> ('w, audit_worker_response option) prog" where
  "read_worker_response response =
     catch (json_p response) (\<lambda>_. and_then (log_p ''browser_audit_response_json_invalid'') (\<lambda>_. ret None))"

definition settle_audit ::
  "runtime \<Rightarrow> ('w, audit_worker_response) host \<Rightarrow> exec_job \<Rightarrow> audit_resource \<Rightarrow> upload_config
   \<Rightarrow> audit_worker_response http_response \<Rightarrow> audit_worker_response option \<Rightarrow> ('w, unit) prog" where
  "settle_audit rt h ej a upload response parsed =
     (let rest =
        (if hr_ok response \<or> hr_status response = 409 \<or> is_retryable_http_status (hr_status response)
         then retry_or_fail rt h ej a ''browser_audit_runner_unavailable'' ''Browser Audit runner is temporarily unavailable''
         else fail_and_persist rt h a
                (if hr_status response = 401 \<or> hr_status response = 403
                 then ''Browser Audit runner rejected authentication''
                 else ''Browser Audit runner returned an invalid response'')) in
      case parsed of
        None \<Rightarrow> rest
      | Some p \<Rightarrow>
          if wres_executionId p \<noteq> aud_id a
          then fail_and_persist rt h a ''Browser Audit runner returned a response for a different execution''
          else if \<not> wres_succeeded p
          then fail_and_persist rt h a
                 (sanitize_worker_error (rt_parseUrl rt) (wres_error p) a (up_bearerToken upload))
          else
            (case wres_result p of
               None \<Rightarrow> rest
             | Some r \<Rightarrow>
                 if hr_ok response
                 then and_then (parse_audit rt (a\<lparr>aud_status := ASucceeded, aud_startedAt := Some (ar_startedAt r),
                                                  aud_completedAt := Some (ar_completedAt r),
                                                  aud_result := Some r, aud_error := None\<rparr>)) (\<lambda>a'.
                        save_p h (AuditResult a'))
                 else rest))"

definition recover_fetch ::
  "runtime \<Rightarrow> ('w, audit_worker_response) host \<Rightarrow> exec_job \<Rightarrow> audit_resource \<Rightarrow> ('w, unit) prog" where
  "recover_fetch rt h ej a =
     and_then (throw_if_aborted h) (\<lambda>_.
       retry_or_fail rt h ej a ''browser_audit_runner_unavailable'' ''Browser Audit runner is unavailable'')"

text \<open>\<open>Inl\<close>: the fetch failed.\<close>

definition try_fetch ::
  "('w, audit_worker_response) host \<Rightarrow> url \<Rightarrow> audit_worker_request
   \<Rightarrow> ('w, thrown + audit_worker_response http_response) prog" where
  "try_fetch h endpoint request =
     catch (and_then (fetch_p h endpoint request) (\<lambda>r. ret (Inr r))) (\<lambda>e. ret (Inl e))"

definition run_audit ::
  "runtime \<Rightarrow> ('w, audit_worker_response) host \<Rightarrow> exec_job \<Rightarrow> url \<Rightarrow> string \<Rightarrow> audit_resource \<Rightarrow> ('w, unit) prog" where
  "run_audit rt h ej endpoint secret audit =
     and_then (grant_p h) (\<lambda>upload.
     and_then (now_p h) (\<lambda>timestamp.
       let request = sign_audit_request rt secret (unsigned_audit_request audit upload timestamp) in
       if \<not> audit_worker_request_schema (rt_isUrl rt) request then fail (ThrownError ''ZodError'' None)
       else
         and_then (now_unless h (aud_startedAt audit)) (\<lambda>startedAt.
         and_then (parse_audit rt (audit\<lparr>aud_status := ARunning, aud_startedAt := Some startedAt,
                                         aud_completedAt := None, aud_result := None, aud_error := None\<rparr>)) (\<lambda>a.
         and_then (save_p h (AuditResult a)) (\<lambda>_.
         and_then (try_fetch h endpoint request) (\<lambda>outcome.
           case outcome of
             Inl _ \<Rightarrow> recover_fetch rt h ej a
           | Inr response \<Rightarrow> and_then (read_worker_response response) (settle_audit rt h ej a upload response)))))))"

section \<open>The handler\<close>

definition audit_execution_handler ::
  "runtime \<Rightarrow> ('w, audit_worker_response) host \<Rightarrow> string option \<Rightarrow> url option \<Rightarrow> exec_job \<Rightarrow> ('w, unit) prog" where
  "audit_execution_handler rt h sharedSecret endpoint ej =
     and_then (context_p h) (\<lambda>ctx.
       case ctx of
         AuditContext _ _ audit \<Rightarrow>
           if aud_status audit \<in> {ASucceeded, AFailed, ACancelled} then ret ()
           else (case (endpoint, sharedSecret) of
                   (Some e, Some secret) \<Rightarrow>
                     if secret = [] then fail_and_persist rt h audit ''Browser Audit runner is not configured''
                     else run_audit rt h ej e secret audit
                 | _ \<Rightarrow> fail_and_persist rt h audit ''Browser Audit runner is not configured'')
       | _ \<Rightarrow> fail (final_failure ''invalid_browser_audit_context''
                      ''Executor received an invalid Browser Audit execution context''))"

text \<open>Making the handler throws when the runner's URL is not allowed.\<close>

definition create_browser_audit_execution_handler ::
  "runtime \<Rightarrow> audit_options \<Rightarrow> (('w, audit_worker_response) host \<Rightarrow> exec_job \<Rightarrow> ('w, unit) prog) throws" where
  "create_browser_audit_execution_handler rt opts =
     (case audit_endpoint rt opts of
        Inl e \<Rightarrow> Inl e
      | Inr endpoint \<Rightarrow> return (\<lambda>h. audit_execution_handler rt h (ao_sharedSecret opts) endpoint))"

end
