(* ===== verification/Audit_Properties.thy ===== *)
theory Audit_Properties
  imports Audit_Handler Url_Properties Webhook_Properties
begin

text \<open>
  What the browser audit handler leaves behind: when it returns the audit has ended and is stored so; when it asks for
  a retry, attempts are left and the audit is stored as queued; the runner is asked once at most, with a signed
  request, after the audit was stored as running.
\<close>

section \<open>Requests in a trace\<close>

definition asked_ok :: "(effect list \<Rightarrow> url \<Rightarrow> audit_worker_request \<Rightarrow> bool) \<Rightarrow> effect list \<Rightarrow> bool" where
  "asked_ok R tr \<longleftrightarrow> (\<forall>a u q b. tr = a @ Fetched u q # b \<longrightarrow> R a u q)"

lemma asked_ok_Nil [simp]: "asked_ok R []"
  by (simp add: asked_ok_def)

lemma asked_ok_single: "\<forall>u q. e \<noteq> Fetched u q \<Longrightarrow> asked_ok R [e]"
  by (auto simp: asked_ok_def Cons_eq_append_conv)

lemma asked_ok_snoc [simp]:
  "asked_ok R (tr @ [e]) \<longleftrightarrow> asked_ok R tr \<and> (case e of Fetched u q \<Rightarrow> R tr u q | _ \<Rightarrow> True)"
proof -
  have split: "tr @ [e] = a @ Fetched u q # b \<longleftrightarrow>
      (b = [] \<and> a = tr \<and> e = Fetched u q) \<or> (\<exists>b'. b = b' @ [e] \<and> tr = a @ Fetched u q # b')" for a u q b
    by (cases b rule: rev_cases) auto
  show ?thesis
    unfolding asked_ok_def split by (cases e) auto
qed

section \<open>What is stored and thrown\<close>

definition same_audit :: "audit_resource \<Rightarrow> audit_resource \<Rightarrow> bool" where
  "same_audit a x \<longleftrightarrow> aud_id x = aud_id a \<and> aud_targetUrl x = aud_targetUrl a \<and> aud_policy x = aud_policy a"

definition audit_settled :: "runtime \<Rightarrow> audit_resource \<Rightarrow> effect list \<Rightarrow> bool" where
  "audit_settled rt a tr \<longleftrightarrow>
     (\<exists>x. last_saved tr = Some (AuditResult x) \<and> same_audit a x \<and> is_terminal_audit_status (aud_status x)
          \<and> aud_completedAt x \<noteq> None \<and> (aud_status x = ASucceeded \<longleftrightarrow> aud_result x \<noteq> None)
          \<and> audit_resource_schema (rt_isUrl rt) x)"

definition audit_requeued :: "runtime \<Rightarrow> audit_resource \<Rightarrow> effect list \<Rightarrow> bool" where
  "audit_requeued rt a tr \<longleftrightarrow>
     (\<exists>x. last_saved tr = Some (AuditResult x) \<and> same_audit a x \<and> aud_status x = AQueued \<and> aud_completedAt x = None
          \<and> audit_resource_schema (rt_isUrl rt) x)"

definition audit_error :: "runtime \<Rightarrow> ('w, 'p) host \<Rightarrow> exec_job \<Rightarrow> audit_resource \<Rightarrow> thrown \<Rightarrow> effect list \<Rightarrow> bool" where
  "audit_error rt h ej a e tr \<longleftrightarrow>
     (\<exists>x. e = ThrownApi x) \<or> abort_error h e \<or> e = ThrownError ''ZodError'' None
     \<or> (ej_attemptCount ej < ej_maxAttempts ej \<and> audit_requeued rt a tr
        \<and> (\<exists>m d. e = retry_failure ''browser_audit_runner_unavailable'' m d))"

definition signed_request ::
  "runtime \<Rightarrow> string option \<Rightarrow> url option \<Rightarrow> audit_resource \<Rightarrow> effect list \<Rightarrow> url \<Rightarrow> audit_worker_request \<Rightarrow> bool" where
  "signed_request rt secret endpoint a tr u q \<longleftrightarrow>
     endpoint = Some u \<and> fetches tr = [] \<and> wr_executionId q = aud_id a \<and> wr_targetUrl q = aud_targetUrl a
     \<and> verify_browser_audit_signature (rt_hmac rt) (rt_auditJson rt) (rt_localeCompare rt) secret q
     \<and> (\<exists>x. last_saved tr = Some (AuditResult x) \<and> same_audit a x \<and> aud_status x = ARunning)"

section \<open>The steps\<close>

lemma triple_parse_audit:
  "triple (\<lambda>s. J (snd s)) (parse_audit rt a) (\<lambda>x s. J (snd s) \<and> x = a \<and> audit_resource_schema (rt_isUrl rt) a)
     (\<lambda>e s. J (snd s) \<and> e = ThrownError ''ZodError'' None)"
  unfolding parse_audit_def by (rule triple_if; rule triple_ret triple_fail; simp)

lemma triple_now_unless: "triple (\<lambda>s. J (snd s)) (now_unless h v) (\<lambda>_ s. J (snd s)) E"
  unfolding now_unless_def by (cases v) (auto intro!: triple_now triple_ret)

definition stable :: "(effect list \<Rightarrow> bool) \<Rightarrow> bool" where
  "stable J \<longleftrightarrow> (\<forall>tr e. J tr \<longrightarrow> (\<forall>u q. e \<noteq> Fetched u q) \<longrightarrow> J (tr @ [e]))"

lemma stable_snoc:
  "stable J \<Longrightarrow> J tr \<Longrightarrow> J (tr @ [Saved r])" "stable J \<Longrightarrow> J tr \<Longrightarrow> J (tr @ [Logged l])"
  "stable J \<Longrightarrow> J tr \<Longrightarrow> J (tr @ [Granted])"
  by (simp_all add: stable_def)

abbreviation audit_post :: "runtime \<Rightarrow> audit_resource \<Rightarrow> (effect list \<Rightarrow> bool) \<Rightarrow> unit \<Rightarrow> 'w run_state \<Rightarrow> bool" where
  "audit_post rt a J \<equiv> (\<lambda>_ s. J (snd s) \<and> audit_settled rt a (snd s))"

abbreviation audit_throws ::
  "runtime \<Rightarrow> ('w, 'p) host \<Rightarrow> exec_job \<Rightarrow> audit_resource \<Rightarrow> (effect list \<Rightarrow> bool) \<Rightarrow> thrown \<Rightarrow> 'w run_state \<Rightarrow> bool" where
  "audit_throws rt h ej a J \<equiv> (\<lambda>e s. J (snd s) \<and> audit_error rt h ej a e (snd s))"

text \<open>Parse an audit and store it.\<close>

lemma triple_store:
  assumes "stable J"
    and "\<And>s w. J (snd s) \<Longrightarrow> audit_resource_schema (rt_isUrl rt) x \<Longrightarrow> J (snd s @ [Saved (AuditResult x)])
           \<Longrightarrow> Q () (w, snd s @ [Saved (AuditResult x)])"
  shows "triple (\<lambda>s. J (snd s)) (and_then (parse_audit rt x) (\<lambda>x'. save_p h (AuditResult x'))) Q (audit_throws rt h ej a J)"
proof (rule triple_and_then)
  show "triple (\<lambda>s. J (snd s)) (parse_audit rt x) (\<lambda>x' s. J (snd s) \<and> x' = x \<and> audit_resource_schema (rt_isUrl rt) x)
      (audit_throws rt h ej a J)"
    by (rule triple_post [OF triple_parse_audit]) (auto simp: audit_error_def)
  fix x'
  show "triple (\<lambda>s. J (snd s) \<and> x' = x \<and> audit_resource_schema (rt_isUrl rt) x) (save_p h (AuditResult x')) Q
      (audit_throws rt h ej a J)"
    by (rule triple_save) (use assms stable_snoc(1) [OF assms(1)] in \<open>auto simp: audit_error_def\<close>)
qed

lemma triple_fail_and_persist:
  assumes J: "stable J" and same: "same_audit a b"
  shows "triple (\<lambda>s. J (snd s)) (fail_and_persist rt h b m) (audit_post rt a J) (audit_throws rt h ej a J)"
  unfolding fail_and_persist_def fail_audit_def and_then_assoc
proof (rule triple_and_then [OF triple_now_unless], rule triple_and_then)
  fix startedAt
  show "triple (\<lambda>s. J (snd s)) (now_p h) (\<lambda>_ s. J (snd s)) (audit_throws rt h ej a J)"
    by (rule triple_now) simp
  fix completedAt
  show "triple (\<lambda>s. J (snd s)) (and_then (parse_audit rt (b\<lparr>aud_status := AFailed, aud_startedAt := Some startedAt,
            aud_completedAt := Some completedAt, aud_result := None, aud_error := Some m\<rparr>))
          (\<lambda>a'. save_p h (AuditResult a'))) (audit_post rt a J) (audit_throws rt h ej a J)"
    by (rule triple_store [OF J])
      (use same in \<open>auto simp: audit_settled_def same_audit_def is_terminal_audit_status_def\<close>)
qed

lemma triple_retry_or_fail:
  assumes J: "stable J" and same: "same_audit a b"
  shows "triple (\<lambda>s. J (snd s)) (retry_or_fail rt h ej b ''browser_audit_runner_unavailable'' m)
           (audit_post rt a J) (audit_throws rt h ej a J)"
  unfolding retry_or_fail_def
proof (rule triple_if)
  assume left: "ej_attemptCount ej < ej_maxAttempts ej"
  let ?x = "b\<lparr>aud_status := AQueued, aud_completedAt := None, aud_result := None,
              aud_error := Some ''Browser Audit execution will be retried''\<rparr>"
  let ?R = "\<lambda>_ s. J (snd s) \<and> audit_requeued rt a (snd s)"
  have store: "triple (\<lambda>s. J (snd s)) (and_then (parse_audit rt ?x) (\<lambda>a'. save_p h (AuditResult a'))) ?R
      (audit_throws rt h ej a J)"
    by (rule triple_store [OF J]) (use same in \<open>auto simp: audit_requeued_def same_audit_def\<close>)
  have retry: "triple (?R ()) (and_then (random_p h) (\<lambda>r.
          fail (retry_failure ''browser_audit_runner_unavailable'' m (retry_delay_ms (ej_attemptCount ej) r))))
        (audit_post rt a J) (audit_throws rt h ej a J)"
    by (rule triple_and_then [where R = ?R], rule triple_random, simp)
      (rule triple_fail, use left in \<open>auto simp: audit_error_def\<close>)
  show "triple (\<lambda>s. J (snd s)) (and_then (parse_audit rt ?x) (\<lambda>a'.
        and_then (save_p h (AuditResult a')) (\<lambda>_.
        and_then (random_p h) (\<lambda>r.
          fail (retry_failure ''browser_audit_runner_unavailable'' m (retry_delay_ms (ej_attemptCount ej) r))))))
        (audit_post rt a J) (audit_throws rt h ej a J)"
    unfolding and_then_assoc [symmetric, of "parse_audit rt ?x"] by (rule triple_and_then [OF store]) (use retry in simp)
next
  show "triple (\<lambda>s. J (snd s)) (fail_and_persist rt h b m) (audit_post rt a J) (audit_throws rt h ej a J)"
    by (rule triple_fail_and_persist [OF J same])
qed

lemma triple_settle_audit:
  assumes J: "stable J" and same: "same_audit a b"
  shows "triple (\<lambda>s. J (snd s)) (settle_audit rt h ej b upload response parsed) (audit_post rt a J) (audit_throws rt h ej a J)"
proof -
  have ok: "triple (\<lambda>s. J (snd s)) (and_then (parse_audit rt (b\<lparr>aud_status := ASucceeded, aud_startedAt := Some (ar_startedAt r),
                      aud_completedAt := Some (ar_completedAt r), aud_result := Some r, aud_error := None\<rparr>)) (\<lambda>a'.
                        save_p h (AuditResult a'))) (audit_post rt a J) (audit_throws rt h ej a J)" for r
    by (rule triple_store [OF J])
      (use same in \<open>auto simp: audit_settled_def same_audit_def is_terminal_audit_status_def\<close>)
  note steps = ok triple_fail_and_persist [OF J same] triple_retry_or_fail [OF J same]
  show ?thesis
  proof (cases parsed)
    case None
    then show ?thesis unfolding settle_audit_def Let_def by (simp only: option.case) (intro triple_if steps)
  next
    case (Some p)
    then show ?thesis
      unfolding settle_audit_def Let_def
      by (cases "wres_result p"; simp only: option.case) (intro triple_if steps)+
  qed
qed

lemma stable_asked: "stable (asked_ok R)"
  unfolding stable_def by (auto split: effect.splits)

lemma audit_signature_accepted:
  "k \<noteq> [] \<Longrightarrow> verify_browser_audit_signature hmac aj lc (Some k) (r\<lparr>wr_signature := create_browser_audit_signature hmac aj lc k r\<rparr>)"
  by (simp add: verify_browser_audit_signature_def create_browser_audit_signature_def constant_time_equal_iff
      to_browser_audit_signature_payload_def)

lemma signed_fields:
  "wr_executionId (sign_audit_request rt k (unsigned_audit_request a up t)) = aud_id a"
  "wr_targetUrl (sign_audit_request rt k (unsigned_audit_request a up t)) = aud_targetUrl a"
  "k \<noteq> [] \<Longrightarrow> verify_browser_audit_signature (rt_hmac rt) (rt_auditJson rt) (rt_localeCompare rt) (Some k)
     (sign_audit_request rt k (unsigned_audit_request a up t))"
proof -
  show "wr_executionId (sign_audit_request rt k (unsigned_audit_request a up t)) = aud_id a"
    and "wr_targetUrl (sign_audit_request rt k (unsigned_audit_request a up t)) = aud_targetUrl a"
    by (simp_all add: sign_audit_request_def unsigned_audit_request_def)
  show "k \<noteq> [] \<Longrightarrow> verify_browser_audit_signature (rt_hmac rt) (rt_auditJson rt) (rt_localeCompare rt) (Some k)
     (sign_audit_request rt k (unsigned_audit_request a up t))"
    unfolding sign_audit_request_def by (rule audit_signature_accepted)
qed

lemma triple_try_fetch:
  assumes "\<And>s w. P s \<Longrightarrow> Q (w, snd s @ [Fetched u q])"
  shows "triple P (try_fetch h u q) (\<lambda>_ s. Q s) E"
  unfolding try_fetch_def
  by (rule triple_catch [where R = "\<lambda>_ s. Q s"], rule triple_and_then [where R = "\<lambda>_ s. Q s"], rule triple_fetch_p)
    (use assms in \<open>auto intro: triple_ret\<close>)

lemma triple_read_worker_response:
  assumes "stable J"
  shows "triple (\<lambda>s. J (snd s)) (read_worker_response r) (\<lambda>_ s. J (snd s)) E"
  unfolding read_worker_response_def
  by (rule triple_catch [where R = "\<lambda>_ s. J (snd s)"], rule triple_json)
    (use assms in \<open>auto intro!: triple_and_then [where R = "\<lambda>_ s. J (snd s)"] triple_log triple_ret dest: stable_snoc(2)\<close>)

lemma triple_recover_fetch:
  assumes "stable J" "same_audit a b"
  shows "triple (\<lambda>s. J (snd s)) (recover_fetch rt h ej b) (audit_post rt a J) (audit_throws rt h ej a J)"
  unfolding recover_fetch_def
  by (rule triple_and_then [where R = "\<lambda>_ s. J (snd s)"], rule triple_abort)
    (use triple_retry_or_fail [OF assms] in \<open>auto simp: audit_error_def\<close>)

lemma triple_run_audit:
  fixes rt :: runtime and a :: audit_resource and k :: string and u :: url
  defines "J \<equiv> asked_ok (signed_request rt (Some k) (Some u) a)"
  assumes k: "k \<noteq> []"
  shows "triple (\<lambda>s. snd s = []) (run_audit rt h ej u k a) (audit_post rt a J) (audit_throws rt h ej a J)"
proof -
  let ?E = "audit_throws rt h ej a J" and ?Q = "audit_post rt a J"
  let ?G = "\<lambda>s. J (snd s) \<and> fetches (snd s) = []"
  have J: "stable J" unfolding J_def by (rule stable_asked)
  have same: "same_audit a (a\<lparr>aud_status := ARunning, aud_startedAt := Some t, aud_completedAt := None,
                             aud_result := None, aud_error := None\<rparr>)" (is "same_audit a (?x t)") for t
    by (simp add: same_audit_def)
  have grant: "triple (\<lambda>s. snd s = []) (grant_p h) (\<lambda>_. ?G) ?E"
    by (rule triple_grant) (auto simp: J_def audit_error_def asked_ok_single)
  have zod: "triple ?G (fail (ThrownError ''ZodError'' None)) ?Q ?E"
    by (rule triple_fail) (simp add: audit_error_def)
  have fetch: "triple (\<lambda>s. J (snd s) \<and> fetches (snd s) = [] \<and> last_saved (snd s) = Some (AuditResult (?x t)))
      (and_then (try_fetch h u q) (\<lambda>outcome. case outcome of
             Inl _ \<Rightarrow> recover_fetch rt h ej (?x t)
           | Inr response \<Rightarrow> and_then (read_worker_response response) (settle_audit rt h ej (?x t) upload response))) ?Q ?E"
    if q: "q = sign_audit_request rt k (unsigned_audit_request a upload ts)" for q upload ts t
  proof (rule triple_and_then)
    show "triple (\<lambda>s. J (snd s) \<and> fetches (snd s) = [] \<and> last_saved (snd s) = Some (AuditResult (?x t)))
        (try_fetch h u q) (\<lambda>_ s. J (snd s)) ?E"
      by (rule triple_try_fetch) (use same in \<open>auto simp: J_def signed_request_def q signed_fields k\<close>)
    fix outcome :: "thrown + audit_worker_response http_response"
    show "triple (\<lambda>s. J (snd s)) (case outcome of
             Inl _ \<Rightarrow> recover_fetch rt h ej (?x t)
           | Inr response \<Rightarrow> and_then (read_worker_response response) (settle_audit rt h ej (?x t) upload response)) ?Q ?E"
      by (cases outcome; simp only: sum.case)
        (rule triple_recover_fetch [OF J same], rule triple_and_then [OF triple_read_worker_response [OF J] triple_settle_audit [OF J same]])
  qed
  have parse: "triple ?G (parse_audit rt (?x t)) (\<lambda>b s. ?G s \<and> b = ?x t) ?E" for t
    using triple_parse_audit [of "\<lambda>tr. J tr \<and> fetches tr = []" rt "?x t"]
    by (rule triple_post) (auto simp: audit_error_def)
  have save: "triple ?G (save_p h (AuditResult (?x t)))
      (\<lambda>_ s. J (snd s) \<and> fetches (snd s) = [] \<and> last_saved (snd s) = Some (AuditResult (?x t))) ?E" for t
    by (rule triple_save) (auto simp: J_def audit_error_def)
  show ?thesis
    unfolding run_audit_def Let_def
  proof (rule triple_and_then [OF grant], rule triple_and_then [where R = "\<lambda>_. ?G"], rule triple_now, simp, rule triple_if, rule zod,
      rule triple_and_then [where R = "\<lambda>_. ?G"])
    show "triple ?G (now_unless h (aud_startedAt a)) (\<lambda>_. ?G) ?E"
      using triple_now_unless [of "\<lambda>tr. J tr \<and> fetches tr = []" h "aud_startedAt a"] by simp
  next
    fix upload ts t
    let ?q = "sign_audit_request rt k (unsigned_audit_request a upload ts)"
    show "triple ?G (and_then (parse_audit rt (?x t)) (\<lambda>b. and_then (save_p h (AuditResult b)) (\<lambda>_.
         and_then (try_fetch h u ?q) (\<lambda>outcome.
           case outcome of
             Inl _ \<Rightarrow> recover_fetch rt h ej b
           | Inr response \<Rightarrow> and_then (read_worker_response response) (settle_audit rt h ej b upload response))))) ?Q ?E"
    proof (rule triple_and_then [OF parse])
      fix b
      show "triple (\<lambda>s. ?G s \<and> b = ?x t) (and_then (save_p h (AuditResult b)) (\<lambda>_.
         and_then (try_fetch h u ?q) (\<lambda>outcome.
           case outcome of
             Inl _ \<Rightarrow> recover_fetch rt h ej b
           | Inr response \<Rightarrow> and_then (read_worker_response response) (settle_audit rt h ej b upload response)))) ?Q ?E"
      proof (cases "b = ?x t")
        case True
        show ?thesis unfolding True simp_thms by (rule triple_and_then [OF save fetch]) (rule refl)
      qed (simp add: triple_def)
    qed
  qed
qed

section \<open>The handler\<close>

definition audit_outcome :: "runtime \<Rightarrow> ('w, 'p) host \<Rightarrow> exec_job \<Rightarrow> 'w \<Rightarrow> thrown + unit \<Rightarrow> effect list \<Rightarrow> bool" where
  "audit_outcome rt h ej w r tr \<longleftrightarrow>
     (case r of
        Inr _ \<Rightarrow>
          \<exists>ej' i a. fst (h_context h w) = Inr (AuditContext ej' i a)
            \<and> (if is_terminal_audit_status (aud_status a) then tr = [] else audit_settled rt a tr)
      | Inl e \<Rightarrow>
          (\<exists>f. e = ThrownFailure f \<and> \<not> xf_retryable f \<and> tr = [])
          \<or> (\<exists>x. e = ThrownApi x \<and> tr = [])
          \<or> (\<exists>ej' i a. fst (h_context h w) = Inr (AuditContext ej' i a) \<and> audit_error rt h ej a e tr))"

definition audit_requests_ok ::
  "runtime \<Rightarrow> ('w, 'p) host \<Rightarrow> string option \<Rightarrow> url option \<Rightarrow> 'w \<Rightarrow> effect list \<Rightarrow> bool" where
  "audit_requests_ok rt h secret endpoint w tr \<longleftrightarrow>
     (\<forall>tr1 u q tr2. tr = tr1 @ Fetched u q # tr2 \<longrightarrow>
        (\<exists>ej' i a. fst (h_context h w) = Inr (AuditContext ej' i a) \<and> signed_request rt secret endpoint a tr1 u q))"

lemma terminal_statuses: "s \<in> {ASucceeded, AFailed, ACancelled} \<longleftrightarrow> is_terminal_audit_status s"
  by (simp add: is_terminal_audit_status_def)

lemma triple_audit_handler:
  "triple (\<lambda>s. s = (w, [])) (audit_execution_handler rt h secret endpoint ej)
     (\<lambda>x s. audit_outcome rt h ej w (Inr x) (snd s) \<and> audit_requests_ok rt h secret endpoint w (snd s))
     (\<lambda>e s. audit_outcome rt h ej w (Inl e) (snd s) \<and> audit_requests_ok rt h secret endpoint w (snd s))"
  (is "triple _ _ ?Q ?E")
proof -
  let ?R = "\<lambda>ctx s. snd s = [] \<and> fst (h_context h w) = Inr ctx"
  have none: "audit_requests_ok rt h secret endpoint w []" by (simp add: audit_requests_ok_def)
  have final: "triple (?R ctx) (fail (final_failure c m)) ?Q ?E" for ctx c m
    by (rule triple_fail) (auto simp: audit_outcome_def final_failure_def none)
  have body: "triple (?R (AuditContext ej' i a))
      (if is_terminal_audit_status (aud_status a) then ret ()
       else (case (endpoint, secret) of
               (Some e, Some k) \<Rightarrow>
                 if k = [] then fail_and_persist rt h a ''Browser Audit runner is not configured''
                 else run_audit rt h ej e k a
             | _ \<Rightarrow> fail_and_persist rt h a ''Browser Audit runner is not configured'')) ?Q ?E" for ej' i a
  proof (cases "fst (h_context h w) = Inr (AuditContext ej' i a)")
    case False
    then show ?thesis by (simp add: triple_def)
  next
    case ctx: True
    let ?J = "asked_ok (signed_request rt secret endpoint a)"
    have J: "?J tr \<Longrightarrow> audit_requests_ok rt h secret endpoint w tr" for tr
      unfolding audit_requests_ok_def asked_ok_def using ctx by blast
    have ended: "triple (?R (AuditContext ej' i a)) (ret ()) ?Q ?E" if "is_terminal_audit_status (aud_status a)"
      by (rule triple_ret) (use that ctx none in \<open>auto simp: audit_outcome_def\<close>)
    have lift: "triple (?R (AuditContext ej' i a)) p ?Q ?E"
      if "triple (\<lambda>s. snd s = []) p (audit_post rt a ?J) (audit_throws rt h ej a ?J)"
        "\<not> is_terminal_audit_status (aud_status a)" for p :: "('a, unit) prog"
      by (rule triple_pre [OF triple_post [OF that(1)]]) (use ctx that(2) J in \<open>auto simp: audit_outcome_def\<close>)
    have same: "same_audit a a" by (simp add: same_audit_def)
    have broken: "triple (\<lambda>s. snd s = []) (fail_and_persist rt h a m) (audit_post rt a ?J) (audit_throws rt h ej a ?J)" for m
      by (rule triple_pre [OF triple_fail_and_persist [OF stable_asked same]]) simp
    have run: "triple (\<lambda>s. snd s = []) (run_audit rt h ej e k a) (audit_post rt a ?J) (audit_throws rt h ej a ?J)"
      if "endpoint = Some e" "secret = Some k" "k \<noteq> []" for e k
      unfolding that(1,2) by (rule triple_run_audit [OF that(3)])
    let ?p = "case (endpoint, secret) of
               (Some e, Some k) \<Rightarrow>
                 if k = [] then fail_and_persist rt h a ''Browser Audit runner is not configured''
                 else run_audit rt h ej e k a
             | _ \<Rightarrow> fail_and_persist rt h a ''Browser Audit runner is not configured''"
    have p: "triple (\<lambda>s. snd s = []) ?p (audit_post rt a ?J) (audit_throws rt h ej a ?J)"
    proof (cases "\<exists>e k. endpoint = Some e \<and> secret = Some k \<and> k \<noteq> []")
      case True
      then obtain e k where ek: "endpoint = Some e" "secret = Some k" "k \<noteq> []" by blast
      then have "?p = run_audit rt h ej e k a" by simp
      then show ?thesis by (simp only: run [OF ek])
    next
      case False
      then have "?p = fail_and_persist rt h a ''Browser Audit runner is not configured''"
        by (auto split: option.splits)
      then show ?thesis by (simp only: broken)
    qed
    show ?thesis by (rule triple_if, erule ended) (rule lift [OF p])
  qed
  have ctx: "triple (\<lambda>s. s = (w, [])) (context_p h) ?R ?E"
    by (rule triple_context_at) (simp add: audit_outcome_def none)
  show ?thesis
    unfolding audit_execution_handler_def terminal_statuses
  proof (rule triple_and_then [OF ctx])
    fix x
    show "triple (?R x) (case x of
         AuditContext ej' i a \<Rightarrow>
           if is_terminal_audit_status (aud_status a) then ret ()
           else (case (endpoint, secret) of
                   (Some e, Some k) \<Rightarrow>
                     if k = [] then fail_and_persist rt h a ''Browser Audit runner is not configured''
                     else run_audit rt h ej e k a
                 | _ \<Rightarrow> fail_and_persist rt h a ''Browser Audit runner is not configured'')
       | _ \<Rightarrow> fail (final_failure ''invalid_browser_audit_context''
                      ''Executor received an invalid Browser Audit execution context'')) ?Q ?E"
      by (cases x; simp only: exec_context.case) (rule final, rule body, rule final)
  qed
qed


section \<open>The properties\<close>

text \<open>When the browser audit handler returns, the audit had ended before and nothing was asked of the
  outside, or the audit stored last is the same one, ended, with a completion time, valid for its schema, and with a
  result exactly when it succeeded. When it throws, it is an error of the control plane, the reason of an abort, a
  rejected document, a failure that is not to be retried, or, only while attempts are left, a failure to be retried,
  and then the audit is stored as queued.\<close>

theorem audit_handler_settles:
  assumes "audit_execution_handler rt h secret endpoint ej (w, []) = (r, w', tr)"
  shows "audit_outcome rt h ej w r tr"
  using triple_audit_handler [of w rt h secret endpoint ej] assms
  by (cases r) (auto dest: tripleD_Inr tripleD_Inl)

text \<open>Property C22. The runner is asked only with a configured endpoint and secret, at most once in a run, and only
  after the audit was stored as running; the request is for this audit and its target, and the runner that holds the
  same secret accepts its signature.\<close>

theorem audit_requests_are_signed:
  assumes "audit_execution_handler rt h secret endpoint ej (w, []) = (r, w', tr1 @ Fetched u q # tr2)"
  shows "\<exists>ej' i a. fst (h_context h w) = Inr (AuditContext ej' i a) \<and> endpoint = Some u \<and> fetches tr1 = []
           \<and> wr_executionId q = aud_id a \<and> wr_targetUrl q = aud_targetUrl a
           \<and> verify_browser_audit_signature (rt_hmac rt) (rt_auditJson rt) (rt_localeCompare rt) secret q
           \<and> (\<exists>x. last_saved tr1 = Some (AuditResult x) \<and> aud_id x = aud_id a \<and> aud_status x = ARunning)"
proof -
  have "audit_requests_ok rt h secret endpoint w (tr1 @ Fetched u q # tr2)"
    using triple_audit_handler [of w rt h secret endpoint ej] assms
    by (cases r) (auto dest: tripleD_Inr tripleD_Inl)
  then show ?thesis by (auto simp: audit_requests_ok_def signed_request_def same_audit_def) blast
qed

text \<open>An audit whose runner cannot be reached, first with attempts left, then without a runner.\<close>

definition demo_policy :: audit_policy where
  "demo_policy =
     \<lparr> pol_enabled = True, pol_required = False, pol_preset = Mobile, pol_providerClass = BestEffort,
       pol_artifacts = \<lparr>want_json = True, want_html = False, want_screenshot = False, want_trace = False\<rparr>,
       pol_timeouts = \<lparr>totalTimeoutMs = 60000, stepTimeoutMs = 10000\<rparr>, pol_flow = [Navigate None None] \<rparr>"

definition demo_audit :: audit_resource where
  "demo_audit =
     \<lparr> aud_id = ''a'', aud_targetUrl = ''u'', aud_region = None, aud_status = AQueued, aud_requestedAt = 0,
       aud_startedAt = None, aud_completedAt = None, aud_policy = demo_policy, aud_customHeaders = [], aud_cookies = [],
       aud_result = None, aud_error = None \<rparr>"

definition demo_upload :: upload_config where
  "demo_upload =
     \<lparr> up_baseUrl = ''u'', up_bearerToken = ''t'', up_expiresAt = 9, up_maxArtifactBytes = 1,
       up_allowedContentTypes = [''text/html''] \<rparr>"

definition demo_audit_host :: "(unit, audit_worker_response) host" where
  "demo_audit_host =
     demo_host\<lparr>h_context := (\<lambda>w. (Inr (AuditContext demo_exec_job ''a'' demo_audit), w)),
               h_grant := (\<lambda>w. (Inr demo_upload, w))\<rparr>"

definition demo_audit_runtime :: runtime where
  "demo_audit_runtime = demo_runtime\<lparr>rt_isUrl := (\<lambda>_. True), rt_hmac := (\<lambda>_ _. [7])\<rparr>"

lemma demo_audit_simps:
  "h_context demo_audit_host v = (Inr (AuditContext demo_exec_job ''a'' demo_audit), v)"
  "h_now demo_audit_host v = (5, v)" "h_random demo_audit_host v = (0, v)" "h_aborted demo_audit_host v = None"
  "h_save demo_audit_host x v = (Inr (), v)" "h_grant demo_audit_host v = (Inr demo_upload, v)"
  "h_fetch demo_audit_host u q v = (Inl (ThrownValue None), v)"
  "rt_isUrl demo_audit_runtime = (\<lambda>_. True)" "rt_hmac demo_audit_runtime = (\<lambda>_ _. [7])"
  "aud_status demo_audit = AQueued" "aud_startedAt demo_audit = None"
  by (simp_all add: demo_audit_host_def demo_host_def demo_audit_runtime_def demo_audit_def)

lemma demo_policy_ok: "audit_policy_ok (\<lambda>_. True) demo_policy"
  by (simp add: audit_policy_ok_def demo_policy_def audit_timeouts_ok_def flow_dsl_ok_def flow_dsl_issues_def
      flow_scan_start_def)

lemma demo_audit_ok:
  "err \<noteq> Some [] \<Longrightarrow> audit_resource_schema (\<lambda>_. True)
     (demo_audit\<lparr>aud_status := st, aud_startedAt := t1, aud_completedAt := t2, aud_result := None, aud_error := err\<rparr>)"
  "err \<noteq> Some [] \<Longrightarrow> audit_resource_schema (\<lambda>_. True)
     (demo_audit\<lparr>aud_startedAt := t1, aud_status := st, aud_completedAt := t2, aud_result := None, aud_error := err\<rparr>)"
  by (cases err; simp add: audit_resource_schema_def demo_audit_def demo_policy_ok)+

lemma demo_request_ok:
  "audit_worker_request_schema (\<lambda>_. True)
     (sign_audit_request demo_audit_runtime k (unsigned_audit_request demo_audit demo_upload t))"
proof -
  have b: "bytes_to_hex [7] = [CHR ''0'', CHR ''7'']" by code_simp
  have x: "list_all is_lower_hex [CHR ''0'', CHR ''7'']" by code_simp
  show ?thesis
    by (simp add: audit_worker_request_schema_def sign_audit_request_def unsigned_audit_request_def
        create_browser_audit_signature_def create_hmac_sha256_def demo_audit_simps b x [simplified] demo_audit_def demo_policy_ok
        demo_upload_def upload_config_schema_def len_between_def)
qed

definition demo_endpoint :: url where "demo_endpoint = demo_url\<lparr>u_pathname := ''/audit''\<rparr>"

lemma demo_audit_run:
  "\<exists>e w' ts q x. audit_execution_handler demo_audit_runtime demo_audit_host (Some ''k'') (Some demo_endpoint) demo_exec_job ((), [])
     = (Inl e, w', [Granted, Saved (AuditResult x)] @ Fetched demo_endpoint q # ts) \<and> ts \<noteq> []"
  by (simp add: audit_execution_handler_def prog_defs demo_audit_simps run_audit_def Let_def grant_p_def demo_request_ok
      now_unless_def parse_audit_def demo_audit_ok try_fetch_def fetch_p_def recover_fetch_def retry_or_fail_def
      demo_exec_job_def retry_failure_def)


theorem audit_handler_settles_witness:
  "\<exists>e w' tr. audit_execution_handler demo_audit_runtime demo_audit_host (Some ''k'') (Some demo_endpoint) demo_exec_job ((), [])
       = (Inl e, w', tr) \<and> tr \<noteq> [] \<and> audit_outcome demo_audit_runtime demo_audit_host demo_exec_job () (Inl e) tr"
proof -
  obtain e w' tr where run: "audit_execution_handler demo_audit_runtime demo_audit_host (Some ''k'') (Some demo_endpoint)
      demo_exec_job ((), []) = (Inl e, w', tr)" and "tr \<noteq> []"
    using demo_audit_run by (metis append_is_Nil_conv list.distinct(1))
  with audit_handler_settles [OF run] show ?thesis by blast
qed

theorem audit_requests_are_signed_witness:
  "\<exists>q. wr_executionId q = ''a'' \<and> wr_signature q = ''07''
     \<and> verify_browser_audit_signature (\<lambda>_ _. [7]) (rt_auditJson demo_audit_runtime)
         (rt_localeCompare demo_audit_runtime) (Some ''k'') q"
proof -
  obtain e w' ts q x where "audit_execution_handler demo_audit_runtime demo_audit_host (Some ''k'') (Some demo_endpoint)
      demo_exec_job ((), []) = (Inl e, w', [Granted, Saved (AuditResult x)] @ Fetched demo_endpoint q # ts)"
    using demo_audit_run by blast
  from audit_requests_are_signed [OF this]
  have q: "wr_executionId q = ''a''" "verify_browser_audit_signature (\<lambda>_ _. [7]) (rt_auditJson demo_audit_runtime)
         (rt_localeCompare demo_audit_runtime) (Some ''k'') q"
    by (simp_all add: demo_audit_simps demo_audit_def)
  have "bytes_to_hex [7] = [CHR ''0'', CHR ''7'']" by code_simp
  with q show ?thesis
    by (intro exI [of _ q])
      (simp add: verify_browser_audit_signature_def constant_time_equal_iff create_browser_audit_signature_def create_hmac_sha256_def)
qed

end
