(* ===== verification/Artifact_Store.thy ===== *)
theory Artifact_Store
  imports Repository
begin

text \<open>
  The store of browser audit artifacts, \<open>apps/api/src/browser-audit-artifact-store.ts\<close>, over a file system that is a
  tree of named entries below the configured root. What the code learns from \<open>stat\<close> is in the entries: kind, time,
  owner and mode. Symbolic links, devices and sockets are \<open>FsOther\<close>: opening them without following fails with one of
  the codes the code treats as removable. One operation runs at a time; a directory replaced under it is the flag
  \<open>wi_changed\<close> of its script.
\<close>

section \<open>File system\<close>

record fs_file =
  ff_content :: string
  ff_mtime :: iso
  ff_owned :: bool
  ff_private :: bool

datatype fs_node = FsFile fs_file | FsDir iso bool "(string \<times> fs_node) list" | FsOther

type_synonym entries = "(string \<times> fs_node) list"

definition drop_entry :: "string \<Rightarrow> entries \<Rightarrow> entries" where
  "drop_entry name es = filter (\<lambda>e. fst e \<noteq> name) es"

definition put_entry :: "string \<Rightarrow> fs_node \<Rightarrow> entries \<Rightarrow> entries" where
  "put_entry name n es = drop_entry name es @ [(name, n)]"

section \<open>Names\<close>

datatype store_error = StoreValidation string int | StoreFailure string

definition pinned_entry_name_ok :: "string \<Rightarrow> bool" where
  "pinned_entry_name_ok s =
     (1 \<le> length s \<and> length s \<le> 255 \<and> is_alnum (hd s) \<and> (\<forall>c \<in> set s. is_alnum c \<or> c \<in> set ''_.-''))"

definition segment_error :: "string \<Rightarrow> store_error" where
  "segment_error label = StoreValidation (''Artifact '' @ label @ '' is invalid'') 400"

definition location_for_storage_key :: "string \<Rightarrow> store_error + string \<times> string" where
  "location_for_storage_key key =
     (case split_char CHR ''/'' key of
        [a, b] \<Rightarrow>
          if a = [] \<or> b = [] then Inl (StoreValidation ''Artifact storage key is invalid'' 400)
          else if \<not> artifact_storage_segment_ok a then Inl (segment_error ''audit ID'')
          else if \<not> artifact_storage_segment_ok b then Inl (segment_error ''artifact ID'')
          else Inr (a, b)
      | _ \<Rightarrow> Inl (StoreValidation ''Artifact storage key is invalid'' 400))"

definition storage_key :: "string \<Rightarrow> string \<Rightarrow> string" where
  "storage_key auditId artifactId = auditId @ ''/'' @ artifactId"

text \<open>\<open>nfkc\<close> is \<open>String.prototype.normalize\<close>.\<close>

definition is_control :: "char \<Rightarrow> bool" where
  "is_control c = (of_char c < (32::nat) \<or> of_char c = (127::nat))"

fun dash_blanks :: "string \<Rightarrow> string" where
  "dash_blanks [] = []"
| "dash_blanks (c # cs) =
     (if \<not> is_ws c then c # dash_blanks cs
      else (case cs of d # _ \<Rightarrow> if is_ws d then dash_blanks cs else CHR ''-'' # dash_blanks cs | [] \<Rightarrow> [CHR ''-'']))"

fun single_underscores :: "string \<Rightarrow> string" where
  "single_underscores [] = []"
| "single_underscores (c # cs) =
     (if c = CHR ''_'' \<and> (case cs of d # _ \<Rightarrow> d = CHR ''_'' | [] \<Rightarrow> False) then single_underscores cs
      else c # single_underscores cs)"

definition filename_char :: "char \<Rightarrow> bool" where
  "filename_char c = (is_alnum c \<or> c \<in> set ''._-'')"

definition safe_filename :: "string \<Rightarrow> string" where
  "safe_filename s = single_underscores (map (\<lambda>c. if filename_char c then c else CHR ''_'') (dash_blanks s))"

definition normalize_artifact_filename :: "(string \<Rightarrow> string) \<Rightarrow> string \<Rightarrow> string option" where
  "normalize_artifact_filename nfkc v =
     (let n = js_trim (nfkc v); safe = safe_filename n in
      if n = [] \<or> length n > 255 \<or> n = ''.'' \<or> n = ''..'' \<or> CHR ''/'' \<in> set n \<or> CHR 0x5C \<in> set n
         \<or> list_ex is_control n
      then None
      else if safe = [] \<or> list_all (\<lambda>c. c = CHR ''.'') safe then None else Some safe)"

section \<open>Writing\<close>

record stored_artifact_file =
  saf_storageKey :: string
  saf_byteSize :: int
  saf_sha256 :: string

text \<open>What the platform does during a write: the body's chunks and whether it breaks off after them, the UUID in the
  name of the temporary entry, the file system's clock, and which of the last calls fail.\<close>

record write_io =
  wi_chunks :: "string list option"
  wi_breaks :: bool
  wi_uuid :: string
  wi_now :: iso
  wi_unlinkFails :: bool
  wi_changed :: bool

fun read_artifact_chunks :: "int \<Rightarrow> int \<Rightarrow> string list \<Rightarrow> string \<Rightarrow> string option" where
  "read_artifact_chunks expected maxBytes [] acc = Some acc"
| "read_artifact_chunks expected maxBytes (c # cs) acc =
     (let n = int (length (acc @ c)) in
      if n > maxBytes \<or> n > expected then None else read_artifact_chunks expected maxBytes cs (acc @ c))"

definition open_private_directory :: "string \<Rightarrow> entries \<Rightarrow> entries option" where
  "open_private_directory name fs =
     (case map_of fs name of Some (FsDir m True es) \<Rightarrow> Some es | _ \<Rightarrow> None)"

definition write_directory :: "string \<Rightarrow> iso \<Rightarrow> entries \<Rightarrow> entries \<Rightarrow> entries" where
  "write_directory name now es fs = map (\<lambda>e. if fst e = name then (name, FsDir now True es) else e) fs"

text \<open>The received body: the error it ends with, or its bytes.\<close>

definition body_bytes :: "write_io \<Rightarrow> string" where
  "body_bytes io = concat (case wi_chunks io of None \<Rightarrow> [] | Some cs \<Rightarrow> cs)"

definition receive_artifact :: "int \<Rightarrow> int \<Rightarrow> write_io \<Rightarrow> store_error + string" where
  "receive_artifact expected maxBytes io =
     (case read_artifact_chunks expected maxBytes (case wi_chunks io of None \<Rightarrow> [] | Some cs \<Rightarrow> cs) [] of
        None \<Rightarrow> Inl (StoreValidation ''Artifact exceeds the declared byte size'' 413)
      | Some bytes \<Rightarrow>
          if wi_breaks io then Inl (StoreFailure ''Artifact body failed'')
          else if int (length bytes) \<noteq> expected
          then Inl (StoreValidation ''Artifact body does not match its declared byte size'' 400)
          else Inr bytes)"

definition artifact_node :: "iso \<Rightarrow> string \<Rightarrow> fs_node" where
  "artifact_node now bytes = FsFile \<lparr> ff_content = bytes, ff_mtime = now, ff_owned = True, ff_private = True \<rparr>"

text \<open>The entries of the audit's directory after its \<open>finally\<close> block: \<open>es\<close> are those without the temporary entry.\<close>

definition temporary_entry :: "string \<Rightarrow> write_io \<Rightarrow> string" where
  "temporary_entry artifactId io = artifactId @ ''.tmp-'' @ wi_uuid io"

definition after_cleanup :: "string \<Rightarrow> write_io \<Rightarrow> fs_node \<Rightarrow> entries \<Rightarrow> entries" where
  "after_cleanup artifactId io n es =
     (if wi_unlinkFails io then put_entry (temporary_entry artifactId io) n es else es)"

definition publish_artifact ::
  "(string \<Rightarrow> string) \<Rightarrow> string \<Rightarrow> string \<Rightarrow> write_io \<Rightarrow> string \<Rightarrow> entries
   \<Rightarrow> (store_error + stored_artifact_file) \<times> entries" where
  "publish_artifact sha256 auditId artifactId io bytes es =
     (let n = artifact_node (wi_now io) bytes in
      if map_of es artifactId \<noteq> None
      then (Inl (StoreValidation ''Artifact already exists'' 409), after_cleanup artifactId io n es)
      else if wi_changed io
      then (Inl (StoreFailure ''Browser Audit artifact directory changed during write''),
            after_cleanup artifactId io n es)
      else (Inr \<lparr> saf_storageKey = storage_key auditId artifactId, saf_byteSize = int (length bytes),
                   saf_sha256 = sha256 bytes \<rparr>,
            after_cleanup artifactId io n (put_entry artifactId n es)))"

definition write_in_directory ::
  "(string \<Rightarrow> string) \<Rightarrow> string \<Rightarrow> string \<Rightarrow> int \<Rightarrow> int \<Rightarrow> write_io \<Rightarrow> entries
   \<Rightarrow> (store_error + stored_artifact_file) \<times> entries" where
  "write_in_directory sha256 auditId artifactId expected maxBytes io es =
     (if map_of es (temporary_entry artifactId io) \<noteq> None
      then (Inl (StoreFailure ''EEXIST''), if wi_unlinkFails io then es else drop_entry (temporary_entry artifactId io) es)
      else (case receive_artifact expected maxBytes io of
              Inl e \<Rightarrow> (Inl e, after_cleanup artifactId io (artifact_node (wi_now io) []) es)
            | Inr bytes \<Rightarrow> publish_artifact sha256 auditId artifactId io bytes es))"

definition write_artifact ::
  "(string \<Rightarrow> string) \<Rightarrow> string \<Rightarrow> string \<Rightarrow> int \<Rightarrow> int \<Rightarrow> write_io \<Rightarrow> entries
   \<Rightarrow> (store_error + stored_artifact_file) \<times> entries" where
  "write_artifact sha256 auditId artifactId expected maxBytes io fs =
     (if \<not> artifact_storage_segment_ok auditId then (Inl (segment_error ''audit ID''), fs)
      else if \<not> artifact_storage_segment_ok artifactId then (Inl (segment_error ''artifact ID''), fs)
      else if \<not> is_safe_integer expected \<or> expected < 0
      then (Inl (StoreValidation ''Artifact size is invalid'' 400), fs)
      else if \<not> is_safe_integer maxBytes \<or> maxBytes < 1
      then (Inl (StoreFailure ''Artifact byte limit must be a positive integer''), fs)
      else if expected > maxBytes
      then (Inl (StoreValidation ''Artifact exceeds the configured byte limit'' 413), fs)
      else
        (let fs' = (if map_of fs auditId = None then fs @ [(auditId, FsDir (wi_now io) True [])] else fs) in
         case open_private_directory auditId fs' of
           None \<Rightarrow> (Inl (StoreFailure ''Browser Audit artifact directory is unsafe''), fs')
         | Some es \<Rightarrow>
             (let (r, es') = write_in_directory sha256 auditId artifactId expected maxBytes io es in
              (r, write_directory auditId (wi_now io) es' fs'))))"

section \<open>Reading and deleting\<close>

definition artifact_at :: "string \<Rightarrow> string \<Rightarrow> entries \<Rightarrow> fs_file option" where
  "artifact_at auditId artifactId fs =
     (case open_private_directory auditId fs of
        None \<Rightarrow> None
      | Some es \<Rightarrow> (case map_of es artifactId of Some (FsFile f) \<Rightarrow> Some f | _ \<Rightarrow> None))"

definition open_download :: "string \<Rightarrow> int \<Rightarrow> entries \<Rightarrow> store_error + fs_file" where
  "open_download key expected fs =
     (if \<not> is_safe_integer expected \<or> expected < 0 then Inl (StoreValidation ''Artifact size is invalid'' 400)
      else (case location_for_storage_key key of
              Inl e \<Rightarrow> Inl e
            | Inr (a, b) \<Rightarrow>
                (case artifact_at a b fs of
                   None \<Rightarrow> Inl (StoreFailure ''Browser Audit artifact file is missing or inconsistent'')
                 | Some f \<Rightarrow>
                     if int (length (ff_content f)) \<noteq> expected \<or> \<not> ff_owned f \<or> \<not> ff_private f
                     then Inl (StoreFailure ''Browser Audit artifact file is missing or inconsistent'')
                     else Inr f)))"

text \<open>\<open>readableFileHandle\<close>: pieces of at most 64 KiB of the \<open>remaining\<close> bytes; \<open>None\<close> if the file ends before them.\<close>

function stream_file :: "nat \<Rightarrow> string \<Rightarrow> string list option" where
  "stream_file remaining content =
     (if remaining = 0 then Some []
      else
        (let piece = take (min (64 * 1024) remaining) content in
         if piece = [] then None
         else map_option ((#) piece) (stream_file (remaining - length piece) (drop (length piece) content))))"
  by auto
termination by (relation "measure fst") auto

declare stream_file.simps [simp del]

definition delete_artifact :: "string \<Rightarrow> iso \<Rightarrow> entries \<Rightarrow> (store_error + unit) \<times> entries" where
  "delete_artifact key now fs =
     (case location_for_storage_key key of
        Inl e \<Rightarrow> (Inl e, fs)
      | Inr (a, b) \<Rightarrow>
          if map_of fs a = None then (Inr (), fs)
          else (case open_private_directory a fs of
                  None \<Rightarrow> (Inl (StoreFailure ''Browser Audit artifact directory is unsafe''), fs)
                | Some es \<Rightarrow> (Inr (), write_directory a now (drop_entry b es) fs)))"

section \<open>Reconciliation\<close>

datatype removed_kind = RemovedFile | RemovedDirectory

definition artifact_reconciliation_grace_ms :: int where
  "artifact_reconciliation_grace_ms = 60 * 60 * 1000"

definition maximum_pinned_cleanup_depth :: nat where "maximum_pinned_cleanup_depth = 32"
definition pinned_cleanup_attempts :: nat where "pinned_cleanup_attempts = 3"

text \<open>\<open>removePinnedTreeEntry\<close>: what is left of an entry, and what was removed. A directory is emptied and removed, in
  at most three attempts; entries of other names and those below the depth stay.\<close>

fun attempt_removal ::
  "(fs_node \<Rightarrow> fs_node option \<times> removed_kind option) \<Rightarrow> nat \<Rightarrow> iso \<Rightarrow> bool \<Rightarrow> entries
   \<Rightarrow> fs_node option \<times> removed_kind option" where
  "attempt_removal remove 0 m owned es = (Some (FsDir m owned es), None)"
| "attempt_removal remove (Suc n) m owned es =
     (let es' = List.map_filter (\<lambda>(name, child).
                  if \<not> pinned_entry_name_ok name then Some (name, child)
                  else map_option (Pair name) (fst (remove child))) es in
      if es' = [] then (None, Some RemovedDirectory) else attempt_removal remove n m owned es')"

primrec remove_node :: "nat \<Rightarrow> fs_node \<Rightarrow> fs_node option \<times> removed_kind option" where
  "remove_node 0 = (\<lambda>n. (Some n, None))"
| "remove_node (Suc levels) = (\<lambda>n.
     case n of
       FsDir m owned es \<Rightarrow> attempt_removal (remove_node levels) pinned_cleanup_attempts m owned es
     | _ \<Rightarrow> (None, Some RemovedFile))"

definition remove_pinned_tree_entry :: "fs_node \<Rightarrow> fs_node option \<times> removed_kind option" where
  "remove_pinned_tree_entry n = remove_node (Suc maximum_pinned_cleanup_depth) n"

record reconciliation =
  rn_removedFiles :: nat
  rn_removedDirectories :: nat

definition count_removed :: "removed_kind option \<Rightarrow> reconciliation \<Rightarrow> reconciliation" where
  "count_removed k r =
     (case k of
        None \<Rightarrow> r
      | Some RemovedFile \<Rightarrow> r\<lparr>rn_removedFiles := Suc (rn_removedFiles r)\<rparr>
      | Some RemovedDirectory \<Rightarrow> r\<lparr>rn_removedDirectories := Suc (rn_removedDirectories r)\<rparr>)"

text \<open>Whether an entry of an audit's directory stays.\<close>

definition keeps_artifact :: "string set \<Rightarrow> int \<Rightarrow> iso \<Rightarrow> string \<Rightarrow> string \<Rightarrow> fs_node \<Rightarrow> bool" where
  "keeps_artifact valid minAge cutoff auditId name n =
     (case n of
        FsFile f \<Rightarrow>
          (artifact_storage_segment_ok name \<and> storage_key auditId name \<in> valid)
          \<or> (minAge > 0 \<and> ff_mtime f > cutoff)
      | _ \<Rightarrow> False)"

fun reconcile_artifacts ::
  "string set \<Rightarrow> int \<Rightarrow> iso \<Rightarrow> string \<Rightarrow> entries \<Rightarrow> reconciliation \<Rightarrow> entries \<times> reconciliation" where
  "reconcile_artifacts valid minAge cutoff auditId [] r = ([], r)"
| "reconcile_artifacts valid minAge cutoff auditId ((name, n) # es) r =
     (if \<not> pinned_entry_name_ok name \<or> keeps_artifact valid minAge cutoff auditId name n
      then (let (es', r') = reconcile_artifacts valid minAge cutoff auditId es r in ((name, n) # es', r'))
      else
        (let (left, k) = remove_pinned_tree_entry n;
             (es', r') = reconcile_artifacts valid minAge cutoff auditId es (count_removed k r) in
         (case left of None \<Rightarrow> es' | Some n' \<Rightarrow> (name, n') # es', r')))"

definition reconcile_directory ::
  "string set \<Rightarrow> int \<Rightarrow> iso \<Rightarrow> iso \<Rightarrow> string \<Rightarrow> iso \<Rightarrow> entries \<Rightarrow> reconciliation
   \<Rightarrow> entries \<times> reconciliation" where
  "reconcile_directory valid minAge cutoff now auditId m es r =
     (let (es', r') = reconcile_artifacts valid minAge cutoff auditId es r in
      if es' = [] \<and> (minAge = 0 \<or> m \<le> cutoff)
      then ([], r'\<lparr>rn_removedDirectories := Suc (rn_removedDirectories r')\<rparr>)
      else ([(auditId, FsDir (if es' = es then m else now) True es')], r'))"

fun reconcile_entries ::
  "string set \<Rightarrow> int \<Rightarrow> iso \<Rightarrow> iso \<Rightarrow> entries \<Rightarrow> reconciliation \<Rightarrow> entries \<times> reconciliation" where
  "reconcile_entries valid minAge cutoff now [] r = ([], r)"
| "reconcile_entries valid minAge cutoff now ((name, n) # es) r =
     (if \<not> artifact_storage_segment_ok name
      then (let (es', r') = reconcile_entries valid minAge cutoff now es r in ((name, n) # es', r'))
      else
        (let (kept, r1) =
               (case n of
                  FsDir m True cs \<Rightarrow> reconcile_directory valid minAge cutoff now name m cs r
                | _ \<Rightarrow>
                    (let (left, k) = remove_pinned_tree_entry n in
                     (case left of None \<Rightarrow> [] | Some n' \<Rightarrow> [(name, n')], count_removed k r)));
             (es', r') = reconcile_entries valid minAge cutoff now es r1 in
         (kept @ es', r')))"

definition reconcile_store ::
  "string list \<Rightarrow> bool \<Rightarrow> int option \<Rightarrow> iso \<Rightarrow> entries \<Rightarrow> store_error + entries \<times> reconciliation" where
  "reconcile_store validKeys allowImmediate minimumOrphanAge now fs =
     (let minAge = (case minimumOrphanAge of None \<Rightarrow> artifact_reconciliation_grace_ms | Some n \<Rightarrow> n) in
      if \<not> is_safe_integer minAge \<or> minAge < 0
      then Inl (StoreFailure ''Artifact reconciliation grace must be a non-negative integer'')
      else if minAge = 0 \<and> \<not> allowImmediate
      then Inl (StoreFailure ''Immediate artifact reconciliation requires explicit deletion opt-in'')
      else (case List.find (\<lambda>k. isl (location_for_storage_key k)) validKeys of
              Some k \<Rightarrow> Inl (case location_for_storage_key k of Inl e \<Rightarrow> e | Inr _ \<Rightarrow> StoreFailure [])
            | None \<Rightarrow>
                Inr (reconcile_entries (set validKeys) minAge (now - minAge) now fs
                       \<lparr> rn_removedFiles = 0, rn_removedDirectories = 0 \<rparr>)))"

section \<open>Lemmas\<close>

lemma map_of_drop_entry: "map_of (drop_entry b es) x = (if x = b then None else map_of es x)"
  by (induction es) (auto simp: drop_entry_def)

lemma map_of_put_entry: "map_of (put_entry b n es) x = (if x = b then Some n else map_of es x)"
proof -
  have "map_of (put_entry b n es) x = ([b \<mapsto> n] ++ map_of (drop_entry b es)) x" by (simp add: put_entry_def map_of_append)
  then show ?thesis by (auto simp: map_add_def map_of_drop_entry split: option.splits)
qed

lemma map_of_write_directory:
  "map_of (write_directory a now es fs) x
   = (if x = a then map_option (\<lambda>_. FsDir now True es) (map_of fs a) else map_of fs x)"
  by (induction fs) (auto simp: write_directory_def)

lemma segment_no_char:
  "artifact_storage_segment_ok s \<Longrightarrow> CHR ''/'' \<notin> set s \<and> CHR ''.'' \<notin> set s \<and> s \<noteq> []"
  by (auto simp: artifact_storage_segment_ok_def is_alnum_def is_digit_def is_lower_def is_upper_def)

lemma location_of_key:
  "artifact_storage_segment_ok a \<Longrightarrow> artifact_storage_segment_ok b \<Longrightarrow>
     location_for_storage_key (storage_key a b) = Inr (a, b)"
  using segment_no_char [of a] segment_no_char [of b]
  by (simp add: location_for_storage_key_def storage_key_def split_char_append_delim split_char_no_delim)

lemma temporary_not_segment: "artifact_storage_segment_ok b \<Longrightarrow> b \<noteq> temporary_entry artifactId io"
  using segment_no_char [of b] by (auto simp: temporary_entry_def)

lemma after_cleanup_entry:
  "artifact_storage_segment_ok b \<Longrightarrow> map_of (after_cleanup artifactId io n es) b = map_of es b"
  by (simp add: after_cleanup_def map_of_put_entry temporary_not_segment)

lemma read_artifact_chunks_all:
  "read_artifact_chunks expected maxBytes cs acc = Some bytes \<Longrightarrow> bytes = acc @ concat cs"
  by (induction expected maxBytes cs acc rule: read_artifact_chunks.induct) (auto simp: Let_def split: if_splits)

lemma receive_artifact_Inr:
  "receive_artifact expected maxBytes io = Inr bytes \<Longrightarrow>
     bytes = body_bytes io \<and> int (length bytes) = expected"
  by (auto simp: receive_artifact_def body_bytes_def split: option.splits if_splits dest: read_artifact_chunks_all)

lemma publish_artifact_entries:
  assumes "publish_artifact sha256 auditId artifactId io bytes es = (r, es')" "artifact_storage_segment_ok b"
  shows "map_of es' b = (if isl r \<or> b \<noteq> artifactId then map_of es b else Some (artifact_node (wi_now io) bytes))
    \<and> (\<forall>sf. r = Inr sf \<longrightarrow> map_of es artifactId = None
        \<and> sf = \<lparr> saf_storageKey = storage_key auditId artifactId, saf_byteSize = int (length bytes),
                 saf_sha256 = sha256 bytes \<rparr>)"
  using assms
  by (auto simp: publish_artifact_def Let_def after_cleanup_entry map_of_put_entry split: if_splits)

lemma write_in_directory_entries:
  assumes "write_in_directory sha256 auditId artifactId expected maxBytes io es = (r, es')"
    "artifact_storage_segment_ok b"
  shows "map_of es' b = (if isl r \<or> b \<noteq> artifactId then map_of es b
        else Some (artifact_node (wi_now io) (body_bytes io)))
    \<and> (\<forall>sf. r = Inr sf \<longrightarrow> map_of es artifactId = None \<and> int (length (body_bytes io)) = expected
         \<and> sf = \<lparr> saf_storageKey = storage_key auditId artifactId, saf_byteSize = expected,
                  saf_sha256 = sha256 (body_bytes io) \<rparr>)"
proof (cases "map_of es (temporary_entry artifactId io)")
  case (Some n)
  with assms temporary_not_segment [OF assms(2)] show ?thesis
    by (auto simp: write_in_directory_def map_of_drop_entry split: if_splits)
next
  case None
  show ?thesis
  proof (cases "receive_artifact expected maxBytes io")
    case (Inl e)
    with None assms show ?thesis by (auto simp: write_in_directory_def after_cleanup_entry)
  next
    case (Inr bytes)
    with None assms(1) have "publish_artifact sha256 auditId artifactId io bytes es = (r, es')"
      by (simp add: write_in_directory_def)
    from publish_artifact_entries [OF this assms(2)] receive_artifact_Inr [OF Inr] show ?thesis by auto
  qed
qed

lemma artifact_at_new_directory:
  "map_of fs auditId = None \<Longrightarrow> artifact_at a b (fs @ [(auditId, FsDir now True [])]) = artifact_at a b fs"
  by (auto simp: artifact_at_def open_private_directory_def map_of_append map_add_def split: option.splits)

lemma artifact_at_write_directory:
  assumes "open_private_directory auditId fs = Some es"
  shows "artifact_at a b (write_directory auditId now es' fs)
    = (if a = auditId then (case map_of es' b of Some (FsFile f) \<Rightarrow> Some f | _ \<Rightarrow> None) else artifact_at a b fs)"
proof -
  from assms obtain m where "map_of fs auditId = Some (FsDir m True es)"
    by (auto simp: open_private_directory_def split: option.splits fs_node.splits bool.splits)
  then show ?thesis
    by (simp add: artifact_at_def open_private_directory_def map_of_write_directory)
qed

definition stored_result :: "(string \<Rightarrow> string) \<Rightarrow> string \<Rightarrow> string \<Rightarrow> write_io \<Rightarrow> stored_artifact_file" where
  "stored_result sha256 auditId artifactId io =
     \<lparr> saf_storageKey = storage_key auditId artifactId, saf_byteSize = int (length (body_bytes io)),
       saf_sha256 = sha256 (body_bytes io) \<rparr>"

lemma write_artifact_cases:
  assumes "write_artifact sha256 auditId artifactId expected maxBytes io fs = (r, fs')"
    "artifact_storage_segment_ok b"
  shows "artifact_at a b fs' = (if isl r \<or> (a, b) \<noteq> (auditId, artifactId) then artifact_at a b fs
        else Some \<lparr> ff_content = body_bytes io, ff_mtime = wi_now io, ff_owned = True, ff_private = True \<rparr>)
    \<and> (\<forall>sf. r = Inr sf \<longrightarrow>
        artifact_storage_segment_ok auditId \<and> artifact_storage_segment_ok artifactId
        \<and> artifact_at auditId artifactId fs = None \<and> int (length (body_bytes io)) = expected
        \<and> expected \<le> maxBytes \<and> is_safe_integer expected \<and> sf = stored_result sha256 auditId artifactId io)"
proof -
  define fs0 where "fs0 = (if map_of fs auditId = None then fs @ [(auditId, FsDir (wi_now io) True [])] else fs)"
  have same: "artifact_at a b fs0 = artifact_at a b fs" for a b
    by (simp add: fs0_def artifact_at_new_directory)
  consider (early) e where "r = Inl e" "fs' = fs \<or> fs' = fs0"
    | (late) es es' where "open_private_directory auditId fs0 = Some es"
        "write_in_directory sha256 auditId artifactId expected maxBytes io es = (r, es')"
        "fs' = write_directory auditId (wi_now io) es' fs0" "artifact_storage_segment_ok auditId"
        "artifact_storage_segment_ok artifactId" "expected \<le> maxBytes" "is_safe_integer expected"
    using assms(1) unfolding write_artifact_def fs0_def [symmetric] Let_def
    by (auto split: if_splits option.splits prod.splits)
  then show ?thesis
  proof cases
    case early
    with same show ?thesis by auto
  next
    case late
    have e: "artifact_at auditId b fs0 = (case map_of es b of Some (FsFile f) \<Rightarrow> Some f | _ \<Rightarrow> None)" for b
      using late(1) by (simp add: artifact_at_def)
    show ?thesis
      using write_in_directory_entries [OF late(2) assms(2)] write_in_directory_entries [OF late(2) late(5)]
      by (auto simp: late artifact_at_write_directory [OF late(1)] same [symmetric] e artifact_node_def
          stored_result_def)
  qed
qed

text \<open>A text streamed in pieces.\<close>

lemma stream_file_step:
  "content \<noteq> [] \<Longrightarrow>
     stream_file (length content) content
     = map_option ((#) (take 65536 content)) (stream_file (length (drop 65536 content)) (drop 65536 content))"
  by (subst stream_file.simps) (simp add: Let_def min_def)

lemma stream_file_pieces:
  "\<exists>ps. stream_file (length content) content = Some ps
     \<and> concat ps = content \<and> list_all (\<lambda>p. 1 \<le> length p \<and> length p \<le> 65536) ps"
proof (induction content rule: length_induct)
  case (1 content)
  show ?case
  proof (cases "content = []")
    case True
    then show ?thesis by (simp add: stream_file.simps)
  next
    case False
    with 1 obtain qs where "stream_file (length (drop 65536 content)) (drop 65536 content) = Some qs"
      "concat qs = drop 65536 content" "list_all (\<lambda>p. 1 \<le> length p \<and> length p \<le> 65536) qs"
      by (elim allE [of _ "drop 65536 content"]) auto
    with stream_file_step [OF False] False show ?thesis by (simp add: Suc_le_eq)
  qed
qed

section \<open>What reconciliation leaves\<close>

lemma remove_file: "remove_pinned_tree_entry (FsFile f) = (None, Some RemovedFile)"
  by (simp add: remove_pinned_tree_entry_def)

lemma attempt_removal_left: "fst (attempt_removal remove n m owned es) = Some l \<Longrightarrow> \<exists>cs. l = FsDir m owned cs"
  by (induction remove n m owned es rule: attempt_removal.induct) (auto simp: Let_def split: if_splits)

lemma remove_left: "fst (remove_pinned_tree_entry n) = Some l \<Longrightarrow> \<exists>m owned cs cs'. n = FsDir m owned cs' \<and> l = FsDir m owned cs"
  by (cases n) (auto simp: remove_pinned_tree_entry_def dest: attempt_removal_left)

lemma reconcile_artifacts_keeps:
  "map_of es name = Some n \<Longrightarrow> keeps_artifact valid minAge cutoff auditId name n \<Longrightarrow>
     map_of (fst (reconcile_artifacts valid minAge cutoff auditId es r)) name = Some n"
proof (induction valid minAge cutoff auditId es r rule: reconcile_artifacts.induct)
  case (2 valid minAge cutoff auditId nm k es r)
  then show ?case
    by (cases "nm = name"; cases k)
      (auto simp: Let_def remove_file split: prod.splits option.splits if_splits)
qed simp

lemma reconcile_artifacts_left:
  "(name, n) \<in> set (fst (reconcile_artifacts valid minAge cutoff auditId es r)) \<Longrightarrow>
     pinned_entry_name_ok name \<Longrightarrow> n = FsFile f \<Longrightarrow>
     (name, n) \<in> set es \<and> keeps_artifact valid minAge cutoff auditId name n"
proof (induction valid minAge cutoff auditId es r rule: reconcile_artifacts.induct)
  case (2 valid minAge cutoff auditId nm k es r)
  show ?case
  proof (cases "\<not> pinned_entry_name_ok nm \<or> keeps_artifact valid minAge cutoff auditId nm k")
    case True
    with 2 show ?thesis by (auto simp: Let_def split: prod.splits)
  next
    case False
    obtain l q where rm: "remove_pinned_tree_entry k = (l, q)" by (cases "remove_pinned_tree_entry k")
    obtain es' r' where rec: "reconcile_artifacts valid minAge cutoff auditId es (count_removed q r) = (es', r')"
      by (cases "reconcile_artifacts valid minAge cutoff auditId es (count_removed q r)")
    have "l \<noteq> Some (FsFile f)" using remove_left [of k] rm by fastforce
    with 2(3) False rm rec 2(5) have "(name, n) \<in> set es'" by (auto simp: Let_def split: option.splits)
    with 2(2) [OF False] rm rec 2(4,5) show ?thesis by auto
  qed
qed simp

lemma reconcile_directory_keeps:
  assumes "map_of es name = Some (FsFile f)" "keeps_artifact valid minAge cutoff auditId name (FsFile f)"
  shows "\<exists>m' es'. fst (reconcile_directory valid minAge cutoff now auditId m es r) = [(auditId, FsDir m' True es')]
           \<and> map_of es' name = Some (FsFile f)"
proof -
  obtain es' r' where rec: "reconcile_artifacts valid minAge cutoff auditId es r = (es', r')"
    by (cases "reconcile_artifacts valid minAge cutoff auditId es r")
  with reconcile_artifacts_keeps [OF assms, of r] have "map_of es' name = Some (FsFile f)" by simp
  then show ?thesis using rec by (cases es') (auto simp: reconcile_directory_def)
qed

lemma reconcile_entries_keeps:
  "map_of fs a = Some (FsDir m True es) \<Longrightarrow> map_of es b = Some (FsFile f) \<Longrightarrow> artifact_storage_segment_ok a \<Longrightarrow>
   keeps_artifact valid minAge cutoff a b (FsFile f) \<Longrightarrow>
     artifact_at a b (fst (reconcile_entries valid minAge cutoff now fs r)) = Some f"
proof (induction valid minAge cutoff now fs r rule: reconcile_entries.induct)
  case (2 valid minAge cutoff now nm n fs r)
  show ?case
  proof (cases "nm = a")
    case True
    with 2(3) have n: "n = FsDir m True es" by simp
    obtain m' es' where "fst (reconcile_directory valid minAge cutoff now a m es r) = [(a, FsDir m' True es')]"
      and "map_of es' b = Some (FsFile f)"
      using reconcile_directory_keeps [OF 2(4,6)] by blast
    then obtain q where "reconcile_directory valid minAge cutoff now a m es r = ([(a, FsDir m' True es')], q)"
      by (cases "reconcile_directory valid minAge cutoff now a m es r") simp
    with True 2(5) \<open>map_of es' b = Some (FsFile f)\<close> show ?thesis
      by (simp add: n artifact_at_def open_private_directory_def split: prod.splits)
  next
    case False
    have skip: "artifact_at a b (kept @ rest) = artifact_at a b rest" if "map_of kept a = None" for kept rest
      using that by (simp add: artifact_at_def open_private_directory_def map_of_append map_add_def split: option.splits)
    show ?thesis
    proof (cases "artifact_storage_segment_ok nm")
      case False
      with 2(1) [OF False] 2(3-6) \<open>nm \<noteq> a\<close> show ?thesis
        using skip [of "[(nm, n)]"] by (cases "reconcile_entries valid minAge cutoff now fs r") simp
    next
      case True
      obtain kept r1 where k: "(case n of FsDir m True cs \<Rightarrow> reconcile_directory valid minAge cutoff now nm m cs r
            | _ \<Rightarrow> (let (left, k) = remove_pinned_tree_entry n in
                   (case left of None \<Rightarrow> [] | Some n' \<Rightarrow> [(nm, n')], count_removed k r))) = (kept, r1)" (is "?k = _")
        by (cases ?k)
      have "fst ` set kept \<subseteq> {nm}"
        using k by (auto simp: reconcile_directory_def Let_def split: fs_node.splits bool.splits prod.splits
            option.splits if_splits)
      then have "map_of kept a = None" using False by (auto simp: map_of_eq_None_iff)
      moreover have "artifact_at a b (fst (reconcile_entries valid minAge cutoff now fs r1)) = Some f"
        using 2(2,3-6) True k False by simp
      ultimately show ?thesis
        using True skip [of kept] by (cases "reconcile_entries valid minAge cutoff now fs r1") (simp add: k)
    qed
  qed
qed simp

lemma reconcile_entries_left:
  "(a, FsDir m True es) \<in> set (fst (reconcile_entries valid minAge cutoff now fs r)) \<Longrightarrow>
   artifact_storage_segment_ok a \<Longrightarrow> (b, FsFile f) \<in> set es \<Longrightarrow> pinned_entry_name_ok b \<Longrightarrow>
     keeps_artifact valid minAge cutoff a b (FsFile f) \<and> (\<exists>m es. (a, FsDir m True es) \<in> set fs \<and> (b, FsFile f) \<in> set es)"
proof (induction valid minAge cutoff now fs r rule: reconcile_entries.induct)
  case (2 valid minAge cutoff now nm n fs r)
  show ?case
  proof (cases "artifact_storage_segment_ok nm")
    case False
    with 2(3,4) have "(a, FsDir m True es) \<in> set (fst (reconcile_entries valid minAge cutoff now fs r))"
      by (auto simp: Let_def split: prod.splits)
    with 2(1) [OF False] 2(4-6) show ?thesis by auto
  next
    case True
    obtain kept r1 where k: "(case n of FsDir m True cs \<Rightarrow> reconcile_directory valid minAge cutoff now nm m cs r
          | _ \<Rightarrow> (let (left, k) = remove_pinned_tree_entry n in
                 (case left of None \<Rightarrow> [] | Some n' \<Rightarrow> [(nm, n')], count_removed k r))) = (kept, r1)" (is "?k = _")
      by (cases ?k)
    from 2(3) True have "(a, FsDir m True es) \<in> set kept
        \<or> (a, FsDir m True es) \<in> set (fst (reconcile_entries valid minAge cutoff now fs r1))"
      by (auto simp: k split: prod.splits)
    then show ?thesis
    proof
      assume "(a, FsDir m True es) \<in> set (fst (reconcile_entries valid minAge cutoff now fs r1))"
      with 2(2) [OF _ k [symmetric]] True 2(4-6) show ?thesis by auto
    next
      assume here: "(a, FsDir m True es) \<in> set kept"
      show ?thesis
      proof (cases n)
        case (FsDir m0 owned cs)
        show ?thesis
        proof (cases owned)
          case True
          obtain es' r' where rec: "reconcile_artifacts valid minAge cutoff nm cs r = (es', r')"
            by (cases "reconcile_artifacts valid minAge cutoff nm cs r")
          from here k rec FsDir True have "a = nm" "es = es'"
            by (auto simp: reconcile_directory_def Let_def split: if_splits)
          with reconcile_artifacts_left [of b "FsFile f" valid minAge cutoff nm cs r f] rec 2(5,6) FsDir True
          show ?thesis by auto
        next
          case False
          with here k FsDir show ?thesis
            using remove_left [of "FsDir m0 False cs"] by (auto split: prod.splits option.splits)
        qed
      qed (use here k in \<open>auto simp: remove_pinned_tree_entry_def\<close>)
    qed
  qed
qed simp

lemma artifact_at_entries:
  "artifact_at a b fs = Some f \<Longrightarrow> \<exists>m es. map_of fs a = Some (FsDir m True es) \<and> map_of es b = Some (FsFile f)"
  by (auto simp: artifact_at_def open_private_directory_def split: option.splits fs_node.splits bool.splits)

lemma reconcile_store_keeps:
  assumes "reconcile_store validKeys allowImmediate minAge now fs = Inr (fs', counts)"
    "artifact_at a b fs = Some f" "artifact_storage_segment_ok a" "artifact_storage_segment_ok b"
    "storage_key a b \<in> set validKeys"
  shows "artifact_at a b fs' = Some f"
proof -
  obtain m es where "map_of fs a = Some (FsDir m True es)" "map_of es b = Some (FsFile f)"
    using artifact_at_entries [OF assms(2)] by blast
  then show ?thesis
    using assms reconcile_entries_keeps [of fs a m es b f "set validKeys"]
    by (auto simp: reconcile_store_def Let_def keeps_artifact_def split: if_splits option.splits)
      (metis fst_conv)+
qed


definition demo_write :: write_io where
  "demo_write = \<lparr> wi_chunks = Some [''{'', ''}''], wi_breaks = False, wi_uuid = ''u'', wi_now = 5, wi_unlinkFails = True,
                  wi_changed = False \<rparr>"



definition demo_file :: "iso \<Rightarrow> fs_file" where
  "demo_file t = \<lparr> ff_content = ''x'', ff_mtime = t, ff_owned = True, ff_private = True \<rparr>"


end
