(* ===== verification/Runtime_Metrics.thy ===== *)
theory Runtime_Metrics
  imports Queue_Properties
begin

text \<open>
  The metrics of the execution queue: the two queries and \<open>getExecutionQueueMetrics\<close> of
  \<open>apps/api/src/repository.ts\<close>, their document in \<open>packages/contracts/src/runtime-metrics.ts\<close> and
  \<open>buildRuntimeMetricsPayload\<close> of \<open>apps/api/src/index.ts\<close>.
\<close>

section \<open>Kinds and statuses\<close>

text \<open>\<open>executionJobKindValues\<close> and \<open>executionJobStatusValues\<close>.\<close>

instantiation exec_kind :: enum
begin

definition "enum_exec_kind = [NetworkProbe, BrowserAudit, WebhookDelivery]"
definition "enum_all_exec_kind p = (p NetworkProbe \<and> p BrowserAudit \<and> p WebhookDelivery)"
definition "enum_ex_exec_kind p = (p NetworkProbe \<or> p BrowserAudit \<or> p WebhookDelivery)"

instance
proof
  show univ: "(UNIV :: exec_kind set) = set enum_class.enum"
    by (auto simp: enum_exec_kind_def intro: exec_kind.exhaust)
  show "distinct (enum_class.enum :: exec_kind list)" by (simp add: enum_exec_kind_def)
  fix p :: "exec_kind \<Rightarrow> bool"
  have cases: "p x" if "p NetworkProbe" "p BrowserAudit" "p WebhookDelivery" for p :: "exec_kind \<Rightarrow> bool" and x
    using that by (cases x) simp_all
  show "enum_class.enum_all p \<longleftrightarrow> Ball UNIV p" using cases [of p] by (auto simp: enum_all_exec_kind_def)
  show "enum_class.enum_ex p \<longleftrightarrow> Bex UNIV p" using cases [of "\<lambda>x. \<not> p x"] by (auto simp: enum_ex_exec_kind_def)
qed

end

section \<open>The document\<close>

record exec_metrics =
  em_ready :: nat
  em_delayed :: nat
  em_active :: nat
  em_expiredLeases :: nat
  em_retryQueued :: nat
  em_exhausted :: nat
  em_oldestReadyAgeMs :: "int option"
  em_oldestActiveAgeMs :: "int option"
  em_byStatus :: "exec_status \<Rightarrow> nat"
  em_byKind :: "exec_kind \<Rightarrow> exec_status \<Rightarrow> nat"

record runtime_metrics =
  rtm_observedAt :: iso
  rtm_regionId :: string
  rtm_label :: string
  rtm_executions :: exec_metrics
  rtm_terminalCountsBoundedDays :: int

definition runtime_metrics_schema :: "runtime_metrics \<Rightarrow> bool" where
  "runtime_metrics_schema m =
     (runtime_region_id_ok (rtm_regionId m) \<and> len_between 1 120 (js_trim (rtm_label m))
      \<and> opt_ok (\<lambda>n. 0 \<le> n) (em_oldestReadyAgeMs (rtm_executions m))
      \<and> opt_ok (\<lambda>n. 0 \<le> n) (em_oldestActiveAgeMs (rtm_executions m))
      \<and> 0 < rtm_terminalCountsBoundedDays m)"

section \<open>Counts by kind and status\<close>

definition counted :: "iso \<Rightarrow> exec_row \<Rightarrow> bool" where
  "counted cutoff r =
     (\<not> is_terminal_status (xr_status r)
      \<or> (case xr_completedAt r of None \<Rightarrow> False | Some c \<Rightarrow> c \<ge> cutoff))"

text \<open>The rows of the grouped query.\<close>

definition execution_metric_counts :: "iso \<Rightarrow> exec_row list \<Rightarrow> ((exec_kind \<times> exec_status) \<times> nat) list" where
  "execution_metric_counts cutoff t =
     (let groups = map (\<lambda>r. (xr_kind r, xr_status r)) (filter (counted cutoff) t) in
      map (\<lambda>g. (g, count_list groups g)) (remdups groups))"

definition add_status_count :: "(exec_kind \<times> exec_status) \<times> nat \<Rightarrow> (exec_status \<Rightarrow> nat) \<Rightarrow> exec_status \<Rightarrow> nat" where
  "add_status_count row f = f(snd (fst row) := f (snd (fst row)) + snd row)"

definition add_kind_count ::
  "(exec_kind \<times> exec_status) \<times> nat \<Rightarrow> (exec_kind \<Rightarrow> exec_status \<Rightarrow> nat) \<Rightarrow> exec_kind \<Rightarrow> exec_status \<Rightarrow> nat" where
  "add_kind_count row f = f(fst (fst row) := add_status_count row (f (fst (fst row))))"

section \<open>Pressure\<close>

definition is_ready :: "iso \<Rightarrow> exec_row \<Rightarrow> bool" where
  "is_ready now r = (xr_attemptCount r < xr_maxAttempts r \<and> is_due now r)"

definition is_delayed :: "iso \<Rightarrow> exec_row \<Rightarrow> bool" where
  "is_delayed now r =
     (xr_status r = EQueued \<and> xr_attemptCount r < xr_maxAttempts r \<and> xr_availableAt r > now)"

definition is_active :: "iso \<Rightarrow> exec_row \<Rightarrow> bool" where
  "is_active now r =
     (is_leased_status (xr_status r)
      \<and> (case xr_leaseExpiresAt r of None \<Rightarrow> False | Some e \<Rightarrow> e > now))"

definition is_expired_lease :: "iso \<Rightarrow> exec_row \<Rightarrow> bool" where
  "is_expired_lease now r =
     (is_leased_status (xr_status r)
      \<and> (case xr_leaseExpiresAt r of None \<Rightarrow> False | Some e \<Rightarrow> e \<le> now))"

definition is_retry_queued :: "exec_row \<Rightarrow> bool" where
  "is_retry_queued r = (xr_status r = EQueued \<and> xr_attemptCount r > 0)"

definition is_worn_out :: "iso \<Rightarrow> exec_row \<Rightarrow> bool" where
  "is_worn_out now r = (xr_attemptCount r \<ge> xr_maxAttempts r \<and> is_due now r)"

definition ready_at :: "iso \<Rightarrow> exec_row \<Rightarrow> iso option" where
  "ready_at now r =
     (if xr_attemptCount r < xr_maxAttempts r \<and> xr_status r = EQueued \<and> xr_availableAt r \<le> now
      then Some (xr_availableAt r)
      else if xr_attemptCount r < xr_maxAttempts r \<and> is_expired_lease now r then xr_leaseExpiresAt r
      else None)"

definition active_at :: "iso \<Rightarrow> exec_row \<Rightarrow> iso option" where
  "active_at now r =
     (if is_active now r then Some (case xr_startedAt r of Some s \<Rightarrow> s | None \<Rightarrow> xr_createdAt r) else None)"

definition min_of :: "int list \<Rightarrow> int option" where
  "min_of xs = (case xs of [] \<Rightarrow> None | x # ys \<Rightarrow> Some (fold min ys x))"

definition metric_age_ms :: "iso option \<Rightarrow> iso \<Rightarrow> int option" where
  "metric_age_ms timestamp now = map_option (\<lambda>t. max 0 (now - t)) timestamp"

definition get_execution_queue_metrics ::
  "iso \<Rightarrow> int \<Rightarrow> exec_kind option \<Rightarrow> db \<Rightarrow> exec_metrics throws" where
  "get_execution_queue_metrics now days kind d =
     (if \<not> is_safe_integer days \<or> days \<le> 0
      then throw ''Execution metric retention days must be a positive integer''
      else
        (let rows = filter (\<lambda>r. \<not> is_terminal_status (xr_status r) \<and> kind_matches kind r) (db_exec d);
             counts = execution_metric_counts (minus_utc_days now days) (db_exec d);
             number = (\<lambda>p. length (filter p rows)) in
         return
           \<lparr> em_ready = number (is_ready now), em_delayed = number (is_delayed now), em_active = number (is_active now),
             em_expiredLeases = number (is_expired_lease now), em_retryQueued = number is_retry_queued,
             em_exhausted = number (is_worn_out now),
             em_oldestReadyAgeMs = metric_age_ms (min_of (List.map_filter (ready_at now) rows)) now,
             em_oldestActiveAgeMs = metric_age_ms (min_of (List.map_filter (active_at now) rows)) now,
             em_byStatus = fold add_status_count counts (\<lambda>_. 0),
             em_byKind = fold add_kind_count counts (\<lambda>_ _. 0) \<rparr>))"

section \<open>Lemmas\<close>

lemma UNIV_kinds: "(UNIV :: exec_kind set) = {NetworkProbe, BrowserAudit, WebhookDelivery}"
  by (auto intro: exec_kind.exhaust)

lemma fold_status_counts:
  "fold add_status_count rows f s = f s + (\<Sum>row \<leftarrow> rows. if snd (fst row) = s then snd row else 0)"
  by (induction rows arbitrary: f) (auto simp: add_status_count_def)

lemma fold_kind_counts:
  "fold add_kind_count rows f k s = f k s + (\<Sum>row \<leftarrow> rows. if fst row = (k, s) then snd row else 0)"
  by (induction rows arbitrary: f) (auto simp: add_kind_count_def add_status_count_def prod_eq_iff)

lemma sum_groups:
  "distinct gs \<Longrightarrow> (\<Sum>row \<leftarrow> map (\<lambda>g. (g, f g)) gs. if fst row = x then snd row else (0::nat)) = (if x \<in> set gs then f x else 0)"
  by (induction gs) auto

lemma count_list_map: "count_list (map f xs) y = length (filter (\<lambda>x. f x = y) xs)"
  by (induction xs) auto

lemma counts_of_kind:
  "(\<Sum>row \<leftarrow> execution_metric_counts cutoff t. if fst row = (k, s) then snd row else 0)
   = length (filter (\<lambda>r. counted cutoff r \<and> xr_kind r = k \<and> xr_status r = s) t)"
proof -
  let ?gs = "map (\<lambda>r. (xr_kind r, xr_status r)) (filter (counted cutoff) t)"
  have "(\<Sum>row \<leftarrow> execution_metric_counts cutoff t. if fst row = (k, s) then snd row else 0) = count_list ?gs (k, s)"
    unfolding execution_metric_counts_def Let_def by (subst sum_groups) (auto simp: count_list_0_iff)
  also have "\<dots> = length (filter (\<lambda>r. counted cutoff r \<and> xr_kind r = k \<and> xr_status r = s) t)"
    by (simp add: count_list_map conj_commute)
  finally show ?thesis .
qed

lemma status_counts_sum:
  "(\<Sum>row \<leftarrow> rows. if snd (fst row) = s then snd row else (0::nat))
   = (\<Sum>k \<in> UNIV. \<Sum>row \<leftarrow> rows. if fst row = (k :: exec_kind, s) then snd row else 0)"
proof (induction rows)
  case (Cons row rows)
  obtain k' s' n where "row = ((k', s'), n)" by (metis prod.collapse)
  with Cons show ?case by (cases k') (auto simp: UNIV_kinds)
qed simp

text \<open>Property C40. The metrics agree with the queue they describe: \<open>ready\<close> counts the jobs a claim chooses from, and
  a claim at the same moment finds a job exactly when it is not zero; \<open>exhausted\<close> counts the jobs such a claim ends;
  the counts by kind are those of the table, finished jobs only as far back as the retention, and the counts by
  status are their sums.\<close>

theorem metrics_agree_with_the_queue:
  assumes "reachable env d" and "get_execution_queue_metrics now days kind d = Inr m"
    and "claim_execution_job env owner dur kind now d = Inr (d', res)"
  shows "em_ready m = length (filter (is_claimable kind now) (db_exec d))
    \<and> (0 < em_ready m \<longleftrightarrow> res \<noteq> None)
    \<and> em_exhausted m = length (filter (is_exhausted kind now) (db_exec d))
    \<and> em_byKind m k s = length (filter (\<lambda>r. xr_kind r = k \<and> xr_status r = s
          \<and> (\<not> is_terminal_status s \<or> (\<exists>c. xr_completedAt r = Some c \<and> now - days * 86400000 \<le> c))) (db_exec d))
    \<and> em_byStatus m s = (\<Sum>k \<in> UNIV. em_byKind m k s)"
proof -
  have live: "\<not> is_terminal_status (xr_status r)" if "is_due now r" for r
    using that terminal_not_leased by (auto simp: is_due_def)
  have ready: "em_ready m = length (filter (is_claimable kind now) (db_exec d))"
    and worn: "em_exhausted m = length (filter (is_exhausted kind now) (db_exec d))"
    using assms(2) live
    by (auto simp: get_execution_queue_metrics_def Let_def is_ready_def is_worn_out_def is_claimable_def is_exhausted_def
        split: if_splits intro!: arg_cong [where f = length] filter_cong)
  have counts: "em_byKind m = fold add_kind_count (execution_metric_counts (minus_utc_days now days) (db_exec d)) (\<lambda>_ _. 0)"
    "em_byStatus m = fold add_status_count (execution_metric_counts (minus_utc_days now days) (db_exec d)) (\<lambda>_. 0)"
    using assms(2) by (auto simp: get_execution_queue_metrics_def Let_def split: if_splits)
  have "em_byKind m k s = length (filter (\<lambda>r. xr_kind r = k \<and> xr_status r = s
          \<and> (\<not> is_terminal_status s \<or> (\<exists>c. xr_completedAt r = Some c \<and> now - days * 86400000 \<le> c))) (db_exec d))"
    unfolding counts fold_kind_counts counts_of_kind
    by (auto simp: counted_def minus_utc_days_def split: option.splits intro!: arg_cong [where f = length] filter_cong)
  moreover have "em_byStatus m s = (\<Sum>k \<in> UNIV. em_byKind m k s)"
    unfolding counts fold_kind_counts fold_status_counts status_counts_sum by simp
  moreover have "0 < em_ready m \<longleftrightarrow> res \<noteq> None"
    using claim_first_claimable [OF assms(1,3)] ready
    by (cases res) (auto simp: filter_empty_conv)
  ultimately show ?thesis using ready worn by blast
qed

definition demo_metrics :: exec_metrics where
  "demo_metrics =
     \<lparr> em_ready = 1, em_delayed = 0, em_active = 0, em_expiredLeases = 0, em_retryQueued = 0, em_exhausted = 0,
       em_oldestReadyAgeMs = Some 5, em_oldestActiveAgeMs = None,
       em_byStatus = fold add_status_count (execution_metric_counts (- 86399995) (db_exec demo_db)) (\<lambda>_. 0),
       em_byKind = fold add_kind_count (execution_metric_counts (- 86399995) (db_exec demo_db)) (\<lambda>_ _. 0) \<rparr>"

lemma metrics_agree_with_the_queue_witness:
  "get_execution_queue_metrics 5 1 None demo_db = Inr demo_metrics \<and> em_ready demo_metrics = 1
   \<and> em_byStatus demo_metrics EQueued = (\<Sum>k \<in> UNIV. em_byKind demo_metrics k EQueued)"
proof -
  have m: "get_execution_queue_metrics 5 1 None demo_db = Inr demo_metrics"
    by (simp add: get_execution_queue_metrics_def demo_metrics_def demo_db_def demo_row_def empty_db_def Let_def is_ready_def
        is_delayed_def is_active_def is_expired_lease_def is_retry_queued_def is_worn_out_def is_due_def kind_matches_def
        ready_at_def active_at_def min_of_def metric_age_ms_def minus_utc_days_def is_safe_integer_def List.map_filter_def)
  obtain j where "claim_execution_job demo_env ''w1'' 1000 None 5 demo_db = Inr (demo_claimed, j)"
    using demo_claim by blast
  from metrics_agree_with_the_queue [OF demo_reachable m this] m show ?thesis by (simp add: demo_metrics_def)
qed

end
