(* ===== verification/Js_Base64.thy ===== *)
theory Js_Base64
  imports Js_Base
begin

text \<open>
  \<open>Buffer.toString('base64url')\<close> and \<open>Buffer.from(text, 'base64url')\<close>: bytes as numbers below 256. The decoder accepts
  both alphabets and skips what is in neither. They model the platform, not files of the repository.
\<close>

definition b64_char :: "nat \<Rightarrow> char" where
  "b64_char n =
     (if n < 26 then char_of (65 + n) else if n < 52 then char_of (71 + n)
      else if n < 62 then char_of (n - 4) else if n = 62 then CHR ''-'' else CHR ''_'')"

fun b64_encode :: "nat list \<Rightarrow> string" where
  "b64_encode [] = []"
| "b64_encode [a] = [b64_char (a div 4), b64_char (a mod 4 * 16)]"
| "b64_encode [a, b] = [b64_char (a div 4), b64_char (a mod 4 * 16 + b div 16), b64_char (b mod 16 * 4)]"
| "b64_encode (a # b # c # r) =
     [b64_char (a div 4), b64_char (a mod 4 * 16 + b div 16), b64_char (b mod 16 * 4 + c div 64), b64_char (c mod 64)]
     @ b64_encode r"

definition b64_value :: "char \<Rightarrow> nat option" where
  "b64_value c =
     (if is_upper c then Some (code c - 65) else if is_lower c then Some (code c - 71)
      else if is_digit c then Some (code c + 4) else if c = CHR ''-'' \<or> c = CHR ''+'' then Some 62
      else if c = CHR ''_'' \<or> c = CHR ''/'' then Some 63 else None)"

fun b64_bytes :: "nat list \<Rightarrow> nat list" where
  "b64_bytes (a # b # c # d # r) =
     [a * 4 + b div 16, b mod 16 * 16 + c div 4, c mod 4 * 64 + d] @ b64_bytes r"
| "b64_bytes [a, b, c] = [a * 4 + b div 16, b mod 16 * 16 + c div 4]"
| "b64_bytes [a, b] = [a * 4 + b div 16]"
| "b64_bytes _ = []"

definition b64_decode :: "string \<Rightarrow> nat list" where
  "b64_decode s = b64_bytes (List.map_filter b64_value s)"

lemma b64_value_char: "n < 64 \<Longrightarrow> b64_value (b64_char n) = Some n"
proof -
  assume n: "n < 64"
  consider "n < 26" | "26 \<le> n" "n < 52" | "52 \<le> n" "n < 62" | "n = 62" | "n = 63" using n by linarith
  then show ?thesis
  proof cases
    case 3
    then have "48 \<le> n - 4" "n - 4 \<le> 57" by arith+
    with 3 show ?thesis by (simp add: b64_value_def b64_char_def is_upper_def is_lower_def is_digit_def)
  qed (simp_all add: b64_value_def b64_char_def is_upper_def is_lower_def is_digit_def)
qed

fun sextets :: "nat list \<Rightarrow> nat list" where
  "sextets [] = []"
| "sextets [a] = [a div 4, a mod 4 * 16]"
| "sextets [a, b] = [a div 4, a mod 4 * 16 + b div 16, b mod 16 * 4]"
| "sextets (a # b # c # r) = [a div 4, a mod 4 * 16 + b div 16, b mod 16 * 4 + c div 64, c mod 64] @ sextets r"

lemma b64_encode_sextets: "b64_encode bs = map b64_char (sextets bs)"
  by (induction bs rule: sextets.induct) simp_all

lemma sextets_less: "list_all (\<lambda>b. b < 256) bs \<Longrightarrow> list_all (\<lambda>n. n < 64) (sextets bs)"
  by (induction bs rule: sextets.induct) auto

lemma b64_bytes_sextets: "list_all (\<lambda>b. b < 256) bs \<Longrightarrow> b64_bytes (sextets bs) = bs"
proof (induction bs rule: sextets.induct)
  case (4 a b c r)
  have q: "b div 16 < 16" "c div 64 < 4" using 4 by (simp_all add: less_mult_imp_div_less)
  have "b64_bytes (sextets r) = r" using 4 by simp
  moreover have "a div 4 * 4 + (a mod 4 * 16 + b div 16) div 16 = a" using 4 q by simp
  moreover have "(a mod 4 * 16 + b div 16) mod 16 * 16 + (b mod 16 * 4 + c div 64) div 4 = b"
    using 4 q by simp
  moreover have "(b mod 16 * 4 + c div 64) mod 4 * 64 + c mod 64 = c" using 4 q by simp
  ultimately show ?case using q by simp
qed auto

lemma b64_roundtrip: "list_all (\<lambda>b. b < 256) bs \<Longrightarrow> b64_decode (b64_encode bs) = bs"
proof -
  assume b: "list_all (\<lambda>b. b < 256) bs"
  have "List.map_filter b64_value (map b64_char ns) = ns" if "list_all (\<lambda>n. n < 64) ns" for ns
    using that by (induction ns) (auto simp: List.map_filter_simps b64_value_char)
  from this [OF sextets_less [OF b]] b show ?thesis
    by (simp add: b64_decode_def b64_encode_sextets b64_bytes_sextets)
qed

definition b64_alphabet :: "char \<Rightarrow> bool" where
  "b64_alphabet c = (is_alnum c \<or> c = CHR ''-'' \<or> c = CHR ''_'')"

lemma b64_encode_alphabet: "list_all (\<lambda>b. b < 256) bs \<Longrightarrow> list_all b64_alphabet (b64_encode bs)"
proof -
  assume "list_all (\<lambda>b. b < 256) bs"
  then have n: "list_all (\<lambda>n. n < 64) (sextets bs)" by (rule sextets_less)
  have "b64_alphabet (b64_char n)" if m: "n < 64" for n
  proof -
    consider "n < 26" | "26 \<le> n" "n < 52" | "52 \<le> n" "n < 62" | "n = 62" | "n = 63" using m by linarith
    then show ?thesis
    proof cases
      case 3
      then have "48 \<le> n - 4" "n - 4 \<le> 57" by arith+
      with 3 show ?thesis by (simp add: b64_alphabet_def b64_char_def is_alnum_def is_digit_def)
    qed (simp_all add: b64_alphabet_def b64_char_def is_alnum_def is_upper_def is_lower_def is_digit_def)
  qed
  with n show ?thesis by (auto simp: b64_encode_sextets list_all_iff)
qed

lemma b64_encode_Nil: "b64_encode bs = [] \<longleftrightarrow> bs = []"
  by (cases bs rule: b64_encode.cases) simp_all

end
