(* ===== verification/Upload_Token.thy ===== *)
theory Upload_Token
  imports Js_Base64 Url_Policy
begin

text \<open>
  The token with which the audit runner uploads artifacts, \<open>apps/api/src/browser-audit-upload-token.ts\<close>. The
  bytes of an HMAC-SHA-256 are \<open>hmac secret text\<close>; \<open>parse_json\<close> is \<open>JSON.parse\<close> of the UTF-8 text of bytes. The nonce is
  a parameter of the issuing. A secret that is not configured never matches; the code compares with the key of
  an unconfigured secret only to take the same time.
\<close>

definition token_domain :: string where "token_domain = ''webperf-browser-audit-artifact-upload-v1''"
definition maximum_token_length :: nat where "maximum_token_length = 4096"
definition maximum_token_ttl_ms :: int where "maximum_token_ttl_ms = 3600000"
definition maximum_audit_id_length :: nat where "maximum_audit_id_length = 160"
definition maximum_execution_job_id_length :: nat where "maximum_execution_job_id_length = 160"
definition maximum_lease_owner_length :: nat where "maximum_lease_owner_length = 200"
definition maximum_attempt_count :: int where "maximum_attempt_count = 20"
definition maximum_artifact_bytes :: int where "maximum_artifact_bytes = 250000000"
definition allowed_clock_skew_ms :: int where "allowed_clock_skew_ms = 30000"

record token_claims =
  tk_auditId :: ident
  tk_executionJobId :: ident
  tk_leaseOwner :: string
  tk_attemptCount :: int
  tk_issuedAt :: iso
  tk_expiresAt :: iso
  tk_maxArtifactBytes :: int
  tk_nonce :: string

text \<open>\<open>noncePattern\<close>: a UUID, in either case.\<close>

definition is_nonce :: "string \<Rightarrow> bool" where
  "is_nonce s =
     (map length (split_char CHR ''-'' s) = [8, 4, 4, 4, 12]
      \<and> list_all (list_all is_hex_char) (split_char CHR ''-'' s)
      \<and> code (s ! 14) \<in> {49 .. 53 :: nat} \<and> js_lower [s ! 19] \<in> {''8'', ''9'', ''a'', ''b''})"

definition claims_json :: "token_claims \<Rightarrow> json" where
  "claims_json c =
     JObj [(''version'', JStr ''v1''), (''auditId'', JStr (tk_auditId c)), (''executionJobId'', JStr (tk_executionJobId c)),
           (''leaseOwner'', JStr (tk_leaseOwner c)), (''attemptCount'', JNum (tk_attemptCount c)),
           (''issuedAt'', JNum (tk_issuedAt c)), (''expiresAt'', JNum (tk_expiresAt c)),
           (''maxArtifactBytes'', JNum (tk_maxArtifactBytes c)), (''nonce'', JStr (tk_nonce c))]"

definition bounded_string_claim :: "nat \<Rightarrow> string \<Rightarrow> json option \<Rightarrow> string throws" where
  "bounded_string_claim maximum label v =
     (case v of
        Some (JStr s) \<Rightarrow>
          if length s < 1 \<or> length s > maximum then throw (''Invalid upload token '' @ label) else return s
      | _ \<Rightarrow> throw (''Invalid upload token '' @ label))"

definition safe_integer_claim :: "string \<Rightarrow> json option \<Rightarrow> int throws" where
  "safe_integer_claim label v =
     (case v of
        Some (JNum n) \<Rightarrow> if is_safe_integer n then return n else throw (''Invalid upload token '' @ label)
      | _ \<Rightarrow> throw (''Invalid upload token '' @ label))"

definition bounded_integer_claim :: "int \<Rightarrow> string \<Rightarrow> json option \<Rightarrow> int throws" where
  "bounded_integer_claim maximum label v =
     bind_throws (safe_integer_claim label v) (\<lambda>n.
       if n < 1 \<or> n > maximum then throw (''Invalid upload token '' @ label) else return n)"

definition nonce_claim :: "json option \<Rightarrow> string throws" where
  "nonce_claim v =
     (case v of
        Some (JStr s) \<Rightarrow> if is_nonce s then return s else throw ''Invalid upload token nonce''
      | _ \<Rightarrow> throw ''Invalid upload token nonce'')"

definition live_claims :: "iso \<Rightarrow> bool \<Rightarrow> token_claims \<Rightarrow> token_claims throws" where
  "live_claims now requireLive c =
     (if tk_expiresAt c \<le> tk_issuedAt c \<or> tk_expiresAt c - tk_issuedAt c > maximum_token_ttl_ms
         \<or> tk_issuedAt c > now + allowed_clock_skew_ms \<or> (requireLive \<and> tk_expiresAt c \<le> now)
      then throw ''Invalid upload token lifetime'' else return c)"

definition assert_claims :: "json \<Rightarrow> iso \<Rightarrow> bool \<Rightarrow> token_claims throws" where
  "assert_claims v now requireLive =
     (case v of
        JObj kvs \<Rightarrow>
          if json_field ''version'' kvs \<noteq> Some (JStr ''v1'') then throw ''Invalid upload token version''
          else
            bind_throws (bounded_string_claim maximum_audit_id_length ''audit ID'' (json_field ''auditId'' kvs)) (\<lambda>a.
            bind_throws (bounded_string_claim maximum_execution_job_id_length ''execution job ID''
                           (json_field ''executionJobId'' kvs)) (\<lambda>j.
            bind_throws (bounded_string_claim maximum_lease_owner_length ''lease owner'' (json_field ''leaseOwner'' kvs)) (\<lambda>l.
            bind_throws (bounded_integer_claim maximum_attempt_count ''attempt count'' (json_field ''attemptCount'' kvs)) (\<lambda>n.
            bind_throws (safe_integer_claim ''issued-at time'' (json_field ''issuedAt'' kvs)) (\<lambda>i.
            bind_throws (safe_integer_claim ''expiry time'' (json_field ''expiresAt'' kvs)) (\<lambda>e.
            bind_throws (bounded_integer_claim maximum_artifact_bytes ''artifact byte limit''
                           (json_field ''maxArtifactBytes'' kvs)) (\<lambda>b.
            bind_throws (nonce_claim (json_field ''nonce'' kvs)) (\<lambda>u.
              live_claims now requireLive
                \<lparr> tk_auditId = a, tk_executionJobId = j, tk_leaseOwner = l, tk_attemptCount = n, tk_issuedAt = i,
                  tk_expiresAt = e, tk_maxArtifactBytes = b, tk_nonce = u \<rparr>))))))))
      | _ \<Rightarrow> throw ''Invalid upload token claims'')"

definition sign_claims :: "(string \<Rightarrow> string \<Rightarrow> nat list) \<Rightarrow> string \<Rightarrow> string \<Rightarrow> nat list" where
  "sign_claims hmac encodedClaims secret = hmac secret (token_domain @ [CHR 0x0A] @ encodedClaims)"

definition encode_claims :: "token_claims \<Rightarrow> string" where
  "encode_claims c = b64_encode (map unat (utf8_encode (json_stringify (claims_json c))))"

definition issue_browser_audit_upload_token ::
  "(string \<Rightarrow> string \<Rightarrow> nat list) \<Rightarrow> string \<Rightarrow> token_claims \<Rightarrow> string throws" where
  "issue_browser_audit_upload_token hmac secret claims =
     (if length secret < 16
      then throw ''Artifact upload signing secret must contain at least 16 characters''
      else
        bind_throws (assert_claims (claims_json claims) (tk_issuedAt claims) False) (\<lambda>_.
          let encodedClaims = encode_claims claims in
          return (encodedClaims @ ''.'' @ b64_encode (sign_claims hmac encodedClaims secret))))"

definition secret_matches :: "(string \<Rightarrow> string \<Rightarrow> nat list) \<Rightarrow> string \<Rightarrow> nat list \<Rightarrow> string option \<Rightarrow> bool" where
  "secret_matches hmac encodedClaims signature secret =
     (case secret of
        None \<Rightarrow> False
      | Some k \<Rightarrow> k \<noteq> [] \<and> signature = sign_claims hmac encodedClaims k)"

definition verify_browser_audit_upload_token ::
  "(string \<Rightarrow> string \<Rightarrow> nat list) \<Rightarrow> (nat list \<Rightarrow> json option) \<Rightarrow> string option list \<Rightarrow> iso \<Rightarrow> string
   \<Rightarrow> token_claims option" where
  "verify_browser_audit_upload_token hmac parse_json secrets now token =
     (if length token = 0 \<or> length token > maximum_token_length then None
      else (case split_char CHR ''.'' token of
              [payload, signature] \<Rightarrow>
                if payload = [] \<or> signature = [] then None
                else if \<not> list_ex (secret_matches hmac payload (b64_decode signature)) secrets then None
                else (case parse_json (b64_decode payload) of
                        None \<Rightarrow> None
                      | Some v \<Rightarrow>
                          (case assert_claims v now True of Inl _ \<Rightarrow> None | Inr c \<Rightarrow> Some c))
            | _ \<Rightarrow> None))"

section \<open>Lemmas\<close>

lemma claims_fields:
  "assert_claims (claims_json c) now live = Inr d \<Longrightarrow>
     d = c \<and> live_claims now live c = Inr c"
  by (auto simp: assert_claims_def claims_json_def json_field_def bind_throws_Inr_iff bounded_string_claim_def
      safe_integer_claim_def bounded_integer_claim_def nonce_claim_def live_claims_def split: if_splits)

text \<open>Claims that passed when the token was issued pass while the token is live.\<close>

lemma claims_live_at:
  "assert_claims (claims_json c) now False = Inr d \<Longrightarrow> now' < tk_expiresAt c
     \<Longrightarrow> tk_issuedAt c \<le> now' + allowed_clock_skew_ms \<Longrightarrow> assert_claims (claims_json c) now' True = Inr c"
  by (auto simp: assert_claims_def claims_json_def json_field_def bind_throws_Inr_iff bounded_string_claim_def
      safe_integer_claim_def bounded_integer_claim_def nonce_claim_def live_claims_def split: if_splits)

text \<open>What is used of HMAC: its value is a sequence of bytes, not empty.\<close>

definition is_digest :: "(string \<Rightarrow> string \<Rightarrow> nat list) \<Rightarrow> bool" where
  "is_digest hmac \<longleftrightarrow> (\<forall>k s. list_all (\<lambda>b. b < 256) (hmac k s) \<and> hmac k s \<noteq> [])"

text \<open>What is used of \<open>JSON.parse\<close>: it reads the text \<open>JSON.stringify\<close> gave for the claims.\<close>

definition reads_claims :: "(nat list \<Rightarrow> json option) \<Rightarrow> token_claims \<Rightarrow> bool" where
  "reads_claims parse_json c \<longleftrightarrow>
     parse_json (map unat (utf8_encode (json_stringify (claims_json c)))) = Some (claims_json c)"

text \<open>A secret that has issued the token matches its signature.\<close>

lemma issued_secret_matches:
  assumes "is_digest hmac" "length secret \<ge> 16"
  shows "secret_matches hmac e (b64_decode (b64_encode (sign_claims hmac e secret))) (Some secret)"
  using assms by (auto simp: is_digest_def secret_matches_def sign_claims_def b64_roundtrip)

lemma bytes_of_words: "list_all (\<lambda>b. b < 256) (map unat (ws :: 8 word list))"
proof -
  have "unat w < 256" for w :: "8 word" using unsigned_less [of w] by simp
  then show ?thesis by (simp add: list_all_iff)
qed

lemma b64_no_dot: "list_all (\<lambda>b. b < 256) bs \<Longrightarrow> CHR ''.'' \<notin> set (b64_encode bs)"
  using b64_encode_alphabet [of bs]
  by (auto simp: list_all_iff b64_alphabet_def is_alnum_def is_digit_def is_lower_def is_upper_def)

lemma encode_claims_no_dot: "CHR ''.'' \<notin> set (encode_claims c)"
  unfolding encode_claims_def by (rule b64_no_dot) (rule bytes_of_words)

lemma encode_claims_ne: "encode_claims c \<noteq> []"
  by (simp add: encode_claims_def b64_encode_Nil claims_json_def utf8_encode_def utf8_char_def Let_def)

lemma decode_claims: "b64_decode (encode_claims c) = map unat (utf8_encode (json_stringify (claims_json c)))"
  unfolding encode_claims_def by (rule b64_roundtrip) (rule bytes_of_words)

lemma issue_parts:
  "issue_browser_audit_upload_token hmac secret c = Inr token \<Longrightarrow>
     length secret \<ge> 16 \<and> assert_claims (claims_json c) (tk_issuedAt c) False = Inr c
     \<and> token = encode_claims c @ ''.'' @ b64_encode (sign_claims hmac (encode_claims c) secret)"
  by (auto simp: issue_browser_audit_upload_token_def bind_throws_Inr_iff Let_def claims_fields split: if_splits)

lemma claims_expired:
  "tk_expiresAt c \<le> now \<Longrightarrow> \<exists>m. assert_claims (claims_json c) now True = Inl m"
proof (cases "assert_claims (claims_json c) now True")
  case (Inr d)
  moreover assume "tk_expiresAt c \<le> now"
  ultimately show ?thesis using claims_fields [of c now True d] by (auto simp: live_claims_def split: if_splits)
qed simp

lemma issued_token_verifies:
  assumes "issue_browser_audit_upload_token hmac secret c = Inr token"
    and "Some secret \<in> set secrets"
    and "is_digest hmac"
    and "reads_claims parse_json c"
    and "length token \<le> maximum_token_length"
  shows "verify_browser_audit_upload_token hmac parse_json secrets now token
         = (case assert_claims (claims_json c) now True of Inl _ \<Rightarrow> None | Inr d \<Rightarrow> Some d)"
proof -
  let ?e = "encode_claims c"
  let ?s = "b64_encode (sign_claims hmac ?e secret)"
  from issue_parts [OF assms(1)] have i: "length secret \<ge> 16" "token = ?e @ CHR ''.'' # ?s" by simp_all
  have "CHR ''.'' \<notin> set ?s" using assms(3) by (intro b64_no_dot) (simp add: is_digest_def sign_claims_def)
  then have parts: "split_char CHR ''.'' token = [?e, ?s]"
    by (simp add: i(2) split_char_append_delim encode_claims_no_dot split_char_no_delim)
  have "?s \<noteq> []" using assms(3) by (simp add: is_digest_def b64_encode_Nil sign_claims_def)
  moreover have "list_ex (secret_matches hmac ?e (b64_decode ?s)) secrets"
    using issued_secret_matches [OF assms(3) i(1), of ?e] assms(2) by (auto simp: list_ex_iff)
  ultimately show ?thesis
    using assms(4,5) encode_claims_ne [of c]
    by (simp add: reads_claims_def verify_browser_audit_upload_token_def parts decode_claims) (simp add: i(2))
qed

text \<open>What a verified token must have been: signed over its first part with a configured secret, and live.\<close>

lemma verified_parts:
  assumes "verify_browser_audit_upload_token hmac parse_json secrets now token = Some c"
  obtains p s secret v where "split_char CHR ''.'' token = [p, s]" "Some secret \<in> set secrets" "secret \<noteq> []"
    "b64_decode s = sign_claims hmac p secret" "parse_json (b64_decode p) = Some v" "assert_claims v now True = Inr c"
  using assms
  by (auto simp: verify_browser_audit_upload_token_def list_ex_iff secret_matches_def
      split: if_splits list.splits option.splits sum.splits)

lemma assert_claims_bounds:
  "assert_claims v now True = Inr c \<Longrightarrow>
     now < tk_expiresAt c \<and> tk_expiresAt c - tk_issuedAt c \<le> maximum_token_ttl_ms
     \<and> tk_issuedAt c \<le> now + allowed_clock_skew_ms
     \<and> 1 \<le> tk_maxArtifactBytes c \<and> tk_maxArtifactBytes c \<le> maximum_artifact_bytes
     \<and> 1 \<le> tk_attemptCount c \<and> tk_attemptCount c \<le> maximum_attempt_count"
  by (auto simp: assert_claims_def bind_throws_Inr_iff bounded_integer_claim_def live_claims_def
      split: json.splits if_splits)

section \<open>Issue and verification\<close>

text \<open>Property C33. Whoever holds the secret accepts an issued token, with the claims it was issued with, until it
  expires and not from then on: the base64url and JSON texts lose nothing, and every check of the verification but
  the expiry has been made when the token was issued.\<close>

theorem upload_token_roundtrip:
  assumes "issue_browser_audit_upload_token hmac secret c = Inr token"
    and "Some secret \<in> set secrets"
    and "is_digest hmac"
    and "reads_claims parse_json c"
    and "length token \<le> maximum_token_length"
    and "tk_issuedAt c \<le> now + allowed_clock_skew_ms"
  shows "verify_browser_audit_upload_token hmac parse_json secrets now token
         = (if now < tk_expiresAt c then Some c else None)"
proof (cases "now < tk_expiresAt c")
  case True
  from issue_parts [OF assms(1)] have "assert_claims (claims_json c) (tk_issuedAt c) False = Inr c" by simp
  from claims_live_at [OF this True assms(6)] True show ?thesis
    by (simp add: issued_token_verifies [OF assms(1-5)])
next
  case False
  with claims_expired [of c now] show ?thesis by (auto simp: issued_token_verifies [OF assms(1-5)])
qed

text \<open>A token is accepted only if its first part is signed, in the domain of upload tokens, with one of
  the configured secrets; its claims are then those of that part, live at most an hour, and within the limits of
  sizes and attempts.\<close>

theorem accepted_token_is_signed_and_live:
  assumes "verify_browser_audit_upload_token hmac parse_json secrets now token = Some c"
  shows "\<exists>p s secret v. token = p @ ''.'' @ s \<and> Some secret \<in> set secrets \<and> secret \<noteq> []
     \<and> b64_decode s = hmac secret (token_domain @ [CHR 0x0A] @ p)
     \<and> parse_json (b64_decode p) = Some v \<and> assert_claims v now True = Inr c
     \<and> now < tk_expiresAt c \<and> tk_expiresAt c \<le> now + maximum_token_ttl_ms + allowed_clock_skew_ms
     \<and> 1 \<le> tk_maxArtifactBytes c \<and> tk_maxArtifactBytes c \<le> maximum_artifact_bytes"
proof -
  obtain p s secret v
    where p: "split_char CHR ''.'' token = [p, s]" "Some secret \<in> set secrets" "secret \<noteq> []"
      "b64_decode s = sign_claims hmac p secret" "parse_json (b64_decode p) = Some v" "assert_claims v now True = Inr c"
    by (rule verified_parts [OF assms])
  have "token = p @ ''.'' @ s" using join_split_char [of "CHR ''.''" token] by (simp add: p(1))
  moreover have "tk_expiresAt c \<le> now + maximum_token_ttl_ms + allowed_clock_skew_ms"
    using assert_claims_bounds [OF p(6)] by linarith
  moreover have "b64_decode s = hmac secret (token_domain @ [CHR 0x0A] @ p)" using p(4) by (simp only: sign_claims_def)
  ultimately show ?thesis using p(2,3,5,6) assert_claims_bounds [OF p(6)]
    by (intro exI [of _ p] exI [of _ s] exI [of _ secret] exI [of _ v] conjI) simp_all
qed

section \<open>Witnesses\<close>

definition demo_claims :: token_claims where
  "demo_claims = \<lparr> tk_auditId = ''a1'', tk_executionJobId = ''e1'', tk_leaseOwner = ''w1'', tk_attemptCount = 1,
     tk_issuedAt = 1000, tk_expiresAt = 61000, tk_maxArtifactBytes = 5000,
     tk_nonce = ''00000000-0000-4000-8000-000000000000'' \<rparr>"

lemma demo_issue_checks: "assert_claims (claims_json demo_claims) 1000 False = Inr demo_claims"
  by (simp add: demo_claims_def assert_claims_def claims_json_def json_field_def bounded_string_claim_def
      safe_integer_claim_def bounded_integer_claim_def nonce_claim_def live_claims_def is_safe_integer_def
      maximum_audit_id_length_def maximum_execution_job_id_length_def maximum_lease_owner_length_def
      maximum_attempt_count_def maximum_artifact_bytes_def maximum_token_ttl_ms_def allowed_clock_skew_ms_def
      is_nonce_def is_hex_char_def is_digit_def is_upper_def lower_char_def js_lower_def)

lemma demo_token_length: "length (utf8_encode (json_stringify (claims_json demo_claims))) = 193"
  by (simp add: demo_claims_def claims_json_def quote_json_def escape_char_def utf8_encode_def utf8_char_def Let_def
      show_int_def show_nat.simps digit_char_def)

lemma length_b64_encode: "length (b64_encode bs) \<le> 2 * length bs"
  by (induction bs rule: b64_encode.induct) simp_all

text \<open>The demonstration uses a constant in place of HMAC and a reader that knows the one text it is given.\<close>

definition demo_hmac :: "string \<Rightarrow> string \<Rightarrow> nat list" where
  "demo_hmac k s = [1, 2, 3]"

definition demo_parse :: "nat list \<Rightarrow> json option" where
  "demo_parse bs = (if bs = map unat (utf8_encode (json_stringify (claims_json demo_claims)))
                    then Some (claims_json demo_claims) else None)"

definition demo_token :: string where
  "demo_token = encode_claims demo_claims @ ''.'' @ b64_encode (sign_claims demo_hmac (encode_claims demo_claims) ''0123456789abcdef'')"

lemma demo_issue: "issue_browser_audit_upload_token demo_hmac ''0123456789abcdef'' demo_claims = Inr demo_token"
  using demo_issue_checks
  by (simp add: issue_browser_audit_upload_token_def Let_def demo_token_def) (simp add: demo_claims_def)

lemma demo_hmac_bytes: "is_digest demo_hmac"
  by (simp add: is_digest_def demo_hmac_def)

lemma demo_parse_claims: "reads_claims demo_parse demo_claims"
  by (simp add: reads_claims_def demo_parse_def)

lemma demo_token_short: "length demo_token \<le> maximum_token_length"
  using length_b64_encode [of "map unat (utf8_encode (json_stringify (claims_json demo_claims)))"] demo_token_length
  by (simp add: demo_token_def encode_claims_def sign_claims_def maximum_token_length_def demo_hmac_def)

lemma demo_verifies:
  "verify_browser_audit_upload_token demo_hmac demo_parse [Some ''0123456789abcdef''] 2000 demo_token = Some demo_claims"
proof -
  have "assert_claims (claims_json demo_claims) 2000 True = Inr demo_claims"
    using claims_live_at [OF demo_issue_checks, of 2000] by (simp add: demo_claims_def allowed_clock_skew_ms_def)
  then show ?thesis
    by (simp add: issued_token_verifies [OF demo_issue _ demo_hmac_bytes demo_parse_claims demo_token_short])
qed

theorem upload_token_roundtrip_witness:
  "verify_browser_audit_upload_token demo_hmac demo_parse [None, Some ''0123456789abcdef''] 2000 demo_token
     = (if 2000 < tk_expiresAt demo_claims then Some demo_claims else None)"
  by (rule upload_token_roundtrip [OF demo_issue _ demo_hmac_bytes demo_parse_claims demo_token_short])
     (simp_all add: demo_claims_def allowed_clock_skew_ms_def)

theorem accepted_token_is_signed_and_live_witness:
  "\<exists>p s secret v. demo_token = p @ ''.'' @ s \<and> Some secret \<in> set [Some ''0123456789abcdef''] \<and> secret \<noteq> []
     \<and> b64_decode s = demo_hmac secret (token_domain @ [CHR 0x0A] @ p)
     \<and> demo_parse (b64_decode p) = Some v \<and> assert_claims v 2000 True = Inr demo_claims
     \<and> 2000 < tk_expiresAt demo_claims \<and> tk_expiresAt demo_claims \<le> 2000 + maximum_token_ttl_ms + allowed_clock_skew_ms
     \<and> 1 \<le> tk_maxArtifactBytes demo_claims \<and> tk_maxArtifactBytes demo_claims \<le> maximum_artifact_bytes"
  by (rule accepted_token_is_signed_and_live [OF demo_verifies])

end
