(* ===== verification/Api_Base.thy ===== *)
theory Api_Base
  imports Programs Artifact_Store Runtime_Metrics Upload_Token List_Query
begin

text \<open>
  What the handlers of the API share (\<open>apps/api/src/index.ts\<close>, \<open>json-body.ts\<close>). A handler is a program over the
  database, the store of artifacts and two counters: the \<open>n\<close>-th reading of the clock in a process is \<open>ap_time n\<close>, the \<open>n\<close>-th random UUID
  \<open>ap_uuid n\<close>. A response is its status and its payload; headers are not modelled, nor the text of the issues
  zod finds. A request body is given by what reading and parsing it gives.
\<close>

section \<open>The process\<close>

record api_host =
  ap_env :: env
  ap_parseUrl :: "string \<Rightarrow> url option"
  ap_href :: "url \<Rightarrow> string"
  ap_hmac :: "string \<Rightarrow> string \<Rightarrow> nat list"
  ap_time :: "nat \<Rightarrow> iso"
  ap_uuid :: "nat \<Rightarrow> string"
  ap_regionId :: string
  ap_retentionDays :: int
  ap_maxTargetAttempts :: int
  ap_browserAuditBaseUrl :: "string option"
  ap_artifactUploadBaseUrl :: "string option"
  ap_artifactUploadTtlSeconds :: int
  ap_maxArtifactBytes :: int
  ap_internalSecret :: string
  ap_internalSecretNext :: "string option"
  ap_parseJson :: "nat list \<Rightarrow> json option"
  ap_sha256 :: "string \<Rightarrow> string"
  ap_nfkc :: "string \<Rightarrow> string"
  ap_regionLabel :: string
  ap_probeBaseUrl :: string
  ap_databasePath :: string
  ap_artifactsPath :: string
  ap_showNumber :: "rat \<Rightarrow> string"
  ap_comparisonText :: "comparison_resource \<Rightarrow> string"
  ap_reportText :: "profile_report \<Rightarrow> string"

record world =
  w_db :: db
  w_store :: entries
  w_ticks :: nat
  w_uuids :: nat

datatype exn =
    PlainExn string
  | DuplicateExn string
  | UrlExn url_error
  | ZodExn
  | OrpcExn string string

type_synonym 'a handler = "(world, exn, 'a) act"

definition clock :: "api_host \<Rightarrow> iso handler" where
  "clock A s = (Inr (ap_time A (w_ticks s)), s\<lparr>w_ticks := Suc (w_ticks s)\<rparr>)"

definition random_uuid :: "api_host \<Rightarrow> string handler" where
  "random_uuid A s = (Inr (ap_uuid A (w_uuids s)), s\<lparr>w_uuids := Suc (w_uuids s)\<rparr>)"

text \<open>A query, a statement, and a method in a transaction that may throw, of the repository.\<close>

definition query :: "(db \<Rightarrow> 'a) \<Rightarrow> 'a handler" where
  "query f s = (Inr (f (w_db s)), s)"

definition statement :: "(db \<Rightarrow> db) \<Rightarrow> unit handler" where
  "statement f s = (Inr (), s\<lparr>w_db := f (w_db s)\<rparr>)"

definition transact :: "(db \<Rightarrow> (db \<times> 'a) throws) \<Rightarrow> 'a handler" where
  "transact f s =
     (case f (w_db s) of Inl m \<Rightarrow> (Inl (PlainExn m), s) | Inr (d, x) \<Rightarrow> (Inr x, s\<lparr>w_db := d\<rparr>))"

definition lift_throws :: "'a throws \<Rightarrow> 'a handler" where
  "lift_throws r = (case r of Inl m \<Rightarrow> fail (PlainExn m) | Inr x \<Rightarrow> ret x)"

definition exn_message :: "exn \<Rightarrow> string" where
  "exn_message e =
     (case e of PlainExn m \<Rightarrow> m | DuplicateExn m \<Rightarrow> m | UrlExn u \<Rightarrow> ue_message u | ZodExn \<Rightarrow> ''ZodError''
      | OrpcExn c m \<Rightarrow> m)"

section \<open>Request bodies\<close>

text \<open>\<open>readBoundedJson\<close>: the declared length, the chunks of the body if there is one, and whether reading fails after
  them. \<open>bb_capacity\<close> is the size of the buffer the code fills.\<close>

record raw_body =
  raw_contentLength :: "string option"
  raw_chunks :: "string list option"
  raw_fails :: bool

datatype 'i body = BodyTooLarge int | BodyEmpty | BodyUnreadable | BodyRejected | BodyParsed 'i

record body_buffer =
  bb_capacity :: int
  bb_byteSize :: int
  bb_text :: string

definition next_capacity :: "int \<Rightarrow> int \<Rightarrow> int \<Rightarrow> int" where
  "next_capacity maxBytes byteSize capacity =
     (if byteSize > capacity then min maxBytes (max byteSize (max (capacity * 2) 1024)) else capacity)"

fun read_body_chunks :: "int \<Rightarrow> string list \<Rightarrow> body_buffer \<Rightarrow> body_buffer option" where
  "read_body_chunks maxBytes [] b = Some b"
| "read_body_chunks maxBytes (c # cs) b =
     (let byteSize = bb_byteSize b + int (length c) in
      if byteSize > maxBytes then None
      else read_body_chunks maxBytes cs
             \<lparr> bb_capacity = next_capacity maxBytes byteSize (bb_capacity b), bb_byteSize = byteSize,
               bb_text = bb_text b @ c \<rparr>)"

definition declared_too_large :: "int \<Rightarrow> string option \<Rightarrow> bool" where
  "declared_too_large maxBytes v =
     (case v of
        None \<Rightarrow> False
      | Some s \<Rightarrow> s \<noteq> [] \<and> list_all is_digit s
                  \<and> (\<not> is_safe_integer (int (read_digits s)) \<or> int (read_digits s) > maxBytes))"

text \<open>\<open>parse_json\<close> decodes the bytes and parses them: \<open>None\<close> if either throws, \<open>Some None\<close> if the JSON is not of the
  shape the schema of the handler wants.\<close>

definition read_bounded_json :: "(string \<Rightarrow> 'i option option) \<Rightarrow> raw_body \<Rightarrow> int \<Rightarrow> 'i body" where
  "read_bounded_json parse_json r maxBytes =
     (if declared_too_large maxBytes (raw_contentLength r) then BodyTooLarge maxBytes
      else (case raw_chunks r of
              None \<Rightarrow> BodyEmpty
            | Some cs \<Rightarrow>
                (case read_body_chunks maxBytes cs
                        \<lparr> bb_capacity = min maxBytes 8192, bb_byteSize = 0, bb_text = [] \<rparr> of
                   None \<Rightarrow> BodyTooLarge maxBytes
                 | Some b \<Rightarrow>
                     if raw_fails r then BodyUnreadable
                     else if bb_byteSize b = 0 then BodyEmpty
                     else (case parse_json (bb_text b) of
                             None \<Rightarrow> BodyUnreadable
                           | Some None \<Rightarrow> BodyRejected
                           | Some (Some i) \<Rightarrow> BodyParsed i))))"

section \<open>Responses\<close>

record health =
  hl_runtimeLocation :: "string \<times> string"
  hl_probeBaseUrl :: string
  hl_maxTargetAttempts :: int
  hl_databasePath :: string
  hl_retainedDays :: int
  hl_persistedJobs :: nat
  hl_artifactsPath :: string
  hl_maxArtifactBytes :: int
  hl_uploadTtlSeconds :: int
  hl_properties :: nat
  hl_routeSets :: nat
  hl_checkProfiles :: nat
  hl_scheduledProfiles :: nat
  hl_profilesWithAlerts :: nat
  hl_profilesWithThresholds :: nat

datatype stream_event = JobMissing | JobSnapshot latency_job

text \<open>\<open>SitePayload\<close> and its like are the payloads of the compatibility routes under their new names, and the ones
  ending in \<open>Entity\<close> are the bare entities.\<close>

datatype payload =
    NoPayload
  | ErrorPayload string
  | InvalidPayload string
  | IncidentPayload string string
  | CodedPayload string string
  | DependencyPayload string "nat option" nat
  | ExecJobPayload exec_job
  | ContextPayload exec_context
  | GrantPayload upload_config
  | FollowupsPayload "exec_job list"
  | JobPayload latency_job
  | PropertyPayload property
  | RouteSetPayload route_set
  | ProfilePayload check_profile
  | BaselinePayload check_profile "profile_run option"
  | ProfileJobsPayload check_profile "latency_job list"
  | RunDetailPayload run_detail
  | LatestComparisonPayload latest_comparison
  | ComparisonPayload check_profile profile_comparison
  | ComparisonResourcePayload comparison_resource
  | ExportPayload export_resource
  | AnalysisPayload analysis_resource
  | ReportPayload profile_report
  | DispatchPayload dispatch_response
  | AuditPayload audit_resource
  | DeletedPayload bool "nat option"
  | ProcessHealthPayload
  | HealthPayload health
  | LocationPayload string string
  | MetricsPayload runtime_metrics
  | CapabilitiesPayload bool
  | HintPayload
  | PropertyListPayload "property list" page_info
  | RouteSetListPayload "route_set list" page_info
  | ProfileListPayload "check_profile list" page_info
  | SiteListPayload "property list" page_info
  | RouteGroupListPayload "route_set list" page_info
  | CheckListPayload "check_profile list" page_info
  | JobListPayload "job_item list" page_info
  | RunListPayload "profile_run list" page_info
  | ComparisonListPayload "comparison_resource list" page_info
  | ExportListPayload "export_resource list" page_info
  | AnalysisListPayload "analysis_resource list" page_info
  | AuditListPayload "audit_resource list" page_info
  | SitePayload property
  | RouteGroupPayload route_set
  | CheckPayload check_profile
  | CheckBaselinePayload check_profile "profile_run option"
  | CheckJobsPayload check_profile "latency_job list"
  | CheckRunDetailPayload run_detail
  | PropertyEntity property
  | RouteSetEntity route_set
  | ProfileEntity check_profile
  | JobEntity latency_job
  | ArtifactRefPayload artifact_ref
  | FilePayload artifact_record "string list option"
  | TextPayload string string string
  | DocumentPayload string
  | StreamPayload "stream_event list"
  | SnapshotPayload latency_job

type_synonym response = "int \<times> payload"

definition body_error :: "'i body \<Rightarrow> response" where
  "body_error b =
     (case b of
        BodyTooLarge n \<Rightarrow> (413, ErrorPayload (''JSON payload must not exceed '' @ show_int n @ '' bytes''))
      | BodyEmpty \<Rightarrow> (400, ErrorPayload ''JSON payload is required'')
      | _ \<Rightarrow> (400, ErrorPayload ''Invalid JSON payload''))"

text \<open>\<open>parseJsonBody\<close> followed by the \<open>safeParse\<close> of a schema.\<close>

definition with_body :: "string \<Rightarrow> ('i \<Rightarrow> bool) \<Rightarrow> 'i body \<Rightarrow> ('i \<Rightarrow> response handler) \<Rightarrow> response handler" where
  "with_body label schema b k =
     (case b of
        BodyParsed i \<Rightarrow> if schema i then k i else ret (400, InvalidPayload label)
      | BodyRejected \<Rightarrow> ret (400, InvalidPayload label)
      | _ \<Rightarrow> ret (body_error b))"

text \<open>\<open>toJsonError\<close>.\<close>

definition orpc_status :: "string \<Rightarrow> int" where
  "orpc_status c =
     (if c = ''NOT_FOUND'' then 404 else if c = ''CONFLICT'' then 409 else if c = ''BAD_REQUEST'' then 400 else 500)"

definition to_json_error :: "exn \<Rightarrow> response" where
  "to_json_error e =
     (case e of
        OrpcExn c m \<Rightarrow> (orpc_status c, CodedPayload c m)
      | _ \<Rightarrow> (500, ErrorPayload (exn_message e)))"

section \<open>Rules\<close>

lemma triple_clock: "(\<And>s t. P s \<Longrightarrow> Q t (s\<lparr>w_ticks := Suc (w_ticks s)\<rparr>)) \<Longrightarrow> triple P (clock A) Q E"
  by (simp add: triple_def clock_def)

lemma triple_random_uuid:
  "(\<And>s. P s \<Longrightarrow> Q (ap_uuid A (w_uuids s)) (s\<lparr>w_uuids := Suc (w_uuids s)\<rparr>)) \<Longrightarrow> triple P (random_uuid A) Q E"
  by (simp add: triple_def random_uuid_def)

lemma triple_query: "(\<And>s. P s \<Longrightarrow> Q (f (w_db s)) s) \<Longrightarrow> triple P (query f) Q E"
  by (simp add: triple_def query_def)

lemma triple_statement: "(\<And>s. P s \<Longrightarrow> Q () (s\<lparr>w_db := f (w_db s)\<rparr>)) \<Longrightarrow> triple P (statement f) Q E"
  by (simp add: triple_def statement_def)

lemma triple_transact:
  assumes "\<And>s d x. P s \<Longrightarrow> f (w_db s) = Inr (d, x) \<Longrightarrow> Q x (s\<lparr>w_db := d\<rparr>)"
    and "\<And>s m. P s \<Longrightarrow> f (w_db s) = Inl m \<Longrightarrow> E (PlainExn m) s"
  shows "triple P (transact f) Q E"
  using assms by (auto simp: triple_def transact_def split: sum.splits prod.splits)

lemma triple_lift_throws:
  assumes "\<And>s x. P s \<Longrightarrow> r = Inr x \<Longrightarrow> Q x s" "\<And>s m. P s \<Longrightarrow> r = Inl m \<Longrightarrow> E (PlainExn m) s"
  shows "triple P (lift_throws r) Q E"
  using assms by (cases r) (auto simp: lift_throws_def intro!: triple_ret triple_fail)

lemma triple_with_body:
  assumes "\<And>i. b = BodyParsed i \<Longrightarrow> schema i \<Longrightarrow> triple P (k i) Q E" "\<And>s r. P s \<Longrightarrow> Q r s"
  shows "triple P (with_body label schema b k) Q E"
proof (cases b)
  case (BodyParsed i)
  with assms show ?thesis by (cases "schema i") (simp_all add: with_body_def triple_ret)
qed (simp_all add: with_body_def triple_ret assms(2))

text \<open>The buffer of a body grows with it and never beyond the limit.\<close>

lemma next_capacity_bounds:
  "n \<le> maxBytes \<Longrightarrow> c \<le> maxBytes \<Longrightarrow> n \<le> next_capacity maxBytes n c \<and> next_capacity maxBytes n c \<le> maxBytes"
  by (auto simp: next_capacity_def)

lemma read_body_chunks_bounds:
  assumes "read_body_chunks maxBytes cs b = Some b'" "bb_byteSize b \<le> bb_capacity b" "bb_capacity b \<le> maxBytes"
    "bb_byteSize b = int (length (bb_text b))"
  shows "bb_byteSize b' \<le> bb_capacity b' \<and> bb_capacity b' \<le> maxBytes \<and> bb_text b' = bb_text b @ concat cs
         \<and> bb_byteSize b' = int (length (bb_text b'))"
  using assms
proof (induction cs arbitrary: b)
  case (Cons c cs)
  let ?n = "bb_byteSize b + int (length c)"
  from Cons.prems have n: "?n \<le> maxBytes" by (auto simp: Let_def split: if_splits)
  with Cons.prems(1) have r: "read_body_chunks maxBytes cs
      \<lparr> bb_capacity = next_capacity maxBytes ?n (bb_capacity b), bb_byteSize = ?n, bb_text = bb_text b @ c \<rparr> = Some b'"
    by (simp add: Let_def)
  from next_capacity_bounds [OF n, of "bb_capacity b"] Cons.prems(3)
  have q: "?n \<le> next_capacity maxBytes ?n (bb_capacity b)" "next_capacity maxBytes ?n (bb_capacity b) \<le> maxBytes" by blast+
  let ?b = "\<lparr> bb_capacity = next_capacity maxBytes ?n (bb_capacity b), bb_byteSize = ?n, bb_text = bb_text b @ c \<rparr>"
  have "bb_byteSize ?b \<le> bb_capacity ?b" "bb_capacity ?b \<le> maxBytes" "bb_byteSize ?b = int (length (bb_text ?b))"
    using q Cons.prems(4) by simp_all
  from Cons.IH [OF r this] show ?case
    unfolding body_buffer.select_convs concat.simps append_assoc by assumption
qed simp

end
