(* ===== verification/Api_Execution.thy ===== *)
theory Api_Execution
  imports Api_Base
begin

text \<open>
  The requests of the executor, in \<open>apps/api/src/index.ts\<close>: claims, the mutations of a leased job, the context of its
  resource, upload grants, results and follow-ups. The transport's body limit is a bound on bytes and belongs to
  \<open>readBoundedJson\<close>; here a body is what reading it gave.
\<close>

section \<open>Responses\<close>

definition execution_transport_body_max_bytes :: int where
  "execution_transport_body_max_bytes = int execution_payload_max_bytes * 20 + 64 * 1024"

definition execution_lease_conflict :: response where
  "execution_lease_conflict = (409, ErrorPayload ''Execution lease is no longer owned or has expired'')"

definition lease_response :: "exec_job option \<Rightarrow> response" where
  "lease_response ej = (case ej of Some j \<Rightarrow> (200, ExecJobPayload j) | None \<Rightarrow> execution_lease_conflict)"

text \<open>Whatever a handler of the transport throws is answered with an incident.\<close>

definition with_execution_transport_errors :: "api_host \<Rightarrow> response handler \<Rightarrow> response handler" where
  "with_execution_transport_errors A execute =
     catch execute (\<lambda>_. and_then (random_uuid A) (\<lambda>incidentId.
       ret (500, IncidentPayload ''Execution transport failed'' incidentId)))"

section \<open>Claims and mutations\<close>

definition handle_claim_execution_job :: "api_host \<Rightarrow> (string \<times> millis) body \<Rightarrow> response handler" where
  "handle_claim_execution_job A body =
     with_body ''Invalid execution lease request'' (\<lambda>(owner, duration). lease_request_schema owner duration) body
       (\<lambda>(owner, duration).
         and_then (clock A) (\<lambda>now.
         and_then (transact (claim_execution_job (ap_env A) owner duration None now)) (\<lambda>ej.
           ret (case ej of None \<Rightarrow> (204, NoPayload) | Some j \<Rightarrow> (200, ExecJobPayload j)))))"

datatype mutation =
    StartMutation "(string \<times> millis) body"
  | RenewMutation "(string \<times> millis) body"
  | CompleteMutation "string body"
  | FailMutation "(string \<times> exec_error \<times> millis option) body"

fun handle_execution_job_mutation :: "api_host \<Rightarrow> ident \<Rightarrow> mutation \<Rightarrow> response handler" where
  "handle_execution_job_mutation A i (StartMutation body) =
     with_body ''Invalid execution lease request'' (\<lambda>(owner, duration). lease_request_schema owner duration) body
       (\<lambda>(owner, duration).
         and_then (clock A) (\<lambda>now.
         and_then (transact (mark_execution_job_running i owner duration now)) (\<lambda>ej. ret (lease_response ej))))"
| "handle_execution_job_mutation A i (RenewMutation body) =
     with_body ''Invalid execution lease request'' (\<lambda>(owner, duration). lease_request_schema owner duration) body
       (\<lambda>(owner, duration).
         and_then (clock A) (\<lambda>now.
         and_then (transact (renew_execution_job_lease i owner duration now)) (\<lambda>ej. ret (lease_response ej))))"
| "handle_execution_job_mutation A i (CompleteMutation body) =
     with_body ''Invalid execution owner request'' lease_owner_ok body
       (\<lambda>owner.
         and_then (clock A) (\<lambda>now.
         and_then (transact (complete_execution_job i owner now)) (\<lambda>ej. ret (lease_response ej))))"
| "handle_execution_job_mutation A i (FailMutation body) =
     with_body ''Invalid execution failure request'' (\<lambda>(owner, err, delay). fail_request_schema owner err delay) body
       (\<lambda>(owner, err, delay).
         and_then (clock A) (\<lambda>now.
         and_then (transact (fail_execution_job (ap_env A) i owner err delay now)) (\<lambda>ej. ret (lease_response ej))))"

section \<open>Runs and their jobs\<close>

definition resolve_baseline_run :: "env \<Rightarrow> check_profile \<Rightarrow> db \<Rightarrow> profile_run option" where
  "resolve_baseline_run env profile d =
     (case cpf_baseline profile of
        None \<Rightarrow> None
      | Some b \<Rightarrow>
          if bl_runId b = [] then None
          else (case get_check_profile_run env (bl_runId b) d of
                  None \<Rightarrow> None
                | Some run \<Rightarrow> if run_profileId run = cpf_id profile then Some run else None))"

fun run_after :: "ident \<Rightarrow> profile_run list \<Rightarrow> profile_run option" where
  "run_after i [] = None"
| "run_after i (r # rs) = (if run_id r = i then (case rs of [] \<Rightarrow> None | p # _ \<Rightarrow> Some p) else run_after i rs)"

definition find_previous_run :: "env \<Rightarrow> ident \<Rightarrow> ident \<Rightarrow> db \<Rightarrow> profile_run option" where
  "find_previous_run env profileId runId d = run_after runId (list_check_profile_runs env profileId d)"

definition get_jobs_for_run :: "env \<Rightarrow> profile_run \<Rightarrow> db \<Rightarrow> latency_job list" where
  "get_jobs_for_run env run d = List.map_filter (\<lambda>r. get_job env (rr_jobId r) d) (run_routes run)"

text \<open>\<open>reconcileCheckProfileRuntimeLocation\<close>: a check that was migrated for another location is disabled.\<close>

definition needs_relocation :: "string \<Rightarrow> check_profile \<Rightarrow> bool" where
  "needs_relocation regionId profile =
     (case cpf_locationMigration profile of None \<Rightarrow> False | Some m \<Rightarrow> lm_runtimeRegionId m \<noteq> regionId)"

definition relocated :: "string \<Rightarrow> iso \<Rightarrow> check_profile \<Rightarrow> check_profile" where
  "relocated regionId now profile =
     profile\<lparr>cpf_schedule := None,
             cpf_locationMigration := map_option
               (\<lambda>m. m\<lparr>lm_runtimeRegionId := regionId, lm_status := MigRequiresReview, lm_acknowledgedAt := None\<rparr>)
               (cpf_locationMigration profile),
             cpf_updatedAt := now\<rparr>"

definition reconcile_check_profile_runtime_location ::
  "api_host \<Rightarrow> check_profile \<Rightarrow> (check_profile \<times> bool) handler" where
  "reconcile_check_profile_runtime_location A profile =
     (if \<not> needs_relocation (ap_regionId A) profile then ret (profile, False)
      else
        and_then (clock A) (\<lambda>now.
          let updated = relocated (ap_regionId A) now profile in
          and_then (statement (save_check_profile updated)) (\<lambda>_. ret (updated, True))))"

definition requires_review :: "check_profile \<Rightarrow> bool" where
  "requires_review profile =
     (case cpf_locationMigration profile of None \<Rightarrow> False | Some m \<Rightarrow> lm_status m = MigRequiresReview)"

section \<open>The context of an execution\<close>

definition get_owned_running_execution_job :: "api_host \<Rightarrow> ident \<Rightarrow> string \<Rightarrow> exec_job option handler" where
  "get_owned_running_execution_job A i owner =
     and_then (query (get_execution_job i)) (\<lambda>ej.
     and_then (clock A) (\<lambda>now.
       ret (case ej of
              None \<Rightarrow> None
            | Some j \<Rightarrow>
                if ej_status j \<noteq> ERunning \<or> ej_leaseOwner j \<noteq> Some owner
                   \<or> (case ej_leaseExpiresAt j of None \<Rightarrow> True | Some e \<Rightarrow> e \<le> now)
                then None else Some j)))"

definition execution_context_schema :: "(string \<Rightarrow> bool) \<Rightarrow> exec_context \<Rightarrow> bool" where
  "execution_context_schema is_url ctx =
     (case ctx of
        NetworkContext c \<Rightarrow>
          execution_job_schema (nc_executionJob c) \<and> list_all (latency_job_schema is_url) (nc_jobs c)
          \<and> opt_ok (check_profile_schema is_url) (nc_check c) \<and> opt_ok (profile_run_schema is_url) (nc_run c)
          \<and> opt_ok (profile_run_schema is_url) (nc_comparedRun c)
          \<and> list_all (latency_job_schema is_url) (nc_comparedJobs c) \<and> network_context_ok c
      | AuditContext ej i a \<Rightarrow> execution_job_schema ej \<and> audit_resource_schema is_url a
      | WebhookContext ej p r \<Rightarrow> execution_job_schema ej \<and> profile_run_schema is_url r)"

definition parse_context :: "api_host \<Rightarrow> exec_context \<Rightarrow> exec_context handler" where
  "parse_context A ctx =
     (if execution_context_schema (e_isUrl (ap_env A)) ctx then ret ctx else fail ZodExn)"

text \<open>Which run the run of an execution is compared with: the baseline, unless it is the run itself, or the one before.\<close>

definition compared_run ::
  "env \<Rightarrow> check_profile option \<Rightarrow> profile_run option \<Rightarrow> db \<Rightarrow> profile_run option \<times> comparison_mode option" where
  "compared_run env chk run d =
     (case (chk, run) of
        (Some c, Some r) \<Rightarrow>
          (let previous = find_previous_run env (cpf_id c) (run_id r) d;
               latest = (previous, if previous = None then None else Some LatestPrevious) in
           case resolve_baseline_run env c d of
             Some b \<Rightarrow> if run_id b \<noteq> run_id r then (Some b, Some Baseline) else latest
           | None \<Rightarrow> latest)
      | _ \<Rightarrow> (None, None))"

definition truthy :: "string option \<Rightarrow> bool" where
  "truthy v = (case v of None \<Rightarrow> False | Some s \<Rightarrow> s \<noteq> [])"

definition stored_check :: "api_host \<Rightarrow> network_payload \<Rightarrow> check_profile option handler" where
  "stored_check A p =
     (if \<not> truthy (np_checkId p) then ret None
      else
        and_then (query (get_check_profile (ap_env A) (the (np_checkId p)))) (\<lambda>stored.
          case stored of
            None \<Rightarrow> ret None
          | Some c \<Rightarrow>
              and_then (reconcile_check_profile_runtime_location A c) (\<lambda>(c', _). ret (Some c'))))"

definition stored_run :: "api_host \<Rightarrow> network_payload \<Rightarrow> profile_run option handler" where
  "stored_run A p =
     (if \<not> truthy (np_runId p) then ret None
      else query (get_check_profile_run (ap_env A) (the (np_runId p))))"

definition build_network_context :: "api_host \<Rightarrow> exec_job \<Rightarrow> network_payload \<Rightarrow> exec_context handler" where
  "build_network_context A ej p =
     (if ej_resourceId ej \<noteq> (case np_runId p of Some r \<Rightarrow> r | None \<Rightarrow> hd (np_jobIds p))
      then fail (PlainExn ''Network execution resource does not match its payload'')
      else
        and_then (query (\<lambda>d. map (\<lambda>i. get_job (ap_env A) i d) (np_jobIds p))) (\<lambda>jobs.
          if None \<in> set jobs then fail (PlainExn ''Network execution references a missing job'')
          else
            and_then (stored_check A p) (\<lambda>chk.
            and_then (stored_run A p) (\<lambda>run.
              if (truthy (np_checkId p) \<and> chk = None) \<or> (truthy (np_runId p) \<and> run = None)
              then fail (PlainExn ''Network execution references a missing check or run'')
              else if (case chk of None \<Rightarrow> False | Some c \<Rightarrow> requires_review c)
              then
                and_then (clock A) (\<lambda>now.
                and_then (statement (\<lambda>d. fst (cancel_execution_job (ap_env A) (ej_id ej) now d))) (\<lambda>_.
                  fail (PlainExn
                    ''Network execution is disabled until the saved Check runtime location is reviewed'')))
              else
                and_then (query (compared_run (ap_env A) chk run)) (\<lambda>(comparedRun, mode).
                and_then (query (\<lambda>d. case comparedRun of None \<Rightarrow> [] | Some r \<Rightarrow> get_jobs_for_run (ap_env A) r d))
                  (\<lambda>comparedJobs.
                  parse_context A (NetworkContext
                    \<lparr> nc_executionJob = ej, nc_payload = p, nc_jobs = map the jobs, nc_check = chk, nc_run = run,
                      nc_comparedRun = comparedRun, nc_comparedJobs = comparedJobs, nc_comparisonMode = mode \<rparr>)))))))"

definition build_audit_context :: "api_host \<Rightarrow> exec_job \<Rightarrow> ident \<Rightarrow> exec_context handler" where
  "build_audit_context A ej auditId =
     and_then (query (get_browser_audit (ap_env A) auditId)) (\<lambda>audit.
       case audit of
         Some a \<Rightarrow>
           if ej_resourceId ej \<noteq> auditId
           then fail (PlainExn ''Browser audit execution references a missing resource'')
           else parse_context A (AuditContext ej auditId a)
       | None \<Rightarrow> fail (PlainExn ''Browser audit execution references a missing resource''))"

definition build_webhook_context :: "api_host \<Rightarrow> exec_job \<Rightarrow> webhook_payload \<Rightarrow> exec_context handler" where
  "build_webhook_context A ej p =
     and_then (query (get_check_profile_run (ap_env A) (wp_runId p))) (\<lambda>run.
       case run of
         Some r \<Rightarrow>
           if ej_resourceId ej \<noteq> wp_runId p then fail (PlainExn ''Webhook execution references a missing run'')
           else parse_context A (WebhookContext ej p r)
       | None \<Rightarrow> fail (PlainExn ''Webhook execution references a missing run''))"

definition parsed :: "'a option \<Rightarrow> 'a handler" where
  "parsed v = (case v of None \<Rightarrow> fail ZodExn | Some x \<Rightarrow> ret x)"

definition build_execution_resource_context :: "api_host \<Rightarrow> exec_job \<Rightarrow> exec_context handler" where
  "build_execution_resource_context A ej =
     (case ej_kind ej of
        NetworkProbe \<Rightarrow>
          and_then (parsed (decode_network_payload (ej_payload ej))) (build_network_context A ej)
      | BrowserAudit \<Rightarrow>
          and_then (parsed (decode_audit_payload (ej_payload ej))) (build_audit_context A ej)
      | WebhookDelivery \<Rightarrow>
          and_then (parsed (decode_webhook_payload (e_isUrl (ap_env A)) (ej_payload ej))) (build_webhook_context A ej))"

section \<open>Results\<close>

definition browser_audit_inputs_match :: "audit_resource \<Rightarrow> audit_resource \<Rightarrow> bool" where
  "browser_audit_inputs_match existing result =
     (aud_targetUrl existing = aud_targetUrl result \<and> aud_region existing = aud_region result
      \<and> aud_requestedAt existing = aud_requestedAt result \<and> aud_policy existing = aud_policy result
      \<and> aud_customHeaders existing = aud_customHeaders result \<and> aud_cookies existing = aud_cookies result)"

text \<open>\<open>encodeURIComponent\<close>.\<close>

definition uri_unreserved :: "char \<Rightarrow> bool" where
  "uri_unreserved c = (is_alnum c \<or> c \<in> set ''-_.!~*()'' \<or> c = CHR 0x27)"

definition upper_hex_digit :: "nat \<Rightarrow> char" where
  "upper_hex_digit n = (if n < 10 then char_of (48 + n) else char_of (55 + n))"

definition encode_uri_component :: "string \<Rightarrow> string" where
  "encode_uri_component s =
     concat (map (\<lambda>c. if uri_unreserved c then [c]
                      else concat (map (\<lambda>b. [CHR ''%'', upper_hex_digit (unat b div 16), upper_hex_digit (unat b mod 16)])
                             (utf8_char c))) s)"

definition artifact_path :: "ident \<Rightarrow> ident \<Rightarrow> string" where
  "artifact_path auditId artifactId =
     ''/v1/browser-audits/'' @ encode_uri_component auditId @ ''/artifacts/'' @ encode_uri_component artifactId"

definition browser_audit_artifacts_match :: "ident \<Rightarrow> artifact_ref list \<Rightarrow> db \<Rightarrow> bool" where
  "browser_audit_artifacts_match auditId artifacts d =
     list_all (\<lambda>a. case get_browser_audit_artifact auditId (art_id a) d of
         None \<Rightarrow> False
       | Some x \<Rightarrow>
           af_registryVersion x = ''v1'' \<and> art_kind a = af_kind x
           \<and> art_url a = artifact_path auditId (af_id x)
           \<and> art_filename a = Some (af_filename x) \<and> art_contentType a = af_contentType x
           \<and> art_byteSize a = Some (af_byteSize x) \<and> art_sha256 a = Some (af_sha256 x)
           \<and> art_createdAt a = af_createdAt x) artifacts"

definition network_result_matches :: "network_payload \<Rightarrow> latency_job list \<Rightarrow> profile_run option \<Rightarrow> bool" where
  "network_result_matches p jobs run =
     (\<not> (length jobs \<noteq> card (set (np_jobIds p))
         \<or> list_ex (\<lambda>j. job_id j \<notin> set (np_jobIds p)) jobs
         \<or> (run \<noteq> None) \<noteq> truthy (np_runId p)
         \<or> (case run of None \<Rightarrow> False
            | Some r \<Rightarrow> Some (run_id r) \<noteq> np_runId p \<or> Some (run_profileId r) \<noteq> np_checkId p)))"

definition save_result :: "api_host \<Rightarrow> exec_job \<Rightarrow> string \<Rightarrow> exec_result \<Rightarrow> bool handler" where
  "save_result A ej owner result =
     and_then (clock A) (\<lambda>now. transact (save_execution_resource_result (ap_env A) (ej_id ej) owner result now))"

fun persist_execution_resource_result :: "api_host \<Rightarrow> exec_job \<Rightarrow> string \<Rightarrow> exec_result \<Rightarrow> bool handler" where
  "persist_execution_resource_result A ej owner (NetworkResult jobs run) =
     and_then (parsed (decode_network_payload (ej_payload ej))) (\<lambda>p.
       if \<not> network_result_matches p jobs run
       then fail (PlainExn ''Network execution result does not match its payload'')
       else save_result A ej owner (NetworkResult jobs run))"
| "persist_execution_resource_result A ej owner (AuditResult a) =
     and_then (parsed (decode_audit_payload (ej_payload ej))) (\<lambda>auditId.
     and_then (query (get_browser_audit (ap_env A) auditId)) (\<lambda>existing.
     and_then (query (browser_audit_artifacts_match auditId
                 (case aud_result a of None \<Rightarrow> [] | Some r \<Rightarrow> ar_artifacts r))) (\<lambda>artifactsMatch.
       if aud_id a \<noteq> auditId \<or> (case existing of None \<Rightarrow> True | Some e \<Rightarrow> \<not> browser_audit_inputs_match e a)
          \<or> \<not> artifactsMatch
       then fail (PlainExn ''Browser audit result does not match its payload'')
       else save_result A ej owner (AuditResult a))))"
| "persist_execution_resource_result A ej owner (WebhookResult runId delivery) =
     and_then (parsed (decode_webhook_payload (e_isUrl (ap_env A)) (ej_payload ej))) (\<lambda>p.
       if runId \<noteq> wp_runId p \<or> ad_targetId delivery \<noteq> wt_id (wp_target p)
          \<or> ad_targetName delivery \<noteq> wt_name (wp_target p) \<or> ad_url delivery \<noteq> wt_url (wp_target p)
       then fail (PlainExn ''Webhook result does not match its payload'')
       else save_result A ej owner (WebhookResult runId delivery))"

section \<open>Upload grants\<close>

definition resolve_artifact_upload_base_url :: "(string \<Rightarrow> url option) \<Rightarrow> string \<Rightarrow> string throws" where
  "resolve_artifact_upload_base_url parse_url v =
     (case parse_url v of
        None \<Rightarrow> throw ''Invalid URL''
      | Some u \<Rightarrow>
          if u_protocol u \<notin> {''http:'', ''https:''} \<or> u_username u \<noteq> [] \<or> u_password u \<noteq> []
             \<or> u_pathname u \<noteq> ''/'' \<or> u_search u \<noteq> [] \<or> u_hash u \<noteq> []
          then throw ''Artifact upload base URL must be a credential-free HTTP(S) origin''
          else return (url_origin u))"

definition build_browser_audit_artifact_upload_grant ::
  "api_host \<Rightarrow> exec_job \<Rightarrow> string \<Rightarrow> string \<Rightarrow> upload_config handler" where
  "build_browser_audit_artifact_upload_grant A ej owner requestOrigin =
     and_then (parsed (decode_audit_payload (ej_payload ej))) (\<lambda>auditId.
     and_then (query (get_browser_audit (ap_env A) auditId)) (\<lambda>audit.
       if ej_resourceId ej \<noteq> auditId \<or> audit = None
       then fail (PlainExn ''Browser Audit artifact grant references a missing resource'')
       else
         and_then (clock A) (\<lambda>issuedAt.
           let expiresAt = issuedAt + ap_artifactUploadTtlSeconds A * 1000 in
           and_then (lift_throws (resolve_artifact_upload_base_url (ap_parseUrl A)
                       (case ap_artifactUploadBaseUrl A of Some b \<Rightarrow> b | None \<Rightarrow> requestOrigin))) (\<lambda>baseUrl.
           and_then (random_uuid A) (\<lambda>nonce.
           and_then (lift_throws (issue_browser_audit_upload_token (ap_hmac A) (ap_internalSecret A)
                       \<lparr> tk_auditId = auditId, tk_executionJobId = ej_id ej, tk_leaseOwner = owner,
                         tk_attemptCount = ej_attemptCount ej, tk_issuedAt = issuedAt, tk_expiresAt = expiresAt,
                         tk_maxArtifactBytes = ap_maxArtifactBytes A, tk_nonce = nonce \<rparr>)) (\<lambda>token.
             let grant = \<lparr> up_baseUrl = baseUrl, up_bearerToken = token, up_expiresAt = expiresAt,
                           up_maxArtifactBytes = ap_maxArtifactBytes A,
                           up_allowedContentTypes = default_artifact_content_types \<rparr> in
             if upload_config_schema (e_isUrl (ap_env A)) grant then ret grant else fail ZodExn))))))"

section \<open>Resource operations\<close>

datatype resource_op =
    ContextOp "string body"
  | GrantOp "string body" string
  | ResultOp "(string \<times> exec_result) body"
  | FollowupsOp "(string \<times> enqueue_job list) body"

definition followup_ok :: "(string \<Rightarrow> bool) \<Rightarrow> ident \<Rightarrow> enqueue_job \<Rightarrow> bool" where
  "followup_ok is_url runId e =
     (eq_kind e = WebhookDelivery \<and> eq_resourceId e = runId
      \<and> (case decode_webhook_payload is_url (eq_payload e) of None \<Rightarrow> False | Some p \<Rightarrow> wp_runId p = runId))"

definition handle_followups :: "api_host \<Rightarrow> exec_job \<Rightarrow> string \<Rightarrow> enqueue_job list \<Rightarrow> response handler" where
  "handle_followups A ej owner jobs =
     and_then (if ej_kind ej = NetworkProbe
               then and_then (parsed (decode_network_payload (ej_payload ej))) (\<lambda>p. ret (np_runId p))
               else ret None) (\<lambda>runId.
       if \<not> truthy runId \<or> list_ex (\<lambda>e. \<not> followup_ok (e_isUrl (ap_env A)) (the runId) e) jobs
       then ret (409, ErrorPayload ''Only run-owned webhook follow-ups may be enqueued'')
       else
         and_then (clock A) (\<lambda>now.
         and_then (transact (enqueue_execution_jobs (ap_env A) (ej_id ej) owner jobs now)) (\<lambda>followups.
           case followups of
             None \<Rightarrow> ret execution_lease_conflict
           | Some js \<Rightarrow>
               if 1 \<le> length js \<and> length js \<le> execution_followup_max_jobs \<and> list_all execution_job_schema js
               then ret (201, FollowupsPayload js) else fail ZodExn)))"

definition when_owned ::
  "api_host \<Rightarrow> ident \<Rightarrow> string \<Rightarrow> (exec_job \<Rightarrow> response handler) \<Rightarrow> response handler" where
  "when_owned A i owner k =
     and_then (get_owned_running_execution_job A i owner) (\<lambda>ej.
       case ej of None \<Rightarrow> ret execution_lease_conflict | Some j \<Rightarrow> k j)"

fun handle_execution_resource_operation :: "api_host \<Rightarrow> ident \<Rightarrow> resource_op \<Rightarrow> response handler" where
  "handle_execution_resource_operation A i (ContextOp body) =
     with_body ''Invalid execution context request'' lease_owner_ok body (\<lambda>owner.
       when_owned A i owner (\<lambda>ej.
         and_then (build_execution_resource_context A ej) (\<lambda>ctx. ret (200, ContextPayload ctx))))"
| "handle_execution_resource_operation A i (GrantOp body requestOrigin) =
     with_body ''Invalid Browser Audit artifact upload grant request'' lease_owner_ok body (\<lambda>owner.
       when_owned A i owner (\<lambda>ej.
         if ej_kind ej \<noteq> BrowserAudit
         then ret (409, ErrorPayload ''Artifact upload grants are only available for Browser Audit executions'')
         else
           and_then (build_browser_audit_artifact_upload_grant A ej owner requestOrigin) (\<lambda>grant.
             ret (200, GrantPayload grant))))"
| "handle_execution_resource_operation A i (ResultOp body) =
     with_body ''Invalid execution result request''
       (\<lambda>(owner, result). lease_owner_ok owner \<and> exec_result_schema (e_isUrl (ap_env A)) result) body
       (\<lambda>(owner, result).
       when_owned A i owner (\<lambda>ej.
         if ej_kind ej \<noteq> result_kind result
         then ret (409, ErrorPayload ''Execution result kind does not match the leased job'')
         else
           and_then (persist_execution_resource_result A ej owner result) (\<lambda>persisted.
             ret (if persisted then (204, NoPayload) else execution_lease_conflict))))"
| "handle_execution_resource_operation A i (FollowupsOp body) =
     with_body ''Invalid execution follow-up request'' (\<lambda>(owner, jobs). lease_owner_ok owner \<and> followups_schema jobs) body
       (\<lambda>(owner, jobs). when_owned A i owner (\<lambda>ej. handle_followups A ej owner jobs))"

section \<open>The transport\<close>

datatype transport_request =
    ClaimRequest "(string \<times> millis) body"
  | MutationRequest ident mutation
  | ResourceRequest ident resource_op

text \<open>\<open>routeRequest\<close> checks the identifier of the path and wraps each of the handlers.\<close>

definition with_execution_job_id :: "ident \<Rightarrow> response handler \<Rightarrow> response handler" where
  "with_execution_job_id i k =
     (if bounded_job_id_ok i then k else ret (400, ErrorPayload ''Invalid execution job ID''))"

fun handle_transport :: "api_host \<Rightarrow> transport_request \<Rightarrow> response handler" where
  "handle_transport A (ClaimRequest body) = with_execution_transport_errors A (handle_claim_execution_job A body)"
| "handle_transport A (MutationRequest i m) =
     with_execution_job_id i (with_execution_transport_errors A (handle_execution_job_mutation A i m))"
| "handle_transport A (ResourceRequest i op) =
     with_execution_job_id i (with_execution_transport_errors A (handle_execution_resource_operation A i op))"

end
