(* ===== verification/Redaction.thy ===== *)
theory Redaction
  imports Js_Url
begin

text \<open>
  What the API hides in its responses, \<open>apps/api/src/redaction.ts\<close>: the names that are taken for sensitive, the
  redaction of a JSON document, of URLs and of diagnostic texts, and the rebuilt response. \<open>parse_url\<close> is \<open>new URL\<close>
  and \<open>href\<close> the text of a URL, both the platform's; \<open>parse_json\<close> decodes bytes and parses them. A document that comes from
  \<open>JSON.parse\<close> has no cycles, so the code's guard against them never applies.
\<close>

section \<open>Sensitive names\<close>

definition redacted_value :: string where "redacted_value = ''[REDACTED]''"
definition max_redaction_depth :: nat where "max_redaction_depth = 32"
definition max_redacted_json_response_bytes :: int where "max_redacted_json_response_bytes = 5242880"

definition exact_sensitive_header_names :: "string list" where
  "exact_sensitive_header_names =
     [''authorization'', ''cookie'', ''set-cookie'', ''proxy-authorization'', ''x-api-key'', ''api-key'']"

definition compact_sensitive_header_names :: "string list" where
  "compact_sensitive_header_names =
     [''apikey'', ''apitoken'', ''accesskey'', ''accesstoken'', ''refreshkey'', ''refreshtoken'', ''authkey'', ''authtoken'',
      ''csrfkey'', ''csrftoken'', ''sessionkey'', ''sessiontoken'', ''bearerkey'', ''bearertoken'', ''clientsecret'',
      ''clientkey'', ''clienttoken'', ''privatekey'', ''signingkey'', ''encryptionkey'']"

definition sensitive_header_name_stems :: "string list" where
  "sensitive_header_name_stems =
     [''token'', ''secret'', ''key'', ''password'', ''passwd'', ''credential'', ''bearer'']"

definition sensitive_property_segments :: "string list" where
  "sensitive_property_segments =
     [''authorization'', ''bearer'', ''credential'', ''credentials'', ''passwd'', ''password'', ''secret'', ''token'']"

definition sensitive_key_qualifiers :: "string list" where
  "sensitive_key_qualifiers =
     [''access'', ''api'', ''auth'', ''bearer'', ''client'', ''csrf'', ''encryption'', ''private'', ''secret'', ''session'', ''signing'']"

definition sensitive_key_payload_segments :: "string list" where
  "sensitive_key_payload_segments = [''bytes'', ''data'', ''material'', ''pair'', ''pem'', ''store'', ''value'']"

text \<open>The pieces of a string between the characters of a class.\<close>

fun split_class :: "(char \<Rightarrow> bool) \<Rightarrow> string \<Rightarrow> string list" where
  "split_class d [] = [[]]"
| "split_class d (c # s) =
     (if d c then [] # split_class d s
      else (case split_class d s of [] \<Rightarrow> [[c]] | w # ws \<Rightarrow> (c # w) # ws))"

definition dash_char :: "char \<Rightarrow> bool" where
  "dash_char c = (c = CHR ''-'' \<or> c = CHR ''_'')"

text \<open>\<open>sensitiveHeaderNameStemPattern\<close>: a stem between dashes, underscores and the ends.\<close>

definition has_sensitive_stem :: "string \<Rightarrow> bool" where
  "has_sensitive_stem s = list_ex (\<lambda>w. w \<in> set sensitive_header_name_stems) (split_class dash_char s)"

definition is_sensitive_header_name :: "string \<Rightarrow> bool" where
  "is_sensitive_header_name name =
     (let normalized = js_lower (js_trim name); compact = filter (\<lambda>c. \<not> dash_char c) normalized in
      normalized \<in> set exact_sensitive_header_names
      \<or> has_sensitive_stem normalized
      \<or> compact \<in> set compact_sensitive_header_names
      \<or> (starts_with ''x'' compact
         \<and> (drop 1 compact \<in> set compact_sensitive_header_names \<or> drop 1 compact \<in> set sensitive_header_name_stems)))"

text \<open>The two replacements of \<open>propertyNameSegments\<close>: a dash before the last capital of a run that a small letter follows,
  then one between a small letter or digit and a capital.\<close>

function dash_acronyms :: "string \<Rightarrow> string" where
  "dash_acronyms [] = []"
| "dash_acronyms (c # s) =
     (let u = takeWhile is_upper (c # s); r = dropWhile is_upper (c # s) in
      if u = [] then c # dash_acronyms s
      else if length u \<ge> 2 \<and> r \<noteq> [] \<and> is_lower (hd r)
      then butlast u @ [CHR ''-'', last u, hd r] @ dash_acronyms (tl r)
      else u @ dash_acronyms r)"
  by pat_completeness auto
termination
proof (relation "measure length", goal_cases)
  case (3 c s u r)
  then have "length r \<le> length (c # s)" by (metis length_dropWhile_le)
  with 3 show ?case by (cases r) auto
next
  case (4 c s u r)
  then have "is_upper c" by (auto split: if_splits)
  with 4 have "length r \<le> length s" by (simp add: length_dropWhile_le)
  then show ?case by simp
qed auto

fun dash_camel :: "string \<Rightarrow> string" where
  "dash_camel (a # b # s) =
     (if (is_lower a \<or> is_digit a) \<and> is_upper b then a # CHR ''-'' # dash_camel (b # s) else a # dash_camel (b # s))"
| "dash_camel s = s"

definition property_name_segments :: "string \<Rightarrow> string list" where
  "property_name_segments name =
     filter (\<lambda>w. w \<noteq> [])
       (split_class (\<lambda>c. \<not> (is_lower c \<or> is_digit c)) (js_lower (dash_camel (dash_acronyms (js_trim name)))))"

definition is_sensitive_property_name :: "string \<Rightarrow> bool" where
  "is_sensitive_property_name name =
     (is_sensitive_header_name name
      \<or> (let segments = property_name_segments name in
         list_ex (\<lambda>w. w \<in> set sensitive_property_segments) segments
         \<or> (case find_index (\<lambda>w. w = ''key'') segments of
              None \<Rightarrow> False
            | Some i \<Rightarrow>
                if i = 0 then length segments = 1 \<or> segments ! 1 \<in> set sensitive_key_payload_segments
                else segments ! (i - 1) \<in> set sensitive_key_qualifiers)))"

definition is_url_property_name :: "string \<Rightarrow> bool" where
  "is_url_property_name name =
     (ends_with ''url'' (js_lower name)
      \<or> js_lower name \<in> {''href'', ''uri'', ''endpoint'', ''callback'', ''redirect'', ''webhook'', ''target''})"

section \<open>URLs and texts\<close>

record url_text =
  ut_parse :: "string \<Rightarrow> url option"
  ut_href :: "url \<Rightarrow> string"

definition find_from :: "string \<Rightarrow> (char \<Rightarrow> bool) \<Rightarrow> nat" where
  "find_from v p = length (takeWhile (\<lambda>c. \<not> p c) v)"

text \<open>\<open>redactMalformedUrlCredentials\<close>: from the scheme to the last \<open>@\<close> before the path, query or fragment. The code
  looks for the last \<open>@\<close> up to and including the character before \<open>authorityEnd\<close>.\<close>

definition redact_malformed_url_credentials :: "string \<Rightarrow> string" where
  "redact_malformed_url_credentials v =
     (let n = (if starts_with_i ''https://'' v then 8 else if starts_with_i ''http://'' v then 7 else 0) in
      if n = 0 then v
      else
        let rest = drop n v; authority = takeWhile (\<lambda>c. c \<notin> set ''/?#'') rest in
        if CHR ''@'' \<notin> set authority then v
        else take n v @ redacted_value @ [CHR ''@''] @ rev (takeWhile (\<lambda>c. c \<noteq> CHR ''@'') (rev authority))
             @ drop (length authority) rest)"

definition redact_url_query_text :: "url_text \<Rightarrow> string \<Rightarrow> string" where
  "redact_url_query_text T v =
     (case ut_parse T v of
        Some u \<Rightarrow>
          ut_href T (u\<lparr>u_username := [], u_password := [],
                       u_search := (if u_search u \<noteq> [] then ''?redacted'' else u_search u), u_hash := []\<rparr>)
      | None \<Rightarrow>
          (let withoutFragment = takeWhile (\<lambda>c. c \<noteq> CHR ''#'') (redact_malformed_url_credentials v) in
           if CHR ''?'' \<in> set withoutFragment
           then takeWhile (\<lambda>c. c \<noteq> CHR ''?'') withoutFragment @ ''?redacted'' else withoutFragment))"

definition url_candidate_char :: "char \<Rightarrow> bool" where
  "url_candidate_char c = (\<not> is_ws c \<and> c \<notin> {CHR 0x22, CHR 0x27} \<and> c \<notin> set ''<>,;)}]|'')"

definition match_url_candidate :: "string \<Rightarrow> nat option" where
  "match_url_candidate s =
     (let n = (if starts_with_i ''https://'' s then 8 else if starts_with_i ''http://'' s then 7 else 0);
          k = length (takeWhile url_candidate_char (drop n s)) in
      if n = 0 \<or> k = 0 then None else Some (n + k))"

function redact_urls_in_text :: "url_text \<Rightarrow> string \<Rightarrow> string" where
  "redact_urls_in_text T [] = []"
| "redact_urls_in_text T (c # s) =
     (case match_url_candidate (c # s) of
        None \<Rightarrow> c # redact_urls_in_text T s
      | Some n \<Rightarrow> redact_url_query_text T (take n (c # s)) @ redact_urls_in_text T (drop (n - 1) s))"
  by pat_completeness auto
termination by (relation "measure (\<lambda>(T, s). length s)") auto

section \<open>Diagnostic texts\<close>

text \<open>A pattern gives, from the word character class of the previous character and the rest of the text, the lengths
  of what it keeps and of what it hides after it.\<close>

function redact_matches :: "(bool \<Rightarrow> string \<Rightarrow> (nat \<times> nat) option) \<Rightarrow> bool \<Rightarrow> string \<Rightarrow> string" where
  "redact_matches m w [] = []"
| "redact_matches m w (c # s) =
     (case m w (c # s) of
        None \<Rightarrow> c # redact_matches m (is_word_char c) s
      | Some (k, n) \<Rightarrow>
          take k (c # s) @ redacted_value
          @ redact_matches m (is_word_char ((c # s) ! min (k + n - 1) (length s))) (drop (k + n - 1) s))"
  by pat_completeness auto
termination by (relation "measure (\<lambda>(m, w, s). length s)") auto

definition blanks :: "string \<Rightarrow> nat" where
  "blanks s = length (takeWhile is_ws s)"

definition credential_value_char :: "char \<Rightarrow> bool" where
  "credential_value_char c = (\<not> is_ws c \<and> c \<notin> {CHR 0x22, CHR 0x27} \<and> c \<notin> set '',;)}]|'')"

definition quoted_length :: "string \<Rightarrow> nat option" where
  "quoted_length s =
     (if tl s \<noteq> [] \<and> hd s \<in> set (tl s) then Some (length (takeWhile (\<lambda>c. c \<noteq> hd s) (tl s)) + 2) else None)"

definition bare_length :: "string \<Rightarrow> nat option" where
  "bare_length s = (let n = length (takeWhile credential_value_char s) in if n = 0 then None else Some n)"

definition value_length :: "string \<Rightarrow> nat option" where
  "value_length s =
     (if s = [] then None
      else if hd s = CHR 0x22 \<or> hd s = CHR 0x27 then quoted_length s else bare_length s)"

text \<open>\<open>diagnosticCredentialNamePattern\<close>: two words with at most one separator, or one word.\<close>

definition two_words :: "string \<times> string \<Rightarrow> string \<Rightarrow> nat option" where
  "two_words p s =
     (case p of
        (a, b) \<Rightarrow>
          if starts_with_i a s \<and> starts_with_i b (drop (length a) s) then Some (length a + length b)
          else if starts_with_i a s \<and> drop (length a) s \<noteq> [] \<and> s ! length a \<in> set ''-_ ''
                  \<and> starts_with_i b (drop (Suc (length a)) s)
          then Some (Suc (length a + length b)) else None)"

fun first_some :: "('a \<Rightarrow> 'b option) \<Rightarrow> 'a list \<Rightarrow> 'b option" where
  "first_some f [] = None"
| "first_some f (x # xs) = (case f x of None \<Rightarrow> first_some f xs | Some y \<Rightarrow> Some y)"

definition credential_name_length :: "string \<Rightarrow> nat option" where
  "credential_name_length s =
     (case first_some (\<lambda>p. two_words p s)
             [(''api'', ''key''), (''access'', ''token''), (''refresh'', ''token''), (''client'', ''secret'')] of
        Some n \<Rightarrow> Some n
      | None \<Rightarrow> first_some (\<lambda>w. if starts_with_i w s then Some (length w) else None)
                  [''credentials'', ''credential'', ''passwd'', ''password'', ''secret'', ''token''])"

text \<open>\<open>:\<close>, \<open>=\<close>, or the word \<open>is\<close> after a blank.\<close>

definition separator_length :: "nat \<Rightarrow> string \<Rightarrow> nat option" where
  "separator_length before s =
     (if s \<noteq> [] \<and> (hd s = CHR '':'' \<or> hd s = CHR ''='') then Some 1
      else if 0 < before \<and> starts_with_i ''is'' s \<and> (length s = 2 \<or> \<not> is_word_char (s ! 2)) then Some 2 else None)"

definition match_assignment :: "bool \<Rightarrow> string \<Rightarrow> (nat \<times> nat) option" where
  "match_assignment w s =
     (if w then None
      else (case credential_name_length s of
              None \<Rightarrow> None
            | Some n \<Rightarrow>
                (let b = blanks (drop n s) in
                 case separator_length b (drop (n + b) s) of
                   None \<Rightarrow> None
                 | Some e \<Rightarrow>
                     (let k = n + b + e + blanks (drop (n + b + e) s) in
                      map_option (\<lambda>v. (k, v)) (value_length (drop k s))))))"

definition match_for_credential :: "bool \<Rightarrow> string \<Rightarrow> (nat \<times> nat) option" where
  "match_for_credential w s =
     (if w \<or> \<not> starts_with_i ''for'' s \<or> blanks (drop 3 s) = 0 then None
      else (let a = 3 + blanks (drop 3 s) in
            case credential_name_length (drop a s) of
              None \<Rightarrow> None
            | Some n \<Rightarrow>
                (let b = blanks (drop (a + n) s); k = a + n + b in
                 if b = 0 then None else map_option (\<lambda>v. (k, v)) (value_length (drop k s)))))"

definition match_bearer :: "bool \<Rightarrow> string \<Rightarrow> (nat \<times> nat) option" where
  "match_bearer w s =
     (if w \<or> \<not> starts_with_i ''bearer'' s \<or> blanks (drop 6 s) = 0 then None
      else (let k = 6 + blanks (drop 6 s) in map_option (\<lambda>v. (k, v)) (bare_length (drop k s))))"

definition redact_diagnostic_text :: "url_text \<Rightarrow> string \<Rightarrow> string" where
  "redact_diagnostic_text T v =
     redact_matches match_for_credential False
       (redact_matches match_assignment False
          (redact_matches match_bearer False (redact_urls_in_text T v)))"

section \<open>Documents\<close>

definition redact_string_entry :: "url_text \<Rightarrow> bool \<Rightarrow> string \<Rightarrow> string \<Rightarrow> string" where
  "redact_string_entry T redactNamedValue key s =
     (if key = ''error'' \<or> key = ''message'' then redact_diagnostic_text T s
      else if is_sensitive_property_name key then redacted_value
      else if key = ''value'' \<and> redactNamedValue then redacted_value
      else if is_url_property_name key then redact_url_query_text T s
      else redact_urls_in_text T s)"

definition redact_named_value :: "string option \<Rightarrow> (string \<times> json) list \<Rightarrow> bool" where
  "redact_named_value parentKey kvs =
     (parentKey = Some ''cookies''
      \<or> (case json_field ''name'' kvs of Some (JStr name) \<Rightarrow> is_sensitive_header_name name | _ \<Rightarrow> False))"

fun redact_at_depth :: "url_text \<Rightarrow> nat \<Rightarrow> string option \<Rightarrow> json \<Rightarrow> json" where
  "redact_at_depth T depth parentKey (JArr items) =
     (if depth > max_redaction_depth then JStr redacted_value
      else JArr (map (redact_at_depth T (Suc depth) parentKey) items))"
| "redact_at_depth T depth parentKey (JObj kvs) =
     (if depth > max_redaction_depth then JStr redacted_value
      else JObj (map (\<lambda>(key, item).
             (key,
              (case item of
                 JStr s \<Rightarrow> JStr (redact_string_entry T (redact_named_value parentKey kvs) key s)
               | _ \<Rightarrow>
                   if is_sensitive_property_name key then JStr redacted_value
                   else redact_at_depth T (Suc depth) (Some key) item))) kvs))"
| "redact_at_depth T depth parentKey v = (if depth > max_redaction_depth then JStr redacted_value else v)"

definition redact_sensitive_data :: "url_text \<Rightarrow> json \<Rightarrow> json" where
  "redact_sensitive_data T v = redact_at_depth T 0 None v"

section \<open>Responses\<close>

text \<open>A response: header names in lower case; its body as the chunks read from it, if it has one, and whether
  reading fails after them.\<close>

record http_response =
  ho_status :: int
  ho_headers :: "(string \<times> string) list"
  ho_body :: "string list option"
  ho_fails :: bool

definition stale_entity_header_names :: "string list" where
  "stale_entity_header_names =
     [''content-encoding'', ''content-length'', ''content-md5'', ''content-range'', ''etag'']"

definition build_safe_response_headers :: "http_response \<Rightarrow> (string \<times> string) list" where
  "build_safe_response_headers r =
     filter (\<lambda>(n, v). \<not> (n \<in> set stale_entity_header_names \<or> is_sensitive_header_name n)) (ho_headers r)"

definition set_header :: "string \<Rightarrow> string \<Rightarrow> (string \<times> string) list \<Rightarrow> (string \<times> string) list" where
  "set_header n v hs = filter (\<lambda>(m, _). m \<noteq> n) hs @ [(n, v)]"

definition safe_redaction_failure_response :: "string \<Rightarrow> http_response \<Rightarrow> http_response" where
  "safe_redaction_failure_response m r =
     \<lparr> ho_status = 500,
       ho_headers = set_header ''cache-control'' ''no-store''
         (set_header ''content-type'' ''application/json; charset=utf-8'' (build_safe_response_headers r)),
       ho_body = Some [json_stringify (JObj [(''error'', JStr m)])], ho_fails = False \<rparr>"

definition rebuild_response :: "string option \<Rightarrow> http_response \<Rightarrow> http_response" where
  "rebuild_response body r =
     \<lparr> ho_status = ho_status r, ho_headers = build_safe_response_headers r,
       ho_body = map_option (\<lambda>b. [b]) body, ho_fails = False \<rparr>"

text \<open>The declared length: digits without leading zeros.\<close>

definition canonical_digits :: "string \<Rightarrow> bool" where
  "canonical_digits s = (s \<noteq> [] \<and> list_all is_digit s \<and> (hd s = CHR ''0'' \<longrightarrow> s = ''0''))"

definition header_value :: "string \<Rightarrow> http_response \<Rightarrow> string" where
  "header_value n r = (case map_of (ho_headers r) n of Some v \<Rightarrow> v | None \<Rightarrow> [])"

fun read_response_chunks :: "int \<Rightarrow> string list \<Rightarrow> string \<Rightarrow> string option" where
  "read_response_chunks maxBytes [] text = Some text"
| "read_response_chunks maxBytes (c # cs) text =
     (if int (length text + length c) > maxBytes then None else read_response_chunks maxBytes cs (text @ c))"

datatype bounded_text = TooLong | Unreadable_text | Text string

definition read_bounded_text :: "http_response \<Rightarrow> int \<Rightarrow> bounded_text" where
  "read_bounded_text r maxBytes =
     (let declared = js_trim (header_value ''content-length'' r) in
      if canonical_digits declared
         \<and> (\<not> is_safe_integer (int (read_digits declared)) \<or> int (read_digits declared) > maxBytes)
      then TooLong
      else (case ho_body r of
              None \<Rightarrow> Text []
            | Some cs \<Rightarrow>
                (case read_response_chunks maxBytes cs [] of
                   None \<Rightarrow> TooLong
                 | Some t \<Rightarrow> if ho_fails r then Unreadable_text else Text t)))"

definition redact_json_response :: "url_text \<Rightarrow> (string \<Rightarrow> json option) \<Rightarrow> http_response \<Rightarrow> http_response" where
  "redact_json_response T parse_json r =
     (if \<not> js_includes ''json'' (js_lower (header_value ''content-type'' r)) then r
      else (case read_bounded_text r max_redacted_json_response_bytes of
              Unreadable_text \<Rightarrow> safe_redaction_failure_response ''Response body could not be read safely'' r
            | TooLong \<Rightarrow> safe_redaction_failure_response ''Response exceeded the safe redaction byte limit'' r
            | Text body \<Rightarrow>
                if body = [] then rebuild_response None r
                else (case parse_json body of
                        None \<Rightarrow> safe_redaction_failure_response ''Response was not valid JSON'' r
                      | Some v \<Rightarrow> rebuild_response (Some (json_stringify (redact_sensitive_data T v))) r)))"

end
