(* ===== verification/Api_Resources.thy ===== *)
theory Api_Resources
  imports Api_Execution Redaction
begin

text \<open>
  The saved resources of the API, in \<open>apps/api/src/index.ts\<close>: properties, route sets and checks with their
  baselines, and the schemas of their payloads in \<open>packages/contracts/src/public-api.ts\<close>. An input record is what
  \<open>safeParse\<close> gives on success, defaults filled in. A handler that updates takes the entity it read before it waited
  for the body as an argument.
\<close>

section \<open>Inputs\<close>

record create_property =
  cp_name :: string
  cp_baseUrl :: string

definition create_property_schema :: "(string \<Rightarrow> bool) \<Rightarrow> create_property \<Rightarrow> bool" where
  "create_property_schema is_url i = (len_between 1 120 (cp_name i) \<and> is_url (cp_baseUrl i))"

record create_route =
  crr_label :: string
  crr_url :: string

definition create_route_schema :: "(string \<Rightarrow> bool) \<Rightarrow> create_route \<Rightarrow> bool" where
  "create_route_schema is_url r = (len_between 1 120 (crr_label r) \<and> is_url (crr_url r))"

record create_route_set =
  crs_propertyId :: ident
  crs_name :: string
  crs_routes :: "create_route list"

definition create_route_set_schema :: "(string \<Rightarrow> bool) \<Rightarrow> create_route_set \<Rightarrow> bool" where
  "create_route_set_schema is_url i =
     (crs_propertyId i \<noteq> [] \<and> len_between 1 120 (crs_name i)
      \<and> 1 \<le> length (crs_routes i) \<and> length (crs_routes i) \<le> 20
      \<and> list_all (create_route_schema is_url) (crs_routes i))"

record create_webhook_target =
  cwt_name :: string
  cwt_url :: string
  cwt_enabled :: "bool option"
  cwt_secret :: "string option"

definition configured_webhook_secret_ok :: "string \<Rightarrow> bool" where
  "configured_webhook_secret_ok s = (len_between 16 200 s \<or> s = redacted_value)"

definition create_webhook_target_schema :: "(string \<Rightarrow> bool) \<Rightarrow> create_webhook_target \<Rightarrow> bool" where
  "create_webhook_target_schema is_url t =
     (len_between 1 120 (cwt_name t) \<and> is_url (cwt_url t) \<and> opt_ok configured_webhook_secret_ok (cwt_secret t))"

text \<open>The triggers as they are sent. \<open>alertTriggerSchema.partial()\<close> makes each field optional but keeps its default,
  and zod fills the default of an absent optional field in.\<close>

record trigger_input =
  ti_onFailure :: "bool option"
  ti_onLatencyThresholdBreach :: "bool option"
  ti_onRegression :: "bool option"

definition given :: "'a option \<Rightarrow> 'a \<Rightarrow> 'a" where
  "given v d = (case v of Some x \<Rightarrow> x | None \<Rightarrow> d)"

definition parse_triggers :: "trigger_input \<Rightarrow> alert_trigger" where
  "parse_triggers t =
     \<lparr> onFailure = given (ti_onFailure t) True,
       onLatencyThresholdBreach = given (ti_onLatencyThresholdBreach t) False,
       onRegression = given (ti_onRegression t) False \<rparr>"

record create_alerts =
  cal_enabled :: "bool option"
  cal_webhookTargets :: "create_webhook_target list option"
  cal_triggers :: "trigger_input option"

definition create_alerts_schema :: "(string \<Rightarrow> bool) \<Rightarrow> create_alerts \<Rightarrow> bool" where
  "create_alerts_schema is_url a =
     opt_ok (\<lambda>ts. length ts \<le> 5 \<and> list_all (create_webhook_target_schema is_url) ts) (cal_webhookTargets a)"

record create_check =
  cck_propertyId :: ident
  cck_routeSetId :: ident
  cck_name :: string
  cck_note :: "string option"
  cck_request :: "request_config option"
  cck_monitorPolicy :: "monitor_policy option"
  cck_alerts :: "create_alerts option"
  cck_browserAuditPolicy :: "audit_policy option"
  cck_scheduleIntervalMinutes :: "int option"
  cck_acknowledgeLocationMigration :: "bool option"

definition update_check_schema :: "(string \<Rightarrow> bool) \<Rightarrow> create_check \<Rightarrow> bool" where
  "update_check_schema is_url i =
     (cck_propertyId i \<noteq> [] \<and> cck_routeSetId i \<noteq> [] \<and> len_between 1 120 (cck_name i)
      \<and> opt_ok (\<lambda>n. length n \<le> 200) (cck_note i) \<and> opt_ok request_schema (cck_request i)
      \<and> opt_ok monitor_policy_schema (cck_monitorPolicy i) \<and> opt_ok (create_alerts_schema is_url) (cck_alerts i)
      \<and> opt_ok (audit_policy_ok is_url) (cck_browserAuditPolicy i)
      \<and> opt_ok (\<lambda>n. 5 \<le> n) (cck_scheduleIntervalMinutes i))"

text \<open>The schema of a creation is strict: it refuses the acknowledgement.\<close>

definition create_check_schema :: "(string \<Rightarrow> bool) \<Rightarrow> create_check \<Rightarrow> bool" where
  "create_check_schema is_url i = (update_check_schema is_url i \<and> cck_acknowledgeLocationMigration i = None)"

section \<open>Texts and identifiers\<close>

definition require_trimmed_text :: "string \<Rightarrow> string \<Rightarrow> string handler" where
  "require_trimmed_text v label =
     (let trimmed = js_trim v in
      if trimmed = [] then fail (PlainExn (label @ '' is required.'')) else ret trimmed)"

definition normalize_optional_text :: "string option \<Rightarrow> string option" where
  "normalize_optional_text v =
     (case v of None \<Rightarrow> None | Some s \<Rightarrow> if js_trim s = [] then None else Some (js_trim s))"

definition validated_text :: "api_host \<Rightarrow> string \<Rightarrow> string handler" where
  "validated_text A v =
     (case validate_measurement_url (ap_parseUrl A) v of Inl e \<Rightarrow> fail (UrlExn e) | Inr u \<Rightarrow> ret (ap_href A u))"

definition id_or_new :: "api_host \<Rightarrow> string \<Rightarrow> ident option \<Rightarrow> ident handler" where
  "id_or_new A prefix i =
     (case i of Some x \<Rightarrow> ret x | None \<Rightarrow> and_then (random_uuid A) (\<lambda>u. ret (prefix @ u)))"

text \<open>The answer of the \<open>catch\<close> of the three handlers that save.\<close>

definition save_error :: "exn \<Rightarrow> response" where
  "save_error e = (case e of DuplicateExn m \<Rightarrow> (409, ErrorPayload m) | _ \<Rightarrow> (400, ErrorPayload (exn_message e)))"

definition saved_status :: "'a option \<Rightarrow> int" where
  "saved_status existing = (if existing = None then 201 else 200)"

definition not_found :: "string \<Rightarrow> response" where
  "not_found m = (404, ErrorPayload m)"

section \<open>Properties\<close>

definition property_duplicate :: "ident option \<Rightarrow> string \<Rightarrow> string \<Rightarrow> property \<Rightarrow> bool" where
  "property_duplicate i name baseUrl p =
     (Some (prop_id p) \<noteq> i \<and> (js_lower (prop_name p) = js_lower name \<or> prop_baseUrl p = baseUrl))"

definition ensure_unique_property :: "api_host \<Rightarrow> ident option \<Rightarrow> string \<Rightarrow> string \<Rightarrow> unit handler" where
  "ensure_unique_property A i name baseUrl =
     and_then (query (list_properties (ap_env A))) (\<lambda>ps.
       if list_ex (property_duplicate i name baseUrl) ps
       then fail (DuplicateExn ''Property names and base URLs must be unique.'') else ret ())"

definition handle_upsert_property :: "api_host \<Rightarrow> property option \<Rightarrow> create_property body \<Rightarrow> response handler" where
  "handle_upsert_property A existing body =
     with_body ''Invalid property payload'' (create_property_schema (e_isUrl (ap_env A))) body (\<lambda>i.
       catch
         (and_then (clock A) (\<lambda>now.
          and_then (require_trimmed_text (cp_name i) ''Property name'') (\<lambda>name.
          and_then (validated_text A (js_trim (cp_baseUrl i))) (\<lambda>baseUrl.
          and_then (ensure_unique_property A (map_option prop_id existing) name baseUrl) (\<lambda>_.
          and_then (id_or_new A ''property_'' (map_option prop_id existing)) (\<lambda>pid.
            let p = \<lparr> prop_id = pid, prop_name = name, prop_baseUrl = baseUrl,
                      prop_createdAt = given (map_option prop_createdAt existing) now, prop_updatedAt = now \<rparr> in
            and_then (statement (save_property p)) (\<lambda>_. ret (saved_status existing, PropertyPayload p))))))))
         (\<lambda>e. ret (save_error e)))"

definition handle_update_property :: "api_host \<Rightarrow> ident \<Rightarrow> create_property body \<Rightarrow> response handler" where
  "handle_update_property A i body =
     and_then (query (get_property (ap_env A) i)) (\<lambda>p.
       case p of None \<Rightarrow> ret (not_found ''Property not found'') | Some x \<Rightarrow> handle_upsert_property A (Some x) body)"

definition handle_delete_property :: "api_host \<Rightarrow> ident \<Rightarrow> response handler" where
  "handle_delete_property A i =
     and_then (query (get_property (ap_env A) i)) (\<lambda>p.
       case p of
         None \<Rightarrow> ret (not_found ''Property not found'')
       | Some x \<Rightarrow>
           and_then (query (\<lambda>d. length (filter (\<lambda>s. rs_propertyId s = prop_id x) (list_route_sets (ap_env A) d)))) (\<lambda>n.
           and_then (query (\<lambda>d. length (filter (\<lambda>c. cpf_propertyId c = prop_id x) (list_check_profiles (ap_env A) d)))) (\<lambda>m.
             if n > 0 \<or> m > 0
             then ret (409, DependencyPayload
                    ''Delete route sets and check profiles that depend on this property first.'' (Some n) m)
             else
               and_then (statement (\<lambda>d. fst (delete_property (prop_id x) d))) (\<lambda>_.
                 ret (200, DeletedPayload True None)))))"

section \<open>Route sets\<close>

text \<open>\<open>sanitizeRouteInputs\<close>, from the route of index \<open>n\<close> on, with the labels and URLs seen before it.\<close>

fun sanitize_route_inputs ::
  "api_host \<Rightarrow> nat \<Rightarrow> string list \<Rightarrow> string list \<Rightarrow> create_route list \<Rightarrow> (string \<times> string) list handler" where
  "sanitize_route_inputs A n seenLabels seenUrls [] = ret []"
| "sanitize_route_inputs A n seenLabels seenUrls (r # rs) =
     and_then (require_trimmed_text (crr_label r) (''Route label '' @ show_nat (Suc n))) (\<lambda>label.
     and_then (validated_text A (js_trim (crr_url r))) (\<lambda>url.
       if js_lower label \<in> set seenLabels
       then fail (DuplicateExn (''Route label '' @ [CHR 0x22] @ label @ [CHR 0x22] @ '' appears more than once.''))
       else if url \<in> set seenUrls
       then fail (DuplicateExn (''Route URL '' @ [CHR 0x22] @ url @ [CHR 0x22] @ '' appears more than once.''))
       else
         and_then (sanitize_route_inputs A (Suc n) (js_lower label # seenLabels) (url # seenUrls) rs) (\<lambda>ys.
           ret ((label, url) # ys))))"

definition merge_route_entries ::
  "api_host \<Rightarrow> (string \<times> string) list \<Rightarrow> route_set_route list \<Rightarrow> route_set_route list handler" where
  "merge_route_entries A routes existingRoutes =
     map_prog (\<lambda>(label, url).
       and_then (id_or_new A ''route_''
                   (map_option rsr_id (find (\<lambda>c. rsr_label c = label \<and> rsr_url c = url) existingRoutes))) (\<lambda>i.
         ret \<lparr> rsr_id = i, rsr_label = label, rsr_url = url \<rparr>)) routes"

definition route_set_duplicate :: "ident option \<Rightarrow> ident \<Rightarrow> string \<Rightarrow> route_set \<Rightarrow> bool" where
  "route_set_duplicate i propertyId name s =
     (Some (rs_id s) \<noteq> i \<and> rs_propertyId s = propertyId \<and> js_lower (rs_name s) = js_lower name)"

definition ensure_unique_route_set :: "api_host \<Rightarrow> ident option \<Rightarrow> ident \<Rightarrow> string \<Rightarrow> unit handler" where
  "ensure_unique_route_set A i propertyId name =
     and_then (query (list_route_sets (ap_env A))) (\<lambda>ss.
       if list_ex (route_set_duplicate i propertyId name) ss
       then fail (DuplicateExn ''Route set names must be unique inside a property.'') else ret ())"

definition profiles_of_route_set :: "env \<Rightarrow> ident \<Rightarrow> db \<Rightarrow> check_profile list" where
  "profiles_of_route_set env i d = filter (\<lambda>c. cpf_routeSetId c = i) (list_check_profiles env d)"

definition save_route_set_input ::
  "api_host \<Rightarrow> route_set option \<Rightarrow> create_route_set \<Rightarrow> property \<Rightarrow> response handler" where
  "save_route_set_input A existing i prop =
     catch
       (and_then (clock A) (\<lambda>now.
        and_then (require_trimmed_text (crs_name i) ''Route set name'') (\<lambda>name.
        and_then (sanitize_route_inputs A 0 [] [] (crs_routes i)) (\<lambda>routes.
        and_then (ensure_unique_route_set A (map_option rs_id existing) (prop_id prop) name) (\<lambda>_.
        and_then (id_or_new A ''routeset_'' (map_option rs_id existing)) (\<lambda>sid.
        and_then (merge_route_entries A routes (given (map_option rs_routes existing) [])) (\<lambda>entries.
          let s = \<lparr> rs_id = sid, rs_propertyId = prop_id prop, rs_name = name, rs_routes = entries,
                    rs_createdAt = given (map_option rs_createdAt existing) now, rs_updatedAt = now \<rparr> in
          and_then (statement (save_route_set s)) (\<lambda>_. ret (saved_status existing, RouteSetPayload s)))))))))
       (\<lambda>e. ret (save_error e))"

definition handle_upsert_route_set :: "api_host \<Rightarrow> route_set option \<Rightarrow> create_route_set body \<Rightarrow> response handler" where
  "handle_upsert_route_set A existing body =
     with_body ''Invalid route set payload'' (create_route_set_schema (e_isUrl (ap_env A))) body (\<lambda>i.
       and_then (query (get_property (ap_env A) (crs_propertyId i))) (\<lambda>prop.
         case prop of
           None \<Rightarrow> ret (not_found ''Property not found'')
         | Some p \<Rightarrow>
             and_then (query (\<lambda>d. case existing of
                                None \<Rightarrow> [] | Some s \<Rightarrow> profiles_of_route_set (ap_env A) (rs_id s) d)) (\<lambda>dependents.
               if (case existing of None \<Rightarrow> False | Some s \<Rightarrow> rs_propertyId s \<noteq> prop_id p) \<and> dependents \<noteq> []
               then ret (409, ErrorPayload
                      ''Route sets that are already used by check profiles cannot move to another property.'')
               else save_route_set_input A existing i p)))"

definition handle_update_route_set :: "api_host \<Rightarrow> ident \<Rightarrow> create_route_set body \<Rightarrow> response handler" where
  "handle_update_route_set A i body =
     and_then (query (get_route_set (ap_env A) i)) (\<lambda>s.
       case s of None \<Rightarrow> ret (not_found ''Route set not found'') | Some x \<Rightarrow> handle_upsert_route_set A (Some x) body)"

definition handle_delete_route_set :: "api_host \<Rightarrow> ident \<Rightarrow> response handler" where
  "handle_delete_route_set A i =
     and_then (query (get_route_set (ap_env A) i)) (\<lambda>s.
       case s of
         None \<Rightarrow> ret (not_found ''Route set not found'')
       | Some x \<Rightarrow>
           and_then (query (\<lambda>d. length (profiles_of_route_set (ap_env A) (rs_id x) d))) (\<lambda>m.
             if m > 0
             then ret (409, DependencyPayload
                    ''Delete or reassign check profiles that use this route set first.'' None m)
             else
               and_then (statement (\<lambda>d. fst (delete_route_set (rs_id x) d))) (\<lambda>_.
                 ret (200, DeletedPayload True None))))"

section \<open>The parts of a check\<close>

definition resolve_masked_header_value ::
  "string \<Rightarrow> string \<Rightarrow> request_config option \<Rightarrow> string handler" where
  "resolve_masked_header_value name v existing =
     (if v \<noteq> redacted_value \<or> \<not> is_sensitive_header_name name then ret v
      else (case find (\<lambda>h. js_lower (js_trim (rh_name h)) = js_lower (js_trim name))
                   (given (map_option rc_headers existing) []) of
              None \<Rightarrow> fail (PlainExn (''A new sensitive header cannot use '' @ redacted_value @ '' as its value''))
            | Some h \<Rightarrow> ret (rh_value h)))"

definition normalize_custom_request_config ::
  "request_config option \<Rightarrow> request_config option \<Rightarrow> request_config handler" where
  "normalize_custom_request_config request existing =
     and_then (map_prog (\<lambda>h.
       and_then (require_trimmed_text (rh_name h) ''Header name'') (\<lambda>name.
       and_then (resolve_masked_header_value (rh_name h) (js_trim (rh_value h)) existing) (\<lambda>v.
         ret \<lparr> rh_name = name, rh_value = v \<rparr>))) (given (map_option rc_headers request) [])) (\<lambda>headers.
       ret \<lparr> rc_method = given (map_option rc_method request) GET, rc_headers = headers,
             rc_body = (case request of
                          None \<Rightarrow> None
                        | Some r \<Rightarrow> map_option (\<lambda>b. b\<lparr>rb_contentType := normalize_optional_text (rb_contentType b)\<rparr>)
                                     (rc_body r)) \<rparr>)"

definition normalize_monitor_policy :: "monitor_policy option \<Rightarrow> monitor_policy" where
  "normalize_monitor_policy p = given p default_monitor_policy"

definition resolve_masked_webhook_secret :: "string option \<Rightarrow> string option \<Rightarrow> string option handler" where
  "resolve_masked_webhook_secret v previous =
     (if v \<noteq> Some redacted_value then ret (normalize_optional_text v)
      else if \<not> truthy previous
      then fail (PlainExn (''A new webhook secret cannot use '' @ redacted_value @ '' as its value''))
      else ret previous)"

definition normalize_webhook_target ::
  "api_host \<Rightarrow> webhook_target option \<Rightarrow> create_webhook_target \<Rightarrow> webhook_target handler" where
  "normalize_webhook_target A previous t =
     and_then (id_or_new A ''webhook_'' (map_option wt_id previous)) (\<lambda>i.
     and_then (require_trimmed_text (cwt_name t) ''Webhook target name'') (\<lambda>name.
     and_then (resolve_masked_webhook_secret (cwt_secret t) (Option.bind previous wt_secret)) (\<lambda>secret.
       ret \<lparr> wt_id = i, wt_name = name, wt_url = js_trim (cwt_url t), wt_enabled = given (cwt_enabled t) True,
             wt_secret = secret \<rparr>)))"

text \<open>A target keeps the identifier and the masked secret of the one at its position.\<close>

definition merge_webhook_targets ::
  "api_host \<Rightarrow> create_webhook_target list \<Rightarrow> webhook_target list \<Rightarrow> webhook_target list handler" where
  "merge_webhook_targets A ts previous =
     map_prog (\<lambda>(t, k). normalize_webhook_target A (if k < length previous then Some (previous ! k) else None) t)
       (zip ts [0..<length ts])"

definition normalize_alert_config ::
  "api_host \<Rightarrow> create_alerts option \<Rightarrow> alert_config option \<Rightarrow> alert_config handler" where
  "normalize_alert_config A alerts existing =
     and_then (case Option.bind alerts cal_webhookTargets of
                 Some ts \<Rightarrow> merge_webhook_targets A ts (given (map_option al_webhookTargets existing) [])
               | None \<Rightarrow> ret (given (map_option al_webhookTargets existing) [])) (\<lambda>targets.
       ret \<lparr> al_enabled = given (Option.bind alerts cal_enabled) (given (map_option al_enabled existing) False),
             al_webhookTargets = targets,
             al_triggers = given (map_option parse_triggers (Option.bind alerts cal_triggers))
               (given (map_option al_triggers existing)
                 \<lparr> onFailure = True, onLatencyThresholdBreach = False, onRegression = False \<rparr>) \<rparr>)"

text \<open>\<open>computeNextRunAt\<close>; \<open>toISOString\<close> throws beyond the range of \<open>Date\<close>.\<close>

definition compute_next_run_at :: "iso \<Rightarrow> int \<Rightarrow> iso handler" where
  "compute_next_run_at from m =
     (if from + m * 60000 > 8640000000000000 then fail (PlainExn ''Invalid time value'') else ret (from + m * 60000))"

definition build_profile_schedule ::
  "check_profile option \<Rightarrow> int option \<Rightarrow> iso \<Rightarrow> check_schedule option handler" where
  "build_profile_schedule existing interval now =
     (case interval of
        None \<Rightarrow> ret None
      | Some m \<Rightarrow>
          (let old = Option.bind existing cpf_schedule in
           if (case old of None \<Rightarrow> False | Some s \<Rightarrow> sch_intervalMinutes s = m) then ret old
           else
             and_then (compute_next_run_at now m) (\<lambda>due.
               ret (Some \<lparr> sch_intervalMinutes = m, sch_nextRunAt = Some due,
                           sch_lastRunAt = Option.bind old sch_lastRunAt,
                           sch_lastRunJobCount = Option.bind old sch_lastRunJobCount \<rparr>))))"

definition resolve_updated_profile_baseline ::
  "api_host \<Rightarrow> check_profile option \<Rightarrow> ident \<Rightarrow> check_baseline option handler" where
  "resolve_updated_profile_baseline A existing nextRouteSetId =
     (case existing of
        None \<Rightarrow> ret None
      | Some p \<Rightarrow>
          (case cpf_baseline p of
             None \<Rightarrow> ret None
           | Some b \<Rightarrow>
               if cpf_routeSetId p \<noteq> nextRouteSetId then ret None
               else
                 and_then (query (resolve_baseline_run (ap_env A) p)) (\<lambda>r.
                   ret (if map_option run_id r = Some (bl_runId b) then Some b else None))))"

definition accepted_migration :: "check_profile option \<Rightarrow> iso \<Rightarrow> location_migration option" where
  "accepted_migration existing now =
     (case Option.bind existing cpf_locationMigration of
        None \<Rightarrow> None
      | Some m \<Rightarrow>
          Some (if lm_status m = MigRequiresReview
                then m\<lparr>lm_status := MigAccepted, lm_acknowledgedAt := Some now\<rparr> else m))"

section \<open>Checks\<close>

definition check_duplicate :: "ident option \<Rightarrow> ident \<Rightarrow> string \<Rightarrow> check_profile \<Rightarrow> bool" where
  "check_duplicate i propertyId name c =
     (Some (cpf_id c) \<noteq> i \<and> cpf_propertyId c = propertyId \<and> js_lower (cpf_name c) = js_lower name)"

definition ensure_unique_check_profile :: "api_host \<Rightarrow> ident option \<Rightarrow> ident \<Rightarrow> string \<Rightarrow> unit handler" where
  "ensure_unique_check_profile A i propertyId name =
     and_then (query (list_check_profiles (ap_env A))) (\<lambda>cs.
       if list_ex (check_duplicate i propertyId name) cs
       then fail (DuplicateExn ''Check profile names must be unique inside a property.'') else ret ())"

definition save_check_input ::
  "api_host \<Rightarrow> check_profile option \<Rightarrow> create_check \<Rightarrow> property \<Rightarrow> route_set \<Rightarrow> response handler" where
  "save_check_input A existing i prop routeSet =
     catch
       (and_then (clock A) (\<lambda>now.
        and_then (require_trimmed_text (cck_name i) ''Check profile name'') (\<lambda>name.
        and_then (normalize_custom_request_config (cck_request i) (Option.bind existing cpf_request)) (\<lambda>request.
        and_then (normalize_alert_config A (cck_alerts i) (Option.bind existing cpf_alerts)) (\<lambda>alerts.
        and_then (ensure_unique_check_profile A (map_option cpf_id existing) (prop_id prop) name) (\<lambda>_.
        and_then (id_or_new A ''profile_'' (map_option cpf_id existing)) (\<lambda>cid.
        and_then (build_profile_schedule existing (cck_scheduleIntervalMinutes i) now) (\<lambda>schedule.
        and_then (resolve_updated_profile_baseline A existing (rs_id routeSet)) (\<lambda>baseline.
          let c = \<lparr> cpf_id = cid, cpf_propertyId = prop_id prop, cpf_routeSetId = rs_id routeSet, cpf_name = name,
                    cpf_note = normalize_optional_text (cck_note i), cpf_request = Some request,
                    cpf_monitorPolicy = Some (normalize_monitor_policy (cck_monitorPolicy i)), cpf_alerts = Some alerts,
                    cpf_browserAuditPolicy = Option.bind existing cpf_browserAuditPolicy,
                    cpf_schedule = schedule, cpf_baseline = baseline,
                    cpf_locationMigration = accepted_migration existing now,
                    cpf_createdAt = given (map_option cpf_createdAt existing) now, cpf_updatedAt = now \<rparr> in
          and_then (statement (save_check_profile c)) (\<lambda>_. ret (saved_status existing, ProfilePayload c)))))))))))
       (\<lambda>e. ret (save_error e))"

definition location_checked ::
  "api_host \<Rightarrow> check_profile option \<Rightarrow> create_check \<Rightarrow> response handler \<Rightarrow> response handler" where
  "location_checked A existing i k =
     (case existing of
        None \<Rightarrow> k
      | Some c \<Rightarrow>
          and_then (reconcile_check_profile_runtime_location A c) (\<lambda>(_, changed).
            if changed
            then ret (409, CodedPayload ''runtime_location_changed''
                   ''The self-host runtime location changed after this saved check was migrated. Reload the check, review the current runtime location, and acknowledge it again.'')
            else if requires_review c \<and> cck_acknowledgeLocationMigration i \<noteq> Some True
            then ret (409, ErrorPayload
                   ''This saved check was migrated from a legacy Region Set. Review its runtime location and acknowledge the migration before enabling or running it.'')
            else k))"

definition handle_upsert_check_profile ::
  "api_host \<Rightarrow> check_profile option \<Rightarrow> create_check body \<Rightarrow> response handler" where
  "handle_upsert_check_profile A existing body =
     with_body ''Invalid check profile payload''
       ((if existing = None then create_check_schema else update_check_schema) (e_isUrl (ap_env A))) body (\<lambda>i.
       location_checked A existing i
         (and_then (query (get_property (ap_env A) (cck_propertyId i))) (\<lambda>prop.
            case prop of
              None \<Rightarrow> ret (not_found ''Property not found'')
            | Some p \<Rightarrow>
                and_then (query (get_route_set (ap_env A) (cck_routeSetId i))) (\<lambda>routeSet.
                  case routeSet of
                    None \<Rightarrow> ret (not_found ''Route set not found for property'')
                  | Some s \<Rightarrow>
                      if rs_propertyId s \<noteq> prop_id p then ret (not_found ''Route set not found for property'')
                      else save_check_input A existing i p s))))"

definition handle_update_check_profile :: "api_host \<Rightarrow> ident \<Rightarrow> create_check body \<Rightarrow> response handler" where
  "handle_update_check_profile A i body =
     and_then (query (get_check_profile (ap_env A) i)) (\<lambda>c.
       case c of
         None \<Rightarrow> ret (not_found ''Check profile not found'')
       | Some x \<Rightarrow> handle_upsert_check_profile A (Some x) body)"

definition handle_delete_check_profile :: "api_host \<Rightarrow> ident \<Rightarrow> response handler" where
  "handle_delete_check_profile A i =
     and_then (query (get_check_profile (ap_env A) i)) (\<lambda>c.
       case c of
         None \<Rightarrow> ret (not_found ''Check profile not found'')
       | Some x \<Rightarrow>
           and_then (transact (\<lambda>d. Inr (delete_check_profile (cpf_id x) d))) (\<lambda>(deleted, n).
             ret (200, DeletedPayload deleted (Some n))))"

section \<open>Baselines\<close>

definition handle_get_check_profile_baseline :: "api_host \<Rightarrow> ident \<Rightarrow> response handler" where
  "handle_get_check_profile_baseline A i =
     and_then (query (get_check_profile (ap_env A) i)) (\<lambda>c.
       case c of
         None \<Rightarrow> ret (not_found ''Check profile not found'')
       | Some x \<Rightarrow>
           and_then (query (\<lambda>d. case cpf_baseline x of
                              None \<Rightarrow> None | Some b \<Rightarrow> get_check_profile_run (ap_env A) (bl_runId b) d)) (\<lambda>r.
             ret (200, BaselinePayload (if r = None then x\<lparr>cpf_baseline := None\<rparr> else x)
                    (case r of None \<Rightarrow> None | Some run \<Rightarrow> if run_profileId run = cpf_id x then r else None))))"

definition handle_set_check_profile_baseline :: "api_host \<Rightarrow> ident \<Rightarrow> ident body \<Rightarrow> response handler" where
  "handle_set_check_profile_baseline A i body =
     and_then (query (get_check_profile (ap_env A) i)) (\<lambda>c.
       case c of
         None \<Rightarrow> ret (not_found ''Check profile not found'')
       | Some x \<Rightarrow>
           with_body ''Invalid baseline payload'' (\<lambda>runId. runId \<noteq> []) body (\<lambda>runId.
             and_then (query (get_check_profile_run (ap_env A) runId)) (\<lambda>r.
               case r of
                 None \<Rightarrow> ret (not_found ''Baseline run not found for this profile'')
               | Some run \<Rightarrow>
                   if run_profileId run \<noteq> cpf_id x then ret (not_found ''Baseline run not found for this profile'')
                   else
                     and_then (clock A) (\<lambda>pinnedAt.
                     and_then (clock A) (\<lambda>updatedAt.
                       let c' = x\<lparr>cpf_baseline := Some \<lparr> bl_runId = run_id run, bl_pinnedAt = pinnedAt \<rparr>,
                                  cpf_updatedAt := updatedAt\<rparr> in
                       and_then (statement (save_check_profile c')) (\<lambda>_. ret (200, BaselinePayload c' (Some run))))))))"

definition handle_clear_check_profile_baseline :: "api_host \<Rightarrow> ident \<Rightarrow> response handler" where
  "handle_clear_check_profile_baseline A i =
     and_then (query (get_check_profile (ap_env A) i)) (\<lambda>c.
       case c of
         None \<Rightarrow> ret (not_found ''Check profile not found'')
       | Some x \<Rightarrow>
           and_then (clock A) (\<lambda>now.
             let c' = x\<lparr>cpf_baseline := None, cpf_updatedAt := now\<rparr> in
             and_then (statement (save_check_profile c')) (\<lambda>_. ret (200, BaselinePayload c' None))))"

end
