(* ===== verification/Api_Runs.thy ===== *)
theory Api_Runs
  imports Api_Resources
begin

text \<open>
  What the API puts on the queue, in \<open>apps/api/src/index.ts\<close>: single jobs, runs of a check, the checks a dispatch
  finds due, and browser audits. Each creates its resource and its execution job in one transaction of the
  repository.
\<close>

section \<open>Jobs\<close>

record create_job =
  cj_url :: string
  cj_note :: "string option"
  cj_request :: "request_config option"
  cj_monitorPolicy :: "monitor_policy option"

definition create_job_schema :: "(string \<Rightarrow> bool) \<Rightarrow> create_job \<Rightarrow> bool" where
  "create_job_schema is_url i =
     (is_url (cj_url i) \<and> opt_ok (\<lambda>n. length n \<le> 200) (cj_note i) \<and> opt_ok request_schema (cj_request i)
      \<and> opt_ok monitor_policy_schema (cj_monitorPolicy i))"

definition new_target :: "api_host \<Rightarrow> ident \<Rightarrow> iso \<Rightarrow> job_target" where
  "new_target A jobId now =
     \<lparr> tgt_jobId = jobId, tgt_region = ap_regionId A, tgt_status = TQueued, tgt_attemptNo = 0,
       tgt_maxAttempts = ap_maxTargetAttempts A, tgt_latencyMs = None, tgt_statusCode = None, tgt_success = None,
       tgt_probeImpl = None, tgt_measurement = None,
       tgt_execution = Some \<lparr> xm_runnerType = RunnerNetworkProbe, xm_provider = ''selfhost'',
         xm_locationMode = LocationFixed, xm_region = Some (ap_regionId A), xm_city = None,
         xm_runnerVersion = Some ''probe-rs'' \<rparr>,
       tgt_slotId = None, tgt_errorCode = None, tgt_errorClass = None, tgt_errorMessage = None,
       tgt_startedAt = None, tgt_finishedAt = None, tgt_updatedAt = now \<rparr>"

definition new_job ::
  "api_host \<Rightarrow> ident \<Rightarrow> iso \<Rightarrow> string \<Rightarrow> string option \<Rightarrow> request_config \<Rightarrow> monitor_policy \<Rightarrow> string option \<Rightarrow> latency_job" where
  "new_job A jobId now url note request policy requesterIp =
     (let targets = [new_target A jobId now] in
      \<lparr> job_id = jobId, job_url = url, job_status = JQueued, job_note = note, job_request = Some request,
        job_monitorPolicy = Some policy, job_requestedAt = now, job_startedAt = None, job_completedAt = None,
        job_requesterIp = requesterIp, job_region = ap_regionId A, job_historicalRegions = None,
        job_targets = targets, job_evaluation = None, job_summary = summarize_targets targets \<rparr>)"

text \<open>\<open>createJobRecord\<close> as it is called: with a fresh identifier and the attempts of the deployment.\<close>

definition create_job_record ::
  "api_host \<Rightarrow> string \<Rightarrow> string option \<Rightarrow> request_config option \<Rightarrow> monitor_policy option \<Rightarrow> string option
   \<Rightarrow> latency_job handler" where
  "create_job_record A url note request policy requesterIp =
     (case validate_measurement_url (ap_parseUrl A) url of
        Inl e \<Rightarrow> fail (UrlExn e)
      | Inr _ \<Rightarrow>
          and_then (clock A) (\<lambda>now.
          and_then (id_or_new A ''job_'' None) (\<lambda>jobId.
          and_then (normalize_custom_request_config request None) (\<lambda>r.
            ret (new_job A jobId now url note r (normalize_monitor_policy policy) requesterIp)))))"

section \<open>Executions of jobs\<close>

definition network_payload_json :: "network_payload \<Rightarrow> json" where
  "network_payload_json p =
     JObj [(''version'', JStr ''v1''), (''jobIds'', JArr (map JStr (np_jobIds p))),
           (''checkId'', json_opt (np_checkId p)), (''runId'', json_opt (np_runId p))]"

definition network_payload_schema :: "network_payload \<Rightarrow> bool" where
  "network_payload_schema p =
     (list_all (len_between 1 160) (np_jobIds p) \<and> 1 \<le> length (np_jobIds p)
      \<and> length (np_jobIds p) \<le> network_probe_max_jobs
      \<and> opt_ok (len_between 1 160) (np_checkId p) \<and> opt_ok (len_between 1 160) (np_runId p)
      \<and> (np_checkId p = None \<longleftrightarrow> np_runId p = None))"

definition build_network_execution_resource_input ::
  "latency_job list \<Rightarrow> profile_run option \<Rightarrow> ident option \<Rightarrow> (enqueue_job \<times> exec_result) throws" where
  "build_network_execution_resource_input jobs run checkId =
     (case jobs of
        [] \<Rightarrow> throw ''Network execution requires at least one job''
      | firstJob # _ \<Rightarrow>
          (let resourceId = given (map_option run_id run) (job_id firstJob);
               attemptCounts = concat (map (\<lambda>j. map tgt_maxAttempts (job_targets j)) jobs);
               payload = \<lparr> np_jobIds = map job_id jobs, np_checkId = checkId, np_runId = map_option run_id run \<rparr> in
           if attemptCounts = [] then throw ''Network execution requires at least one target''
           else if \<not> network_payload_schema payload then throw ''ZodError''
           else return
             (\<lparr> eq_id = ''exec_'' @ resourceId, eq_kind = NetworkProbe, eq_resourceId = resourceId,
                eq_maxAttempts = Max (set attemptCounts), eq_availableAt = None,
                eq_payload = network_payload_json payload \<rparr>,
              NetworkResult jobs run)))"

definition create_network_execution_resource ::
  "api_host \<Rightarrow> latency_job list \<Rightarrow> profile_run option \<Rightarrow> ident option \<Rightarrow> exec_job handler" where
  "create_network_execution_resource A jobs run checkId =
     and_then (lift_throws (build_network_execution_resource_input jobs run checkId)) (\<lambda>(job, result).
     and_then (clock A) (\<lambda>today.
     and_then (statement (\<lambda>d. fst (prune_jobs_older_than (ap_retentionDays A) today d))) (\<lambda>_.
     and_then (clock A) (\<lambda>now.
       transact (create_execution_resource (ap_env A) job result now)))))"

definition failed_creation :: "api_host \<Rightarrow> string \<Rightarrow> response handler" where
  "failed_creation A m = and_then (random_uuid A) (\<lambda>incidentId. ret (500, IncidentPayload m incidentId))"

text \<open>\<open>try k catch answer\<close>, where the answer leaves the handler: the rest runs only on success.\<close>

definition try_then ::
  "'a handler \<Rightarrow> (exn \<Rightarrow> response handler) \<Rightarrow> ('a \<Rightarrow> response handler) \<Rightarrow> response handler" where
  "try_then p answer k =
     and_then (catch (and_then p (\<lambda>x. ret (Inr x))) (\<lambda>e. and_then (answer e) (\<lambda>r. ret (Inl r)))) (\<lambda>s.
       case s of Inl r \<Rightarrow> ret r | Inr x \<Rightarrow> k x)"

definition handle_create_job :: "api_host \<Rightarrow> string option \<Rightarrow> create_job body \<Rightarrow> response handler" where
  "handle_create_job A requesterIp body =
     with_body ''Invalid create job payload'' (create_job_schema (e_isUrl (ap_env A))) body (\<lambda>i.
       try_then
         (and_then (normalize_custom_request_config (cj_request i) None) (\<lambda>request.
            create_job_record A (cj_url i) (cj_note i) (Some request)
              (Some (normalize_monitor_policy (cj_monitorPolicy i))) requesterIp))
         (\<lambda>e. ret (400, ErrorPayload (exn_message e)))
         (\<lambda>job.
            try_then (create_network_execution_resource A [job] None None)
              (\<lambda>_. failed_creation A ''Failed to queue job'')
              (\<lambda>_. ret (201, JobPayload job))))"

section \<open>Runs of checks\<close>

record created_job =
  cd_route :: route_set_route
  cd_job :: latency_job

definition build_profile_run_note :: "string \<Rightarrow> string \<Rightarrow> string option \<Rightarrow> string" where
  "build_profile_run_note profileName routeLabel profileNote =
     take 200 (join ([CHR '' '', CHR 0xB7, CHR '' ''])
       (filter (\<lambda>v. js_trim v \<noteq> []) ([profileName, routeLabel] @ (case profileNote of None \<Rightarrow> [] | Some n \<Rightarrow> [n]))))"

definition create_jobs_for_profile :: "api_host \<Rightarrow> check_profile \<Rightarrow> string option \<Rightarrow> created_job list handler" where
  "create_jobs_for_profile A profile requesterIp =
     and_then (query (get_route_set (ap_env A) (cpf_routeSetId profile))) (\<lambda>routeSet.
       case routeSet of
         None \<Rightarrow> fail (PlainExn ''Route set not found for profile'')
       | Some s \<Rightarrow>
           map_prog (\<lambda>route.
             and_then (create_job_record A (rsr_url route)
                (Some (build_profile_run_note (cpf_name profile) (rsr_label route) (cpf_note profile)))
                (cpf_request profile) (cpf_monitorPolicy profile) requesterIp) (\<lambda>job.
               ret \<lparr> cd_route = route, cd_job = job \<rparr>)) (rs_routes s))"

definition create_check_profile_run_record ::
  "api_host \<Rightarrow> check_profile \<Rightarrow> run_trigger \<Rightarrow> created_job list \<Rightarrow> profile_run handler" where
  "create_check_profile_run_record A profile trigger createdJobs =
     and_then (id_or_new A ''run_'' None) (\<lambda>i.
     and_then (clock A) (\<lambda>now.
       ret \<lparr> run_id = i, run_profileId = cpf_id profile, run_trigger = trigger, run_createdAt = now,
             run_routeCount = length createdJobs,
             run_routes = map (\<lambda>c. \<lparr> rr_routeId = rsr_id (cd_route c), rr_routeLabel = rsr_label (cd_route c),
                                     rr_url = rsr_url (cd_route c), rr_jobId = job_id (cd_job c),
                                     rr_browserAudit = None \<rparr>) createdJobs,
             run_browserAuditSummary = None, run_evaluation = None, run_alertDeliveries = [] \<rparr>))"

definition review_required :: "bool \<Rightarrow> response" where
  "review_required locationChanged =
     (409, if locationChanged
           then CodedPayload ''runtime_location_changed''
             ''The self-host runtime location changed. Review the current runtime location and acknowledge it before running this saved check.''
           else CodedPayload ''location_review_required''
             ''This saved check is disabled until its legacy Region Set migration is reviewed and acknowledged.'')"

definition queue_run :: "api_host \<Rightarrow> check_profile \<Rightarrow> created_job list \<Rightarrow> profile_run \<Rightarrow> exec_job handler" where
  "queue_run A profile createdJobs run =
     create_network_execution_resource A (map cd_job createdJobs) (Some run) (Some (cpf_id profile))"

definition handle_run_check_profile :: "api_host \<Rightarrow> ident \<Rightarrow> string option \<Rightarrow> response handler" where
  "handle_run_check_profile A i requesterIp =
     and_then (query (get_check_profile (ap_env A) i)) (\<lambda>stored.
       case stored of
         None \<Rightarrow> ret (not_found ''Check profile not found'')
       | Some c \<Rightarrow>
           and_then (reconcile_check_profile_runtime_location A c) (\<lambda>(profile, locationChanged).
             if requires_review profile then ret (review_required locationChanged)
             else
               try_then (create_jobs_for_profile A profile requesterIp)
                 (\<lambda>e. ret (404, ErrorPayload (exn_message e)))
                 (\<lambda>createdJobs.
                    and_then (create_check_profile_run_record A profile Manual createdJobs) (\<lambda>run.
                      try_then (queue_run A profile createdJobs run)
                        (\<lambda>_. failed_creation A ''Failed to queue check run'')
                        (\<lambda>_. ret (201, ProfileJobsPayload profile (map cd_job createdJobs)))))))"

section \<open>Dispatch\<close>

text \<open>\<open>parseDispatchTime\<close>: \<open>None\<close> for a missing or empty parameter and for one \<open>Date\<close> cannot read.\<close>

definition parse_dispatch_time :: "api_host \<Rightarrow> iso option \<Rightarrow> iso handler" where
  "parse_dispatch_time A v = (case v of None \<Rightarrow> clock A | Some t \<Rightarrow> ret t)"

definition is_due_check :: "iso \<Rightarrow> check_profile \<Rightarrow> bool" where
  "is_due_check dispatchAt profile =
     (\<not> requires_review profile
      \<and> (case Option.bind (cpf_schedule profile) sch_nextRunAt of None \<Rightarrow> False | Some t \<Rightarrow> t \<le> dispatchAt))"

definition collect_due :: "api_host \<Rightarrow> iso \<Rightarrow> check_profile \<Rightarrow> check_profile list \<Rightarrow> check_profile list handler" where
  "collect_due A dispatchAt stored due =
     and_then (reconcile_check_profile_runtime_location A stored) (\<lambda>(profile, _).
       ret (if is_due_check dispatchAt profile then due @ [profile] else due))"

definition rescheduled :: "iso \<Rightarrow> nat \<Rightarrow> check_profile \<Rightarrow> check_profile handler" where
  "rescheduled dispatchAt n profile =
     (case cpf_schedule profile of
        None \<Rightarrow> ret (profile\<lparr>cpf_schedule := None, cpf_updatedAt := dispatchAt\<rparr>)
      | Some s \<Rightarrow>
          and_then (compute_next_run_at dispatchAt (sch_intervalMinutes s)) (\<lambda>due.
            ret (profile\<lparr>cpf_schedule := Some (s\<lparr>sch_lastRunAt := Some dispatchAt, sch_lastRunJobCount := Some n,
                                                 sch_nextRunAt := Some due\<rparr>),
                         cpf_updatedAt := dispatchAt\<rparr>)))"

definition trigger_check :: "api_host \<Rightarrow> iso \<Rightarrow> check_profile \<Rightarrow> dispatch_entry list handler" where
  "trigger_check A dispatchAt profile =
     catch
       (and_then (create_jobs_for_profile A profile None) (\<lambda>createdJobs.
        and_then (create_check_profile_run_record A profile Schedule createdJobs) (\<lambda>run.
        and_then (queue_run A profile createdJobs run) (\<lambda>_.
        and_then (rescheduled dispatchAt (length createdJobs) profile) (\<lambda>updated.
        and_then (statement (save_check_profile updated)) (\<lambda>_.
          ret [\<lparr> de_profileId = cpf_id profile, de_jobIds = map rr_jobId (run_routes run),
                 de_nextRunAt = Option.bind (cpf_schedule updated) sch_nextRunAt \<rparr>]))))))
       (\<lambda>_. and_then (random_uuid A) (\<lambda>_. ret []))"

definition handle_dispatch_scheduled_profiles :: "api_host \<Rightarrow> iso option \<Rightarrow> response handler" where
  "handle_dispatch_scheduled_profiles A v =
     and_then (parse_dispatch_time A v) (\<lambda>dispatchAt.
     and_then (query (list_check_profiles (ap_env A))) (\<lambda>profiles.
     and_then (fold_prog (collect_due A dispatchAt) profiles []) (\<lambda>due.
     and_then (map_prog (trigger_check A dispatchAt) due) (\<lambda>entries.
       ret (200, DispatchPayload
              \<lparr> dr_dispatchedAt = dispatchAt, dr_triggeredCount = length (concat entries),
                dr_triggeredProfiles = concat entries \<rparr>)))))"

section \<open>Browser audits\<close>

record create_audit =
  ca_targetUrl :: string
  ca_policy :: audit_policy
  ca_customHeaders :: "audit_header list"
  ca_cookies :: "audit_cookie list"

definition create_audit_schema :: "(string \<Rightarrow> bool) \<Rightarrow> create_audit \<Rightarrow> bool" where
  "create_audit_schema is_url i =
     (is_url (ca_targetUrl i) \<and> audit_policy_ok is_url (ca_policy i)
      \<and> length (ca_customHeaders i) \<le> 20 \<and> list_all audit_header_ok (ca_customHeaders i)
      \<and> length (ca_cookies i) \<le> 20 \<and> list_all (audit_cookie_ok is_url) (ca_cookies i))"

definition new_audit :: "api_host \<Rightarrow> ident \<Rightarrow> iso \<Rightarrow> create_audit \<Rightarrow> audit_resource" where
  "new_audit A i requestedAt input =
     \<lparr> aud_id = i, aud_targetUrl = ca_targetUrl input, aud_region = Some (ap_regionId A), aud_status = AQueued,
       aud_requestedAt = requestedAt, aud_startedAt = None, aud_completedAt = None, aud_policy = ca_policy input,
       aud_customHeaders = ca_customHeaders input, aud_cookies = ca_cookies input, aud_result = None,
       aud_error = None \<rparr>"

definition audit_payload_json :: "ident \<Rightarrow> json" where
  "audit_payload_json i = JObj [(''version'', JStr ''v1''), (''auditId'', JStr i)]"

definition handle_create_browser_audit :: "api_host \<Rightarrow> create_audit body \<Rightarrow> response handler" where
  "handle_create_browser_audit A body =
     with_body ''Invalid browser audit payload'' (create_audit_schema (e_isUrl (ap_env A))) body (\<lambda>i.
       if \<not> truthy (ap_browserAuditBaseUrl A)
       then ret (503, ErrorPayload ''Browser audit direct-run is not configured'')
       else
         and_then (clock A) (\<lambda>requestedAt.
         and_then (id_or_new A ''audit_'' None) (\<lambda>auditId.
           let audit = new_audit A auditId requestedAt i in
           if \<not> audit_resource_schema (e_isUrl (ap_env A)) audit then fail ZodExn
           else
             try_then
               (and_then (if len_between 1 160 auditId then ret () else fail ZodExn) (\<lambda>_.
                and_then (clock A) (\<lambda>now.
                  transact (create_execution_resource (ap_env A)
                    \<lparr> eq_id = ''exec_'' @ auditId, eq_kind = BrowserAudit, eq_resourceId = auditId,
                      eq_maxAttempts = ap_maxTargetAttempts A, eq_availableAt = None,
                      eq_payload = audit_payload_json auditId \<rparr>
                    (AuditResult audit) now))))
               (\<lambda>_. failed_creation A ''Failed to queue Browser Audit'')
               (\<lambda>_. ret (202, AuditPayload audit)))))"

end
