(* ===== verification/Api_Lists.thy ===== *)
theory Api_Lists
  imports Api_Runs
begin

text \<open>
  What the API reads, in \<open>apps/api/src/index.ts\<close>: the health document, the capabilities and the lists of the saved
  and the derived resources. A handler that lists takes its query parameters as they were given, and a list is
  cut from what the repository has and parsed by the schema of its response.
\<close>

section \<open>Health and capabilities\<close>

definition is_scheduled :: "check_profile \<Rightarrow> bool" where
  "is_scheduled p = (Option.bind (cpf_schedule p) sch_nextRunAt \<noteq> None)"

definition has_alerts :: "check_profile \<Rightarrow> bool" where
  "has_alerts p = (case cpf_alerts p of None \<Rightarrow> False | Some a \<Rightarrow> al_enabled a \<and> 0 < length (al_webhookTargets a))"

definition has_threshold :: "check_profile \<Rightarrow> bool" where
  "has_threshold p = (Option.bind (cpf_monitorPolicy p) mp_latencyThresholdMs \<noteq> None)"

definition build_health_payload :: "api_host \<Rightarrow> db \<Rightarrow> health" where
  "build_health_payload A d =
     (let checks = list_check_profiles (ap_env A) d in
      \<lparr> hl_runtimeLocation = (ap_regionId A, ap_regionLabel A), hl_probeBaseUrl = ap_probeBaseUrl A,
        hl_maxTargetAttempts = ap_maxTargetAttempts A, hl_databasePath = ap_databasePath A,
        hl_retainedDays = ap_retentionDays A, hl_persistedJobs = count_jobs d,
        hl_artifactsPath = ap_artifactsPath A, hl_maxArtifactBytes = ap_maxArtifactBytes A,
        hl_uploadTtlSeconds = ap_artifactUploadTtlSeconds A,
        hl_properties = length (list_properties (ap_env A) d), hl_routeSets = length (list_route_sets (ap_env A) d),
        hl_checkProfiles = length checks, hl_scheduledProfiles = length (filter is_scheduled checks),
        hl_profilesWithAlerts = length (filter has_alerts checks),
        hl_profilesWithThresholds = length (filter has_threshold checks) \<rparr>)"

definition build_runtime_metrics_payload :: "api_host \<Rightarrow> payload handler" where
  "build_runtime_metrics_payload A =
     and_then (clock A) (\<lambda>observedAt.
     and_then (query (get_execution_queue_metrics observedAt (ap_retentionDays A) None)) (\<lambda>found.
     and_then (lift_throws found) (\<lambda>executions.
       let m = \<lparr> rtm_observedAt = observedAt, rtm_regionId = ap_regionId A, rtm_label = ap_regionLabel A,
                 rtm_executions = executions, rtm_terminalCountsBoundedDays = ap_retentionDays A \<rparr> in
       if runtime_metrics_schema m then ret (MetricsPayload m) else fail ZodExn)))"

definition build_public_capabilities_payload :: "api_host \<Rightarrow> payload" where
  "build_public_capabilities_payload A = CapabilitiesPayload (truthy (ap_browserAuditBaseUrl A))"

section \<open>Query parameters\<close>

record list_params =
  lp_pageSize :: "int option"
  lp_pageToken :: "string option"
  lp_filter :: "string option"

record derived_params = list_params +
  dp_createdAfter :: "iso option"
  dp_createdBefore :: "iso option"
  dp_checkId :: "string option"

definition list_query_of :: "list_params \<Rightarrow> list_query handler" where
  "list_query_of p =
     (case parse_list_query (lp_pageSize p) (lp_pageToken p) (lp_filter p) of Inl _ \<Rightarrow> fail ZodExn | Inr q \<Rightarrow> ret q)"

definition safe_parse_derived_query :: "derived_params \<Rightarrow> derived_query handler" where
  "safe_parse_derived_query p =
     (case parse_derived_query (lp_pageSize p) (lp_pageToken p) (lp_filter p)
             (dp_createdAfter p) (dp_createdBefore p) (dp_checkId p) of
        Inl _ \<Rightarrow> fail (OrpcExn ''BAD_REQUEST'' ''Invalid derived resource list query'')
      | Inr q \<Rightarrow> ret q)"

section \<open>Lists of saved resources\<close>

definition page_info_schema :: "page_info \<Rightarrow> bool" where
  "page_info_schema i = (1 \<le> pi_pageSize i)"

definition respond_list :: "('a \<Rightarrow> bool) \<Rightarrow> ('a list \<Rightarrow> page_info \<Rightarrow> payload) \<Rightarrow> 'a list \<times> page_info \<Rightarrow> payload handler" where
  "respond_list schema wrap page =
     (if list_all schema (fst page) \<and> page_info_schema (snd page) then ret (wrap (fst page) (snd page)) else fail ZodExn)"

definition list_response ::
  "('a \<Rightarrow> bool) \<Rightarrow> ('a list \<Rightarrow> page_info \<Rightarrow> payload) \<Rightarrow> ('a \<Rightarrow> string option list) \<Rightarrow> (db \<Rightarrow> 'a list)
   \<Rightarrow> list_query option \<Rightarrow> payload handler" where
  "list_response schema wrap searchable items q =
     and_then (query items) (\<lambda>xs. respond_list schema wrap (apply_list_query xs q searchable))"

definition property_texts :: "property \<Rightarrow> string option list" where
  "property_texts p = [Some (prop_id p), Some (prop_name p), Some (prop_baseUrl p)]"

definition build_property_list_response ::
  "(property list \<Rightarrow> page_info \<Rightarrow> payload) \<Rightarrow> api_host \<Rightarrow> list_query option \<Rightarrow> payload handler" where
  "build_property_list_response wrap A =
     list_response (property_schema (e_isUrl (ap_env A))) wrap property_texts (list_properties (ap_env A))"

definition route_set_texts :: "route_set \<Rightarrow> string option list" where
  "route_set_texts s =
     [Some (rs_id s), Some (rs_propertyId s), Some (rs_name s)]
     @ concat (map (\<lambda>r. [Some (rsr_id r), Some (rsr_label r), Some (rsr_url r)]) (rs_routes s))"

definition build_route_set_list_response ::
  "(route_set list \<Rightarrow> page_info \<Rightarrow> payload) \<Rightarrow> api_host \<Rightarrow> list_query option \<Rightarrow> payload handler" where
  "build_route_set_list_response wrap A =
     list_response (route_set_schema (e_isUrl (ap_env A))) wrap route_set_texts (list_route_sets (ap_env A))"

definition check_texts :: "check_profile \<Rightarrow> string option list" where
  "check_texts c = [Some (cpf_id c), Some (cpf_name c), cpf_note c, Some (cpf_propertyId c), Some (cpf_routeSetId c)]"

definition build_check_profile_list_response ::
  "(check_profile list \<Rightarrow> page_info \<Rightarrow> payload) \<Rightarrow> api_host \<Rightarrow> list_query option \<Rightarrow> payload handler" where
  "build_check_profile_list_response wrap A =
     list_response (check_profile_schema (e_isUrl (ap_env A))) wrap check_texts (list_check_profiles (ap_env A))"

definition to_sites_payload :: "api_host \<Rightarrow> list_query option \<Rightarrow> payload handler" where
  "to_sites_payload = build_property_list_response SiteListPayload"

definition to_route_groups_payload :: "api_host \<Rightarrow> list_query option \<Rightarrow> payload handler" where
  "to_route_groups_payload = build_route_set_list_response RouteGroupListPayload"

definition to_checks_payload :: "api_host \<Rightarrow> list_query option \<Rightarrow> payload handler" where
  "to_checks_payload = build_check_profile_list_response CheckListPayload"

definition job_item_schema :: "(string \<Rightarrow> bool) \<Rightarrow> job_item \<Rightarrow> bool" where
  "job_item_schema is_url j =
     (bounded_job_id_ok (ji_id j) \<and> is_url (ji_url j) \<and> opt_ok (\<lambda>n. length n \<le> 200) (ji_note j)
      \<and> opt_ok (\<lambda>s. s \<noteq> []) (ji_requesterIp j) \<and> runtime_region_id_ok (ji_region j)
      \<and> opt_ok (\<lambda>rs. 1 \<le> length rs \<and> length rs \<le> 4 \<and> list_all runtime_region_id_ok rs) (ji_historicalRegions j))"

definition job_texts :: "job_item \<Rightarrow> string option list" where
  "job_texts j =
     [Some (ji_id j), Some (ji_url j), Some (show_job_status (ji_status j)), ji_note j, ji_requesterIp j,
      Some (ji_region j)] @ map Some (case ji_historicalRegions j of None \<Rightarrow> [] | Some rs \<Rightarrow> rs)"

definition build_job_list_response :: "api_host \<Rightarrow> list_query option \<Rightarrow> payload handler" where
  "build_job_list_response A =
     list_response (job_item_schema (e_isUrl (ap_env A))) JobListPayload job_texts (list_jobs (ap_env A))"

definition run_texts :: "profile_run \<Rightarrow> string option list" where
  "run_texts r =
     [Some (run_id r), Some (run_profileId r), Some (show_trigger (run_trigger r)),
      Some (to_iso_string (run_createdAt r)), map_option (\<lambda>e. show_monitor_status (ev_status e)) (run_evaluation r)]"

definition build_check_profile_run_list_response :: "api_host \<Rightarrow> ident \<Rightarrow> list_query option \<Rightarrow> payload handler" where
  "build_check_profile_run_list_response A profileId =
     list_response (profile_run_schema (e_isUrl (ap_env A))) RunListPayload run_texts
       (list_check_profile_runs (ap_env A) profileId)"

fun show_audit_status :: "audit_status \<Rightarrow> string" where
  "show_audit_status AQueued = ''queued''"
| "show_audit_status ARunning = ''running''"
| "show_audit_status ASucceeded = ''succeeded''"
| "show_audit_status AFailed = ''failed''"

definition audit_texts :: "audit_resource \<Rightarrow> string option list" where
  "audit_texts a =
     [Some (aud_id a), Some (aud_targetUrl a), aud_region a, Some (show_audit_status (aud_status a)),
      Some (to_iso_string (aud_requestedAt a)), map_option to_iso_string (aud_completedAt a), aud_error a]"

definition build_browser_audit_list_response :: "api_host \<Rightarrow> list_query option \<Rightarrow> payload handler" where
  "build_browser_audit_list_response A =
     list_response (audit_resource_schema (e_isUrl (ap_env A))) AuditListPayload audit_texts
       (list_browser_audits (ap_env A))"

section \<open>Lists of derived resources\<close>

fun show_mode :: "comparison_mode \<Rightarrow> string" where
  "show_mode LatestPrevious = ''latest_previous''"
| "show_mode Baseline = ''baseline''"
| "show_mode CustomRun = ''custom''"

definition comparison_texts :: "comparison_resource \<Rightarrow> string option list" where
  "comparison_texts c =
     [Some (cr_id c), Some (cr_checkId c), Some (run_id (cmp_currentRun (cr_comparison c))),
      map_option run_id (cmp_comparedRun (cr_comparison c)), Some (show_mode (cmp_mode (cr_comparison c)))]"

definition build_comparison_list_response :: "api_host \<Rightarrow> derived_query option \<Rightarrow> payload handler" where
  "build_comparison_list_response A q =
     and_then (query (list_comparisons (ap_env A))) (\<lambda>xs.
       respond_list (comparison_resource_schema (e_isUrl (ap_env A))) ComparisonListPayload
         (apply_derived_resource_list_query xs q cr_createdAt comparison_texts (\<lambda>c. Some (cr_checkId c))))"

text \<open>An export or an analysis of a comparison belongs to the check of the comparison, while that one exists. The
  index is only built for a query with a check.\<close>

definition build_comparison_check_id_index ::
  "api_host \<Rightarrow> derived_query option \<Rightarrow> db \<Rightarrow> (ident \<times> ident) list" where
  "build_comparison_check_id_index A q d =
     (if truthy (Option.bind q dq_checkId) then map (\<lambda>c. (cr_id c, cr_checkId c)) (list_comparisons (ap_env A) d) else [])"

definition export_check_id :: "(ident \<times> ident) list \<Rightarrow> export_resource \<Rightarrow> ident option" where
  "export_check_id index e =
     (case ex_source e of ExportCheckReport c \<Rightarrow> Some c | ExportComparison i \<Rightarrow> js_map_get index i)"

definition analysis_check_id :: "(ident \<times> ident) list \<Rightarrow> analysis_resource \<Rightarrow> ident option" where
  "analysis_check_id index a =
     (case an_source a of AnalysisRun r c \<Rightarrow> Some c | AnalysisComparison i \<Rightarrow> js_map_get index i)"

fun export_source_texts :: "export_source \<Rightarrow> string option list" where
  "export_source_texts (ExportCheckReport c) = [Some ''check_report'', Some c, None]"
| "export_source_texts (ExportComparison i) = [Some ''comparison'', None, Some i]"

fun show_export_status :: "export_status \<Rightarrow> string" where
  "show_export_status ExportPending = ''pending''"
| "show_export_status ExportSucceeded = ''succeeded''"
| "show_export_status ExportFailed = ''failed''"

definition show_format :: "export_format \<Rightarrow> string" where
  "show_format f = (case f of FormatJson \<Rightarrow> ''json'' | FormatCsv \<Rightarrow> ''csv'')"

definition export_texts :: "export_resource \<Rightarrow> string option list" where
  "export_texts e =
     Some (ex_id e) # export_source_texts (ex_source e)
     @ [Some (show_format (ex_format e)), Some (show_export_status (ex_status e)), Some (ex_filename e)]"

definition build_export_list_response :: "api_host \<Rightarrow> derived_query option \<Rightarrow> payload handler" where
  "build_export_list_response A q =
     and_then (query (build_comparison_check_id_index A q)) (\<lambda>index.
     and_then (query list_exports) (\<lambda>xs.
       respond_list export_resource_schema ExportListPayload
         (apply_derived_resource_list_query xs q ex_createdAt export_texts (export_check_id index))))"

fun analysis_source_texts :: "analysis_source \<Rightarrow> string option list" where
  "analysis_source_texts (AnalysisComparison i) = [Some ''comparison'', None, None, Some i]"
| "analysis_source_texts (AnalysisRun r c) = [Some ''run'', Some c, Some r, None]"

fun show_analysis_status :: "analysis_status \<Rightarrow> string" where
  "show_analysis_status AnalysisPending = ''pending''"
| "show_analysis_status AnalysisRunning = ''running''"
| "show_analysis_status AnalysisSucceeded = ''succeeded''"
| "show_analysis_status AnalysisFailed = ''failed''"

definition analysis_texts :: "analysis_resource \<Rightarrow> string option list" where
  "analysis_texts a =
     [Some (an_id a), Some ''regression_summary'', Some (show_analysis_status (an_status a))]
     @ analysis_source_texts (an_source a) @ [out_narrative (an_output a)]"

definition build_analysis_list_response :: "api_host \<Rightarrow> derived_query option \<Rightarrow> payload handler" where
  "build_analysis_list_response A q =
     and_then (query (build_comparison_check_id_index A q)) (\<lambda>index.
     and_then (query list_analyses) (\<lambda>xs.
       respond_list analysis_resource_schema AnalysisListPayload
         (apply_derived_resource_list_query xs q an_createdAt analysis_texts (analysis_check_id index))))"

end
