(* ===== verification/Api_Derived.thy ===== *)
theory Api_Derived
  imports Api_Lists
begin

text \<open>
  The derived resources of the API, in \<open>apps/api/src/index.ts\<close>: details and comparisons of runs, reports, stored
  comparisons, exports and analyses, and the stream of a job's snapshots. The pretty-printed JSON of an export
  (\<open>ap_comparisonText\<close>, and \<open>ap_reportText\<close>, which is redacted first) and the text of a double (\<open>ap_showNumber\<close>) are
  what the platform gives.
\<close>

section \<open>Inputs\<close>

record create_comparison =
  cc_checkId :: ident
  cc_runId :: ident
  cc_target :: comparison_target

definition create_comparison_schema :: "create_comparison \<Rightarrow> bool" where
  "create_comparison_schema i =
     (cc_checkId i \<noteq> [] \<and> cc_runId i \<noteq> [] \<and> (case cc_target i of TargetRun r \<Rightarrow> r \<noteq> [] | _ \<Rightarrow> True))"

record create_export =
  ce_source :: export_source
  ce_format :: export_format

definition create_export_schema :: "create_export \<Rightarrow> bool" where
  "create_export_schema i = (case ce_source i of ExportCheckReport c \<Rightarrow> c \<noteq> [] | ExportComparison c \<Rightarrow> c \<noteq> [])"

definition create_analysis_schema :: "analysis_source \<Rightarrow> bool" where
  "create_analysis_schema s = (case s of AnalysisComparison c \<Rightarrow> c \<noteq> [] | AnalysisRun r c \<Rightarrow> r \<noteq> [] \<and> c \<noteq> [])"

section \<open>Runs and their comparison\<close>

definition build_run_detail_by_id :: "env \<Rightarrow> ident \<Rightarrow> db \<Rightarrow> run_detail option" where
  "build_run_detail_by_id env i d =
     (case get_check_profile_run env i d of
        None \<Rightarrow> None
      | Some run \<Rightarrow>
          (case get_check_profile env (run_profileId run) d of
             None \<Rightarrow> None
           | Some profile \<Rightarrow>
               Some \<lparr> rd_profile = profile, rd_run = run,
                      rd_jobs = List.map_filter (\<lambda>r. get_job env (rr_jobId r) d) (run_routes run) \<rparr>))"

definition build_profile_comparison ::
  "env \<Rightarrow> profile_run \<Rightarrow> profile_run option \<Rightarrow> comparison_mode \<Rightarrow> db \<Rightarrow> profile_comparison" where
  "build_profile_comparison env currentRun comparedRun mode d =
     build_check_profile_comparison currentRun (get_jobs_for_run env currentRun d) comparedRun
       (case comparedRun of None \<Rightarrow> [] | Some r \<Rightarrow> get_jobs_for_run env r d) mode"

definition latest_comparison_of ::
  "env \<Rightarrow> check_profile \<Rightarrow> profile_run \<Rightarrow> profile_run option \<Rightarrow> db \<Rightarrow> latest_comparison" where
  "latest_comparison_of env profile currentRun previousRun d =
     (let c = build_profile_comparison env currentRun previousRun LatestPrevious d in
      \<lparr> lc_profile = profile, lc_currentRun = currentRun, lc_previousRun = previousRun, lc_comparedRun = previousRun,
        lc_baselineRun = resolve_baseline_run env profile d, lc_mode = LatestPrevious, lc_summary = cmp_summary c,
        lc_routes = cmp_routes c \<rparr>)"

definition safe_latest_comparison :: "env \<Rightarrow> check_profile \<Rightarrow> profile_run \<Rightarrow> db \<Rightarrow> latest_comparison option" where
  "safe_latest_comparison env profile currentRun d =
     (case find_previous_run env (cpf_id profile) (run_id currentRun) d of
        None \<Rightarrow> None
      | Some p \<Rightarrow> Some (latest_comparison_of env profile currentRun (Some p) d))"

definition safe_baseline_comparison :: "env \<Rightarrow> check_profile \<Rightarrow> profile_run \<Rightarrow> db \<Rightarrow> profile_comparison option" where
  "safe_baseline_comparison env profile currentRun d =
     (case resolve_baseline_run env profile d of
        None \<Rightarrow> None
      | Some b \<Rightarrow> Some (build_profile_comparison env currentRun (Some b) Baseline d))"

definition resolve_comparison_for_run :: "env \<Rightarrow> check_profile \<Rightarrow> profile_run \<Rightarrow> db \<Rightarrow> profile_comparison option" where
  "resolve_comparison_for_run env profile run d =
     (let latest = (case find_previous_run env (cpf_id profile) (run_id run) d of
                      None \<Rightarrow> None
                    | Some p \<Rightarrow> Some (build_profile_comparison env run (Some p) LatestPrevious d)) in
      case resolve_baseline_run env profile d of
        Some b \<Rightarrow>
          if run_id b \<noteq> run_id run then Some (build_profile_comparison env run (Some b) Baseline d) else latest
      | None \<Rightarrow> latest)"

section \<open>Reports\<close>

definition recent_run_report :: "env \<Rightarrow> check_profile \<Rightarrow> db \<Rightarrow> profile_run \<Rightarrow> run_report_summary" where
  "recent_run_report env profile d run =
     summarize_check_profile_run_report profile run (get_jobs_for_run env run d)
       (case resolve_comparison_for_run env profile run d of None \<Rightarrow> 0 | Some c \<Rightarrow> cs_regressed (cmp_summary c))"

definition build_check_profile_report :: "env \<Rightarrow> check_profile \<Rightarrow> db \<Rightarrow> profile_report" where
  "build_check_profile_report env profile d =
     (let runs = list_check_profile_runs env (cpf_id profile) d;
          latestRun = (case runs of [] \<Rightarrow> None | r # _ \<Rightarrow> Some r);
          recentRuns = map (recent_run_report env profile d) (take 10 runs) in
      \<lparr> rep_profile = profile,
        rep_latestRun = map_option (\<lambda>r. \<lparr> rd_profile = profile, rd_run = r, rd_jobs = get_jobs_for_run env r d \<rparr>)
                          latestRun,
        rep_latestRunSummary = (case recentRuns of [] \<Rightarrow> None | r # _ \<Rightarrow> Some r),
        rep_latestComparison = Option.bind latestRun (\<lambda>r. safe_latest_comparison env profile r d),
        rep_baselineComparison = Option.bind latestRun (\<lambda>r. safe_baseline_comparison env profile r d),
        rep_recentRuns = recentRuns \<rparr>)"

section \<open>Stored comparisons\<close>

definition target_of_comparison ::
  "env \<Rightarrow> run_detail \<Rightarrow> comparison_target \<Rightarrow> db \<Rightarrow> profile_run option \<times> comparison_mode" where
  "target_of_comparison env detail target d =
     (case target of
        TargetBaseline \<Rightarrow> (resolve_baseline_run env (rd_profile detail) d, Baseline)
      | TargetRun i \<Rightarrow>
          ((case get_check_profile_run env i d of
              None \<Rightarrow> None
            | Some r \<Rightarrow> if run_profileId r = cpf_id (rd_profile detail) then Some r else None), CustomRun)
      | TargetLatestPrevious \<Rightarrow>
          (find_previous_run env (cpf_id (rd_profile detail)) (run_id (rd_run detail)) d, LatestPrevious))"

definition build_comparison_resource :: "api_host \<Rightarrow> create_comparison \<Rightarrow> comparison_resource handler" where
  "build_comparison_resource A i =
     and_then (query (build_run_detail_by_id (ap_env A) (cc_runId i))) (\<lambda>found.
       case found of
         None \<Rightarrow> fail (OrpcExn ''NOT_FOUND'' ''Run not found for check'')
       | Some detail \<Rightarrow>
           if cpf_id (rd_profile detail) \<noteq> cc_checkId i
           then fail (OrpcExn ''NOT_FOUND'' ''Run not found for check'')
           else
             and_then (query (target_of_comparison (ap_env A) detail (cc_target i))) (\<lambda>(comparedRun, mode).
             and_then (query (build_profile_comparison (ap_env A) (rd_run detail) comparedRun mode)) (\<lambda>comparison.
             and_then (id_or_new A ''cmp_'' None) (\<lambda>cid.
             and_then (clock A) (\<lambda>now.
               let resource = \<lparr> cr_id = cid, cr_createdAt = now, cr_checkId = cpf_id (rd_profile detail),
                                cr_comparison = comparison \<rparr> in
               if \<not> comparison_resource_schema (e_isUrl (ap_env A)) resource then fail ZodExn
               else and_then (statement (save_comparison resource)) (\<lambda>_. ret resource))))))"

section \<open>Exports\<close>

fun show_classification :: "classification \<Rightarrow> string" where
  "show_classification Improved = ''improved''"
| "show_classification Regressed = ''regressed''"
| "show_classification Unchanged = ''unchanged''"
| "show_classification MissingPrevious = ''missing_previous''"
| "show_classification MissingCurrent = ''missing_current''"

definition comparison_csv_row :: "(rat \<Rightarrow> string) \<Rightarrow> route_comparison \<Rightarrow> region_comparison \<Rightarrow> string" where
  "comparison_csv_row show_number route region =
     join '',''
       [rtc_routeId route, quote_json (rtc_routeLabel route), rg_region region,
        show_classification (rg_classification region),
        (case rg_latencyDeltaMs region of None \<Rightarrow> [] | Some n \<Rightarrow> show_int n),
        (case rg_latencyDeltaPct region of None \<Rightarrow> [] | Some q \<Rightarrow> show_number q)]"

definition comparison_csv :: "(rat \<Rightarrow> string) \<Rightarrow> comparison_resource \<Rightarrow> string" where
  "comparison_csv show_number c =
     join [CHR 0x0A]
       (''routeId,routeLabel,region,classification,latencyDeltaMs,latencyDeltaPct''
        # concat (map (\<lambda>route. map (comparison_csv_row show_number route) (rtc_regions route))
                   (cmp_routes (cr_comparison c))))"

definition content_type_of :: "export_format \<Rightarrow> string" where
  "content_type_of f =
     (case f of FormatCsv \<Rightarrow> ''text/csv; charset=utf-8'' | FormatJson \<Rightarrow> ''application/json; charset=utf-8'')"

definition save_new_export ::
  "api_host \<Rightarrow> iso \<Rightarrow> create_export \<Rightarrow> string \<Rightarrow> string \<Rightarrow> export_resource handler" where
  "save_new_export A createdAt i stem text =
     and_then (id_or_new A ''exp_'' None) (\<lambda>eid.
       let resource = \<lparr> ex_id = eid, ex_createdAt = createdAt, ex_source = ce_source i, ex_format = ce_format i,
                        ex_status = ExportSucceeded, ex_filename = stem @ ''.'' @ show_format (ce_format i),
                        ex_contentType = content_type_of (ce_format i), ex_body = text \<rparr> in
       if \<not> export_resource_schema resource then fail ZodExn
       else and_then (statement (save_export resource)) (\<lambda>_. ret resource))"

definition build_export_resource :: "api_host \<Rightarrow> create_export \<Rightarrow> export_resource handler" where
  "build_export_resource A i =
     and_then (clock A) (\<lambda>createdAt.
       case ce_source i of
         ExportComparison cid \<Rightarrow>
           and_then (query (get_comparison (ap_env A) cid)) (\<lambda>found.
             case found of
               None \<Rightarrow> fail (OrpcExn ''NOT_FOUND'' ''Comparison not found'')
             | Some c \<Rightarrow>
                 save_new_export A createdAt i (cr_checkId c @ ''-'' @ cr_id c)
                   (if ce_format i = FormatCsv then comparison_csv (ap_showNumber A) c else ap_comparisonText A c))
       | ExportCheckReport pid \<Rightarrow>
           and_then (query (get_check_profile (ap_env A) pid)) (\<lambda>found.
             case found of
               None \<Rightarrow> fail (OrpcExn ''NOT_FOUND'' ''Check not found'')
             | Some profile \<Rightarrow>
                 and_then (query (build_check_profile_report (ap_env A) profile)) (\<lambda>report.
                   save_new_export A createdAt i (cpf_id profile @ ''-report'')
                     (if ce_format i = FormatCsv
                      then build_check_profile_report_csv profile (rep_recentRuns report)
                      else ap_reportText A report))))"

section \<open>Analyses\<close>

definition regression_finding :: "comparison_resource \<Rightarrow> string \<Rightarrow> analysis_finding" where
  "regression_finding c u =
     (let n = cs_regressed (cmp_summary (cr_comparison c)) in
      \<lparr> fi_id = ''finding_'' @ u, fi_kind = ''latency_regression'', fi_severity = (if n \<ge> 3 then High else Medium),
        fi_summary = show_nat n @ '' region checks regressed'', fi_evidenceRefs = [cr_id c] \<rparr>)"

definition regression_recommendation :: "string \<Rightarrow> analysis_recommendation" where
  "regression_recommendation u =
     \<lparr> rec_id = ''rec_'' @ u, rec_kind = ''inspect_regressed_routes'',
       rec_summary = ''Inspect the regressed routes and review route-level artifacts before changing baselines.'' \<rparr>"

definition coverage_finding :: "comparison_resource \<Rightarrow> string \<Rightarrow> analysis_finding" where
  "coverage_finding c u =
     \<lparr> fi_id = ''finding_'' @ u, fi_kind = ''coverage_gap'', fi_severity = Low,
       fi_summary = ''Some route-region comparisons are missing one side of the measurement.'',
       fi_evidenceRefs = [cr_id c] \<rparr>"

definition analysis_narrative :: "comparison_resource \<Rightarrow> bool \<Rightarrow> string" where
  "analysis_narrative c found =
     (let s = cmp_summary (cr_comparison c) in
      if found
      then ''Comparison '' @ cr_id c @ '' contains '' @ show_nat (cs_regressed s) @ '' regressed region checks and ''
           @ show_nat (cs_improved s) @ '' improvements.''
      else ''No meaningful regressions were detected in the current comparison.'')"

definition analyzed_comparison :: "api_host \<Rightarrow> analysis_source \<Rightarrow> comparison_resource handler" where
  "analyzed_comparison A src =
     (case src of
        AnalysisComparison cid \<Rightarrow>
          and_then (query (get_comparison (ap_env A) cid)) (\<lambda>found.
            case found of None \<Rightarrow> fail (OrpcExn ''NOT_FOUND'' ''Comparison not found'') | Some c \<Rightarrow> ret c)
      | AnalysisRun r c \<Rightarrow>
          build_comparison_resource A \<lparr> cc_checkId = c, cc_runId = r, cc_target = TargetLatestPrevious \<rparr>)"

definition regression_part ::
  "api_host \<Rightarrow> comparison_resource \<Rightarrow> (analysis_finding list \<times> analysis_recommendation list) handler" where
  "regression_part A c =
     (if cs_regressed (cmp_summary (cr_comparison c)) > 0
      then
        and_then (random_uuid A) (\<lambda>u.
        and_then (random_uuid A) (\<lambda>v. ret ([regression_finding c u], [regression_recommendation v])))
      else ret ([], []))"

definition coverage_part :: "api_host \<Rightarrow> comparison_resource \<Rightarrow> analysis_finding list handler" where
  "coverage_part A c =
     (let s = cmp_summary (cr_comparison c) in
      if cs_missingCurrent s > 0 \<or> cs_missingPrevious s > 0
      then and_then (random_uuid A) (\<lambda>u. ret [coverage_finding c u]) else ret [])"

definition build_analysis_resource :: "api_host \<Rightarrow> analysis_source \<Rightarrow> analysis_resource handler" where
  "build_analysis_resource A src =
     and_then (analyzed_comparison A src) (\<lambda>c.
     and_then (regression_part A c) (\<lambda>(regressions, recommendations).
     and_then (coverage_part A c) (\<lambda>gaps.
     and_then (id_or_new A ''anl_'' None) (\<lambda>aid.
     and_then (clock A) (\<lambda>now.
       let findings = regressions @ gaps;
           resource = \<lparr> an_id = aid, an_createdAt = now, an_source = src, an_status = AnalysisSucceeded,
                        an_output = \<lparr> out_findings = findings, out_recommendations = recommendations,
                                      out_narrative = Some (analysis_narrative c (findings \<noteq> [])) \<rparr> \<rparr> in
       if \<not> analysis_resource_schema resource then fail ZodExn
       else and_then (statement (save_analysis resource)) (\<lambda>_. ret resource))))))"

section \<open>Handlers\<close>

definition json_or_error :: "response handler \<Rightarrow> response handler" where
  "json_or_error p = catch p (\<lambda>e. ret (to_json_error e))"

definition handle_create_comparison :: "api_host \<Rightarrow> create_comparison body \<Rightarrow> response handler" where
  "handle_create_comparison A body =
     with_body ''Invalid comparison payload'' create_comparison_schema body (\<lambda>i.
       json_or_error (and_then (build_comparison_resource A i) (\<lambda>c. ret (201, ComparisonResourcePayload c))))"

definition handle_create_export :: "api_host \<Rightarrow> create_export body \<Rightarrow> response handler" where
  "handle_create_export A body =
     with_body ''Invalid export payload'' create_export_schema body (\<lambda>i.
       json_or_error (and_then (build_export_resource A i) (\<lambda>e. ret (201, ExportPayload e))))"

definition handle_create_analysis :: "api_host \<Rightarrow> analysis_source body \<Rightarrow> response handler" where
  "handle_create_analysis A body =
     with_body ''Invalid analysis payload'' create_analysis_schema body (\<lambda>i.
       json_or_error (and_then (build_analysis_resource A i) (\<lambda>a. ret (201, AnalysisPayload a))))"

definition with_profile :: "api_host \<Rightarrow> ident \<Rightarrow> (check_profile \<Rightarrow> response handler) \<Rightarrow> response handler" where
  "with_profile A i k =
     and_then (query (get_check_profile (ap_env A) i)) (\<lambda>found.
       case found of None \<Rightarrow> ret (not_found ''Check profile not found'') | Some c \<Rightarrow> k c)"

definition handle_list_check_profile_runs :: "api_host \<Rightarrow> ident \<Rightarrow> list_query option \<Rightarrow> response handler" where
  "handle_list_check_profile_runs A i q =
     with_profile A i (\<lambda>profile.
       and_then (build_check_profile_run_list_response A (cpf_id profile) q) (\<lambda>p. ret (200, p)))"

text \<open>The run of the path, if it is one of the check's.\<close>

definition own_run :: "env \<Rightarrow> check_profile \<Rightarrow> ident \<Rightarrow> db \<Rightarrow> profile_run option" where
  "own_run env profile i d =
     (case get_check_profile_run env i d of
        None \<Rightarrow> None
      | Some r \<Rightarrow> if run_profileId r = cpf_id profile then Some r else None)"

definition handle_get_check_profile_run :: "api_host \<Rightarrow> ident \<Rightarrow> ident \<Rightarrow> response handler" where
  "handle_get_check_profile_run A i runId =
     with_profile A i (\<lambda>profile.
       and_then (query (own_run (ap_env A) profile runId)) (\<lambda>found.
         case found of
           None \<Rightarrow> ret (not_found ''Check profile run not found'')
         | Some run \<Rightarrow>
             and_then (query (get_jobs_for_run (ap_env A) run)) (\<lambda>jobs.
               ret (200, RunDetailPayload \<lparr> rd_profile = profile, rd_run = run, rd_jobs = jobs \<rparr>))))"

definition handle_get_latest_check_profile_comparison :: "api_host \<Rightarrow> ident \<Rightarrow> response handler" where
  "handle_get_latest_check_profile_comparison A i =
     with_profile A i (\<lambda>profile.
       and_then (query (list_check_profile_runs (ap_env A) (cpf_id profile))) (\<lambda>runs.
         case runs of
           [] \<Rightarrow> ret (not_found ''No check profile runs found'')
         | currentRun # earlier \<Rightarrow>
             and_then (query (latest_comparison_of (ap_env A) profile currentRun
                         (case earlier of [] \<Rightarrow> None | p # _ \<Rightarrow> Some p))) (\<lambda>c.
               ret (200, LatestComparisonPayload c))))"

definition handle_get_baseline_check_profile_comparison :: "api_host \<Rightarrow> ident \<Rightarrow> response handler" where
  "handle_get_baseline_check_profile_comparison A i =
     with_profile A i (\<lambda>profile.
       and_then (query (list_check_profile_runs (ap_env A) (cpf_id profile))) (\<lambda>runs.
         case runs of
           [] \<Rightarrow> ret (not_found ''No check profile runs found'')
         | currentRun # _ \<Rightarrow>
             and_then (query (safe_baseline_comparison (ap_env A) profile currentRun)) (\<lambda>c.
               ret (case c of
                      None \<Rightarrow> not_found ''No baseline run pinned for this profile''
                    | Some x \<Rightarrow> (200, ComparisonPayload profile x)))))"

text \<open>The parameters \<open>against\<close> and \<open>againstRunId\<close>; \<open>None\<close> is an unsupported target.\<close>

definition compared_by_params ::
  "env \<Rightarrow> check_profile \<Rightarrow> profile_run \<Rightarrow> string option \<Rightarrow> string option \<Rightarrow> db
   \<Rightarrow> (profile_run option \<times> comparison_mode) option" where
  "compared_by_params env profile currentRun against againstRunId d =
     (if against = Some ''baseline'' then Some (resolve_baseline_run env profile d, Baseline)
      else if against = Some ''previous'' \<or> against = None
      then Some (find_previous_run env (cpf_id profile) (run_id currentRun) d, LatestPrevious)
      else if against = Some ''custom'' \<and> truthy againstRunId
      then Some (own_run env profile (the againstRunId) d, CustomRun)
      else None)"

definition handle_get_check_profile_run_comparison ::
  "api_host \<Rightarrow> ident \<Rightarrow> ident \<Rightarrow> string option \<Rightarrow> string option \<Rightarrow> response handler" where
  "handle_get_check_profile_run_comparison A i runId against againstRunId =
     with_profile A i (\<lambda>profile.
       and_then (query (own_run (ap_env A) profile runId)) (\<lambda>found.
         case found of
           None \<Rightarrow> ret (not_found ''Check profile run not found'')
         | Some currentRun \<Rightarrow>
             and_then (query (compared_by_params (ap_env A) profile currentRun against againstRunId)) (\<lambda>target.
               case target of
                 None \<Rightarrow> ret (400, ErrorPayload ''Unsupported comparison target'')
               | Some (None, _) \<Rightarrow> ret (not_found ''Compared run not found for this profile'')
               | Some (Some comparedRun, mode) \<Rightarrow>
                   and_then (query (build_profile_comparison (ap_env A) currentRun (Some comparedRun) mode)) (\<lambda>c.
                     ret (200, ComparisonPayload profile c)))))"

definition handle_get_check_profile_report :: "api_host \<Rightarrow> ident \<Rightarrow> response handler" where
  "handle_get_check_profile_report A i =
     with_profile A i (\<lambda>profile.
       and_then (query (build_check_profile_report (ap_env A) profile)) (\<lambda>report. ret (200, ReportPayload report)))"

text \<open>The route of the report's export does not catch what \<open>buildExportResource\<close> throws.\<close>

definition parse_format :: "string option \<Rightarrow> export_format option" where
  "parse_format v =
     (case v of
        None \<Rightarrow> Some FormatJson
      | Some s \<Rightarrow> if s = ''json'' then Some FormatJson else if s = ''csv'' then Some FormatCsv else None)"

definition handle_export_check_profile_report :: "api_host \<Rightarrow> ident \<Rightarrow> string option \<Rightarrow> response handler" where
  "handle_export_check_profile_report A i v =
     (case parse_format v of
        None \<Rightarrow> ret (400, ErrorPayload ''Unsupported export format'')
      | Some f \<Rightarrow>
          and_then (build_export_resource A \<lparr> ce_source = ExportCheckReport i, ce_format = f \<rparr>) (\<lambda>e.
            ret (200, TextPayload (ex_contentType e) (ex_filename e) (ex_body e))))"

section \<open>Streams of snapshots\<close>

text \<open>\<open>createJobSnapshotStream\<close>: a snapshot each second, at most sixty. \<open>dbs k\<close> is the database when the round that has
  \<open>k\<close> rounds before it reads the job.\<close>

fun send_snapshots :: "env \<Rightarrow> ident \<Rightarrow> (nat \<Rightarrow> db) \<Rightarrow> nat \<Rightarrow> nat \<Rightarrow> stream_event list" where
  "send_snapshots env i dbs k 0 = []"
| "send_snapshots env i dbs k (Suc left) =
     (case get_job env i (dbs k) of
        None \<Rightarrow> [JobMissing]
      | Some job \<Rightarrow>
          JobSnapshot job
          # (if sm_inflight (job_summary job) = 0 then [] else send_snapshots env i dbs (Suc k) left))"

definition create_job_snapshot_stream :: "env \<Rightarrow> ident \<Rightarrow> (nat \<Rightarrow> db) \<Rightarrow> stream_event list" where
  "create_job_snapshot_stream env i dbs = send_snapshots env i dbs 0 60"

end
