(* ===== verification/Api_Artifacts.thy ===== *)
theory Api_Artifacts
  imports Api_Derived Queue_Properties
begin

text \<open>
  Upload and download of browser audit artifacts, in \<open>apps/api/src/index.ts\<close>, over the store. While the body of an
  upload is being stored other requests run: what they do to the process between the write and the indexing is the
  argument \<open>upr_meanwhile\<close>. Then the invariant of both: every artifact of the index is in the store as the
  index says.
\<close>

section \<open>Headers\<close>

text \<open>\<open>/^Bearer\s+([^\s]+)$/i\<close>.\<close>

definition read_bearer_token :: "string option \<Rightarrow> string option" where
  "read_bearer_token authorization =
     (case authorization of
        None \<Rightarrow> None
      | Some v \<Rightarrow>
          (let rest = drop 6 v; token = dropWhile is_ws rest in
           if js_lower (take 6 v) = ''bearer'' \<and> rest \<noteq> [] \<and> is_ws (hd rest) \<and> token \<noteq> []
              \<and> list_all (\<lambda>c. \<not> is_ws c) token
           then Some token else None))"

definition parse_artifact_byte_size :: "string option \<Rightarrow> int option" where
  "parse_artifact_byte_size v =
     (case v of
        None \<Rightarrow> None
      | Some s \<Rightarrow>
          if s = [] \<or> \<not> canonical_digits s then None
          else if is_safe_integer (int (read_digits s)) then Some (int (read_digits s)) else None)"

definition media_type :: "string option \<Rightarrow> string" where
  "media_type v = (case v of None \<Rightarrow> [] | Some s \<Rightarrow> js_lower (js_trim (hd (split_char CHR '';'' s))))"

section \<open>Uploads\<close>

record upload_request =
  upr_authorization :: "string option"
  upr_kinds :: "string list"
  upr_filenames :: "string list"
  upr_contentType :: "string option"
  upr_artifactSize :: "string option"
  upr_contentLength :: "string option"
  upr_io :: write_io
  upr_meanwhile :: "world \<Rightarrow> world"

definition upload_claims :: "api_host \<Rightarrow> iso \<Rightarrow> string option \<Rightarrow> token_claims option" where
  "upload_claims A now authorization =
     Option.bind (read_bearer_token authorization)
       (verify_browser_audit_upload_token (ap_hmac A) (ap_parseJson A)
          [Some (ap_internalSecret A), ap_internalSecretNext A] now)"

definition upload_lease_live :: "env \<Rightarrow> ident \<Rightarrow> token_claims \<Rightarrow> iso \<Rightarrow> db \<Rightarrow> bool" where
  "upload_lease_live env auditId c now d =
     ((case get_execution_job (tk_executionJobId c) d of
         None \<Rightarrow> False
       | Some ej \<Rightarrow>
           ej_kind ej = BrowserAudit \<and> ej_resourceId ej = auditId \<and> ej_status ej = ERunning
           \<and> ej_leaseOwner ej = Some (tk_leaseOwner c) \<and> ej_attemptCount ej = tk_attemptCount c
           \<and> (case ej_leaseExpiresAt ej of None \<Rightarrow> False | Some e \<Rightarrow> e > now))
      \<and> get_browser_audit env auditId d \<noteq> None)"

record upload_fields =
  uf_kind :: string
  uf_filename :: string
  uf_contentType :: string
  uf_declaredSize :: int
  uf_maxBytes :: int

text \<open>The checks on query and headers: the response, or what they give.\<close>

definition check_upload :: "api_host \<Rightarrow> token_claims \<Rightarrow> upload_request \<Rightarrow> response + upload_fields" where
  "check_upload A c r =
     (let kind = (case upr_kinds r of [k] \<Rightarrow> parse_artifact_kind k | _ \<Rightarrow> None) in
      if kind = None \<or> length (upr_filenames r) \<noteq> 1
      then Inl (400, ErrorPayload ''Artifact kind and filename are required'')
      else (case normalize_artifact_filename (ap_nfkc A) (hd (upr_filenames r)) of
              None \<Rightarrow> Inl (400, ErrorPayload ''Artifact filename is invalid'')
            | Some filename \<Rightarrow>
                (let contentType = media_type (upr_contentType r) in
                 if contentType = [] \<or> contentType \<notin> set (artifact_content_types_for_kind (the kind))
                 then Inl (415, ErrorPayload ''Artifact content type is not allowed for its kind'')
                 else (case parse_artifact_byte_size (upr_artifactSize r) of
                         None \<Rightarrow> Inl (400, ErrorPayload ''Artifact byte size is required'')
                       | Some declared \<Rightarrow>
                           (let maxBytes = min (ap_maxArtifactBytes A) (tk_maxArtifactBytes c) in
                            if declared > maxBytes
                            then Inl (413, ErrorPayload ''Artifact exceeds the configured byte limit'')
                            else if upr_contentLength r \<noteq> None
                                    \<and> parse_artifact_byte_size (upr_contentLength r) \<noteq> Some declared
                            then Inl (400, ErrorPayload ''Artifact content length does not match its declared size'')
                            else Inr \<lparr> uf_kind = the kind, uf_filename = filename, uf_contentType = contentType,
                                       uf_declaredSize = declared, uf_maxBytes = maxBytes \<rparr>)))))"

definition stored_file :: "api_host \<Rightarrow> ident \<Rightarrow> ident \<Rightarrow> upload_fields \<Rightarrow> write_io \<Rightarrow> (store_error + stored_artifact_file) handler" where
  "stored_file A auditId artifactId f io s =
     (let (r, fs) = write_artifact (ap_sha256 A) auditId artifactId (uf_declaredSize f) (uf_maxBytes f) io (w_store s) in
      (Inr r, s\<lparr>w_store := fs\<rparr>))"

definition others_run :: "(world \<Rightarrow> world) \<Rightarrow> unit handler" where
  "others_run m s = (Inr (), m s)"

definition discard_file :: "string \<Rightarrow> iso \<Rightarrow> unit handler" where
  "discard_file key now s = (Inr (), s\<lparr>w_store := snd (delete_artifact key now (w_store s))\<rparr>)"

definition upload_failed :: "api_host \<Rightarrow> response handler" where
  "upload_failed A = failed_creation A ''Artifact upload failed''"

definition upload_record :: "ident \<Rightarrow> ident \<Rightarrow> upload_fields \<Rightarrow> stored_artifact_file \<Rightarrow> iso \<Rightarrow> artifact_record" where
  "upload_record auditId artifactId f stored createdAt =
     \<lparr> af_id = artifactId, af_auditId = auditId, af_registryVersion = ''v1'', af_kind = uf_kind f,
       af_filename = uf_filename f, af_contentType = uf_contentType f, af_byteSize = saf_byteSize stored,
       af_sha256 = saf_sha256 stored, af_storageKey = saf_storageKey stored, af_createdAt = createdAt \<rparr>"

definition upload_ref :: "artifact_record \<Rightarrow> artifact_ref option" where
  "upload_ref x =
     (case parse_artifact_kind (af_kind x) of
        None \<Rightarrow> None
      | Some kind \<Rightarrow>
          (let ref = \<lparr> art_id = af_id x, art_kind = kind, art_url = artifact_path (af_auditId x) (af_id x),
                       art_filename = Some (af_filename x), art_contentType = af_contentType x,
                       art_byteSize = Some (af_byteSize x), art_sha256 = Some (af_sha256 x),
                       art_createdAt = af_createdAt x \<rparr> in
           if artifact_ref_ok ref then Some ref else None))"

text \<open>A stored file: it is indexed, or it is deleted again. \<open>None\<close> if the repository throws.\<close>

definition try_index :: "artifact_record \<Rightarrow> bool option handler" where
  "try_index x =
     catch (and_then (transact (save_browser_audit_artifact x)) (\<lambda>indexed. ret (Some indexed))) (\<lambda>_. ret None)"

definition answer_upload :: "api_host \<Rightarrow> artifact_record \<Rightarrow> iso \<Rightarrow> bool option \<Rightarrow> response handler" where
  "answer_upload A x now indexed =
     (case indexed of
        None \<Rightarrow> and_then (upload_failed A) (\<lambda>r. and_then (discard_file (af_storageKey x) now) (\<lambda>_. ret r))
      | Some False \<Rightarrow>
          and_then (discard_file (af_storageKey x) now) (\<lambda>_. ret (409, ErrorPayload ''Artifact could not be indexed''))
      | Some True \<Rightarrow>
          (case upload_ref x of None \<Rightarrow> upload_failed A | Some ref \<Rightarrow> ret (201, ArtifactRefPayload ref)))"

definition index_upload ::
  "api_host \<Rightarrow> ident \<Rightarrow> ident \<Rightarrow> upload_fields \<Rightarrow> write_io \<Rightarrow> stored_artifact_file \<Rightarrow> response handler" where
  "index_upload A auditId artifactId f io stored =
     and_then (clock A) (\<lambda>createdAt.
       let x = upload_record auditId artifactId f stored createdAt in
       and_then (try_index x) (answer_upload A x (wi_now io)))"

definition store_named :: "api_host \<Rightarrow> ident \<Rightarrow> upload_request \<Rightarrow> upload_fields \<Rightarrow> ident \<Rightarrow> response handler" where
  "store_named A auditId r f artifactId =
     and_then (stored_file A auditId artifactId f (upr_io r)) (\<lambda>outcome.
     and_then (others_run (upr_meanwhile r)) (\<lambda>_.
       case outcome of
         Inl (StoreValidation m status) \<Rightarrow> ret (status, ErrorPayload m)
       | Inl (StoreFailure m) \<Rightarrow> upload_failed A
       | Inr stored \<Rightarrow> index_upload A auditId artifactId f (upr_io r) stored))"

definition store_upload :: "api_host \<Rightarrow> ident \<Rightarrow> upload_request \<Rightarrow> upload_fields \<Rightarrow> response handler" where
  "store_upload A auditId r f = and_then (id_or_new A ''artifact_'' None) (store_named A auditId r f)"

definition handle_browser_audit_artifact_upload :: "api_host \<Rightarrow> ident \<Rightarrow> upload_request \<Rightarrow> response handler" where
  "handle_browser_audit_artifact_upload A auditId r =
     and_then (clock A) (\<lambda>verifiedAt.
       case upload_claims A verifiedAt (upr_authorization r) of
         None \<Rightarrow> ret (401, ErrorPayload ''Artifact upload token is invalid or expired'')
       | Some c \<Rightarrow>
           if tk_auditId c \<noteq> auditId then ret (401, ErrorPayload ''Artifact upload token is invalid or expired'')
           else
             and_then (clock A) (\<lambda>now.
             and_then (query (upload_lease_live (ap_env A) auditId c now)) (\<lambda>live.
               if \<not> live then ret (409, ErrorPayload ''Artifact upload lease is no longer active'')
               else
                 and_then (query (\<lambda>d. length (list_browser_audit_artifacts auditId d))) (\<lambda>n.
                   if n \<ge> max_artifacts_per_audit
                   then ret (409, ErrorPayload ''Browser audit artifact limit has been reached'')
                   else (case check_upload A c r of
                           Inl response \<Rightarrow> ret response
                         | Inr f \<Rightarrow> store_upload A auditId r f)))))"

section \<open>Downloads\<close>

definition handle_browser_audit_artifact_download :: "api_host \<Rightarrow> ident \<Rightarrow> ident \<Rightarrow> response handler" where
  "handle_browser_audit_artifact_download A auditId artifactId s =
     (let missing = not_found ''Browser audit artifact not found'' in
      case get_browser_audit_artifact auditId artifactId (w_db s) of
        None \<Rightarrow> (Inr missing, s)
      | Some a \<Rightarrow>
          if get_browser_audit (ap_env A) auditId (w_db s) = None then (Inr missing, s)
          else (case open_download (af_storageKey a) (af_byteSize a) (w_store s) of
                  Inl _ \<Rightarrow> (Inr missing, s)
                | Inr f \<Rightarrow>
                    (Inr (200, FilePayload a (stream_file (nat (af_byteSize a)) (ff_content f))), s)))"

section \<open>The index and the store\<close>

definition backed :: "api_host \<Rightarrow> entries \<Rightarrow> artifact_record \<Rightarrow> bool" where
  "backed A fs r \<longleftrightarrow>
     artifact_storage_segment_ok (af_auditId r) \<and> artifact_storage_segment_ok (af_id r)
     \<and> af_storageKey r = storage_key (af_auditId r) (af_id r) \<and> is_safe_integer (af_byteSize r)
     \<and> (\<exists>f. artifact_at (af_auditId r) (af_id r) fs = Some f \<and> int (length (ff_content f)) = af_byteSize r
           \<and> ap_sha256 A (ff_content f) = af_sha256 r \<and> ff_owned f \<and> ff_private f)"

definition index_backed :: "api_host \<Rightarrow> world \<Rightarrow> bool" where
  "index_backed A s \<longleftrightarrow> (\<forall>r \<in> set (db_artifacts (w_db s)). backed A (w_store s) r)"

text \<open>What other requests do meanwhile: they keep the invariant and the files of artifacts, and index only files that
  they wrote themselves.\<close>

definition others_keep :: "api_host \<Rightarrow> (world \<Rightarrow> world) \<Rightarrow> bool" where
  "others_keep A m \<longleftrightarrow>
     (\<forall>s. (index_backed A s \<longrightarrow> index_backed A (m s))
        \<and> (\<forall>a b f. artifact_storage_segment_ok b \<and> artifact_at a b (w_store s) = Some f
              \<longrightarrow> artifact_at a b (w_store (m s)) = Some f)
        \<and> (\<forall>r \<in> set (db_artifacts (w_db (m s))).
              r \<in> set (db_artifacts (w_db s)) \<or> artifact_at (af_auditId r) (af_id r) (w_store s) = None))"

lemma artifact_at_delete:
  assumes "artifact_storage_segment_ok x" "artifact_storage_segment_ok y"
  shows "artifact_at a b (snd (delete_artifact (storage_key x y) now fs))
    = (if (a, b) = (x, y) then None else artifact_at a b fs)"
proof (cases "open_private_directory x fs")
  case None
  then have "artifact_at x b fs = None" for b by (simp add: artifact_at_def)
  with None show ?thesis by (auto simp: delete_artifact_def location_of_key [OF assms])
next
  case (Some es)
  then have "map_of fs x \<noteq> None" by (cases "map_of fs x") (simp_all add: open_private_directory_def)
  moreover have "artifact_at x b fs = (case map_of es b of Some (FsFile f) \<Rightarrow> Some f | _ \<Rightarrow> None)" for b
    using Some by (simp add: artifact_at_def)
  ultimately show ?thesis
    using Some
    by (auto simp: delete_artifact_def location_of_key [OF assms] artifact_at_write_directory [OF Some]
        map_of_drop_entry)
qed

lemma normalized_record:
  assumes "normalize_artifact_record a = Some a'"
  shows "a' = a\<lparr>af_kind := af_kind a'\<rparr>" "parse_artifact_kind (af_kind a) = Some (af_kind a')"
    "artifact_storage_segment_ok (af_auditId a)" "artifact_storage_segment_ok (af_id a)"
    "af_storageKey a = storage_key (af_auditId a) (af_id a)"
  using assms by (auto simp: normalize_artifact_record_def storage_key_def split: option.splits if_splits)

lemma save_artifact_cases:
  assumes "save_browser_audit_artifact a d = Inr (d', ok)"
  obtains (kept) "\<not> ok" "d' = d"
  | (added) a' where "ok" "normalize_artifact_record a = Some a'" "get_artifact_row (af_auditId a) (af_id a) d = None"
      "db_artifacts d' = db_artifacts d @ [a']" "d' = d\<lparr>db_artifacts := db_artifacts d @ [a']\<rparr>"
proof -
  from assms obtain a' where n: "normalize_artifact_record a = Some a'"
    by (auto simp: save_browser_audit_artifact_def split: option.splits)
  from normalized_record(1) [OF n] have "af_auditId a' = af_auditId a" "af_id a' = af_id a"
    by (metis artifact_record.select_convs artifact_record.surjective artifact_record.update_convs)+
  with assms n show thesis
    by (cases "get_artifact_row (af_auditId a) (af_id a) d = None"; cases ok)
      (auto simp: save_browser_audit_artifact_def row_insert_new_def Let_def
        split: if_splits intro: kept added)
qed

lemma legacy_kinds:
  "js_trim ''lighthouse-json'' = ''lighthouse-json''" "js_trim ''lighthouse-html'' = ''lighthouse-html''"
  "audit_identifier_ok ''lighthouse-json''" "audit_identifier_ok ''lighthouse-html''"
  by (simp_all add: js_trim_def is_ws_def audit_identifier_ok_def region_char_def is_lower_def is_digit_def)

lemma parse_kind_trimmed:
  "js_trim k = k \<Longrightarrow> parse_artifact_kind k =
     (if k = ''json'' then Some ''lighthouse-json'' else if k = ''html'' then Some ''lighthouse-html''
      else if audit_identifier_ok k then Some k else None)"
  by (simp add: parse_artifact_kind_def legacy_kinds)

lemma parse_kind_result: "parse_artifact_kind k = Some k' \<Longrightarrow> js_trim k' = k' \<and> audit_identifier_ok k'"
  unfolding parse_artifact_kind_def Let_def
  by (cases "audit_identifier_ok (js_trim (if k = ''json'' then ''lighthouse-json''
        else if k = ''html'' then ''lighthouse-html'' else k))") auto

lemma parse_kind_twice:
  assumes "parse_artifact_kind k = Some k'" "parse_artifact_kind k' = Some k''"
  shows "parse_artifact_kind k'' = Some k''"
proof -
  have k': "js_trim k' = k' \<and> audit_identifier_ok k'" by (rule parse_kind_result [OF assms(1)])
  then consider "k'' = ''lighthouse-json''" | "k'' = ''lighthouse-html''" | "k'' = k'" "k' \<noteq> ''json''" "k' \<noteq> ''html''"
    using assms(2) parse_kind_trimmed [of k'] by (auto split: if_splits)
  then show ?thesis
    by cases (use k' in \<open>simp_all add: parse_kind_trimmed legacy_kinds\<close>)
qed

lemma upload_ref_of_indexed:
  assumes "normalize_artifact_record x = Some x'" "parse_artifact_kind k = Some (af_kind x)"
  shows "upload_ref x \<noteq> None"
  using assms parse_kind_twice [OF assms(2)] normalized_record(2) [OF assms(1)] segment_no_char [of "af_id x"]
  by (auto simp: normalize_artifact_record_def upload_ref_def artifact_ref_ok_def artifact_path_def list_all_iff Let_def
      split: option.splits if_splits)

lemma try_index_cases:
  assumes "try_index x s = (r, s')"
  obtains (failed) "r = Inr None" "s' = s"
  | (refused) "r = Inr (Some False)" "s' = s"
  | (added) x' where "r = Inr (Some True)" "normalize_artifact_record x = Some x'"
      "s' = s\<lparr>w_db := (w_db s)\<lparr>db_artifacts := db_artifacts (w_db s) @ [x']\<rparr>\<rparr>"
proof (cases "save_browser_audit_artifact x (w_db s)")
  case (Inl m)
  with assms show thesis by (intro failed) (auto simp: try_index_def and_then_def catch_def transact_def ret_def)
next
  case (Inr q)
  obtain d' ok where q: "q = (d', ok)" by (cases q)
  from assms Inr q have r: "r = Inr (Some ok)" "s' = s\<lparr>w_db := d'\<rparr>"
    by (auto simp: try_index_def and_then_def catch_def transact_def ret_def)
  from Inr q have "save_browser_audit_artifact x (w_db s) = Inr (d', ok)" by simp
  then show thesis
  proof (cases rule: save_artifact_cases)
    case kept
    with r show thesis by (intro refused) simp_all
  next
    case (added x')
    with r show thesis by (intro that(3)) simp_all
  qed
qed

lemma index_upload_run:
  assumes "index_upload A auditId artifactId f io stored s = (Inr (status, p), s')"
    "saf_storageKey stored = storage_key auditId artifactId" "parse_artifact_kind k = Some (uf_kind f)"
  obtains (discarded) "w_db s' = w_db s" "status \<noteq> 201"
      "w_store s' = snd (delete_artifact (storage_key auditId artifactId) (wi_now io) (w_store s))"
  | (indexed) x where "w_store s' = w_store s" "status = 201"
      "w_db s' = (w_db s)\<lparr>db_artifacts := db_artifacts (w_db s) @ [x]\<rparr>" "af_auditId x = auditId" "af_id x = artifactId"
      "af_storageKey x = storage_key auditId artifactId" "af_byteSize x = saf_byteSize stored"
      "af_sha256 x = saf_sha256 stored"
proof -
  let ?s = "s\<lparr>w_ticks := Suc (w_ticks s)\<rparr>"
  let ?x = "upload_record auditId artifactId f stored (ap_time A (w_ticks s))"
  obtain r s1 where t: "try_index ?x ?s = (r, s1)" by (cases "try_index ?x ?s")
  have key: "af_storageKey ?x = storage_key auditId artifactId" by (simp add: upload_record_def assms(2))
  from assms(1) t have run: "(case r of Inl e \<Rightarrow> (Inl e, s1) | Inr ok \<Rightarrow> answer_upload A ?x (wi_now io) ok s1)
      = (Inr (status, p), s')"
    by (auto simp: index_upload_def and_then_def clock_def Let_def split: sum.splits)
  from t show thesis
  proof (cases rule: try_index_cases)
    case failed
    with run show thesis
      by (intro discarded) (auto simp: answer_upload_def and_then_def upload_failed_def failed_creation_def
          random_uuid_def discard_file_def ret_def key)
  next
    case refused
    with run show thesis
      by (intro discarded) (auto simp: answer_upload_def and_then_def discard_file_def ret_def key)
  next
    case (added x')
    have "upload_ref ?x \<noteq> None"
      using added(2) assms(3) by (intro upload_ref_of_indexed) (simp_all add: upload_record_def)
    moreover have "af_auditId x' = af_auditId ?x \<and> af_id x' = af_id ?x \<and> af_storageKey x' = af_storageKey ?x
        \<and> af_byteSize x' = af_byteSize ?x \<and> af_sha256 x' = af_sha256 ?x"
      by (subst (1 2 3 4 5) normalized_record(1) [OF added(2)]) simp
    ultimately show thesis
      using added run
      by (intro indexed [of x']) (auto simp: answer_upload_def ret_def upload_record_def assms(2) split: option.splits)
  qed
qed

section \<open>Uploads keep the index backed\<close>

lemma index_backedD: "index_backed A s \<Longrightarrow> r \<in> set (db_artifacts (w_db s)) \<Longrightarrow> backed A (w_store s) r"
  by (simp add: index_backed_def)

lemma backed_mono:
  assumes "backed A fs r" "\<And>f. artifact_at (af_auditId r) (af_id r) fs = Some f \<Longrightarrow> artifact_at (af_auditId r) (af_id r) fs' = Some f"
  shows "backed A fs' r"
  using assms unfolding backed_def by blast

lemma get_artifact_row_None:
  "get_artifact_row a b d = None \<longleftrightarrow> (\<forall>r \<in> set (db_artifacts d). \<not> (af_auditId r = a \<and> af_id r = b))"
proof -
  have "first_row xs = None \<longleftrightarrow> xs = []" for xs :: "artifact_record list" by (cases xs) (simp_all add: first_row_def)
  then show ?thesis by (simp add: get_artifact_row_def filter_empty_conv)
qed

lemma artifact_exists: "artifact_at a b fs = None \<Longrightarrow> backed A fs r \<Longrightarrow> \<not> (af_auditId r = a \<and> af_id r = b)"
  by (auto simp: backed_def)

lemma stored_file_run:
  assumes "stored_file A auditId artifactId f io s = (q, s')"
  obtains r where "q = Inr r" "s' = s\<lparr>w_store := w_store s'\<rparr>"
    "write_artifact (ap_sha256 A) auditId artifactId (uf_declaredSize f) (uf_maxBytes f) io (w_store s) = (r, w_store s')"
  using assms by (auto simp: stored_file_def split: prod.splits)

lemma index_backed_store:
  assumes "index_backed A s" "write_artifact (ap_sha256 A) auditId artifactId n m io (w_store s) = (r, fs)"
  shows "index_backed A (s\<lparr>w_store := fs\<rparr>)"
  unfolding index_backed_def
proof (intro ballI)
  fix x assume x: "x \<in> set (db_artifacts (w_db (s\<lparr>w_store := fs\<rparr>)))"
  with assms(1) have b: "backed A (w_store s) x" by (simp add: index_backed_def)
  then have seg: "artifact_storage_segment_ok (af_id x)" by (simp add: backed_def)
  have "artifact_at (af_auditId x) (af_id x) fs = artifact_at (af_auditId x) (af_id x) (w_store s)"
  proof (cases r)
    case (Inr sf)
    then have "artifact_at auditId artifactId (w_store s) = None"
      using write_artifact_cases [OF assms(2) seg] by blast
    with artifact_exists [OF _ b] have "(af_auditId x, af_id x) \<noteq> (auditId, artifactId)" by blast
    with write_artifact_cases [OF assms(2) seg, of "af_auditId x"] show ?thesis by simp
  qed (use write_artifact_cases [OF assms(2) seg, of "af_auditId x"] in simp)
  then show "backed A (w_store (s\<lparr>w_store := fs\<rparr>)) x" by (intro backed_mono [OF b]) simp
qed

lemma index_backed_frame: "w_db s' = w_db s \<Longrightarrow> w_store s' = w_store s \<Longrightarrow> index_backed A s' = index_backed A s"
  by (simp add: index_backed_def)

lemma upload_failed_run: "upload_failed A s = (Inr (500, IncidentPayload ''Artifact upload failed'' (ap_uuid A (w_uuids s))), s\<lparr>w_uuids := Suc (w_uuids s)\<rparr>)"
  by (simp add: upload_failed_def failed_creation_def and_then_def random_uuid_def ret_def)

lemma answer_upload_returns: "\<exists>status p s'. answer_upload A x now ok s = (Inr (status, p), s')"
  by (auto simp: answer_upload_def and_then_def upload_failed_run discard_file_def ret_def split: option.splits bool.splits)

lemma index_upload_returns: "\<exists>status p s'. index_upload A auditId artifactId f io stored s = (Inr (status, p), s')"
proof -
  let ?s = "s\<lparr>w_ticks := Suc (w_ticks s)\<rparr>"
  let ?x = "upload_record auditId artifactId f stored (ap_time A (w_ticks s))"
  obtain r s1 where t: "try_index ?x ?s = (r, s1)" by (cases "try_index ?x ?s")
  then obtain ok where "r = Inr ok" by (cases rule: try_index_cases) blast+
  with t answer_upload_returns [of A ?x "wi_now io" ok s1] show ?thesis
    by (auto simp: index_upload_def and_then_def clock_def Let_def)
qed

lemma backed_discard:
  assumes "backed A fs x" "artifact_storage_segment_ok a" "artifact_storage_segment_ok b"
    "\<not> (af_auditId x = a \<and> af_id x = b)"
  shows "backed A (snd (delete_artifact (storage_key a b) now fs)) x"
  using assms(4) by (intro backed_mono [OF assms(1)]) (auto simp: artifact_at_delete [OF assms(2,3)])

lemma index_upload_backed:
  assumes "index_backed A s" "index_upload A auditId artifactId f io (stored_result (ap_sha256 A) auditId artifactId io) s = (q, s')"
    "parse_artifact_kind k = Some (uf_kind f)" "artifact_storage_segment_ok auditId"
    "artifact_storage_segment_ok artifactId" "is_safe_integer (int (length (body_bytes io)))"
    "get_artifact_row auditId artifactId (w_db s) = None"
    "artifact_at auditId artifactId (w_store s) =
       Some \<lparr> ff_content = body_bytes io, ff_mtime = wi_now io, ff_owned = True, ff_private = True \<rparr>"
  shows "index_backed A s'"
proof -
  obtain status p where q: "q = Inr (status, p)"
    using index_upload_returns [of A auditId artifactId f io "stored_result (ap_sha256 A) auditId artifactId io" s] assms(2)
    by auto
  have other: "\<not> (af_auditId x = auditId \<and> af_id x = artifactId)" if "x \<in> set (db_artifacts (w_db s))" for x
    using assms(7) that by (simp add: get_artifact_row_None)
  show ?thesis
  proof (rule index_upload_run [OF assms(2) [unfolded q] _ assms(3)])
    show "saf_storageKey (stored_result (ap_sha256 A) auditId artifactId io) = storage_key auditId artifactId"
      by (simp add: stored_result_def)
  next
    assume "w_db s' = w_db s"
      and "w_store s' = snd (delete_artifact (storage_key auditId artifactId) (wi_now io) (w_store s))"
    then show ?thesis
      using backed_discard [OF index_backedD [OF assms(1)] assms(4,5) other] by (simp add: index_backed_def)
  next
    fix x
    assume x: "w_store s' = w_store s" "w_db s' = (w_db s)\<lparr>db_artifacts := db_artifacts (w_db s) @ [x]\<rparr>"
      "af_auditId x = auditId" "af_id x = artifactId" "af_storageKey x = storage_key auditId artifactId"
      "af_byteSize x = saf_byteSize (stored_result (ap_sha256 A) auditId artifactId io)"
      "af_sha256 x = saf_sha256 (stored_result (ap_sha256 A) auditId artifactId io)"
    then have "backed A (w_store s) x" using assms(4,5,6,8) by (simp add: backed_def stored_result_def)
    with x assms(1) show ?thesis by (auto simp: index_backed_def)
  qed
qed

lemma unindexed_meanwhile:
  assumes "index_backed A s" "others_keep A m" "artifact_at a b (w_store s) = None" "artifact_at a b fs \<noteq> None"
  shows "get_artifact_row a b (w_db (m (s\<lparr>w_store := fs\<rparr>))) = None"
  unfolding get_artifact_row_None
proof (intro ballI notI)
  fix r assume r: "r \<in> set (db_artifacts (w_db (m (s\<lparr>w_store := fs\<rparr>))))" "af_auditId r = a \<and> af_id r = b"
  with assms(2) consider "r \<in> set (db_artifacts (w_db s))" | "artifact_at a b fs = None"
    unfolding others_keep_def by (metis world.select_convs(1,2) world.surjective world.update_convs(2))
  then show False
    by cases (use index_backedD [OF assms(1)] artifact_exists [OF assms(3)] r(2) assms(4) in auto)
qed

lemma written_facts:
  assumes "write_artifact sha256 auditId artifactId n m io fs0 = (Inr stored, fs)"
  shows "artifact_storage_segment_ok auditId" "artifact_storage_segment_ok artifactId"
    "artifact_at auditId artifactId fs0 = None" "is_safe_integer (int (length (body_bytes io)))"
    "stored = stored_result sha256 auditId artifactId io"
    "artifact_at auditId artifactId fs =
       Some \<lparr> ff_content = body_bytes io, ff_mtime = wi_now io, ff_owned = True, ff_private = True \<rparr>"
proof -
  have a: "artifact_storage_segment_ok ''a''"
    by (simp add: artifact_storage_segment_ok_def is_alnum_def is_lower_def is_digit_def is_upper_def)
  from write_artifact_cases [OF assms a]
  show 1: "artifact_storage_segment_ok auditId" "artifact_storage_segment_ok artifactId"
    "artifact_at auditId artifactId fs0 = None" "is_safe_integer (int (length (body_bytes io)))"
    "stored = stored_result sha256 auditId artifactId io"
    by auto
  show "artifact_at auditId artifactId fs =
       Some \<lparr> ff_content = body_bytes io, ff_mtime = wi_now io, ff_owned = True, ff_private = True \<rparr>"
    using write_artifact_cases [OF assms 1(2), of auditId] by simp
qed

lemma store_named_run:
  assumes "store_named A auditId r f artifactId s = (q, s')"
  obtains (failed) e fs where
      "write_artifact (ap_sha256 A) auditId artifactId (uf_declaredSize f) (uf_maxBytes f) (upr_io r) (w_store s) = (Inl e, fs)"
      "w_db s' = w_db (upr_meanwhile r (s\<lparr>w_store := fs\<rparr>))" "w_store s' = w_store (upr_meanwhile r (s\<lparr>w_store := fs\<rparr>))"
      "\<exists>status p. q = Inr (status, p) \<and> (status = 500 \<or> (\<exists>m. e = StoreValidation m status))"
  | (written) fs where
      "write_artifact (ap_sha256 A) auditId artifactId (uf_declaredSize f) (uf_maxBytes f) (upr_io r) (w_store s)
       = (Inr (stored_result (ap_sha256 A) auditId artifactId (upr_io r)), fs)"
      "index_upload A auditId artifactId f (upr_io r) (stored_result (ap_sha256 A) auditId artifactId (upr_io r))
         (upr_meanwhile r (s\<lparr>w_store := fs\<rparr>)) = (q, s')"
proof -
  obtain o1 fs where w: "write_artifact (ap_sha256 A) auditId artifactId (uf_declaredSize f) (uf_maxBytes f) (upr_io r) (w_store s) = (o1, fs)"
    by (cases "write_artifact (ap_sha256 A) auditId artifactId (uf_declaredSize f) (uf_maxBytes f) (upr_io r) (w_store s)")
  from assms w have run: "(case o1 of
        Inl (StoreValidation m status) \<Rightarrow> ret (status, ErrorPayload m)
      | Inl (StoreFailure m) \<Rightarrow> upload_failed A
      | Inr stored \<Rightarrow> index_upload A auditId artifactId f (upr_io r) stored) (upr_meanwhile r (s\<lparr>w_store := fs\<rparr>)) = (q, s')"
    by (simp add: store_named_def and_then_def stored_file_def others_run_def)
  show thesis
  proof (cases o1)
    case (Inl e)
    with run w show thesis by (intro failed [of e fs]) (cases e; auto simp: ret_def upload_failed_run)+
  next
    case (Inr stored)
    with written_facts(5) w have "stored = stored_result (ap_sha256 A) auditId artifactId (upr_io r)" by blast
    with run w Inr show thesis by (intro written) simp_all
  qed
qed

lemma store_named_backed:
  assumes "index_backed A s" "others_keep A (upr_meanwhile r)" "store_named A auditId r f artifactId s = (q, s')"
    "parse_artifact_kind k = Some (uf_kind f)"
  shows "index_backed A s'"
proof (rule store_named_run [OF assms(3)])
  fix e fs
  assume w: "write_artifact (ap_sha256 A) auditId artifactId (uf_declaredSize f) (uf_maxBytes f) (upr_io r) (w_store s) = (Inl e, fs)"
    and s': "w_db s' = w_db (upr_meanwhile r (s\<lparr>w_store := fs\<rparr>))" "w_store s' = w_store (upr_meanwhile r (s\<lparr>w_store := fs\<rparr>))"
  have "index_backed A (upr_meanwhile r (s\<lparr>w_store := fs\<rparr>))"
    using index_backed_store [OF assms(1) w] assms(2) by (simp add: others_keep_def)
  with s' show ?thesis by (simp add: index_backed_def)
next
  fix fs
  assume w: "write_artifact (ap_sha256 A) auditId artifactId (uf_declaredSize f) (uf_maxBytes f) (upr_io r) (w_store s)
       = (Inr (stored_result (ap_sha256 A) auditId artifactId (upr_io r)), fs)"
    and i: "index_upload A auditId artifactId f (upr_io r) (stored_result (ap_sha256 A) auditId artifactId (upr_io r))
         (upr_meanwhile r (s\<lparr>w_store := fs\<rparr>)) = (q, s')"
  note facts = written_facts [OF w]
  show ?thesis
  proof (rule index_upload_backed [OF _ i assms(4) facts(1,2,4)])
    show "index_backed A (upr_meanwhile r (s\<lparr>w_store := fs\<rparr>))"
      using index_backed_store [OF assms(1) w] assms(2) by (simp add: others_keep_def)
    show "get_artifact_row auditId artifactId (w_db (upr_meanwhile r (s\<lparr>w_store := fs\<rparr>))) = None"
      using facts(6) by (intro unindexed_meanwhile [OF assms(1,2) facts(3)]) simp
    show "artifact_at auditId artifactId (w_store (upr_meanwhile r (s\<lparr>w_store := fs\<rparr>)))
        = Some \<lparr> ff_content = body_bytes (upr_io r), ff_mtime = wi_now (upr_io r), ff_owned = True, ff_private = True \<rparr>"
      using assms(2) facts(2,6) by (simp add: others_keep_def)
  qed
qed

text \<open>The ways through the upload handler.\<close>

lemma check_upload_refuses: "check_upload A c r = Inl (status, p) \<Longrightarrow> status \<in> {400, 413, 415}"
  by (auto simp: check_upload_def Let_def split: if_splits option.splits)

lemma upload_run:
  assumes "handle_browser_audit_artifact_upload A auditId r s = (q, s')"
  obtains (refused) status p where "q = Inr (status, p)" "status \<noteq> 201" "w_db s' = w_db s" "w_store s' = w_store s"
  | (stored) c f s1 i where "upload_claims A (ap_time A (w_ticks s)) (upr_authorization r) = Some c" "tk_auditId c = auditId"
      "upload_lease_live (ap_env A) auditId c (ap_time A (Suc (w_ticks s))) (w_db s)" "check_upload A c r = Inr f"
      "w_db s1 = w_db s" "w_store s1 = w_store s"
      "store_named A auditId r f i s1 = (q, s')"
      "length (list_browser_audit_artifacts auditId (w_db s)) < max_artifacts_per_audit"
proof -
  let ?t = "ap_time A (w_ticks s)" and ?u = "ap_time A (Suc (w_ticks s))"
  let ?s1 = "s\<lparr>w_ticks := Suc (w_ticks s)\<rparr>" and ?s2 = "s\<lparr>w_ticks := Suc (Suc (w_ticks s))\<rparr>"
  have run: "(case upload_claims A ?t (upr_authorization r) of
         None \<Rightarrow> ret (401, ErrorPayload ''Artifact upload token is invalid or expired'')
       | Some c \<Rightarrow>
           if tk_auditId c \<noteq> auditId then ret (401, ErrorPayload ''Artifact upload token is invalid or expired'')
           else
             and_then (clock A) (\<lambda>now.
             and_then (query (upload_lease_live (ap_env A) auditId c now)) (\<lambda>live.
               if \<not> live then ret (409, ErrorPayload ''Artifact upload lease is no longer active'')
               else
                 and_then (query (\<lambda>d. length (list_browser_audit_artifacts auditId d))) (\<lambda>n.
                   if n \<ge> max_artifacts_per_audit
                   then ret (409, ErrorPayload ''Browser audit artifact limit has been reached'')
                   else (case check_upload A c r of
                           Inl response \<Rightarrow> ret response
                         | Inr f \<Rightarrow> store_upload A auditId r f))))) ?s1 = (q, s')"
    using assms by (simp add: handle_browser_audit_artifact_upload_def and_then_def clock_def)
  show thesis
  proof (cases "upload_claims A ?t (upr_authorization r)")
    case None
    with run show thesis by (intro refused) (auto simp: ret_def)
  next
    case (Some c)
    show thesis
    proof (cases "tk_auditId c = auditId \<and> upload_lease_live (ap_env A) auditId c ?u (w_db s)
        \<and> length (list_browser_audit_artifacts auditId (w_db s)) < max_artifacts_per_audit")
      case False
      with run Some consider
          "(q, s') = (Inr (401, ErrorPayload ''Artifact upload token is invalid or expired''), ?s1)"
        | "(q, s') = (Inr (409, ErrorPayload ''Artifact upload lease is no longer active''), ?s2)"
        | "(q, s') = (Inr (409, ErrorPayload ''Browser audit artifact limit has been reached''), ?s2)"
        by (cases "tk_auditId c = auditId"; cases "upload_lease_live (ap_env A) auditId c ?u (w_db s)")
          (simp_all add: ret_def and_then_def clock_def query_def)
      then have "\<exists>status p. q = Inr (status, p) \<and> status \<noteq> 201 \<and> w_db s' = w_db s \<and> w_store s' = w_store s"
        by cases simp_all
      then show thesis using refused by blast
    next
      case True
      with run Some have rest: "(case check_upload A c r of Inl response \<Rightarrow> ret response
          | Inr f \<Rightarrow> store_upload A auditId r f) ?s2 = (q, s')"
        by (simp add: and_then_def clock_def query_def)
      show thesis
      proof (cases "check_upload A c r")
        case (Inl response)
        with rest check_upload_refuses [of A c r] show thesis
          by (cases response, intro refused [of "fst response" "snd response"]) (auto simp: ret_def)
      next
        case (Inr f)
        with rest have "store_named A auditId r f (''artifact_'' @ ap_uuid A (w_uuids s)) (?s2\<lparr>w_uuids := Suc (w_uuids s)\<rparr>) = (q, s')"
          by (simp add: store_upload_def id_or_new_def and_then_def random_uuid_def ret_def del: append_Cons)
        with Some True Inr show thesis
          by (intro stored [of c f "?s2\<lparr>w_uuids := Suc (w_uuids s)\<rparr>"]) simp_all
      qed
    qed
  qed
qed

lemma check_upload_kind: "check_upload A c r = Inr f \<Longrightarrow> \<exists>k. parse_artifact_kind k = Some (uf_kind f)"
  by (auto simp: check_upload_def Let_def split: if_splits option.splits list.splits)

lemma upload_backed:
  assumes "index_backed A s" "others_keep A (upr_meanwhile r)"
  shows "index_backed A (snd (handle_browser_audit_artifact_upload A auditId r s))"
proof -
  obtain q s' where run: "handle_browser_audit_artifact_upload A auditId r s = (q, s')"
    by (cases "handle_browser_audit_artifact_upload A auditId r s")
  then show ?thesis
  proof (cases rule: upload_run)
    case (stored c f s1 i)
    from check_upload_kind [OF stored(4)] obtain k where k: "parse_artifact_kind k = Some (uf_kind f)" ..
    have "index_backed A s1" using assms(1) stored(5,6) by (simp add: index_backed_def)
    from store_named_backed [OF this assms(2) stored(7) k] show ?thesis by (simp add: run)
  qed (use assms(1) in \<open>simp add: run index_backed_def\<close>)
qed

lemma write_status:
  "write_artifact sha256 auditId artifactId n m io fs = (Inl (StoreValidation e status), fs') \<Longrightarrow> status \<in> {400, 409, 413}"
  by (auto simp: write_artifact_def segment_error_def write_in_directory_def receive_artifact_def publish_artifact_def Let_def
      split: if_splits option.splits prod.splits sum.splits)

definition accepted_upload :: "api_host \<Rightarrow> ident \<Rightarrow> upload_request \<Rightarrow> world \<Rightarrow> token_claims \<Rightarrow> upload_fields \<Rightarrow> bool" where
  "accepted_upload A auditId r s c f \<longleftrightarrow>
     upload_claims A (ap_time A (w_ticks s)) (upr_authorization r) = Some c \<and> tk_auditId c = auditId
     \<and> upload_lease_live (ap_env A) auditId c (ap_time A (Suc (w_ticks s))) (w_db s) \<and> check_upload A c r = Inr f"


section \<open>Downloads and startup\<close>

lemma backed_normalized:
  "backed A fs r \<Longrightarrow> normalize_artifact_record r = Some x \<Longrightarrow> backed A fs x"
  using normalized_record(1) [of r x] unfolding backed_def
  by (metis artifact_record.select_convs artifact_record.surjective artifact_record.update_convs(4))

lemma download_backed:
  assumes "index_backed A s" "get_browser_audit_artifact a b (w_db s) = Some x" "get_browser_audit (ap_env A) a (w_db s) \<noteq> None"
  shows "\<exists>ps. handle_browser_audit_artifact_download A a b s = (Inr (200, FilePayload x (Some ps)), s)
     \<and> int (length (concat ps)) = af_byteSize x \<and> ap_sha256 A (concat ps) = af_sha256 x
     \<and> list_all (\<lambda>p. 1 \<le> length p \<and> length p \<le> 65536) ps"
proof -
  from assms(2) obtain r where r: "get_artifact_row a b (w_db s) = Some r" "normalize_artifact_record r = Some x"
    by (cases "get_artifact_row a b (w_db s)") (simp_all add: get_browser_audit_artifact_def)
  have "r \<in> set (filter (\<lambda>r. af_auditId r = a \<and> af_id r = b) (db_artifacts (w_db s)))"
    using r(1) unfolding get_artifact_row_def
    by (cases "filter (\<lambda>r. af_auditId r = a \<and> af_id r = b) (db_artifacts (w_db s))") (simp_all add: first_row_def)
  then have "r \<in> set (db_artifacts (w_db s))" by simp
  with assms(1) r(2) have "backed A (w_store s) x" using backed_normalized index_backedD by blast
  then obtain f where f: "artifact_at (af_auditId x) (af_id x) (w_store s) = Some f" "int (length (ff_content f)) = af_byteSize x"
    "ap_sha256 A (ff_content f) = af_sha256 x" "ff_owned f" "ff_private f" "is_safe_integer (af_byteSize x)"
    "af_storageKey x = storage_key (af_auditId x) (af_id x)" "artifact_storage_segment_ok (af_auditId x)"
    "artifact_storage_segment_ok (af_id x)" by (auto simp: backed_def)
  then have "open_download (af_storageKey x) (af_byteSize x) (w_store s) = Inr f"
    by (auto simp: open_download_def location_of_key)
  moreover have "nat (af_byteSize x) = length (ff_content f)" using f(2) by simp
  ultimately show ?thesis
    using assms(2,3) f(2,3) stream_file_pieces [of "ff_content f"]
    by (auto simp: handle_browser_audit_artifact_download_def Let_def)
qed

lemma storage_keys_set: "set (list_artifact_storage_keys d) = af_storageKey ` set (db_artifacts d)"
  by (simp add: list_artifact_storage_keys_def order_by_def)

text \<open>Startup reconciles the store with the keys of the index.\<close>

lemma startup_backed:
  assumes "index_backed A s"
  shows "\<exists>fs counts. reconcile_store (list_artifact_storage_keys (w_db s)) False None now (w_store s) = Inr (fs, counts)
     \<and> index_backed A (s\<lparr>w_store := fs\<rparr>)"
proof -
  have valid: "\<exists>l. location_for_storage_key k = Inr l" if "k \<in> set (list_artifact_storage_keys (w_db s))" for k
    using that index_backedD [OF assms] by (auto simp: storage_keys_set backed_def location_of_key)
  then have "find (\<lambda>k. isl (location_for_storage_key k)) (list_artifact_storage_keys (w_db s)) = None"
    by (fastforce simp: find_None_iff)
  then obtain fs counts where r: "reconcile_store (list_artifact_storage_keys (w_db s)) False None now (w_store s) = Inr (fs, counts)"
    by (cases "reconcile_entries (set (list_artifact_storage_keys (w_db s))) 3600000 (now - 3600000) now (w_store s)
          \<lparr> rn_removedFiles = 0, rn_removedDirectories = 0 \<rparr>")
      (simp add: reconcile_store_def artifact_reconciliation_grace_ms_def is_safe_integer_def)
  have "backed A fs x" if "x \<in> set (db_artifacts (w_db s))" for x
  proof -
    have b: "backed A (w_store s) x" by (rule index_backedD [OF assms that])
    then have "storage_key (af_auditId x) (af_id x) = af_storageKey x" by (simp add: backed_def)
    with that have k: "storage_key (af_auditId x) (af_id x) \<in> set (list_artifact_storage_keys (w_db s))"
      by (simp add: storage_keys_set)
    from b have "artifact_storage_segment_ok (af_auditId x)" "artifact_storage_segment_ok (af_id x)"
      by (simp_all add: backed_def)
    with reconcile_store_keeps [OF r _ _ _ k] b show ?thesis by (intro backed_mono [OF b]) simp
  qed
  with r show ?thesis by (intro exI [of _ fs] exI [of _ counts]) (simp add: index_backed_def)
qed


section \<open>Witnesses\<close>

definition demo_api :: api_host where
  "demo_api =
     \<lparr> ap_env = demo_env, ap_parseUrl = (\<lambda>_. None), ap_href = (\<lambda>_. []), ap_hmac = (\<lambda>_ _. []), ap_time = int,
       ap_uuid = show_nat, ap_regionId = ''r'', ap_retentionDays = 30, ap_maxTargetAttempts = 3,
       ap_browserAuditBaseUrl = None, ap_artifactUploadBaseUrl = None, ap_artifactUploadTtlSeconds = 60,
       ap_maxArtifactBytes = 9, ap_internalSecret = ''secret'', ap_internalSecretNext = None, ap_parseJson = (\<lambda>_. None),
       ap_sha256 = (\<lambda>_. replicate 64 CHR ''0''), ap_nfkc = (\<lambda>s. s), ap_regionLabel = ''r'', ap_probeBaseUrl = [],
       ap_databasePath = [], ap_artifactsPath = [], ap_showNumber = (\<lambda>_. []), ap_comparisonText = (\<lambda>_. []),
       ap_reportText = (\<lambda>_. []) \<rparr>"

definition demo_artifact :: artifact_record where
  "demo_artifact =
     \<lparr> af_id = ''b'', af_auditId = ''a'', af_registryVersion = ''v1'', af_kind = ''log'', af_filename = ''f'',
       af_contentType = ''text/plain'', af_byteSize = 1, af_sha256 = replicate 64 CHR ''0'', af_storageKey = ''a/b'',
       af_createdAt = 0 \<rparr>"

definition demo_artifact_world :: world where
  "demo_artifact_world =
     \<lparr> w_db = empty_db\<lparr>db_artifacts := [demo_artifact]\<rparr>,
       w_store = [(''a'', FsDir 1 True [(''b'', FsFile (demo_file 1)), (''c'', FsFile (demo_file 1))])],
       w_ticks = 0, w_uuids = 0 \<rparr>"

definition demo_upload :: upload_request where
  "demo_upload =
     \<lparr> upr_authorization = None, upr_kinds = [], upr_filenames = [], upr_contentType = None, upr_artifactSize = None,
       upr_contentLength = None, upr_io = demo_write, upr_meanwhile = (\<lambda>w. w) \<rparr>"


lemma demo_index_backed: "index_backed demo_api demo_artifact_world"
  by (simp add: index_backed_def demo_artifact_world_def backed_def demo_artifact_def storage_key_def artifact_at_def
      open_private_directory_def demo_file_def demo_api_def artifact_storage_segment_ok_def is_alnum_def is_digit_def
      is_lower_def is_safe_integer_def)


end
