(* ===== verification/Api_Rpc.thy ===== *)
theory Api_Rpc
  imports Api_Artifacts
begin

text \<open>
  The procedures of the RPC routers (\<open>apps/api/src/index.ts\<close>): the control router, the public one, and those of the
  console and of operations. A call carries what the RPC library hands to the handler of a procedure, which it has
  checked against the contract: identifiers, list queries, and, where the handler builds a request out of the input, the
  JSON text of the input. A procedure gives its payload, or throws; a call a router has no procedure for is \<open>None\<close>.
\<close>

section \<open>Requests made inside the process\<close>

text \<open>The parsers of the bodies: what \<open>JSON.parse\<close> gives in the shape each schema wants.\<close>

record body_parsers =
  bp_property :: "string \<Rightarrow> create_property option option"
  bp_routeSet :: "string \<Rightarrow> create_route_set option option"
  bp_check :: "string \<Rightarrow> create_check option option"
  bp_baseline :: "string \<Rightarrow> ident option option"
  bp_job :: "string \<Rightarrow> create_job option option"
  bp_audit :: "string \<Rightarrow> create_audit option option"
  bp_comparison :: "string \<Rightarrow> create_comparison option option"
  bp_export :: "string \<Rightarrow> create_export option option"
  bp_analysis :: "string \<Rightarrow> analysis_source option option"
  bp_lease :: "string \<Rightarrow> (string \<times> millis) option option"
  bp_owner :: "string \<Rightarrow> string option option"
  bp_failure :: "string \<Rightarrow> (string \<times> exec_error \<times> millis option) option option"
  bp_result :: "string \<Rightarrow> (string \<times> exec_result) option option"
  bp_followups :: "string \<Rightarrow> (string \<times> enqueue_job list) option option"

definition parse_json_body :: "(string \<Rightarrow> 'i option option) \<Rightarrow> raw_body \<Rightarrow> 'i body" where
  "parse_json_body parse_json r = read_bounded_json parse_json r (1024 * 1024)"

text \<open>\<open>createInternalRequest\<close> with a body: no declared length, and one chunk.\<close>

definition internal_request :: "(string \<Rightarrow> 'i option option) \<Rightarrow> string \<Rightarrow> 'i body" where
  "internal_request parse_json t =
     parse_json_body parse_json \<lparr> raw_contentLength = None, raw_chunks = Some [t], raw_fails = False \<rparr>"

text \<open>The headers that name the requester. \<open>createInternalRequest\<close> passes a name on unless it is empty.\<close>

record requester =
  rq_connecting :: "string option"
  rq_forwarded :: "string option"
  rq_real :: "string option"

definition or_else :: "'a option \<Rightarrow> 'a option \<Rightarrow> 'a option" where
  "or_else a b = (case a of None \<Rightarrow> b | Some _ \<Rightarrow> a)"

definition requester_ip :: "requester \<Rightarrow> string option" where
  "requester_ip r = or_else (rq_forwarded r) (rq_real r)"

definition requester_ip_from_context :: "requester \<Rightarrow> string option" where
  "requester_ip_from_context r = or_else (rq_connecting r) (or_else (rq_forwarded r) (rq_real r))"

definition unless_empty :: "string option \<Rightarrow> string option" where
  "unless_empty v = (if truthy v then v else None)"

definition internal_requester :: "requester \<Rightarrow> string option" where
  "internal_requester r =
     requester_ip \<lparr> rq_connecting = None, rq_forwarded = unless_empty (requester_ip_from_context r),
                    rq_real = unless_empty (requester_ip_from_context r) \<rparr>"

section \<open>Responses as results\<close>

text \<open>The error text of a payload, as \<open>toOrpcError\<close> finds it; responses made by the process have no status text.\<close>

fun payload_error :: "payload \<Rightarrow> string option" where
  "payload_error (ErrorPayload m) = Some m"
| "payload_error (InvalidPayload m) = Some m"
| "payload_error (IncidentPayload m _) = Some m"
| "payload_error (CodedPayload _ m) = Some m"
| "payload_error (DependencyPayload m _ _) = Some m"
| "payload_error (TextPayload _ _ t) = (if t = [] then None else Some t)"
| "payload_error _ = None"

definition orpc_code :: "int \<Rightarrow> string" where
  "orpc_code status =
     (if status = 404 then ''NOT_FOUND'' else if status = 400 then ''BAD_REQUEST''
      else if status = 409 then ''CONFLICT'' else ''INTERNAL_SERVER_ERROR'')"

definition to_orpc_error :: "response \<Rightarrow> exn" where
  "to_orpc_error r =
     OrpcExn (orpc_code (fst r)) (case payload_error (snd r) of Some m \<Rightarrow> m | None \<Rightarrow> ''Request failed'')"

definition response_ok :: "response \<Rightarrow> bool" where
  "response_ok r = (200 \<le> fst r \<and> fst r \<le> 299)"

definition unwrap_json_response :: "response handler \<Rightarrow> payload handler" where
  "unwrap_json_response p = and_then p (\<lambda>r. if response_ok r then ret (snd r) else fail (to_orpc_error r))"

text \<open>The new names of the compatibility resources.\<close>

fun rename_resource :: "payload \<Rightarrow> payload" where
  "rename_resource (PropertyPayload p) = SitePayload p"
| "rename_resource (RouteSetPayload s) = RouteGroupPayload s"
| "rename_resource (ProfilePayload c) = CheckPayload c"
| "rename_resource (BaselinePayload c r) = CheckBaselinePayload c r"
| "rename_resource (ProfileJobsPayload c jobs) = CheckJobsPayload c jobs"
| "rename_resource (RunDetailPayload d) = CheckRunDetailPayload d"
| "rename_resource p = p"

definition under_new_name :: "payload handler \<Rightarrow> payload handler" where
  "under_new_name p = and_then p (\<lambda>x. ret (rename_resource x))"

definition found_or :: "string \<Rightarrow> ('a \<Rightarrow> payload) \<Rightarrow> (db \<Rightarrow> 'a option) \<Rightarrow> payload handler" where
  "found_or missing wrap f =
     and_then (query f) (\<lambda>found.
       case found of None \<Rightarrow> fail (OrpcExn ''NOT_FOUND'' missing) | Some x \<Rightarrow> ret (wrap x))"

definition handle_get_browser_audit :: "api_host \<Rightarrow> ident \<Rightarrow> response handler" where
  "handle_get_browser_audit A i =
     and_then (query (get_browser_audit (ap_env A) i)) (\<lambda>found.
       ret (case found of None \<Rightarrow> not_found ''Browser audit not found'' | Some a \<Rightarrow> (200, AuditPayload a)))"

definition location_report :: "api_host \<Rightarrow> payload" where
  "location_report A = LocationPayload (ap_regionId A) (ap_regionLabel A)"

section \<open>Calls\<close>

datatype resource_call =
    ListCall "list_query option"
  | CreateCall string
  | GetCall ident
  | UpdateCall ident string
  | DeleteCall ident

datatype check_call =
    CheckCall resource_call
  | BaselineGet ident
  | BaselineSet ident string
  | BaselineClear ident
  | RunsList ident "list_query option"
  | RunsCreate ident
  | RunsGet ident ident
  | RunsCompare ident ident "string option" "string option"
  | CompareLatest ident
  | CompareBaseline ident
  | ReportGet ident
  | ReportExport ident "export_format option"

datatype job_call = JobList "list_query option" | JobCreate string | JobGet ident | JobStream ident

datatype 'i derived_call = DerivedList "derived_query option" | DerivedCreate 'i | DerivedGet ident

datatype audit_call = AuditList "list_query option" | AuditCreate string | AuditGet ident

datatype rpc_call =
    SystemHealth
  | SystemMetrics
  | SystemRegions
  | Capabilities
  | Jobs job_call
  | Properties resource_call
  | RouteSets resource_call
  | Checks check_call
  | RunGet ident
  | Comparisons "create_comparison derived_call"
  | Exports "create_export derived_call"
  | Analyses "analysis_source derived_call"
  | Audits audit_call
  | Dispatch "iso option"

section \<open>The procedures on a kind of resource\<close>

definition health_procedure :: "api_host \<Rightarrow> payload handler" where
  "health_procedure A = query (\<lambda>d. HealthPayload (build_health_payload A d))"

definition dispatch_procedure :: "api_host \<Rightarrow> iso option \<Rightarrow> payload handler" where
  "dispatch_procedure A now = unwrap_json_response (handle_dispatch_scheduled_profiles A now)"

definition create_job_procedure :: "api_host \<Rightarrow> body_parsers \<Rightarrow> requester \<Rightarrow> string \<Rightarrow> payload handler" where
  "create_job_procedure A B r t =
     unwrap_json_response (handle_create_job A (internal_requester r) (internal_request (bp_job B) t))"

definition create_audit_procedure :: "api_host \<Rightarrow> body_parsers \<Rightarrow> string \<Rightarrow> payload handler" where
  "create_audit_procedure A B t = unwrap_json_response (handle_create_browser_audit A (internal_request (bp_audit B) t))"

fun property_call :: "api_host \<Rightarrow> body_parsers \<Rightarrow> resource_call \<Rightarrow> payload handler" where
  "property_call A B (ListCall q) = build_property_list_response PropertyListPayload A q"
| "property_call A B (CreateCall t) =
     unwrap_json_response (handle_upsert_property A None (internal_request (bp_property B) t))"
| "property_call A B (GetCall i) = found_or ''Property not found'' PropertyEntity (get_property (ap_env A) i)"
| "property_call A B (UpdateCall i t) =
     unwrap_json_response (handle_update_property A i (internal_request (bp_property B) t))"
| "property_call A B (DeleteCall i) = unwrap_json_response (handle_delete_property A i)"

fun route_set_call :: "api_host \<Rightarrow> body_parsers \<Rightarrow> resource_call \<Rightarrow> payload handler" where
  "route_set_call A B (ListCall q) = build_route_set_list_response RouteSetListPayload A q"
| "route_set_call A B (CreateCall t) =
     unwrap_json_response (handle_upsert_route_set A None (internal_request (bp_routeSet B) t))"
| "route_set_call A B (GetCall i) = found_or ''Route set not found'' RouteSetEntity (get_route_set (ap_env A) i)"
| "route_set_call A B (UpdateCall i t) =
     unwrap_json_response (handle_update_route_set A i (internal_request (bp_routeSet B) t))"
| "route_set_call A B (DeleteCall i) = unwrap_json_response (handle_delete_route_set A i)"

fun check_profile_call :: "api_host \<Rightarrow> body_parsers \<Rightarrow> resource_call \<Rightarrow> payload handler" where
  "check_profile_call A B (ListCall q) = build_check_profile_list_response ProfileListPayload A q"
| "check_profile_call A B (CreateCall t) =
     unwrap_json_response (handle_upsert_check_profile A None (internal_request (bp_check B) t))"
| "check_profile_call A B (GetCall i) =
     found_or ''Check profile not found'' ProfileEntity (get_check_profile (ap_env A) i)"
| "check_profile_call A B (UpdateCall i t) =
     unwrap_json_response (handle_update_check_profile A i (internal_request (bp_check B) t))"
| "check_profile_call A B (DeleteCall i) = unwrap_json_response (handle_delete_check_profile A i)"

text \<open>The baseline and the runs of a check.\<close>

fun check_runs_call :: "api_host \<Rightarrow> body_parsers \<Rightarrow> requester \<Rightarrow> check_call \<Rightarrow> payload handler option" where
  "check_runs_call A B r (BaselineGet i) = Some (unwrap_json_response (handle_get_check_profile_baseline A i))"
| "check_runs_call A B r (BaselineSet i t) =
     Some (unwrap_json_response (handle_set_check_profile_baseline A i (internal_request (bp_baseline B) t)))"
| "check_runs_call A B r (BaselineClear i) = Some (unwrap_json_response (handle_clear_check_profile_baseline A i))"
| "check_runs_call A B r (RunsList i q) = Some (unwrap_json_response (handle_list_check_profile_runs A i q))"
| "check_runs_call A B r (RunsCreate i) =
     Some (unwrap_json_response (handle_run_check_profile A i (internal_requester r)))"
| "check_runs_call A B r c = None"

text \<open>One run, comparisons and the report.\<close>

fun check_report_call :: "api_host \<Rightarrow> check_call \<Rightarrow> payload handler option" where
  "check_report_call A (RunsGet i runId) = Some (unwrap_json_response (handle_get_check_profile_run A i runId))"
| "check_report_call A (RunsCompare i runId against againstRunId) =
     Some (unwrap_json_response
       (handle_get_check_profile_run_comparison A i runId (unless_empty against) (unless_empty againstRunId)))"
| "check_report_call A (CompareLatest i) =
     Some (unwrap_json_response (handle_get_latest_check_profile_comparison A i))"
| "check_report_call A (CompareBaseline i) =
     Some (unwrap_json_response (handle_get_baseline_check_profile_comparison A i))"
| "check_report_call A (ReportGet i) = Some (unwrap_json_response (handle_get_check_profile_report A i))"
| "check_report_call A c = None"

section \<open>The control router\<close>

text \<open>Its list procedures take no query.\<close>

fun without_query :: "resource_call \<Rightarrow> resource_call" where
  "without_query (ListCall q) = ListCall None"
| "without_query c = c"

fun control_jobs :: "api_host \<Rightarrow> body_parsers \<Rightarrow> requester \<Rightarrow> job_call \<Rightarrow> payload handler option" where
  "control_jobs A B r (JobList q) = Some (build_job_list_response A None)"
| "control_jobs A B r (JobCreate t) = Some (create_job_procedure A B r t)"
| "control_jobs A B r (JobGet i) = Some (found_or ''Job not found'' JobEntity (get_job (ap_env A) i))"
| "control_jobs A B r (JobStream i) = None"

fun control_checks :: "api_host \<Rightarrow> body_parsers \<Rightarrow> requester \<Rightarrow> check_call \<Rightarrow> payload handler option" where
  "control_checks A B r (CheckCall c) = Some (check_profile_call A B (without_query c))"
| "control_checks A B r (RunsList i q) = check_runs_call A B r (RunsList i None)"
| "control_checks A B r (ReportExport i f) = None"
| "control_checks A B r c = or_else (check_runs_call A B r c) (check_report_call A c)"

fun control_router :: "api_host \<Rightarrow> body_parsers \<Rightarrow> requester \<Rightarrow> rpc_call \<Rightarrow> payload handler option" where
  "control_router A B r SystemHealth = Some (health_procedure A)"
| "control_router A B r SystemMetrics = Some (build_runtime_metrics_payload A)"
| "control_router A B r SystemRegions = Some (ret (location_report A))"
| "control_router A B r (Jobs c) = control_jobs A B r c"
| "control_router A B r (Properties c) = Some (property_call A B (without_query c))"
| "control_router A B r (RouteSets c) = Some (route_set_call A B (without_query c))"
| "control_router A B r (Checks c) = control_checks A B r c"
| "control_router A B r (Dispatch now) = Some (dispatch_procedure A now)"
| "control_router A B r c = None"

section \<open>The public router\<close>

fun public_sites :: "api_host \<Rightarrow> body_parsers \<Rightarrow> resource_call \<Rightarrow> payload handler" where
  "public_sites A B (ListCall q) = to_sites_payload A q"
| "public_sites A B (GetCall i) = found_or ''Site not found'' PropertyEntity (get_property (ap_env A) i)"
| "public_sites A B (DeleteCall i) = property_call A B (DeleteCall i)"
| "public_sites A B c = under_new_name (property_call A B c)"

fun public_route_groups :: "api_host \<Rightarrow> body_parsers \<Rightarrow> resource_call \<Rightarrow> payload handler" where
  "public_route_groups A B (ListCall q) = to_route_groups_payload A q"
| "public_route_groups A B (GetCall i) = found_or ''Route group not found'' RouteSetEntity (get_route_set (ap_env A) i)"
| "public_route_groups A B (DeleteCall i) = route_set_call A B (DeleteCall i)"
| "public_route_groups A B c = under_new_name (route_set_call A B c)"

fun public_checks :: "api_host \<Rightarrow> body_parsers \<Rightarrow> requester \<Rightarrow> check_call \<Rightarrow> payload handler option" where
  "public_checks A B r (CheckCall (ListCall q)) = Some (to_checks_payload A q)"
| "public_checks A B r (CheckCall (GetCall i)) =
     Some (found_or ''Check not found'' ProfileEntity (get_check_profile (ap_env A) i))"
| "public_checks A B r (CheckCall (DeleteCall i)) = Some (check_profile_call A B (DeleteCall i))"
| "public_checks A B r (CheckCall c) = Some (under_new_name (check_profile_call A B c))"
| "public_checks A B r (RunsList i q) = check_runs_call A B r (RunsList i q)"
| "public_checks A B r c = map_option under_new_name (check_runs_call A B r c)"

definition public_run :: "api_host \<Rightarrow> ident \<Rightarrow> payload handler" where
  "public_run A i = found_or ''Run not found'' CheckRunDetailPayload (build_run_detail_by_id (ap_env A) i)"

fun comparisons_call :: "api_host \<Rightarrow> create_comparison derived_call \<Rightarrow> payload handler" where
  "comparisons_call A (DerivedList q) = build_comparison_list_response A q"
| "comparisons_call A (DerivedCreate i) =
     and_then (build_comparison_resource A i) (\<lambda>c. ret (ComparisonResourcePayload c))"
| "comparisons_call A (DerivedGet i) =
     found_or ''Comparison not found'' ComparisonResourcePayload (get_comparison (ap_env A) i)"

fun exports_call :: "api_host \<Rightarrow> create_export derived_call \<Rightarrow> payload handler" where
  "exports_call A (DerivedList q) = build_export_list_response A q"
| "exports_call A (DerivedCreate i) = and_then (build_export_resource A i) (\<lambda>e. ret (ExportPayload e))"
| "exports_call A (DerivedGet i) = found_or ''Export not found'' ExportPayload (get_export i)"

fun analyses_call :: "api_host \<Rightarrow> analysis_source derived_call \<Rightarrow> payload handler" where
  "analyses_call A (DerivedList q) = build_analysis_list_response A q"
| "analyses_call A (DerivedCreate i) = and_then (build_analysis_resource A i) (\<lambda>a. ret (AnalysisPayload a))"
| "analyses_call A (DerivedGet i) = found_or ''Analysis not found'' AnalysisPayload (get_analysis i)"

fun public_audits :: "api_host \<Rightarrow> body_parsers \<Rightarrow> audit_call \<Rightarrow> payload handler" where
  "public_audits A B (AuditList q) = build_browser_audit_list_response A q"
| "public_audits A B (AuditCreate t) = create_audit_procedure A B t"
| "public_audits A B (AuditGet i) =
     found_or ''Browser audit not found'' AuditPayload (get_browser_audit (ap_env A) i)"

fun public_router :: "api_host \<Rightarrow> body_parsers \<Rightarrow> requester \<Rightarrow> rpc_call \<Rightarrow> payload handler option" where
  "public_router A B r Capabilities = Some (ret (build_public_capabilities_payload A))"
| "public_router A B r SystemRegions = Some (ret (location_report A))"
| "public_router A B r (Properties c) = Some (public_sites A B c)"
| "public_router A B r (RouteSets c) = Some (public_route_groups A B c)"
| "public_router A B r (Checks c) = public_checks A B r c"
| "public_router A B r (RunGet i) = Some (public_run A i)"
| "public_router A B r (Comparisons c) = Some (comparisons_call A c)"
| "public_router A B r (Exports c) = Some (exports_call A c)"
| "public_router A B r (Analyses c) = Some (analyses_call A c)"
| "public_router A B r (Audits c) = Some (public_audits A B c)"
| "public_router A B r c = None"

section \<open>The routers of the console and of operations\<close>

fun app_checks :: "api_host \<Rightarrow> body_parsers \<Rightarrow> requester \<Rightarrow> check_call \<Rightarrow> payload handler option" where
  "app_checks A B r (CheckCall c) = Some (check_profile_call A B c)"
| "app_checks A B r (ReportExport i f) =
     Some (exports_call A (DerivedCreate \<lparr> ce_source = ExportCheckReport i, ce_format = given f FormatJson \<rparr>))"
| "app_checks A B r c = or_else (check_runs_call A B r c) (check_report_call A c)"

fun app_audits :: "api_host \<Rightarrow> body_parsers \<Rightarrow> audit_call \<Rightarrow> payload handler" where
  "app_audits A B (AuditGet i) = unwrap_json_response (handle_get_browser_audit A i)"
| "app_audits A B (AuditList q) = build_browser_audit_list_response A q"
| "app_audits A B (AuditCreate t) = create_audit_procedure A B t"

fun app_router :: "api_host \<Rightarrow> body_parsers \<Rightarrow> requester \<Rightarrow> rpc_call \<Rightarrow> payload handler option" where
  "app_router A B r SystemHealth = Some (health_procedure A)"
| "app_router A B r SystemRegions = Some (ret (location_report A))"
| "app_router A B r SystemMetrics = Some (build_runtime_metrics_payload A)"
| "app_router A B r (Properties c) = Some (property_call A B c)"
| "app_router A B r (RouteSets c) = Some (route_set_call A B c)"
| "app_router A B r (Checks c) = app_checks A B r c"
| "app_router A B r (Comparisons (DerivedList q)) = Some (comparisons_call A (DerivedList q))"
| "app_router A B r (Analyses (DerivedList q)) = Some (analyses_call A (DerivedList q))"
| "app_router A B r (Audits c) = Some (app_audits A B c)"
| "app_router A B r (Exports c) = Some (exports_call A c)"
| "app_router A B r c = None"

fun ops_jobs :: "api_host \<Rightarrow> body_parsers \<Rightarrow> requester \<Rightarrow> job_call \<Rightarrow> payload handler" where
  "ops_jobs A B r (JobList q) = build_job_list_response A q"
| "ops_jobs A B r (JobCreate t) = create_job_procedure A B r t"
| "ops_jobs A B r (JobGet i) = found_or ''Job not found'' JobEntity (get_job (ap_env A) i)"
| "ops_jobs A B r (JobStream i) = found_or ''Job not found'' SnapshotPayload (get_job (ap_env A) i)"

fun ops_router :: "api_host \<Rightarrow> body_parsers \<Rightarrow> requester \<Rightarrow> rpc_call \<Rightarrow> payload handler option" where
  "ops_router A B r SystemHealth = Some (health_procedure A)"
| "ops_router A B r SystemRegions = Some (ret (location_report A))"
| "ops_router A B r SystemMetrics = Some (build_runtime_metrics_payload A)"
| "ops_router A B r (Dispatch now) = Some (dispatch_procedure A now)"
| "ops_router A B r (Jobs c) = Some (ops_jobs A B r c)"
| "ops_router A B r c = None"

end
