(* ===== verification/Api_Routes.thy ===== *)
theory Api_Routes
  imports Api_Rpc
begin

text \<open>
  Authorization and routing of requests (\<open>apps/api/src/auth.ts\<close> and \<open>routeRequest\<close>, \<open>fetch\<close> of
  \<open>apps/api/src/index.ts\<close>). A request is what the server library gives: method, path and the parts handlers read.
  Routes are tried in the order of the code; a route that does not apply is \<open>None\<close>. The RPC library and the OpenAPI
  documents are parameters, and so is the text a response is sent as.
\<close>

section \<open>Requests\<close>

record http_request =
  hq_method :: string
  hq_path :: string
  hq_authorization :: "string option"
  hq_requester :: requester
  hq_body :: raw_body
  hq_query :: derived_params
  hq_now :: "iso option"
  hq_against :: "string option"
  hq_againstRunId :: "string option"
  hq_format :: "string option"
  hq_origin :: string
  hq_search :: string
  hq_upload :: upload_request

datatype rpc_router = ControlRouter | PublicRouter | AppRouter | OpsRouter

record server =
  sv_api :: api_host
  sv_parsers :: body_parsers
  sv_adminToken :: "string option"
  sv_adminTokenNext :: "string option"
  sv_digest :: "string \<Rightarrow> string"
  sv_matchRpc :: "rpc_router \<Rightarrow> string \<Rightarrow> http_request \<Rightarrow> (response + rpc_call) option"
  sv_answerRpc :: "exn + payload \<Rightarrow> response"
  sv_openapi :: "rpc_router \<Rightarrow> string"
  sv_snapshots :: "nat \<Rightarrow> db"
  sv_render :: "response \<Rightarrow> http_response"
  sv_urls :: url_text
  sv_parseText :: "string \<Rightarrow> json option"
  sv_successor :: "string \<Rightarrow> string \<Rightarrow> string \<Rightarrow> string \<times> string"

section \<open>Paths\<close>

text \<open>The identifier of a path: \<open>prefix\<close>, one segment, \<open>suffix\<close>; and with two segments.\<close>

definition after_prefix :: "string \<Rightarrow> string \<Rightarrow> string option" where
  "after_prefix p s = (if take (length p) s = p then Some (drop (length p) s) else None)"

definition not_slash :: "char \<Rightarrow> bool" where
  "not_slash c = (c \<noteq> CHR ''/'')"

definition next_segment :: "string \<Rightarrow> string \<Rightarrow> (string \<times> string) option" where
  "next_segment p s =
     (case after_prefix p s of
        None \<Rightarrow> None
      | Some r \<Rightarrow> if takeWhile not_slash r = [] then None else Some (takeWhile not_slash r, dropWhile not_slash r))"

definition path_id :: "string \<Rightarrow> string \<Rightarrow> string \<Rightarrow> ident option" where
  "path_id prefix suffix s =
     (case next_segment prefix s of None \<Rightarrow> None | Some (i, r) \<Rightarrow> if r = suffix then Some i else None)"

definition path_ids :: "string \<Rightarrow> string \<Rightarrow> string \<Rightarrow> string \<Rightarrow> (ident \<times> ident) option" where
  "path_ids prefix middle suffix s =
     (case next_segment prefix s of
        None \<Rightarrow> None
      | Some (i, r) \<Rightarrow> (case path_id middle suffix r of None \<Rightarrow> None | Some j \<Rightarrow> Some (i, j)))"

definition execution_job_path :: "string list \<Rightarrow> string \<Rightarrow> (ident \<times> string) option" where
  "execution_job_path actions s =
     (case next_segment ''/internal/execution-jobs/'' s of
        None \<Rightarrow> None
      | Some (i, r) \<Rightarrow> (case after_prefix ''/'' r of
                         None \<Rightarrow> None
                       | Some a \<Rightarrow> if a \<in> set actions then Some (i, a) else None))"

definition execution_job_mutation_path :: "string \<Rightarrow> (ident \<times> string) option" where
  "execution_job_mutation_path = execution_job_path [''start'', ''renew'', ''complete'', ''fail'']"

definition execution_job_resource_path :: "string \<Rightarrow> (ident \<times> string) option" where
  "execution_job_resource_path = execution_job_path [''context'', ''artifact-upload-grant'', ''result'', ''followups'']"

definition artifact_upload_path :: "string \<Rightarrow> ident option" where
  "artifact_upload_path = path_id ''/internal/browser-audits/'' ''/artifacts''"

definition artifact_download_path :: "string \<Rightarrow> (ident \<times> ident) option" where
  "artifact_download_path = path_ids ''/v1/browser-audits/'' ''/artifacts/'' []"

definition is_execution_transport_path :: "string \<Rightarrow> bool" where
  "is_execution_transport_path s =
     (s = ''/internal/execution-jobs/claim'' \<or> execution_job_mutation_path s \<noteq> None
      \<or> execution_job_resource_path s \<noteq> None)"

section \<open>Authorization\<close>

definition public_get_paths :: "string list" where
  "public_get_paths = [''/health'', ''/v1/capabilities'', ''/openapi/public.json'']"

definition is_internal_path :: "string \<Rightarrow> bool" where
  "is_internal_path s = (s = ''/v1/scheduler/dispatch'' \<or> after_prefix ''/internal/'' s \<noteq> None)"

definition resolve_expected_tokens :: "server \<Rightarrow> string \<Rightarrow> string option list" where
  "resolve_expected_tokens S pathname =
     (if is_internal_path pathname
      then [Some (ap_internalSecret (sv_api S)), ap_internalSecretNext (sv_api S)]
      else [sv_adminToken S, sv_adminTokenNext S])"

definition constant_time_token_equal :: "(string \<Rightarrow> string) \<Rightarrow> string \<Rightarrow> string \<Rightarrow> bool" where
  "constant_time_token_equal digest left right = (digest left = digest right)"

definition matches_bearer_token :: "(string \<Rightarrow> string) \<Rightarrow> string option \<Rightarrow> string option list \<Rightarrow> bool" where
  "matches_bearer_token digest authorization candidates =
     (case read_bearer_token authorization of
        None \<Rightarrow> False
      | Some suppliedToken \<Rightarrow>
          fold (\<lambda>candidate matched. constant_time_token_equal digest suppliedToken (given candidate []) \<or> matched)
            candidates False)"

definition unauthorized :: response where
  "unauthorized = (401, ErrorPayload ''Unauthorized'')"

definition authorize_api_request :: "server \<Rightarrow> http_request \<Rightarrow> response option" where
  "authorize_api_request S q =
     (if hq_method q = ''GET'' \<and> hq_path q \<in> set public_get_paths then None
      else if matches_bearer_token (sv_digest S) (hq_authorization q) (resolve_expected_tokens S (hq_path q)) then None
      else Some unauthorized)"

section \<open>Routes\<close>

type_synonym route = "response handler option"

definition on :: "http_request \<Rightarrow> string \<Rightarrow> string \<Rightarrow> response handler \<Rightarrow> route" where
  "on q method path p = (if hq_method q = method \<and> hq_path q = path then Some p else None)"

definition on_id :: "http_request \<Rightarrow> string \<Rightarrow> ident option \<Rightarrow> (ident \<Rightarrow> response handler) \<Rightarrow> route" where
  "on_id q method found p =
     (case found of None \<Rightarrow> None | Some i \<Rightarrow> if hq_method q = method then Some (p i) else None)"

definition answered :: "payload handler \<Rightarrow> response handler" where
  "answered p = and_then p (\<lambda>x. ret (200, x))"

text \<open>The list query of the search parameters; what its schema refuses is thrown.\<close>

definition with_list_query :: "http_request \<Rightarrow> (list_query option \<Rightarrow> payload handler) \<Rightarrow> response handler" where
  "with_list_query q build =
     answered (and_then (list_query_of (list_params.truncate (hq_query q))) (\<lambda>lq. build (Some lq)))"

definition with_derived_query :: "http_request \<Rightarrow> (derived_query option \<Rightarrow> payload handler) \<Rightarrow> response handler" where
  "with_derived_query q build =
     json_or_error (answered (and_then (safe_parse_derived_query (hq_query q)) (\<lambda>dq. build (Some dq))))"

text \<open>\<open>readResponsePayload\<close> and the same payload under its new name, when the response is one of success.\<close>

definition renamed :: "response handler \<Rightarrow> response handler" where
  "renamed p = and_then p (\<lambda>r. ret (if response_ok r then (fst r, rename_resource (snd r)) else r))"

definition renamed_baseline :: "response handler \<Rightarrow> response handler" where
  "renamed_baseline p = and_then p (\<lambda>r. ret (if response_ok r then (200, rename_resource (snd r)) else r))"

definition entity_or :: "string \<Rightarrow> ('a \<Rightarrow> payload) \<Rightarrow> (db \<Rightarrow> 'a option) \<Rightarrow> response handler" where
  "entity_or missing wrap f =
     and_then (query f) (\<lambda>found. ret (case found of None \<Rightarrow> not_found missing | Some x \<Rightarrow> (200, wrap x)))"

definition body_of :: "(string \<Rightarrow> 'i option option) \<Rightarrow> http_request \<Rightarrow> 'i body" where
  "body_of parse_json q = parse_json_body parse_json (hq_body q)"

subsection \<open>Documents and procedures\<close>

definition route_documents :: "server \<Rightarrow> http_request \<Rightarrow> route" where
  "route_documents S q =
     or_else (on q ''GET'' ''/openapi/control.json'' (ret (200, DocumentPayload (sv_openapi S ControlRouter))))
             (on q ''GET'' ''/openapi/public.json'' (ret (200, DocumentPayload (sv_openapi S PublicRouter))))"

definition rpc_router_of :: "string \<Rightarrow> rpc_router \<times> string" where
  "rpc_router_of s =
     (if after_prefix ''/rpc/public'' s \<noteq> None then (PublicRouter, ''/rpc/public'')
      else if after_prefix ''/rpc/app'' s \<noteq> None then (AppRouter, ''/rpc/app'')
      else if after_prefix ''/rpc/ops'' s \<noteq> None then (OpsRouter, ''/rpc/ops'')
      else (ControlRouter, ''/rpc''))"

fun call_procedure :: "server \<Rightarrow> requester \<Rightarrow> rpc_router \<Rightarrow> rpc_call \<Rightarrow> payload handler option" where
  "call_procedure S r ControlRouter c = control_router (sv_api S) (sv_parsers S) r c"
| "call_procedure S r PublicRouter c = public_router (sv_api S) (sv_parsers S) r c"
| "call_procedure S r AppRouter c = app_router (sv_api S) (sv_parsers S) r c"
| "call_procedure S r OpsRouter c = ops_router (sv_api S) (sv_parsers S) r c"

definition answer_procedure :: "server \<Rightarrow> payload handler \<Rightarrow> response handler" where
  "answer_procedure S p s = (case p s of (r, s') \<Rightarrow> (Inr (sv_answerRpc S r), s'))"

definition route_rpc :: "server \<Rightarrow> http_request \<Rightarrow> route" where
  "route_rpc S q =
     (if after_prefix ''/rpc'' (hq_path q) = None then None
      else let (router, prefix) = rpc_router_of (hq_path q) in
           (case sv_matchRpc S router prefix q of
              None \<Rightarrow> None
            | Some (Inl refused) \<Rightarrow> Some (ret refused)
            | Some (Inr call) \<Rightarrow> map_option (answer_procedure S) (call_procedure S (hq_requester q) router call)))"

definition route_system :: "server \<Rightarrow> http_request \<Rightarrow> route" where
  "route_system S q =
     (let A = sv_api S in
      if hq_path q = ''/health'' then Some (ret (200, ProcessHealthPayload))
      else if hq_path q = ''/v1/health'' then Some (answered (health_procedure A))
      else or_else (on q ''GET'' ''/v1/runtime-metrics'' (answered (build_runtime_metrics_payload A)))
          (or_else (on q ''GET'' ''/v1/regions'' (ret (200, location_report A)))
                   (on q ''GET'' ''/v1/capabilities'' (ret (200, build_public_capabilities_payload A)))))"

subsection \<open>Collections\<close>

definition route_jobs :: "server \<Rightarrow> http_request \<Rightarrow> route" where
  "route_jobs S q =
     (let A = sv_api S in
      or_else (on q ''GET'' ''/v1/jobs'' (with_list_query q (build_job_list_response A)))
              (on q ''POST'' ''/v1/jobs''
                 (handle_create_job A (requester_ip (hq_requester q)) (body_of (bp_job (sv_parsers S)) q))))"

definition create_property_route :: "server \<Rightarrow> http_request \<Rightarrow> response handler" where
  "create_property_route S q = handle_upsert_property (sv_api S) None (body_of (bp_property (sv_parsers S)) q)"

definition create_route_set_route :: "server \<Rightarrow> http_request \<Rightarrow> response handler" where
  "create_route_set_route S q = handle_upsert_route_set (sv_api S) None (body_of (bp_routeSet (sv_parsers S)) q)"

definition create_check_route :: "server \<Rightarrow> http_request \<Rightarrow> response handler" where
  "create_check_route S q = handle_upsert_check_profile (sv_api S) None (body_of (bp_check (sv_parsers S)) q)"

definition route_properties :: "server \<Rightarrow> http_request \<Rightarrow> route" where
  "route_properties S q =
     (let A = sv_api S in
      or_else (on q ''GET'' ''/v1/properties'' (with_list_query q (build_property_list_response PropertyListPayload A)))
     (or_else (on q ''POST'' ''/v1/properties'' (create_property_route S q))
     (or_else (on q ''GET'' ''/v1/sites'' (with_list_query q (to_sites_payload A)))
              (on q ''POST'' ''/v1/sites'' (renamed (create_property_route S q))))))"

definition route_route_sets :: "server \<Rightarrow> http_request \<Rightarrow> route" where
  "route_route_sets S q =
     (let A = sv_api S in
      or_else (on q ''GET'' ''/v1/route-sets'' (with_list_query q (build_route_set_list_response RouteSetListPayload A)))
     (or_else (on q ''POST'' ''/v1/route-sets'' (create_route_set_route S q))
     (or_else (on q ''GET'' ''/v1/route-groups'' (with_list_query q (to_route_groups_payload A)))
              (on q ''POST'' ''/v1/route-groups'' (renamed (create_route_set_route S q))))))"

definition removed_collections :: "http_request \<Rightarrow> route" where
  "removed_collections q =
     (if hq_path q \<in> set [''/v1/region-packs'', ''/v1/region-sets''] \<and> hq_method q \<in> set [''GET'', ''POST'']
      then Some (ret (410, ErrorPayload
             ''Region packs and region sets were removed in Phase 1 of issue #14. One standalone deployment measures from one runtime location reported by GET /v1/regions.''))
      else None)"

definition route_check_profiles :: "server \<Rightarrow> http_request \<Rightarrow> route" where
  "route_check_profiles S q =
     (let A = sv_api S in
      or_else (on q ''GET'' ''/v1/check-profiles'' (with_list_query q (build_check_profile_list_response ProfileListPayload A)))
     (or_else (on q ''POST'' ''/v1/check-profiles'' (create_check_route S q))
     (or_else (on q ''GET'' ''/v1/checks'' (with_list_query q (to_checks_payload A)))
              (on q ''POST'' ''/v1/checks'' (renamed (create_check_route S q))))))"

definition route_derived :: "server \<Rightarrow> http_request \<Rightarrow> route" where
  "route_derived S q =
     (let A = sv_api S; B = sv_parsers S in
      or_else (on q ''GET'' ''/v1/comparisons'' (with_derived_query q (build_comparison_list_response A)))
     (or_else (on q ''POST'' ''/v1/comparisons'' (handle_create_comparison A (body_of (bp_comparison B) q)))
     (or_else (on q ''GET'' ''/v1/exports'' (with_derived_query q (build_export_list_response A)))
     (or_else (on q ''POST'' ''/v1/exports'' (handle_create_export A (body_of (bp_export B) q)))
     (or_else (on q ''GET'' ''/v1/analyses'' (with_derived_query q (build_analysis_list_response A)))
              (on q ''POST'' ''/v1/analyses'' (handle_create_analysis A (body_of (bp_analysis B) q))))))))"

definition route_audits :: "server \<Rightarrow> http_request \<Rightarrow> route" where
  "route_audits S q =
     (let A = sv_api S in
      or_else (on q ''GET'' ''/v1/browser-audits'' (with_list_query q (build_browser_audit_list_response A)))
              (on q ''POST'' ''/v1/browser-audits''
                 (handle_create_browser_audit A (body_of (bp_audit (sv_parsers S)) q))))"

subsection \<open>The execution transport and uploads\<close>

definition transport_body :: "(string \<Rightarrow> 'i option option) \<Rightarrow> http_request \<Rightarrow> 'i body" where
  "transport_body parse_json q = read_bounded_json parse_json (hq_body q) execution_transport_body_max_bytes"

definition mutation_of :: "body_parsers \<Rightarrow> http_request \<Rightarrow> string \<Rightarrow> mutation" where
  "mutation_of B q a =
     (if a = ''start'' then StartMutation (transport_body (bp_lease B) q)
      else if a = ''renew'' then RenewMutation (transport_body (bp_lease B) q)
      else if a = ''complete'' then CompleteMutation (transport_body (bp_owner B) q)
      else FailMutation (transport_body (bp_failure B) q))"

definition resource_op_of :: "body_parsers \<Rightarrow> http_request \<Rightarrow> string \<Rightarrow> resource_op" where
  "resource_op_of B q a =
     (if a = ''context'' then ContextOp (transport_body (bp_owner B) q)
      else if a = ''artifact-upload-grant'' then GrantOp (transport_body (bp_owner B) q) (hq_origin q)
      else if a = ''result'' then ResultOp (transport_body (bp_result B) q)
      else FollowupsOp (transport_body (bp_followups B) q))"

definition route_transport :: "server \<Rightarrow> http_request \<Rightarrow> route" where
  "route_transport S q =
     (let A = sv_api S; B = sv_parsers S in
      if hq_method q \<noteq> ''POST'' then None
      else if hq_path q = ''/v1/scheduler/dispatch'' then Some (handle_dispatch_scheduled_profiles A (hq_now q))
      else if hq_path q = ''/internal/execution-jobs/claim''
      then Some (handle_transport A (ClaimRequest (transport_body (bp_lease B) q)))
      else (case artifact_upload_path (hq_path q) of
              Some i \<Rightarrow>
                Some (handle_browser_audit_artifact_upload A i
                        ((hq_upload q)\<lparr>upr_authorization := hq_authorization q\<rparr>))
            | None \<Rightarrow>
                (case execution_job_resource_path (hq_path q) of
                   Some (i, a) \<Rightarrow> Some (handle_transport A (ResourceRequest i (resource_op_of B q a)))
                 | None \<Rightarrow>
                     (case execution_job_mutation_path (hq_path q) of
                        Some (i, a) \<Rightarrow> Some (handle_transport A (MutationRequest i (mutation_of B q a)))
                      | None \<Rightarrow> None))))"

subsection \<open>One property, route set or check\<close>

definition update_property_route :: "server \<Rightarrow> http_request \<Rightarrow> ident \<Rightarrow> response handler" where
  "update_property_route S q i = handle_update_property (sv_api S) i (body_of (bp_property (sv_parsers S)) q)"

definition update_route_set_route :: "server \<Rightarrow> http_request \<Rightarrow> ident \<Rightarrow> response handler" where
  "update_route_set_route S q i = handle_update_route_set (sv_api S) i (body_of (bp_routeSet (sv_parsers S)) q)"

definition update_check_route :: "server \<Rightarrow> http_request \<Rightarrow> ident \<Rightarrow> response handler" where
  "update_check_route S q i = handle_update_check_profile (sv_api S) i (body_of (bp_check (sv_parsers S)) q)"

definition route_property :: "server \<Rightarrow> http_request \<Rightarrow> route" where
  "route_property S q =
     (let A = sv_api S; i = path_id ''/v1/properties/'' [] (hq_path q) in
      or_else (on_id q ''GET'' i (\<lambda>i. entity_or ''Property not found'' PropertyEntity (get_property (ap_env A) i)))
     (or_else (on_id q ''PUT'' i (update_property_route S q))
              (on_id q ''DELETE'' i (handle_delete_property A))))"

definition route_site :: "server \<Rightarrow> http_request \<Rightarrow> route" where
  "route_site S q =
     (let A = sv_api S; i = path_id ''/v1/sites/'' [] (hq_path q) in
      or_else (on_id q ''GET'' i (\<lambda>i. entity_or ''Site not found'' PropertyEntity (get_property (ap_env A) i)))
     (or_else (on_id q ''PATCH'' i (\<lambda>i. renamed (update_property_route S q i)))
              (on_id q ''DELETE'' i (handle_delete_property A))))"

definition route_route_set :: "server \<Rightarrow> http_request \<Rightarrow> route" where
  "route_route_set S q =
     (let A = sv_api S; i = path_id ''/v1/route-sets/'' [] (hq_path q) in
      or_else (on_id q ''GET'' i (\<lambda>i. entity_or ''Route set not found'' RouteSetEntity (get_route_set (ap_env A) i)))
     (or_else (on_id q ''PUT'' i (update_route_set_route S q))
              (on_id q ''DELETE'' i (handle_delete_route_set A))))"

definition route_route_group :: "server \<Rightarrow> http_request \<Rightarrow> route" where
  "route_route_group S q =
     (let A = sv_api S; i = path_id ''/v1/route-groups/'' [] (hq_path q) in
      or_else (on_id q ''GET'' i (\<lambda>i. entity_or ''Route group not found'' RouteSetEntity (get_route_set (ap_env A) i)))
     (or_else (on_id q ''PATCH'' i (\<lambda>i. renamed (update_route_set_route S q i)))
              (on_id q ''DELETE'' i (handle_delete_route_set A))))"

definition removed_entities :: "http_request \<Rightarrow> route" where
  "removed_entities q =
     (if path_id ''/v1/region-packs/'' [] (hq_path q) = None \<and> path_id ''/v1/region-sets/'' [] (hq_path q) = None
      then None
      else Some (ret (410, ErrorPayload ''Region packs and region sets were removed in Phase 1 of issue #14.'')))"

definition route_baseline :: "server \<Rightarrow> http_request \<Rightarrow> route" where
  "route_baseline S q =
     (let A = sv_api S; i = path_id ''/v1/check-profiles/'' ''/baseline'' (hq_path q) in
      or_else (on_id q ''GET'' i (handle_get_check_profile_baseline A))
     (or_else (on_id q ''PUT'' i (\<lambda>i. handle_set_check_profile_baseline A i (body_of (bp_baseline (sv_parsers S)) q)))
              (on_id q ''DELETE'' i (handle_clear_check_profile_baseline A))))"

definition route_check_baseline :: "server \<Rightarrow> http_request \<Rightarrow> route" where
  "route_check_baseline S q =
     (let A = sv_api S; i = path_id ''/v1/checks/'' ''/baseline'' (hq_path q) in
      or_else (on_id q ''GET'' i (\<lambda>i. renamed_baseline (handle_get_check_profile_baseline A i)))
     (or_else (on_id q ''PUT'' i (\<lambda>i. renamed_baseline
                 (handle_set_check_profile_baseline A i (body_of (bp_baseline (sv_parsers S)) q))))
              (on_id q ''DELETE'' i (\<lambda>i. renamed_baseline (handle_clear_check_profile_baseline A i)))))"

text \<open>The query of the list of a profile's runs is read before the profile; that of the check's after it.\<close>

definition route_profile_runs :: "server \<Rightarrow> http_request \<Rightarrow> route" where
  "route_profile_runs S q =
     (let A = sv_api S; i = path_id ''/v1/check-profiles/'' ''/runs'' (hq_path q) in
      or_else (on_id q ''GET'' i (\<lambda>i.
                 and_then (list_query_of (list_params.truncate (hq_query q))) (\<lambda>lq.
                   handle_list_check_profile_runs A i (Some lq))))
              (on_id q ''POST'' i (\<lambda>i. handle_run_check_profile A i (requester_ip (hq_requester q)))))"

definition route_check_runs :: "server \<Rightarrow> http_request \<Rightarrow> route" where
  "route_check_runs S q =
     (let A = sv_api S; i = path_id ''/v1/checks/'' ''/runs'' (hq_path q) in
      or_else (on_id q ''GET'' i (\<lambda>i.
                 and_then (query (get_check_profile (ap_env A) i)) (\<lambda>found.
                   case found of
                     None \<Rightarrow> ret (not_found ''Check not found'')
                   | Some profile \<Rightarrow> with_list_query q (build_check_profile_run_list_response A (cpf_id profile)))))
              (on_id q ''POST'' i (\<lambda>i. renamed (handle_run_check_profile A i (requester_ip (hq_requester q))))))"

definition on_ids :: "http_request \<Rightarrow> string \<Rightarrow> (ident \<times> ident) option \<Rightarrow> (ident \<Rightarrow> ident \<Rightarrow> response handler) \<Rightarrow> route" where
  "on_ids q method found p =
     (case found of None \<Rightarrow> None | Some (i, j) \<Rightarrow> if hq_method q = method then Some (p i j) else None)"

definition route_profile_results :: "server \<Rightarrow> http_request \<Rightarrow> route" where
  "route_profile_results S q =
     (let A = sv_api S; s = hq_path q; prefix = ''/v1/check-profiles/'' in
      or_else (on_ids q ''GET'' (path_ids prefix ''/runs/'' [] s) (handle_get_check_profile_run A))
     (or_else (on_ids q ''GET'' (path_ids prefix ''/runs/'' ''/compare'' s) (\<lambda>i runId.
                 handle_get_check_profile_run_comparison A i runId (hq_against q) (hq_againstRunId q)))
     (or_else (on_id q ''GET'' (path_id prefix ''/compare/latest'' s) (handle_get_latest_check_profile_comparison A))
     (or_else (on_id q ''GET'' (path_id prefix ''/compare/baseline'' s) (handle_get_baseline_check_profile_comparison A))
     (or_else (on_id q ''GET'' (path_id prefix ''/report/export'' s) (\<lambda>i. handle_export_check_profile_report A i (hq_format q)))
              (on_id q ''GET'' (path_id prefix ''/report'' s) (handle_get_check_profile_report A)))))))"

definition route_check_profile :: "server \<Rightarrow> http_request \<Rightarrow> route" where
  "route_check_profile S q =
     (let A = sv_api S; i = path_id ''/v1/check-profiles/'' [] (hq_path q) in
      or_else (on_id q ''GET'' i (\<lambda>i.
                 entity_or ''Check profile not found'' ProfileEntity (get_check_profile (ap_env A) i)))
     (or_else (on_id q ''PUT'' i (update_check_route S q))
              (on_id q ''DELETE'' i (handle_delete_check_profile A))))"

definition route_check :: "server \<Rightarrow> http_request \<Rightarrow> route" where
  "route_check S q =
     (let A = sv_api S; i = path_id ''/v1/checks/'' [] (hq_path q) in
      or_else (on_id q ''GET'' i (\<lambda>i. entity_or ''Check not found'' ProfileEntity (get_check_profile (ap_env A) i)))
     (or_else (on_id q ''PATCH'' i (\<lambda>i. renamed (update_check_route S q i)))
              (on_id q ''DELETE'' i (handle_delete_check_profile A))))"

subsection \<open>One job, run, derived resource, artifact or audit\<close>

definition handle_job_stream :: "server \<Rightarrow> ident \<Rightarrow> response handler" where
  "handle_job_stream S i s =
     (Inr (200, StreamPayload (create_job_snapshot_stream (ap_env (sv_api S)) i
         (\<lambda>k. if k = 0 then w_db s else sv_snapshots S k))), s)"

definition route_entities :: "server \<Rightarrow> http_request \<Rightarrow> route" where
  "route_entities S q =
     (let A = sv_api S; E = ap_env A; s = hq_path q in
      or_else (on_id q ''GET'' (path_id ''/v1/jobs/'' ''/stream'' s) (handle_job_stream S))
     (or_else (on_id q ''GET'' (path_id ''/v1/jobs/'' [] s) (\<lambda>i. entity_or ''Job not found'' JobEntity (get_job E i)))
     (or_else (on_id q ''GET'' (path_id ''/v1/runs/'' [] s)
                 (\<lambda>i. entity_or ''Run not found'' CheckRunDetailPayload (build_run_detail_by_id E i)))
     (or_else (on_id q ''GET'' (path_id ''/v1/comparisons/'' [] s)
                 (\<lambda>i. entity_or ''Comparison not found'' ComparisonResourcePayload (get_comparison E i)))
     (or_else (on_id q ''GET'' (path_id ''/v1/exports/'' [] s)
                 (\<lambda>i. entity_or ''Export not found'' ExportPayload (get_export i)))
     (or_else (on_id q ''GET'' (path_id ''/v1/analyses/'' [] s)
                 (\<lambda>i. entity_or ''Analysis not found'' AnalysisPayload (get_analysis i)))
     (or_else (on_ids q ''GET'' (artifact_download_path s) (handle_browser_audit_artifact_download A))
              (on_id q ''GET'' (path_id ''/v1/browser-audits/'' [] s) (handle_get_browser_audit A)))))))))"

subsection \<open>All routes\<close>

definition routes :: "server \<Rightarrow> http_request \<Rightarrow> route list" where
  "routes S q =
     [route_documents S q, route_rpc S q, route_system S q, route_jobs S q, route_properties S q,
      route_route_sets S q, removed_collections q, route_check_profiles S q, route_derived S q, route_audits S q,
      route_transport S q, route_property S q, route_site S q, route_route_set S q, route_route_group S q,
      removed_entities q, route_baseline S q, route_check_baseline S q, route_profile_runs S q, route_check_runs S q,
      route_profile_results S q, route_check_profile S q, route_check S q, route_entities S q]"

definition route_request :: "server \<Rightarrow> http_request \<Rightarrow> response handler" where
  "route_request S q =
     (case fold (\<lambda>r found. or_else found r) (routes S q) None of
        Some p \<Rightarrow> p
      | None \<Rightarrow> ret (404, HintPayload))"

section \<open>The server\<close>

definition with_no_store :: "http_response \<Rightarrow> http_response" where
  "with_no_store r = r\<lparr>ho_headers := set_header ''cache-control'' ''no-store'' (ho_headers r)\<rparr>"

definition compatibility_route_mappings :: "(string \<times> string) list" where
  "compatibility_route_mappings =
     [(''/v1/properties'', ''/v1/sites''), (''/v1/route-sets'', ''/v1/route-groups''),
      (''/v1/check-profiles'', ''/v1/checks'')]"

definition is_under :: "string \<Rightarrow> string \<Rightarrow> bool" where
  "is_under s legacy = (s = legacy \<or> after_prefix (legacy @ ''/'') s \<noteq> None)"

definition append_header :: "string \<Rightarrow> string \<Rightarrow> (string \<times> string) list \<Rightarrow> (string \<times> string) list" where
  "append_header n v hs =
     (case map_of hs n of None \<Rightarrow> hs @ [(n, v)] | Some w \<Rightarrow> map (\<lambda>(m, x). if m = n then (m, x @ '', '' @ v) else (m, x)) hs)"

definition add_compatibility_deprecation_headers :: "server \<Rightarrow> http_request \<Rightarrow> http_response \<Rightarrow> http_response" where
  "add_compatibility_deprecation_headers S q r =
     (case find (\<lambda>(legacy, canonical). is_under (hq_path q) legacy) compatibility_route_mappings of
        None \<Rightarrow> r
      | Some (legacy, canonical) \<Rightarrow>
          (let (successor, pathname) =
             sv_successor S (hq_origin q) (canonical @ drop (length legacy) (hq_path q)) (hq_search q) in
           r\<lparr>ho_headers :=
               set_header ''warning''
                 (''299 WebPerf '' @ [CHR 0x22] @ ''Deprecated API path; migrate to '' @ pathname @ [CHR 0x22])
                 (append_header ''link'' (''<'' @ successor @ ''>; rel='' @ [CHR 0x22] @ ''successor-version'' @ [CHR 0x22])
                   (set_header ''deprecation'' ''true'' (ho_headers r)))\<rparr>))"

definition sent_as_is :: "http_request \<Rightarrow> bool" where
  "sent_as_is q =
     (is_execution_transport_path (hq_path q)
      \<or> hq_method q = ''GET'' \<and> artifact_download_path (hq_path q) \<noteq> None)"

definition sent_response :: "server \<Rightarrow> http_request \<Rightarrow> response \<Rightarrow> http_response" where
  "sent_response S q r =
     (let response = (if sent_as_is q then sv_render S r
                      else redact_json_response (sv_urls S) (sv_parseText S) (sv_render S r)) in
      add_compatibility_deprecation_headers S q
        (if hq_path q = ''/v1/runtime-metrics'' then with_no_store response else response))"

definition uses_scoped_artifact_token :: "http_request \<Rightarrow> bool" where
  "uses_scoped_artifact_token q = (hq_method q = ''POST'' \<and> artifact_upload_path (hq_path q) \<noteq> None)"

definition fetch :: "server \<Rightarrow> http_request \<Rightarrow> http_response handler" where
  "fetch S q =
     (case (if uses_scoped_artifact_token q then None else authorize_api_request S q) of
        Some refused \<Rightarrow> ret (sv_render S refused)
      | None \<Rightarrow> and_then (route_request S q) (\<lambda>r. ret (sent_response S q r)))"

end
