(* ===== verification/Request_Steps.thy ===== *)
theory Request_Steps
  imports Api_Routes
begin

text \<open>
  What a request may do to the database, shown for every handler once. A relation between the worlds before and after
  is given by what it is closed under: \<open>request_relation\<close> for the programs that only read, \<open>saving_relation\<close> for
  those that save resources and queue executions, and \<open>transport_relation\<close> for those of the execution transport.
\<close>

definition moves :: "(world \<Rightarrow> world \<Rightarrow> bool) \<Rightarrow> 'a handler \<Rightarrow> bool" where
  "moves R p = (\<forall>s. R s (snd (p s)))"

named_theorems moves_intros \<open>programs that move worlds along a relation\<close>

section \<open>Programs that read\<close>

locale request_relation =
  fixes R :: "world \<Rightarrow> world \<Rightarrow> bool"
  assumes stay: "R s s"
    and compose: "R s t \<Longrightarrow> R t u \<Longrightarrow> R s u"
    and tick: "R s (s\<lparr>w_ticks := n\<rparr>)"
    and draw: "R s (s\<lparr>w_uuids := n\<rparr>)"
begin

lemma moves_same: "(\<And>s. snd (p s) = s) \<Longrightarrow> moves R p"
  by (simp add: moves_def stay)

lemma moves_primitive [moves_intros]:
  "moves R (ret x)" "moves R (fail e)" "moves R (query f)" "moves R (clock A)" "moves R (random_uuid A)"
  by (simp_all add: moves_def ret_def fail_def query_def clock_def random_uuid_def stay tick draw)

lemma moves_and_then [moves_intros]: "moves R p \<Longrightarrow> (\<And>x. moves R (f x)) \<Longrightarrow> moves R (and_then p f)"
proof -
  assume p: "moves R p" and f: "\<And>x. moves R (f x)"
  have "R s (snd (and_then p f s))" for s
  proof (cases "p s")
    case (Pair r t)
    have "R s t" using p Pair unfolding moves_def by (metis snd_conv)
    moreover have "R t (snd (f x t))" for x using f [of x] unfolding moves_def by blast
    ultimately show ?thesis using Pair compose by (cases r) (auto simp: and_then_def)
  qed
  then show ?thesis by (simp add: moves_def)
qed

lemma moves_catch [moves_intros]: "moves R p \<Longrightarrow> (\<And>e. moves R (f e)) \<Longrightarrow> moves R (catch p f)"
proof -
  assume p: "moves R p" and f: "\<And>e. moves R (f e)"
  have "R s (snd (catch p f s))" for s
  proof (cases "p s")
    case (Pair r t)
    have "R s t" using p Pair unfolding moves_def by (metis snd_conv)
    moreover have "R t (snd (f e t))" for e using f [of e] unfolding moves_def by blast
    ultimately show ?thesis using Pair compose by (cases r) (auto simp: catch_def)
  qed
  then show ?thesis by (simp add: moves_def)
qed

lemma moves_map_prog [moves_intros]: "(\<And>x. moves R (f x)) \<Longrightarrow> moves R (map_prog f xs)"
  by (induction xs) (auto intro!: moves_intros)

lemma moves_fold_prog [moves_intros]: "(\<And>x a. moves R (f x a)) \<Longrightarrow> moves R (fold_prog f xs a)"
  by (induction xs arbitrary: a) (auto intro!: moves_intros)

lemma moves_if [moves_intros]: "moves R p \<Longrightarrow> moves R q \<Longrightarrow> moves R (if c then p else q)"
  by simp

lemma moves_let [moves_intros]: "(\<And>x. moves R (f x)) \<Longrightarrow> moves R (let x = v in f x)"
  by simp

lemma moves_option [moves_intros]:
  "moves R p \<Longrightarrow> (\<And>x. moves R (f x)) \<Longrightarrow> moves R (case v of None \<Rightarrow> p | Some x \<Rightarrow> f x)"
  by (cases v) simp_all

lemma moves_list [moves_intros]:
  "moves R p \<Longrightarrow> (\<And>x xs. moves R (f x xs)) \<Longrightarrow> moves R (case v of [] \<Rightarrow> p | x # xs \<Rightarrow> f x xs)"
  by (cases v) simp_all

lemma moves_sum [moves_intros]:
  "(\<And>x. moves R (f x)) \<Longrightarrow> (\<And>x. moves R (g x)) \<Longrightarrow> moves R (case v of Inl x \<Rightarrow> f x | Inr x \<Rightarrow> g x)"
  by (cases v) simp_all

lemma moves_prod [moves_intros]: "(\<And>x y. moves R (f x y)) \<Longrightarrow> moves R (case v of (x, y) \<Rightarrow> f x y)"
  by (cases v) simp_all

lemma moves_bool [moves_intros]: "moves R p \<Longrightarrow> moves R q \<Longrightarrow> moves R (case v of True \<Rightarrow> p | False \<Rightarrow> q)"
  by (cases v) simp_all

lemma moves_kind [moves_intros]:
  "moves R p \<Longrightarrow> moves R q \<Longrightarrow> moves R r
   \<Longrightarrow> moves R (case v of NetworkProbe \<Rightarrow> p | BrowserAudit \<Rightarrow> q | WebhookDelivery \<Rightarrow> r)"
  by (cases v) simp_all

lemma moves_source [moves_intros]:
  "(\<And>x. moves R (f x)) \<Longrightarrow> (\<And>x. moves R (g x))
   \<Longrightarrow> moves R (case v of ExportCheckReport x \<Rightarrow> f x | ExportComparison x \<Rightarrow> g x)"
  by (cases v) simp_all

lemma moves_analysis_source [moves_intros]:
  "(\<And>x. moves R (f x)) \<Longrightarrow> (\<And>x y. moves R (g x y))
   \<Longrightarrow> moves R (case v of AnalysisComparison x \<Rightarrow> f x | AnalysisRun x y \<Rightarrow> g x y)"
  by (cases v) simp_all

lemma moves_store_error [moves_intros]:
  "(\<And>m k. moves R (f m k)) \<Longrightarrow> (\<And>m. moves R (g m))
   \<Longrightarrow> moves R (case v of StoreValidation m k \<Rightarrow> f m k | StoreFailure m \<Rightarrow> g m)"
  by (cases v) simp_all

lemma moves_lift_throws [moves_intros]: "moves R (lift_throws r)"
  unfolding lift_throws_def by (intro moves_intros)

lemma moves_with_body [moves_intros]: "(\<And>i. moves R (k i)) \<Longrightarrow> moves R (with_body label schema b k)"
  by (cases b) (auto simp: with_body_def intro!: moves_intros)

lemma moves_try_then [moves_intros]:
  "moves R p \<Longrightarrow> (\<And>e. moves R (answer e)) \<Longrightarrow> (\<And>x. moves R (k x)) \<Longrightarrow> moves R (try_then p answer k)"
  unfolding try_then_def by (intro moves_intros)

subsection \<open>The parts of the handlers\<close>

lemma moves_checks [moves_intros]:
  "moves R (require_trimmed_text v label)" "moves R (validated_text A v)" "moves R (id_or_new A prefix i)"
  "moves R (ensure_unique_property A i name baseUrl)" "moves R (ensure_unique_route_set A i propertyId name)"
  "moves R (ensure_unique_check_profile A i propertyId name)" "moves R (parsed v')" "moves R (parse_context A ctx)"
  unfolding require_trimmed_text_def validated_text_def id_or_new_def ensure_unique_property_def
    ensure_unique_route_set_def ensure_unique_check_profile_def parsed_def parse_context_def
  by (intro moves_intros)+

lemma moves_sanitize [moves_intros]: "moves R (sanitize_route_inputs A n seenLabels seenUrls rs)"
proof (induction rs arbitrary: n seenLabels seenUrls)
  case (Cons r rs)
  show ?case unfolding sanitize_route_inputs.simps by (intro moves_intros Cons.IH)
qed (simp add: moves_intros)

lemma moves_parts [moves_intros]:
  "moves R (merge_route_entries A rts existingRoutes)"
  "moves R (resolve_masked_header_value name v existing)"
  "moves R (resolve_masked_webhook_secret secret previous)"
  "moves R (compute_next_run_at from m)"
  "moves R (resolve_updated_profile_baseline A profile i)"
  "moves R (failed_creation A message)"
  "moves R (get_owned_running_execution_job A i owner)"
  "moves R (stored_run A p)"
  unfolding merge_route_entries_def resolve_masked_header_value_def resolve_masked_webhook_secret_def
    compute_next_run_at_def resolve_updated_profile_baseline_def failed_creation_def
    get_owned_running_execution_job_def stored_run_def
  by (intro moves_intros)+

lemma moves_webhook_target [moves_intros]: "moves R (normalize_webhook_target A w t)"
  unfolding normalize_webhook_target_def by (intro moves_intros)

lemma moves_normalized [moves_intros]:
  "moves R (normalize_custom_request_config request existing)"
  "moves R (merge_webhook_targets A ts previous)"
  "moves R (build_profile_schedule profile interval now)"
  unfolding normalize_custom_request_config_def merge_webhook_targets_def build_profile_schedule_def
  by (intro moves_intros)+

lemma moves_alerts [moves_intros]: "moves R (normalize_alert_config A alerts existing)"
  unfolding normalize_alert_config_def by (intro moves_intros)

lemma moves_records [moves_intros]:
  "moves R (create_job_record A url note request policy requesterIp)"
  "moves R (create_check_profile_run_record A profile trigger createdJobs)"
  "moves R (rescheduled dispatchAt n profile)" "moves R (parse_dispatch_time A v)"
  unfolding create_job_record_def create_check_profile_run_record_def rescheduled_def parse_dispatch_time_def
  by (intro moves_intros)+

lemma moves_created [moves_intros]: "moves R (create_jobs_for_profile A profile requesterIp)"
  unfolding create_jobs_for_profile_def by (intro moves_intros)

subsection \<open>Lists and lookups\<close>

lemma moves_queries [moves_intros]:
  "moves R (list_query_of p)" "moves R (safe_parse_derived_query q)" "moves R (respond_list schema wrap page)"
  unfolding list_query_of_def safe_parse_derived_query_def respond_list_def by (intro moves_intros)+

lemma moves_list_response [moves_intros]: "moves R (list_response schema wrap searchable items q)"
  unfolding list_response_def by (intro moves_intros)

lemma moves_lists [moves_intros]:
  "moves R (build_property_list_response wrap A q)" "moves R (build_route_set_list_response wrap' A q)"
  "moves R (build_check_profile_list_response wrap'' A q)" "moves R (build_job_list_response A q)"
  "moves R (build_check_profile_run_list_response A i q)" "moves R (build_browser_audit_list_response A q)"
  "moves R (to_sites_payload A q)" "moves R (to_route_groups_payload A q)" "moves R (to_checks_payload A q)"
  "moves R (build_comparison_list_response A dq)" "moves R (build_export_list_response A dq)"
  "moves R (build_analysis_list_response A dq)"
  unfolding build_property_list_response_def build_route_set_list_response_def
    build_check_profile_list_response_def build_job_list_response_def build_check_profile_run_list_response_def
    build_browser_audit_list_response_def to_sites_payload_def to_route_groups_payload_def to_checks_payload_def
    build_comparison_list_response_def build_export_list_response_def build_analysis_list_response_def
  by (intro moves_intros)+

lemma moves_wrappers [moves_intros]:
  "moves R p \<Longrightarrow> moves R (json_or_error p)"
  "moves R q \<Longrightarrow> moves R (answered q)"
  "moves R p \<Longrightarrow> moves R (renamed p)"
  "moves R p \<Longrightarrow> moves R (renamed_baseline p)"
  "moves R p \<Longrightarrow> moves R (unwrap_json_response p)"
  "moves R q \<Longrightarrow> moves R (under_new_name q)"
  "moves R p \<Longrightarrow> moves R (with_execution_transport_errors A p)"
  "moves R p \<Longrightarrow> moves R (with_execution_job_id i p)"
  unfolding json_or_error_def answered_def renamed_def renamed_baseline_def unwrap_json_response_def
    under_new_name_def with_execution_transport_errors_def with_execution_job_id_def
  by (intro moves_intros | assumption)+

lemma moves_lookups [moves_intros]:
  "(\<And>c. moves R (k c)) \<Longrightarrow> moves R (with_profile A i k)"
  "(\<And>ej. moves R (k' ej)) \<Longrightarrow> moves R (when_owned A i owner k')"
  "moves R (found_or missing wrap f)" "moves R (entity_or missing wrap f)"
  "(\<And>lq. moves R (build lq)) \<Longrightarrow> moves R (with_list_query q build)"
  "(\<And>dq. moves R (build' dq)) \<Longrightarrow> moves R (with_derived_query q build')"
  unfolding with_profile_def when_owned_def found_or_def entity_or_def with_list_query_def with_derived_query_def
  by (intro moves_intros | assumption)+

lemma moves_gets [moves_intros]:
  "moves R (build_runtime_metrics_payload A)" "moves R (health_procedure A)"
  "moves R (handle_list_check_profile_runs A i q)"
  "moves R (handle_get_check_profile_run A i runId)"
  "moves R (handle_get_latest_check_profile_comparison A i)"
  "moves R (handle_get_baseline_check_profile_comparison A i)"
  "moves R (handle_get_check_profile_run_comparison A i runId against againstRunId)"
  "moves R (handle_get_check_profile_report A i)"
  "moves R (handle_get_check_profile_baseline A i)"
  "moves R (handle_get_browser_audit A i)"
  unfolding build_runtime_metrics_payload_def health_procedure_def handle_list_check_profile_runs_def
    handle_get_check_profile_run_def handle_get_latest_check_profile_comparison_def
    handle_get_baseline_check_profile_comparison_def handle_get_check_profile_run_comparison_def
    handle_get_check_profile_report_def handle_get_check_profile_baseline_def handle_get_browser_audit_def
  by (intro moves_intros)+

lemma moves_unchanged [moves_intros]:
  "moves R (handle_browser_audit_artifact_download A auditId artifactId)" "moves R (handle_job_stream S i)"
  by (rule moves_same, simp add: handle_browser_audit_artifact_download_def handle_job_stream_def Let_def
      split: option.split sum.split)+

lemma moves_grant [moves_intros]: "moves R (build_browser_audit_artifact_upload_grant A ej owner requestOrigin)"
  unfolding build_browser_audit_artifact_upload_grant_def by (intro moves_intros)

end

section \<open>Programs that save\<close>

locale saving_relation = request_relation R for R :: "world \<Rightarrow> world \<Rightarrow> bool" +
  fixes A :: api_host
  assumes saved: "db_exec d = db_exec (w_db s) \<Longrightarrow> R s (s\<lparr>w_db := d\<rparr>)"
    and filed: "R s (s\<lparr>w_store := fs\<rparr>)"
    and queued: "create_execution_resource (ap_env A) job result now (w_db s) = Inr (d, ej) \<Longrightarrow> R s (s\<lparr>w_db := d\<rparr>)"
begin

lemma moves_save [moves_intros]:
  "moves R (statement (save_property p))" "moves R (statement (save_route_set rs))"
  "moves R (statement (save_check_profile c))" "moves R (statement (save_comparison cr))"
  "moves R (statement (save_export e))" "moves R (statement (save_analysis a))"
  "moves R (statement (\<lambda>d. fst (delete_property i d)))" "moves R (statement (\<lambda>d. fst (delete_route_set i d)))"
  "moves R (statement (\<lambda>d. fst (prune_jobs_older_than days today d)))"
  by (simp_all add: moves_def statement_def saved)

lemma moves_delete_check [moves_intros]: "moves R (transact (\<lambda>d. Inr (delete_check_profile i d)))"
  unfolding moves_def transact_def
proof (intro allI)
  fix s
  show "R s (snd (case Inr (delete_check_profile i (w_db s)) of Inl m \<Rightarrow> (Inl (PlainExn m), s)
                  | Inr (d, x) \<Rightarrow> (Inr x, s\<lparr>w_db := d\<rparr>)))"
    using db_exec_writes(12) [of i "w_db s"] by (cases "delete_check_profile i (w_db s)") (simp add: saved)
qed

lemma moves_transact:
  "(\<And>s d x. f (w_db s) = Inr (d, x) \<Longrightarrow> R s (s\<lparr>w_db := d\<rparr>)) \<Longrightarrow> moves R (transact f)"
  by (auto simp: moves_def transact_def stay split: sum.split prod.split)

lemma moves_artifact [moves_intros]: "moves R (transact (save_browser_audit_artifact x))"
  by (rule moves_transact) (simp add: saved db_exec_artifact)

lemma moves_create [moves_intros]: "moves R (transact (create_execution_resource (ap_env A) job result now))"
  by (rule moves_transact) (rule queued)

subsection \<open>Properties, route sets and checks\<close>

lemma moves_relocation [moves_intros]: "moves R (reconcile_check_profile_runtime_location A c)"
  unfolding reconcile_check_profile_runtime_location_def by (intro moves_intros)

lemma moves_saved_inputs [moves_intros]:
  "moves R (handle_upsert_property A p pbody)" "moves R (save_route_set_input A rs ri prop)"
  "moves R (save_check_input A c ci prop routeSet)"
  "moves R k \<Longrightarrow> moves R (location_checked A c ci k)"
  "moves R (save_new_export A createdAt ei stem t)"
  unfolding handle_upsert_property_def save_route_set_input_def save_check_input_def location_checked_def
    save_new_export_def
  by (intro moves_intros | assumption)+

lemma moves_upserts [moves_intros]:
  "moves R (handle_upsert_route_set A rs rbody)" "moves R (handle_upsert_check_profile A c cbody)"
  unfolding handle_upsert_route_set_def handle_upsert_check_profile_def by (intro moves_intros)+

lemma moves_updates [moves_intros]:
  "moves R (handle_update_property A i pbody)" "moves R (handle_update_route_set A i rbody)"
  "moves R (handle_update_check_profile A i cbody)" "moves R (handle_delete_property A i)"
  "moves R (handle_delete_route_set A i)" "moves R (handle_delete_check_profile A i)"
  "moves R (handle_set_check_profile_baseline A i bbody)" "moves R (handle_clear_check_profile_baseline A i)"
  unfolding handle_update_property_def handle_update_route_set_def handle_update_check_profile_def
    handle_delete_property_def handle_delete_route_set_def handle_delete_check_profile_def
    handle_set_check_profile_baseline_def handle_clear_check_profile_baseline_def
  by (intro moves_intros)+

subsection \<open>Derived resources\<close>

lemma moves_builds [moves_intros]:
  "moves R (build_comparison_resource A i)" "moves R (build_export_resource A e)"
  "moves R (regression_part A c)" "moves R (coverage_part A c)"
  unfolding build_comparison_resource_def build_export_resource_def regression_part_def coverage_part_def
  by (intro moves_intros)+

lemma moves_analyzed [moves_intros]: "moves R (analyzed_comparison A src)"
  unfolding analyzed_comparison_def by (intro moves_intros)

lemma moves_analysis [moves_intros]: "moves R (build_analysis_resource A src)"
  unfolding build_analysis_resource_def by (intro moves_intros)

lemma moves_derived [moves_intros]:
  "moves R (handle_create_comparison A cbody)" "moves R (handle_create_export A ebody)"
  "moves R (handle_create_analysis A abody)" "moves R (handle_export_check_profile_report A i v)"
  unfolding handle_create_comparison_def handle_create_export_def handle_create_analysis_def
    handle_export_check_profile_report_def
  by (intro moves_intros)+

subsection \<open>Jobs, runs and audits\<close>

lemma moves_network [moves_intros]: "moves R (create_network_execution_resource A jobs run checkId)"
  unfolding create_network_execution_resource_def by (intro moves_intros)

lemma moves_queue_run [moves_intros]: "moves R (queue_run A profile createdJobs run)"
  unfolding queue_run_def by (intro moves_intros)

lemma moves_triggered [moves_intros]:
  "moves R (collect_due A dispatchAt stored due)" "moves R (trigger_check A dispatchAt profile)"
  unfolding collect_due_def trigger_check_def by (intro moves_intros)+

lemma moves_creations [moves_intros]:
  "moves R (handle_create_job A requesterIp jbody)" "moves R (handle_run_check_profile A i requesterIp)"
  "moves R (handle_dispatch_scheduled_profiles A v)" "moves R (handle_create_browser_audit A abody)"
  unfolding handle_create_job_def handle_run_check_profile_def handle_dispatch_scheduled_profiles_def
    handle_create_browser_audit_def
  by (intro moves_intros)+

subsection \<open>Uploads\<close>

lemma moves_files [moves_intros]:
  "moves R (stored_file A auditId artifactId f io)" "moves R (discard_file key now)"
  by (simp_all add: moves_def stored_file_def discard_file_def filed split: prod.split)

lemma moves_index [moves_intros]:
  "moves R (try_index x)" "moves R (answer_upload A x now indexed)"
  unfolding try_index_def answer_upload_def upload_failed_def by (intro moves_intros)+

lemma moves_upload:
  assumes "\<And>s. R s (upr_meanwhile r s)"
  shows "moves R (handle_browser_audit_artifact_upload A auditId r)"
proof -
  have "moves R (others_run (upr_meanwhile r))" by (simp add: moves_def others_run_def assms)
  then show ?thesis
    unfolding handle_browser_audit_artifact_upload_def store_upload_def store_named_def index_upload_def
      upload_failed_def
    by (intro moves_intros | assumption)+
qed

subsection \<open>Procedures and routes\<close>

lemma moves_procedures [moves_intros]:
  "moves R (dispatch_procedure A now)" "moves R (create_job_procedure A B r t)" "moves R (create_audit_procedure A B t)"
  unfolding dispatch_procedure_def create_job_procedure_def create_audit_procedure_def by (intro moves_intros)+

end

section \<open>The execution transport\<close>

locale transport_relation = saving_relation R A for R :: "world \<Rightarrow> world \<Rightarrow> bool" and A :: api_host +
  assumes claimed: "claim_execution_job (ap_env A) owner duration kind now (w_db s) = Inr (d, ej) \<Longrightarrow> R s (s\<lparr>w_db := d\<rparr>)"
    and started: "mark_execution_job_running i owner duration now (w_db s) = Inr (d, ej) \<Longrightarrow> R s (s\<lparr>w_db := d\<rparr>)"
    and renewed: "renew_execution_job_lease i owner duration now (w_db s) = Inr (d, ej) \<Longrightarrow> R s (s\<lparr>w_db := d\<rparr>)"
    and completed: "complete_execution_job i owner now (w_db s) = Inr (d, ej) \<Longrightarrow> R s (s\<lparr>w_db := d\<rparr>)"
    and failed: "fail_execution_job (ap_env A) i owner err delay now (w_db s) = Inr (d, ej) \<Longrightarrow> R s (s\<lparr>w_db := d\<rparr>)"
    and cancelled: "R s (s\<lparr>w_db := fst (cancel_execution_job (ap_env A) i now (w_db s))\<rparr>)"
    and followed: "enqueue_execution_jobs (ap_env A) i owner jobs now (w_db s) = Inr (d, js) \<Longrightarrow> R s (s\<lparr>w_db := d\<rparr>)"
begin

lemma moves_leases [moves_intros]:
  "moves R (transact (claim_execution_job (ap_env A) owner duration kind now))"
  "moves R (transact (mark_execution_job_running i owner duration now))"
  "moves R (transact (renew_execution_job_lease i owner duration now))"
  "moves R (transact (complete_execution_job i owner now))"
  "moves R (transact (fail_execution_job (ap_env A) i owner err delay now))"
  "moves R (transact (enqueue_execution_jobs (ap_env A) i owner jobs now))"
  by (rule moves_transact, erule claimed started renewed completed failed followed)+

lemma moves_result [moves_intros]: "moves R (transact (save_execution_resource_result (ap_env A) i owner result now))"
  by (rule moves_transact) (simp add: saved db_exec_result)

lemma moves_cancel [moves_intros]: "moves R (statement (\<lambda>d. fst (cancel_execution_job (ap_env A) i now d)))"
  by (simp add: moves_def statement_def cancelled)

lemma moves_claim [moves_intros]: "moves R (handle_claim_execution_job A cbody)"
  unfolding handle_claim_execution_job_def by (intro moves_intros)

lemma moves_mutation [moves_intros]: "moves R (handle_execution_job_mutation A i m)"
  by (cases m) (simp_all only: handle_execution_job_mutation.simps, (intro moves_intros)+)

lemma moves_stored_check [moves_intros]: "moves R (stored_check A p)"
  unfolding stored_check_def by (intro moves_intros)

lemma moves_contexts [moves_intros]:
  "moves R (build_network_context A ej np)" "moves R (build_audit_context A ej auditId)"
  "moves R (build_webhook_context A ej wp)"
  unfolding build_network_context_def build_audit_context_def build_webhook_context_def by (intro moves_intros)+

lemma moves_context [moves_intros]: "moves R (build_execution_resource_context A ej)"
  unfolding build_execution_resource_context_def by (intro moves_intros)

lemma moves_persist [moves_intros]: "moves R (persist_execution_resource_result A ej owner result)"
  by (cases result) (simp_all only: persist_execution_resource_result.simps save_result_def, (intro moves_intros)+)

lemma moves_followups [moves_intros]: "moves R (handle_followups A ej owner jobs)"
  unfolding handle_followups_def by (intro moves_intros)

lemma moves_operation [moves_intros]: "moves R (handle_execution_resource_operation A i op)"
  by (cases op) (simp_all only: handle_execution_resource_operation.simps, (intro moves_intros)+)

lemma moves_transport [moves_intros]: "moves R (handle_transport A t)"
  by (cases t) (simp_all only: handle_transport.simps, (intro moves_intros)+)

end

end
