(* ===== verification/Request_Routes.thy ===== *)
theory Request_Routes
  imports Request_Steps
begin

text \<open>
  What a routed request may do, for the three kinds of relations of \<open>Request_Steps\<close>: a GET request only reads, apart
  from the export of a report; requests outside the execution transport save resources and queue executions; requests
  of the transport also claim, renew and end executions.
\<close>

section \<open>Routes\<close>

definition route_moves :: "(world \<Rightarrow> world \<Rightarrow> bool) \<Rightarrow> 'a handler option \<Rightarrow> bool" where
  "route_moves R r = (case r of None \<Rightarrow> True | Some p \<Rightarrow> moves R p)"

lemma route_moves_simps [simp]: "route_moves R None" "route_moves R (Some p) = moves R p"
  by (simp_all add: route_moves_def)

named_theorems route_intros \<open>routes that move worlds along a relation\<close>

lemma route_moves_or_else [route_intros]: "route_moves R a \<Longrightarrow> route_moves R b \<Longrightarrow> route_moves R (or_else a b)"
  by (cases a) (simp_all add: or_else_def)

lemma route_moves_on [route_intros]:
  "(hq_method q = m \<Longrightarrow> hq_path q = path \<Longrightarrow> moves R p) \<Longrightarrow> route_moves R (on q m path p)"
  by (simp add: on_def)

lemma route_moves_on_id [route_intros]:
  "(\<And>i. hq_method q = m \<Longrightarrow> v = Some i \<Longrightarrow> moves R (p i)) \<Longrightarrow> route_moves R (on_id q m v p)"
  by (simp add: on_id_def split: option.split)

lemma route_moves_on_ids [route_intros]:
  "(\<And>i j. hq_method q = m \<Longrightarrow> v = Some (i, j) \<Longrightarrow> moves R (p i j)) \<Longrightarrow> route_moves R (on_ids q m v p)"
  by (simp add: on_ids_def split: option.split)

lemma route_moves_if: "(c \<Longrightarrow> route_moves R a) \<Longrightarrow> (\<not> c \<Longrightarrow> route_moves R b) \<Longrightarrow> route_moves R (if c then a else b)"
  by simp

lemma fold_or_else: "(\<And>r. r \<in> set rs \<Longrightarrow> route_moves R r) \<Longrightarrow> route_moves R a
  \<Longrightarrow> route_moves R (fold (\<lambda>r found. or_else found r) rs a)"
  by (induction rs arbitrary: a) (simp_all add: route_intros)

lemmas route_defs =
  route_documents_def route_system_def route_jobs_def route_properties_def route_route_sets_def
  removed_collections_def route_check_profiles_def route_derived_def route_audits_def route_property_def
  route_site_def route_route_set_def route_route_group_def removed_entities_def route_baseline_def
  route_check_baseline_def route_profile_runs_def route_check_runs_def route_profile_results_def
  route_check_profile_def route_check_def route_entities_def create_property_route_def create_route_set_route_def
  create_check_route_def update_property_route_def update_route_set_route_def update_check_route_def

context request_relation
begin

lemma moves_routed:
  assumes "\<And>r. r \<in> set (routes S q) \<Longrightarrow> route_moves R r"
  shows "moves R (route_request S q)"
  using fold_or_else [of "routes S q" R None, OF assms] unfolding route_request_def
  by (auto split: option.split intro: moves_intros)

text \<open>The routes of GET requests.\<close>

lemma get_routes_move:
  assumes "hq_method q = ''GET''" and "after_prefix ''/rpc'' (hq_path q) = None"
    and "path_id ''/v1/check-profiles/'' ''/report/export'' (hq_path q) \<noteq> None
         \<Longrightarrow> (\<And>i. moves R (handle_export_check_profile_report (sv_api S) i (hq_format q)))"
    and "r \<in> set (routes S q)"
  shows "route_moves R r"
proof -
  have "route_moves R (route_rpc S q)" "route_moves R (route_transport S q)"
    using assms(1, 2) by (simp_all add: route_rpc_def route_transport_def Let_def)
  moreover have "route_moves R (route_documents S q)" "route_moves R (route_system S q)"
    "route_moves R (route_jobs S q)" "route_moves R (route_properties S q)" "route_moves R (route_route_sets S q)"
    "route_moves R (removed_collections q)" "route_moves R (route_check_profiles S q)" "route_moves R (route_derived S q)"
    "route_moves R (route_audits S q)" "route_moves R (route_property S q)" "route_moves R (route_site S q)"
    "route_moves R (route_route_set S q)" "route_moves R (route_route_group S q)" "route_moves R (removed_entities q)"
    "route_moves R (route_baseline S q)" "route_moves R (route_check_baseline S q)"
    "route_moves R (route_profile_runs S q)" "route_moves R (route_check_runs S q)"
    "route_moves R (route_profile_results S q)" "route_moves R (route_check_profile S q)"
    "route_moves R (route_check S q)" "route_moves R (route_entities S q)"
    unfolding route_defs Let_def
    by ((intro route_intros route_moves_if moves_intros |
        simp add: assms(1) moves_intros assms(3))+)
  ultimately show ?thesis using assms(4) by (auto simp: routes_def)
qed

text \<open>An RPC request does what the procedure it names does.\<close>

lemma moves_answered_rpc [moves_intros]: "moves R p \<Longrightarrow> moves R (answer_procedure S p)"
  by (auto simp: moves_def answer_procedure_def split: prod.split) (metis snd_conv)

lemma moves_fetch: "moves R (route_request S q) \<Longrightarrow> moves R (fetch S q)"
  unfolding fetch_def by (intro moves_intros)

lemma rpc_moves:
  assumes "\<And>router r c. route_moves R (call_procedure S r router c)"
  shows "route_moves R (route_rpc S q)"
proof -
  have "route_moves R (map_option (answer_procedure S) (call_procedure S r router c))" for r router c
    using assms [of r router c] by (cases "call_procedure S r router c") (simp_all add: moves_answered_rpc)
  then show ?thesis by (simp add: route_rpc_def moves_intros split: option.split sum.split prod.split)
qed

end

context saving_relation
begin

lemma moves_calls [moves_intros]:
  "moves R (property_call A B c)" "moves R (route_set_call A B c)" "moves R (check_profile_call A B c)"
  by (cases c; simp only: property_call.simps route_set_call.simps check_profile_call.simps; intro moves_intros)+

lemma moves_public_resources [moves_intros]:
  "moves R (public_sites A B c)" "moves R (public_route_groups A B c)"
  by (cases c; simp only: public_sites.simps public_route_groups.simps; intro moves_intros)+

lemma moves_job_calls [moves_intros]: "moves R (ops_jobs A B r c)"
  by (cases c; simp only: ops_jobs.simps; intro moves_intros)

lemma moves_audit_calls [moves_intros]: "moves R (public_audits A B c)" "moves R (app_audits A B c)"
  by (cases c; simp only: public_audits.simps app_audits.simps; intro moves_intros)+

lemma moves_comparison_calls [moves_intros]: "moves R (comparisons_call A c)"
  by (cases c; simp only: comparisons_call.simps; intro moves_intros)

lemma moves_export_calls [moves_intros]: "moves R (exports_call A c)"
  by (cases c; simp only: exports_call.simps; intro moves_intros)

lemma moves_analysis_calls [moves_intros]: "moves R (analyses_call A c)"
  by (cases c; simp only: analyses_call.simps; intro moves_intros)

lemma moves_run_call [moves_intros]: "moves R (public_run A i)"
  unfolding public_run_def by (intro moves_intros)

lemma job_calls_move [simp]: "route_moves R (control_jobs A B r c)"
  by (cases c) (simp_all add: moves_intros)

lemma check_calls_move [simp]: "route_moves R (check_runs_call A B r c)" "route_moves R (check_report_call A c)"
  by (cases c; simp add: moves_intros)+

lemma map_option_moves: "route_moves R v \<Longrightarrow> route_moves R (map_option under_new_name v)"
  by (cases v) (simp_all add: moves_intros)

lemma checks_move [simp]: "route_moves R (control_checks A B r c)" "route_moves R (app_checks A B r c)"
  by (cases c; simp add: moves_intros route_moves_or_else del: exports_call.simps)+

lemma public_checks_move [simp]: "route_moves R (public_checks A B r c)"
proof (cases c)
  case (CheckCall x)
  then show ?thesis by (cases x) (simp_all add: moves_intros)
qed (simp_all add: moves_intros map_option_moves)

lemma app_router_moves [simp]: "route_moves R (app_router A B r c)"
  by (cases "(A, B, r, c)" rule: app_router.cases) (simp_all add: moves_intros del: comparisons_call.simps analyses_call.simps)

lemma procedures_move:
  assumes "sv_api S = A"
  shows "route_moves R (call_procedure S r router c)"
  by (cases router; cases c; simp add: assms moves_intros)

text \<open>The routes of all requests but those of the transport.\<close>

lemma plain_routes_move:
  assumes A: "sv_api S = A" and "\<And>s. R s (upr_meanwhile (hq_upload q) s)"
    and t: "hq_method q = ''POST'' \<and> is_execution_transport_path (hq_path q)
         \<Longrightarrow> route_moves R (route_transport S q)"
    and "r \<in> set (routes S q)"
  shows "route_moves R r"
proof -
  have "route_moves R (route_rpc S q)" by (rule rpc_moves) (rule procedures_move [OF A])
  moreover have "route_moves R (route_transport S q)"
  proof (cases "hq_method q = ''POST'' \<and> is_execution_transport_path (hq_path q)")
    case False
    then show ?thesis
      using moves_upload [of "(hq_upload q)\<lparr>upr_authorization := hq_authorization q\<rparr>"] assms(2)
      by (auto simp: route_transport_def Let_def A is_execution_transport_path_def moves_intros split: option.split)
  qed (rule t)
  moreover have "route_moves R (route_documents S q)" "route_moves R (route_system S q)"
    "route_moves R (route_jobs S q)" "route_moves R (route_properties S q)" "route_moves R (route_route_sets S q)"
    "route_moves R (removed_collections q)" "route_moves R (route_check_profiles S q)" "route_moves R (route_derived S q)"
    "route_moves R (route_audits S q)" "route_moves R (route_property S q)" "route_moves R (route_site S q)"
    "route_moves R (route_route_set S q)" "route_moves R (route_route_group S q)" "route_moves R (removed_entities q)"
    "route_moves R (route_baseline S q)" "route_moves R (route_check_baseline S q)"
    "route_moves R (route_profile_runs S q)" "route_moves R (route_check_runs S q)"
    "route_moves R (route_profile_results S q)" "route_moves R (route_check_profile S q)"
    "route_moves R (route_check S q)" "route_moves R (route_entities S q)"
    unfolding route_defs Let_def A
    by ((intro route_intros route_moves_if moves_intros | simp add: moves_intros)+)
  ultimately show ?thesis using assms(4) by (auto simp: routes_def)
qed

end

context transport_relation
begin

lemma all_routes_move:
  assumes "sv_api S = A" and "\<And>s. R s (upr_meanwhile (hq_upload q) s)" and "r \<in> set (routes S q)"
  shows "route_moves R r"
proof (rule plain_routes_move [OF assms(1, 2) _ assms(3)])
  show "route_moves R (route_transport S q)"
    using moves_upload [of "(hq_upload q)\<lparr>upr_authorization := hq_authorization q\<rparr>"] assms(2)
    by (auto simp: route_transport_def Let_def assms(1) moves_intros split: option.split)
qed

end

end
