(* ===== verification/Request_Properties.thy ===== *)
theory Request_Properties
  imports Request_Routes Queue_Safety
begin

text \<open>
  What any request to the API may do: nothing without a token, only read when it is a GET request, and otherwise only
  steps of the repository, those on leases only through the execution transport.
\<close>

section \<open>Requests that read\<close>

definition unchanged :: "world \<Rightarrow> world \<Rightarrow> bool" where
  "unchanged s t = (w_db t = w_db s \<and> w_store t = w_store s)"

definition without_exports :: "world \<Rightarrow> db" where
  "without_exports s = (w_db s)\<lparr>db_exports := []\<rparr>"

definition only_exports :: "world \<Rightarrow> world \<Rightarrow> bool" where
  "only_exports s t = (without_exports t = without_exports s \<and> w_store t = w_store s)"

interpretation reading: request_relation unchanged
  by unfold_locales (auto simp: unchanged_def)

interpretation exporting: request_relation only_exports
  by unfold_locales (auto simp: only_exports_def without_exports_def)

lemma report_export_adds_exports: "moves only_exports (handle_export_check_profile_report A i v)"
proof -
  have "moves only_exports (statement (save_export e))" for e
    by (simp add: moves_def statement_def only_exports_def without_exports_def save_export_def)
  then show ?thesis
    unfolding handle_export_check_profile_report_def build_export_resource_def save_new_export_def
    by (intro exporting.moves_if exporting.moves_let moves_intros)
qed

definition report_export_path :: "string \<Rightarrow> bool" where
  "report_export_path s = (path_id ''/v1/check-profiles/'' ''/report/export'' s \<noteq> None)"

lemma get_keeps:
  assumes "hq_method q = ''GET''" and "after_prefix ''/rpc'' (hq_path q) = None"
  shows "only_exports s (snd (fetch S q s))"
    and "\<not> report_export_path (hq_path q) \<Longrightarrow> unchanged s (snd (fetch S q s))"
proof -
  have "moves only_exports (fetch S q)"
    by (intro exporting.moves_fetch exporting.moves_routed exporting.get_routes_move [OF assms]
        report_export_adds_exports)
  then show "only_exports s (snd (fetch S q s))" by (simp add: moves_def)
  assume "\<not> report_export_path (hq_path q)"
  then have "moves unchanged (fetch S q)"
    by (intro reading.moves_fetch reading.moves_routed reading.get_routes_move [OF assms])
      (simp add: report_export_path_def)
  then show "unchanged s (snd (fetch S q s))" by (simp add: moves_def)
qed

text \<open>A GET request only reads, apart from RPC calls: the database and the store of artifacts are the
  same afterwards, except that the export of a report adds to the exports.\<close>

theorem get_requests_only_read:
  assumes "hq_method q = ''GET''" and "after_prefix ''/rpc'' (hq_path q) = None"
  shows "w_store (snd (fetch S q s)) = w_store s
    \<and> (w_db (snd (fetch S q s)))\<lparr>db_exports := []\<rparr> = (w_db s)\<lparr>db_exports := []\<rparr>
    \<and> (\<not> report_export_path (hq_path q) \<longrightarrow> w_db (snd (fetch S q s)) = w_db s)"
  using get_keeps [OF assms, of s S] by (simp add: only_exports_def unchanged_def without_exports_def)

section \<open>Requests and tokens\<close>

text \<open>The token that opens a path: the internal secrets open the internal paths, the tokens of the administrator all
  others.\<close>

definition opens :: "server \<Rightarrow> string \<Rightarrow> string \<Rightarrow> bool" where
  "opens S path t =
     (if is_internal_path path
      then t = ap_internalSecret (sv_api S) \<or> Some t = ap_internalSecretNext (sv_api S)
      else Some t = sv_adminToken S \<or> Some t = sv_adminTokenNext S)"

lemma bearer_not_empty: "read_bearer_token v = Some t \<Longrightarrow> t \<noteq> []"
  by (auto simp: read_bearer_token_def Let_def split: option.splits if_splits)

lemma matches_bearer_token_iff:
  assumes "inj digest"
  shows "matches_bearer_token digest v [a, b] \<longleftrightarrow> (\<exists>t. read_bearer_token v = Some t \<and> (Some t = a \<or> Some t = b))"
  using bearer_not_empty [of v] injD [OF assms]
  by (cases a; cases b) (auto simp: matches_bearer_token_def constant_time_token_equal_def given_def split: option.splits)

lemma authorized_iff:
  assumes "inj (sv_digest S)"
  shows "authorize_api_request S q = None \<longleftrightarrow>
      (hq_method q = ''GET'' \<and> hq_path q \<in> set public_get_paths)
      \<or> (\<exists>t. read_bearer_token (hq_authorization q) = Some t \<and> opens S (hq_path q) t)"
  by (auto simp: authorize_api_request_def resolve_expected_tokens_def opens_def matches_bearer_token_iff [OF assms])

text \<open>The upload of an artifact without a valid token of its own.\<close>

lemma after_prefix_Some: "after_prefix p s = Some r \<Longrightarrow> s = p @ r"
  unfolding after_prefix_def by (metis append_take_drop_id option.distinct(1) option.inject)

lemma path_id_Some: "path_id p x s = Some i \<Longrightarrow> s = p @ i @ x"
  by (auto simp: path_id_def next_segment_def dest!: after_prefix_Some split: option.splits if_splits)

lemma public_get_plain:
  "s \<in> set public_get_paths \<Longrightarrow> after_prefix ''/rpc'' s = None \<and> \<not> report_export_path s"
  by (auto simp: public_get_paths_def after_prefix_def report_export_path_def path_id_def next_segment_def)

lemma refused_upload:
  assumes "upload_claims A (ap_time A (w_ticks s)) (upr_authorization r) = None"
  shows "handle_browser_audit_artifact_upload A i r s =
    (Inr (401, ErrorPayload ''Artifact upload token is invalid or expired''), s\<lparr>w_ticks := Suc (w_ticks s)\<rparr>)"
  using assms by (simp add: handle_browser_audit_artifact_upload_def and_then_def clock_def ret_def)

lemma upload_route:
  assumes "hq_method q = ''POST''" and "artifact_upload_path (hq_path q) = Some i"
  shows "route_request S q = handle_browser_audit_artifact_upload (sv_api S) i
           ((hq_upload q)\<lparr>upr_authorization := hq_authorization q\<rparr>)"
proof -
  obtain r where r: "hq_path q = ''/internal/browser-audits/'' @ r"
    using path_id_Some assms(2) unfolding artifact_upload_path_def by blast
  have n: "or_else None x = x" "or_else (Some y) x = Some y" for x :: "'a option" and y :: 'a
    by (simp_all add: or_else_def)
  have "route_documents S q = None" "route_rpc S q = None" "route_system S q = None" "route_jobs S q = None"
    "route_properties S q = None" "route_route_sets S q = None" "removed_collections q = None"
    "route_check_profiles S q = None" "route_derived S q = None" "route_audits S q = None"
    by (simp_all add: route_documents_def route_rpc_def route_system_def route_jobs_def route_properties_def
        route_route_sets_def removed_collections_def route_check_profiles_def route_derived_def route_audits_def
        on_def r n Let_def after_prefix_def)
  moreover have "route_transport S q = Some (handle_browser_audit_artifact_upload (sv_api S) i
           ((hq_upload q)\<lparr>upr_authorization := hq_authorization q\<rparr>))"
    using assms by (simp add: route_transport_def Let_def r [symmetric]) (simp add: r)
  moreover have "fold (\<lambda>r found. or_else found r) rs (Some p) = Some p" for rs :: "route list" and p
    by (induction rs) (simp_all add: n)
  ultimately show ?thesis by (simp add: route_request_def routes_def n)
qed

lemma stranger_unchanged:
  assumes "inj (sv_digest S)"
    and "\<And>t. read_bearer_token (hq_authorization q) = Some t \<Longrightarrow> \<not> opens S (hq_path q) t"
    and "upload_claims (sv_api S) (ap_time (sv_api S) (w_ticks s)) (hq_authorization q) = None"
  shows "unchanged s (snd (fetch S q s))"
proof (cases "uses_scoped_artifact_token q")
  case True
  then obtain i where "hq_method q = ''POST''" "artifact_upload_path (hq_path q) = Some i"
    by (auto simp: uses_scoped_artifact_token_def)
  from upload_route [OF this, of S] True show ?thesis
    using refused_upload [of "sv_api S" s "(hq_upload q)\<lparr>upr_authorization := hq_authorization q\<rparr>" i] assms(3)
    by (simp add: fetch_def and_then_def ret_def unchanged_def)
next
  case False
  show ?thesis
  proof (cases "hq_method q = ''GET'' \<and> hq_path q \<in> set public_get_paths")
    case True
    with public_get_plain get_keeps(2) show ?thesis by blast
  next
    case other: False
    have "authorize_api_request S q \<noteq> None"
      using authorized_iff [OF assms(1)] assms(2) other by blast
    then show ?thesis using False by (auto simp: fetch_def ret_def unchanged_def)
  qed
qed

text \<open>Property C11. A request is let in exactly when it is a GET request for a public path or carries a token that
  opens its path: an internal secret for the internal paths, a token of the administrator for all others, where an
  absent token opens nothing. Whoever has neither such a token nor a valid upload token changes neither the
  database nor the store of artifacts, whatever the request.\<close>

theorem requests_need_their_token:
  assumes "inj (sv_digest S)"
  shows "(authorize_api_request S q = None \<longleftrightarrow>
           (hq_method q = ''GET'' \<and> hq_path q \<in> set public_get_paths)
           \<or> (\<exists>t. read_bearer_token (hq_authorization q) = Some t \<and> opens S (hq_path q) t))
    \<and> ((\<forall>t. read_bearer_token (hq_authorization q) = Some t \<longrightarrow> \<not> opens S (hq_path q) t)
        \<and> upload_claims (sv_api S) (ap_time (sv_api S) (w_ticks s)) (hq_authorization q) = None
        \<longrightarrow> w_db (snd (fetch S q s)) = w_db s \<and> w_store (snd (fetch S q s)) = w_store s)"
  using authorized_iff [OF assms] stranger_unchanged [OF assms] unfolding unchanged_def by blast

section \<open>Requests as steps of the repository\<close>

definition takes_steps :: "env \<Rightarrow> (repo_action \<Rightarrow> bool) \<Rightarrow> world \<Rightarrow> world \<Rightarrow> bool" where
  "takes_steps env ok s t = (\<exists>tr. repo_trace env tr (w_db s) (w_db t) \<and> (\<forall>(now, a) \<in> set tr. ok a))"

definition plain_action :: "repo_action \<Rightarrow> bool" where
  "plain_action a = (a = Enqueue \<or> a = OtherWrite)"

definition any_action :: "repo_action \<Rightarrow> bool" where
  "any_action a = True"

lemma repo_trace_append: "repo_trace env tr d d1 \<Longrightarrow> repo_trace env tr' d1 d2 \<Longrightarrow> repo_trace env (tr @ tr') d d2"
  by (induction rule: repo_trace.induct) (auto intro: trace_cons)

lemma takes_no_step: "w_db t = w_db s \<Longrightarrow> takes_steps env ok s t"
  by (auto simp: takes_steps_def intro!: exI [of _ "[]"] trace_nil)

lemma takes_step: "repo_step env now a (w_db s) d \<Longrightarrow> ok a \<Longrightarrow> takes_steps env ok s (s\<lparr>w_db := d\<rparr>)"
  by (auto simp: takes_steps_def intro!: exI [of _ "[(now, a)]"] trace_cons trace_nil)

lemma takes_steps_trans:
  assumes "takes_steps env ok s t" and "takes_steps env ok t u"
  shows "takes_steps env ok s u"
proof -
  obtain tr where "repo_trace env tr (w_db s) (w_db t)" "\<forall>(now, a) \<in> set tr. ok a"
    using assms(1) by (auto simp: takes_steps_def)
  moreover obtain tr' where "repo_trace env tr' (w_db t) (w_db u)" "\<forall>(now, a) \<in> set tr'. ok a"
    using assms(2) by (auto simp: takes_steps_def)
  ultimately show ?thesis unfolding takes_steps_def
    by (intro exI [of _ "tr @ tr'"]) (auto intro: repo_trace_append)
qed

interpretation plain: saving_relation "takes_steps (ap_env A) plain_action" A for A
proof unfold_locales
  fix s :: world and d job result now ej
  show "db_exec d = db_exec (w_db s) \<Longrightarrow> takes_steps (ap_env A) plain_action s (s\<lparr>w_db := d\<rparr>)"
    by (rule takes_step [OF call_write]) (simp_all add: plain_action_def)
  show "create_execution_resource (ap_env A) job result now (w_db s) = Inr (d, ej)
    \<Longrightarrow> takes_steps (ap_env A) plain_action s (s\<lparr>w_db := d\<rparr>)"
    by (rule takes_step [OF call_create]) (simp_all add: plain_action_def)
qed (auto intro: takes_no_step takes_steps_trans)

lemma any_step: "repo_step env now a (w_db s) d \<Longrightarrow> takes_steps env any_action s (s\<lparr>w_db := d\<rparr>)"
  by (rule takes_step) (simp_all add: any_action_def)

interpretation transport: transport_relation "takes_steps (ap_env A) any_action" A for A
proof unfold_locales
  show "takes_steps (ap_env A) any_action s (s\<lparr>w_db := fst (cancel_execution_job (ap_env A) i now (w_db s))\<rparr>)"
    for s :: world and i now
    by (rule any_step [OF call_cancel]) (rule prod.collapse [symmetric])
qed (auto intro: takes_no_step takes_steps_trans any_step repo_step.intros)

lemma plain_step_keeps:
  assumes "repo_step env now a d d'" and "plain_action a" and "reachable env d"
    and "row_get xr_id i (db_exec d) = Some r" and "\<not> is_terminal_status (xr_status r)"
  shows "row_get xr_id i (db_exec d') = Some r"
proof -
  have "table_step now a (db_exec d) (db_exec d')"
    using repo_step_row [OF assms(1) reachable_inv [OF assms(3)]] .
  with assms(2, 4, 5) show ?thesis
    by (fastforce simp: table_step_def plain_action_def elim: row_step_enqueue row_step_write split: option.splits)
qed

lemma plain_trace_keeps:
  assumes "repo_trace env tr d d'" and "\<forall>(now, a) \<in> set tr. plain_action a" and "reachable env d"
    and "row_get xr_id i (db_exec d) = Some r" and "\<not> is_terminal_status (xr_status r)"
  shows "row_get xr_id i (db_exec d') = Some r"
  using assms
proof (induction rule: repo_trace.induct)
  case (trace_cons now a d d1 tr d')
  have "row_get xr_id i (db_exec d1) = Some r"
    using plain_step_keeps [OF trace_cons.hyps(1)] trace_cons.prems by auto
  with trace_cons show ?case by (auto intro: reachable.step)
qed

definition leases_request :: "http_request \<Rightarrow> bool" where
  "leases_request q = (hq_method q = ''POST'' \<and> is_execution_transport_path (hq_path q))"

lemma request_steps:
  assumes "\<And>t. takes_steps (ap_env (sv_api S)) plain_action t (upr_meanwhile (hq_upload q) t)"
  shows "takes_steps (ap_env (sv_api S)) (if leases_request q then any_action else plain_action) s (snd (fetch S q s))"
proof (cases "leases_request q")
  case True
  have "takes_steps (ap_env (sv_api S)) any_action t (upr_meanwhile (hq_upload q) t)" for t
    using assms [of t] by (auto simp: takes_steps_def any_action_def)
  then have "moves (takes_steps (ap_env (sv_api S)) any_action) (fetch S q)"
    by (intro transport.moves_fetch transport.moves_routed transport.all_routes_move [OF refl])
  with True show ?thesis by (simp add: moves_def)
next
  case False
  have "moves (takes_steps (ap_env (sv_api S)) plain_action) (fetch S q)"
  proof (rule plain.moves_fetch, rule plain.moves_routed)
    fix r assume "r \<in> set (routes S q)"
    with False show "route_moves (takes_steps (ap_env (sv_api S)) plain_action) r"
      by (intro plain.plain_routes_move [where S = S and q = q and r = r and A = "sv_api S"])
        (simp_all add: leases_request_def assms)
  qed
  with False show ?thesis by (simp add: moves_def)
qed

text \<open>Property C10. The API refines the repository: what a request does to the database is a sequence of the
  repository's steps, and only a POST request on the execution transport claims, renews, ends or cancels an
  execution; every other request at most queues new ones, and leaves every execution that has not ended as it is.
  What other requests do while an upload is written is taken to be of that kind.\<close>

theorem requests_refine_the_repository:
  assumes "\<And>t. takes_steps (ap_env (sv_api S)) plain_action t (upr_meanwhile (hq_upload q) t)"
    and "reachable (ap_env (sv_api S)) (w_db s)"
  shows "\<exists>tr. repo_trace (ap_env (sv_api S)) tr (w_db s) (w_db (snd (fetch S q s)))
    \<and> (\<not> leases_request q \<longrightarrow>
          (\<forall>(now, a) \<in> set tr. a = Enqueue \<or> a = OtherWrite)
          \<and> (\<forall>i r. row_get xr_id i (db_exec (w_db s)) = Some r \<and> \<not> is_terminal_status (xr_status r)
               \<longrightarrow> row_get xr_id i (db_exec (w_db (snd (fetch S q s)))) = Some r))"
proof -
  obtain tr where tr: "repo_trace (ap_env (sv_api S)) tr (w_db s) (w_db (snd (fetch S q s)))"
    and ok: "\<forall>(now, a) \<in> set tr. (if leases_request q then any_action else plain_action) a"
    using request_steps [of S q s] assms(1) unfolding takes_steps_def by blast
  have "row_get xr_id i (db_exec (w_db (snd (fetch S q s)))) = Some r"
    if "\<not> leases_request q" "row_get xr_id i (db_exec (w_db s)) = Some r" "\<not> is_terminal_status (xr_status r)" for i r
    using plain_trace_keeps [OF tr _ assms(2) that(2, 3)] ok that(1) by simp
  with tr ok show ?thesis by (intro exI [of _ tr]) (auto simp: plain_action_def)
qed

section \<open>Streams of snapshots\<close>

lemma send_snapshots_spec:
  "send_snapshots env i dbs k n = es \<Longrightarrow> length es \<le> n \<and> (0 < n \<longrightarrow> es \<noteq> [])
    \<and> (\<forall>j < length es. es ! j = (case get_job env i (dbs (k + j)) of None \<Rightarrow> JobMissing | Some x \<Rightarrow> JobSnapshot x))
    \<and> (\<forall>j. Suc j < length es \<longrightarrow> (\<exists>x. get_job env i (dbs (k + j)) = Some x \<and> sm_inflight (job_summary x) \<noteq> 0))
    \<and> (es \<noteq> [] \<and> length es < n \<longrightarrow>
         (case get_job env i (dbs (k + length es - 1)) of None \<Rightarrow> True | Some x \<Rightarrow> sm_inflight (job_summary x) = 0))"
proof (induction n arbitrary: k es)
  case (Suc n)
  show ?case
  proof (cases "get_job env i (dbs k)")
    case None
    with Suc.prems show ?thesis by auto
  next
    case (Some x)
    show ?thesis
    proof (cases "sm_inflight (job_summary x) = 0")
      case True
      with Some Suc.prems show ?thesis by auto
    next
      case False
      define rest where "rest = send_snapshots env i dbs (Suc k) n"
      have es: "es = JobSnapshot x # rest" using Some False Suc.prems by (simp add: rest_def)
      note ih = Suc.IH [OF rest_def [symmetric]]
      show ?thesis
      proof (intro conjI allI impI)
        show "length es \<le> Suc n" using ih es by simp
        show "es \<noteq> []" by (simp add: es)
        show "es ! j = (case get_job env i (dbs (k + j)) of None \<Rightarrow> JobMissing | Some x \<Rightarrow> JobSnapshot x)"
          if "j < length es" for j
          using that ih es Some by (cases j) simp_all
        show "\<exists>x. get_job env i (dbs (k + j)) = Some x \<and> sm_inflight (job_summary x) \<noteq> 0" if "Suc j < length es" for j
          using that ih es Some False by (cases j) auto
        show "case get_job env i (dbs (k + length es - 1)) of None \<Rightarrow> True | Some x \<Rightarrow> sm_inflight (job_summary x) = 0"
          if "es \<noteq> [] \<and> length es < Suc n"
          using that ih es by (cases rest) auto
      qed
    qed
  qed
qed simp


section \<open>Witnesses\<close>

definition demo_parsers :: body_parsers where
  "demo_parsers =
     \<lparr> bp_property = (\<lambda>_. None), bp_routeSet = (\<lambda>_. None), bp_check = (\<lambda>_. None), bp_baseline = (\<lambda>_. None),
        bp_job = (\<lambda>_. None), bp_audit = (\<lambda>_. None), bp_comparison = (\<lambda>_. None), bp_export = (\<lambda>_. None),
        bp_analysis = (\<lambda>_. None), bp_lease = (\<lambda>_. None), bp_owner = (\<lambda>_. None), bp_failure = (\<lambda>_. None),
        bp_result = (\<lambda>_. None), bp_followups = (\<lambda>_. None) \<rparr>"

definition demo_server :: server where
  "demo_server =
     \<lparr> sv_api = demo_api, sv_parsers = demo_parsers, sv_adminToken = Some ''admin'', sv_adminTokenNext = None,
        sv_digest = (\<lambda>t. t), sv_matchRpc = (\<lambda>_ _ _. None), sv_answerRpc = (\<lambda>_. (500, NoPayload)),
        sv_openapi = (\<lambda>_. []), sv_snapshots = (\<lambda>_. empty_db),
        sv_render = (\<lambda>r. \<lparr> ho_status = fst r, ho_headers = [], ho_body = None, ho_fails = False \<rparr>),
        sv_urls = \<lparr> ut_parse = (\<lambda>_. None), ut_href = (\<lambda>_. []) \<rparr>, sv_parseText = (\<lambda>_. None), sv_successor = (\<lambda>_ p _. (p, p)) \<rparr>"

definition demo_request :: "string \<Rightarrow> string \<Rightarrow> string option \<Rightarrow> http_request" where
  "demo_request method path token =
     \<lparr> hq_method = method, hq_path = path, hq_authorization = token,
        hq_requester = \<lparr> rq_connecting = None, rq_forwarded = None, rq_real = None \<rparr>,
        hq_body = \<lparr> raw_contentLength = None, raw_chunks = None, raw_fails = False \<rparr>,
        hq_query = \<lparr> lp_pageSize = None, lp_pageToken = None, lp_filter = None, dp_createdAfter = None,
                     dp_createdBefore = None, dp_checkId = None \<rparr>,
        hq_now = None, hq_against = None, hq_againstRunId = None, hq_format = None, hq_origin = [], hq_search = [],
        hq_upload = demo_upload \<rparr>"

lemma get_requests_only_read_witness:
  "w_db (snd (fetch demo_server (demo_request ''GET'' ''/v1/jobs'' (Some ''Bearer admin'')) demo_artifact_world))
     = w_db demo_artifact_world"
  using get_requests_only_read [of "demo_request ''GET'' ''/v1/jobs'' (Some ''Bearer admin'')" demo_server demo_artifact_world]
  by (simp add: demo_request_def after_prefix_def report_export_path_def path_id_def next_segment_def)

lemma requests_need_their_token_witness:
  "authorize_api_request demo_server (demo_request ''POST'' ''/v1/jobs'' None) \<noteq> None
   \<and> w_db (snd (fetch demo_server (demo_request ''POST'' ''/v1/jobs'' None) demo_artifact_world)) = w_db demo_artifact_world"
proof -
  have inj: "inj (sv_digest demo_server)" by (simp add: demo_server_def)
  show ?thesis
    using requests_need_their_token [OF inj, of "demo_request ''POST'' ''/v1/jobs'' None" demo_artifact_world]
    by (simp add: demo_request_def read_bearer_token_def upload_claims_def)
qed

lemma requests_refine_the_repository_witness:
  "\<exists>tr. repo_trace demo_env tr empty_db
     (w_db (snd (fetch demo_server (demo_request ''POST'' ''/v1/jobs'' (Some ''Bearer admin''))
                   (demo_artifact_world\<lparr>w_db := empty_db\<rparr>))))"
proof -
  have "takes_steps (ap_env (sv_api demo_server)) plain_action t
          (upr_meanwhile (hq_upload (demo_request ''POST'' ''/v1/jobs'' (Some ''Bearer admin''))) t)" for t
    by (rule takes_no_step) (simp add: demo_request_def demo_upload_def)
  moreover have "reachable (ap_env (sv_api demo_server)) (w_db (demo_artifact_world\<lparr>w_db := empty_db\<rparr>))"
    by (simp add: reachable.initial)
  ultimately show ?thesis
    using requests_refine_the_repository
      [of demo_server "demo_request ''POST'' ''/v1/jobs'' (Some ''Bearer admin'')" "demo_artifact_world\<lparr>w_db := empty_db\<rparr>"]
    by (auto simp: demo_server_def demo_api_def)
qed


end
