(* ===== verification/Api_Agreement.thy ===== *)
theory Api_Agreement
  imports Request_Properties
begin

text \<open>
  The two faces of the public API: the procedures of the public RPC router and the REST routes give the same payloads,
  change the same things and fail alike, a failed response being what the error of the procedure is made from.
\<close>

section \<open>Agreement\<close>

definition agree :: "payload handler \<Rightarrow> response handler \<Rightarrow> bool" where
  "agree p rest = (\<forall>s.
     (case p s of
        (Inr x, s') \<Rightarrow> (\<exists>status. rest s = (Inr (status, x), s') \<and> response_ok (status, x))
      | (Inl e, s') \<Rightarrow>
          rest s = (Inl e, s') \<or> (\<exists>r. rest s = (Inr r, s') \<and> \<not> response_ok r \<and> e = to_orpc_error r)))"

lemma agree_unwrap: "agree (unwrap_json_response h) h"
  by (auto simp: agree_def unwrap_json_response_def and_then_def ret_def fail_def response_ok_def
      split: sum.split prod.split)

lemma agree_renamed: "agree (under_new_name (unwrap_json_response h)) (renamed h)"
  by (auto simp: agree_def unwrap_json_response_def under_new_name_def renamed_def and_then_def ret_def fail_def
      response_ok_def split: sum.split prod.split)

lemma agree_renamed_baseline: "agree (under_new_name (unwrap_json_response h)) (renamed_baseline h)"
  by (auto simp: agree_def unwrap_json_response_def under_new_name_def renamed_baseline_def and_then_def ret_def
      fail_def response_ok_def split: sum.split prod.split)

lemma agree_found: "agree (found_or missing wrap f) (entity_or missing wrap f)"
  by (auto simp: agree_def found_or_def entity_or_def and_then_def query_def ret_def fail_def not_found_def
      response_ok_def to_orpc_error_def orpc_code_def split: option.split)

lemma agree_audit: "agree (found_or ''Browser audit not found'' AuditPayload (get_browser_audit (ap_env A) i)) (handle_get_browser_audit A i)"
  by (auto simp: agree_def found_or_def handle_get_browser_audit_def and_then_def query_def ret_def fail_def not_found_def
      response_ok_def to_orpc_error_def orpc_code_def split: option.split)

lemma agree_ret: "agree (ret x) (ret (200, x))"
  by (simp add: agree_def ret_def response_ok_def)

lemmas agree_rules = agree_unwrap agree_renamed agree_renamed_baseline agree_found agree_audit agree_ret

section \<open>The request of a call\<close>

fun resource_request :: "string \<Rightarrow> resource_call \<Rightarrow> (string \<times> string \<times> string) option" where
  "resource_request base (ListCall q) = None"
| "resource_request base (CreateCall t) = Some (''POST'', base, t)"
| "resource_request base (GetCall i) = Some (''GET'', base @ ''/'' @ i, [])"
| "resource_request base (UpdateCall i t) = Some (''PATCH'', base @ ''/'' @ i, t)"
| "resource_request base (DeleteCall i) = Some (''DELETE'', base @ ''/'' @ i, [])"

fun public_request :: "rpc_call \<Rightarrow> (string \<times> string \<times> string) option" where
  "public_request Capabilities = Some (''GET'', ''/v1/capabilities'', [])"
| "public_request SystemRegions = Some (''GET'', ''/v1/regions'', [])"
| "public_request (Properties c) = resource_request ''/v1/sites'' c"
| "public_request (RouteSets c) = resource_request ''/v1/route-groups'' c"
| "public_request (Checks (CheckCall c)) = resource_request ''/v1/checks'' c"
| "public_request (Checks (BaselineGet i)) = Some (''GET'', ''/v1/checks/'' @ i @ ''/baseline'', [])"
| "public_request (Checks (BaselineSet i t)) = Some (''PUT'', ''/v1/checks/'' @ i @ ''/baseline'', t)"
| "public_request (Checks (BaselineClear i)) = Some (''DELETE'', ''/v1/checks/'' @ i @ ''/baseline'', [])"
| "public_request (Checks (RunsCreate i)) = Some (''POST'', ''/v1/checks/'' @ i @ ''/runs'', [])"
| "public_request (RunGet i) = Some (''GET'', ''/v1/runs/'' @ i, [])"
| "public_request (Comparisons (DerivedGet i)) = Some (''GET'', ''/v1/comparisons/'' @ i, [])"
| "public_request (Exports (DerivedGet i)) = Some (''GET'', ''/v1/exports/'' @ i, [])"
| "public_request (Analyses (DerivedGet i)) = Some (''GET'', ''/v1/analyses/'' @ i, [])"
| "public_request (Audits (AuditCreate t)) = Some (''POST'', ''/v1/browser-audits'', t)"
| "public_request (Audits (AuditGet i)) = Some (''GET'', ''/v1/browser-audits/'' @ i, [])"
| "public_request c = None"

text \<open>The identifiers of a call, which are segments of the path.\<close>

fun resource_ids :: "resource_call \<Rightarrow> ident list" where
  "resource_ids (ListCall q) = []"
| "resource_ids (CreateCall t) = []"
| "resource_ids (GetCall i) = [i]"
| "resource_ids (UpdateCall i t) = [i]"
| "resource_ids (DeleteCall i) = [i]"

fun call_ids :: "rpc_call \<Rightarrow> ident list" where
  "call_ids (Properties c) = resource_ids c"
| "call_ids (RouteSets c) = resource_ids c"
| "call_ids (Checks (CheckCall c)) = resource_ids c"
| "call_ids (Checks (BaselineGet i)) = [i]"
| "call_ids (Checks (BaselineSet i t)) = [i]"
| "call_ids (Checks (BaselineClear i)) = [i]"
| "call_ids (Checks (RunsCreate i)) = [i]"
| "call_ids (RunGet i) = [i]"
| "call_ids (Comparisons (DerivedGet i)) = [i]"
| "call_ids (Exports (DerivedGet i)) = [i]"
| "call_ids (Analyses (DerivedGet i)) = [i]"
| "call_ids (Audits (AuditGet i)) = [i]"
| "call_ids c = []"

definition segment_ok :: "string \<Rightarrow> bool" where
  "segment_ok i = (i \<noteq> [] \<and> list_all not_slash i)"

definition sends :: "http_request \<Rightarrow> string \<times> string \<times> string \<Rightarrow> bool" where
  "sends q = (\<lambda>(method, path, t). hq_method q = method \<and> hq_path q = path
     \<and> hq_body q = \<lparr> raw_contentLength = None, raw_chunks = Some [t], raw_fails = False \<rparr>)"

section \<open>Which route a request takes\<close>

lemma or_else_simps [simp]: "or_else None x = x" "or_else (Some y) x = Some y"
  by (simp_all add: or_else_def)

lemma first_route:
  assumes "routes S q = before @ Some p # after" and "list_all (\<lambda>r. r = None) before"
  shows "route_request S q = p"
proof -
  have "fold (\<lambda>r found. or_else found r) before None = None" using assms(2) by (induction before) auto
  moreover have "fold (\<lambda>r found. or_else found r) after (Some p) = Some p" by (induction after) simp_all
  ultimately show ?thesis by (simp add: route_request_def assms(1))
qed

lemma segment_takes:
  assumes "segment_ok i"
  shows "takeWhile not_slash i = i" "dropWhile not_slash i = []"
    "takeWhile not_slash (i @ CHR ''/'' # r) = i" "dropWhile not_slash (i @ CHR ''/'' # r) = CHR ''/'' # r" "i \<noteq> []"
proof -
  have all: "not_slash c" if "c \<in> set i" for c using that assms by (simp add: segment_ok_def list_all_iff)
  then show "takeWhile not_slash i = i" "dropWhile not_slash i = []" by simp_all
  have "\<not> not_slash CHR ''/''" by (simp add: not_slash_def)
  with all show "takeWhile not_slash (i @ CHR ''/'' # r) = i" "dropWhile not_slash (i @ CHR ''/'' # r) = CHR ''/'' # r"
    by (simp_all add: takeWhile_append2 dropWhile_append2)
  show "i \<noteq> []" using assms by (simp add: segment_ok_def)
qed

lemmas route_eval =
  route_defs route_rpc_def route_transport_def routes_def route_request_def on_def on_id_def on_ids_def path_id_def path_ids_def
  next_segment_def after_prefix_def Let_def artifact_upload_path_def execution_job_resource_path_def
  execution_job_mutation_path_def execution_job_path_def artifact_download_path_def segment_takes

lemma body_sent:
  "hq_body q = \<lparr> raw_contentLength = None, raw_chunks = Some [t], raw_fails = False \<rparr>
   \<Longrightarrow> body_of parse_json q = internal_request parse_json t"
  by (simp add: body_of_def internal_request_def)

lemma site_routes:
  assumes "segment_ok i"
  shows "hq_method q = ''GET'' \<Longrightarrow> hq_path q = ''/v1/sites/'' @ i \<Longrightarrow> route_request S q = entity_or ''Site not found'' PropertyEntity (get_property (ap_env (sv_api S)) i)"
    and "hq_method q = ''PATCH'' \<Longrightarrow> hq_path q = ''/v1/sites/'' @ i \<Longrightarrow> route_request S q = renamed (handle_update_property (sv_api S) i (body_of (bp_property (sv_parsers S)) q))"
    and "hq_method q = ''DELETE'' \<Longrightarrow> hq_path q = ''/v1/sites/'' @ i \<Longrightarrow> route_request S q = handle_delete_property (sv_api S) i"
  by (simp_all add: route_eval assms)

lemma route_group_routes:
  assumes "segment_ok i"
  shows "hq_method q = ''GET'' \<Longrightarrow> hq_path q = ''/v1/route-groups/'' @ i \<Longrightarrow> route_request S q = entity_or ''Route group not found'' RouteSetEntity (get_route_set (ap_env (sv_api S)) i)"
    and "hq_method q = ''PATCH'' \<Longrightarrow> hq_path q = ''/v1/route-groups/'' @ i \<Longrightarrow> route_request S q = renamed (handle_update_route_set (sv_api S) i (body_of (bp_routeSet (sv_parsers S)) q))"
    and "hq_method q = ''DELETE'' \<Longrightarrow> hq_path q = ''/v1/route-groups/'' @ i \<Longrightarrow> route_request S q = handle_delete_route_set (sv_api S) i"
  by (simp_all add: route_eval assms)

lemma check_routes:
  assumes "segment_ok i"
  shows "hq_method q = ''GET'' \<Longrightarrow> hq_path q = ''/v1/checks/'' @ i \<Longrightarrow> route_request S q = entity_or ''Check not found'' ProfileEntity (get_check_profile (ap_env (sv_api S)) i)"
    and "hq_method q = ''PATCH'' \<Longrightarrow> hq_path q = ''/v1/checks/'' @ i \<Longrightarrow> route_request S q = renamed (handle_update_check_profile (sv_api S) i (body_of (bp_check (sv_parsers S)) q))"
    and "hq_method q = ''DELETE'' \<Longrightarrow> hq_path q = ''/v1/checks/'' @ i \<Longrightarrow> route_request S q = handle_delete_check_profile (sv_api S) i"
  by (simp_all add: route_eval assms)

lemma check_part_routes:
  assumes "segment_ok i"
  shows "hq_method q = ''GET'' \<Longrightarrow> hq_path q = ''/v1/checks/'' @ i @ ''/baseline'' \<Longrightarrow> route_request S q = renamed_baseline (handle_get_check_profile_baseline (sv_api S) i)"
    and "hq_method q = ''PUT'' \<Longrightarrow> hq_path q = ''/v1/checks/'' @ i @ ''/baseline'' \<Longrightarrow> route_request S q = renamed_baseline
           (handle_set_check_profile_baseline (sv_api S) i (body_of (bp_baseline (sv_parsers S)) q))"
    and "hq_method q = ''DELETE'' \<Longrightarrow> hq_path q = ''/v1/checks/'' @ i @ ''/baseline'' \<Longrightarrow> route_request S q = renamed_baseline (handle_clear_check_profile_baseline (sv_api S) i)"
    and "hq_method q = ''POST'' \<Longrightarrow> hq_path q = ''/v1/checks/'' @ i @ ''/runs'' \<Longrightarrow> route_request S q = renamed
           (handle_run_check_profile (sv_api S) i (requester_ip (hq_requester q)))"
  by (simp_all add: route_eval assms)

lemma entity_routes:
  assumes "segment_ok i" and "hq_method q = ''GET''"
  shows "hq_path q = ''/v1/runs/'' @ i \<Longrightarrow> route_request S q = entity_or ''Run not found'' CheckRunDetailPayload (build_run_detail_by_id (ap_env (sv_api S)) i)"
    and "hq_path q = ''/v1/comparisons/'' @ i \<Longrightarrow> route_request S q = entity_or ''Comparison not found'' ComparisonResourcePayload (get_comparison (ap_env (sv_api S)) i)"
    and "hq_path q = ''/v1/exports/'' @ i \<Longrightarrow> route_request S q = entity_or ''Export not found'' ExportPayload (get_export i)"
    and "hq_path q = ''/v1/analyses/'' @ i \<Longrightarrow> route_request S q = entity_or ''Analysis not found'' AnalysisPayload (get_analysis i)"
    and "hq_path q = ''/v1/browser-audits/'' @ i \<Longrightarrow> route_request S q = handle_get_browser_audit (sv_api S) i"
  by (simp_all add: route_eval assms)

lemma fixed_routes:
  "hq_method q = ''POST'' \<Longrightarrow> hq_path q = ''/v1/checks'' \<Longrightarrow> route_request S q = renamed (handle_upsert_check_profile (sv_api S) None (body_of (bp_check (sv_parsers S)) q))"
  "hq_method q = ''POST'' \<Longrightarrow> hq_path q = ''/v1/route-groups'' \<Longrightarrow> route_request S q = renamed (handle_upsert_route_set (sv_api S) None (body_of (bp_routeSet (sv_parsers S)) q))"
  "hq_method q = ''POST'' \<Longrightarrow> hq_path q = ''/v1/sites'' \<Longrightarrow> route_request S q = renamed (handle_upsert_property (sv_api S) None (body_of (bp_property (sv_parsers S)) q))"
  "hq_method q = ''POST'' \<Longrightarrow> hq_path q = ''/v1/browser-audits'' \<Longrightarrow> route_request S q = handle_create_browser_audit (sv_api S) (body_of (bp_audit (sv_parsers S)) q)"
  "hq_method q = ''GET'' \<Longrightarrow> hq_path q = ''/v1/capabilities'' \<Longrightarrow> route_request S q = ret (200, build_public_capabilities_payload (sv_api S))"
  "hq_method q = ''GET'' \<Longrightarrow> hq_path q = ''/v1/regions'' \<Longrightarrow> route_request S q = ret (200, location_report (sv_api S))"
  by (simp_all add: route_eval)

lemma sends_iff:
  "sends q (m, path, t) \<longleftrightarrow> hq_method q = m \<and> hq_path q = path
     \<and> hq_body q = \<lparr> raw_contentLength = None, raw_chunks = Some [t], raw_fails = False \<rparr>"
  by (simp add: sends_def)

lemma site_agrees:
  assumes "resource_request ''/v1/sites'' c = Some w" "sends q w" "list_all segment_ok (resource_ids c)"
  shows "agree (public_sites (sv_api S) (sv_parsers S) c) (route_request S q)"
  using assms by (cases c) (auto simp: sends_iff site_routes fixed_routes body_sent agree_rules simp del: append_Cons)

lemma route_group_agrees:
  assumes "resource_request ''/v1/route-groups'' c = Some w" "sends q w" "list_all segment_ok (resource_ids c)"
  shows "agree (public_route_groups (sv_api S) (sv_parsers S) c) (route_request S q)"
  using assms by (cases c) (auto simp: sends_iff route_group_routes fixed_routes body_sent agree_rules simp del: append_Cons)

lemma check_agrees:
  assumes "resource_request ''/v1/checks'' c = Some w" "sends q w" "list_all segment_ok (resource_ids c)"
    and "public_checks (sv_api S) (sv_parsers S) r (CheckCall c) = Some p"
  shows "agree p (route_request S q)"
  using assms by (cases c) (auto simp: sends_iff check_routes fixed_routes body_sent agree_rules simp del: append_Cons)

lemma check_runs_agree:
  assumes "public_request (Checks c) = Some w" "sends q w" "list_all segment_ok (call_ids (Checks c))"
    and "internal_requester r = requester_ip (hq_requester q)"
    and "public_checks (sv_api S) (sv_parsers S) r c = Some p"
  shows "agree p (route_request S q)"
proof (cases c)
  case (CheckCall x)
  with assms show ?thesis by (intro check_agrees [of x w q S r p]) auto
qed (use assms in \<open>auto simp: sends_iff check_part_routes body_sent agree_rules simp del: append_Cons\<close>)

lemma call_agrees:
  assumes "public_request c = Some w" "sends q w" "list_all segment_ok (call_ids c)"
    and "internal_requester r = requester_ip (hq_requester q)"
    and "public_router (sv_api S) (sv_parsers S) r c = Some p"
  shows "agree p (route_request S q)"
proof (cases c)
  case (Properties x)
  with assms site_agrees [of x w q S] show ?thesis by auto
next
  case (RouteSets x)
  with assms route_group_agrees [of x w q S] show ?thesis by auto
next
  case (Checks x)
  with assms check_runs_agree [of x w q r S p] show ?thesis by auto
next
  case (Comparisons x)
  with assms show ?thesis by (cases x) (auto simp: sends_iff entity_routes agree_rules simp del: append_Cons)
next
  case (Exports x)
  with assms show ?thesis by (cases x) (auto simp: sends_iff entity_routes agree_rules simp del: append_Cons)
next
  case (Analyses x)
  with assms show ?thesis by (cases x) (auto simp: sends_iff entity_routes agree_rules simp del: append_Cons)
next
  case (Audits x)
  with assms show ?thesis
    by (cases x) (auto simp: sends_iff entity_routes fixed_routes body_sent agree_rules create_audit_procedure_def
        simp del: append_Cons)
qed (use assms in \<open>auto simp: sends_iff entity_routes fixed_routes agree_rules public_run_def simp del: append_Cons\<close>)



end
