(* ===== verification/Browser_Network.thy ===== *)
theory Browser_Network
  imports Outbound_Properties
begin

text \<open>
  What the browser of an audit may connect to (\<open>apps/browser-audit-lighthouse/src/network-policy.ts\<close>): URLs are
  resolved against the address policy and an allow list, and a guard on the page aborts what the policy refuses and
  remembers why. The URL parser, the lookup of names and the browser are parameters; a lookup that rejects and one that
  does not answer in time are the same to the code.
\<close>

section \<open>Addresses\<close>

definition browser_blocked_ipv4 :: "(nat list \<times> nat) list" where
  "browser_blocked_ipv4 =
     [([0, 0, 0, 0], 8), ([10, 0, 0, 0], 8), ([100, 64, 0, 0], 10), ([127, 0, 0, 0], 8),
      ([169, 254, 0, 0], 16), ([172, 16, 0, 0], 12), ([192, 0, 0, 0], 24), ([192, 0, 2, 0], 24),
      ([192, 168, 0, 0], 16), ([198, 18, 0, 0], 15), ([198, 51, 100, 0], 24), ([203, 0, 113, 0], 24),
      ([224, 0, 0, 0], 4), ([240, 0, 0, 0], 4)]"

definition browser_blocked_ipv6 :: "(nat list \<times> nat) list" where
  "browser_blocked_ipv6 =
     [([0, 0, 0, 0, 0, 0, 0, 0], 96), ([0x64, 0xff9b, 0, 0, 0, 0, 0, 0], 96), ([0x100, 0, 0, 0, 0, 0, 0, 0], 64),
      ([0x2001, 0, 0, 0, 0, 0, 0, 0], 32), ([0x2001, 0xdb8, 0, 0, 0, 0, 0, 0], 32), ([0x2002, 0, 0, 0, 0, 0, 0, 0], 16),
      ([0xfc00, 0, 0, 0, 0, 0, 0, 0], 7), ([0xfe80, 0, 0, 0, 0, 0, 0, 0], 10), ([0xff00, 0, 0, 0, 0, 0, 0, 0], 8)]"

definition browser_blocked_addresses :: "subnet list" where
  "browser_blocked_addresses =
     map (\<lambda>(n, p). subnet4 n p) browser_blocked_ipv4 @ map (\<lambda>(n, p). subnet6 n p) browser_blocked_ipv6"

definition blocked_unnormalized_mapped_addresses :: "subnet list" where
  "blocked_unnormalized_mapped_addresses = [subnet6 [0, 0, 0, 0, 0, 0xffff, 0, 0] 96]"

definition browser_ipv6_words :: "string \<Rightarrow> nat list option" where
  "browser_ipv6_words value =
     (let normalized = strip_ending CHR '']'' (strip_opening (js_lower value)) in
      case dotted_tail normalized of
        None \<Rightarrow> parse_ipv6_groups normalized
      | Some tail_text \<Rightarrow>
          (case parse_ipv4 tail_text of
             Some [a, b, d, e] \<Rightarrow>
               parse_ipv6_groups
                 (take (length normalized - length tail_text) normalized
                  @ show_hex (256 * a + b) @ '':'' @ show_hex (256 * d + e))
           | _ \<Rightarrow> None))"

definition browser_mapped_ipv4 :: "string \<Rightarrow> string" where
  "browser_mapped_ipv4 address =
     (case browser_ipv6_words address of
        None \<Rightarrow> address
      | Some ws \<Rightarrow>
          if list_ex (\<lambda>w. w \<noteq> 0) (take 5 ws) \<or> ws ! 5 \<noteq> 65535 then address
          else join ''.'' (map show_nat [ws ! 6 div 256, ws ! 6 mod 256, ws ! 7 div 256, ws ! 7 mod 256]))"

text \<open>The errors are \<open>BrowserNetworkPolicyError\<close>s, given by their messages.\<close>

definition assert_public_address :: "string \<Rightarrow> string + unit" where
  "assert_public_address rawAddress =
     (let address = browser_mapped_ipv4 rawAddress;
          family = is_ip address;
          blocked = (\<lambda>list. case ip_value address of None \<Rightarrow> False | Some a \<Rightarrow> block_list_check list a) in
      if (family \<noteq> 4 \<and> family \<noteq> 6) \<or> blocked browser_blocked_addresses
         \<or> (family = 6 \<and> blocked blocked_unnormalized_mapped_addresses)
      then Inl ''Browser request resolved to a private, local, metadata, or reserved address'' else Inr ())"

section \<open>Targets\<close>

record browser_target =
  bt_url :: url
  bt_address :: string
  bt_family :: nat
  bt_allowlisted :: bool

definition normalize_hostname :: "string \<Rightarrow> string" where
  "normalize_hostname hostname = js_lower (strip_ending CHR ''.'' (strip_ending CHR '']'' (strip_opening hostname)))"

definition matches_allowlist :: "string \<Rightarrow> string list \<Rightarrow> bool" where
  "matches_allowlist hostname allowlist =
     list_ex (\<lambda>entry.
       let normalized = normalize_hostname (js_trim entry) in
       if starts_with ''*.'' normalized then ends_with (drop 1 normalized) hostname else hostname = normalized) allowlist"

text \<open>\<open>lookupHostWithTimeout\<close>: when the lookup answers, and with what; \<open>None\<close> for a rejection.\<close>

definition lookup_host_with_timeout ::
  "string \<Rightarrow> (string \<Rightarrow> int \<times> lookup_address list option) \<Rightarrow> int \<Rightarrow> lookup_address list option" where
  "lookup_host_with_timeout hostname lookupHost timeoutMs =
     (if \<not> is_safe_integer timeoutMs \<or> timeoutMs < 1 \<or> timeoutMs > 60000 then None
      else let (answeredAt, answer) = lookupHost hostname in if answeredAt \<le> timeoutMs then answer else None)"

definition normalize_lookup_address :: "string \<Rightarrow> lookup_address \<Rightarrow> string + (string \<times> nat)" where
  "normalize_lookup_address hostname la =
     (let family = is_ip (la_address la) in
      if family \<noteq> 4 \<and> family \<noteq> 6 then Inl (''Browser request host '' @ hostname @ '' returned an invalid address'')
      else Inr (la_address la, family))"

fun assert_all_public :: "(string \<times> nat) list \<Rightarrow> string + unit" where
  "assert_all_public [] = Inr ()"
| "assert_all_public ((address, _) # rest) =
     (case assert_public_address address of Inl e \<Rightarrow> Inl e | Inr _ \<Rightarrow> assert_all_public rest)"

definition select_address ::
  "url \<Rightarrow> string \<Rightarrow> bool \<Rightarrow> lookup_address list \<Rightarrow> string + browser_target" where
  "select_address u hostname allowlisted addresses =
     (case map_throws (normalize_lookup_address hostname) addresses of
        Inl e \<Rightarrow> Inl e
      | Inr normalized \<Rightarrow>
          (case (if allowlisted then Inr () else assert_all_public normalized) of
             Inl e \<Rightarrow> Inl e
           | Inr _ \<Rightarrow>
               (case normalized of
                  [] \<Rightarrow> Inl (''Browser request host '' @ hostname @ '' did not resolve'')
                | (address, family) # _ \<Rightarrow>
                    Inr \<lparr> bt_url = u, bt_address = address, bt_family = family, bt_allowlisted = allowlisted \<rparr>)))"

definition browser_local_hostname :: "string \<Rightarrow> bool" where
  "browser_local_hostname hostname =
     (hostname = ''localhost'' \<or> ends_with ''.localhost'' hostname \<or> ends_with ''.local'' hostname
      \<or> ends_with ''.internal'' hostname)"

definition scheme_name :: "url \<Rightarrow> string" where
  "scheme_name u =
     (let name = takeWhile (\<lambda>c. c \<noteq> CHR '':'') (u_protocol u) @ drop 1 (dropWhile (\<lambda>c. c \<noteq> CHR '':'') (u_protocol u)) in
      if name = [] then ''unknown'' else name)"

definition resolve_browser_request_target ::
  "(string \<Rightarrow> url option) \<Rightarrow> string list \<Rightarrow> (string \<Rightarrow> int \<times> lookup_address list option) \<Rightarrow> int \<Rightarrow> string
   \<Rightarrow> string + browser_target" where
  "resolve_browser_request_target parse_url allowlist lookupHost timeoutMs v =
     (case parse_url v of
        None \<Rightarrow> Inl ''Browser request URL is invalid''
      | Some u \<Rightarrow>
          if u_protocol u \<noteq> ''http:'' \<and> u_protocol u \<noteq> ''https:''
          then Inl (''Browser request scheme '' @ scheme_name u @ '' is blocked'')
          else if u_username u \<noteq> [] \<or> u_password u \<noteq> []
          then Inl ''Credentials embedded in browser request URLs are blocked''
          else if u_port u \<noteq> [] \<and> u_port u \<noteq> ''80'' \<and> u_port u \<noteq> ''443''
          then Inl ''Only browser request ports 80 and 443 are allowed''
          else
            let hostname = normalize_hostname (u_hostname u);
                allowlisted = matches_allowlist hostname allowlist in
            if \<not> allowlisted \<and> browser_local_hostname hostname
            then Inl (''Browser request host '' @ hostname @ '' is blocked'')
            else if is_ip hostname > 0
            then (case (if allowlisted then Inr () else assert_public_address hostname) of
                    Inl e \<Rightarrow> Inl e
                  | Inr _ \<Rightarrow> Inr \<lparr> bt_url = u, bt_address = hostname, bt_family = is_ip hostname,
                                    bt_allowlisted = allowlisted \<rparr>)
            else
              (case lookup_host_with_timeout hostname lookupHost timeoutMs of
                 None \<Rightarrow> Inl (''Browser request host '' @ hostname @ '' could not be resolved'')
               | Some addresses \<Rightarrow>
                   if addresses = [] then Inl (''Browser request host '' @ hostname @ '' did not resolve'')
                   else select_address u hostname allowlisted addresses))"

definition validate_browser_request_url ::
  "(string \<Rightarrow> url option) \<Rightarrow> string list \<Rightarrow> (string \<Rightarrow> int \<times> lookup_address list option) \<Rightarrow> int \<Rightarrow> string
   \<Rightarrow> string + url" where
  "validate_browser_request_url parse_url allowlist lookupHost timeoutMs v =
     (case resolve_browser_request_target parse_url allowlist lookupHost timeoutMs v of
        Inl e \<Rightarrow> Inl e | Inr t \<Rightarrow> Inr (bt_url t))"

section \<open>The guard of a page\<close>

definition max_blocked_errors :: nat where "max_blocked_errors = 8"
definition default_dns_lookup_timeout_ms :: int where "default_dns_lookup_timeout_ms = 10000"

definition record_blocked_error :: "string \<Rightarrow> string list \<Rightarrow> string list" where
  "record_blocked_error m blockedErrors =
     (if length blockedErrors < max_blocked_errors \<and> m \<notin> set blockedErrors then blockedErrors @ [m] else blockedErrors)"

text \<open>What happens on a page: a request, with whether something else has handled it and the errors of continuing and
  of aborting it, if any; the popup of a page; and a new page of the browser, with its own requests.\<close>

record page_request =
  pq_url :: string
  pq_handled :: bool
  pq_continueFails :: "string option"
  pq_abortFails :: "string option"

datatype page_event =
    PageRequest page_request
  | Popup "string option"
  | PageCreated "string option"
  | PopupRequest page_request

datatype decision = Ignored | Continued | Aborted

definition abort_request :: "string \<Rightarrow> page_request \<Rightarrow> string list \<Rightarrow> string list" where
  "abort_request m q blockedErrors =
     (let recorded = record_blocked_error m blockedErrors in
      case pq_abortFails q of None \<Rightarrow> recorded | Some e \<Rightarrow> record_blocked_error e recorded)"

definition handle_page_request :: "(string \<Rightarrow> string + url) \<Rightarrow> page_request \<Rightarrow> string list \<Rightarrow> decision \<times> string list" where
  "handle_page_request validate q blockedErrors =
     (if pq_handled q then (Ignored, blockedErrors)
      else (case validate (pq_url q) of
              Inl m \<Rightarrow> (Aborted, abort_request m q blockedErrors)
            | Inr _ \<Rightarrow>
                (case pq_continueFails q of
                   None \<Rightarrow> (Continued, blockedErrors)
                 | Some m \<Rightarrow> (Aborted, abort_request m q blockedErrors))))"

fun guard_step :: "(string \<Rightarrow> string + url) \<Rightarrow> page_event \<Rightarrow> string list \<Rightarrow> decision \<times> string list" where
  "guard_step validate (PageRequest q) es = handle_page_request validate q es"
| "guard_step validate (Popup closeFails) es =
     (let recorded = record_blocked_error ''New browser windows are blocked'' es in
      (Ignored, case closeFails of None \<Rightarrow> recorded | Some m \<Rightarrow> record_blocked_error m recorded))"
| "guard_step validate (PageCreated fails) es =
     (let recorded = record_blocked_error ''New browser windows are blocked'' es in
      (Ignored, case fails of None \<Rightarrow> recorded | Some m \<Rightarrow> record_blocked_error m recorded))"
| "guard_step validate (PopupRequest q) es =
     (if pq_handled q then (Ignored, es)
      else (Aborted, case pq_abortFails q of None \<Rightarrow> es | Some m \<Rightarrow> record_blocked_error m es))"

fun guard_run :: "(string \<Rightarrow> string + url) \<Rightarrow> page_event list \<Rightarrow> string list \<Rightarrow> decision list \<times> string list" where
  "guard_run validate [] es = ([], es)"
| "guard_run validate (e # rest) es =
     (let (d, es1) = guard_step validate e es; (ds, es2) = guard_run validate rest es1 in (d # ds, es2))"

text \<open>\<open>throwIfBlocked\<close>: nothing, the first error alone, or the first error with its causes.\<close>

definition throw_if_blocked :: "string option \<Rightarrow> string list \<Rightarrow> (string \<times> string list) option" where
  "throw_if_blocked cause blockedErrors =
     (case blockedErrors of
        [] \<Rightarrow> None
      | primaryError # additionalErrors \<Rightarrow>
          Some (primaryError, case cause of None \<Rightarrow> additionalErrors | Some c \<Rightarrow> c # additionalErrors))"

section \<open>Addresses in either case\<close>

lemma lower_char_same [simp]:
  "is_digit (lower_char c) = is_digit c" "is_hex_char (lower_char c) = is_hex_char c"
  "lower_char c = CHR '':'' \<longleftrightarrow> c = CHR '':''" "lower_char c = CHR ''.'' \<longleftrightarrow> c = CHR ''.''"
  by (auto simp: lower_char_def is_upper_def is_digit_def is_hex_char_def
      dest: arg_cong [where f = "of_char :: char \<Rightarrow> nat"])

lemma lower_digit [simp]: "is_digit c \<Longrightarrow> lower_char c = c"
  by (auto simp: lower_char_def is_upper_def is_digit_def)

lemma hex_value_lower [simp]: "is_hex_char c \<Longrightarrow> hex_value (lower_char c) = hex_value c"
  by (auto simp: hex_value_def lower_char_def is_upper_def is_digit_def is_hex_char_def is_lower_def)

lemma js_lower_Cons [simp]: "js_lower (c # s) = lower_char c # js_lower s" "js_lower [] = []"
  by (simp_all add: js_lower_def)

lemma js_lower_digits: "list_all is_digit s \<Longrightarrow> js_lower s = s"
  by (induction s) auto

lemma octet_lower: "is_ipv4_octet (js_lower s) = is_ipv4_octet s"
proof (cases "list_all is_digit s")
  case False
  then have "\<not> list_all is_digit (js_lower s)" by (auto simp: js_lower_def list_all_iff)
  with False show ?thesis by (simp add: is_ipv4_octet_def)
qed (simp add: js_lower_digits)

lemma split_dots_lower: "split_char CHR ''.'' (js_lower s) = map js_lower (split_char CHR ''.'' s)"
  by (induction s) (auto split: list.splits)

lemma parse_ipv4_lower: "parse_ipv4 (js_lower s) = parse_ipv4 s"
proof -
  have "read_digits (js_lower p) = read_digits p" if "is_ipv4_octet p" for p
    using that by (simp add: is_ipv4_octet_def js_lower_digits)
  then show ?thesis by (auto simp: parse_ipv4_def split_dots_lower Let_def octet_lower list_all_iff)
qed

lemma pton6_lower: "pton6_loop (js_lower s) (js_lower tok) seen v ws gap = pton6_loop s tok seen v ws gap"
proof (induction s tok seen v ws gap rule: pton6_loop.induct)
  case (2 c s tok seen v ws gap)
  have "(js_lower s = []) = (s = [])" by (cases s) auto
  with 2 show ?case by (auto simp: parse_ipv4_lower simp del: pton6_loop.simps(1))
qed simp

lemma parse_ipv6_lower: "parse_ipv6 (js_lower s) = parse_ipv6 s"
proof -
  have "starts_with '':'' (js_lower s) = starts_with '':'' s" by (cases s) (auto simp: starts_with_def)
  moreover have "starts_with ''::'' (js_lower s) = starts_with ''::'' s"
    by (cases s; cases "tl s") (auto simp: starts_with_def)
  moreover have "tl (js_lower s) = js_lower (tl s)" by (simp add: js_lower_def map_tl)
  ultimately show ?thesis by (simp add: parse_ipv6_def Let_def pton6_lower)
qed

lemma address_lower: "is_ip (js_lower s) = is_ip s" "ip_value (js_lower s) = ip_value s"
  by (simp_all add: is_ip_def ip_value_def parse_ipv4_lower parse_ipv6_lower split: option.split)

section \<open>The two policies agree on addresses\<close>

lemma browser_blocked_addresses_eq: "browser_blocked_addresses = blocked_addresses"
  by (simp add: browser_blocked_addresses_def blocked_addresses_def browser_blocked_ipv4_def blocked_ipv4_def
      browser_blocked_ipv6_def blocked_ipv6_def)

lemma address_unbracketed:
  assumes "is_ip s \<noteq> 0"
  shows "strip_opening s = s" "strip_ending CHR '']'' s = s"
proof -
  have ch: "list_all address_char s"
    using assms parse_ipv4_address parse_ipv6_address by (auto simp: is_ip_def split: if_splits)
  then have "\<not> starts_with ''['' s" "\<not> ends_with [CHR '']''] s"
    by (auto simp: starts_with_one ends_with_one list_all_iff dest: hd_in_set last_in_set)
      (metis address_char_simps hd_in_set last_in_set)+
  then show "strip_opening s = s" "strip_ending CHR '']'' s = s" by (simp_all add: strip_opening_def strip_ending_def)
qed

lemma browser_words: "is_ip s \<noteq> 0 \<Longrightarrow> browser_ipv6_words s = parse_ipv6_words (js_lower s)"
  by (simp add: browser_ipv6_words_def parse_ipv6_words_def normalize_address address_lower address_unbracketed Let_def)

lemma browser_mapped:
  assumes "is_ip s \<noteq> 0"
  shows "browser_mapped_ipv4 s = normalize_mapped_ipv4 (js_lower s) \<or> browser_mapped_ipv4 s = s
    \<and> normalize_mapped_ipv4 (js_lower s) = js_lower s"
  using assms by (auto simp: browser_mapped_ipv4_def normalize_mapped_ipv4_def browser_words split: option.splits)

lemma mapped_fallback:
  assumes ws: "length ws = 8 \<and> (\<forall>w \<in> set ws. w < 65536)"
    and nm: "\<not> (list_all (\<lambda>w. w = 0) (take 5 ws) \<and> ws ! 5 = 65535)"
  shows "\<not> block_list_check blocked_unnormalized_mapped_addresses (address_of_groups ws)"
proof
  assume "block_list_check blocked_unnormalized_mapped_addresses (address_of_groups ws)"
  then have "281470681743360 \<le> uint (address_of_groups ws)" "uint (address_of_groups ws) < 281474976710656"
    by (simp_all add: blocked_unnormalized_mapped_addresses_def block_list_check_def subnet6_def in_subnet_interval
        address_of_groups_def Let_def)
  moreover have "uint (address_of_groups ws) = int (foldl (\<lambda>n w. 65536 * n + w) 0 ws)"
    using ws by (intro uint_groups) auto
  moreover obtain a b c d e f g h where l8: "ws = [a, b, c, d, e, f, g, h]" using ws list8 by blast
  ultimately have le: "281470681743360 \<le> foldl (\<lambda>n w. 65536 * n + w) 0 [a, b, c, d, e, f, g, h]"
    and lt: "foldl (\<lambda>n w. 65536 * n + w) 0 [a, b, c, d, e, f, g, h] < 281474976710656" by simp_all
  from lt have "a = 0" "b = 0" "c = 0" "d = 0" "e = 0" by simp_all
  moreover have "f < 65536" "g < 65536" "h < 65536" using ws l8 by auto
  ultimately have "f = 65535" using le lt by simp
  with \<open>a = 0\<close> \<open>b = 0\<close> \<open>c = 0\<close> \<open>d = 0\<close> \<open>e = 0\<close> nm l8 show False by simp
qed

lemma assert_public_iff:
  assumes "is_ip s \<noteq> 0"
  shows "assert_public_address s = Inr () \<longleftrightarrow> permitted PublicOnly (uint (the (ip_value s)))"
proof -
  let ?l = "js_lower s" and ?m = "browser_mapped_ipv4 s"
  have l: "is_ip ?l \<noteq> 0" "js_lower ?l = ?l" "ip_value ?l = ip_value s" using assms by (simp_all add: address_lower)
  note n = normalize_mapped [OF l(1,2)]
  have m: "is_ip ?m = is_ip (normalize_mapped_ipv4 ?l)" "ip_value ?m = ip_value (normalize_mapped_ipv4 ?l)"
    using browser_mapped [OF assms] by (auto simp: address_lower)
  from ip_value_Some [OF assms] obtain a where a: "ip_value s = Some a" ..
  have "\<not> block_list_check blocked_unnormalized_mapped_addresses a" if "is_ip ?m = 6"
  proof -
    from n(4) that m(1) obtain ws where ws: "parse_ipv6 ?l = Some ws"
      "\<not> (list_all (\<lambda>w. w = 0) (take 5 ws) \<and> ws ! 5 = 65535)" by auto
    then have "parse_ipv4 ?l = None" using parse_ipv4_not_ipv6 by (cases "parse_ipv4 ?l") auto
    with ws(1) a l(3) have "a = address_of_groups ws" by (simp add: ip_value_def)
    with parse_ipv6_groups8 [OF ws(1) l(2)] ws(2) show ?thesis by (simp add: mapped_fallback)
  qed
  moreover have "is_ip ?m = 4 \<or> is_ip ?m = 6" using m n(1) is_ip_cases [of ?m] by auto
  ultimately show ?thesis
    using a n(3) l(3) m public_check [of a]
    by (auto simp: assert_public_address_def Let_def browser_blocked_addresses_eq)
qed

section \<open>Targets\<close>

lemma assert_all_public_Inr: "assert_all_public xs = Inr () \<longleftrightarrow> (\<forall>(a, f) \<in> set xs. assert_public_address a = Inr ())"
  by (induction xs rule: assert_all_public.induct) (auto split: sum.splits)

lemma normalize_lookup_Inr:
  "normalize_lookup_address h la = Inr (a, f) \<longleftrightarrow> a = la_address la \<and> f = is_ip a \<and> f \<noteq> 0"
  using is_ip_cases [of "la_address la"] by (auto simp: normalize_lookup_address_def Let_def)

lemma lookup_Some: "lookup_host_with_timeout h lookupHost limit = Some las \<Longrightarrow> snd (lookupHost h) = Some las"
  by (auto simp: lookup_host_with_timeout_def Let_def split: if_splits prod.splits)

lemma all2_mem: "list_all2 P xs ys \<Longrightarrow> x \<in> set xs \<Longrightarrow> \<exists>y \<in> set ys. P x y"
  by (induction rule: list_all2_induct) auto

lemma select_address_Inr:
  assumes "select_address u h allowed las = Inr t"
  shows "las \<noteq> []" "bt_url t = u" "bt_address t = la_address (hd las)" "bt_family t = is_ip (bt_address t)"
    "is_ip (bt_address t) \<noteq> 0" "bt_allowlisted t = allowed"
    "\<not> allowed \<Longrightarrow> \<forall>la \<in> set las. permitted PublicOnly (uint (the (ip_value (la_address la))))"
proof -
  from assms obtain a f rest where m: "map_throws (normalize_lookup_address h) las = Inr ((a, f) # rest)"
    and ok: "allowed \<or> assert_all_public ((a, f) # rest) = Inr ()"
    and t: "t = \<lparr> bt_url = u, bt_address = a, bt_family = f, bt_allowlisted = allowed \<rparr>"
    by (auto simp: select_address_def simp del: assert_all_public.simps split: sum.splits list.splits if_splits)
  from m have l2: "list_all2 (\<lambda>x y. normalize_lookup_address h x = Inr y) las ((a, f) # rest)"
    by (simp add: map_throws_Inr)
  then obtain la las' where las: "las = la # las'" "normalize_lookup_address h la = Inr (a, f)"
    by (auto simp: list_all2_Cons2)
  then show "las \<noteq> []" "bt_url t = u" "bt_address t = la_address (hd las)" "bt_family t = is_ip (bt_address t)"
    "is_ip (bt_address t) \<noteq> 0" "bt_allowlisted t = allowed"
    using t by (auto simp: normalize_lookup_Inr)
  show "\<forall>la \<in> set las. permitted PublicOnly (uint (the (ip_value (la_address la))))" if "\<not> allowed"
  proof
    fix la assume "la \<in> set las"
    from all2_mem [OF l2 this] obtain y where y: "normalize_lookup_address h la = Inr y" "y \<in> set ((a, f) # rest)"
      by auto
    from ok that have "assert_all_public ((a, f) # rest) = Inr ()" by simp
    then have "\<forall>(b, g) \<in> set ((a, f) # rest). assert_public_address b = Inr ()" by (simp only: assert_all_public_Inr)
    with y(2) have "assert_public_address (fst y) = Inr ()" by fastforce
    with y(1) show "permitted PublicOnly (uint (the (ip_value (la_address la))))"
      by (cases y) (auto simp: normalize_lookup_Inr assert_public_iff)
  qed
qed

text \<open>Where a browser may connect to for a URL.\<close>

definition public_target ::
  "string list \<Rightarrow> (string \<Rightarrow> int \<times> lookup_address list option) \<Rightarrow> browser_target \<Rightarrow> bool" where
  "public_target allowlist lookupHost t \<longleftrightarrow>
     (let u = bt_url t; hostname = normalize_hostname (u_hostname u) in
      u_protocol u \<in> {''http:'', ''https:''} \<and> u_username u = [] \<and> u_password u = [] \<and> u_port u \<in> {[], ''80'', ''443''}
      \<and> bt_family t = is_ip (bt_address t) \<and> bt_family t \<noteq> 0
      \<and> (bt_address t = hostname \<or> (\<exists>las. snd (lookupHost hostname) = Some las \<and> las \<noteq> [] \<and> bt_address t = la_address (hd las)))
      \<and> bt_allowlisted t = matches_allowlist hostname allowlist
      \<and> (\<not> bt_allowlisted t \<longrightarrow>
           \<not> browser_local_hostname hostname \<and> permitted PublicOnly (uint (the (ip_value (bt_address t))))))"

lemma resolve_public:
  assumes "resolve_browser_request_target parse_url allowlist lookupHost limit v = Inr t"
  shows "parse_url v = Some (bt_url t)" "public_target allowlist lookupHost t"
proof -
  from assms obtain u where u: "parse_url v = Some u" "u_protocol u \<in> {''http:'', ''https:''}" "u_username u = []"
    "u_password u = []" "u_port u \<in> {[], ''80'', ''443''}"
    by (auto simp: resolve_browser_request_target_def split: option.splits if_splits)
  let ?h = "normalize_hostname (u_hostname u)"
  let ?allowed = "matches_allowlist ?h allowlist"
  from assms u have host: "?allowed \<or> \<not> browser_local_hostname ?h"
    by (auto simp: resolve_browser_request_target_def Let_def split: if_splits)
  have "parse_url v = Some (bt_url t) \<and> public_target allowlist lookupHost t"
  proof (cases "is_ip ?h > 0")
    case True
    with assms u host have "t = \<lparr> bt_url = u, bt_address = ?h, bt_family = is_ip ?h, bt_allowlisted = ?allowed \<rparr>"
      and "?allowed \<or> assert_public_address ?h = Inr ()"
      by (auto simp: resolve_browser_request_target_def Let_def split: if_splits sum.splits)
    with True u host show ?thesis by (auto simp: public_target_def Let_def assert_public_iff)
  next
    case False
    with assms u host obtain las where las: "lookup_host_with_timeout ?h lookupHost limit = Some las"
      and s: "select_address u ?h ?allowed las = Inr t"
      by (auto simp: resolve_browser_request_target_def Let_def split: if_splits option.splits)
    note t = select_address_Inr [OF s]
    from t(1) have "hd las \<in> set las" by simp
    with t u host lookup_Some [OF las] show ?thesis by (auto simp: public_target_def Let_def)
  qed
  then show "parse_url v = Some (bt_url t)" "public_target allowlist lookupHost t" by auto
qed

section \<open>The guard\<close>

definition blocked_errors_ok :: "string list \<Rightarrow> bool" where
  "blocked_errors_ok es = (distinct es \<and> length es \<le> max_blocked_errors)"

lemma record_ok: "blocked_errors_ok es \<Longrightarrow> blocked_errors_ok (record_blocked_error m es)"
  by (auto simp: blocked_errors_ok_def record_blocked_error_def)

lemma record_keeps: "\<exists>more. record_blocked_error m es = es @ more"
  by (simp add: record_blocked_error_def)

lemma record_ne: "record_blocked_error m es \<noteq> []"
  by (cases es) (auto simp: record_blocked_error_def max_blocked_errors_def)

lemma abort_request_facts:
  "blocked_errors_ok es \<Longrightarrow> blocked_errors_ok (abort_request m q es)" "abort_request m q es \<noteq> []"
  by (auto simp: abort_request_def Let_def record_ok record_ne split: option.split)

text \<open>What one event does: it keeps the errors in order, a request goes on only when its URL was validated, and what
  it aborts or opens in a new window is remembered.\<close>

definition blocks :: "page_event \<Rightarrow> decision \<Rightarrow> bool" where
  "blocks e d = (case e of PageRequest _ \<Rightarrow> d = Aborted | Popup _ \<Rightarrow> True | PageCreated _ \<Rightarrow> True | PopupRequest _ \<Rightarrow> False)"

lemma guard_step_facts:
  assumes "guard_step validate e es = (d, es')"
  shows "blocked_errors_ok es \<Longrightarrow> blocked_errors_ok es'" "es \<noteq> [] \<Longrightarrow> es' \<noteq> []" "blocks e d \<Longrightarrow> es' \<noteq> []"
    "d = Continued \<Longrightarrow> \<exists>q u. e = PageRequest q \<and> validate (pq_url q) = Inr u"
  using assms
  by (cases e; auto simp: handle_page_request_def blocks_def Let_def record_ok record_ne abort_request_facts
      split: if_splits sum.splits option.splits)+

lemma guard_run_facts:
  assumes "guard_run validate events es = (ds, es')"
  shows "length ds = length events \<and> (blocked_errors_ok es \<longrightarrow> blocked_errors_ok es') \<and> (es \<noteq> [] \<longrightarrow> es' \<noteq> [])
    \<and> (list_ex (\<lambda>(e, d). blocks e d) (zip events ds) \<longrightarrow> es' \<noteq> [])
    \<and> list_all (\<lambda>(e, d). d = Continued \<longrightarrow> (\<exists>q u. e = PageRequest q \<and> validate (pq_url q) = Inr u)) (zip events ds)"
  using assms
proof (induction validate events es arbitrary: ds es' rule: guard_run.induct)
  case (2 validate e rest es)
  obtain d es1 where s: "guard_step validate e es = (d, es1)" by fastforce
  obtain ds1 es2 where r: "guard_run validate rest es1 = (ds1, es2)" by fastforce
  from 2(2) s r have out: "ds = d # ds1" "es' = es2" by auto
  note step = guard_step_facts [OF s]
  from 2(1) [OF s [symmetric] refl r] step show ?case unfolding out by auto
qed simp

section \<open>Properties\<close>

lemma guarded_pages_stay_public_parts:
  assumes "guard_run (validate_browser_request_url parse_url allowlist lookupHost limit) events [] = (ds, errors)"
  shows "length ds = length events"
    and "\<forall>i < length events. ds ! i = Continued \<longrightarrow>
           (\<exists>q t. events ! i = PageRequest q \<and> parse_url (pq_url q) = Some (bt_url t) \<and> public_target allowlist lookupHost t)"
    and "(\<exists>i < length events. blocks (events ! i) (ds ! i)) \<longrightarrow> throw_if_blocked cause errors \<noteq> None"
    and "distinct errors \<and> length errors \<le> 8"
proof -
  let ?v = "validate_browser_request_url parse_url allowlist lookupHost limit"
  have target: "\<exists>t. parse_url w = Some (bt_url t) \<and> public_target allowlist lookupHost t" if "?v w = Inr u" for w u
    using that resolve_public [of parse_url allowlist lookupHost limit w]
    by (auto simp: validate_browser_request_url_def split: sum.splits)
  note facts = guard_run_facts [OF assms]
  from facts show len: "length ds = length events" by simp
  show "\<forall>i < length events. ds ! i = Continued \<longrightarrow>
      (\<exists>q t. events ! i = PageRequest q \<and> parse_url (pq_url q) = Some (bt_url t) \<and> public_target allowlist lookupHost t)"
  proof (intro allI impI)
    fix i assume i: "i < length events" "ds ! i = Continued"
    from facts i len obtain q u where "events ! i = PageRequest q" "?v (pq_url q) = Inr u"
      by (auto simp: list_all_length)
    with target [of "pq_url q" u] show "\<exists>q t. events ! i = PageRequest q \<and> parse_url (pq_url q) = Some (bt_url t)
        \<and> public_target allowlist lookupHost t" by blast
  qed
  show "(\<exists>i < length events. blocks (events ! i) (ds ! i)) \<longrightarrow> throw_if_blocked cause errors \<noteq> None"
    using facts len by (auto simp: throw_if_blocked_def list_ex_length neq_Nil_conv)
  show "distinct errors \<and> length errors \<le> 8"
    using facts by (simp add: blocked_errors_ok_def max_blocked_errors_def)
qed


section \<open>Witnesses\<close>

text \<open>A host with a public address, on the allow list of nobody.\<close>

definition demo_page :: url where
  "demo_page = \<lparr> u_protocol = ''http:'', u_username = [], u_password = [], u_hostname = ''example.com'', u_port = [],
     u_pathname = ''/'', u_search = [], u_hash = [] \<rparr>"

definition demo_parse_page :: "string \<Rightarrow> url option" where
  "demo_parse_page v =
     (if v = ''http://example.com/'' then Some demo_page
      else if v = ''https://example.com/'' then Some (demo_page\<lparr>u_protocol := ''https:''\<rparr>) else None)"

definition demo_lookup :: "string \<Rightarrow> int \<times> lookup_address list option" where
  "demo_lookup h = (5, Some [\<lparr> la_address = ''93.184.216.34'', la_family = 4 \<rparr>])"

definition demo_resolve :: "string \<Rightarrow> string + browser_target" where
  "demo_resolve = resolve_browser_request_target demo_parse_page [] demo_lookup default_dns_lookup_timeout_ms"

lemma demo_public: "assert_public_address ''93.184.216.34'' = Inr ()"
proof -
  have p: "parse_ipv4 ''93.184.216.34'' = Some [93, 184, 216, 34]" by code_simp
  then have "is_ip ''93.184.216.34'' \<noteq> 0" "ip_value ''93.184.216.34'' = Some (address_of_octets [93, 184, 216, 34])"
    by (simp_all add: is_ip_def ip_value_def)
  then show ?thesis
    by (simp add: assert_public_iff address_of_octets_def in_ranges_def reserved_ranges_def private_ranges_def v4_def v6_def)
qed

lemma demo_target:
  "demo_resolve ''http://example.com/'' =
     Inr \<lparr> bt_url = demo_page, bt_address = ''93.184.216.34'', bt_family = 4, bt_allowlisted = False \<rparr>"
proof -
  have n: "normalize_hostname ''example.com'' = ''example.com''" "is_ip ''example.com'' = 0" "is_ip ''93.184.216.34'' = 4"
    "\<not> browser_local_hostname ''example.com''" by code_simp+
  then show ?thesis
    by (simp add: demo_resolve_def resolve_browser_request_target_def demo_parse_page_def demo_page_def
        matches_allowlist_def lookup_host_with_timeout_def demo_lookup_def default_dns_lookup_timeout_ms_def
        is_safe_integer_def select_address_def normalize_lookup_address_def demo_public Let_def)
qed

lemma demo_validate:
  "validate_browser_request_url demo_parse_page [] demo_lookup default_dns_lookup_timeout_ms ''http://example.com/'' = Inr demo_page"
  "validate_browser_request_url demo_parse_page [] demo_lookup default_dns_lookup_timeout_ms ''file:///etc''
     = Inl ''Browser request URL is invalid''"
  using demo_target
  by (simp_all add: validate_browser_request_url_def demo_resolve_def)
    (simp add: resolve_browser_request_target_def demo_parse_page_def)

definition demo_request_of :: "string \<Rightarrow> page_request" where
  "demo_request_of v = \<lparr> pq_url = v, pq_handled = False, pq_continueFails = None, pq_abortFails = None \<rparr>"


end
