(* ===== verification/Browser_Proxy.thy ===== *)
theory Browser_Proxy
  imports Browser_Network "HOL-Library.AList" "HOL-Library.Sublist"
begin

text \<open>
  The forward proxy all traffic of the browser goes through (\<open>apps/browser-audit-lighthouse/src/network-proxy.ts\<close>).
  A request to the proxy is a state machine over what its streams and timers do; the outputs are the calls the code
  makes. A stream emits \<open>error\<close>, \<open>response\<close> and \<open>connect\<close> at most once, and nothing after it was destroyed but its
  error: these are rules of the platform, so listeners installed with \<open>once\<close> need no memory of their own. A request
  whose URL or authority is refused before any lookup has its \<open>Settled\<close> event first.
  Listening, the set of open sockets and the shutdown of the server are not modelled.
\<close>

section \<open>Headers and diagnostics\<close>

definition hop_by_hop_headers :: "string list" where
  "hop_by_hop_headers =
     [''connection'', ''keep-alive'', ''proxy-authenticate'', ''proxy-authorization'', ''proxy-connection'', ''te'',
      ''trailer'', ''transfer-encoding'', ''upgrade'']"

definition proxy_signaling_headers :: "string list" where
  "proxy_signaling_headers =
     [''forwarded'', ''x-forwarded-for'', ''x-forwarded-host'', ''x-forwarded-proto'', ''x-real-ip'']"

definition sanitize_proxy_headers :: "(string \<times> 'v) list \<Rightarrow> (string \<times> 'v) list" where
  "sanitize_proxy_headers headers =
     (let hadTransferEncoding = list_ex (\<lambda>(name, _). js_lower name = ''transfer-encoding'') headers in
      filter (\<lambda>(name, _).
        let normalized = js_lower name in
        normalized \<notin> set hop_by_hop_headers \<and> normalized \<notin> set proxy_signaling_headers
        \<and> \<not> (hadTransferEncoding \<and> normalized = ''content-length'')) headers)"

text \<open>What the code reads of an error: whether it is a \<open>BrowserNetworkPolicyError\<close>, and the properties that are strings.\<close>

record net_error =
  ne_policy :: bool
  ne_name :: "string option"
  ne_code :: "string option"
  ne_message :: "string option"

definition plain_error :: "string \<Rightarrow> net_error" where
  "plain_error m = \<lparr> ne_policy = False, ne_name = Some ''Error'', ne_code = None, ne_message = Some m \<rparr>"

definition policy_error :: "string \<Rightarrow> net_error" where
  "policy_error m =
     \<lparr> ne_policy = True, ne_name = Some ''BrowserNetworkPolicyError'', ne_code = None, ne_message = Some m \<rparr>"

datatype proxy_event = HttpRequestFailed | ConnectRequestFailed
datatype proxy_reason = NetworkPolicy | TimedOut | TransportReason

record diagnostic =
  dg_event :: proxy_event
  dg_reason :: proxy_reason
  dg_errorType :: string
  dg_errorCode :: "string option"

definition error_type_ok :: "string \<Rightarrow> bool" where
  "error_type_ok s =
     (case s of [] \<Rightarrow> False
      | c # r \<Rightarrow> (is_upper c \<or> is_lower c) \<and> length r \<le> 79
          \<and> list_all (\<lambda>d. is_alnum d \<or> d = CHR ''_'' \<or> d = CHR ''.'' \<or> d = CHR ''-'') r)"

definition error_code_ok :: "string \<Rightarrow> bool" where
  "error_code_ok s =
     (case s of [] \<Rightarrow> False
      | c # r \<Rightarrow> is_upper c \<and> length r \<le> 79 \<and> list_all (\<lambda>d. is_upper d \<or> is_digit d \<or> d = CHR ''_'') r)"

definition describe_proxy_error :: "proxy_event \<Rightarrow> net_error \<Rightarrow> diagnostic" where
  "describe_proxy_error event err =
     \<lparr> dg_event = event,
       dg_reason =
         (if ne_policy err then NetworkPolicy
          else (case ne_message err of
                  Some m \<Rightarrow> if list_ex (starts_with ''timed out'') (suffixes (js_lower m)) then TimedOut else TransportReason
                | None \<Rightarrow> TransportReason)),
       dg_errorType = (case ne_name err of Some n \<Rightarrow> if error_type_ok n then n else ''UnknownError'' | None \<Rightarrow> ''UnknownError''),
       dg_errorCode = (case ne_code err of Some c \<Rightarrow> if error_code_ok c then Some c else None | None \<Rightarrow> None) \<rparr>"

definition maximum_diagnostics :: nat where "maximum_diagnostics = 20"

text \<open>\<open>reportDiagnostic\<close>: the count so far and what the hook, if there is one, has been called with.\<close>

definition report_diagnostic ::
  "bool \<Rightarrow> proxy_event \<Rightarrow> net_error \<Rightarrow> nat \<times> diagnostic list \<Rightarrow> nat \<times> diagnostic list" where
  "report_diagnostic hooked event err s =
     (case s of (diagnosticCount, reported) \<Rightarrow>
        if \<not> hooked \<or> diagnosticCount \<ge> maximum_diagnostics then s
        else (diagnosticCount + 1, reported @ [describe_proxy_error event err]))"

section \<open>Authorities\<close>

definition maximum_connect_authority_bytes :: nat where "maximum_connect_authority_bytes = 512"

definition validate_connect_authority :: "string option \<Rightarrow> net_error + string" where
  "validate_connect_authority authority =
     (case authority of
        None \<Rightarrow> Inl (plain_error ''Proxy CONNECT authority is invalid'')
      | Some a \<Rightarrow>
          if a = [] \<or> utf8_length a > maximum_connect_authority_bytes
             \<or> list_ex (\<lambda>c. code c \<le> 32 \<or> code c = 127 \<or> c = CHR ''/'' \<or> c = CHR 0x5C) a
          then Inl (plain_error ''Proxy CONNECT authority is invalid'') else Inr a)"

definition target_port :: "nat \<Rightarrow> url \<Rightarrow> nat" where
  "target_port default_port u = (if u_port u = [] then default_port else read_digits (u_port u))"

definition url_host :: "url \<Rightarrow> string" where
  "url_host u = (if u_port u = [] then u_hostname u else u_hostname u @ '':'' @ u_port u)"

section \<open>HTTP requests\<close>

record proxied_request =
  pr_url :: "string option"
  pr_method :: string
  pr_headers :: "(string \<times> string) list"

datatype 'h proxy_action =
    Report net_error
  | OpenRequest string nat nat string string "(string \<times> string) list"
  | WriteHead nat "(string \<times> 'h) list"
  | SendError
  | DestroyRequest | DestroyResponse | DestroyUpstream "net_error option"

datatype 'h http_event =
    TargetSettled
  | RequestError net_error | ResponseError | RequestAborted | ResponseClosed
  | UpstreamTimeout | UpstreamResponse "nat option" "(string \<times> 'h) list"
  | UpstreamResponseError net_error | UpstreamError net_error | ResponseEnded

datatype http_phase = Resolving | Forwarding | Finished

record http_exchange =
  hx_phase :: http_phase
  hx_requestDestroyed :: bool
  hx_responseDestroyed :: bool
  hx_headersSent :: bool
  hx_writableEnded :: bool

definition new_exchange :: http_exchange where
  "new_exchange = \<lparr> hx_phase = Resolving, hx_requestDestroyed = False, hx_responseDestroyed = False,
     hx_headersSent = False, hx_writableEnded = False \<rparr>"

definition send_proxy_error :: "http_exchange \<Rightarrow> http_exchange \<times> 'h proxy_action list" where
  "send_proxy_error x =
     (if hx_responseDestroyed x \<or> hx_headersSent x
      then (if \<not> hx_responseDestroyed x \<and> \<not> hx_writableEnded x
            then (x\<lparr>hx_responseDestroyed := True\<rparr>, [DestroyResponse]) else (x, []))
      else (x\<lparr>hx_headersSent := True, hx_writableEnded := True\<rparr>, [SendError]))"

definition fail_exchange :: "net_error \<Rightarrow> http_exchange \<Rightarrow> http_exchange \<times> 'h proxy_action list" where
  "fail_exchange e x = (let (x', acts) = send_proxy_error (x\<lparr>hx_phase := Finished\<rparr>) in (x', Report e # acts))"

definition forward_request :: "proxied_request \<Rightarrow> browser_target \<Rightarrow> http_exchange \<Rightarrow> http_exchange \<times> 'h proxy_action list" where
  "forward_request r t x =
     (let u = bt_url t in
      if u_protocol u \<noteq> ''http:'' then fail_exchange (plain_error ''HTTPS proxy requests must use CONNECT'') x
      else if hx_requestDestroyed x \<or> hx_responseDestroyed x then (x\<lparr>hx_phase := Finished\<rparr>, [])
      else
        let headers = AList.update ''host'' (url_host u) (sanitize_proxy_headers (pr_headers r)) in
        (x\<lparr>hx_phase := Forwarding\<rparr>,
         [OpenRequest (bt_address t) (bt_family t) (target_port 80 u) (pr_method r) (u_pathname u @ u_search u) headers]))"

fun http_step ::
  "(string \<Rightarrow> string + browser_target) \<Rightarrow> proxied_request \<Rightarrow> 'h http_event \<Rightarrow> http_exchange
   \<Rightarrow> http_exchange \<times> 'h proxy_action list" where
  "http_step resolveTarget r TargetSettled x =
     (if hx_phase x \<noteq> Resolving then (x, [])
      else (case pr_url r of
              None \<Rightarrow> fail_exchange (plain_error ''Proxy request URL is missing'') x
            | Some v \<Rightarrow>
                if v = [] then fail_exchange (plain_error ''Proxy request URL is missing'') x
                else (case resolveTarget v of
                        Inl m \<Rightarrow> fail_exchange (policy_error m) x
                      | Inr t \<Rightarrow> forward_request r t x)))"
| "http_step resolveTarget r (RequestError e) x =
     (x\<lparr>hx_requestDestroyed := True, hx_responseDestroyed := True\<rparr>, [Report e, DestroyResponse])"
| "http_step resolveTarget r ResponseError x =
     (x\<lparr>hx_responseDestroyed := True, hx_requestDestroyed := True\<rparr>, [DestroyRequest])"
| "http_step resolveTarget r RequestAborted x =
     (x\<lparr>hx_requestDestroyed := True\<rparr>, if hx_phase x = Forwarding then [DestroyUpstream None] else [])"
| "http_step resolveTarget r ResponseClosed x =
     (x\<lparr>hx_responseDestroyed := True\<rparr>, if hx_phase x = Forwarding then [DestroyUpstream None] else [])"
| "http_step resolveTarget r UpstreamTimeout x =
     (x, if hx_phase x = Forwarding
         then [DestroyUpstream (Some (plain_error ''Browser proxy HTTP request timed out''))] else [])"
| "http_step resolveTarget r (UpstreamResponse status headers) x =
     (if hx_phase x \<noteq> Forwarding then (x, [])
      else (x\<lparr>hx_headersSent := True\<rparr>,
            [WriteHead (case status of Some n \<Rightarrow> n | None \<Rightarrow> 502) (sanitize_proxy_headers headers)]))"
| "http_step resolveTarget r (UpstreamResponseError e) x =
     (if hx_phase x \<noteq> Forwarding then (x, [])
      else (x\<lparr>hx_responseDestroyed := True\<rparr>, [Report e, DestroyResponse]))"
| "http_step resolveTarget r (UpstreamError e) x =
     (if hx_phase x \<noteq> Forwarding then (x, [])
      else (let (x', acts) = send_proxy_error x in (x', Report e # acts)))"
| "http_step resolveTarget r ResponseEnded x = (x\<lparr>hx_writableEnded := True\<rparr>, [])"

fun http_run ::
  "(string \<Rightarrow> string + browser_target) \<Rightarrow> proxied_request \<Rightarrow> 'h http_event list \<Rightarrow> http_exchange
   \<Rightarrow> http_exchange \<times> 'h proxy_action list" where
  "http_run resolveTarget r [] x = (x, [])"
| "http_run resolveTarget r (e # es) x =
     (let (x1, a1) = http_step resolveTarget r e x; (x2, a2) = http_run resolveTarget r es x1 in (x2, a1 @ a2))"

section \<open>Tunnels\<close>

datatype tunnel_action =
    ReportTunnel net_error
  | OpenTunnel string nat nat
  | WriteEstablished
  | WriteUpstream string
  | PipeBoth
  | SendBadGateway
  | DestroyClient | DestroyTunnel "net_error option"

datatype tunnel_event =
    TunnelTargetSettled
  | ClientClosed
  | ClientDestroyed
  | UpstreamConnected
  | UpstreamTimedOut
  | UpstreamFailed net_error

datatype tunnel_phase = Looking | Tunnelling | Over

record tunnel =
  tn_phase :: tunnel_phase
  tn_established :: bool
  tn_clientClosed :: bool
  tn_clientWritable :: bool
  tn_clientDestroyed :: bool

definition new_tunnel :: tunnel where
  "new_tunnel = \<lparr> tn_phase = Looking, tn_established = False, tn_clientClosed = False, tn_clientWritable = True,
     tn_clientDestroyed = False \<rparr>"

definition destroy_client :: "tunnel \<Rightarrow> tunnel" where
  "destroy_client s = s\<lparr>tn_clientDestroyed := True, tn_clientWritable := False\<rparr>"

definition send_connect_error :: "tunnel \<Rightarrow> tunnel \<times> tunnel_action list" where
  "send_connect_error s =
     (if tn_clientWritable s then (s\<lparr>tn_clientWritable := False\<rparr>, [SendBadGateway]) else (destroy_client s, [DestroyClient]))"

definition fail_tunnel :: "net_error \<Rightarrow> tunnel \<Rightarrow> tunnel \<times> tunnel_action list" where
  "fail_tunnel e s = (let (s', acts) = send_connect_error (s\<lparr>tn_phase := Over\<rparr>) in (s', ReportTunnel e # acts))"

text \<open>The race of the lookup and the client: \<open>ClientClosed\<close> while the target is looked up ends the request.\<close>

fun tunnel_step ::
  "(string \<Rightarrow> string + browser_target) \<Rightarrow> string option \<Rightarrow> string \<Rightarrow> tunnel_event \<Rightarrow> tunnel \<Rightarrow> tunnel \<times> tunnel_action list" where
  "tunnel_step resolveTarget url head TunnelTargetSettled s =
     (if tn_phase s \<noteq> Looking then (s, [])
      else (case validate_connect_authority url of
              Inl e \<Rightarrow> fail_tunnel e s
            | Inr authority \<Rightarrow>
                (case resolveTarget (''https://'' @ authority @ ''/'') of
                   Inl m \<Rightarrow> fail_tunnel (policy_error m) s
                 | Inr t \<Rightarrow>
                     if tn_clientClosed s \<or> tn_clientDestroyed s
                     then (destroy_client (s\<lparr>tn_phase := Over\<rparr>), [DestroyClient])
                     else (s\<lparr>tn_phase := Tunnelling\<rparr>,
                           [OpenTunnel (bt_address t) (bt_family t) (target_port 443 (bt_url t))]))))"
| "tunnel_step resolveTarget url head ClientClosed s =
     (if tn_clientClosed s then (s, [])
      else if tn_phase s = Looking
      then (destroy_client (s\<lparr>tn_clientClosed := True, tn_phase := Over\<rparr>), [DestroyClient])
      else (s\<lparr>tn_clientClosed := True\<rparr>, if tn_phase s = Tunnelling then [DestroyTunnel None] else []))"
| "tunnel_step resolveTarget url head ClientDestroyed s = (destroy_client s, [])"
| "tunnel_step resolveTarget url head UpstreamConnected s =
     (if tn_phase s \<noteq> Tunnelling \<or> tn_clientClosed s \<or> tn_established s then (s, [])
      else (s\<lparr>tn_established := True\<rparr>,
            WriteEstablished # (if head \<noteq> [] then [WriteUpstream head] else []) @ [PipeBoth]))"
| "tunnel_step resolveTarget url head UpstreamTimedOut s =
     (if tn_phase s \<noteq> Tunnelling then (s, [])
      else (s, [DestroyTunnel (Some (plain_error
                  (if tn_established s then ''Browser proxy tunnel timed out'' else ''Browser proxy connection timed out'')))]))"
| "tunnel_step resolveTarget url head (UpstreamFailed e) s =
     (if tn_phase s \<noteq> Tunnelling then (s, [])
      else if tn_established s then (destroy_client s, [ReportTunnel e, DestroyClient])
      else (let (s', acts) = send_connect_error s in (s', ReportTunnel e # acts)))"

fun tunnel_run ::
  "(string \<Rightarrow> string + browser_target) \<Rightarrow> string option \<Rightarrow> string \<Rightarrow> tunnel_event list \<Rightarrow> tunnel
   \<Rightarrow> tunnel \<times> tunnel_action list" where
  "tunnel_run resolveTarget url head [] s = (s, [])"
| "tunnel_run resolveTarget url head (e # es) s =
     (let (s1, a1) = tunnel_step resolveTarget url head e s; (s2, a2) = tunnel_run resolveTarget url head es s1 in
      (s2, a1 @ a2))"

section \<open>What the proxy opens\<close>

fun opens_request :: "'h proxy_action \<Rightarrow> bool" where
  "opens_request (OpenRequest _ _ _ _ _ _) = True"
| "opens_request _ = False"

fun opens_tunnel :: "tunnel_action \<Rightarrow> bool" where
  "opens_tunnel (OpenTunnel _ _ _) = True"
| "opens_tunnel _ = False"

fun sends_data :: "tunnel_action \<Rightarrow> bool" where
  "sends_data WriteEstablished = True"
| "sends_data (WriteUpstream _) = True"
| "sends_data PipeBoth = True"
| "sends_data _ = False"

text \<open>Data only after a tunnel was opened.\<close>

fun opened_first :: "bool \<Rightarrow> tunnel_action list \<Rightarrow> bool" where
  "opened_first b [] = True"
| "opened_first b (a # as) = ((sends_data a \<longrightarrow> b) \<and> opened_first (b \<or> opens_tunnel a) as)"

lemma opened_first_append:
  "opened_first b (xs @ ys) \<longleftrightarrow> opened_first b xs \<and> opened_first (b \<or> list_ex opens_tunnel xs) ys"
  by (induction xs arbitrary: b) (auto simp: disj_assoc)

lemma opened_first_mono: "opened_first b xs \<Longrightarrow> (b \<longrightarrow> b') \<Longrightarrow> opened_first b' xs"
proof (induction xs arbitrary: b b')
  case (Cons a xs)
  from Cons.prems Cons.IH [of "b \<or> opens_tunnel a" "b' \<or> opens_tunnel a"] show ?case by simp
qed simp

text \<open>A request goes where the policy said, with the headers of the browser that are not the proxy's business.\<close>

definition clean_headers :: "(string \<times> string) list \<Rightarrow> bool" where
  "clean_headers hs =
     list_all (\<lambda>(n, _). js_lower n \<notin> set hop_by_hop_headers \<and> js_lower n \<notin> set proxy_signaling_headers) hs"

lemma sanitize_clean: "clean_headers (sanitize_proxy_headers hs)"
  by (auto simp: clean_headers_def sanitize_proxy_headers_def Let_def list_all_iff)

lemma update_clean: "clean_headers hs \<Longrightarrow> clean_headers (AList.update ''host'' v hs)"
  by (induction hs)
    (auto simp: clean_headers_def hop_by_hop_headers_def proxy_signaling_headers_def js_lower_def lower_char_def is_upper_def)

definition request_as_resolved :: "(string \<Rightarrow> string + browser_target) \<Rightarrow> proxied_request \<Rightarrow> 'h proxy_action \<Rightarrow> bool" where
  "request_as_resolved resolveTarget r a =
     (case a of
        OpenRequest h f p m path headers \<Rightarrow>
          (\<exists>v t. pr_url r = Some v \<and> resolveTarget v = Inr t \<and> u_protocol (bt_url t) = ''http:''
             \<and> h = bt_address t \<and> f = bt_family t \<and> p = target_port 80 (bt_url t) \<and> m = pr_method r
             \<and> map_of headers ''host'' = Some (url_host (bt_url t)) \<and> clean_headers headers)
      | _ \<Rightarrow> True)"

lemma fail_exchange_actions:
  assumes "fail_exchange e x = (x', acts)"
  shows "hx_phase x' = Finished" "list_all (\<lambda>a. \<not> opens_request a \<and> request_as_resolved f r a) acts"
  using assms by (auto simp: fail_exchange_def send_proxy_error_def request_as_resolved_def Let_def split: if_splits)

lemma http_step_facts:
  assumes "http_step resolveTarget r e x = (x', acts)"
  shows "list_all (request_as_resolved resolveTarget r) acts"
    "length (filter opens_request acts) \<le> (if hx_phase x = Resolving \<and> hx_phase x' \<noteq> Resolving then 1 else 0)"
    "hx_phase x \<noteq> Resolving \<Longrightarrow> hx_phase x' \<noteq> Resolving"
proof -
  have fails: "list_all (request_as_resolved resolveTarget r) as \<and> filter opens_request as = [] \<and> hx_phase y = Finished"
    if "fail_exchange er x = (y, as)" for er y and as :: "'a proxy_action list"
    using fail_exchange_actions [OF that] by (auto simp: list_all_iff filter_empty_conv)
  have "list_all (request_as_resolved resolveTarget r) acts
    \<and> length (filter opens_request acts) \<le> (if hx_phase x = Resolving \<and> hx_phase x' \<noteq> Resolving then 1 else 0)
    \<and> (hx_phase x \<noteq> Resolving \<longrightarrow> hx_phase x' \<noteq> Resolving)"
  proof (cases e)
    case TargetSettled
    with assms show ?thesis
      by (auto simp: forward_request_def Let_def request_as_resolved_def update_clean sanitize_clean update_conv
          dest!: fails split: if_splits option.splits sum.splits)
  qed (use assms in \<open>auto simp: request_as_resolved_def send_proxy_error_def Let_def split: if_splits\<close>)
  then show "list_all (request_as_resolved resolveTarget r) acts"
    "length (filter opens_request acts) \<le> (if hx_phase x = Resolving \<and> hx_phase x' \<noteq> Resolving then 1 else 0)"
    "hx_phase x \<noteq> Resolving \<Longrightarrow> hx_phase x' \<noteq> Resolving" by auto
qed

lemma http_run_facts:
  "http_run resolveTarget r es x = (x', acts) \<Longrightarrow>
     list_all (request_as_resolved resolveTarget r) acts
     \<and> length (filter opens_request acts) \<le> (if hx_phase x = Resolving then 1 else 0)"
proof (induction resolveTarget r es x arbitrary: x' acts rule: http_run.induct)
  case (2 resolveTarget r e es x)
  obtain x1 a1 where s: "http_step resolveTarget r e x = (x1, a1)" by fastforce
  obtain x2 a2 where t: "http_run resolveTarget r es x1 = (x2, a2)" by fastforce
  from 2(2) s t have acts: "acts = a1 @ a2" by simp
  from 2(1) [OF s [symmetric] refl t] http_step_facts [OF s] show ?case
    unfolding acts by (auto split: if_splits)
qed simp

definition tunnel_as_resolved :: "(string \<Rightarrow> string + browser_target) \<Rightarrow> string option \<Rightarrow> tunnel_action \<Rightarrow> bool" where
  "tunnel_as_resolved resolveTarget url a =
     (case a of
        OpenTunnel h f p \<Rightarrow>
          (\<exists>authority t. url = Some authority \<and> resolveTarget (''https://'' @ authority @ ''/'') = Inr t
             \<and> h = bt_address t \<and> f = bt_family t \<and> p = target_port 443 (bt_url t))
      | _ \<Rightarrow> True)"

lemma tunnel_step_facts:
  assumes "tunnel_step resolveTarget url head e s = (s', acts)"
  shows "list_all (tunnel_as_resolved resolveTarget url) acts
    \<and> length (filter opens_tunnel acts) \<le> (if tn_phase s = Looking \<and> tn_phase s' \<noteq> Looking then 1 else 0)
    \<and> (tn_phase s \<noteq> Looking \<longrightarrow> tn_phase s' \<noteq> Looking)
    \<and> (tn_phase s' = Tunnelling \<longrightarrow> tn_phase s = Tunnelling \<or> list_ex opens_tunnel acts)
    \<and> opened_first (tn_phase s = Tunnelling) acts
    \<and> (tn_clientClosed s \<longrightarrow> tn_clientClosed s' \<and> list_all (\<lambda>a. \<not> opens_tunnel a \<and> \<not> sends_data a) acts)
    \<and> (e = ClientClosed \<longrightarrow> tn_clientClosed s')"
  using assms
  by (cases e)
    (auto simp: tunnel_as_resolved_def fail_tunnel_def send_connect_error_def destroy_client_def Let_def
      validate_connect_authority_def split: if_splits option.splits sum.splits)

lemma tunnel_run_facts:
  "tunnel_run resolveTarget url head es s = (s', acts) \<Longrightarrow>
     list_all (tunnel_as_resolved resolveTarget url) acts
     \<and> length (filter opens_tunnel acts) \<le> (if tn_phase s = Looking then 1 else 0)
     \<and> (\<forall>b. (tn_phase s = Tunnelling \<longrightarrow> b) \<longrightarrow> opened_first b acts)
     \<and> (tn_clientClosed s \<longrightarrow> list_all (\<lambda>a. \<not> opens_tunnel a \<and> \<not> sends_data a) acts)"
proof (induction resolveTarget url head es s arbitrary: s' acts rule: tunnel_run.induct)
  case (2 resolveTarget url head e es s)
  obtain s1 a1 where st: "tunnel_step resolveTarget url head e s = (s1, a1)" by fastforce
  obtain s2 a2 where rn: "tunnel_run resolveTarget url head es s1 = (s2, a2)" by fastforce
  from 2(2) st rn have acts: "acts = a1 @ a2" by simp
  note IH = 2(1) [OF st [symmetric] refl rn] and step = tunnel_step_facts [OF st]
  have "opened_first b (a1 @ a2)" if b: "tn_phase s = Tunnelling \<longrightarrow> b" for b
  proof -
    from step b have "opened_first b a1" by (auto intro: opened_first_mono)
    moreover from step b have "tn_phase s1 = Tunnelling \<longrightarrow> b \<or> list_ex opens_tunnel a1" by auto
    ultimately show ?thesis using IH by (simp add: opened_first_append)
  qed
  with IH step show ?case unfolding acts by (auto split: if_splits)
qed simp

lemma tunnel_run_append:
  "tunnel_run f url head (es @ es') s =
     (let (s1, a1) = tunnel_run f url head es s; (s2, a2) = tunnel_run f url head es' s1 in (s2, a1 @ a2))"
  by (induction f url head es s rule: tunnel_run.induct) (auto simp: Let_def split: prod.splits)

section \<open>Properties\<close>

lemma proxied_traffic_reaches_public_targets_parts:
  fixes parse_url allowlist lookupHost limit
  defines "resolve \<equiv> resolve_browser_request_target parse_url allowlist lookupHost limit"
  assumes http: "http_run resolve r events new_exchange = (x, sent)"
    and tunnel: "tunnel_run resolve authority head (before @ ClientClosed # after) new_tunnel = (s, acts)"
  shows "length (filter opens_request sent) \<le> 1"
    and "\<forall>h f p m path hs. OpenRequest h f p m path hs \<in> set sent \<longrightarrow>
           (\<exists>v t. pr_url r = Some v \<and> parse_url v = Some (bt_url t) \<and> public_target allowlist lookupHost t
              \<and> h = bt_address t \<and> f = bt_family t \<and> p \<in> {80, 443}
              \<and> map_of hs ''host'' = Some (url_host (bt_url t)) \<and> clean_headers hs)"
    and "length (filter opens_tunnel acts) \<le> 1 \<and> opened_first False acts"
    and "\<forall>h f p. OpenTunnel h f p \<in> set acts \<longrightarrow>
           (\<exists>a t. authority = Some a \<and> parse_url (''https://'' @ a @ ''/'') = Some (bt_url t)
              \<and> public_target allowlist lookupHost t \<and> h = bt_address t \<and> f = bt_family t \<and> p \<in> {80, 443})"
    and "\<exists>late. acts = snd (tunnel_run resolve authority head before new_tunnel) @ late
           \<and> list_all (\<lambda>a. \<not> opens_tunnel a \<and> \<not> sends_data a) late"
proof -
  have port: "target_port d (bt_url t) \<in> {80, 443}" if "public_target allowlist lookupHost t" "d \<in> {80, 443}" for d t
    using that by (auto simp: public_target_def Let_def target_port_def read_digits_def digit_value_def)
  note facts = http_run_facts [OF http] and tfacts = tunnel_run_facts [OF tunnel]
  show "length (filter opens_request sent) \<le> 1" using facts by (auto simp: new_exchange_def)
  show "length (filter opens_tunnel acts) \<le> 1 \<and> opened_first False acts"
    using tfacts by (auto simp: new_tunnel_def)
  show "\<forall>h f p m path hs. OpenRequest h f p m path hs \<in> set sent \<longrightarrow>
      (\<exists>v t. pr_url r = Some v \<and> parse_url v = Some (bt_url t) \<and> public_target allowlist lookupHost t
         \<and> h = bt_address t \<and> f = bt_family t \<and> p \<in> {80, 443}
         \<and> map_of hs ''host'' = Some (url_host (bt_url t)) \<and> clean_headers hs)"
  proof (intro allI impI)
    fix h f p m path hs assume opened: "OpenRequest h f p m path hs \<in> set sent"
    from facts have "\<forall>a \<in> set sent. request_as_resolved resolve r a" by (simp add: list_all_iff)
    from bspec [OF this opened] obtain v t where v: "pr_url r = Some v" "resolve v = Inr t" and t: "h = bt_address t" "f = bt_family t"
      "p = target_port 80 (bt_url t)" "map_of hs ''host'' = Some (url_host (bt_url t))" "clean_headers hs"
      by (auto simp: request_as_resolved_def)
    from resolve_public v(2) have "parse_url v = Some (bt_url t)" "public_target allowlist lookupHost t"
      unfolding resolve_def by blast+
    with v(1) t port [of t 80] show "\<exists>v t. pr_url r = Some v \<and> parse_url v = Some (bt_url t)
         \<and> public_target allowlist lookupHost t \<and> h = bt_address t \<and> f = bt_family t \<and> p \<in> {80, 443}
         \<and> map_of hs ''host'' = Some (url_host (bt_url t)) \<and> clean_headers hs" by blast
  qed
  show "\<forall>h f p. OpenTunnel h f p \<in> set acts \<longrightarrow>
      (\<exists>a t. authority = Some a \<and> parse_url (''https://'' @ a @ ''/'') = Some (bt_url t)
         \<and> public_target allowlist lookupHost t \<and> h = bt_address t \<and> f = bt_family t \<and> p \<in> {80, 443})"
  proof (intro allI impI)
    fix h f p assume "OpenTunnel h f p \<in> set acts"
    with tfacts have "tunnel_as_resolved resolve authority (OpenTunnel h f p)" by (auto simp: list_all_iff)
    then obtain a t where a: "authority = Some a" "resolve (''https://'' @ a @ ''/'') = Inr t"
      and t: "h = bt_address t" "f = bt_family t" "p = target_port 443 (bt_url t)"
      unfolding tunnel_as_resolved_def by auto
    from resolve_public a(2) have "parse_url (''https://'' @ a @ ''/'') = Some (bt_url t)"
      "public_target allowlist lookupHost t" unfolding resolve_def by blast+
    with a(1) t port [of t 443] show "\<exists>a t. authority = Some a \<and> parse_url (''https://'' @ a @ ''/'') = Some (bt_url t)
         \<and> public_target allowlist lookupHost t \<and> h = bt_address t \<and> f = bt_family t \<and> p \<in> {80, 443}" by blast
  qed
  obtain s1 early where e: "tunnel_run resolve authority head before new_tunnel = (s1, early)" by fastforce
  obtain s2 now where n: "tunnel_step resolve authority head ClientClosed s1 = (s2, now)" by fastforce
  obtain s3 rest where r: "tunnel_run resolve authority head after s2 = (s3, rest)" by fastforce
  have "tunnel_run resolve authority head (ClientClosed # after) s1 = (s3, now @ rest)"
    using n r by (simp del: tunnel_step.simps)
  with tunnel e have acts: "acts = early @ now @ rest" by (simp add: tunnel_run_append del: tunnel_run.simps)
  from tunnel_step_facts [OF n] tunnel_run_facts [OF r]
  have rest: "list_all (\<lambda>a. \<not> opens_tunnel a \<and> \<not> sends_data a) rest" by simp
  from n have "list_all (\<lambda>a. \<not> opens_tunnel a \<and> \<not> sends_data a) now" by (auto split: if_splits)
  with rest e acts show "\<exists>late. acts = snd (tunnel_run resolve authority head before new_tunnel) @ late
      \<and> list_all (\<lambda>a. \<not> opens_tunnel a \<and> \<not> sends_data a) late" by auto
qed


section \<open>Witness\<close>

definition demo_proxied :: proxied_request where
  "demo_proxied = \<lparr> pr_url = Some ''http://example.com/'', pr_method = ''GET'', pr_headers = [(''te'', ''trailers'')] \<rparr>"

definition demo_events :: "unit http_event list" where
  "demo_events = [TargetSettled, UpstreamResponse (Some 200) []]"

lemma demo_http_run:
  "http_run demo_resolve demo_proxied demo_events new_exchange =
     (new_exchange\<lparr>hx_phase := Forwarding, hx_headersSent := True\<rparr>,
      [OpenRequest ''93.184.216.34'' 4 80 ''GET'' ''/'' [(''host'', ''example.com'')], WriteHead 200 []])"
  by (simp add: demo_events_def demo_proxied_def new_exchange_def demo_target forward_request_def demo_page_def
      target_port_def url_host_def sanitize_proxy_headers_def js_lower_def lower_char_def is_upper_def
      hop_by_hop_headers_def)


end
