(* ===== verification/Browser_Redaction.thy ===== *)
theory Browser_Redaction
  imports Redaction Audit_Properties
begin

text \<open>
  What the browser worker hides of the secrets of an audit (\<open>apps/browser-audit-lighthouse/src/redaction.ts\<close>): in
  texts, in URLs, and in place in the bytes of an artifact. Bytes are strings of their character codes. A buffer is
  a list that keeps its length; \<open>fill\<close> is the only thing that changes it. The parser and printer of URLs are parameters.
\<close>

section \<open>The secrets of a request\<close>

definition broad_redaction_minimum_length :: nat where "broad_redaction_minimum_length = 8"

definition bearer_token :: "audit_worker_request \<Rightarrow> string" where
  "bearer_token r = (case wr_artifactUpload r of None \<Rightarrow> [] | Some u \<Rightarrow> up_bearerToken u)"

text \<open>A \<open>Set\<close> of the values, without the empty ones: each at its first place.\<close>

definition get_sensitive_values :: "audit_worker_request \<Rightarrow> string list" where
  "get_sensitive_values r =
     filter (\<lambda>v. v \<noteq> [])
       (rev (remdups (rev (map hdr_value (wr_customHeaders r) @ map ck_value (wr_cookies r) @ [bearer_token r]))))"

definition broad_values :: "audit_worker_request \<Rightarrow> string list" where
  "broad_values r =
     js_sort (\<lambda>left right. int (length right) - int (length left))
       (filter (\<lambda>v. length v \<ge> broad_redaction_minimum_length) (get_sensitive_values r))"

definition short_values :: "audit_worker_request \<Rightarrow> string list" where
  "short_values r = filter (\<lambda>v. length v < broad_redaction_minimum_length) (get_sensitive_values r)"

definition get_short_sensitive_pairs :: "audit_worker_request \<Rightarrow> (string \<times> string) list" where
  "get_short_sensitive_pairs r =
     (let configured = filter (\<lambda>(n, v). n \<noteq> [] \<and> v \<noteq> [] \<and> length v < broad_redaction_minimum_length)
            (map (\<lambda>h. (hdr_name h, hdr_value h)) (wr_customHeaders r) @ map (\<lambda>c. (ck_name c, ck_value c)) (wr_cookies r));
          token = bearer_token r in
      if token = [] \<or> length token \<ge> broad_redaction_minimum_length then configured
      else configured @ [(''authorization'', ''Bearer '' @ token), (''bearerToken'', token)])"

section \<open>Characters\<close>

definition normalize_ascii :: "char \<Rightarrow> char" where
  "normalize_ascii c = (if is_upper c then char_of (code c + 32) else c)"

definition is_identifier_byte :: "char \<Rightarrow> bool" where
  "is_identifier_byte c = (is_digit c \<or> is_upper c \<or> is_lower c \<or> c = CHR ''-'' \<or> c = CHR ''.'' \<or> c = CHR ''_'')"

definition is_ascii_whitespace :: "char \<Rightarrow> bool" where
  "is_ascii_whitespace c = (code c \<in> {9, 10, 11, 12, 13, 32})"

definition is_quote :: "char \<Rightarrow> bool" where
  "is_quote c = (c = CHR 0x22 \<or> c = CHR 0x27)"

text \<open>\<open>Buffer.from(text, 'utf8')\<close>.\<close>

definition utf8_text :: "string \<Rightarrow> string" where
  "utf8_text s = map (\<lambda>w. char_of (unat w)) (utf8_encode s)"

section \<open>Texts\<close>

text \<open>\<open>findClosingQuote\<close>, from the character after the opening one, at position \<open>i\<close>.\<close>

fun find_closing_quote :: "char \<Rightarrow> bool \<Rightarrow> nat \<Rightarrow> string \<Rightarrow> nat option" where
  "find_closing_quote q escaped i [] = None"
| "find_closing_quote q escaped i (c # s) =
     (if escaped then find_closing_quote q False (i + 1) s
      else if c = CHR 0x5C then find_closing_quote q True (i + 1) s
      else if c = q then Some i
      else find_closing_quote q False (i + 1) s)"

lemma find_closing_quote_bounds: "find_closing_quote q e i s = Some k \<Longrightarrow> i \<le> k \<and> k < i + length s"
  by (induction q e i s rule: find_closing_quote.induct) (auto split: if_splits)

function redact_quoted :: "string list \<Rightarrow> string \<Rightarrow> string" where
  "redact_quoted sensitive [] = []"
| "redact_quoted sensitive (c # s) =
     (if \<not> is_quote c then c # redact_quoted sensitive s
      else (case find_closing_quote c False 0 s of
              None \<Rightarrow> c # redact_quoted sensitive s
            | Some k \<Rightarrow>
                (if take k s \<in> set sensitive then c # redacted_value else c # take k s)
                @ [c] @ redact_quoted sensitive (drop (k + 1) s)))"
  by pat_completeness auto
termination by (relation "measure (\<lambda>(v, s). length s)") auto

definition redact_quoted_short_values :: "string \<Rightarrow> string list \<Rightarrow> string" where
  "redact_quoted_short_values v sensitive = (if sensitive = [] then v else redact_quoted sensitive v)"

text \<open>The regular expression of \<open>redactShortContexts\<close>, at a place where the name may start: the name in either case, a
  colon or equals sign between blanks, as many as leave the value after them, and no identifier character after it.
  The result is the length of what is kept before the value.\<close>

definition match_name :: "string \<Rightarrow> string \<Rightarrow> bool" where
  "match_name name s = (length name \<le> length s \<and> map normalize_ascii (take (length name) s) = map normalize_ascii name)"

definition value_follows :: "string \<Rightarrow> string \<Rightarrow> bool" where
  "value_follows v s =
     (starts_with v s \<and> (case drop (length v) s of [] \<Rightarrow> True | c # _ \<Rightarrow> \<not> is_identifier_byte c))"

definition match_context :: "string \<times> string \<Rightarrow> string \<Rightarrow> nat option" where
  "match_context pair s =
     (let name = fst pair; rest = drop (length name) s;
          before = length (takeWhile is_ascii_whitespace rest) in
      if \<not> match_name name s then None
      else (case drop before rest of
              [] \<Rightarrow> None
            | c # s1 \<Rightarrow>
                if c \<noteq> CHR '':'' \<and> c \<noteq> CHR ''='' then None
                else
                  let blanks = length (takeWhile is_ascii_whitespace s1) in
                  (case find (\<lambda>k. value_follows (snd pair) (drop k s1)) (rev [0..<blanks + 1]) of
                     None \<Rightarrow> None
                   | Some k \<Rightarrow> Some (length name + before + 1 + k))))"

text \<open>Where a match may start: at the start of a line, or after a character that is no identifier character.\<close>

definition is_line_end :: "char \<Rightarrow> bool" where
  "is_line_end c = (code c = 10 \<or> code c = 13)"

definition match_short :: "string \<times> string \<Rightarrow> char option \<Rightarrow> string \<Rightarrow> nat option" where
  "match_short pair previous s =
     (let lineStart = (case previous of None \<Rightarrow> True | Some c \<Rightarrow> is_line_end c) in
      case (if lineStart then match_context pair s else None) of
        Some n \<Rightarrow> Some n
      | None \<Rightarrow>
          (case s of
             [] \<Rightarrow> None
           | c # s1 \<Rightarrow> if is_identifier_byte c then None else map_option Suc (match_context pair s1)))"

function replace_short :: "string \<times> string \<Rightarrow> char option \<Rightarrow> string \<Rightarrow> string" where
  "replace_short pair previous [] = []"
| "replace_short pair previous (c # s) =
     (case match_short pair previous (c # s) of
        None \<Rightarrow> c # replace_short pair (Some c) s
      | Some n \<Rightarrow>
          let len = n + length (snd pair) in
          if len = 0 then c # replace_short pair (Some c) s
          else take n (c # s) @ redacted_value
               @ replace_short pair (Some ((c # s) ! (min len (length (c # s)) - 1))) (drop len (c # s)))"
  by pat_completeness auto
termination by (relation "measure (\<lambda>(p, q, s). length s)") auto

definition redact_short_contexts :: "string \<Rightarrow> (string \<times> string) list \<Rightarrow> string" where
  "redact_short_contexts v pairs = fold (\<lambda>pair s. replace_short pair None s) pairs v"

definition redact_known_values :: "string \<Rightarrow> audit_worker_request \<Rightarrow> string" where
  "redact_known_values v r =
     redact_short_contexts
       (redact_quoted_short_values (fold (\<lambda>s t. replace_literal s redacted_value t) (broad_values r) v) (short_values r))
       (get_short_sensitive_pairs r)"

section \<open>URLs in texts\<close>

text \<open>\<open>/^(https?:\/\/)[^/\s]+@/i\<close>: up to the last at sign before a slash or blank, with a character before it.\<close>

definition hide_credentials :: "string \<Rightarrow> string" where
  "hide_credentials v =
     (let n = (if starts_with_i ''https://'' v then 8 else if starts_with_i ''http://'' v then 7 else 0);
          run = takeWhile (\<lambda>c. c \<noteq> CHR ''/'' \<and> \<not> is_ws c) (drop n v);
          host = rev (takeWhile (\<lambda>c. c \<noteq> CHR ''@'') (rev run)) in
      if n = 0 \<or> length host + 2 > length run then v
      else take n v @ redacted_value @ ''@'' @ host @ drop (length run) (drop n v))"

definition redact_malformed_url :: "string \<Rightarrow> string" where
  "redact_malformed_url v =
     (let w = hide_credentials v in
      if CHR ''?'' \<in> set w then takeWhile (\<lambda>c. c \<noteq> CHR ''?'') w @ ''?redacted''
      else takeWhile (\<lambda>c. c \<noteq> CHR ''#'') w)"

definition redact_url_components :: "url_text \<Rightarrow> string \<Rightarrow> string" where
  "redact_url_components T v =
     (case ut_parse T v of
        Some u \<Rightarrow> ut_href T (u\<lparr>u_username := [], u_password := [],
                    u_search := (if u_search u \<noteq> [] then ''?redacted'' else u_search u), u_hash := []\<rparr>)
      | None \<Rightarrow> redact_malformed_url v)"

definition redact_browser_audit_url :: "url_text \<Rightarrow> string \<Rightarrow> audit_worker_request \<Rightarrow> string" where
  "redact_browser_audit_url T v r = redact_url_components T (redact_known_values v r)"

text \<open>The split at a separator that a scheme follows, and each part that is a URL redacted.\<close>

definition url_separator :: "char \<Rightarrow> bool" where
  "url_separator c = (c \<in> set '',;|)]}'')"

definition scheme_ahead :: "string \<Rightarrow> bool" where
  "scheme_ahead s = (starts_with_i ''https://'' s \<or> starts_with_i ''http://'' s)"

fun split_urls :: "string \<Rightarrow> string list" where
  "split_urls [] = [[]]"
| "split_urls (c # s) =
     (if url_separator c \<and> scheme_ahead s then [] # [c] # split_urls s
      else (case split_urls s of [] \<Rightarrow> [[c]] | w # ws \<Rightarrow> (c # w) # ws))"

definition redact_url_sequence :: "url_text \<Rightarrow> string \<Rightarrow> string" where
  "redact_url_sequence T v =
     concat (map (\<lambda>part. if scheme_ahead part then redact_url_components T part else part) (split_urls v))"

definition sequence_char :: "char \<Rightarrow> bool" where
  "sequence_char c = (\<not> is_ws c \<and> c \<notin> {CHR 0x22, CHR 0x27, CHR ''<'', CHR ''>'', CHR 0x60})"

definition match_url_sequence :: "string \<Rightarrow> nat option" where
  "match_url_sequence s =
     (let n = (if starts_with_i ''https://'' s then 8 else if starts_with_i ''http://'' s then 7 else 0);
          k = length (takeWhile sequence_char (drop n s)) in
      if n = 0 \<or> k = 0 then None else Some (n + k))"

function replace_sequences :: "url_text \<Rightarrow> string \<Rightarrow> string" where
  "replace_sequences T [] = []"
| "replace_sequences T (c # s) =
     (case match_url_sequence (c # s) of
        None \<Rightarrow> c # replace_sequences T s
      | Some n \<Rightarrow> redact_url_sequence T (take n (c # s)) @ replace_sequences T (drop (n - 1) s))"
  by pat_completeness auto
termination by (relation "measure (\<lambda>(T, s). length s)") auto

definition redact_browser_audit_text :: "url_text \<Rightarrow> string \<Rightarrow> audit_worker_request \<Rightarrow> string" where
  "redact_browser_audit_text T v r = replace_sequences T (redact_known_values v r)"

section \<open>Buffers\<close>

text \<open>\<open>bytes.fill('*', start, stop)\<close>.\<close>

definition fill :: "nat \<Rightarrow> nat \<Rightarrow> string \<Rightarrow> string" where
  "fill start stop bytes = map (\<lambda>(i, c). if start \<le> i \<and> i < stop then CHR ''*'' else c) (enumerate 0 bytes)"

lemma length_fill [simp]: "length (fill i j bs) = length bs"
  by (simp add: fill_def)

lemma nth_fill [simp]: "k < length bs \<Longrightarrow> fill i j bs ! k = (if i \<le> k \<and> k < j then CHR ''*'' else bs ! k)"
  by (simp add: fill_def nth_enumerate_eq)

text \<open>\<open>indexOf\<close> from an offset, and the comparison of a part of the buffer.\<close>

definition starts_with_buffer :: "string \<Rightarrow> nat \<Rightarrow> string \<Rightarrow> bool" where
  "starts_with_buffer bytes i v = (i + length v \<le> length bytes \<and> take (length v) (drop i bytes) = v)"

definition index_of :: "string \<Rightarrow> string \<Rightarrow> nat \<Rightarrow> nat option" where
  "index_of bytes v offset = find (\<lambda>i. starts_with_buffer bytes i v) [offset..<length bytes]"

lemma index_of_Some: "index_of bs v k = Some i \<Longrightarrow> k \<le> i \<and> i < length bs \<and> starts_with_buffer bs i v"
  by (auto simp: index_of_def find_Some_iff)

lemma index_of_progress: "v \<noteq> [] \<Longrightarrow> index_of bs v k = Some i \<Longrightarrow> length bs - (i + length v) < length bs - k"
  by (cases v) (auto dest!: index_of_Some)

lemma find_in: "find p xs = Some x \<Longrightarrow> x \<in> set xs \<and> p x"
  by (induction xs) (auto split: if_splits)

function redact_broad :: "string \<Rightarrow> nat \<Rightarrow> string \<Rightarrow> string" where
  "redact_broad v offset bytes =
     (if v = [] then bytes
      else (case index_of bytes v offset of
              None \<Rightarrow> bytes
            | Some i \<Rightarrow> redact_broad v (i + length v) (fill i (i + length v) bytes)))"
  by pat_completeness auto
termination
  by (relation "measure (\<lambda>(v, k, bs). length bs - k)") (auto dest: index_of_progress)

declare redact_broad.simps [simp del]

function redact_quoted_bytes :: "string list \<Rightarrow> nat \<Rightarrow> string \<Rightarrow> string" where
  "redact_quoted_bytes sensitive i bytes =
     (if i \<ge> length bytes then bytes
      else if \<not> is_quote (bytes ! i) then redact_quoted_bytes sensitive (i + 1) bytes
      else (case find_closing_quote (bytes ! i) False (i + 1) (drop (i + 1) bytes) of
              None \<Rightarrow> redact_quoted_bytes sensitive (i + 1) bytes
            | Some closing \<Rightarrow>
                redact_quoted_bytes sensitive (closing + 1)
                  (if take (closing - i - 1) (drop (i + 1) bytes) \<in> set sensitive then fill (i + 1) closing bytes else bytes)))"
  by pat_completeness auto
termination
  by (relation "measure (\<lambda>(v, i, bs). length bs - i)") (auto dest!: find_closing_quote_bounds)

declare redact_quoted_bytes.simps [simp del]

definition redact_quoted_short_values_in_place :: "string \<Rightarrow> string list \<Rightarrow> string" where
  "redact_quoted_short_values_in_place bytes sensitiveValues =
     (if sensitiveValues = [] then bytes else redact_quoted_bytes (map utf8_text sensitiveValues) 0 bytes)"

text \<open>Where the value of a pair stands, if its name stands at a place: unlike the expression for texts, the blanks are
  all skipped before the value is compared.\<close>

definition skip_blanks :: "string \<Rightarrow> nat \<Rightarrow> nat" where
  "skip_blanks bytes i = i + length (takeWhile is_ascii_whitespace (drop i bytes))"

definition starts_with_buffer_case_insensitive :: "string \<Rightarrow> nat \<Rightarrow> string \<Rightarrow> bool" where
  "starts_with_buffer_case_insensitive bytes i v =
     (i + length v \<le> length bytes
      \<and> map normalize_ascii (take (length v) (drop i bytes)) = map normalize_ascii v)"

definition context_value :: "string \<Rightarrow> nat \<Rightarrow> string \<times> string \<Rightarrow> (nat \<times> nat) option" where
  "context_value bytes i pair =
     (if \<not> starts_with_buffer_case_insensitive bytes i (fst pair) then None
      else
        let separator = skip_blanks bytes (i + length (fst pair)) in
        if separator \<ge> length bytes \<or> (bytes ! separator \<noteq> CHR '':'' \<and> bytes ! separator \<noteq> CHR ''='') then None
        else
          let valueStart = skip_blanks bytes (separator + 1); valueEnd = valueStart + length (snd pair) in
          if starts_with_buffer bytes valueStart (snd pair)
             \<and> (valueEnd = length bytes \<or> \<not> is_identifier_byte (bytes ! valueEnd))
          then Some (valueStart, valueEnd) else None)"

text \<open>The patterns are looked up by the first byte of their name, in their order; the first that matches counts.\<close>

definition first_context :: "string \<Rightarrow> nat \<Rightarrow> (string \<times> string) list \<Rightarrow> (nat \<times> nat) option" where
  "first_context bytes i patterns =
     (case find (\<lambda>p. context_value bytes i p \<noteq> None)
             (filter (\<lambda>p. fst p \<noteq> [] \<and> normalize_ascii (hd (fst p)) = normalize_ascii (bytes ! i)) patterns) of
        None \<Rightarrow> None | Some p \<Rightarrow> context_value bytes i p)"

lemma first_context_bounds: "first_context bs i ps = Some (a, b) \<Longrightarrow> i < b"
proof -
  assume "first_context bs i ps = Some (a, b)"
  then obtain p where "fst p \<noteq> []" and c: "context_value bs i p = Some (a, b)"
    by (auto simp: first_context_def split: option.splits dest!: find_in)
  then have "i < i + length (fst p)" by simp
  also have "i + length (fst p) \<le> skip_blanks bs (i + length (fst p))" by (simp add: skip_blanks_def)
  also have "\<dots> < skip_blanks bs (skip_blanks bs (i + length (fst p)) + 1)"
  proof -
    have "k \<le> skip_blanks bs k" for k by (simp add: skip_blanks_def)
    from this [of "skip_blanks bs (i + length (fst p)) + 1"] show ?thesis by simp
  qed
  also have "\<dots> \<le> b" using c by (auto simp: context_value_def Let_def split: if_splits)
  finally show ?thesis .
qed

function redact_contexts_bytes :: "(string \<times> string) list \<Rightarrow> nat \<Rightarrow> string \<Rightarrow> string" where
  "redact_contexts_bytes patterns i bytes =
     (if i \<ge> length bytes then bytes
      else if i > 0 \<and> is_identifier_byte (bytes ! (i - 1)) then redact_contexts_bytes patterns (i + 1) bytes
      else (case first_context bytes i patterns of
              None \<Rightarrow> redact_contexts_bytes patterns (i + 1) bytes
            | Some (valueStart, valueEnd) \<Rightarrow>
                redact_contexts_bytes patterns valueEnd (fill valueStart valueEnd bytes)))"
  by pat_completeness auto
termination
  by (relation "measure (\<lambda>(p, i, bs). length bs - i)") (auto dest!: first_context_bounds intro: diff_less_mono2)

declare redact_contexts_bytes.simps [simp del]

definition redact_short_contexts_in_place :: "string \<Rightarrow> (string \<times> string) list \<Rightarrow> string" where
  "redact_short_contexts_in_place bytes pairs =
     (if pairs = [] then bytes else redact_contexts_bytes (map (\<lambda>(n, v). (utf8_text n, utf8_text v)) pairs) 0 bytes)"

definition starts_with_ascii :: "string \<Rightarrow> nat \<Rightarrow> string \<Rightarrow> bool" where
  "starts_with_ascii bytes i v =
     (i + length v \<le> length bytes \<and> map normalize_ascii (take (length v) (drop i bytes)) = v)"

definition starts_with_http_scheme :: "string \<Rightarrow> nat \<Rightarrow> bool" where
  "starts_with_http_scheme bytes i = (starts_with_ascii bytes i ''http://'' \<or> starts_with_ascii bytes i ''https://'')"

definition url_delimiters :: "string" where
  "url_delimiters = [CHR 0x09, CHR 0x0D, CHR 0x0A, CHR '' '', CHR 0x22, CHR 0x27, CHR ''<'', CHR ''>'', CHR 0x60]"

definition is_url_delimiter :: "string \<Rightarrow> nat \<Rightarrow> bool" where
  "is_url_delimiter bytes i =
     (bytes ! i \<in> set url_delimiters \<or> (bytes ! i \<in> set '',;)]}|'' \<and> starts_with_http_scheme bytes (i + 1)))"

text \<open>The loops over positions: the first position from \<open>start\<close> to before \<open>stop\<close> with a property, or \<open>stop\<close>.\<close>

definition first_position :: "(nat \<Rightarrow> bool) \<Rightarrow> nat \<Rightarrow> nat \<Rightarrow> nat" where
  "first_position p start stop = (case find p [start..<stop] of None \<Rightarrow> stop | Some i \<Rightarrow> i)"

definition last_position :: "(nat \<Rightarrow> bool) \<Rightarrow> nat \<Rightarrow> nat \<Rightarrow> nat option" where
  "last_position p start stop = find p (rev [start..<stop])"

text \<open>One URL, from its scheme to its end: credentials, query and fragment. The fragment is looked for first, the query
  only before it.\<close>

definition redact_url_at :: "string \<Rightarrow> nat \<Rightarrow> string \<times> nat" where
  "redact_url_at bytes i =
     (let authorityStart = i + (if starts_with_ascii bytes i ''https://'' then 8 else 7);
          urlEnd = max authorityStart (first_position (is_url_delimiter bytes) authorityStart (length bytes));
          authorityEnd = first_position (\<lambda>k. bytes ! k \<in> set ''/?#'') authorityStart urlEnd;
          b1 = (case last_position (\<lambda>k. bytes ! k = CHR ''@'') authorityStart authorityEnd of
                  None \<Rightarrow> bytes | Some a \<Rightarrow> fill authorityStart a bytes);
          fragmentStart = first_position (\<lambda>k. b1 ! k = CHR ''#'') authorityEnd urlEnd;
          queryStart = first_position (\<lambda>k. b1 ! k = CHR ''?'') authorityEnd fragmentStart;
          b2 = (if queryStart < fragmentStart then fill (queryStart + 1) fragmentStart b1 else b1);
          b3 = (if fragmentStart < urlEnd then fill (fragmentStart + 1) urlEnd b2 else b2) in
      (b3, urlEnd))"

lemma redact_url_at_end: "redact_url_at bs i = (bs', e) \<Longrightarrow> i < e \<and> length bs' = length bs"
  by (auto simp: redact_url_at_def Let_def split: option.splits)

function redact_urls_bytes :: "nat \<Rightarrow> string \<Rightarrow> string" where
  "redact_urls_bytes i bytes =
     (if i \<ge> length bytes then bytes
      else if \<not> starts_with_http_scheme bytes i then redact_urls_bytes (i + 1) bytes
      else (case redact_url_at bytes i of (bytes', urlEnd) \<Rightarrow> redact_urls_bytes (urlEnd + 1) bytes'))"
  by pat_completeness auto
termination
  by (relation "measure (\<lambda>(i, bs). length bs - i)") (auto dest!: redact_url_at_end [OF sym])

declare redact_urls_bytes.simps [simp del]

definition redact_browser_audit_bytes_in_place :: "string \<Rightarrow> audit_worker_request \<Rightarrow> string" where
  "redact_browser_audit_bytes_in_place payload r =
     redact_urls_bytes 0
       (redact_short_contexts_in_place
          (redact_quoted_short_values_in_place
             (fold (\<lambda>v bytes. redact_broad (utf8_text v) 0 bytes) (broad_values r) payload)
             (short_values r))
          (get_short_sensitive_pairs r))"

section \<open>What is overwritten\<close>

definition overwritten :: "string \<Rightarrow> string \<Rightarrow> bool" where
  "overwritten bs bs' \<longleftrightarrow> length bs' = length bs \<and> (\<forall>i < length bs. bs' ! i = bs ! i \<or> bs' ! i = CHR ''*'')"

lemma overwritten_refl [simp, intro]: "overwritten bs bs"
  by (simp add: overwritten_def)

lemma overwritten_trans [trans]: "overwritten a b \<Longrightarrow> overwritten b c \<Longrightarrow> overwritten a c"
  by (auto simp: overwritten_def) metis

lemma overwritten_fill [intro]: "overwritten bs (fill i j bs)"
  by (simp add: overwritten_def)

lemma overwritten_after_fill: "overwritten (fill i j bs) bs' \<Longrightarrow> overwritten bs bs'"
  using overwritten_trans overwritten_fill by blast

lemma redact_broad_overwrites: "overwritten bs (redact_broad v k bs)"
proof (induction v k bs rule: redact_broad.induct)
  case (1 v k bs)
  then show ?case
    by (subst redact_broad.simps) (auto intro: overwritten_after_fill split: option.split)
qed

lemma redact_quoted_overwrites: "overwritten bs (redact_quoted_bytes vs i bs)"
proof (induction vs i bs rule: redact_quoted_bytes.induct)
  case (1 vs i bs)
  then show ?case
    by (subst redact_quoted_bytes.simps) (auto intro: overwritten_after_fill split: option.split)
qed

lemma redact_contexts_overwrites: "overwritten bs (redact_contexts_bytes ps i bs)"
proof (induction ps i bs rule: redact_contexts_bytes.induct)
  case (1 ps i bs)
  let ?skip = "i \<ge> length bs \<or> (i > 0 \<and> is_identifier_byte (bs ! (i - 1)))"
  show ?case
  proof (cases "?skip \<or> first_context bs i ps = None")
    case True
    then show ?thesis using 1(1,2) by (subst redact_contexts_bytes.simps) auto
  next
    case False
    then obtain a b where c: "first_context bs i ps = Some (a, b)" by auto
    have "overwritten (fill a b bs) (redact_contexts_bytes ps b (fill a b bs))"
      using 1(3) [of "(a, b)" a b] False c by auto
    then show ?thesis using False c by (subst redact_contexts_bytes.simps) (auto dest: overwritten_after_fill)
  qed
qed

lemma redact_url_at_overwrites: "overwritten bs (fst (redact_url_at bs i))"
  by (auto simp: redact_url_at_def Let_def intro: overwritten_after_fill [OF overwritten_fill] overwritten_trans
      split: option.split)

lemma redact_urls_overwrites: "overwritten bs (redact_urls_bytes i bs)"
proof (induction i bs rule: redact_urls_bytes.induct)
  case (1 i bs)
  show ?case
  proof (cases "i < length bs \<and> starts_with_http_scheme bs i")
    case True
    obtain bs' e where u: "redact_url_at bs i = (bs', e)" by fastforce
    from 1(2) True u have "overwritten bs' (redact_urls_bytes (e + 1) bs')" by auto
    with True u redact_url_at_overwrites [of bs i]
    show ?thesis by (subst redact_urls_bytes.simps) (auto intro: overwritten_trans)
  next
    case False
    then show ?thesis using 1(1) by (subst redact_urls_bytes.simps) auto
  qed
qed

lemma after_broad_overwrites:
  "overwritten bs (redact_urls_bytes 0 (redact_short_contexts_in_place (redact_quoted_short_values_in_place bs vs) ps))"
proof -
  have "overwritten bs (redact_quoted_short_values_in_place bs vs)"
    by (simp add: redact_quoted_short_values_in_place_def redact_quoted_overwrites)
  also have "overwritten \<dots> (redact_short_contexts_in_place \<dots> ps)"
    by (simp add: redact_short_contexts_in_place_def redact_contexts_overwrites)
  also have "overwritten \<dots> (redact_urls_bytes 0 \<dots>)" by (rule redact_urls_overwrites)
  finally show ?thesis .
qed

lemma buffer_nth: "starts_with_buffer bs i v \<Longrightarrow> k < length v \<Longrightarrow> i + k < length bs \<and> bs ! (i + k) = v ! k"
  by (auto simp: starts_with_buffer_def) (metis add_leE nth_drop nth_take)

text \<open>Overwriting makes no new occurrence of a text without stars.\<close>

lemma no_new_occurrence:
  assumes "overwritten bs bs'" and "CHR ''*'' \<notin> set v" and occurs: "starts_with_buffer bs' i v"
  shows "starts_with_buffer bs i v"
proof -
  have len: "i + length v \<le> length bs" "length bs' = length bs" using assms by (auto simp: starts_with_buffer_def overwritten_def)
  have "bs ! (i + k) = v ! k" if k: "k < length v" for k
  proof -
    from buffer_nth [OF occurs k] have "bs' ! (i + k) = v ! k" by simp
    moreover from assms(1) len k have "bs' ! (i + k) = bs ! (i + k) \<or> bs' ! (i + k) = CHR ''*''"
      by (simp add: overwritten_def)
    moreover from k assms(2) have "v ! k \<noteq> CHR ''*''" by (metis nth_mem)
    ultimately show ?thesis by metis
  qed
  then have "take (length v) (drop i bs) = v" using len by (intro nth_equalityI) auto
  with len show ?thesis by (simp add: starts_with_buffer_def)
qed

lemma index_of_first:
  assumes "index_of bs v k = Some i" and "k \<le> j" and "j < i"
  shows "\<not> starts_with_buffer bs j v"
proof -
  from assms(1) obtain m where m: "m < length [k..<length bs]" "[k..<length bs] ! m = i"
    "\<forall>l < m. \<not> starts_with_buffer bs ([k..<length bs] ! l) v"
    by (auto simp: index_of_def find_Some_iff)
  then have "i = k + m" by simp
  with assms(2,3) have "j - k < m" "k + (j - k) = j" by auto
  with m(1,3) show ?thesis by (auto dest: spec [of _ "j - k"])
qed

lemma broad_gone:
  assumes star: "CHR ''*'' \<notin> set v" and "v \<noteq> []"
  shows "\<forall>j < k. \<not> starts_with_buffer bs j v \<Longrightarrow> \<not> starts_with_buffer (redact_broad v k bs) i v"
  using assms
proof (induction v k bs rule: redact_broad.induct)
  case (1 v k bs)
  show ?case
  proof (cases "index_of bs v k")
    case None
    then have "\<not> starts_with_buffer bs j v" if "k \<le> j" for j
      using that 1(4) by (cases "j < length bs") (auto simp: index_of_def find_None_iff starts_with_buffer_def)
    with 1(2) have "\<not> starts_with_buffer bs i v" by (metis not_less)
    with None 1(4) show ?thesis by (subst redact_broad.simps) simp
  next
    case (Some m)
    let ?b = "fill m (m + length v) bs"
    from index_of_Some [OF Some] have m: "k \<le> m" "m < length bs" "starts_with_buffer bs m v" by auto
    have "\<not> starts_with_buffer ?b j v" if j: "j < m + length v" for j
    proof
      assume o: "starts_with_buffer ?b j v"
      with no_new_occurrence [OF overwritten_fill 1(3)] have "starts_with_buffer bs j v" by blast
      with 1(2) index_of_first [OF Some, of j] have "m \<le> j" by (metis not_less)
      from buffer_nth [OF o, of 0] 1(4) have "j < length bs" "?b ! j = v ! 0" by auto
      with \<open>m \<le> j\<close> j 1(3,4) show False by (metis length_greater_0_conv nth_fill nth_mem)
    qed
    with 1(1) [OF 1(4) Some] 1(3,4) Some show ?thesis by (subst redact_broad.simps) simp
  qed
qed

lemma fold_broad:
  "overwritten bs (fold (\<lambda>v b. redact_broad (utf8_text v) 0 b) vs bs)
   \<and> (\<forall>v \<in> set vs. utf8_text v \<noteq> [] \<and> CHR ''*'' \<notin> set (utf8_text v) \<longrightarrow>
        (\<forall>i. \<not> starts_with_buffer (fold (\<lambda>v b. redact_broad (utf8_text v) 0 b) vs bs) i (utf8_text v)))"
proof (induction vs rule: rev_induct)
  case (snoc v vs)
  let ?b = "fold (\<lambda>v b. redact_broad (utf8_text v) 0 b) vs bs"
  have o: "overwritten ?b (redact_broad (utf8_text v) 0 ?b)" by (rule redact_broad_overwrites)
  have "\<not> starts_with_buffer (redact_broad (utf8_text v) 0 ?b) i (utf8_text v)"
    if "utf8_text v \<noteq> []" "CHR ''*'' \<notin> set (utf8_text v)" for i
    using that by (intro broad_gone) auto
  moreover have "\<not> starts_with_buffer (redact_broad (utf8_text v) 0 ?b) i (utf8_text w)"
    if "w \<in> set vs" "utf8_text w \<noteq> []" "CHR ''*'' \<notin> set (utf8_text w)" for i w
    using snoc that no_new_occurrence [OF o that(3)] by blast
  ultimately show ?case using snoc overwritten_trans [OF _ o] by auto
qed simp

lemma utf8_text_ne: "v \<noteq> [] \<Longrightarrow> utf8_text v \<noteq> []"
  by (cases v) (auto simp: utf8_text_def utf8_encode_def utf8_char_def Let_def)

definition secrets_of :: "audit_worker_request \<Rightarrow> string set" where
  "secrets_of r = hdr_value ` set (wr_customHeaders r) \<union> ck_value ` set (wr_cookies r) \<union> {bearer_token r}"

lemma broad_values_set: "set (broad_values r) = {v \<in> secrets_of r. broad_redaction_minimum_length \<le> length v}"
proof -
  have js: "set (js_sort cmp xs) = set xs" for cmp :: "string \<Rightarrow> string \<Rightarrow> int" and xs
    by (metis mset_js_sort set_mset_mset)
  show ?thesis
    by (auto simp: broad_values_def js get_sensitive_values_def secrets_of_def broad_redaction_minimum_length_def)
qed

section \<open>Properties\<close>

text \<open>Property C25. The artifact of an audit is redacted in place: its bytes keep their number and are kept or become
  stars, and of the values of headers and cookies and of the upload token none that has eight characters or more is left
  anywhere in it, unless it has a star itself.\<close>

theorem artifacts_are_redacted_in_place:
  "length (redact_browser_audit_bytes_in_place payload r) = length payload
     \<and> (\<forall>i < length payload. redact_browser_audit_bytes_in_place payload r ! i \<in> {payload ! i, CHR ''*''})
     \<and> (\<forall>v \<in> secrets_of r. 8 \<le> length v \<and> CHR ''*'' \<notin> set (utf8_text v) \<longrightarrow>
          (\<forall>i. \<not> starts_with_buffer (redact_browser_audit_bytes_in_place payload r) i (utf8_text v)))"
proof -
  let ?b = "fold (\<lambda>v b. redact_broad (utf8_text v) 0 b) (broad_values r) payload"
  have o: "overwritten ?b (redact_browser_audit_bytes_in_place payload r)"
    unfolding redact_browser_audit_bytes_in_place_def by (rule after_broad_overwrites)
  note b = fold_broad [of payload "broad_values r"]
  from b have "overwritten payload (redact_browser_audit_bytes_in_place payload r)" using o overwritten_trans by blast
  then have "length (redact_browser_audit_bytes_in_place payload r) = length payload
     \<and> (\<forall>i < length payload. redact_browser_audit_bytes_in_place payload r ! i \<in> {payload ! i, CHR ''*''})"
    by (auto simp: overwritten_def)
  moreover have "\<not> starts_with_buffer (redact_browser_audit_bytes_in_place payload r) i (utf8_text v)"
    if "v \<in> secrets_of r" "8 \<le> length v" "CHR ''*'' \<notin> set (utf8_text v)" for v i
  proof -
    from that have "v \<in> set (broad_values r)" by (simp add: broad_values_set broad_redaction_minimum_length_def)
    moreover from that(2) have "utf8_text v \<noteq> []" by (intro utf8_text_ne) auto
    ultimately have "\<not> starts_with_buffer ?b i (utf8_text v)" using b that(3) by blast
    then show ?thesis using no_new_occurrence [OF o that(3)] by blast
  qed
  ultimately show ?thesis by blast
qed

text \<open>The two versions of the search for short values are not aligned: after a name the version for bytes skips all
  blanks, so it never finds a value that starts with one; the version for texts does.\<close>

lemma short_value_with_a_blank:
  "redact_short_contexts ''k: a'' [(''k'', '' a'')] = ''k:[REDACTED]''"
  "redact_short_contexts_in_place ''k: a'' [(''k'', '' a'')] = ''k: a''"
  by code_simp+

definition demo_secret_request :: audit_worker_request where
  "demo_secret_request =
     (unsigned_audit_request demo_audit demo_upload 0)\<lparr>wr_customHeaders := [\<lparr> hdr_name = ''x'', hdr_value = ''private-token'' \<rparr>]\<rparr>"

theorem artifacts_are_redacted_in_place_witness:
  "\<not> starts_with_buffer (redact_browser_audit_bytes_in_place ''{private-token}'' demo_secret_request) 1 (utf8_text ''private-token'')"
proof -
  have "''private-token'' \<in> secrets_of demo_secret_request" by (simp add: secrets_of_def demo_secret_request_def)
  moreover have "CHR ''*'' \<notin> set (utf8_text ''private-token'')" by code_simp
  ultimately show ?thesis using artifacts_are_redacted_in_place [of "''{private-token}''" demo_secret_request] by auto
qed

end
