(* ===== verification/Browser_Worker.thy ===== *)
theory Browser_Worker
  imports Browser_Redaction
begin

text \<open>
  The process of the browser audit worker (\<open>apps/browser-audit-lighthouse/src/index.ts\<close>, \<open>config.ts\<close>,
  \<open>capabilities.ts\<close>): its settings, the search for Chrome, the check at its start, and the server, which runs one audit
  at a time. What Bun, Chrome, Lighthouse and the audit itself answer are arguments.
\<close>

section \<open>The search for Chrome\<close>

text \<open>What a path is: \<open>Other\<close> stands for links inside a directory, sockets and the like; the entries of a directory
  are in the order of \<open>readdirSync\<close>, which throws for an \<open>Unreadable\<close> directory and for what is no directory.\<close>

datatype chrome_node = RegularFile | Other | Unreadable | Folder "(string \<times> chrome_node) list"

definition default_chrome_roots :: "string list" where
  "default_chrome_roots =
     [''/opt/chrome'', ''/usr/bin'', ''/usr/lib/chromium'', ''/Applications/Google Chrome.app/Contents/MacOS'']"

definition chrome_names :: "string list" where
  "chrome_names = [''chrome'', ''chromium'', ''Google Chrome'']"

text \<open>\<open>path.join\<close> of a directory and a name, up to the normal form of the directory.\<close>

definition join_path :: "string \<Rightarrow> string \<Rightarrow> string" where
  "join_path a b = a @ ''/'' @ b"

fun walk_for_chrome :: "string \<Rightarrow> chrome_node \<Rightarrow> int \<Rightarrow> string option throws"
and walk_entries :: "string \<Rightarrow> (string \<times> chrome_node) list \<Rightarrow> int \<Rightarrow> string option throws" where
  "walk_for_chrome p n depth =
     (if depth < 0 then return None
      else (case n of
              RegularFile \<Rightarrow> return (if ends_with ''/chrome'' p \<or> ends_with ''/Google Chrome'' p then Some p else None)
            | Folder entries \<Rightarrow> walk_entries p entries depth
            | _ \<Rightarrow> throw ''readdir''))"
| "walk_entries p [] depth = return None"
| "walk_entries p ((name, n) # rest) depth =
     (case n of
        RegularFile \<Rightarrow> if name \<in> set chrome_names then return (Some (join_path p name)) else walk_entries p rest depth
      | Other \<Rightarrow> walk_entries p rest depth
      | _ \<Rightarrow>
          (case walk_for_chrome (join_path p name) n (depth - 1) of
             Inl e \<Rightarrow> Inl e
           | Inr (Some found) \<Rightarrow> return (Some found)
           | Inr None \<Rightarrow> walk_entries p rest depth))"

fun search_roots :: "(string \<Rightarrow> chrome_node option) \<Rightarrow> string list \<Rightarrow> string option throws" where
  "search_roots look [] = return None"
| "search_roots look (r # rest) =
     (case look r of
        None \<Rightarrow> search_roots look rest
      | Some n \<Rightarrow>
          (case walk_for_chrome r n 3 of
             Inl e \<Rightarrow> Inl e
           | Inr (Some p) \<Rightarrow> return (Some p)
           | Inr None \<Rightarrow> search_roots look rest))"

definition find_chrome_executable :: "(string \<Rightarrow> chrome_node option) \<Rightarrow> string option \<Rightarrow> string option throws" where
  "find_chrome_executable look preferredRoot =
     search_roots look
       ((case preferredRoot of None \<Rightarrow> [] | Some r \<Rightarrow> if r = [] then [] else [r]) @ default_chrome_roots)"

section \<open>Settings\<close>

type_synonym environment = "string \<rightharpoonup> string"

text \<open>\<open>value?.trim() || other\<close>, and the secrets.\<close>

definition trimmed_or :: "environment \<Rightarrow> string \<Rightarrow> string \<Rightarrow> string" where
  "trimmed_or env name other =
     (case env name of None \<Rightarrow> other | Some v \<Rightarrow> if js_trim v = [] then other else js_trim v)"

definition normalize_secret :: "string option \<Rightarrow> string option" where
  "normalize_secret v = (case v of None \<Rightarrow> None | Some s \<Rightarrow> if js_trim s = [] then None else Some (js_trim s))"

definition require_secret :: "environment \<Rightarrow> string \<Rightarrow> string throws" where
  "require_secret env name =
     (case normalize_secret (env name) of
        None \<Rightarrow> throw (name @ '' is required and must contain at least 16 characters'')
      | Some v \<Rightarrow> if length v < 16 then throw (name @ '' is required and must contain at least 16 characters'') else return v)"

definition optional_secret :: "environment \<Rightarrow> string \<Rightarrow> string option throws" where
  "optional_secret env name =
     (case normalize_secret (env name) of
        None \<Rightarrow> return None
      | Some v \<Rightarrow> if length v < 16 then throw (name @ '' must contain at least 16 characters when configured'') else return (Some v))"

definition read_runtime_version :: "environment \<Rightarrow> string throws" where
  "read_runtime_version env =
     (let v = trimmed_or env ''WEBPERF_RUNTIME_VERSION'' ''development'' in
      if length v > 200 then throw ''WEBPERF_RUNTIME_VERSION must contain at most 200 characters'' else return v)"

record 'n worker_config =
  wc_host :: string
  wc_port :: 'n
  wc_sharedSecret :: string
  wc_sharedSecretNext :: "string option"
  wc_allowNoSandbox :: bool
  wc_runtimeVersion :: string
  wc_chromeInstallDir :: string
  wc_chromeExecutablePath :: "string option"
  wc_hostAllowlist :: "string list"

text \<open>\<open>to_number\<close> is \<open>Number\<close>.\<close>

definition get_config :: "(string \<Rightarrow> 'n) \<Rightarrow> (string \<Rightarrow> chrome_node option) \<Rightarrow> environment \<Rightarrow> 'n worker_config throws" where
  "get_config to_number look env =
     bind_throws
       (let configured = trimmed_or env ''CHROME_EXECUTABLE_PATH'' [] in
        if configured \<noteq> [] then return (Some configured)
        else find_chrome_executable look (map_option js_trim (env ''CHROME_INSTALL_DIR'')))
       (\<lambda>chrome.
     bind_throws (require_secret env ''BROWSER_AUDIT_SHARED_SECRET'') (\<lambda>secret.
     bind_throws (optional_secret env ''BROWSER_AUDIT_SHARED_SECRET_NEXT'') (\<lambda>nextSecret.
     bind_throws (read_runtime_version env) (\<lambda>version.
     return \<lparr> wc_host = trimmed_or env ''HOST'' ''0.0.0.0'',
              wc_port = to_number (case env ''PORT'' of None \<Rightarrow> ''8080'' | Some p \<Rightarrow> p),
              wc_sharedSecret = secret, wc_sharedSecretNext = nextSecret,
              wc_allowNoSandbox = (env ''BROWSER_AUDIT_ALLOW_NO_SANDBOX'' = Some ''true''),
              wc_runtimeVersion = version,
              wc_chromeInstallDir = trimmed_or env ''CHROME_INSTALL_DIR'' ''/opt/chrome'',
              wc_chromeExecutablePath = chrome,
              wc_hostAllowlist = filter (\<lambda>e. e \<noteq> [])
                (map js_trim (split_char CHR '','' (case env ''BROWSER_AUDIT_HOST_ALLOWLIST'' of None \<Rightarrow> [] | Some v \<Rightarrow> v))) \<rparr>))))"

section \<open>The check at the start\<close>

text \<open>What the packages, Chrome and a first launch answer; a thrown value is \<open>None\<close> when it is no \<open>Error\<close>.\<close>

datatype 'a attempt = Gave 'a | Raised "string option"

record worker_host =
  wh_lighthouseVersion :: string
  wh_puppeteerVersion :: string
  wh_bunVersion :: string
  wh_userFlow :: "bool attempt"
  wh_chromeOutput :: "string \<Rightarrow> string \<times> string"
  wh_launch :: "unit attempt"

record startup_check =
  st_ok :: bool
  st_checkedAt :: iso
  st_errors :: "string list"
  st_toolchain :: toolchain

definition read_chrome_version :: "worker_host \<Rightarrow> string \<Rightarrow> string option" where
  "read_chrome_version H p =
     (let combined = js_trim (fst (wh_chromeOutput H p) @ [CHR 0x0A] @ snd (wh_chromeOutput H p)) in
      if combined = [] then None else Some combined)"

definition build_startup_check :: "worker_host \<Rightarrow> iso \<Rightarrow> 'n worker_config \<Rightarrow> startup_check" where
  "build_startup_check H now c =
     (let chromeVersion = (case wc_chromeExecutablePath c of None \<Rightarrow> None | Some p \<Rightarrow> read_chrome_version H p);
          missing = (case wc_chromeExecutablePath c of
                       None \<Rightarrow> [''Chrome executable not found under '' @ wc_chromeInstallDir c] | Some _ \<Rightarrow> []);
          flow = (case wh_userFlow H of
                    Gave found \<Rightarrow> if found then [] else [''Lighthouse user-flow entrypoint is missing UserFlow'']
                  | Raised (Some m) \<Rightarrow> [''Failed to import lighthouse user-flow API: '' @ m]
                  | Raised None \<Rightarrow> [''Failed to import lighthouse user-flow API'']) in
      \<lparr> st_ok = (missing @ flow = []), st_checkedAt = now, st_errors = missing @ flow,
        st_toolchain = \<lparr> tc_engine = (''lighthouse'', wh_lighthouseVersion H),
          tc_browser = (''Chrome'', case chromeVersion of None \<Rightarrow> ''unavailable'' | Some v \<Rightarrow> v),
          tc_runtime = (''Bun'', wh_bunVersion H),
          tc_components = [(''puppeteer-core'', wh_puppeteerVersion H),
                           (''webperf-browser-audit-lighthouse'', wc_runtimeVersion c)] \<rparr> \<rparr>)"

definition run_startup_check :: "worker_host \<Rightarrow> iso \<Rightarrow> 'n worker_config \<Rightarrow> startup_check" where
  "run_startup_check H now c =
     (let result = build_startup_check H now c;
          launch = (if wc_chromeExecutablePath c = None then []
                    else (case wh_launch H of
                            Gave _ \<Rightarrow> []
                          | Raised (Some m) \<Rightarrow> [''Chrome launch smoke failed: '' @ m]
                          | Raised None \<Rightarrow> [''Chrome launch smoke failed''])) in
      result\<lparr>st_errors := st_errors result @ launch, st_ok := (st_errors result @ launch = [])\<rparr>)"

record capabilities =
  cap_toolchain :: toolchain
  cap_checkpointModes :: "checkpoint_mode list"
  cap_artifactKinds :: "string list"
  cap_unsupportedFeatures :: "string list"
  cap_maxSteps :: int
  cap_maxCheckpoints :: int
  cap_maxPages :: int
  cap_maxContexts :: int
  cap_maxArtifactBytes :: int
  cap_defaultTotalTimeoutMs :: int
  cap_defaultStepTimeoutMs :: int

text \<open>The schema checks only the toolchain, everything else is constant.\<close>

definition build_capabilities :: "toolchain \<Rightarrow> capabilities throws" where
  "build_capabilities t =
     (if \<not> toolchain_ok t then throw ''ZodError''
      else return \<lparr> cap_toolchain = t, cap_checkpointModes = [NavigationMode, SnapshotMode, TimespanMode],
        cap_artifactKinds = [''lighthouse-json'', ''lighthouse-html'', ''screenshot'', ''trace''],
        cap_unsupportedFeatures = [''arbitrary_js_eval'', ''file_upload'', ''multi_tab'', ''extension_loading'',
          ''tenant_supplied_launch_flags''],
        cap_maxSteps = 20, cap_maxCheckpoints = 3, cap_maxPages = 1, cap_maxContexts = 1,
        cap_maxArtifactBytes = 25000000, cap_defaultTotalTimeoutMs = 120000, cap_defaultStepTimeoutMs = 10000 \<rparr>)"

section \<open>The server\<close>

text \<open>What a request brings, once its body is read; what an audit ended with; and the answers.\<close>

datatype worker_body = BodyNotJson | BodyBadShape | BodyDecoded audit_worker_request

record worker_request =
  wq_method :: string
  wq_pathname :: string
  wq_body :: worker_body

type_synonym audit_outcome = "audit_result attempt"

datatype worker_payload =
    WorkerHealth bool iso "string list" "string option"
  | WorkerCapabilities capabilities bool iso
  | WorkerError string
  | WorkerIssues string "string list"
  | WorkerInvalid
  | WorkerBusy string
  | WorkerResponse audit_worker_response
  | WorkerThrew

type_synonym worker_answer = "int \<times> worker_payload"

record worker =
  wk_startup :: startup_check
  wk_capabilities :: capabilities
  wk_sharedSecret :: string
  wk_sharedSecretNext :: "string option"
  wk_isUrl :: "string \<Rightarrow> bool"
  wk_urls :: url_text
  wk_hmac :: "string \<Rightarrow> string \<Rightarrow> nat list"
  wk_auditJson :: audit_json
  wk_localeCompare :: "string \<Rightarrow> string \<Rightarrow> int"
  wk_zodMessage :: string

definition worker_accepts :: "worker \<Rightarrow> audit_worker_request \<Rightarrow> bool" where
  "worker_accepts W r =
     (let verify = (\<lambda>secret. verify_browser_audit_signature (wk_hmac W) (wk_auditJson W) (wk_localeCompare W) secret r);
          currentSecretOkay = verify (Some (wk_sharedSecret W));
          nextSecretOkay = (\<not> currentSecretOkay \<and> verify (wk_sharedSecretNext W)) in
      currentSecretOkay \<or> nextSecretOkay)"

definition audit_worker_response_ok :: "(string \<Rightarrow> bool) \<Rightarrow> audit_worker_response \<Rightarrow> bool" where
  "audit_worker_response_ok is_url r =
     (wres_executionId r \<noteq> [] \<and> opt_ok (audit_result_ok is_url) (wres_result r) \<and> wres_error r \<noteq> Some [])"

text \<open>Requests are numbered. \<open>ws_verifying\<close> are those whose signature is being checked, \<open>ws_running\<close> the audit under
  way, \<open>ws_begun\<close> all audits so far.\<close>

record worker_state =
  ws_activeExecutionId :: "string option"
  ws_verifying :: "(nat \<times> audit_worker_request) list"
  ws_running :: "(nat \<times> audit_worker_request) list"
  ws_begun :: "audit_worker_request list"
  ws_answers :: "(nat \<times> worker_answer) list"

definition idle_worker :: worker_state where
  "idle_worker = \<lparr> ws_activeExecutionId = None, ws_verifying = [], ws_running = [], ws_begun = [], ws_answers = [] \<rparr>"

definition answer_with :: "nat \<Rightarrow> worker_answer \<Rightarrow> worker_state \<Rightarrow> worker_state" where
  "answer_with n a s = s\<lparr>ws_answers := ws_answers s @ [(n, a)]\<rparr>"

text \<open>The turn that has the body, up to the first signature check.\<close>

definition receive_request :: "worker \<Rightarrow> nat \<Rightarrow> worker_request \<Rightarrow> worker_state \<Rightarrow> worker_state" where
  "receive_request W n q s =
     (let check = wk_startup W in
      if wq_method q = ''GET'' \<and> wq_pathname q = ''/healthz''
      then answer_with n (if st_ok check then 200 else 503,
             WorkerHealth (st_ok check) (st_checkedAt check) (st_errors check) (ws_activeExecutionId s)) s
      else if wq_method q = ''GET'' \<and> wq_pathname q = ''/capabilities''
      then answer_with n (200, WorkerCapabilities (wk_capabilities W) (st_ok check) (st_checkedAt check)) s
      else if wq_method q = ''POST'' \<and> wq_pathname q = ''/audit''
      then (case wq_body q of
              BodyNotJson \<Rightarrow> answer_with n (400, WorkerError ''Invalid JSON body'') s
            | BodyBadShape \<Rightarrow> answer_with n (400, WorkerInvalid) s
            | BodyDecoded r \<Rightarrow>
                if \<not> audit_worker_request_schema (wk_isUrl W) r then answer_with n (400, WorkerInvalid) s
                else if \<not> st_ok check
                then answer_with n (503, WorkerIssues ''Browser audit worker is not healthy'' (st_errors check)) s
                else s\<lparr>ws_verifying := ws_verifying s @ [(n, r)]\<rparr>)
      else answer_with n (404, WorkerError ''Not found'') s)"

text \<open>The turn after the checks: nothing is awaited between the look at the active execution and its setting.\<close>

definition admit_audit :: "worker \<Rightarrow> nat \<Rightarrow> audit_worker_request \<Rightarrow> worker_state \<Rightarrow> worker_state" where
  "admit_audit W n r s0 =
     (let s = s0\<lparr>ws_verifying := remove1 (n, r) (ws_verifying s0)\<rparr> in
      if \<not> worker_accepts W r then answer_with n (403, WorkerError ''Forbidden'') s
      else (case ws_activeExecutionId s of
              Some active \<Rightarrow>
                if active \<noteq> [] then answer_with n (409, WorkerBusy active) s
                else s\<lparr>ws_activeExecutionId := Some (wr_executionId r), ws_running := ws_running s @ [(n, r)],
                       ws_begun := ws_begun s @ [r]\<rparr>
            | None \<Rightarrow>
                s\<lparr>ws_activeExecutionId := Some (wr_executionId r), ws_running := ws_running s @ [(n, r)],
                  ws_begun := ws_begun s @ [r]\<rparr>))"

text \<open>The answer of an audit: a result the schema refuses is an error too; an error text that is empty makes the second
  \<open>parse\<close> throw out of the handler, after the execution was reset.\<close>

definition failed_response :: "worker \<Rightarrow> audit_worker_request \<Rightarrow> string option \<Rightarrow> worker_answer" where
  "failed_response W r message =
     (let p = \<lparr> wres_executionId = wr_executionId r, wres_succeeded = False, wres_result = None,
                wres_error = Some (redact_browser_audit_text (wk_urls W)
                  (case message of Some m \<Rightarrow> m | None \<Rightarrow> ''Browser audit failed'') r) \<rparr> in
      if audit_worker_response_ok (wk_isUrl W) p then (500, WorkerResponse p) else (500, WorkerThrew))"

definition audit_answer :: "worker \<Rightarrow> audit_worker_request \<Rightarrow> audit_outcome \<Rightarrow> worker_answer" where
  "audit_answer W r outcome =
     (case outcome of
        Gave result \<Rightarrow>
          let p = \<lparr> wres_executionId = wr_executionId r, wres_succeeded = True, wres_result = Some result, wres_error = None \<rparr> in
          if audit_worker_response_ok (wk_isUrl W) p then (200, WorkerResponse p)
          else failed_response W r (Some (wk_zodMessage W))
      | Raised message \<Rightarrow> failed_response W r message)"

definition end_audit :: "worker \<Rightarrow> nat \<Rightarrow> audit_worker_request \<Rightarrow> audit_outcome \<Rightarrow> worker_state \<Rightarrow> worker_state" where
  "end_audit W n r outcome s =
     answer_with n (audit_answer W r outcome)
       (s\<lparr>ws_activeExecutionId := None, ws_running := remove1 (n, r) (ws_running s)\<rparr>)"

inductive worker_step :: "worker \<Rightarrow> worker_state \<Rightarrow> worker_state \<Rightarrow> bool" for W where
  arrives: "n \<notin> fst ` set (ws_answers s) \<Longrightarrow> n \<notin> fst ` set (ws_verifying s) \<Longrightarrow> n \<notin> fst ` set (ws_running s)
    \<Longrightarrow> worker_step W s (receive_request W n q s)"
| verified: "(n, r) \<in> set (ws_verifying s) \<Longrightarrow> worker_step W s (admit_audit W n r s)"
| ends: "(n, r) \<in> set (ws_running s) \<Longrightarrow> worker_step W s (end_audit W n r outcome s)"

inductive worker_reachable :: "worker \<Rightarrow> worker_state \<Rightarrow> bool" for W where
  idle: "worker_reachable W idle_worker"
| steps: "worker_reachable W s \<Longrightarrow> worker_step W s s' \<Longrightarrow> worker_reachable W s'"

section \<open>One audit at a time\<close>

definition worker_ok :: "worker \<Rightarrow> worker_state \<Rightarrow> bool" where
  "worker_ok W s =
     (ws_activeExecutionId s = (case ws_running s of [] \<Rightarrow> None | (n, r) # _ \<Rightarrow> Some (wr_executionId r))
      \<and> length (ws_running s) \<le> 1
      \<and> distinct (map fst (ws_answers s) @ map fst (ws_verifying s) @ map fst (ws_running s))
      \<and> (\<forall>(n, r) \<in> set (ws_verifying s). audit_worker_request_schema (wk_isUrl W) r \<and> st_ok (wk_startup W))
      \<and> (\<forall>r \<in> set (ws_begun s). audit_worker_request_schema (wk_isUrl W) r \<and> st_ok (wk_startup W) \<and> worker_accepts W r)
      \<and> snd ` set (ws_running s) \<subseteq> set (ws_begun s)
      \<and> (\<forall>(n, status, p) \<in> set (ws_answers s). \<forall>a. p = WorkerResponse a \<longrightarrow>
           audit_worker_response_ok (wk_isUrl W) a \<and> (wres_succeeded a \<longleftrightarrow> status = 200) \<and> (wres_succeeded a \<longleftrightarrow> wres_result a \<noteq> None)
           \<and> (\<exists>r \<in> set (ws_begun s). wr_executionId r = wres_executionId a)))"

lemma answer_with_simps [simp]:
  "ws_activeExecutionId (answer_with n a s) = ws_activeExecutionId s" "ws_verifying (answer_with n a s) = ws_verifying s"
  "ws_running (answer_with n a s) = ws_running s" "ws_begun (answer_with n a s) = ws_begun s"
  "ws_answers (answer_with n a s) = ws_answers s @ [(n, a)]"
  by (simp_all add: answer_with_def)

text \<open>Answers that carry no response of an audit.\<close>

lemma worker_ok_answer:
  assumes "worker_ok W s" "n \<notin> fst ` set (ws_answers s)" "n \<notin> fst ` set (ws_verifying s)" "n \<notin> fst ` set (ws_running s)"
    "\<And>a. p \<noteq> WorkerResponse a"
  shows "worker_ok W (answer_with n (c, p) s)"
  using assms unfolding worker_ok_def by auto

lemma worker_ok_receive:
  assumes "worker_ok W s" "n \<notin> fst ` set (ws_answers s)" "n \<notin> fst ` set (ws_verifying s)" "n \<notin> fst ` set (ws_running s)"
  shows "worker_ok W (receive_request W n q s)"
proof -
  note a = worker_ok_answer [OF assms]
  have "worker_ok W (s\<lparr>ws_verifying := ws_verifying s @ [(n, r)]\<rparr>)"
    if "audit_worker_request_schema (wk_isUrl W) r" "st_ok (wk_startup W)" for r
    using assms that unfolding worker_ok_def by auto
  then show ?thesis using a by (auto simp: receive_request_def Let_def split: worker_body.split)
qed

lemma remove_member:
  assumes "(n, r) \<in> set xs" "distinct (map fst xs)"
  shows "distinct (map fst (remove1 (n, r) xs))" "set (remove1 (n, r) xs) = set xs - {(n, r)}"
    "fst ` (set xs - {(n, r)}) = fst ` set xs - {n}"
proof -
  have d: "distinct xs" using assms(2) by (simp add: distinct_map)
  then show "set (remove1 (n, r) xs) = set xs - {(n, r)}" by simp
  show "distinct (map fst (remove1 (n, r) xs))" using assms(2) by (simp add: distinct_map d inj_on_subset [of fst "set xs"])
  show "fst ` (set xs - {(n, r)}) = fst ` set xs - {n}"
    using assms by (fastforce simp: distinct_map inj_on_def image_iff)
qed

lemma distinct_shrinks:
  "distinct (xs @ ys @ zs) \<Longrightarrow> set ys' \<subseteq> set ys \<Longrightarrow> distinct ys' \<Longrightarrow> distinct (xs @ ys' @ zs)"
  by auto

lemma worker_ok_verified:
  assumes ok: "worker_ok W s" and m: "(n, r) \<in> set (ws_verifying s)"
  defines "t \<equiv> s\<lparr>ws_verifying := remove1 (n, r) (ws_verifying s)\<rparr>"
  shows "worker_ok W t" "n \<notin> fst ` set (ws_answers t)" "n \<notin> fst ` set (ws_verifying t)" "n \<notin> fst ` set (ws_running t)"
    "audit_worker_request_schema (wk_isUrl W) r" "st_ok (wk_startup W)"
proof -
  have d: "distinct (map fst (ws_verifying s))" using ok by (simp add: worker_ok_def)
  note rm = remove_member [OF m d]
  have n: "n \<in> fst ` set (ws_verifying s)" using m by force
  from ok have dd: "distinct (map fst (ws_answers s) @ map fst (ws_verifying s) @ map fst (ws_running s))" by (simp add: worker_ok_def)
  then show "n \<notin> fst ` set (ws_answers t)" "n \<notin> fst ` set (ws_running t)" using n by (auto simp: t_def)
  have "fst ` set (ws_verifying t) = fst ` set (ws_verifying s) - {n}" unfolding t_def by (simp add: rm(2) rm(3))
  then show "n \<notin> fst ` set (ws_verifying t)" by simp
  have "\<forall>(n, r) \<in> set (ws_verifying s). audit_worker_request_schema (wk_isUrl W) r \<and> st_ok (wk_startup W)"
    using ok by (simp add: worker_ok_def)
  from bspec [OF this m] show "audit_worker_request_schema (wk_isUrl W) r" "st_ok (wk_startup W)" by simp_all
  have sub: "set (ws_verifying t) \<subseteq> set (ws_verifying s)" using rm(2) by (auto simp: t_def)
  have eqs: "ws_answers t = ws_answers s" "ws_running t = ws_running s" "ws_verifying t = remove1 (n, r) (ws_verifying s)"
    by (simp_all add: t_def)
  have "set (map fst (remove1 (n, r) (ws_verifying s))) \<subseteq> set (map fst (ws_verifying s))"
    using sub unfolding eqs by auto
  from distinct_shrinks [OF dd this rm(1)]
  have "distinct (map fst (ws_answers t) @ map fst (ws_verifying t) @ map fst (ws_running t))" unfolding eqs .
  moreover note sub
  ultimately show "worker_ok W t" using ok unfolding worker_ok_def t_def by auto
qed

lemma worker_ok_admit:
  assumes ok: "worker_ok W s" and m: "(n, r) \<in> set (ws_verifying s)"
  shows "worker_ok W (admit_audit W n r s)"
proof -
  let ?t = "s\<lparr>ws_verifying := remove1 (n, r) (ws_verifying s)\<rparr>"
  note v = worker_ok_verified [OF assms]
  have start: "worker_ok W (?t\<lparr>ws_activeExecutionId := Some (wr_executionId r), ws_running := ws_running ?t @ [(n, r)],
      ws_begun := ws_begun ?t @ [r]\<rparr>)" if "ws_running ?t = []" "worker_accepts W r"
    using v that unfolding worker_ok_def by auto
  have idle: "ws_running ?t = []" if "ws_activeExecutionId ?t = None \<or> ws_activeExecutionId ?t = Some []"
  proof (rule ccontr)
    assume "ws_running ?t \<noteq> []"
    then obtain k q rest where q: "ws_running ?t = (k, q) # rest" by (cases "ws_running ?t") auto
    with ok have "q \<in> set (ws_begun s)" "ws_activeExecutionId s = Some (wr_executionId q)" by (auto simp: worker_ok_def)
    with ok have "wr_executionId q \<noteq> []" by (auto simp: worker_ok_def audit_worker_request_schema_def)
    with that \<open>ws_activeExecutionId s = Some (wr_executionId q)\<close> show False by simp
  qed
  note a = worker_ok_answer [OF v(1-4)]
  show ?thesis
  proof (cases "worker_accepts W r")
    case False
    then show ?thesis using a by (simp add: admit_audit_def)
  next
    case True
    note acc = True
    show ?thesis
    proof (cases "ws_activeExecutionId ?t = None \<or> ws_activeExecutionId ?t = Some []")
      case True
      with start [OF idle acc] acc show ?thesis by (auto simp: admit_audit_def)
    next
      case False
      then obtain active where "ws_activeExecutionId ?t = Some active" "active \<noteq> []" by auto
      with a acc show ?thesis by (simp add: admit_audit_def)
    qed
  qed
qed

lemma audit_answer_ok:
  "audit_answer W r outcome = (status, WorkerResponse a) \<Longrightarrow>
     audit_worker_response_ok (wk_isUrl W) a \<and> (wres_succeeded a \<longleftrightarrow> status = 200) \<and> (wres_succeeded a \<longleftrightarrow> wres_result a \<noteq> None)
     \<and> wres_executionId a = wr_executionId r"
  by (auto simp: audit_answer_def failed_response_def Let_def split: attempt.splits if_splits)

lemma worker_ok_end:
  assumes ok: "worker_ok W s" and m: "(n, r) \<in> set (ws_running s)"
  shows "worker_ok W (end_audit W n r outcome s)"
proof -
  from ok m have run: "ws_running s = [(n, r)]" by (cases "ws_running s") (auto simp: worker_ok_def)
  let ?t = "s\<lparr>ws_activeExecutionId := None, ws_running := remove1 (n, r) (ws_running s)\<rparr>"
  have t: "worker_ok W ?t" "n \<notin> fst ` set (ws_answers ?t)" "n \<notin> fst ` set (ws_verifying ?t)" "n \<notin> fst ` set (ws_running ?t)"
    "r \<in> set (ws_begun ?t)"
    using ok run unfolding worker_ok_def by auto
  obtain status p where a: "audit_answer W r outcome = (status, p)" by fastforce
  have "worker_ok W (answer_with n (status, p) ?t)"
    using t audit_answer_ok [of W r outcome status] a unfolding worker_ok_def by auto
  then show ?thesis by (simp add: end_audit_def a)
qed

lemma worker_reachable_ok: "worker_reachable W s \<Longrightarrow> worker_ok W s"
proof (induction rule: worker_reachable.induct)
  case idle
  then show ?case by (simp add: worker_ok_def idle_worker_def)
next
  case (steps s s')
  from steps(2,1,3) show ?case by cases (auto intro: worker_ok_receive worker_ok_admit worker_ok_end)
qed

text \<open>
  Property C26. The worker runs at most one audit at a time, and the active execution is the one that runs. It begins an
  audit only for a request that meets the schema and carries a signature of the current or the next secret, and only
  when the check at its start passed. It answers every request at most once; what it answers after an audit meets the
  schema of responses and names an execution it began. A request signed with either secret that finds no audit running
  begins at once.
\<close>

theorem worker_runs_one_signed_audit:
  assumes "worker_reachable W s"
  shows "length (ws_running s) \<le> 1
    \<and> ws_activeExecutionId s = (case ws_running s of [] \<Rightarrow> None | (n, r) # _ \<Rightarrow> Some (wr_executionId r))
    \<and> (\<forall>r \<in> set (ws_begun s). audit_worker_request_schema (wk_isUrl W) r \<and> st_ok (wk_startup W) \<and> worker_accepts W r)
    \<and> distinct (map fst (ws_answers s))
    \<and> (\<forall>(n, status, p) \<in> set (ws_answers s). \<forall>a. p = WorkerResponse a \<longrightarrow>
         audit_worker_response_ok (wk_isUrl W) a \<and> (\<exists>r \<in> set (ws_begun s). wr_executionId r = wres_executionId a))
    \<and> (\<forall>n q k. (n, q\<lparr>wr_signature := create_browser_audit_signature (wk_hmac W) (wk_auditJson W) (wk_localeCompare W) k q\<rparr>)
           \<in> set (ws_verifying s) \<and> k \<noteq> [] \<and> Some k \<in> {Some (wk_sharedSecret W), wk_sharedSecretNext W} \<and> ws_running s = []
         \<longrightarrow> map fst (ws_running (admit_audit W n
               (q\<lparr>wr_signature := create_browser_audit_signature (wk_hmac W) (wk_auditJson W) (wk_localeCompare W) k q\<rparr>) s)) = [n])"
proof -
  have ok: "worker_ok W s" using assms by (rule worker_reachable_ok)
  have starts: "map fst (ws_running (admit_audit W n r s)) = [n]"
    if "r = q\<lparr>wr_signature := create_browser_audit_signature (wk_hmac W) (wk_auditJson W) (wk_localeCompare W) k q\<rparr>"
      "k \<noteq> []" "Some k \<in> {Some (wk_sharedSecret W), wk_sharedSecretNext W}" "ws_running s = []" for n q k r
  proof -
    have "verify_browser_audit_signature (wk_hmac W) (wk_auditJson W) (wk_localeCompare W) (Some k) r"
      unfolding that(1) using that(2) by (rule audit_signature_accepted)
    then have "worker_accepts W r" using that(3) by (auto simp: worker_accepts_def Let_def)
    moreover have "ws_activeExecutionId s = None" using ok that(4) by (simp add: worker_ok_def)
    ultimately show ?thesis using that(4) by (simp add: admit_audit_def)
  qed
  have "\<forall>(n, status, p) \<in> set (ws_answers s). \<forall>a. p = WorkerResponse a \<longrightarrow>
      audit_worker_response_ok (wk_isUrl W) a \<and> (\<exists>r \<in> set (ws_begun s). wr_executionId r = wres_executionId a)"
    using ok unfolding worker_ok_def by fast
  moreover from ok have "length (ws_running s) \<le> 1" "distinct (map fst (ws_answers s))"
    "ws_activeExecutionId s = (case ws_running s of [] \<Rightarrow> None | (n, r) # _ \<Rightarrow> Some (wr_executionId r))"
    "\<forall>r \<in> set (ws_begun s). audit_worker_request_schema (wk_isUrl W) r \<and> st_ok (wk_startup W) \<and> worker_accepts W r"
    unfolding worker_ok_def by simp_all
  ultimately show ?thesis using starts [OF refl] by (intro conjI allI impI) (assumption | elim conjE)+
qed

section \<open>Witness\<close>

text \<open>A request of the executor signed with the secret that is next for the worker.\<close>

definition demo_toolchain :: toolchain where
  "demo_toolchain =
     \<lparr> tc_engine = (''lighthouse'', ''1''), tc_browser = (''Chrome'', ''1''), tc_runtime = (''Bun'', ''1''), tc_components = [] \<rparr>"

definition demo_worker :: worker where
  "demo_worker =
     \<lparr> wk_startup = \<lparr> st_ok = True, st_checkedAt = 0, st_errors = [], st_toolchain = demo_toolchain \<rparr>,
       wk_capabilities = \<lparr> cap_toolchain = demo_toolchain, cap_checkpointModes = [], cap_artifactKinds = [],
         cap_unsupportedFeatures = [], cap_maxSteps = 20, cap_maxCheckpoints = 3, cap_maxPages = 1, cap_maxContexts = 1,
         cap_maxArtifactBytes = 1, cap_defaultTotalTimeoutMs = 1, cap_defaultStepTimeoutMs = 1 \<rparr>,
       wk_sharedSecret = ''current'', wk_sharedSecretNext = Some ''secret'', wk_isUrl = (\<lambda>_. True),
       wk_urls = \<lparr> ut_parse = (\<lambda>_. None), ut_href = (\<lambda>_. []) \<rparr>, wk_hmac = rt_hmac demo_audit_runtime,
       wk_auditJson = rt_auditJson demo_audit_runtime, wk_localeCompare = rt_localeCompare demo_audit_runtime,
       wk_zodMessage = ''invalid'' \<rparr>"

definition demo_signed :: audit_worker_request where
  "demo_signed = sign_audit_request demo_audit_runtime ''secret'' (unsigned_audit_request demo_audit demo_upload 0)"

definition demo_received :: worker_state where
  "demo_received = receive_request demo_worker 1
     \<lparr> wq_method = ''POST'', wq_pathname = ''/audit'', wq_body = BodyDecoded demo_signed \<rparr> idle_worker"

lemma demo_received_simps:
  "ws_verifying demo_received = [(1, demo_signed)]" "ws_running demo_received = []"
  using demo_request_ok [of "''secret''" 0]
  by (simp_all add: demo_received_def receive_request_def demo_worker_def demo_signed_def idle_worker_def)

theorem worker_runs_one_signed_audit_witness:
  "worker_reachable demo_worker demo_received
   \<and> map fst (ws_running (admit_audit demo_worker 1 demo_signed demo_received)) = [1]"
proof -
  have r: "worker_reachable demo_worker demo_received"
    unfolding demo_received_def
    by (rule worker_reachable.steps [OF worker_reachable.idle], rule worker_step.arrives) (simp_all add: idle_worker_def)
  let ?q = "unsigned_audit_request demo_audit demo_upload 0"
  have s: "?q\<lparr>wr_signature := create_browser_audit_signature (wk_hmac demo_worker) (wk_auditJson demo_worker)
      (wk_localeCompare demo_worker) ''secret'' ?q\<rparr> = demo_signed"
    by (simp add: demo_signed_def sign_audit_request_def demo_worker_def)
  from worker_runs_one_signed_audit [OF r]
  have "(1, demo_signed) \<in> set (ws_verifying demo_received) \<and> ''secret'' \<noteq> []
      \<and> Some ''secret'' \<in> {Some (wk_sharedSecret demo_worker), wk_sharedSecretNext demo_worker} \<and> ws_running demo_received = []
    \<longrightarrow> map fst (ws_running (admit_audit demo_worker 1 demo_signed demo_received)) = [1]"
    unfolding s [symmetric] by blast
  with r show ?thesis by (simp add: demo_received_simps demo_worker_def)
qed

section \<open>What the search for Chrome finds\<close>

text \<open>The files the search may give, in the order it looks at them.\<close>

fun chrome_files :: "string \<Rightarrow> chrome_node \<Rightarrow> int \<Rightarrow> string list"
and chrome_entries :: "string \<Rightarrow> (string \<times> chrome_node) list \<Rightarrow> int \<Rightarrow> string list" where
  "chrome_files p n depth =
     (if depth < 0 then []
      else (case n of
              RegularFile \<Rightarrow> if ends_with ''/chrome'' p \<or> ends_with ''/Google Chrome'' p then [p] else []
            | Folder entries \<Rightarrow> chrome_entries p entries depth
            | _ \<Rightarrow> []))"
| "chrome_entries p [] depth = []"
| "chrome_entries p ((name, n) # rest) depth =
     (case n of
        RegularFile \<Rightarrow> if name \<in> set chrome_names then [join_path p name] else []
      | Folder _ \<Rightarrow> chrome_files (join_path p name) n (depth - 1)
      | _ \<Rightarrow> []) @ chrome_entries p rest depth"

lemma walk_finds_the_first:
  "walk_for_chrome p n depth = Inr r \<Longrightarrow> r = (case chrome_files p n depth of [] \<Rightarrow> None | f # _ \<Rightarrow> Some f)"
  "walk_entries p es depth = Inr r \<Longrightarrow> r = (case chrome_entries p es depth of [] \<Rightarrow> None | f # _ \<Rightarrow> Some f)"
proof (induction p n depth and p es depth arbitrary: r and r rule: walk_for_chrome_walk_entries.induct)
  case (1 p n depth)
  then show ?case by (auto split: chrome_node.splits if_splits)
next
  case (2 p depth)
  then show ?case by simp
next
  case (3 p name n rest depth)
  show ?case
  proof (cases n)
    case (Folder es)
    from 3(7) Folder obtain found where found: "walk_for_chrome (join_path p name) n (depth - 1) = Inr found"
      by (auto simp del: walk_for_chrome.simps split: sum.splits)
    from 3(5) [OF Folder found] Folder have f: "found = (case chrome_files (join_path p name) n (depth - 1) of [] \<Rightarrow> None | f # _ \<Rightarrow> Some f)"
      by simp
    show ?thesis
    proof (cases found)
      case None
      then have "chrome_files (join_path p name) n (depth - 1) = []" using f by (simp del: chrome_files.simps split: list.splits)
      moreover have "walk_entries p rest depth = Inr r" using 3(7) Folder found None by (simp del: walk_for_chrome.simps)
      ultimately show ?thesis using 3(6) [OF Folder _ None] found Folder None by (simp del: chrome_files.simps)
    next
      case (Some q)
      then obtain fs where "chrome_files (join_path p name) n (depth - 1) = q # fs"
        using f by (auto simp del: chrome_files.simps split: list.splits)
      moreover have "r = Some q" using 3(7) Folder found Some by (simp del: walk_for_chrome.simps)
      ultimately show ?thesis using Folder by (simp del: chrome_files.simps)
    qed
  qed (use 3 in \<open>auto split: if_splits\<close>)
qed

end
