(* ===== verification/Storage_Crypto.thy ===== *)
theory Storage_Crypto
  imports Js_Base64 Url_Properties
begin

text \<open>
  The encryption of stored payloads (\<open>apps/api/src/storage-crypto.ts\<close>): envelopes of AES-256-GCM, the key derived from
  the internal secret, and a second secret that may only read. The cipher, the key derivations and \<open>JSON.parse\<close> are
  parameters; keys, nonces, tags and texts in bytes are lists of numbers below 256.
\<close>

type_synonym bytes = "nat list"

record crypto_host =
  ch_hkdf :: "bytes \<Rightarrow> bytes \<Rightarrow> bytes \<Rightarrow> nat \<Rightarrow> bytes"
  ch_sha256 :: "bytes \<Rightarrow> bytes"
  ch_encrypt :: "bytes \<Rightarrow> bytes \<Rightarrow> bytes \<Rightarrow> bytes \<Rightarrow> bytes \<times> bytes"
  ch_decrypt :: "bytes \<Rightarrow> bytes \<Rightarrow> bytes \<Rightarrow> bytes \<Rightarrow> bytes \<Rightarrow> bytes option"
  ch_parseJson :: "bytes \<Rightarrow> json option"

definition utf8_bytes :: "string \<Rightarrow> bytes" where
  "utf8_bytes s = map unat (utf8_encode s)"

definition current_envelope_prefix :: string where "current_envelope_prefix = ''webperf:enc:v2''"
definition legacy_envelope_prefix :: string where "legacy_envelope_prefix = ''webperf:enc:v1''"

definition current_associated_data :: bytes where
  "current_associated_data = utf8_bytes ''webperf-selfhosted/sqlite-payload/v2''"

definition legacy_associated_data :: bytes where
  "legacy_associated_data = utf8_bytes ''webperf-selfhosted/sqlite-payload/v1''"

datatype crypto_error =
    SecretRefused string
  | UnencryptedPersistedPayload
  | InvalidEncryptedPayloadEnvelope
  | UnableToDecrypt nat
  | InvalidJson

definition assert_storage_secret :: "string \<Rightarrow> string \<Rightarrow> crypto_error + unit" where
  "assert_storage_secret secret label =
     (if js_trim secret = []
      then Inl (SecretRefused (''SQLite '' @ label @ '' encryption secret must not be empty or whitespace-only''))
      else if utf8_length secret < 16
      then Inl (SecretRefused (''SQLite '' @ label @ '' encryption secret must contain at least 16 UTF-8 bytes''))
      else Inr ())"

definition derive_key :: "crypto_host \<Rightarrow> string \<Rightarrow> bytes" where
  "derive_key C secret =
     ch_hkdf C (utf8_bytes secret) (utf8_bytes ''webperf-selfhosted/sqlite-encryption-salt/v1'')
       (utf8_bytes ''webperf-selfhosted/sqlite-encryption-key/v1'') 32"

definition derive_legacy_key :: "crypto_host \<Rightarrow> string \<Rightarrow> bytes" where
  "derive_legacy_key C secret = ch_sha256 C (utf8_bytes secret)"

record storage_crypto =
  sc_currentKey :: bytes
  sc_decryptionKeys :: "bytes list"
  sc_legacyDecryptionKeys :: "bytes list"

text \<open>An empty next secret is refused before it could count as absent.\<close>

definition create_storage_crypto :: "crypto_host \<Rightarrow> string \<Rightarrow> string option \<Rightarrow> crypto_error + storage_crypto" where
  "create_storage_crypto C currentSecret nextSecret =
     (case assert_storage_secret currentSecret ''current'' of
        Inl e \<Rightarrow> Inl e
      | Inr _ \<Rightarrow>
          (case (case nextSecret of None \<Rightarrow> Inr () | Some s \<Rightarrow> assert_storage_secret s ''next'') of
             Inl e \<Rightarrow> Inl e
           | Inr _ \<Rightarrow>
               let also = (\<lambda>f. case nextSecret of None \<Rightarrow> [] | Some s \<Rightarrow> if s = [] then [] else [f s]) in
               Inr \<lparr> sc_currentKey = derive_key C currentSecret,
                     sc_decryptionKeys = derive_key C currentSecret # also (derive_key C),
                     sc_legacyDecryptionKeys = derive_legacy_key C currentSecret # also (derive_legacy_key C) \<rparr>))"

text \<open>\<open>stringify\<close>, with the random nonce as an argument.\<close>

definition stringify_payload :: "crypto_host \<Rightarrow> storage_crypto \<Rightarrow> bytes \<Rightarrow> json \<Rightarrow> string" where
  "stringify_payload C S iv v =
     (let (ciphertext, tag) = ch_encrypt C (sc_currentKey S) iv current_associated_data (utf8_bytes (json_stringify v)) in
      join '':'' [current_envelope_prefix, b64_encode iv, b64_encode tag, b64_encode ciphertext])"

definition is_encrypted_envelope :: "string \<Rightarrow> bool" where
  "is_encrypted_envelope v =
     (starts_with (current_envelope_prefix @ '':'') v \<or> starts_with (legacy_envelope_prefix @ '':'') v)"

record envelope =
  en_prefix :: string
  en_iv :: bytes
  en_tag :: bytes
  en_ciphertext :: bytes

definition parse_envelope :: "string \<Rightarrow> crypto_error + envelope" where
  "parse_envelope v =
     (let parts = split_char CHR '':'' v; prefix = join '':'' (take 3 parts) in
      if length parts \<noteq> 6 \<or> (prefix \<noteq> current_envelope_prefix \<and> prefix \<noteq> legacy_envelope_prefix)
      then Inl InvalidEncryptedPayloadEnvelope
      else
        let iv = b64_decode (parts ! 3); tag = b64_decode (parts ! 4); ciphertext = b64_decode (parts ! 5) in
        if length iv \<noteq> 12 \<or> length tag \<noteq> 16 \<or> ciphertext = [] then Inl InvalidEncryptedPayloadEnvelope
        else Inr \<lparr> en_prefix = prefix, en_iv = iv, en_tag = tag, en_ciphertext = ciphertext \<rparr>)"

definition read_json :: "crypto_host \<Rightarrow> bytes \<Rightarrow> crypto_error + json" where
  "read_json C text_bytes = (case ch_parseJson C text_bytes of None \<Rightarrow> Inl InvalidJson | Some v \<Rightarrow> Inr v)"

text \<open>The loop over the keys, with the number of errors so far.\<close>

fun try_keys :: "crypto_host \<Rightarrow> envelope \<Rightarrow> bytes \<Rightarrow> nat \<Rightarrow> bytes list \<Rightarrow> crypto_error + json" where
  "try_keys C e associatedData errors [] = Inl (UnableToDecrypt errors)"
| "try_keys C e associatedData errors (key # rest) =
     (case ch_decrypt C key (en_iv e) associatedData (en_tag e) (en_ciphertext e) of
        None \<Rightarrow> try_keys C e associatedData (errors + 1) rest
      | Some plaintext \<Rightarrow> read_json C plaintext)"

definition parse_payload :: "crypto_host \<Rightarrow> storage_crypto \<Rightarrow> bool \<Rightarrow> string \<Rightarrow> crypto_error + json" where
  "parse_payload C S allowPlaintext v =
     (if \<not> is_encrypted_envelope v
      then (if \<not> allowPlaintext then Inl UnencryptedPersistedPayload else read_json C (utf8_bytes v))
      else
        (case parse_envelope v of
           Inl err \<Rightarrow> Inl err
         | Inr e \<Rightarrow>
             let isCurrent = (en_prefix e = current_envelope_prefix);
                 keys = (if isCurrent then sc_decryptionKeys S else sc_legacyDecryptionKeys S);
                 associatedData = (if isCurrent then current_associated_data else legacy_associated_data) in
             try_keys C e associatedData 0 keys))"

section \<open>What the host promises\<close>

text \<open>Of the cipher: decryption inverts encryption, the ciphertext has the length of the text, the tag has 16 bytes.
  Of \<open>JSON.parse\<close>: it reads what \<open>JSON.stringify\<close> wrote.\<close>

definition byte_list :: "bytes \<Rightarrow> bool" where
  "byte_list = list_all (\<lambda>b. b < 256)"

definition crypto_host_ok :: "crypto_host \<Rightarrow> bool" where
  "crypto_host_ok C \<longleftrightarrow>
     (\<forall>k iv ad p c t. byte_list p \<longrightarrow> ch_encrypt C k iv ad p = (c, t) \<longrightarrow>
        ch_decrypt C k iv ad t c = Some p \<and> length c = length p \<and> length t = 16 \<and> byte_list c \<and> byte_list t)"

definition json_host_ok :: "crypto_host \<Rightarrow> json \<Rightarrow> bool" where
  "json_host_ok C v \<longleftrightarrow> ch_parseJson C (utf8_bytes (json_stringify v)) = Some v"

section \<open>Envelopes\<close>

lemma b64_no_colon: "byte_list bs \<Longrightarrow> CHR '':'' \<notin> set (b64_encode bs)"
  using b64_encode_alphabet [of bs]
  by (auto simp: byte_list_def list_all_iff b64_alphabet_def is_alnum_def is_digit_def is_lower_def is_upper_def)

lemma json_text_ne: "utf8_bytes (json_stringify v) \<noteq> []"
proof -
  have "json_stringify v \<noteq> []" by (cases v) (auto simp: show_int_def quote_json_def)
  then show ?thesis by (cases "json_stringify v") (auto simp: utf8_bytes_def utf8_encode_def utf8_char_def Let_def)
qed

lemma utf8_byte_list: "byte_list (utf8_bytes s)"
proof -
  have "unat w < 256" for w :: "8 word" using unsigned_less [of w] by simp
  then show ?thesis by (simp add: byte_list_def utf8_bytes_def list_all_iff)
qed

lemma split_prefix: "split_char CHR '':'' (current_envelope_prefix @ '':'' @ t) = ''webperf'' # ''enc'' # ''v2'' # split_char CHR '':'' t"
  by (simp add: current_envelope_prefix_def)

lemma envelope_roundtrip:
  assumes "length iv = 12" "length tag = 16" "c \<noteq> []" and b: "byte_list iv" "byte_list tag" "byte_list c"
  shows "parse_envelope (join '':'' [current_envelope_prefix, b64_encode iv, b64_encode tag, b64_encode c]) =
    Inr \<lparr> en_prefix = current_envelope_prefix, en_iv = iv, en_tag = tag, en_ciphertext = c \<rparr>"
proof -
  have "split_char CHR '':'' (join '':'' [current_envelope_prefix, b64_encode iv, b64_encode tag, b64_encode c])
      = [''webperf'', ''enc'', ''v2'', b64_encode iv, b64_encode tag, b64_encode c]"
    using b64_no_colon [OF b(1)] b64_no_colon [OF b(2)] b64_no_colon [OF b(3)]
    by (simp add: split_prefix [simplified] split_char_append_delim split_char_no_delim)
  moreover have "b64_decode (b64_encode iv) = iv" "b64_decode (b64_encode tag) = tag" "b64_decode (b64_encode c) = c"
    using b by (auto simp: byte_list_def intro: b64_roundtrip)
  moreover have "join '':'' [''webperf'', ''enc'', ''v2''] = current_envelope_prefix"
    by (simp add: current_envelope_prefix_def)
  ultimately show ?thesis
    using assms by (simp add: parse_envelope_def Let_def)
qed

lemma stringify_is_envelope: "is_encrypted_envelope (stringify_payload C S iv v)"
proof -
  have "starts_with p (p @ r)" for p r :: string by (simp add: starts_with_def)
  from this [of "current_envelope_prefix @ '':''"] show ?thesis
    by (auto simp: is_encrypted_envelope_def stringify_payload_def split: prod.splits)
qed

text \<open>A payload written with one configuration, read with another: it opens with the first key that fits.\<close>

lemma parse_stringify:
  assumes ok: "crypto_host_ok C" and json: "json_host_ok C v" and iv: "length iv = 12" "byte_list iv"
    and key: "sc_decryptionKeys R = others @ sc_currentKey W # rest"
    and refused: "\<forall>k \<in> set others. ch_decrypt C k iv current_associated_data
       (snd (ch_encrypt C (sc_currentKey W) iv current_associated_data (utf8_bytes (json_stringify v))))
       (fst (ch_encrypt C (sc_currentKey W) iv current_associated_data (utf8_bytes (json_stringify v)))) = None"
  shows "parse_payload C R allow (stringify_payload C W iv v) = Inr v"
proof -
  let ?p = "utf8_bytes (json_stringify v)"
  obtain c t where e: "ch_encrypt C (sc_currentKey W) iv current_associated_data ?p = (c, t)" by fastforce
  from ok [unfolded crypto_host_ok_def, rule_format, OF utf8_byte_list e] have d: "ch_decrypt C (sc_currentKey W) iv current_associated_data t c = Some ?p"
    and len: "length c = length ?p" "length t = 16" "byte_list c" "byte_list t" by auto
  from len(1) json_text_ne [of v] have "c \<noteq> []" by auto
  then have env: "parse_envelope (stringify_payload C W iv v) =
      Inr \<lparr> en_prefix = current_envelope_prefix, en_iv = iv, en_tag = t, en_ciphertext = c \<rparr>"
    using envelope_roundtrip [of iv t c] len iv e by (simp add: stringify_payload_def)
  have "try_keys C \<lparr> en_prefix = current_envelope_prefix, en_iv = iv, en_tag = t, en_ciphertext = c \<rparr>
      current_associated_data n (others @ sc_currentKey W # rest) = Inr v" for n
    using refused json d e by (induction others arbitrary: n) (auto simp: read_json_def json_host_ok_def)
  then show ?thesis
    using env key by (simp add: parse_payload_def stringify_is_envelope)
qed

lemma create_keys:
  assumes "create_storage_crypto C current next_secret = Inr S"
  shows "sc_currentKey S = derive_key C current"
    "sc_decryptionKeys S = derive_key C current # (case next_secret of None \<Rightarrow> [] | Some s \<Rightarrow> [derive_key C s])"
    "sc_legacyDecryptionKeys S = derive_legacy_key C current # (case next_secret of None \<Rightarrow> [] | Some s \<Rightarrow> [derive_legacy_key C s])"
  using assms
  by (auto simp: create_storage_crypto_def assert_storage_secret_def utf8_length_def Let_def split: if_splits option.splits sum.splits)

text \<open>A key of the host that opens an envelope.\<close>

definition opens_with :: "crypto_host \<Rightarrow> envelope \<Rightarrow> bytes \<Rightarrow> bytes \<Rightarrow> json \<Rightarrow> bool" where
  "opens_with C e ad k v =
     (\<exists>p. ch_decrypt C k (en_iv e) ad (en_tag e) (en_ciphertext e) = Some p \<and> ch_parseJson C p = Some v)"

lemma try_keys_Inr: "try_keys C e ad n ks = Inr v \<Longrightarrow> \<exists>k \<in> set ks. opens_with C e ad k v"
  by (induction ks arbitrary: n) (auto simp: opens_with_def read_json_def split: option.splits)

text \<open>A key does not open what was written with another one.\<close>

definition refuses :: "crypto_host \<Rightarrow> bytes \<Rightarrow> bytes \<Rightarrow> bytes \<Rightarrow> json \<Rightarrow> bool" where
  "refuses C k k' iv v =
     (let (c, t) = ch_encrypt C k' iv current_associated_data (utf8_bytes (json_stringify v)) in
      ch_decrypt C k iv current_associated_data t c = None)"

definition configured_key :: "crypto_host \<Rightarrow> string \<Rightarrow> string option \<Rightarrow> string \<Rightarrow> bytes \<Rightarrow> bool" where
  "configured_key C current next_secret prefix k =
     (let f = (if prefix = current_envelope_prefix then derive_key C else derive_legacy_key C) in
      k = f current \<or> (\<exists>s. next_secret = Some s \<and> k = f s))"

lemma encrypted_payloads_roundtrip_parts:
  assumes "crypto_host_ok C" and "json_host_ok C v" and "length iv = 12" and "byte_list iv"
    and written: "create_storage_crypto C secret other = Inr W" and read: "create_storage_crypto C current next_secret = Inr R"
    and "secret = current \<or> next_secret = Some secret \<and> refuses C (derive_key C current) (derive_key C secret) iv v"
  shows "parse_payload C R allow (stringify_payload C W iv v) = Inr v"
    and "parse_payload C R False stored = Inr w \<Longrightarrow>
      \<exists>e k. parse_envelope stored = Inr e \<and> configured_key C current next_secret (en_prefix e) k
        \<and> opens_with C e (if en_prefix e = current_envelope_prefix then current_associated_data else legacy_associated_data) k w"
proof -
  note W = create_keys [OF written] and R = create_keys [OF read]
  show "parse_payload C R allow (stringify_payload C W iv v) = Inr v"
  proof (cases "secret = current")
    case True
    then show ?thesis using assms(1-4) W R by (intro parse_stringify [where others = "[]"]) auto
  next
    case False
    then show ?thesis
      using assms W R by (intro parse_stringify [where others = "[derive_key C current]"]) (auto simp: refuses_def split: prod.splits)
  qed
  assume p: "parse_payload C R False stored = Inr w"
  then obtain e where e: "parse_envelope stored = Inr e"
    by (auto simp: parse_payload_def split: if_splits sum.splits)
  show "\<exists>e k. parse_envelope stored = Inr e \<and> configured_key C current next_secret (en_prefix e) k
      \<and> opens_with C e (if en_prefix e = current_envelope_prefix then current_associated_data else legacy_associated_data) k w"
  proof (cases "en_prefix e = current_envelope_prefix")
    case True
    with p e obtain k where "k \<in> set (sc_decryptionKeys R)" "opens_with C e current_associated_data k w"
      by (auto simp: parse_payload_def dest!: try_keys_Inr split: if_splits)
    with R True e show ?thesis by (auto simp: configured_key_def Let_def split: option.splits)
  next
    case False
    with p e obtain k where "k \<in> set (sc_legacyDecryptionKeys R)" "opens_with C e legacy_associated_data k w"
      by (auto simp: parse_payload_def dest!: try_keys_Inr split: if_splits)
    with R False e show ?thesis by (auto simp: configured_key_def Let_def split: option.splits)
  qed
qed

text \<open>Property C29. A payload written under one secret is read back by every configuration that has this secret as its
  current or its next one, provided the cipher refuses a wrong key; what a configuration reads, unless plain text is allowed, is always an
  envelope that one of its own keys opens, with the data of its version as associated data.\<close>

theorem encrypted_payloads_roundtrip:
  assumes "crypto_host_ok C" and "json_host_ok C v" and "length iv = 12" and "byte_list iv"
    and "create_storage_crypto C secret other = Inr W" and "create_storage_crypto C current next_secret = Inr R"
    and "secret = current \<or> next_secret = Some secret \<and> refuses C (derive_key C current) (derive_key C secret) iv v"
  shows "parse_payload C R allow (stringify_payload C W iv v) = Inr v
    \<and> (\<forall>stored w. parse_payload C R False stored = Inr w \<longrightarrow>
        (\<exists>e k. parse_envelope stored = Inr e \<and> configured_key C current next_secret (en_prefix e) k
          \<and> opens_with C e (if en_prefix e = current_envelope_prefix then current_associated_data else legacy_associated_data) k w))"
  using encrypted_payloads_roundtrip_parts [OF assms] by blast

text \<open>A cipher for the demonstration: the text in clear, with the key in the tag.\<close>

definition demo_tag :: "bytes \<Rightarrow> bytes" where
  "demo_tag k = take 16 (map (\<lambda>b. b mod 256) k @ replicate 16 0)"

definition demo_crypto :: crypto_host where
  "demo_crypto =
     \<lparr> ch_hkdf = (\<lambda>secret _ _ n. secret), ch_sha256 = (\<lambda>s. s),
        ch_encrypt = (\<lambda>k iv ad p. (map (\<lambda>b. b mod 256) p, demo_tag k)),
        ch_decrypt = (\<lambda>k iv ad t c. if t = demo_tag k then Some c else None),
        ch_parseJson = (\<lambda>bs. if bs = utf8_bytes ''true'' then Some (JBool True) else None) \<rparr>"

definition demo_iv :: bytes where
  "demo_iv = [1, 2, 3, 4, 5, 6, 7, 8, 9, 10, 11, 12]"

lemma demo_crypto_ok: "crypto_host_ok demo_crypto"
proof -
  have "map (\<lambda>b. b mod 256) p = p" if "byte_list p" for p :: bytes
    using that by (induction p) (auto simp: byte_list_def)
  moreover have "length (demo_tag k) = 16" "byte_list (demo_tag k)" for k
    by (auto simp: demo_tag_def byte_list_def list_all_iff dest!: in_set_takeD split: if_splits)
  ultimately show ?thesis by (auto simp: crypto_host_ok_def demo_crypto_def)
qed

lemma demo_tag_hd: "demo_tag k = demo_tag k' \<Longrightarrow> k \<noteq> [] \<Longrightarrow> k' \<noteq> [] \<Longrightarrow> hd k mod 256 = hd k' mod 256"
  by (cases k; cases k') (simp_all add: demo_tag_def)

lemma demo_keys:
  "\<exists>r. utf8_bytes ''retired secret 1'' = 114 # r" "\<exists>r. utf8_bytes ''current secret 2'' = 99 # r"
  by (simp_all add: utf8_bytes_def utf8_encode_def utf8_char_def)

theorem encrypted_payloads_roundtrip_witness:
  "\<exists>W R. create_storage_crypto demo_crypto ''retired secret 1'' None = Inr W
     \<and> create_storage_crypto demo_crypto ''current secret 2'' (Some ''retired secret 1'') = Inr R
     \<and> parse_payload demo_crypto R False (stringify_payload demo_crypto W demo_iv (JBool True)) = Inr (JBool True)"
proof -
  have ok: "assert_storage_secret ''retired secret 1'' l = Inr ()" "assert_storage_secret ''current secret 2'' l = Inr ()" for l
    by (simp_all add: assert_storage_secret_def utf8_length_def js_trim_def is_ws_def)
  then obtain W R where "create_storage_crypto demo_crypto ''retired secret 1'' None = Inr W"
    and "create_storage_crypto demo_crypto ''current secret 2'' (Some ''retired secret 1'') = Inr R"
    by (simp add: create_storage_crypto_def)
  moreover have "json_host_ok demo_crypto (JBool True)"
    by (simp add: json_host_ok_def demo_crypto_def)
  moreover have "refuses demo_crypto (derive_key demo_crypto ''current secret 2'') (derive_key demo_crypto ''retired secret 1'') demo_iv (JBool True)"
    using demo_keys by (auto simp: refuses_def demo_crypto_def derive_key_def dest: demo_tag_hd)
  ultimately show ?thesis
    using encrypted_payloads_roundtrip [OF demo_crypto_ok, of "JBool True" demo_iv "''retired secret 1''" None W "''current secret 2''" "Some ''retired secret 1''" R]
    by (auto simp: demo_iv_def byte_list_def)
qed

end
