(* ===== verification/Sqlite_Migrations.thy ===== *)
theory Sqlite_Migrations
  imports Storage_Crypto
begin

text \<open>
  How the schema of the database is brought up to date (\<open>apps/api/src/database/sqlite.ts\<close>), with the migration that
  encrypts every stored payload (\<open>migrations/20260722_001_encrypted_payloads_v2.ts\<close>). What a migration does to the
  data is a function that may throw; the migrations other than the modelled one are arguments. A database is the table of applied
  migrations, if it is there, and its data.
\<close>

section \<open>The manifest\<close>

definition migration_ids :: "string list" where
  "migration_ids =
     [''20260722_000_initial_schema'', ''20260722_001_encrypted_payloads_v2'', ''20260722_002_execution_jobs'',
      ''20260722_003_browser_audit_artifacts'', ''20260729_004_regional_execution_targets'',
      ''20260730_005_single_region_stored_data'', ''20260730_006_execution_job_started_at'',
      ''20260730_007_retired_regional_execution_jobs'']"

text \<open>The check made when the module is loaded.\<close>

fun check_manifest :: "string list \<Rightarrow> string + unit" where
  "check_manifest (previous # current # rest) =
     (if previous \<ge> current
      then Inl (''SQLite migration manifest must be unique and ordered: '' @ previous @ '', '' @ current)
      else check_manifest (current # rest))"
| "check_manifest _ = Inr ()"

record 'd schema_db =
  sd_migrations :: "(string \<times> iso) list option"
  sd_data :: 'd

record ('c, 'd) migration =
  mg_id :: string
  mg_up :: "'c \<Rightarrow> 'd \<Rightarrow> string + 'd"

record migration_state =
  ms_applied :: "(string \<times> iso) list"
  ms_pending :: "string list"
  ms_unknown :: "string list"

definition get_sqlite_migration_state :: "string list \<Rightarrow> 'd schema_db \<Rightarrow> migration_state" where
  "get_sqlite_migration_state ids d =
     (let applied = (case sd_migrations d of None \<Rightarrow> [] | Some rows \<Rightarrow> sort_key (\<lambda>(i, t). (t, i)) rows) in
      \<lparr> ms_applied = applied,
        ms_pending = filter (\<lambda>i. i \<notin> set (map fst applied)) ids,
        ms_unknown = filter (\<lambda>i. i \<notin> set ids) (map fst applied) \<rparr>)"

datatype migration_error =
    IncompatibleSchema "string list"
  | MigrationFailed string string
  | BeforeMigrateFailed string

section \<open>Applying migrations\<close>

text \<open>The loop in the transaction: the context is asked for once, by the first pending migration; \<open>now\<close> gives the time
  at which the \<open>n\<close>-th migration is recorded.\<close>

fun run_pending ::
  "string + 'c \<Rightarrow> (nat \<Rightarrow> iso) \<Rightarrow> string list \<Rightarrow> ('c, 'd) migration list \<Rightarrow> 'd schema_db \<Rightarrow> string list
   \<Rightarrow> migration_error + ('d schema_db \<times> string list)" where
  "run_pending provider now pending [] d appliedNow = Inr (d, appliedNow)"
| "run_pending provider now pending (m # ms) d appliedNow =
     (if mg_id m \<notin> set pending then run_pending provider now pending ms d appliedNow
      else
        (case provider of
           Inl e \<Rightarrow> Inl (MigrationFailed (mg_id m) e)
         | Inr ctx \<Rightarrow>
             (case mg_up m ctx (sd_data d) of
                Inl e \<Rightarrow> Inl (MigrationFailed (mg_id m) e)
              | Inr data \<Rightarrow>
                  let rows = (case sd_migrations d of None \<Rightarrow> [] | Some rows \<Rightarrow> rows) in
                  run_pending provider now pending ms
                    \<lparr> sd_migrations = Some (rows @ [(mg_id m, now (length appliedNow))]), sd_data = data \<rparr>
                    (appliedNow @ [mg_id m]))))"

definition migrate_transaction ::
  "('c, 'd) migration list \<Rightarrow> string + 'c \<Rightarrow> (nat \<Rightarrow> iso) \<Rightarrow> 'd schema_db
   \<Rightarrow> migration_error + ('d schema_db \<times> string list)" where
  "migrate_transaction migrations provider now d =
     (let d1 = (case sd_migrations d of None \<Rightarrow> d\<lparr>sd_migrations := Some []\<rparr> | Some _ \<Rightarrow> d);
          locked = get_sqlite_migration_state (map mg_id migrations) d1 in
      if ms_unknown locked \<noteq> [] then Inl (IncompatibleSchema (ms_unknown locked))
      else run_pending provider now (ms_pending locked) migrations d1 [])"

text \<open>\<open>applySqliteMigrations\<close>: the database as it is first read, and as it is once the transaction holds its lock;
  another process may have migrated it in between. An error leaves the second one.\<close>

definition apply_sqlite_migrations ::
  "('c, 'd) migration list \<Rightarrow> string + 'c \<Rightarrow> (string list \<Rightarrow> string + unit) \<Rightarrow> (nat \<Rightarrow> iso) \<Rightarrow> 'd schema_db \<Rightarrow> 'd schema_db
   \<Rightarrow> (migration_error + (migration_state \<times> string list)) \<times> 'd schema_db" where
  "apply_sqlite_migrations migrations provider beforeMigrate now d0 d =
     (let ids = map mg_id migrations; initial = get_sqlite_migration_state ids d0 in
      if ms_unknown initial \<noteq> [] then (Inl (IncompatibleSchema (ms_unknown initial)), d)
      else
        (case (if ms_pending initial \<noteq> [] then beforeMigrate (ms_pending initial) else Inr ()) of
           Inl e \<Rightarrow> (Inl (BeforeMigrateFailed e), d)
         | Inr _ \<Rightarrow>
             (case migrate_transaction migrations provider now d of
                Inl e \<Rightarrow> (Inl e, d)
              | Inr (d', appliedNow) \<Rightarrow> (Inr (get_sqlite_migration_state ids d', appliedNow), d'))))"

section \<open>Tables of payloads\<close>

record stored_row =
  sr_rowid :: int
  sr_cells :: "string \<Rightarrow> string option"

type_synonym stored_data = "string \<Rightarrow> stored_row list option"

definition after_row :: "int option \<Rightarrow> stored_row \<Rightarrow> bool" where
  "after_row lastRowId r = (case lastRowId of None \<Rightarrow> True | Some l \<Rightarrow> sr_rowid r > l)"

text \<open>\<open>SELECT ... WHERE rowid > ? ORDER BY rowid LIMIT 100\<close>, of the rows a condition selects.\<close>

definition next_batch :: "(stored_row \<Rightarrow> bool) \<Rightarrow> int option \<Rightarrow> stored_row list \<Rightarrow> stored_row list" where
  "next_batch selected lastRowId rows =
     take 100 (sort_key sr_rowid (filter (\<lambda>r. after_row lastRowId r \<and> selected r) rows))"

definition update_payload :: "int \<Rightarrow> string \<Rightarrow> stored_row list \<Rightarrow> stored_row list" where
  "update_payload i v rows =
     map (\<lambda>r. if sr_rowid r = i then r\<lparr>sr_cells := (sr_cells r)(''payload_json'' \<mapsto> v)\<rparr> else r) rows"

fun crypto_message :: "crypto_error \<Rightarrow> string" where
  "crypto_message (SecretRefused m) = m"
| "crypto_message UnencryptedPersistedPayload = ''Refusing to parse an unencrypted persisted payload''"
| "crypto_message InvalidEncryptedPayloadEnvelope = ''Invalid encrypted payload envelope''"
| "crypto_message (UnableToDecrypt _) = ''Unable to decrypt persisted payload''"
| "crypto_message InvalidJson = ''SyntaxError''"

text \<open>What a migration is given: the storage cipher, with a nonce for every payload it writes.\<close>

record migration_context =
  mc_host :: crypto_host
  mc_crypto :: storage_crypto
  mc_nonce :: "string \<Rightarrow> int \<Rightarrow> bytes"

definition reencrypt_cell :: "migration_context \<Rightarrow> string \<Rightarrow> stored_row \<Rightarrow> string + string" where
  "reencrypt_cell X table r =
     (case sr_cells r ''payload_json'' of
        None \<Rightarrow> Inl ''TypeError''
      | Some v \<Rightarrow>
          (case parse_payload (mc_host X) (mc_crypto X) True v of
             Inl e \<Rightarrow> Inl (crypto_message e)
           | Inr parsed \<Rightarrow> Inr (stringify_payload (mc_host X) (mc_crypto X) (mc_nonce X table (sr_rowid r)) parsed)))"

fun encrypt_batch :: "migration_context \<Rightarrow> string \<Rightarrow> stored_row list \<Rightarrow> stored_row list \<Rightarrow> string + stored_row list" where
  "encrypt_batch X table [] rows = Inr rows"
| "encrypt_batch X table (r # batch) rows =
     (case reencrypt_cell X table r of
        Inl e \<Rightarrow> Inl e
      | Inr v \<Rightarrow> encrypt_batch X table batch (update_payload (sr_rowid r) v rows))"

lemma update_payload_rowids [simp]: "map sr_rowid (update_payload i v rows) = map sr_rowid rows"
  by (simp add: update_payload_def)

lemma encrypt_batch_rowids: "encrypt_batch X table batch rows = Inr rows' \<Longrightarrow> map sr_rowid rows' = map sr_rowid rows"
  by (induction X table batch rows rule: encrypt_batch.induct) (auto split: sum.splits)

definition rows_left :: "int option \<Rightarrow> int list \<Rightarrow> nat" where
  "rows_left lastRowId is = length (filter (\<lambda>i. case lastRowId of None \<Rightarrow> True | Some l \<Rightarrow> i > l) is)"

lemma next_batch_less:
  assumes "next_batch p l rows \<noteq> []"
  shows "rows_left (Some (sr_rowid (last (next_batch p l rows)))) (map sr_rowid rows) < rows_left l (map sr_rowid rows)"
proof -
  let ?r = "last (next_batch p l rows)"
  from assms have "?r \<in> set (next_batch p l rows)" by simp
  then have r: "?r \<in> set rows" "after_row l ?r" by (auto simp: next_batch_def dest!: in_set_takeD)
  have less: "length (filter (\<lambda>i. i > sr_rowid ?r) is) < length (filter (\<lambda>i. case l of None \<Rightarrow> True | Some m \<Rightarrow> i > m) is)"
    if "sr_rowid ?r \<in> set is" for "is"
    using that
  proof (induction "is")
    case (Cons i "is")
    have le: "length (filter (\<lambda>i. i > sr_rowid ?r) is) \<le> length (filter (\<lambda>i. case l of None \<Rightarrow> True | Some m \<Rightarrow> i > m) is)"
      using r(2) by (induction "is") (auto simp: after_row_def split: option.splits)
    show ?case
    proof (cases "i = sr_rowid ?r")
      case True
      with le r(2) show ?thesis by (auto simp: after_row_def split: option.splits)
    next
      case False
      with Cons r(2) show ?thesis by (auto simp: after_row_def split: option.splits)
    qed
  qed simp
  from r(1) have "sr_rowid ?r \<in> set (map sr_rowid rows)" by simp
  from less [OF this] show ?thesis by (simp add: rows_left_def)
qed

function encrypt_rows :: "migration_context \<Rightarrow> string \<Rightarrow> int option \<Rightarrow> stored_row list \<Rightarrow> string + stored_row list" where
  "encrypt_rows X table lastRowId rows =
     (let batch = next_batch (\<lambda>_. True) lastRowId rows in
      if batch = [] then Inr rows
      else (case encrypt_batch X table batch rows of
              Inl e \<Rightarrow> Inl e
            | Inr rows' \<Rightarrow> encrypt_rows X table (Some (sr_rowid (last batch))) rows'))"
  by pat_completeness auto
termination
  by (relation "measure (\<lambda>(X, t, l, rows). rows_left l (map sr_rowid rows))")
    (auto simp: encrypt_batch_rowids next_batch_less simp del: map_map)

declare encrypt_rows.simps [simp del]

definition encrypted_tables :: "string list" where
  "encrypted_tables = [''jobs'', ''saved_entities'', ''check_profile_runs'']"

fun encrypt_tables :: "migration_context \<Rightarrow> string list \<Rightarrow> stored_data \<Rightarrow> string + stored_data" where
  "encrypt_tables X [] d = Inr d"
| "encrypt_tables X (table # rest) d =
     (case d table of
        None \<Rightarrow> Inl (''no such table: '' @ table)
      | Some rows \<Rightarrow>
          (case encrypt_rows X table None rows of
             Inl e \<Rightarrow> Inl e
           | Inr rows' \<Rightarrow> encrypt_tables X rest (d(table \<mapsto> rows'))))"

definition encrypted_payload_migration :: "(migration_context, stored_data) migration" where
  "encrypted_payload_migration =
     \<lparr> mg_id = ''20260722_001_encrypted_payloads_v2'', mg_up = (\<lambda>X d. encrypt_tables X encrypted_tables d) \<rparr>"

section \<open>The transaction\<close>

lemma migration_manifest_ok: "check_manifest migration_ids = Inr ()"
  by (simp add: migration_ids_def less_eq_char_def)

lemma state_empty_table:
  "sd_migrations d = None \<Longrightarrow>
     get_sqlite_migration_state ids (d\<lparr>sd_migrations := Some []\<rparr>) = get_sqlite_migration_state ids d"
  by (simp add: get_sqlite_migration_state_def)

definition applied_ids :: "'d schema_db \<Rightarrow> string set" where
  "applied_ids d = set (map fst (ms_applied (get_sqlite_migration_state [] d)))"

lemma applied_ids_rows: "applied_ids d = (case sd_migrations d of None \<Rightarrow> {} | Some rows \<Rightarrow> fst ` set rows)"
  by (simp add: applied_ids_def get_sqlite_migration_state_def Let_def split: option.split)

lemma state_sets:
  "ms_pending (get_sqlite_migration_state ids d) = filter (\<lambda>i. i \<notin> applied_ids d) ids"
  "ms_unknown (get_sqlite_migration_state ids d) = [] \<longleftrightarrow> applied_ids d \<subseteq> set ids"
  by (auto simp: applied_ids_rows get_sqlite_migration_state_def Let_def filter_empty_conv split: option.split)

text \<open>What the migrations of a list that are pending do to the data, one after the other.\<close>

fun run_ups :: "'c \<Rightarrow> ('c, 'd) migration list \<Rightarrow> 'd \<Rightarrow> string + 'd" where
  "run_ups ctx [] data = Inr data"
| "run_ups ctx (m # ms) data = (case mg_up m ctx data of Inl e \<Rightarrow> Inl e | Inr data' \<Rightarrow> run_ups ctx ms data')"

lemma run_pending_Inr:
  "run_pending provider now pending ms d acc = Inr (d', done_ids) \<Longrightarrow>
     done_ids = acc @ filter (\<lambda>i. i \<in> set pending) (map mg_id ms)
     \<and> applied_ids d' = applied_ids d \<union> (set pending \<inter> set (map mg_id ms))
     \<and> (filter (\<lambda>m. mg_id m \<in> set pending) ms = [] \<longrightarrow> d' = d)
     \<and> (filter (\<lambda>m. mg_id m \<in> set pending) ms \<noteq> [] \<longrightarrow>
          (\<exists>ctx. provider = Inr ctx
             \<and> run_ups ctx (filter (\<lambda>m. mg_id m \<in> set pending) ms) (sd_data d) = Inr (sd_data d')))"
proof (induction provider now pending ms d acc rule: run_pending.induct)
  case (2 provider now pending m ms d acc)
  show ?case
  proof (cases "mg_id m \<in> set pending")
    case True
    with 2(3) obtain ctx data' where c: "provider = Inr ctx" "mg_up m ctx (sd_data d) = Inr data'"
      by (auto split: sum.splits)
    let ?rows = "case sd_migrations d of None \<Rightarrow> [] | Some rows \<Rightarrow> rows"
    let ?d = "\<lparr> sd_migrations = Some (?rows @ [(mg_id m, now (length acc))]), sd_data = data' \<rparr>"
    from 2(3) True c have r: "run_pending provider now pending ms ?d (acc @ [mg_id m]) = Inr (d', done_ids)" by simp
    have a: "applied_ids ?d = insert (mg_id m) (applied_ids d)" by (auto simp: applied_ids_rows split: option.split)
    from 2(2) [of ctx data' ?rows] True c r
    show ?thesis by (auto simp: a)
  qed (use 2 in auto)
qed simp

lemma run_pending_none: "run_pending provider now [] ms d acc = Inr (d, acc)"
  by (induction ms) auto

lemma run_pending_table:
  "run_pending provider now pending ms d acc = Inr (d', done_ids) \<Longrightarrow> sd_migrations d \<noteq> None \<Longrightarrow> sd_migrations d' \<noteq> None"
  by (induction provider now pending ms d acc rule: run_pending.induct) (auto split: if_splits sum.splits)

lemma migrate_transaction_Inr:
  assumes "migrate_transaction ms provider now d = Inr (d', done_ids)"
  shows "applied_ids d' = set (map mg_id ms)" "applied_ids d \<subseteq> set (map mg_id ms)" "sd_migrations d' \<noteq> None"
    "done_ids = filter (\<lambda>i. i \<notin> applied_ids d) (map mg_id ms)"
    "done_ids = [] \<Longrightarrow> sd_data d' = sd_data d"
    "done_ids \<noteq> [] \<Longrightarrow> \<exists>ctx. provider = Inr ctx
       \<and> run_ups ctx (filter (\<lambda>m. mg_id m \<notin> applied_ids d) ms) (sd_data d) = Inr (sd_data d')"
proof -
  let ?d = "case sd_migrations d of None \<Rightarrow> d\<lparr>sd_migrations := Some []\<rparr> | Some _ \<Rightarrow> d"
  let ?pending = "filter (\<lambda>i. i \<notin> applied_ids ?d) (map mg_id ms)"
  have same: "applied_ids ?d = applied_ids d" "sd_data ?d = sd_data d" "sd_migrations ?d \<noteq> None"
    by (auto simp: applied_ids_rows split: option.split)
  from assms have u: "applied_ids ?d \<subseteq> set (map mg_id ms)" and r: "run_pending provider now ?pending ms ?d [] = Inr (d', done_ids)"
    by (auto simp: migrate_transaction_def Let_def state_sets split: if_splits)
  note f = run_pending_Inr [OF r]
  have p: "filter (\<lambda>m. mg_id m \<in> set ?pending) ms = filter (\<lambda>m. mg_id m \<notin> applied_ids d) ms"
    by (rule filter_cong) (auto simp: same)
  have ids: "filter (\<lambda>i. i \<in> set ?pending) (map mg_id ms) = filter (\<lambda>i. i \<notin> applied_ids d) (map mg_id ms)"
    by (rule filter_cong) (auto simp: same)
  show "applied_ids d' = set (map mg_id ms)" using f u same by auto
  show "applied_ids d \<subseteq> set (map mg_id ms)" using u same by simp
  show "sd_migrations d' \<noteq> None" using run_pending_table [OF r] same by simp
  show d: "done_ids = filter (\<lambda>i. i \<notin> applied_ids d) (map mg_id ms)" using f ids by simp
  have ne: "done_ids = [] \<longleftrightarrow> filter (\<lambda>m. mg_id m \<notin> applied_ids d) ms = []"
    unfolding d by (auto simp: filter_empty_conv)
  show "sd_data d' = sd_data d" if "done_ids = []" using that ne f p same by auto
  show "\<exists>ctx. provider = Inr ctx \<and> run_ups ctx (filter (\<lambda>m. mg_id m \<notin> applied_ids d) ms) (sd_data d) = Inr (sd_data d')"
    if "done_ids \<noteq> []" using that ne f p same by auto
qed

section \<open>Batches\<close>

lemma strict_take:
  fixes f :: "'a \<Rightarrow> int"
  assumes "sorted_wrt (<) (map f s)" and "take n s \<noteq> []"
  shows "distinct (map f (take n s))" "\<forall>r \<in> set (take n s). f r \<le> f (last (take n s))"
    "\<forall>r \<in> set (drop n s). f (last (take n s)) < f r"
proof -
  have sw: "sorted_wrt (<) (map f (take n s) @ map f (drop n s))"
    using assms(1) by (metis append_take_drop_id map_append)
  then show "distinct (map f (take n s))" by (auto simp: sorted_wrt_append strict_sorted_iff)
  obtain ys y where y: "take n s = ys @ [y]" using assms(2) by (cases "take n s" rule: rev_cases) auto
  with sw show "\<forall>r \<in> set (take n s). f r \<le> f (last (take n s))" "\<forall>r \<in> set (drop n s). f (last (take n s)) < f r"
    by (auto simp: sorted_wrt_append less_imp_le)
qed

lemma next_batch_parts:
  assumes "distinct (map sr_rowid rows)" and "next_batch p l rows \<noteq> []"
  defines "b \<equiv> next_batch p l rows"
  shows "set b \<subseteq> {r \<in> set rows. after_row l r \<and> p r}" "distinct (map sr_rowid b)"
    "{r \<in> set rows. after_row l r \<and> p r} = set b \<union> {r \<in> set rows. after_row (Some (sr_rowid (last b))) r \<and> p r}"
    "\<forall>r \<in> set b. \<not> after_row (Some (sr_rowid (last b))) r"
    "\<forall>r. after_row (Some (sr_rowid (last b))) r \<longrightarrow> after_row l r"
proof -
  define s where "s = sort_key sr_rowid (filter (\<lambda>r. after_row l r \<and> p r) rows)"
  have b: "b = take 100 s" by (simp add: b_def s_def next_batch_def)
  have st: "set s = {r \<in> set rows. after_row l r \<and> p r}" by (auto simp: s_def)
  have "distinct (map sr_rowid (filter (\<lambda>r. after_row l r \<and> p r) rows))" using assms(1) by (rule distinct_map_filter)
  then have dist: "distinct (map sr_rowid s)" by (simp add: s_def distinct_map)
  have "sorted (map sr_rowid s)" by (simp add: s_def)
  with dist have strict: "sorted_wrt (<) (map sr_rowid s)" by (simp add: strict_sorted_iff)
  have bne: "take 100 s \<noteq> []" using assms(2) by (simp add: b_def flip: b)
  note t = strict_take [OF strict bne, folded b]
  have parts: "set s = set b \<union> set (drop 100 s)" unfolding b by (metis append_take_drop_id set_append)
  show sub: "set b \<subseteq> {r \<in> set rows. after_row l r \<and> p r}" using st parts by blast
  show "distinct (map sr_rowid b)" by (rule t(1))
  show "\<forall>r \<in> set b. \<not> after_row (Some (sr_rowid (last b))) r" using t(2) by (fastforce simp: after_row_def)
  have "last b \<in> set b" using bne b by simp
  with sub have l: "after_row l (last b)" by blast
  then show more: "\<forall>r. after_row (Some (sr_rowid (last b))) r \<longrightarrow> after_row l r"
    by (auto simp: after_row_def split: option.splits)
  have "set (drop 100 s) \<subseteq> {r \<in> set rows. after_row (Some (sr_rowid (last b))) r \<and> p r}"
    using t(3) st parts by (auto simp: after_row_def)
  then show "{r \<in> set rows. after_row l r \<and> p r} = set b \<union> {r \<in> set rows. after_row (Some (sr_rowid (last b))) r \<and> p r}"
    using parts st sub more by blast
qed

section \<open>The encryption of stored payloads\<close>

definition with_payload :: "string \<Rightarrow> stored_row \<Rightarrow> stored_row" where
  "with_payload v r = r\<lparr>sr_cells := (sr_cells r)(''payload_json'' \<mapsto> v)\<rparr>"

definition reencrypted :: "migration_context \<Rightarrow> string \<Rightarrow> stored_row \<Rightarrow> stored_row" where
  "reencrypted X table r = (case reencrypt_cell X table r of Inl _ \<Rightarrow> r | Inr v \<Rightarrow> with_payload v r)"

lemma reencrypted_rowid [simp]: "sr_rowid (reencrypted X table r) = sr_rowid r"
  by (simp add: reencrypted_def with_payload_def split: sum.split)

lemma encrypt_batch_spec:
  "\<lbrakk>distinct (map sr_rowid rows); distinct (map sr_rowid batch); set batch \<subseteq> set rows;
    encrypt_batch X table batch rows = Inr rows'\<rbrakk> \<Longrightarrow>
     rows' = map (\<lambda>r. if r \<in> set batch then reencrypted X table r else r) rows
     \<and> (\<forall>r \<in> set batch. \<exists>v. reencrypt_cell X table r = Inr v)"
proof (induction X table batch rows rule: encrypt_batch.induct)
  case (2 X table r batch rows)
  then obtain v where v: "reencrypt_cell X table r = Inr v"
    and rest: "encrypt_batch X table batch (update_payload (sr_rowid r) v rows) = Inr rows'" by (auto split: sum.splits)
  have inj: "s = r" if "s \<in> set rows" "sr_rowid s = sr_rowid r" for s
    using 2(2,4) that by (auto simp: distinct_map inj_on_def)
  have upd: "update_payload (sr_rowid r) v rows = map (\<lambda>s. if s = r then reencrypted X table s else s) rows"
    using inj v by (auto simp: update_payload_def reencrypted_def with_payload_def)
  have other: "s \<noteq> r" "s \<noteq> reencrypted X table r" if "s \<in> set batch" for s
    using 2(3) that by (auto simp: image_iff)
  have "set batch \<subseteq> set (update_payload (sr_rowid r) v rows)"
    using 2(4) other unfolding upd by auto
  with 2(1) [OF v _ _ _ rest] 2(2,3) have IH:
    "rows' = map (\<lambda>s. if s \<in> set batch then reencrypted X table s else s) (update_payload (sr_rowid r) v rows)"
    "\<forall>s \<in> set batch. \<exists>w. reencrypt_cell X table s = Inr w" by auto
  have "reencrypted X table r \<notin> set batch" using other(2) by blast
  with IH v show ?case unfolding upd by auto
qed simp

lemma encrypt_rows_spec:
  "distinct (map sr_rowid rows) \<Longrightarrow> encrypt_rows X table l rows = Inr rows' \<Longrightarrow>
     rows' = map (\<lambda>r. if after_row l r then reencrypted X table r else r) rows
     \<and> (\<forall>r \<in> set rows. after_row l r \<longrightarrow> (\<exists>v. reencrypt_cell X table r = Inr v))"
proof (induction X table l rows arbitrary: rows' rule: encrypt_rows.induct)
  case (1 X table l rows)
  let ?b = "next_batch (\<lambda>_. True) l rows"
  show ?case
  proof (cases "?b = []")
    case True
    then have "set (sort_key sr_rowid (filter (after_row l) rows)) = {}" by (simp add: next_batch_def)
    then have "set (filter (after_row l) rows) = {}" by (simp only: set_sort)
    then have none: "\<forall>r \<in> set rows. \<not> after_row l r" by auto
    have "rows' = rows" using 1(3) True by (simp add: encrypt_rows.simps)
    with none show ?thesis by (auto intro!: map_idI [symmetric])
  next
    case False
    with 1(3) obtain mid where mid: "encrypt_batch X table ?b rows = Inr mid"
      and rest: "encrypt_rows X table (Some (sr_rowid (last ?b))) mid = Inr rows'"
      by (subst (asm) encrypt_rows.simps) (auto simp: Let_def split: sum.splits)
    note parts = next_batch_parts [OF 1(2) False]
    have batch: "mid = map (\<lambda>r. if r \<in> set ?b then reencrypted X table r else r) rows"
      "\<forall>r \<in> set ?b. \<exists>v. reencrypt_cell X table r = Inr v"
      using encrypt_batch_spec [OF 1(2) parts(2) _ mid] parts(1) by auto
    have "distinct (map sr_rowid mid)" using encrypt_batch_rowids [OF mid] 1(2) by simp
    from 1(1) [OF refl False mid this rest] have IH:
      "rows' = map (\<lambda>r. if after_row (Some (sr_rowid (last ?b))) r then reencrypted X table r else r) mid"
      "\<forall>r \<in> set mid. after_row (Some (sr_rowid (last ?b))) r \<longrightarrow> (\<exists>v. reencrypt_cell X table r = Inr v)" by auto
    have same: "after_row k (reencrypted X table r) = after_row k r" for k r
      by (simp add: after_row_def split: option.split)
    have cover: "r \<in> set ?b \<or> after_row (Some (sr_rowid (last ?b))) r \<longleftrightarrow> after_row l r" if "r \<in> set rows" for r
      using parts(1,3,5) that by blast
    have "rows' = map (\<lambda>r. if after_row l r then reencrypted X table r else r) rows"
      unfolding IH(1) batch(1) map_map using parts(4) cover by (auto simp: same)
    moreover have "\<exists>v. reencrypt_cell X table r = Inr v" if "r \<in> set rows" "after_row l r" for r
    proof (cases "r \<in> set ?b")
      case False
      with that cover have a: "after_row (Some (sr_rowid (last ?b))) r" by blast
      from that(1) False have "r \<in> set mid" unfolding batch(1) by force
      with IH(2) a show ?thesis by blast
    qed (use batch(2) in blast)
    ultimately show ?thesis by blast
  qed
qed

lemma encrypt_tables_spec:
  "\<lbrakk>distinct ts; encrypt_tables X ts d = Inr d'\<rbrakk> \<Longrightarrow>
     (\<forall>t \<in> set ts. \<exists>rows rows'. d t = Some rows \<and> d' t = Some rows' \<and> encrypt_rows X t None rows = Inr rows')
     \<and> (\<forall>t. t \<notin> set ts \<longrightarrow> d' t = d t)"
proof (induction X ts d rule: encrypt_tables.induct)
  case (2 X table rest d)
  from 2(3) obtain rows rows' where r: "d table = Some rows" "encrypt_rows X table None rows = Inr rows'"
    and t: "encrypt_tables X rest (d(table \<mapsto> rows')) = Inr d'" by (auto split: option.splits sum.splits)
  from 2(1) [OF r(1,2) _ t] 2(2) have IH: "(\<forall>u \<in> set rest. \<exists>q q'. (d(table \<mapsto> rows')) u = Some q \<and> d' u = Some q' \<and> encrypt_rows X u None q = Inr q')
     \<and> (\<forall>u. u \<notin> set rest \<longrightarrow> d' u = (d(table \<mapsto> rows')) u)" by simp
  show ?case
  proof (intro conjI ballI allI impI)
    fix u assume u: "u \<in> set (table # rest)"
    show "\<exists>q q'. d u = Some q \<and> d' u = Some q' \<and> encrypt_rows X u None q = Inr q'"
    proof (cases "u = table")
      case True
      with IH 2(2) r show ?thesis by simp
    next
      case False
      with u IH have "\<exists>q q'. (d(table \<mapsto> rows')) u = Some q \<and> d' u = Some q' \<and> encrypt_rows X u None q = Inr q'" by auto
      with False show ?thesis by simp
    qed
  qed (use IH in simp)
qed simp

section \<open>Properties\<close>

lemma migrations_are_all_or_nothing_parts:
  assumes run: "apply_sqlite_migrations migrations provider beforeMigrate now d0 d = (result, d')"
  shows "result = Inl e \<Longrightarrow> d' = d"
    and "result = Inr (state, appliedNow) \<Longrightarrow>
      ms_pending state = [] \<and> ms_unknown state = [] \<and> applied_ids d' = set (map mg_id migrations)
      \<and> appliedNow = filter (\<lambda>i. i \<notin> applied_ids d) (map mg_id migrations)
      \<and> (if appliedNow = [] then sd_data d' = sd_data d
         else \<exists>ctx. provider = Inr ctx
           \<and> run_ups ctx (filter (\<lambda>m. mg_id m \<notin> applied_ids d) migrations) (sd_data d) = Inr (sd_data d'))
      \<and> apply_sqlite_migrations migrations provider2 beforeMigrate2 now2 d' d' = (Inr (state, []), d')"
proof -
  show "result = Inl e \<Longrightarrow> d' = d"
    using run by (auto simp: apply_sqlite_migrations_def Let_def split: if_splits sum.splits)
  assume "result = Inr (state, appliedNow)"
  with run have t: "migrate_transaction migrations provider now d = Inr (d', appliedNow)"
    and st: "state = get_sqlite_migration_state (map mg_id migrations) d'"
    by (auto simp: apply_sqlite_migrations_def Let_def split: if_splits sum.splits)
  note f = migrate_transaction_Inr [OF t]
  have s: "ms_pending state = []" "ms_unknown state = []"
    using f(1) by (auto simp: st state_sets filter_empty_conv)
  obtain rows where rows: "sd_migrations d' = Some rows" using f(3) by auto
  have "apply_sqlite_migrations migrations provider2 beforeMigrate2 now2 d' d' = (Inr (state, []), d')"
    using s rows by (simp add: apply_sqlite_migrations_def migrate_transaction_def run_pending_none Let_def flip: st)
  with s f show "ms_pending state = [] \<and> ms_unknown state = [] \<and> applied_ids d' = set (map mg_id migrations)
      \<and> appliedNow = filter (\<lambda>i. i \<notin> applied_ids d) (map mg_id migrations)
      \<and> (if appliedNow = [] then sd_data d' = sd_data d
         else \<exists>ctx. provider = Inr ctx
           \<and> run_ups ctx (filter (\<lambda>m. mg_id m \<notin> applied_ids d) migrations) (sd_data d) = Inr (sd_data d'))
      \<and> apply_sqlite_migrations migrations provider2 beforeMigrate2 now2 d' d' = (Inr (state, []), d')"
    by auto
qed

text \<open>Property C30. Migrating a database is all or nothing: an error leaves it as it was when the transaction got its
  lock, also when another process migrated it since it was first read; success has applied exactly the migrations
  that were missing, each once and in the order of the manifest, and a second run changes nothing.\<close>

theorem migrations_are_all_or_nothing:
  assumes run: "apply_sqlite_migrations migrations provider beforeMigrate now d0 d = (result, d')"
  shows "case result of
      Inl e \<Rightarrow> d' = d
    | Inr (state, appliedNow) \<Rightarrow>
        ms_pending state = [] \<and> ms_unknown state = [] \<and> applied_ids d' = set (map mg_id migrations)
        \<and> appliedNow = filter (\<lambda>i. i \<notin> applied_ids d) (map mg_id migrations)
        \<and> (if appliedNow = [] then sd_data d' = sd_data d
           else \<exists>ctx. provider = Inr ctx
             \<and> run_ups ctx (filter (\<lambda>m. mg_id m \<notin> applied_ids d) migrations) (sd_data d) = Inr (sd_data d'))
        \<and> apply_sqlite_migrations migrations provider2 beforeMigrate2 now2 d' d' = (Inr (state, []), d')"
  using migrations_are_all_or_nothing_parts [OF assms] by (cases result) (simp_all split: prod.split)

text \<open>What the encryption of a table leaves of a row: its other columns, and a payload that is an envelope with the
  value it had.\<close>

definition same_value_encrypted :: "migration_context \<Rightarrow> stored_row \<Rightarrow> stored_row \<Rightarrow> bool" where
  "same_value_encrypted X r r' \<longleftrightarrow>
     sr_rowid r' = sr_rowid r \<and> (\<forall>column. column \<noteq> ''payload_json'' \<longrightarrow> sr_cells r' column = sr_cells r column)
     \<and> (\<exists>v v' w. sr_cells r ''payload_json'' = Some v \<and> parse_payload (mc_host X) (mc_crypto X) True v = Inr w
          \<and> sr_cells r' ''payload_json'' = Some v' \<and> parse_payload (mc_host X) (mc_crypto X) False v' = Inr w)"

definition migration_context_ok :: "migration_context \<Rightarrow> bool" where
  "migration_context_ok X \<longleftrightarrow>
     crypto_host_ok (mc_host X) \<and> (\<exists>current other. create_storage_crypto (mc_host X) current other = Inr (mc_crypto X))
     \<and> (\<forall>t i. length (mc_nonce X t i) = 12 \<and> byte_list (mc_nonce X t i))
     \<and> (\<forall>v w. parse_payload (mc_host X) (mc_crypto X) True v = Inr w \<longrightarrow> json_host_ok (mc_host X) w)"

lemma reencrypted_same:
  assumes "migration_context_ok X" and "reencrypt_cell X table r = Inr v"
  shows "same_value_encrypted X r (reencrypted X table r)"
proof -
  obtain current other where c: "create_storage_crypto (mc_host X) current other = Inr (mc_crypto X)"
    using assms(1) by (auto simp: migration_context_ok_def)
  from assms(2) obtain old w where w: "sr_cells r ''payload_json'' = Some old"
    "parse_payload (mc_host X) (mc_crypto X) True old = Inr w"
    "v = stringify_payload (mc_host X) (mc_crypto X) (mc_nonce X table (sr_rowid r)) w"
    by (auto simp: reencrypt_cell_def split: option.splits sum.splits)
  have "parse_payload (mc_host X) (mc_crypto X) False v = Inr w"
    unfolding w(3) using assms(1) w(2) create_keys [OF c]
    by (intro parse_stringify [where others = "[]"]) (auto simp: migration_context_ok_def)
  with w assms(2) show ?thesis
    by (simp add: same_value_encrypted_def reencrypted_def with_payload_def)
qed

text \<open>Property C31. The migration that encrypts the stored payloads reads every row of its three tables in batches of
  a hundred and leaves none out: afterwards each payload is an envelope under the current secret that reads as the
  value it had, plain or under an older version, and nothing else has changed.\<close>

theorem encryption_migration_keeps_values:
  assumes "mg_up encrypted_payload_migration X d = Inr d'" and "migration_context_ok X"
    and "\<forall>t rows. d t = Some rows \<longrightarrow> distinct (map sr_rowid rows)"
  shows "if t \<in> set encrypted_tables
      then \<exists>rows rows'. d t = Some rows \<and> d' t = Some rows' \<and> list_all2 (same_value_encrypted X) rows rows'
      else d' t = d t"
proof -
  have dist: "distinct encrypted_tables" by (simp add: encrypted_tables_def)
  from assms(1) have up: "encrypt_tables X encrypted_tables d = Inr d'" by (simp add: encrypted_payload_migration_def)
  note spec = encrypt_tables_spec [OF dist up]
  show ?thesis
  proof (cases "t \<in> set encrypted_tables")
    case True
    with spec obtain rows rows' where r: "d t = Some rows" "d' t = Some rows'" "encrypt_rows X t None rows = Inr rows'" by blast
    from r(1) assms(3) have "distinct (map sr_rowid rows)" by simp
    from encrypt_rows_spec [OF this r(3)]
    have "rows' = map (reencrypted X t) rows" "\<forall>r \<in> set rows. \<exists>v. reencrypt_cell X t r = Inr v"
      by (simp_all add: after_row_def)
    then have "list_all2 (same_value_encrypted X) rows rows'"
      using reencrypted_same [OF assms(2)] by (auto simp: list_all2_map2 intro!: list.rel_refl_strong)
    with r True show ?thesis by auto
  qed (use spec in simp)
qed

section \<open>Witnesses\<close>

definition demo_migration_context :: migration_context where
  "demo_migration_context =
     \<lparr> mc_host = demo_crypto,
        mc_crypto = \<lparr> sc_currentKey = derive_key demo_crypto ''current secret 2'',
                       sc_decryptionKeys = [derive_key demo_crypto ''current secret 2''],
                       sc_legacyDecryptionKeys = [derive_legacy_key demo_crypto ''current secret 2''] \<rparr>,
        mc_nonce = (\<lambda>_ _. demo_iv) \<rparr>"

lemma demo_migration_context_ok: "migration_context_ok demo_migration_context"
proof -
  have "assert_storage_secret ''current secret 2'' l = Inr ()" for l
    by (simp add: assert_storage_secret_def utf8_length_def js_trim_def is_ws_def)
  then have c: "create_storage_crypto demo_crypto ''current secret 2'' None = Inr (mc_crypto demo_migration_context)"
    by (simp add: create_storage_crypto_def demo_migration_context_def)
  have t: "w = JBool True" if "try_keys demo_crypto e ad n ks = Inr w" for e ad n ks w
    using that by (induction ks arbitrary: n) (auto simp: read_json_def demo_crypto_def split: option.splits if_splits)
  have w: "w = JBool True" if "parse_payload demo_crypto S True v = Inr w" for S v w
    using that t by (auto simp: parse_payload_def Let_def read_json_def demo_crypto_def split: if_splits sum.splits option.splits)
  have j: "json_host_ok demo_crypto (JBool True)" by (simp add: json_host_ok_def demo_crypto_def)
  have h: "mc_host demo_migration_context = demo_crypto" "mc_nonce demo_migration_context = (\<lambda>_ _. demo_iv)"
    by (simp_all add: demo_migration_context_def)
  show ?thesis
    unfolding migration_context_ok_def h using demo_crypto_ok c j w by (auto simp: demo_iv_def byte_list_def)
qed

definition demo_stored :: stored_data where
  "demo_stored = (\<lambda>t. if t \<in> set encrypted_tables
     then Some [\<lparr> sr_rowid = 1, sr_cells = [''payload_json'' \<mapsto> ''true''] \<rparr>] else None)"

lemma demo_reencrypt:
  "reencrypt_cell demo_migration_context t \<lparr> sr_rowid = 1, sr_cells = [''payload_json'' \<mapsto> ''true''] \<rparr>
     = Inr (stringify_payload demo_crypto (mc_crypto demo_migration_context) demo_iv (JBool True))"
proof -
  have "\<not> is_encrypted_envelope ''true''"
    by (simp add: is_encrypted_envelope_def starts_with_def current_envelope_prefix_def legacy_envelope_prefix_def)
  then show ?thesis
    by (simp add: reencrypt_cell_def demo_migration_context_def parse_payload_def read_json_def demo_crypto_def)
qed

lemma demo_encrypt_rows:
  "\<exists>rows. encrypt_rows demo_migration_context t None [\<lparr> sr_rowid = 1, sr_cells = [''payload_json'' \<mapsto> ''true''] \<rparr>] = Inr rows"
  by (subst encrypt_rows.simps) (simp add: next_batch_def after_row_def demo_reencrypt update_payload_def, subst encrypt_rows.simps,
    simp add: next_batch_def after_row_def)

theorem encryption_migration_keeps_values_witness:
  "\<exists>d' rows rows'. mg_up encrypted_payload_migration demo_migration_context demo_stored = Inr d'
     \<and> demo_stored ''jobs'' = Some rows \<and> d' ''jobs'' = Some rows' \<and> length rows' = 1
     \<and> list_all2 (same_value_encrypted demo_migration_context) rows rows'"
proof -
  obtain a b c where e:
    "encrypt_rows demo_migration_context ''jobs'' None [\<lparr> sr_rowid = 1, sr_cells = [''payload_json'' \<mapsto> ''true''] \<rparr>] = Inr a"
    "encrypt_rows demo_migration_context ''saved_entities'' None [\<lparr> sr_rowid = 1, sr_cells = [''payload_json'' \<mapsto> ''true''] \<rparr>] = Inr b"
    "encrypt_rows demo_migration_context ''check_profile_runs'' None [\<lparr> sr_rowid = 1, sr_cells = [''payload_json'' \<mapsto> ''true''] \<rparr>] = Inr c"
    using demo_encrypt_rows by metis
  have "\<exists>d'. mg_up encrypted_payload_migration demo_migration_context demo_stored = Inr d'"
    by (simp add: encrypted_payload_migration_def encrypted_tables_def demo_stored_def e)
  then obtain d' where d: "mg_up encrypted_payload_migration demo_migration_context demo_stored = Inr d'" ..
  have "\<forall>t rows. demo_stored t = Some rows \<longrightarrow> distinct (map sr_rowid rows)" by (simp add: demo_stored_def)
  from encryption_migration_keeps_values [OF d demo_migration_context_ok this, of "''jobs''"]
  obtain rows rows' where r: "demo_stored ''jobs'' = Some rows" "d' ''jobs'' = Some rows'"
    "list_all2 (same_value_encrypted demo_migration_context) rows rows'"
    by (auto simp: encrypted_tables_def)
  moreover from r(1) have "length rows = 1" by (auto simp: demo_stored_def encrypted_tables_def)
  ultimately show ?thesis using d list_all2_lengthD [OF r(3)] by auto
qed

definition demo_migrations :: "(nat, nat) migration list" where
  "demo_migrations =
     [\<lparr> mg_id = ''001'', mg_up = (\<lambda>c d. Inr (d + c)) \<rparr>, \<lparr> mg_id = ''002'', mg_up = (\<lambda>c d. Inr (d * 2)) \<rparr>]"

theorem migrations_are_all_or_nothing_witness:
  "apply_sqlite_migrations demo_migrations (Inr 5) (\<lambda>_. Inr ()) (\<lambda>_. 0)
       \<lparr> sd_migrations = Some [(''001'', 0)], sd_data = 3 \<rparr> \<lparr> sd_migrations = Some [(''001'', 0)], sd_data = 3 \<rparr>
     = (Inr (\<lparr> ms_applied = [(''001'', 0), (''002'', 0)], ms_pending = [], ms_unknown = [] \<rparr>, [''002'']),
        \<lparr> sd_migrations = Some [(''001'', 0), (''002'', 0)], sd_data = 6 \<rparr>)
   \<and> applied_ids \<lparr> sd_migrations = Some [(''001'', 0), (''002'', 0)], sd_data = 6 :: nat \<rparr> = {''001'', ''002''}"
proof -
  let ?d = "\<lparr> sd_migrations = Some [(''001'', 0)], sd_data = 3 :: nat \<rparr>"
  let ?s = "\<lparr> ms_applied = [(''001'', 0), (''002'', 0)], ms_pending = [], ms_unknown = [] \<rparr>"
  let ?d' = "\<lparr> sd_migrations = Some [(''001'', 0), (''002'', 0)], sd_data = 6 :: nat \<rparr>"
  have run: "apply_sqlite_migrations demo_migrations (Inr 5) (\<lambda>_. Inr ()) (\<lambda>_. 0) ?d ?d = (Inr (?s, [''002'']), ?d')"
    by (simp add: apply_sqlite_migrations_def migrate_transaction_def demo_migrations_def get_sqlite_migration_state_def
        less_eq_list_code Let_def image_iff)
  from migrations_are_all_or_nothing [OF run, unfolded sum.case prod.case]
  have a: "applied_ids ?d' = set (map mg_id demo_migrations)" by blast
  have "set (map mg_id demo_migrations) = {''001'', ''002''}" by (simp add: demo_migrations_def)
  with run a show ?thesis by (intro conjI) (simp_all only:)
qed

end
