(* ===== verification/Database_Files.thy ===== *)
theory Database_Files
  imports Sqlite_Migrations Js_Collections
begin

text \<open>
  Operations on database files (\<open>apps/api/src/database/operations.ts\<close>, and the pragmas of a connection in
  \<open>sqlite.ts\<close>): verification of the stored payloads, integrity reports, backup and restore. A file is a database,
  with its applied migrations and its tables, or something else; every call of the file system may throw, as the
  host says. The content of a database file is what a reader of it sees, write-ahead log included.
\<close>

section \<open>Connections\<close>

text \<open>What SQLite answers to the pragmas; \<open>None\<close> for a missing row.\<close>

record pragma_answers =
  pg_journalMode :: "string option"
  pg_synchronous :: "int option"
  pg_foreignKeys :: "int option"
  pg_busyTimeout :: "int option"
  pg_walAutocheckpoint :: "int option"

definition unknown_int :: "int option \<Rightarrow> string" where
  "unknown_int v = (case v of None \<Rightarrow> ''unknown'' | Some i \<Rightarrow> show_int i)"

definition configure_sqlite_connection :: "string \<Rightarrow> bool \<Rightarrow> pragma_answers \<Rightarrow> string + unit" where
  "configure_sqlite_connection databasePath readonly p =
     (if \<not> readonly \<and> databasePath \<noteq> '':memory:'' \<and> map_option js_lower (pg_journalMode p) \<noteq> Some ''wal''
      then Inl (''Unable to enable SQLite WAL mode; current mode is ''
                @ (case pg_journalMode p of None \<Rightarrow> ''unknown'' | Some m \<Rightarrow> m))
      else if \<not> readonly \<and> pg_synchronous p \<noteq> Some 1
      then Inl (''Unable to configure SQLite synchronous mode; current mode is '' @ unknown_int (pg_synchronous p))
      else if pg_foreignKeys p \<noteq> Some 1 then Inl ''Unable to enable SQLite foreign key enforcement''
      else if pg_busyTimeout p \<noteq> Some 5000
      then Inl (''Unable to configure SQLite busy timeout; current timeout is '' @ unknown_int (pg_busyTimeout p))
      else if \<not> readonly \<and> pg_walAutocheckpoint p \<noteq> Some 1000
      then Inl (''Unable to configure SQLite WAL autocheckpoint; current threshold is '' @ unknown_int (pg_walAutocheckpoint p))
      else Inr ())"

section \<open>Verification of payloads\<close>

definition persisted_payload_columns :: "(string \<times> string) list" where
  "persisted_payload_columns =
     [(''jobs'', ''payload_json''), (''saved_entities'', ''payload_json''), (''check_profile_runs'', ''payload_json''),
      (''execution_jobs'', ''payload_json''), (''execution_jobs'', ''error_json'')]"

datatype verify_error =
    InvalidLimit
  | LimitExceeded int
  | IncompatiblePayload string string int

definition has_cell :: "string \<Rightarrow> stored_row \<Rightarrow> bool" where
  "has_cell column r = (sr_cells r column \<noteq> None)"

definition cell_opens :: "(string \<Rightarrow> crypto_error + json) \<Rightarrow> string \<Rightarrow> stored_row \<Rightarrow> bool" where
  "cell_opens parse column r =
     (case sr_cells r column of None \<Rightarrow> False | Some v \<Rightarrow> (case parse v of Inl _ \<Rightarrow> False | Inr _ \<Rightarrow> True))"

fun verify_batch ::
  "(string \<Rightarrow> crypto_error + json) \<Rightarrow> string \<times> string \<Rightarrow> int \<Rightarrow> int \<Rightarrow> stored_row list \<Rightarrow> verify_error + int" where
  "verify_batch parse tc maximum checked [] = Inr checked"
| "verify_batch parse tc maximum checked (r # rest) =
     (if checked \<ge> maximum then Inl (LimitExceeded maximum)
      else if \<not> cell_opens parse (snd tc) r then Inl (IncompatiblePayload (fst tc) (snd tc) (sr_rowid r))
      else verify_batch parse tc maximum (checked + 1) rest)"

function verify_rows ::
  "(string \<Rightarrow> crypto_error + json) \<Rightarrow> string \<times> string \<Rightarrow> int \<Rightarrow> stored_row list \<Rightarrow> int option \<Rightarrow> int \<Rightarrow> verify_error + int" where
  "verify_rows parse tc maximum rows lastRowId checked =
     (let batch = next_batch (has_cell (snd tc)) lastRowId rows in
      if batch = [] then Inr checked
      else (case verify_batch parse tc maximum checked batch of
              Inl e \<Rightarrow> Inl e
            | Inr checked' \<Rightarrow> verify_rows parse tc maximum rows (Some (sr_rowid (last batch))) checked'))"
  by pat_completeness auto
termination
  by (relation "measure (\<lambda>(p, tc, m, rows, l, c). rows_left l (map sr_rowid rows))")
    (auto simp: next_batch_less simp del: map_map)

declare verify_rows.simps [simp del]

fun verify_columns ::
  "(string \<Rightarrow> crypto_error + json) \<Rightarrow> int \<Rightarrow> stored_data \<Rightarrow> (string \<times> string) list \<Rightarrow> int \<Rightarrow> verify_error + int" where
  "verify_columns parse maximum d [] checked = Inr checked"
| "verify_columns parse maximum d (tc # rest) checked =
     (case d (fst tc) of
        None \<Rightarrow> verify_columns parse maximum d rest checked
      | Some rows \<Rightarrow>
          (case verify_rows parse tc maximum rows None checked of
             Inl e \<Rightarrow> Inl e
           | Inr checked' \<Rightarrow> verify_columns parse maximum d rest checked'))"

definition verify_sqlite_storage_crypto ::
  "(string \<Rightarrow> crypto_error + json) \<Rightarrow> int \<Rightarrow> stored_data \<Rightarrow> verify_error + int" where
  "verify_sqlite_storage_crypto parse maximumPayloads d =
     (if \<not> is_safe_integer maximumPayloads \<or> maximumPayloads < 1 then Inl InvalidLimit
      else verify_columns parse maximumPayloads d persisted_payload_columns 0)"

definition default_verification_limit :: int where "default_verification_limit = 100000"

section \<open>Integrity\<close>

record integrity_report =
  ir_ok :: bool
  ir_messages :: "string list"
  ir_foreignKeyViolations :: nat

definition inspect_sqlite_integrity :: "string list \<times> nat \<Rightarrow> integrity_report" where
  "inspect_sqlite_integrity answers =
     \<lparr> ir_ok = (length (fst answers) = 1 \<and> js_lower (hd (fst answers)) = ''ok'' \<and> snd answers = 0),
       ir_messages = fst answers, ir_foreignKeyViolations = snd answers \<rparr>"

section \<open>Files\<close>

type_synonym database_file = "stored_data schema_db"

datatype file_entry = DbFile database_file | OtherFile

type_synonym files = "string \<Rightarrow> file_entry option"

datatype file_step =
    MakeDirectory string | OpenDatabase string | VacuumInto string | ChangeMode string | LinkFile string
  | RemoveSidecar string | RenameFile string

record file_host =
  fh_fails :: "file_step \<Rightarrow> string option"
  fh_integrity :: "database_file \<Rightarrow> string list \<times> nat"
  fh_resolve :: "string \<Rightarrow> string"

record doctor_report =
  dr_ok :: bool
  dr_journalMode :: string
  dr_busyTimeoutMs :: int
  dr_foreignKeys :: bool
  dr_migrations :: migration_state
  dr_integrity :: integrity_report

definition assert_file_database :: "string \<Rightarrow> string + unit" where
  "assert_file_database databasePath =
     (if databasePath = '':memory:'' then Inl ''This operation requires a file-backed SQLite database'' else Inr ())"

definition open_database :: "file_host \<Rightarrow> string \<Rightarrow> files \<Rightarrow> string + database_file" where
  "open_database H path fs =
     (case fh_fails H (OpenDatabase path) of
        Some e \<Rightarrow> Inl e
      | None \<Rightarrow> (case fs path of Some (DbFile d) \<Rightarrow> Inr d | _ \<Rightarrow> Inl ''unable to open database file''))"

definition doctor_sqlite_database :: "file_host \<Rightarrow> pragma_answers \<Rightarrow> string \<Rightarrow> files \<Rightarrow> string + doctor_report" where
  "doctor_sqlite_database H p databasePath fs =
     bind_throws (assert_file_database databasePath) (\<lambda>_.
       if fs databasePath = None then Inl (''SQLite database does not exist: '' @ databasePath)
       else bind_throws (open_database H databasePath fs) (\<lambda>d.
         let integrity = inspect_sqlite_integrity (fh_integrity H d);
             journalMode = (case pg_journalMode p of None \<Rightarrow> ''unknown'' | Some m \<Rightarrow> m);
             busy = (case pg_busyTimeout p of None \<Rightarrow> 0 | Some t \<Rightarrow> t);
             foreignKeys = (pg_foreignKeys p = Some 1);
             migrations = get_sqlite_migration_state migration_ids d in
         Inr \<lparr> dr_ok = (ir_ok integrity \<and> js_lower journalMode = ''wal'' \<and> busy = 5000 \<and> foreignKeys
                         \<and> ms_pending migrations = [] \<and> ms_unknown migrations = []),
               dr_journalMode = journalMode, dr_busyTimeoutMs = busy, dr_foreignKeys = foreignKeys,
               dr_migrations = migrations, dr_integrity = integrity \<rparr>))"

section \<open>Backup\<close>

definition default_sqlite_backup_path :: "string \<Rightarrow> iso \<Rightarrow> string + string" where
  "default_sqlite_backup_path databasePath now =
     bind_throws (assert_file_database databasePath) (\<lambda>_.
       Inr (databasePath @ ''.backup-'' @ filter (\<lambda>c. c \<notin> set ''-:.TZ'') (to_iso_string now)))"

definition refuse_overwrite :: "string \<Rightarrow> string" where
  "refuse_overwrite path = ''Refusing to overwrite existing SQLite backup: '' @ path"

text \<open>The body of the \<open>try\<close>, on the files with what it leaves; a copy that failed may leave part of a file.\<close>

definition publish_backup :: "file_host \<Rightarrow> string \<Rightarrow> string \<Rightarrow> database_file \<Rightarrow> files \<Rightarrow> (string + string) \<times> files" where
  "publish_backup H temporaryPath destinationPath d fs =
     (case fh_fails H (VacuumInto temporaryPath) of
        Some e \<Rightarrow> (Inl e, fs(temporaryPath \<mapsto> OtherFile))
      | None \<Rightarrow>
          let fs1 = fs(temporaryPath \<mapsto> DbFile d) in
          case fh_fails H (ChangeMode temporaryPath) of
            Some e \<Rightarrow> (Inl e, fs1)
          | None \<Rightarrow>
              (case open_database H temporaryPath fs1 of
                 Inl e \<Rightarrow> (Inl e, fs1)
               | Inr copy \<Rightarrow>
                   let integrity = inspect_sqlite_integrity (fh_integrity H copy) in
                   if \<not> ir_ok integrity
                   then (Inl (''SQLite backup failed integrity verification: '' @ join ''; '' (ir_messages integrity)), fs1)
                   else
                     (case fh_fails H (LinkFile destinationPath) of
                        Some e \<Rightarrow> (Inl (if e = ''EEXIST'' then refuse_overwrite destinationPath else e), fs1)
                      | None \<Rightarrow>
                          if fs1 destinationPath \<noteq> None then (Inl (refuse_overwrite destinationPath), fs1)
                          else
                            let fs2 = fs1(destinationPath \<mapsto> DbFile copy) in
                            case fh_fails H (ChangeMode destinationPath) of
                              Some e \<Rightarrow> (Inl e, fs2(destinationPath := None))
                            | None \<Rightarrow> (Inr destinationPath, fs2))))"

definition create_sqlite_backup_from_connection ::
  "file_host \<Rightarrow> string \<Rightarrow> database_file \<Rightarrow> string \<Rightarrow> files \<Rightarrow> (string + string) \<times> files" where
  "create_sqlite_backup_from_connection H uuid d destinationPath fs =
     (if fs destinationPath \<noteq> None then (Inl (refuse_overwrite destinationPath), fs)
      else
        (case fh_fails H (MakeDirectory destinationPath) of
           Some e \<Rightarrow> (Inl e, fs)
         | None \<Rightarrow>
             let temporaryPath = destinationPath @ ''.tmp-'' @ uuid;
                 (result, fs1) = publish_backup H temporaryPath destinationPath d fs in
             (result, fs1(temporaryPath := None))))"

definition backup_sqlite_database ::
  "file_host \<Rightarrow> string \<Rightarrow> string \<Rightarrow> string \<Rightarrow> files \<Rightarrow> (string + string) \<times> files" where
  "backup_sqlite_database H uuid databasePath destinationPath fs =
     (case assert_file_database databasePath of
        Inl e \<Rightarrow> (Inl e, fs)
      | Inr _ \<Rightarrow>
          if fs databasePath = None then (Inl (''SQLite database does not exist: '' @ databasePath), fs)
          else if fh_resolve H databasePath = fh_resolve H destinationPath
          then (Inl ''SQLite backup destination must differ from the source database'', fs)
          else
            (case open_database H databasePath fs of
               Inl e \<Rightarrow> (Inl e, fs)
             | Inr d \<Rightarrow> create_sqlite_backup_from_connection H uuid d destinationPath fs))"

section \<open>Restore\<close>

record restore_result =
  rr_currentBackupPath :: "string option"
  rr_verifiedEncryptedPayloads :: int
  rr_pendingMigrationIds :: "string list"

fun verify_message :: "verify_error \<Rightarrow> string" where
  "verify_message InvalidLimit = ''SQLite payload verification limit must be a positive integer''"
| "verify_message (LimitExceeded maximum) =
     ''SQLite restore source exceeds the encrypted payload verification limit of '' @ show_int maximum"
| "verify_message (IncompatiblePayload table column rowid) =
     ''SQLite restore source contains a payload incompatible with the configured internal secret ('' @ table @ ''.''
     @ column @ '', rowid '' @ show_int rowid @ '')''"

text \<open>What is checked of the source before any file is touched.\<close>

definition check_restore_source ::
  "file_host \<Rightarrow> (string \<Rightarrow> crypto_error + json) \<Rightarrow> bool \<Rightarrow> int \<Rightarrow> database_file \<Rightarrow> string + (int \<times> string list)" where
  "check_restore_source H parse allowPendingMigrations maximumPayloads d =
     (let integrity = inspect_sqlite_integrity (fh_integrity H d); m = get_sqlite_migration_state migration_ids d in
      if \<not> ir_ok integrity
      then Inl (''SQLite restore source failed integrity verification: '' @ join ''; '' (ir_messages integrity))
      else if ms_unknown m \<noteq> []
      then Inl (''SQLite restore source contains migrations unknown to this WebPerf version: '' @ join '', '' (ms_unknown m))
      else if ms_pending m \<noteq> [] \<and> \<not> allowPendingMigrations
      then Inl (''SQLite restore source is missing required migrations: '' @ join '', '' (ms_pending m))
      else if mg_id encrypted_payload_migration \<in> set (map fst (ms_applied m))
      then (case verify_sqlite_storage_crypto parse maximumPayloads (sd_data d) of
              Inl e \<Rightarrow> Inl (verify_message e)
            | Inr n \<Rightarrow> Inr (n, ms_pending m))
      else Inr (0, ms_pending m))"

definition sidecars :: "string \<Rightarrow> string list" where
  "sidecars databasePath = [databasePath @ ''-wal'', databasePath @ ''-shm'', databasePath @ ''-journal'']"

fun remove_sidecars :: "file_host \<Rightarrow> string list \<Rightarrow> files \<Rightarrow> (string + unit) \<times> files" where
  "remove_sidecars H [] fs = (Inr (), fs)"
| "remove_sidecars H (p # ps) fs =
     (case fh_fails H (RemoveSidecar p) of
        Some e \<Rightarrow> (Inl e, fs)
      | None \<Rightarrow> remove_sidecars H ps (fs(p := None)))"

text \<open>From the snapshot on: an error removes the temporary file.\<close>

definition replace_database :: "file_host \<Rightarrow> string \<Rightarrow> string \<Rightarrow> database_file \<Rightarrow> files \<Rightarrow> (string + unit) \<times> files" where
  "replace_database H temporaryPath databasePath d fs =
     (case fh_fails H (VacuumInto temporaryPath) of
        Some e \<Rightarrow> (Inl e, fs(temporaryPath := None))
      | None \<Rightarrow>
          let fs1 = fs(temporaryPath \<mapsto> DbFile d) in
          case fh_fails H (ChangeMode temporaryPath) of
            Some e \<Rightarrow> (Inl e, fs1(temporaryPath := None))
          | None \<Rightarrow>
              (case open_database H temporaryPath fs1 of
                 Inl e \<Rightarrow> (Inl e, fs1(temporaryPath := None))
               | Inr copy \<Rightarrow>
                   let integrity = inspect_sqlite_integrity (fh_integrity H copy) in
                   if \<not> ir_ok integrity
                   then (Inl (''SQLite restored snapshot failed integrity verification: '' @ join ''; '' (ir_messages integrity)),
                         fs1(temporaryPath := None))
                   else
                     (case remove_sidecars H (sidecars databasePath) fs1 of
                        (Inl e, fs2) \<Rightarrow> (Inl e, fs2(temporaryPath := None))
                      | (Inr _, fs2) \<Rightarrow>
                          (case fh_fails H (RenameFile databasePath) of
                             Some e \<Rightarrow> (Inl e, fs2(temporaryPath := None))
                           | None \<Rightarrow> (Inr (), fs2(databasePath \<mapsto> DbFile copy, temporaryPath := None))))))"

definition backup_current ::
  "file_host \<Rightarrow> string \<Rightarrow> bool \<Rightarrow> iso \<Rightarrow> string \<Rightarrow> files \<Rightarrow> (string + string option) \<times> files" where
  "backup_current H uuid backupCurrent now databasePath fs =
     (if backupCurrent \<and> fs databasePath \<noteq> None
      then (case default_sqlite_backup_path databasePath now of
              Inl e \<Rightarrow> (Inl e, fs)
            | Inr path \<Rightarrow>
                (case backup_sqlite_database H uuid databasePath path fs of
                   (Inl e, fs1) \<Rightarrow> (Inl e, fs1)
                 | (Inr path1, fs1) \<Rightarrow> (Inr (Some path1), fs1)))
      else (Inr None, fs))"

definition restore_sqlite_database ::
  "file_host \<Rightarrow> string \<Rightarrow> string \<Rightarrow> (string \<Rightarrow> crypto_error + json) \<Rightarrow> bool \<Rightarrow> bool \<Rightarrow> int \<Rightarrow> iso \<Rightarrow> string \<Rightarrow> string \<Rightarrow> files
   \<Rightarrow> (string + restore_result) \<times> files" where
  "restore_sqlite_database H backupUuid restoreUuid parse backupCurrent allowPendingMigrations maximumPayloads now
       databasePath sourcePath fs =
     (case assert_file_database databasePath of
        Inl e \<Rightarrow> (Inl e, fs)
      | Inr _ \<Rightarrow>
          if fs sourcePath = None then (Inl (''SQLite restore source does not exist: '' @ sourcePath), fs)
          else if fh_resolve H databasePath = fh_resolve H sourcePath
          then (Inl ''SQLite restore source must differ from the destination database'', fs)
          else
            (case open_database H sourcePath fs of
               Inl e \<Rightarrow> (Inl e, fs)
             | Inr source \<Rightarrow>
                 (case check_restore_source H parse allowPendingMigrations maximumPayloads source of
                    Inl e \<Rightarrow> (Inl e, fs)
                  | Inr (verified, pending) \<Rightarrow>
                      (case backup_current H backupUuid backupCurrent now databasePath fs of
                         (Inl e, fs1) \<Rightarrow> (Inl e, fs1)
                       | (Inr currentBackupPath, fs1) \<Rightarrow>
                           (case fh_fails H (MakeDirectory databasePath) of
                              Some e \<Rightarrow> (Inl e, fs1)
                            | None \<Rightarrow>
                                (case replace_database H (databasePath @ ''.restore-'' @ restoreUuid @ ''.tmp'') databasePath source fs1 of
                                   (Inl e, fs2) \<Rightarrow> (Inl e, fs2)
                                 | (Inr _, fs2) \<Rightarrow>
                                     (Inr \<lparr> rr_currentBackupPath = currentBackupPath, rr_verifiedEncryptedPayloads = verified,
                                            rr_pendingMigrationIds = pending \<rparr>, fs2)))))))"

section \<open>Verification reads every payload\<close>

lemma verify_batch_Inr:
  "verify_batch parse tc m c b = Inr n \<longleftrightarrow>
     (\<forall>r \<in> set b. cell_opens parse (snd tc) r) \<and> n = c + int (length b) \<and> (b \<noteq> [] \<longrightarrow> n \<le> m)"
  by (induction parse tc m c b rule: verify_batch.induct) auto

definition cells_after :: "string \<Rightarrow> int option \<Rightarrow> stored_row list \<Rightarrow> stored_row set" where
  "cells_after column l rows = {r \<in> set rows. after_row l r \<and> has_cell column r}"

lemma verify_rows_Inr:
  "distinct (map sr_rowid rows) \<Longrightarrow>
   verify_rows parse tc m rows l c = Inr n \<longleftrightarrow>
     (\<forall>r \<in> cells_after (snd tc) l rows. cell_opens parse (snd tc) r)
     \<and> n = c + int (card (cells_after (snd tc) l rows)) \<and> (cells_after (snd tc) l rows \<noteq> {} \<longrightarrow> n \<le> m)"
proof (induction parse tc m rows l c arbitrary: n rule: verify_rows.induct)
  case (1 parse tc m rows l c)
  let ?b = "next_batch (has_cell (snd tc)) l rows"
  let ?l = "Some (sr_rowid (last ?b))"
  show ?case
  proof (cases "?b = []")
    case True
    then have "set (sort_key sr_rowid (filter (\<lambda>r. after_row l r \<and> has_cell (snd tc) r) rows)) = {}" by (simp add: next_batch_def)
    then have "cells_after (snd tc) l rows = {}" by (auto simp: cells_after_def)
    with True show ?thesis by (subst verify_rows.simps) auto
  next
    case False
    note parts = next_batch_parts [OF 1(2) False]
    have union: "cells_after (snd tc) l rows = set ?b \<union> cells_after (snd tc) ?l rows"
      using parts(3) by (simp add: cells_after_def)
    have disj: "set ?b \<inter> cells_after (snd tc) ?l rows = {}" using parts(4) by (auto simp: cells_after_def)
    have fin: "finite (cells_after (snd tc) ?l rows)" by (simp add: cells_after_def)
    have "card (set ?b) = length ?b" using parts(2) by (simp add: distinct_card distinct_map)
    with union disj fin have card: "card (cells_after (snd tc) l rows) = length ?b + card (cells_after (snd tc) ?l rows)"
      by (simp add: card_Un_disjoint)
    have ne: "cells_after (snd tc) l rows \<noteq> {}" using union False by simp
    show ?thesis
    proof (cases "verify_batch parse tc m c ?b")
      case (Inl e)
      then have "\<not> ((\<forall>r \<in> set ?b. cell_opens parse (snd tc) r) \<and> c + int (length ?b) \<le> m)"
        using verify_batch_Inr [of parse tc m c ?b "c + int (length ?b)"] by auto
      with False Inl ne union card show ?thesis by (subst verify_rows.simps) auto
    next
      case (Inr c')
      with verify_batch_Inr [of parse tc m c ?b c'] False
      have b: "\<forall>r \<in> set ?b. cell_opens parse (snd tc) r" "c' = c + int (length ?b)" "c' \<le> m" by auto
      have "verify_rows parse tc m rows l c = verify_rows parse tc m rows ?l c'"
        using False Inr by (subst verify_rows.simps) simp
      with 1(1) [OF refl False Inr 1(2), of n] b union card ne show ?thesis
        by (cases "cells_after (snd tc) ?l rows = {}") auto
    qed
  qed
qed

definition column_cells :: "stored_data \<Rightarrow> string \<times> string \<Rightarrow> stored_row set" where
  "column_cells d tc = (case d (fst tc) of None \<Rightarrow> {} | Some rows \<Rightarrow> {r \<in> set rows. has_cell (snd tc) r})"

definition count_payloads :: "stored_data \<Rightarrow> (string \<times> string) list \<Rightarrow> int" where
  "count_payloads d tcs = (\<Sum>tc \<leftarrow> tcs. int (card (column_cells d tc)))"

definition distinct_rowids :: "stored_data \<Rightarrow> bool" where
  "distinct_rowids d \<longleftrightarrow> (\<forall>t rows. d t = Some rows \<longrightarrow> distinct (map sr_rowid rows))"

lemma verify_columns_Inr:
  "distinct_rowids d \<Longrightarrow> c \<le> m \<Longrightarrow>
   verify_columns parse m d tcs c = Inr n \<longleftrightarrow>
     (\<forall>tc \<in> set tcs. \<forall>r \<in> column_cells d tc. cell_opens parse (snd tc) r) \<and> n = c + count_payloads d tcs \<and> n \<le> m"
proof (induction parse m d tcs c rule: verify_columns.induct)
  case (2 parse m d tc rest c)
  have nonneg: "0 \<le> count_payloads d tcs" for tcs
    by (induction tcs) (auto simp: count_payloads_def)
  show ?case
  proof (cases "d (fst tc)")
    case None
    with 2 show ?thesis by (simp add: column_cells_def count_payloads_def)
  next
    case (Some rows)
    then have cells: "cells_after (snd tc) None rows = column_cells d tc" and dist: "distinct (map sr_rowid rows)"
      using 2(3) by (auto simp: cells_after_def column_cells_def after_row_def distinct_rowids_def)
    note v = verify_rows_Inr [OF dist, of parse tc m None c, unfolded cells]
    show ?thesis
    proof (cases "verify_rows parse tc m rows None c")
      case (Inl e)
      then have "\<not> ((\<forall>r \<in> column_cells d tc. cell_opens parse (snd tc) r) \<and> c + int (card (column_cells d tc)) \<le> m)"
        using v [of "c + int (card (column_cells d tc))"] by auto
      with Some Inl nonneg [of rest] show ?thesis by (auto simp: count_payloads_def)
    next
      case (Inr c')
      with v [of c'] 2(4) have c': "\<forall>r \<in> column_cells d tc. cell_opens parse (snd tc) r"
        "c' = c + int (card (column_cells d tc))" "c' \<le> m" by (cases "column_cells d tc = {}", auto)+
      with 2(2) [OF Some Inr 2(3) c'(3)] Some Inr show ?thesis by (auto simp: count_payloads_def add.assoc)
    qed
  qed
qed (auto simp: count_payloads_def)

section \<open>What backup and restore leave\<close>

definition temporary_free :: "string \<Rightarrow> files \<Rightarrow> bool" where
  "temporary_free uuid fs \<longleftrightarrow> (\<forall>p. fs (p @ ''.tmp-'' @ uuid) = None)"

lemma open_database_Inr: "open_database H p fs = Inr d \<Longrightarrow> fs p = Some (DbFile d)"
  by (auto simp: open_database_def split: option.splits file_entry.splits)

lemma create_backup_facts:
  assumes "create_sqlite_backup_from_connection H uuid d dest fs = (result, fs')" and "temporary_free uuid fs"
  shows "(\<forall>e. result = Inl e \<longrightarrow> fs' = fs)
    \<and> (\<forall>p. result = Inr p \<longrightarrow> p = dest \<and> fs dest = None \<and> fs' = fs(dest \<mapsto> DbFile d))"
proof -
  let ?t = "dest @ ''.tmp-'' @ uuid"
  have t: "fs ?t = None" "?t \<noteq> dest" using assms(2) by (auto simp: temporary_free_def)
  then show ?thesis
    using assms(1)
    by (auto simp: create_sqlite_backup_from_connection_def publish_backup_def Let_def fun_upd_idem_iff fun_upd_twist
        dest!: open_database_Inr split: if_splits option.splits sum.splits prod.splits)
qed

lemma backup_facts:
  assumes "backup_sqlite_database H uuid databasePath dest fs = (result, fs')" and "temporary_free uuid fs"
  shows "(\<forall>e. result = Inl e \<longrightarrow> fs' = fs)
    \<and> (\<forall>p. result = Inr p \<longrightarrow> p = dest \<and> fs dest = None \<and> fs databasePath \<noteq> None \<and> fs' = fs(dest := fs databasePath))"
  using assms
  by (auto simp: backup_sqlite_database_def dest!: open_database_Inr dest: create_backup_facts
      split: if_splits sum.splits)

lemma backup_current_facts:
  assumes "backup_current H uuid wanted now databasePath fs = (result, fs')" and "temporary_free uuid fs"
  shows "(\<forall>e. result = Inl e \<longrightarrow> fs' = fs)
    \<and> (\<forall>b. result = Inr b \<longrightarrow> (if wanted \<and> fs databasePath \<noteq> None
         then \<exists>p. b = Some p \<and> default_sqlite_backup_path databasePath now = Inr p \<and> fs p = None \<and> fs' = fs(p := fs databasePath)
         else b = None \<and> fs' = fs))"
  using assms
  by (auto simp: backup_current_def dest: backup_facts split: if_splits sum.splits prod.splits)

lemma remove_sidecars_facts:
  "remove_sidecars H ps fs = (result, fs') \<Longrightarrow>
     (\<forall>p. fs' p = fs p \<or> p \<in> set ps \<and> fs' p = None) \<and> (\<forall>u. result = Inr u \<longrightarrow> (\<forall>p \<in> set ps. fs' p = None))"
proof (induction H ps fs rule: remove_sidecars.induct)
  case (2 H p ps fs)
  show ?case
  proof (cases "fh_fails H (RemoveSidecar p)")
    case None
    with 2(2) have r: "remove_sidecars H ps (fs(p := None)) = (result, fs')" by simp
    from 2(1) [OF None r] have IH: "(fs' q = (fs(p := None)) q \<or> q \<in> set ps \<and> fs' q = None)"
      "result = Inr u \<Longrightarrow> \<forall>q \<in> set ps. fs' q = None" for q u by blast+
    have "fs' p = None" using IH(1) [of p] by auto
    moreover have "fs' q = fs q \<or> q \<in> set (p # ps) \<and> fs' q = None" for q
      using IH(1) [of q] by (cases "q = p") auto
    ultimately show ?thesis using IH(2) by auto
  qed (use 2(2) in auto)
qed simp

lemma replace_database_facts:
  assumes "replace_database H t databasePath d fs = (result, fs')" and "fs t = None" and "t \<noteq> databasePath"
    and "t \<notin> set (sidecars databasePath)"
  shows "(\<forall>e. result = Inl e \<longrightarrow> (\<forall>p. fs' p = fs p \<or> p \<in> set (sidecars databasePath) \<and> fs' p = None))
    \<and> (\<forall>u. result = Inr u \<longrightarrow> fs' databasePath = Some (DbFile d) \<and> (\<forall>p \<in> set (sidecars databasePath). fs' p = None)
         \<and> (\<forall>p. p \<noteq> databasePath \<and> p \<notin> set (sidecars databasePath) \<longrightarrow> fs' p = fs p))"
proof -
  let ?fs1 = "fs(t \<mapsto> DbFile d)"
  have sc: "databasePath \<notin> set (sidecars databasePath)" by (simp add: sidecars_def)
  obtain r fs2 where rm: "remove_sidecars H (sidecars databasePath) ?fs1 = (r, fs2)" by fastforce
  note rf = remove_sidecars_facts [OF rm]
  have keep: "(fs2(t := None)) p = fs p \<or> p \<in> set (sidecars databasePath) \<and> (fs2(t := None)) p = None" for p
    using rf assms(2) by (cases "p = t") (auto dest: spec [of _ p])
  have out: "(fs2(t := None)) p = fs p" if "p \<notin> set (sidecars databasePath)" for p using keep [of p] that by blast
  show ?thesis
  proof (cases "\<exists>u. result = Inr u")
    case True
    with assms(1) rm have "\<exists>u. r = Inr u" and fs': "fs' = fs2(databasePath \<mapsto> DbFile d, t := None)"
      by (auto simp: replace_database_def Let_def dest!: open_database_Inr split: option.splits sum.splits if_splits)
    with rf have none: "\<forall>p \<in> set (sidecars databasePath). fs2 p = None" by blast
    have "fs' p = fs p" if "p \<noteq> databasePath" "p \<notin> set (sidecars databasePath)" for p
      using out [OF that(2)] that(1) assms(2) by (cases "p = t") (simp_all add: fs')
    with none assms(3) sc True show ?thesis by (auto simp: fs')
  next
    case False
    then obtain e where e: "result = Inl e" by (cases result) auto
    have "fs' = fs \<or> fs' = fs2(t := None)"
      using assms(1,2) rm e
      by (auto simp: replace_database_def Let_def fun_upd_idem_iff split: option.splits sum.splits if_splits)
    then have "fs' p = fs p \<or> p \<in> set (sidecars databasePath) \<and> fs' p = None" for p
      using keep [of p] by (cases "fs' = fs") (simp, metis)
    with e show ?thesis by blast
  qed
qed

section \<open>Properties\<close>

text \<open>The verification of a database opens every stored payload, whatever the size of its tables: it
  returns exactly when its limit is valid, every payload and error column of every row can be read with the
  configured secrets, and there are at most as many as the limit; the number it returns is theirs.\<close>

theorem verification_opens_every_payload:
  assumes "distinct_rowids d"
  shows "verify_sqlite_storage_crypto parse maximum d = Inr n \<longleftrightarrow>
    is_safe_integer maximum \<and> 1 \<le> maximum
    \<and> (\<forall>tc \<in> set persisted_payload_columns. \<forall>r \<in> column_cells d tc. cell_opens parse (snd tc) r)
    \<and> n = count_payloads d persisted_payload_columns \<and> n \<le> maximum"
  using verify_columns_Inr [OF assms, of 0 maximum parse persisted_payload_columns n]
  by (cases "is_safe_integer maximum \<and> 1 \<le> maximum") (auto simp: verify_sqlite_storage_crypto_def simp del: verify_columns.simps)

lemma check_source_Inr:
  assumes "check_restore_source H parse allow maximum d = Inr (n, pending)"
  shows "ir_ok (inspect_sqlite_integrity (fh_integrity H d))" "applied_ids d \<subseteq> set migration_ids"
    "pending = filter (\<lambda>i. i \<notin> applied_ids d) migration_ids" "pending = [] \<or> allow"
    "if mg_id encrypted_payload_migration \<in> applied_ids d
     then verify_sqlite_storage_crypto parse maximum (sd_data d) = Inr n else n = 0"
proof -
  have a: "set (map fst (ms_applied (get_sqlite_migration_state migration_ids d))) = applied_ids d"
    by (auto simp: applied_ids_def get_sqlite_migration_state_def Let_def)
  show "ir_ok (inspect_sqlite_integrity (fh_integrity H d))" "applied_ids d \<subseteq> set migration_ids"
    "pending = filter (\<lambda>i. i \<notin> applied_ids d) migration_ids" "pending = [] \<or> allow"
    "if mg_id encrypted_payload_migration \<in> applied_ids d
     then verify_sqlite_storage_crypto parse maximum (sd_data d) = Inr n else n = 0"
    using assms unfolding check_restore_source_def Let_def a
    by (auto simp: state_sets split: if_splits sum.splits)
qed

lemma restore_replaces_or_keeps_parts:
  assumes run: "restore_sqlite_database H backupUuid restoreUuid parse backupCurrent allow maximum now databasePath sourcePath fs
      = (result, fs')"
    and fresh: "temporary_free backupUuid fs" "fs (databasePath @ ''.restore-'' @ restoreUuid @ ''.tmp'') = None"
  shows "result = Inl e \<Longrightarrow> \<forall>p. fs' p = fs p \<or> p \<in> set (sidecars databasePath) \<and> fs' p = None
           \<or> default_sqlite_backup_path databasePath now = Inr p \<and> fs p = None \<and> fs' p = fs databasePath"
    and "result = Inr r \<Longrightarrow> \<exists>s. fs sourcePath = Some (DbFile s) \<and> fs' databasePath = Some (DbFile s)
           \<and> ir_ok (inspect_sqlite_integrity (fh_integrity H s)) \<and> applied_ids s \<subseteq> set migration_ids
           \<and> rr_pendingMigrationIds r = filter (\<lambda>i. i \<notin> applied_ids s) migration_ids
           \<and> (rr_pendingMigrationIds r = [] \<or> allow)
           \<and> (mg_id encrypted_payload_migration \<in> applied_ids s \<longrightarrow>
                verify_sqlite_storage_crypto parse maximum (sd_data s) = Inr (rr_verifiedEncryptedPayloads r))
           \<and> (backupCurrent \<and> fs databasePath \<noteq> None \<longrightarrow>
                (\<exists>b. rr_currentBackupPath r = Some b \<and> fs b = None \<and> fs' b = fs databasePath))"
proof -
  let ?t = "databasePath @ ''.restore-'' @ restoreUuid @ ''.tmp''"
  have bp: "p \<noteq> databasePath" "p \<noteq> ?t" "p \<notin> set (sidecars databasePath)" if "default_sqlite_backup_path databasePath now = Inr p" for p
    using that by (auto simp: default_sqlite_backup_path_def bind_throws_Inr_iff sidecars_def)
  have t: "?t \<noteq> databasePath" "?t \<notin> set (sidecars databasePath)" by (simp_all add: sidecars_def)
  consider (early) m where "result = Inl m" "fs' = fs"
    | (backup) m fs1 where "result = Inl m" "backup_current H backupUuid backupCurrent now databasePath fs = (Inl m, fs1)" "fs' = fs1"
    | (directory) m cb where "result = Inl m" "backup_current H backupUuid backupCurrent now databasePath fs = (Inr cb, fs')"
    | (replace) s n pending cb fs1 q where "open_database H sourcePath fs = Inr s"
        "check_restore_source H parse allow maximum s = Inr (n, pending)"
        "backup_current H backupUuid backupCurrent now databasePath fs = (Inr cb, fs1)"
        "replace_database H ?t databasePath s fs1 = (q, fs')"
        "case q of Inl m \<Rightarrow> result = Inl m | Inr _ \<Rightarrow> result = Inr \<lparr> rr_currentBackupPath = cb,
           rr_verifiedEncryptedPayloads = n, rr_pendingMigrationIds = pending \<rparr>"
    using run by (auto simp: restore_sqlite_database_def split: sum.splits prod.splits if_splits option.splits)
  then have "(\<forall>e. result = Inl e \<longrightarrow> (\<forall>p. fs' p = fs p \<or> p \<in> set (sidecars databasePath) \<and> fs' p = None
           \<or> default_sqlite_backup_path databasePath now = Inr p \<and> fs p = None \<and> fs' p = fs databasePath))
    \<and> (\<forall>r. result = Inr r \<longrightarrow> (\<exists>s. fs sourcePath = Some (DbFile s) \<and> fs' databasePath = Some (DbFile s)
           \<and> ir_ok (inspect_sqlite_integrity (fh_integrity H s)) \<and> applied_ids s \<subseteq> set migration_ids
           \<and> rr_pendingMigrationIds r = filter (\<lambda>i. i \<notin> applied_ids s) migration_ids
           \<and> (rr_pendingMigrationIds r = [] \<or> allow)
           \<and> (mg_id encrypted_payload_migration \<in> applied_ids s \<longrightarrow>
                verify_sqlite_storage_crypto parse maximum (sd_data s) = Inr (rr_verifiedEncryptedPayloads r))
           \<and> (backupCurrent \<and> fs databasePath \<noteq> None \<longrightarrow>
                (\<exists>b. rr_currentBackupPath r = Some b \<and> fs b = None \<and> fs' b = fs databasePath))))"
  proof cases
    case backup
    with backup_current_facts [OF backup(2) fresh(1)] show ?thesis by simp
  next
    case directory
    with backup_current_facts [OF directory(2) fresh(1)] show ?thesis by (auto split: if_splits)
  next
    case replace
    note b = backup_current_facts [OF replace(3) fresh(1)]
    have fs1: "fs1 p = fs p \<or> default_sqlite_backup_path databasePath now = Inr p \<and> fs p = None \<and> fs1 p = fs databasePath" for p
      using b by (auto split: if_splits)
    have "fs1 ?t = None" using fs1 [of ?t] fresh(2) bp by auto
    note r = replace_database_facts [OF replace(4) this t]
    show ?thesis
    proof (cases q)
      case (Inl m)
      have "fs' p = fs p \<or> p \<in> set (sidecars databasePath) \<and> fs' p = None
          \<or> default_sqlite_backup_path databasePath now = Inr p \<and> fs p = None \<and> fs' p = fs databasePath" for p
      proof -
        from r Inl have "fs' p = fs1 p \<or> p \<in> set (sidecars databasePath) \<and> fs' p = None" by simp
        with fs1 [of p] show ?thesis by auto
      qed
      with replace(5) Inl show ?thesis by simp
    next
      case (Inr u)
      note c = check_source_Inr [OF replace(2)] and res = replace(5) [unfolded Inr sum.case]
      have "\<exists>x. cb = Some x \<and> fs x = None \<and> fs' x = fs databasePath" if "backupCurrent" "fs databasePath \<noteq> None"
      proof -
        from b that obtain x where x: "cb = Some x" "default_sqlite_backup_path databasePath now = Inr x" "fs x = None"
          "fs1 = fs(x := fs databasePath)" by auto
        with bp [OF x(2)] r Inr show ?thesis by simp
      qed
      with open_database_Inr [OF replace(1)] r Inr c res show ?thesis by (auto split: if_splits)
    qed
  qed simp
  then show "result = Inl e \<Longrightarrow> \<forall>p. fs' p = fs p \<or> p \<in> set (sidecars databasePath) \<and> fs' p = None
           \<or> default_sqlite_backup_path databasePath now = Inr p \<and> fs p = None \<and> fs' p = fs databasePath"
    and "result = Inr r \<Longrightarrow> \<exists>s. fs sourcePath = Some (DbFile s) \<and> fs' databasePath = Some (DbFile s)
           \<and> ir_ok (inspect_sqlite_integrity (fh_integrity H s)) \<and> applied_ids s \<subseteq> set migration_ids
           \<and> rr_pendingMigrationIds r = filter (\<lambda>i. i \<notin> applied_ids s) migration_ids
           \<and> (rr_pendingMigrationIds r = [] \<or> allow)
           \<and> (mg_id encrypted_payload_migration \<in> applied_ids s \<longrightarrow>
                verify_sqlite_storage_crypto parse maximum (sd_data s) = Inr (rr_verifiedEncryptedPayloads r))
           \<and> (backupCurrent \<and> fs databasePath \<noteq> None \<longrightarrow>
                (\<exists>b. rr_currentBackupPath r = Some b \<and> fs b = None \<and> fs' b = fs databasePath))"
    by blast+
qed


section \<open>Witnesses\<close>

definition demo_files_host :: file_host where
  "demo_files_host = \<lparr> fh_fails = (\<lambda>_. None), fh_integrity = (\<lambda>_. ([''ok''], 0)), fh_resolve = (\<lambda>p. p) \<rparr>"

definition demo_current :: database_file where
  "demo_current = \<lparr> sd_migrations = None, sd_data = (\<lambda>_. None) \<rparr>"

definition demo_source :: database_file where
  "demo_source = \<lparr> sd_migrations = Some [(''20260722_000_initial_schema'', 0)], sd_data = (\<lambda>_. None) \<rparr>"

definition demo_files :: files where
  "demo_files = [''db'' \<mapsto> DbFile demo_current, ''old'' \<mapsto> DbFile demo_source]"

lemma demo_check_source: "check_restore_source demo_files_host parse True 10 demo_source
    = Inr (0, filter (\<lambda>i. i \<noteq> ''20260722_000_initial_schema'') migration_ids)"
proof -
  have s: "ms_applied (get_sqlite_migration_state migration_ids demo_source) = [(''20260722_000_initial_schema'', 0)]"
    "ms_unknown (get_sqlite_migration_state migration_ids demo_source) = []"
    "ms_pending (get_sqlite_migration_state migration_ids demo_source)
       = filter (\<lambda>i. i \<noteq> ''20260722_000_initial_schema'') migration_ids"
    by (simp_all add: get_sqlite_migration_state_def demo_source_def Let_def migration_ids_def)
  have "ir_ok (inspect_sqlite_integrity (fh_integrity demo_files_host demo_source))"
    by (simp add: inspect_sqlite_integrity_def demo_files_host_def js_lower_def lower_char_def is_upper_def)
  with s show ?thesis by (simp add: check_restore_source_def encrypted_payload_migration_def)
qed

lemma demo_hosted: "fh_fails demo_files_host x = None" "fh_resolve demo_files_host p = p" "demo_files ''old'' = Some (DbFile demo_source)"
  by (simp_all add: demo_files_host_def demo_files_def)

lemma demo_replaces: "\<exists>fs'. replace_database demo_files_host t databasePath d fs = (Inr (), fs')"
proof -
  have "ir_ok (inspect_sqlite_integrity (fh_integrity demo_files_host d))" for d
    by (simp add: inspect_sqlite_integrity_def demo_files_host_def js_lower_def lower_char_def is_upper_def)
  then show ?thesis by (simp add: replace_database_def demo_hosted open_database_def sidecars_def)
qed


theorem verification_opens_every_payload_witness:
  "verify_sqlite_storage_crypto (parse_payload demo_crypto (mc_crypto demo_migration_context) True) 5 demo_stored = Inr 3"
proof -
  let ?parse = "parse_payload demo_crypto (mc_crypto demo_migration_context) True"
  let ?r = "\<lparr> sr_rowid = 1, sr_cells = [''payload_json'' \<mapsto> ''true''] \<rparr>"
  have dist: "distinct_rowids demo_stored" by (simp add: distinct_rowids_def demo_stored_def)
  have "?parse ''true'' = Inr (JBool True)"
    by (simp add: parse_payload_def is_encrypted_envelope_def starts_with_def current_envelope_prefix_def
        legacy_envelope_prefix_def read_json_def demo_crypto_def)
  then have opens: "cell_opens ?parse ''payload_json'' ?r" by (simp add: cell_opens_def)
  have cells: "column_cells demo_stored (t, c) = (if t \<in> set encrypted_tables \<and> c = ''payload_json'' then {?r} else {})" for t c
    by (auto simp: column_cells_def demo_stored_def has_cell_def split: if_splits)
  have "count_payloads demo_stored persisted_payload_columns = 3"
    by (simp add: count_payloads_def persisted_payload_columns_def cells encrypted_tables_def)
  moreover have "\<forall>tc \<in> set persisted_payload_columns. \<forall>r \<in> column_cells demo_stored tc. cell_opens ?parse (snd tc) r"
    using opens by (auto simp: persisted_payload_columns_def cells)
  ultimately show ?thesis
    by (simp add: verification_opens_every_payload [OF dist] is_safe_integer_def)
qed

end
