(* ===== verification/Process_Heartbeat.thy ===== *)
theory Process_Heartbeat
  imports Js_Base
begin

text \<open>
  The heartbeat file of the worker processes (\<open>packages/config/src/selfhost-process-heartbeat.ts\<close>): a state machine over
  the directory of the heartbeat. A write is a run of its own, which goes on after the deadline has ended the wait for
  it, so several runs can be under way; a step advances one run by one file system call, whose success is an argument.
  Timers fire at or after their time on \<open>hb_clock\<close>; what \<open>Date.now()\<close> answers is an argument and may go backwards.
  Files are keyed by their name in the directory. Other processes do not touch the directory.
\<close>

section \<open>Settings\<close>

datatype heartbeat_refusal = EmptyHeartbeatPath | BadHeartbeatInterval | BadReportInterval | BadWriteTimeout

record heartbeat_config =
  hc_path :: string
  hc_intervalMs :: int
  hc_failureReportIntervalMs :: int
  hc_writeTimeoutMs :: int

definition heartbeat_defaults :: "string \<Rightarrow> heartbeat_config" where
  "heartbeat_defaults p =
     \<lparr> hc_path = p, hc_intervalMs = 10000, hc_failureReportIntervalMs = 5 * 60000, hc_writeTimeoutMs = 5000 \<rparr>"

definition positive_integer :: "int \<Rightarrow> bool" where
  "positive_integer n = (is_safe_integer n \<and> \<not> n < 1)"

definition check_heartbeat_config :: "heartbeat_config \<Rightarrow> heartbeat_refusal + heartbeat_config" where
  "check_heartbeat_config c =
     (let normalizedPath = js_trim (hc_path c) in
      if normalizedPath = [] then Inl EmptyHeartbeatPath
      else if \<not> positive_integer (hc_intervalMs c) then Inl BadHeartbeatInterval
      else if \<not> positive_integer (hc_failureReportIntervalMs c) then Inl BadReportInterval
      else if \<not> positive_integer (hc_writeTimeoutMs c) then Inl BadWriteTimeout
      else Inr (c\<lparr>hc_path := normalizedPath\<rparr>))"

lemma checked_config_is_positive:
  "check_heartbeat_config c = Inr d \<Longrightarrow>
     1 \<le> hc_intervalMs d \<and> 1 \<le> hc_failureReportIntervalMs d \<and> 1 \<le> hc_writeTimeoutMs d \<and> hc_path d = js_trim (hc_path c)
     \<and> hc_path d \<noteq> []"
  by (auto simp: check_heartbeat_config_def positive_integer_def Let_def split: if_splits)

section \<open>One write\<close>

text \<open>\<open>writePrivateHeartbeatFile\<close>: the next call of the run. \<open>ClosingAfter\<close> and \<open>Unlinking\<close> are the two calls of the
  \<open>finally\<close> block, whose failures are swallowed.\<close>

datatype write_phase = Opening | Restricting | Filling | Syncing | Closing | Renaming | ClosingAfter | Unlinking | Ended

record write_run =
  wr_temporary :: string
  wr_contents :: string
  wr_phase :: write_phase
  wr_published :: bool
  wr_aborted :: bool
  wr_checked :: bool
  wr_littered :: bool

type_synonym directory = "string \<rightharpoonup> string"

definition temporary_name :: "string \<Rightarrow> nat \<Rightarrow> string \<Rightarrow> string" where
  "temporary_name base pid uuid = ''.'' @ base @ ''.'' @ show_nat pid @ ''.'' @ uuid @ ''.tmp''"

definition new_run :: "string \<Rightarrow> string \<Rightarrow> write_run" where
  "new_run t contents =
     \<lparr> wr_temporary = t, wr_contents = contents, wr_phase = Opening, wr_published = False, wr_aborted = False,
       wr_checked = False, wr_littered = False \<rparr>"

text \<open>The answer of \<open>handle.close\<close> and the abort check are one step: \<open>rename\<close> is called in the same turn as
  \<open>throwIfAborted\<close>. \<open>wr_checked\<close> records that the check passed, \<open>wr_littered\<close> that \<open>unlink\<close> failed.\<close>

definition advance_run :: "string \<Rightarrow> bool \<Rightarrow> write_run \<Rightarrow> directory \<Rightarrow> write_run \<times> directory" where
  "advance_run base succeeds r d =
     (let t = wr_temporary r in
      case wr_phase r of
        Opening \<Rightarrow> if succeeds \<and> d t = None then (r\<lparr>wr_phase := Restricting\<rparr>, d(t \<mapsto> [])) else (r\<lparr>wr_phase := Ended\<rparr>, d)
      | Restricting \<Rightarrow> (r\<lparr>wr_phase := if succeeds then Filling else ClosingAfter\<rparr>, d)
      | Filling \<Rightarrow>
          if succeeds then (r\<lparr>wr_phase := Syncing\<rparr>, d(t \<mapsto> wr_contents r)) else (r\<lparr>wr_phase := ClosingAfter\<rparr>, d)
      | Syncing \<Rightarrow> (r\<lparr>wr_phase := if succeeds then Closing else ClosingAfter\<rparr>, d)
      | Closing \<Rightarrow>
          if \<not> succeeds then (r\<lparr>wr_phase := ClosingAfter\<rparr>, d)
          else if wr_aborted r then (r\<lparr>wr_phase := Unlinking\<rparr>, d)
          else (r\<lparr>wr_phase := Renaming, wr_checked := True\<rparr>, d)
      | Renaming \<Rightarrow>
          if succeeds then (r\<lparr>wr_phase := Ended, wr_published := True\<rparr>, (d(base := d t))(t := None))
          else (r\<lparr>wr_phase := Unlinking\<rparr>, d)
      | ClosingAfter \<Rightarrow> (r\<lparr>wr_phase := Unlinking\<rparr>, d)
      | Unlinking \<Rightarrow>
          if succeeds then (r\<lparr>wr_phase := Ended\<rparr>, d(t := None)) else (r\<lparr>wr_phase := Ended, wr_littered := True\<rparr>, d)
      | Ended \<Rightarrow> (r, d))"

section \<open>The process\<close>

text \<open>\<open>Starting\<close> waits for the first write; \<open>Failed\<close> is a rejected start. \<open>hb_awaited\<close> is the run the process waits
  for, by its number, with its deadline; \<open>hb_reports\<close> the times of the failure reports, the latest first.\<close>

datatype heartbeat_phase = Starting | Beating | Failed

record beat_state =
  hb_phase :: heartbeat_phase
  hb_clock :: int
  hb_stopped :: bool
  hb_timer :: "int option"
  hb_awaited :: "(nat \<times> int) option"
  hb_runs :: "write_run list"
  hb_lastFailureReportedAt :: "int option"
  hb_reports :: "int list"
  hb_files :: directory

definition report_write_failure :: "heartbeat_config \<Rightarrow> int \<Rightarrow> beat_state \<Rightarrow> beat_state" where
  "report_write_failure c now s =
     (case hb_lastFailureReportedAt s of
        Some last_at \<Rightarrow>
          if now - last_at < hc_failureReportIntervalMs c then s
          else s\<lparr>hb_lastFailureReportedAt := Some now, hb_reports := now # hb_reports s\<rparr>
      | None \<Rightarrow> s\<lparr>hb_lastFailureReportedAt := Some now, hb_reports := now # hb_reports s\<rparr>)"

definition schedule_next_write :: "heartbeat_config \<Rightarrow> beat_state \<Rightarrow> beat_state" where
  "schedule_next_write c s = (if hb_stopped s then s else s\<lparr>hb_timer := Some (hb_clock s + hc_intervalMs c)\<rparr>)"

text \<open>\<open>writeHeartbeatWithinDeadline\<close> up to the race.\<close>

definition begin_write :: "heartbeat_config \<Rightarrow> int \<Rightarrow> string \<Rightarrow> beat_state \<Rightarrow> beat_state" where
  "begin_write c wall t s =
     s\<lparr>hb_timer := None, hb_runs := hb_runs s @ [new_run t (show_int wall @ [CHR 0x0A])],
       hb_awaited := Some (length (hb_runs s), hb_clock s + hc_writeTimeoutMs c)\<rparr>"

definition start_heartbeat :: "heartbeat_config \<Rightarrow> int \<Rightarrow> int \<Rightarrow> string \<Rightarrow> directory \<Rightarrow> beat_state" where
  "start_heartbeat c clock wall t d =
     begin_write c wall t
       \<lparr> hb_phase = Starting, hb_clock = clock, hb_stopped = False, hb_timer = None, hb_awaited = None, hb_runs = [],
         hb_lastFailureReportedAt = None, hb_reports = [], hb_files = d \<rparr>"

text \<open>What follows the race: the start returns or rejects; a periodic write reports its failure and schedules the next.\<close>

definition settle_write :: "heartbeat_config \<Rightarrow> int \<Rightarrow> bool \<Rightarrow> beat_state \<Rightarrow> beat_state" where
  "settle_write c wall succeeded s0 =
     (let s = s0\<lparr>hb_awaited := None\<rparr> in
      case hb_phase s of
        Starting \<Rightarrow> if succeeded then schedule_next_write c (s\<lparr>hb_phase := Beating\<rparr>) else s\<lparr>hb_phase := Failed\<rparr>
      | _ \<Rightarrow> schedule_next_write c (if succeeded then s else report_write_failure c wall s))"

definition abort_run :: "nat \<Rightarrow> beat_state \<Rightarrow> beat_state" where
  "abort_run i s = s\<lparr>hb_runs := (hb_runs s)[i := (hb_runs s ! i)\<lparr>wr_aborted := True\<rparr>]\<rparr>"

definition advance_write :: "string \<Rightarrow> nat \<Rightarrow> bool \<Rightarrow> beat_state \<Rightarrow> beat_state" where
  "advance_write base i succeeds s =
     (let (r, d) = advance_run base succeeds (hb_runs s ! i) (hb_files s) in
      s\<lparr>hb_runs := (hb_runs s)[i := r], hb_files := d\<rparr>)"

definition stop_beating :: "beat_state \<Rightarrow> beat_state" where
  "stop_beating s = s\<lparr>hb_stopped := True, hb_timer := None\<rparr>"

text \<open>\<open>randomUUID\<close> gives a temporary name no run of the process had before.\<close>

definition fresh_temporary :: "string \<Rightarrow> string \<Rightarrow> beat_state \<Rightarrow> bool" where
  "fresh_temporary base t s =
     ((\<exists>pid uuid. t = temporary_name base pid uuid) \<and> t \<notin> wr_temporary ` set (hb_runs s))"

inductive heartbeat_step :: "heartbeat_config \<Rightarrow> string \<Rightarrow> beat_state \<Rightarrow> beat_state \<Rightarrow> bool"
  for c base where
  passes: "heartbeat_step c base s (s\<lparr>hb_clock := hb_clock s + 1\<rparr>)"
| fires: "hb_timer s = Some due \<Longrightarrow> due \<le> hb_clock s \<Longrightarrow> fresh_temporary base t s
    \<Longrightarrow> heartbeat_step c base s (begin_write c wall t s)"
| advances: "i < length (hb_runs s) \<Longrightarrow> heartbeat_step c base s (advance_write base i succeeds s)"
| settles: "hb_awaited s = Some (i, deadline) \<Longrightarrow> wr_phase (hb_runs s ! i) = Ended
    \<Longrightarrow> heartbeat_step c base s (settle_write c wall (wr_published (hb_runs s ! i)) s)"
| expires: "hb_awaited s = Some (i, deadline) \<Longrightarrow> deadline \<le> hb_clock s
    \<Longrightarrow> heartbeat_step c base s (settle_write c wall False (abort_run i s))"
| stops: "hb_phase s = Beating \<Longrightarrow> heartbeat_step c base s (stop_beating s)"

inductive heartbeat_reachable :: "heartbeat_config \<Rightarrow> string \<Rightarrow> directory \<Rightarrow> beat_state \<Rightarrow> bool"
  for c base d where
  starts: "t = temporary_name base pid uuid \<Longrightarrow> heartbeat_reachable c base d (start_heartbeat c clock wall t d)"
| steps: "heartbeat_reachable c base d s \<Longrightarrow> heartbeat_step c base s s' \<Longrightarrow> heartbeat_reachable c base d s'"

section \<open>Invariants\<close>

text \<open>Where a run is in its file: while it is open its temporary file exists, and it holds the contents once they are
  written.\<close>

definition run_ok :: "directory \<Rightarrow> write_run \<Rightarrow> bool" where
  "run_ok d r =
     ((wr_phase r \<in> {Restricting, Filling, Syncing, Closing, Renaming, ClosingAfter, Unlinking} \<longrightarrow> d (wr_temporary r) \<noteq> None)
      \<and> (wr_phase r \<in> {Syncing, Closing, Renaming} \<longrightarrow> d (wr_temporary r) = Some (wr_contents r))
      \<and> (wr_phase r = Renaming \<longrightarrow> wr_checked r)
      \<and> (wr_published r \<longrightarrow> wr_phase r = Ended \<and> wr_checked r))"

text \<open>A run leaves its temporary file as it found it, unless \<open>unlink\<close> failed.\<close>

definition run_clean :: "directory \<Rightarrow> directory \<Rightarrow> write_run \<Rightarrow> bool" where
  "run_clean d0 d r =
     (case wr_phase r of
        Opening \<Rightarrow> d (wr_temporary r) = d0 (wr_temporary r)
      | Ended \<Rightarrow> wr_littered r \<or> d (wr_temporary r) = d0 (wr_temporary r)
      | _ \<Rightarrow> d0 (wr_temporary r) = None)"

definition heartbeat_files_ok :: "string \<Rightarrow> directory \<Rightarrow> beat_state \<Rightarrow> bool" where
  "heartbeat_files_ok base d0 s =
     (distinct (map wr_temporary (hb_runs s)) \<and> base \<notin> wr_temporary ` set (hb_runs s)
      \<and> (\<forall>r \<in> set (hb_runs s). run_ok (hb_files s) r \<and> run_clean d0 (hb_files s) r)
      \<and> (\<forall>n. n \<noteq> base \<and> n \<notin> wr_temporary ` set (hb_runs s) \<longrightarrow> hb_files s n = d0 n)
      \<and> (hb_files s base = d0 base
         \<or> (\<exists>r \<in> set (hb_runs s). wr_published r \<and> hb_files s base = Some (wr_contents r))))"

text \<open>The life of the process, and the distance of its failure reports.\<close>

definition reports_spaced :: "int \<Rightarrow> int list \<Rightarrow> bool" where
  "reports_spaced interval = successively (\<lambda>later earlier. interval \<le> later - earlier)"

definition heartbeat_life_ok :: "heartbeat_config \<Rightarrow> beat_state \<Rightarrow> bool" where
  "heartbeat_life_ok c s =
     ((case hb_phase s of
         Starting \<Rightarrow> hb_awaited s \<noteq> None \<and> hb_timer s = None \<and> \<not> hb_stopped s \<and> hb_reports s = []
       | Failed \<Rightarrow> hb_awaited s = None \<and> hb_timer s = None \<and> \<not> hb_stopped s \<and> hb_reports s = []
       | Beating \<Rightarrow> (if hb_stopped s then hb_timer s = None else (hb_timer s = None) = (hb_awaited s \<noteq> None)))
      \<and> (\<forall>i deadline. hb_awaited s = Some (i, deadline) \<longrightarrow> i < length (hb_runs s))
      \<and> reports_spaced (hc_failureReportIntervalMs c) (hb_reports s)
      \<and> hb_lastFailureReportedAt s = (case hb_reports s of [] \<Rightarrow> None | n # _ \<Rightarrow> Some n))"

lemma no_reports_spaced [simp]: "reports_spaced interval []"
  by (simp add: reports_spaced_def)

lemma temporary_is_not_the_heartbeat: "temporary_name base pid uuid \<noteq> base"
proof
  assume "temporary_name base pid uuid = base"
  then have "length (temporary_name base pid uuid) = length base" by simp
  then show False by (simp add: temporary_name_def)
qed

lemma advance_run_keeps:
  assumes "advance_run base b r d = (r', d')"
  shows "wr_temporary r' = wr_temporary r" "wr_contents r' = wr_contents r" "wr_aborted r' = wr_aborted r"
    "wr_checked r \<Longrightarrow> wr_checked r'" "wr_checked r' \<Longrightarrow> wr_checked r \<or> \<not> wr_aborted r"
    "wr_published r \<Longrightarrow> wr_phase r = Ended \<Longrightarrow> wr_published r'"
    "n \<noteq> base \<Longrightarrow> n \<noteq> wr_temporary r \<Longrightarrow> d' n = d n"
  using assms by (auto simp: advance_run_def Let_def split: write_phase.splits if_splits)

lemma advance_run_ok:
  assumes "advance_run base b r d = (r', d')" "run_ok d r" "run_clean d0 d r" "wr_temporary r \<noteq> base"
  shows "run_ok d' r'" "run_clean d0 d' r'" "d' base = d base \<or> wr_published r' \<and> d' base = Some (wr_contents r')"
  using assms by (auto simp: advance_run_def run_ok_def run_clean_def Let_def split: write_phase.splits if_splits)

lemma other_run_ok:
  "d' (wr_temporary r) = d (wr_temporary r) \<Longrightarrow> run_ok d' r = run_ok d r \<and> run_clean d0 d' r = run_clean d0 d r"
  by (simp add: run_ok_def run_clean_def split: write_phase.split)

lemma report_keeps [simp]:
  "hb_runs (report_write_failure c now s) = hb_runs s" "hb_files (report_write_failure c now s) = hb_files s"
  "hb_phase (report_write_failure c now s) = hb_phase s" "hb_timer (report_write_failure c now s) = hb_timer s"
  "hb_awaited (report_write_failure c now s) = hb_awaited s" "hb_stopped (report_write_failure c now s) = hb_stopped s"
  by (auto simp: report_write_failure_def split: option.splits)

lemma schedule_keeps [simp]:
  "hb_runs (schedule_next_write c s) = hb_runs s" "hb_files (schedule_next_write c s) = hb_files s"
  "hb_phase (schedule_next_write c s) = hb_phase s" "hb_awaited (schedule_next_write c s) = hb_awaited s"
  "hb_stopped (schedule_next_write c s) = hb_stopped s" "hb_reports (schedule_next_write c s) = hb_reports s"
  "hb_lastFailureReportedAt (schedule_next_write c s) = hb_lastFailureReportedAt s"
  by (auto simp: schedule_next_write_def)

lemma settle_keeps [simp]:
  "hb_runs (settle_write c wall b s) = hb_runs s" "hb_files (settle_write c wall b s) = hb_files s"
  "hb_awaited (settle_write c wall b s) = None" "hb_stopped (settle_write c wall b s) = hb_stopped s"
  by (auto simp: settle_write_def Let_def split: heartbeat_phase.splits)

lemma report_spaces:
  assumes "reports_spaced (hc_failureReportIntervalMs c) (hb_reports s)"
    "hb_lastFailureReportedAt s = (case hb_reports s of [] \<Rightarrow> None | n # _ \<Rightarrow> Some n)"
  shows "reports_spaced (hc_failureReportIntervalMs c) (hb_reports (report_write_failure c now s))"
    "hb_lastFailureReportedAt (report_write_failure c now s)
       = (case hb_reports (report_write_failure c now s) of [] \<Rightarrow> None | n # _ \<Rightarrow> Some n)"
  using assms by (auto simp: report_write_failure_def reports_spaced_def split: list.splits)

lemma settle_life:
  assumes "heartbeat_life_ok c s" "hb_awaited s \<noteq> None"
  shows "heartbeat_life_ok c (settle_write c wall b s)"
proof -
  have sp: "reports_spaced (hc_failureReportIntervalMs c) (hb_reports (s\<lparr>hb_awaited := None\<rparr>))"
    "hb_lastFailureReportedAt (s\<lparr>hb_awaited := None\<rparr>) = (case hb_reports (s\<lparr>hb_awaited := None\<rparr>) of [] \<Rightarrow> None | n # _ \<Rightarrow> Some n)"
    using assms by (auto simp: heartbeat_life_ok_def)
  show ?thesis
  proof (cases "hb_phase s")
    case Starting
    then show ?thesis using assms by (auto simp: heartbeat_life_ok_def settle_write_def schedule_next_write_def Let_def)
  next
    case Beating
    then show ?thesis using assms sp report_spaces [OF sp]
      by (auto simp: heartbeat_life_ok_def settle_write_def schedule_next_write_def Let_def)
  next
    case Failed
    then show ?thesis using assms by (auto simp: heartbeat_life_ok_def)
  qed
qed

lemma abort_life: "heartbeat_life_ok c (abort_run i s) = heartbeat_life_ok c s"
  by (cases "hb_phase s") (simp_all add: heartbeat_life_ok_def abort_run_def)

lemma advance_life: "heartbeat_life_ok c (advance_write base i b s) = heartbeat_life_ok c s"
  by (cases "hb_phase s") (simp_all add: heartbeat_life_ok_def advance_write_def split: prod.split)

lemma step_life:
  assumes "heartbeat_step c base s s'" "heartbeat_life_ok c s"
  shows "heartbeat_life_ok c s'"
  using assms
proof cases
  case (fires due t wall)
  then show ?thesis using assms(2) by (auto simp: heartbeat_life_ok_def begin_write_def split: heartbeat_phase.splits if_splits)
next
  case (settles i deadline wall)
  then show ?thesis using settle_life [OF assms(2)] by simp
next
  case (expires i deadline wall)
  moreover have "heartbeat_life_ok c (abort_run i s)" using assms(2) by (simp add: abort_life)
  moreover have "hb_awaited (abort_run i s) = hb_awaited s" by (simp add: abort_run_def)
  ultimately show ?thesis using settle_life by simp
next
  case stops
  then show ?thesis using assms(2) by (auto simp: heartbeat_life_ok_def stop_beating_def)
next
  case passes
  then show ?thesis using assms(2) by (cases "hb_phase s") (simp_all add: heartbeat_life_ok_def)
next
  case (advances i b)
  then show ?thesis using assms(2) by (simp add: advance_life)
qed

text \<open>Replacing a run by one with the same temporary file, in a directory that differs only in what the step touches.\<close>

lemma replaced_run_ok:
  assumes ok: "heartbeat_files_ok base d0 s" and i: "i < length (hb_runs s)"
    and t: "wr_temporary r' = wr_temporary (hb_runs s ! i)"
    and r: "run_ok d' r'" "run_clean d0 d' r'"
    and frame: "\<And>n. n \<noteq> base \<Longrightarrow> n \<noteq> wr_temporary r' \<Longrightarrow> d' n = hb_files s n"
    and b: "d' base = hb_files s base \<or> wr_published r' \<and> d' base = Some (wr_contents r')"
    and k: "wr_published (hb_runs s ! i) \<Longrightarrow> wr_published r' \<and> wr_contents r' = wr_contents (hb_runs s ! i)"
  shows "heartbeat_files_ok base d0 (s\<lparr>hb_runs := (hb_runs s)[i := r'], hb_files := d'\<rparr>)"
proof -
  let ?runs = "(hb_runs s)[i := r']"
  have names: "map wr_temporary ?runs = map wr_temporary (hb_runs s)"
    using i t by (simp add: map_update list_update_same_conv)
  then have "set (map wr_temporary ?runs) = set (map wr_temporary (hb_runs s))" by (rule arg_cong)
  then have image: "wr_temporary ` set ?runs = wr_temporary ` set (hb_runs s)" by simp
  have "run_ok d' q \<and> run_clean d0 d' q" if q: "q \<in> set ?runs" for q
  proof -
    from q obtain j where j: "j < length (hb_runs s)" "q = ?runs ! j" by (auto simp: in_set_conv_nth)
    show ?thesis
    proof (cases "j = i")
      case True
      then show ?thesis using r i j by simp
    next
      case False
      then have q': "q = hb_runs s ! j" using j by simp
      have "wr_temporary q \<noteq> wr_temporary r'"
        using ok i j(1) False t q' nth_eq_iff_index_eq [of "map wr_temporary (hb_runs s)" j i]
        by (simp add: heartbeat_files_ok_def)
      moreover have "wr_temporary q \<noteq> base" using ok j(1) q' by (auto simp: heartbeat_files_ok_def)
      ultimately have "d' (wr_temporary q) = hb_files s (wr_temporary q)" using frame by simp
      from other_run_ok [of d' q "hb_files s" d0, OF this] show ?thesis
        using ok j(1) q' by (simp add: heartbeat_files_ok_def)
    qed
  qed
  moreover have "d' base = d0 base \<or> (\<exists>q \<in> set ?runs. wr_published q \<and> d' base = Some (wr_contents q))"
  proof -
    have mem: "r' \<in> set ?runs" using i by (rule set_update_memI)
    consider "d' base = hb_files s base" | "wr_published r' \<and> d' base = Some (wr_contents r')" using b by blast
    then show ?thesis
    proof cases
      case 1
      consider "hb_files s base = d0 base"
        | q where "q \<in> set (hb_runs s)" "wr_published q" "hb_files s base = Some (wr_contents q)"
        using ok by (auto simp: heartbeat_files_ok_def)
      then show ?thesis
      proof cases
        case 1
        with \<open>d' base = hb_files s base\<close> show ?thesis by simp
      next
        case (2 q)
        then obtain j where j: "j < length (hb_runs s)" "q = hb_runs s ! j" by (auto simp: in_set_conv_nth)
        show ?thesis
        proof (cases "j = i")
          case True
          then show ?thesis using k 2 j \<open>d' base = hb_files s base\<close> mem by auto
        next
          case False
          then have "q \<in> set ?runs" using j by (metis in_set_conv_nth length_list_update nth_list_update_neq)
          then show ?thesis using 2 \<open>d' base = hb_files s base\<close> by auto
        qed
      qed
    next
      case 2
      then show ?thesis using mem by blast
    qed
  qed
  moreover have "\<forall>n. n \<noteq> base \<and> n \<notin> wr_temporary ` set (hb_runs s) \<longrightarrow> d' n = d0 n"
  proof (intro allI impI)
    fix n
    assume n: "n \<noteq> base \<and> n \<notin> wr_temporary ` set (hb_runs s)"
    then have "n \<noteq> wr_temporary r'" using t i by (metis image_eqI nth_mem)
    then have "d' n = hb_files s n" using n frame by simp
    then show "d' n = d0 n" using ok n by (simp add: heartbeat_files_ok_def)
  qed
  ultimately show ?thesis using ok names image unfolding heartbeat_files_ok_def by simp
qed

lemma files_ok_cong:
  "hb_runs s' = hb_runs s \<Longrightarrow> hb_files s' = hb_files s \<Longrightarrow> heartbeat_files_ok base d0 s' = heartbeat_files_ok base d0 s"
  by (simp add: heartbeat_files_ok_def)

lemma abort_files:
  assumes "heartbeat_files_ok base d0 s" "i < length (hb_runs s)"
  shows "heartbeat_files_ok base d0 (abort_run i s)"
proof -
  let ?r = "hb_runs s ! i"
  have r: "run_ok (hb_files s) ?r" "run_clean d0 (hb_files s) ?r" using assms by (simp_all add: heartbeat_files_ok_def)
  have "heartbeat_files_ok base d0 (s\<lparr>hb_runs := (hb_runs s)[i := ?r\<lparr>wr_aborted := True\<rparr>], hb_files := hb_files s\<rparr>)"
    by (rule replaced_run_ok [OF assms]) (use r in \<open>simp_all add: run_ok_def run_clean_def split: write_phase.splits\<close>)
  then show ?thesis by (simp add: heartbeat_files_ok_def abort_run_def)
qed

lemma advance_files:
  assumes "heartbeat_files_ok base d0 s" "i < length (hb_runs s)"
  shows "heartbeat_files_ok base d0 (advance_write base i b s)"
proof -
  let ?r = "hb_runs s ! i"
  obtain r' d' where a: "advance_run base b ?r (hb_files s) = (r', d')" by (cases "advance_run base b ?r (hb_files s)")
  have r: "run_ok (hb_files s) ?r" "run_clean d0 (hb_files s) ?r" "wr_temporary ?r \<noteq> base"
    using assms by (auto simp: heartbeat_files_ok_def)
  note keeps = advance_run_keeps [OF a] and oks = advance_run_ok [OF a r]
  have "wr_published ?r \<Longrightarrow> wr_phase ?r = Ended" using r(1) by (simp add: run_ok_def)
  then have "heartbeat_files_ok base d0 (s\<lparr>hb_runs := (hb_runs s)[i := r'], hb_files := d'\<rparr>)"
    by (intro replaced_run_ok [OF assms]) (use keeps oks in simp_all)
  then show ?thesis by (simp add: advance_write_def a)
qed

lemma begin_files:
  assumes ok: "heartbeat_files_ok base d0 s" and fresh: "fresh_temporary base t s"
  shows "heartbeat_files_ok base d0 (begin_write c wall t s)"
proof -
  have t: "t \<noteq> base" "t \<notin> wr_temporary ` set (hb_runs s)"
    using fresh temporary_is_not_the_heartbeat by (auto simp: fresh_temporary_def)
  then have "hb_files s t = d0 t" using ok by (simp add: heartbeat_files_ok_def)
  then show ?thesis using ok t by (auto simp: heartbeat_files_ok_def begin_write_def new_run_def run_ok_def run_clean_def)
qed

lemma step_files:
  assumes "heartbeat_step c base s s'" "heartbeat_files_ok base d0 s" "heartbeat_life_ok c s"
  shows "heartbeat_files_ok base d0 s'"
  using assms(1)
proof cases
  case (expires i deadline wall)
  then have "heartbeat_files_ok base d0 (abort_run i s)" using abort_files assms(2,3) by (simp add: heartbeat_life_ok_def)
  then show ?thesis using expires(1) by (simp add: heartbeat_files_ok_def)
next
  case (fires due t wall)
  then show ?thesis using begin_files assms(2) by simp
next
  case (advances i b)
  then show ?thesis using advance_files assms(2) by simp
qed (use assms(2) in \<open>simp_all add: heartbeat_files_ok_def stop_beating_def\<close>)

lemma reachable_ok:
  "heartbeat_reachable c base d0 s \<Longrightarrow> heartbeat_files_ok base d0 s \<and> heartbeat_life_ok c s"
proof (induction rule: heartbeat_reachable.induct)
  case (starts t pid uuid clock wall)
  then show ?case using temporary_is_not_the_heartbeat [of base pid uuid]
    by (simp add: start_heartbeat_def begin_write_def heartbeat_files_ok_def heartbeat_life_ok_def new_run_def run_ok_def
        run_clean_def reports_spaced_def)
next
  case (steps s s')
  then show ?case using step_files step_life by blast
qed

section \<open>What the file says\<close>

text \<open>A run aborted before its last check is not published, whatever happens after.\<close>

definition given_up :: "write_run \<Rightarrow> bool" where
  "given_up r = (wr_aborted r \<and> \<not> wr_checked r)"

lemma step_runs:
  assumes "heartbeat_step c base s s'" "i < length (hb_runs s)"
  shows "i < length (hb_runs s')" and "given_up (hb_runs s ! i) \<Longrightarrow> given_up (hb_runs s' ! i)"
  using assms
proof (induction rule: heartbeat_step.induct)
  case (advances j s b)
  {
    case 1
    then show ?case by (simp add: advance_write_def split: prod.split)
  next
    case 2
    obtain r' d' where a: "advance_run base b (hb_runs s ! j) (hb_files s) = (r', d')"
      by (cases "advance_run base b (hb_runs s ! j) (hb_files s)")
    from advance_run_keeps(3,5) [OF a] 2 show ?case
      by (cases "i = j") (auto simp: given_up_def advance_write_def a)
  }
next
  case (expires s j deadline wall)
  {
    case 1
    then show ?case by (simp add: abort_run_def)
  next
    case 2
    then show ?case by (cases "i = j") (simp_all add: abort_run_def given_up_def)
  }
qed (simp_all add: begin_write_def stop_beating_def nth_append given_up_def)

lemma later_runs:
  assumes "(heartbeat_step c base)\<^sup>*\<^sup>* s s'" "i < length (hb_runs s)" "given_up (hb_runs s ! i)"
  shows "i < length (hb_runs s') \<and> given_up (hb_runs s' ! i)"
  using assms by (induction rule: rtranclp_induct) (use step_runs in blast)+

lemma reachable_later:
  "(heartbeat_step c base)\<^sup>*\<^sup>* s s' \<Longrightarrow> heartbeat_reachable c base d s \<Longrightarrow> heartbeat_reachable c base d s'"
  by (induction rule: rtranclp_induct) (auto intro: heartbeat_reachable.steps)

text \<open>
  Property C28. The heartbeat file never comes from a write that was given up before its last check: it is as found or
  holds the contents of a published write, and other files are left as they were, up to temporary files of writes under
  way or that could not be removed. Failure reports keep the interval. A process that beats and was not stopped either
  waits for one write or has a timer for the next; after a stop there is no timer.
\<close>

theorem heartbeat_comes_from_live_writes:
  assumes "heartbeat_reachable c base d s" and "(heartbeat_step c base)\<^sup>*\<^sup>* s s'"
  shows "(\<forall>i < length (hb_runs s). given_up (hb_runs s ! i) \<longrightarrow> \<not> wr_published (hb_runs s' ! i))
    \<and> (hb_files s' base = d base
       \<or> (\<exists>r \<in> set (hb_runs s'). wr_published r \<and> wr_checked r \<and> hb_files s' base = Some (wr_contents r)))
    \<and> (\<forall>n. n \<noteq> base \<longrightarrow> hb_files s' n = d n
         \<or> (\<exists>r \<in> set (hb_runs s'). wr_temporary r = n \<and> (wr_phase r \<noteq> Ended \<or> wr_littered r)))
    \<and> successively (\<lambda>later earlier. hc_failureReportIntervalMs c \<le> later - earlier) (hb_reports s')
    \<and> (hb_stopped s' \<longrightarrow> hb_timer s' = None)
    \<and> (hb_phase s' = Beating \<and> \<not> hb_stopped s' \<longrightarrow> (hb_timer s' = None) = (hb_awaited s' \<noteq> None))"
proof -
  from assms have ok: "heartbeat_files_ok base d s'" "heartbeat_life_ok c s'"
    using reachable_later reachable_ok by blast+
  have "\<not> wr_published (hb_runs s' ! i)" if "i < length (hb_runs s)" "given_up (hb_runs s ! i)" for i
  proof -
    from later_runs [OF assms(2) that] have "i < length (hb_runs s')" "given_up (hb_runs s' ! i)" by simp_all
    moreover from ok(1) this(1) have "run_ok (hb_files s') (hb_runs s' ! i)" by (simp add: heartbeat_files_ok_def)
    ultimately show ?thesis by (auto simp: given_up_def run_ok_def)
  qed
  moreover have "hb_files s' base = d base
      \<or> (\<exists>r \<in> set (hb_runs s'). wr_published r \<and> wr_checked r \<and> hb_files s' base = Some (wr_contents r))"
    using ok(1) by (auto simp: heartbeat_files_ok_def run_ok_def)
  moreover have "hb_files s' n = d n
      \<or> (\<exists>r \<in> set (hb_runs s'). wr_temporary r = n \<and> (wr_phase r \<noteq> Ended \<or> wr_littered r))" if "n \<noteq> base" for n
  proof (cases "\<exists>r \<in> set (hb_runs s'). wr_temporary r = n")
    case True
    then obtain r where r: "r \<in> set (hb_runs s')" "wr_temporary r = n" by blast
    with ok(1) have "run_clean d (hb_files s') r" by (simp add: heartbeat_files_ok_def)
    with r show ?thesis by (cases "wr_phase r = Ended") (auto simp: run_clean_def)
  next
    case False
    with ok(1) that show ?thesis by (auto simp: heartbeat_files_ok_def)
  qed
  moreover have "successively (\<lambda>later earlier. hc_failureReportIntervalMs c \<le> later - earlier) (hb_reports s')
      \<and> (hb_stopped s' \<longrightarrow> hb_timer s' = None)
      \<and> (hb_phase s' = Beating \<and> \<not> hb_stopped s' \<longrightarrow> (hb_timer s' = None) = (hb_awaited s' \<noteq> None))"
    using ok(2) by (cases "hb_phase s'") (auto simp: heartbeat_life_ok_def reports_spaced_def)
  ultimately show ?thesis by blast
qed

section \<open>A stalled write\<close>

text \<open>The first write is published; the second stalls before its file is open and is given up; the third begins while
  the second is still under way, so writes need not be serial.\<close>

definition demo_heartbeat :: heartbeat_config where
  "demo_heartbeat = \<lparr> hc_path = ''hb'', hc_intervalMs = 1, hc_failureReportIntervalMs = 5, hc_writeTimeoutMs = 1 \<rparr>"

definition demo_name :: "string \<Rightarrow> string" where
  "demo_name = temporary_name ''hb'' 1"

definition demo_first :: write_run where
  "demo_first = \<lparr> wr_temporary = demo_name ''a'', wr_contents = show_int 7 @ [CHR 0x0A], wr_phase = Ended,
     wr_published = True, wr_aborted = False, wr_checked = True, wr_littered = False \<rparr>"

definition demo_beating :: "int \<Rightarrow> beat_state" where
  "demo_beating n =
     \<lparr> hb_phase = Beating, hb_clock = n, hb_stopped = False, hb_timer = Some 1, hb_awaited = None, hb_runs = [demo_first],
       hb_lastFailureReportedAt = None, hb_reports = [], hb_files = [''hb'' \<mapsto> wr_contents demo_first] \<rparr>"

definition demo_given_up :: beat_state where
  "demo_given_up =
     (demo_beating 2)\<lparr>hb_timer := Some 3, hb_runs := [demo_first, (new_run (demo_name ''b'') (show_int 8 @ [CHR 0x0A]))\<lparr>wr_aborted := True\<rparr>],
       hb_lastFailureReportedAt := Some 9, hb_reports := [9]\<rparr>"

lemma demo_names [simp]:
  "demo_name u = demo_name v \<longleftrightarrow> u = v" "demo_name u \<noteq> ''hb''" "''hb'' \<noteq> demo_name u"
  using temporary_is_not_the_heartbeat [of "''hb''" 1 u] by (auto simp: demo_name_def temporary_name_def)

lemma demo_reaches_beating: "heartbeat_reachable demo_heartbeat ''hb'' Map.empty (demo_beating 0)"
proof -
  let ?R = "heartbeat_reachable demo_heartbeat ''hb'' Map.empty"
  let ?adv = "advance_write ''hb'' 0 True"
  have adv: "?R (?adv s)" if "?R s" "hb_runs s \<noteq> []" for s
    by (rule heartbeat_reachable.steps [OF that(1)], rule heartbeat_step.advances) (use that(2) in simp)
  let ?s0 = "start_heartbeat demo_heartbeat 0 7 (demo_name ''a'') Map.empty"
  let ?s6 = "(?adv ^^ 6) ?s0"
  have start: "?R ?s0" by (rule heartbeat_reachable.starts) (simp add: demo_name_def)
  have runs: "hb_runs ((?adv ^^ n) ?s0) \<noteq> []" for n
    by (induction n) (simp_all add: start_heartbeat_def begin_write_def advance_write_def split: prod.split)
  have "?R ((?adv ^^ n) ?s0)" for n
    by (induction n) (simp_all add: start adv runs)
  then have r: "?R ?s6" by blast
  have s6: "?s6 = (demo_beating 0)\<lparr>hb_phase := Starting, hb_timer := None, hb_awaited := Some (0, 1)\<rparr>"
    by (simp add: eval_nat_numeral start_heartbeat_def begin_write_def new_run_def advance_write_def advance_run_def
        demo_beating_def demo_first_def demo_heartbeat_def fun_eq_iff)
  have "heartbeat_step demo_heartbeat ''hb'' ?s6 (settle_write demo_heartbeat 8 (wr_published (hb_runs ?s6 ! 0)) ?s6)"
    unfolding s6 by (rule heartbeat_step.settles [where deadline = 1]) (simp_all add: demo_beating_def demo_first_def)
  moreover have "settle_write demo_heartbeat 8 (wr_published (hb_runs ?s6 ! 0)) ?s6 = demo_beating 0"
    unfolding s6
    by (simp add: settle_write_def schedule_next_write_def demo_beating_def demo_first_def demo_heartbeat_def Let_def)
  ultimately show ?thesis using heartbeat_reachable.steps [OF r] by metis
qed

lemma demo_gives_up: "(heartbeat_step demo_heartbeat ''hb'')\<^sup>*\<^sup>* (demo_beating 0) demo_given_up"
proof -
  let ?step = "heartbeat_step demo_heartbeat ''hb''"
  let ?b = "begin_write demo_heartbeat 8 (demo_name ''b'')"
  have 1: "?step (demo_beating 0) (demo_beating 1)"
    using heartbeat_step.passes [of demo_heartbeat "''hb''" "demo_beating 0"] by (simp add: demo_beating_def)
  have 2: "?step (demo_beating 1) (?b (demo_beating 1))"
    by (rule heartbeat_step.fires [where due = 1])
      (auto simp: demo_beating_def fresh_temporary_def demo_first_def demo_name_def temporary_name_def)
  have 3: "?step (?b (demo_beating 1)) (?b (demo_beating 1)\<lparr>hb_clock := 2\<rparr>)"
    using heartbeat_step.passes [of demo_heartbeat "''hb''" "?b (demo_beating 1)"] by (simp add: begin_write_def demo_beating_def)
  have 4: "?step (?b (demo_beating 1)\<lparr>hb_clock := 2\<rparr>)
      (settle_write demo_heartbeat 9 False (abort_run 1 (?b (demo_beating 1)\<lparr>hb_clock := 2\<rparr>)))"
    by (rule heartbeat_step.expires [where deadline = 2]) (simp_all add: begin_write_def demo_beating_def demo_heartbeat_def)
  have "settle_write demo_heartbeat 9 False (abort_run 1 (?b (demo_beating 1)\<lparr>hb_clock := 2\<rparr>)) = demo_given_up"
    by (simp add: settle_write_def schedule_next_write_def report_write_failure_def abort_run_def begin_write_def
        demo_beating_def demo_given_up_def demo_heartbeat_def Let_def)
  with 4 have "?step (?b (demo_beating 1)\<lparr>hb_clock := 2\<rparr>) demo_given_up" by (simp only:)
  note last = this
  have "?step\<^sup>*\<^sup>* (demo_beating 0) (demo_beating 1)" by (rule r_into_rtranclp) (rule 1)
  then have "?step\<^sup>*\<^sup>* (demo_beating 0) (?b (demo_beating 1))" using 2 by (rule rtranclp.rtrancl_into_rtrancl)
  then have "?step\<^sup>*\<^sup>* (demo_beating 0) (?b (demo_beating 1)\<lparr>hb_clock := 2\<rparr>)" using 3 by (rule rtranclp.rtrancl_into_rtrancl)
  then show ?thesis using last by (rule rtranclp.rtrancl_into_rtrancl)
qed

lemma writes_can_overlap:
  "\<exists>s. heartbeat_reachable demo_heartbeat ''hb'' Map.empty s
     \<and> length (filter (\<lambda>r. wr_phase r \<noteq> Ended) (hb_runs s)) = 2"
proof -
  let ?s = "demo_given_up\<lparr>hb_clock := 3\<rparr>"
  have "heartbeat_step demo_heartbeat ''hb'' demo_given_up ?s"
    using heartbeat_step.passes [of demo_heartbeat "''hb''" demo_given_up] by (simp add: demo_given_up_def demo_beating_def)
  moreover have "heartbeat_step demo_heartbeat ''hb'' ?s (begin_write demo_heartbeat 10 (demo_name ''c'') ?s)"
    by (rule heartbeat_step.fires [where due = 3])
      (auto simp: demo_given_up_def demo_beating_def fresh_temporary_def demo_first_def demo_name_def temporary_name_def new_run_def)
  ultimately have "heartbeat_reachable demo_heartbeat ''hb'' Map.empty (begin_write demo_heartbeat 10 (demo_name ''c'') ?s)"
    using reachable_later [OF demo_gives_up demo_reaches_beating] heartbeat_reachable.steps by blast
  moreover have "length (filter (\<lambda>r. wr_phase r \<noteq> Ended) (hb_runs (begin_write demo_heartbeat 10 (demo_name ''c'') ?s))) = 2"
    by (simp add: begin_write_def demo_given_up_def demo_first_def new_run_def)
  ultimately show ?thesis by blast
qed

theorem heartbeat_comes_from_live_writes_witness:
  "heartbeat_reachable demo_heartbeat ''hb'' Map.empty demo_given_up \<and> given_up (hb_runs demo_given_up ! 1)
   \<and> \<not> wr_published (hb_runs demo_given_up ! 1)"
proof -
  have r: "heartbeat_reachable demo_heartbeat ''hb'' Map.empty demo_given_up"
    by (rule reachable_later [OF demo_gives_up demo_reaches_beating])
  moreover have g: "1 < length (hb_runs demo_given_up)" "given_up (hb_runs demo_given_up ! 1)"
    by (simp_all add: demo_given_up_def given_up_def new_run_def)
  moreover have "\<not> wr_published (hb_runs demo_given_up ! 1)"
    using heartbeat_comes_from_live_writes [OF r rtranclp.rtrancl_refl] g by blast
  ultimately show ?thesis by blast
qed

end
