(* ===== verification/Configuration.thy ===== *)
theory Configuration
  imports Api_Execution Audit_Handler Network_Handler Storage_Crypto
begin

text \<open>
  The settings of the processes (\<open>packages/config/src\<close>) and what the API and the executor make of them at their start.
  Settings are texts or absent, as the processes pass them; a parser gives the settings, or nothing when it throws: which
  issues a refusal lists is up to zod. \<open>Number\<close> (nothing for what is not finite), the URL constructor and the \<open>url()\<close>
  of zod, with the text it passes on, are parameters.
\<close>

section \<open>Fields\<close>

type_synonym settings = "string \<rightharpoonup> string"

record config_host =
  cf_toNumber :: "string \<Rightarrow> rat option"
  cf_url :: "string \<Rightarrow> string option"
  cf_parseUrl :: "string \<Rightarrow> url option"

definition default_selfhost_region_id :: string where "default_selfhost_region_id = ''local''"
definition default_selfhost_probe_base_url :: string where "default_selfhost_probe_base_url = ''http://127.0.0.1:8080''"

text \<open>A field gives its value, or nothing where the schema refuses it.\<close>

definition number_field :: "config_host \<Rightarrow> string \<Rightarrow> int \<Rightarrow> int \<Rightarrow> string option \<Rightarrow> int option" where
  "number_field H preset lo hi v =
     (case cf_toNumber H (case v of None \<Rightarrow> preset | Some s \<Rightarrow> s) of
        None \<Rightarrow> None
      | Some q \<Rightarrow>
          if of_int \<lfloor>q\<rfloor> = q \<and> is_safe_integer \<lfloor>q\<rfloor> \<and> lo \<le> \<lfloor>q\<rfloor> \<and> \<lfloor>q\<rfloor> \<le> hi then Some \<lfloor>q\<rfloor> else None)"

definition url_or :: "config_host \<Rightarrow> string \<Rightarrow> string option \<Rightarrow> string option" where
  "url_or H preset v = (case v of None \<Rightarrow> Some preset | Some s \<Rightarrow> cf_url H s)"

definition secret_field :: "string option \<Rightarrow> string option" where
  "secret_field v = (case v of None \<Rightarrow> None | Some s \<Rightarrow> if length (js_trim s) < 16 then None else Some (js_trim s))"

text \<open>\<open>emptyStringToUndefined\<close>.\<close>

definition optional_field :: "(string \<Rightarrow> string option) \<Rightarrow> string option \<Rightarrow> string option option" where
  "optional_field f v =
     (case v of
        None \<Rightarrow> Some None
      | Some s \<Rightarrow> if s = [] then Some None else (case f s of None \<Rightarrow> None | Some x \<Rightarrow> Some (Some x)))"

definition flag_field :: "string option \<Rightarrow> bool option" where
  "flag_field v =
     (let s = (case v of None \<Rightarrow> ''false'' | Some s \<Rightarrow> s) in
      if s = ''true'' then Some True else if s = ''false'' then Some False else None)"

definition normalized_boolean :: "string \<Rightarrow> string option \<Rightarrow> bool option" where
  "normalized_boolean preset v = flag_field (Some (case v of None \<Rightarrow> preset | Some s \<Rightarrow> js_lower (js_trim s)))"

definition credential_free_origin :: "url \<Rightarrow> bool" where
  "credential_free_origin u =
     (u_protocol u \<in> {''http:'', ''https:''} \<and> u_username u = [] \<and> u_password u = [] \<and> u_pathname u = ''/''
      \<and> u_search u = [] \<and> u_hash u = [])"

definition origin_ok :: "config_host \<Rightarrow> string \<Rightarrow> bool" where
  "origin_ok H v = (case cf_parseUrl H v of None \<Rightarrow> False | Some u \<Rightarrow> credential_free_origin u)"

section \<open>The executor\<close>

record executor_settings =
  xs_apiBaseUrl :: string
  xs_internalSecret :: string
  xs_probeSharedSecret :: string
  xs_browserAuditSharedSecret :: "string option"
  xs_probeBaseUrl :: string
  xs_browserAuditBaseUrl :: "string option"
  xs_allowInsecureApiHttp :: bool
  xs_allowInsecureProbeHttp :: bool
  xs_allowInsecureBrowserAuditHttp :: bool
  xs_allowInsecureWebhookHttp :: bool
  xs_executorId :: "string option"
  xs_pollIntervalMs :: int
  xs_leaseDurationMs :: int
  xs_heartbeatIntervalMs :: int
  xs_maxExecutionMs :: int

definition executor_id_field :: "string \<Rightarrow> string option" where
  "executor_id_field s = (if len_between 1 120 (js_trim s) then Some (js_trim s) else None)"

definition executor_base :: "config_host \<Rightarrow> settings \<Rightarrow> executor_settings option" where
  "executor_base H env =
     (let apiBase = url_or H ''http://127.0.0.1:8788'' (env ''SELFHOST_EXECUTOR_API_BASE_URL'');
          internal = secret_field (env ''SELFHOST_INTERNAL_SECRET'');
          probe = secret_field (env ''PROBE_SHARED_SECRET'');
          auditSecret = optional_field (\<lambda>s. secret_field (Some s)) (env ''BROWSER_AUDIT_SHARED_SECRET'');
          probeBase = url_or H default_selfhost_probe_base_url (env ''SELFHOST_PROBE_BASE_URL'');
          auditBase = optional_field (cf_url H) (env ''SELFHOST_BROWSER_AUDIT_BASE_URL'');
          insecureApi = flag_field (env ''SELFHOST_EXECUTOR_ALLOW_INSECURE_API_HTTP'');
          insecureProbe = flag_field (env ''SELFHOST_EXECUTOR_ALLOW_INSECURE_PROBE_HTTP'');
          insecureAudit = flag_field (env ''SELFHOST_EXECUTOR_ALLOW_INSECURE_BROWSER_AUDIT_HTTP'');
          insecureWebhook = flag_field (env ''SELFHOST_EXECUTOR_ALLOW_INSECURE_WEBHOOK_HTTP'');
          executorId = optional_field executor_id_field (env ''SELFHOST_EXECUTOR_ID'');
          poll = number_field H ''1000'' 100 60000 (env ''SELFHOST_EXECUTOR_POLL_INTERVAL_MS'');
          leaseMs = number_field H ''60000'' 10000 3600000 (env ''SELFHOST_EXECUTOR_LEASE_DURATION_MS'');
          beat = number_field H ''20000'' 1000 600000 (env ''SELFHOST_EXECUTOR_HEARTBEAT_INTERVAL_MS'');
          maxMs = number_field H ''900000'' 1000 86400000 (env ''SELFHOST_EXECUTOR_MAX_EXECUTION_MS'') in
      if apiBase = None \<or> internal = None \<or> probe = None \<or> auditSecret = None \<or> probeBase = None \<or> auditBase = None
         \<or> insecureApi = None \<or> insecureProbe = None \<or> insecureAudit = None \<or> insecureWebhook = None \<or> executorId = None
         \<or> poll = None \<or> leaseMs = None \<or> beat = None \<or> maxMs = None
      then None
      else Some
        \<lparr> xs_apiBaseUrl = the apiBase, xs_internalSecret = the internal, xs_probeSharedSecret = the probe,
          xs_browserAuditSharedSecret = the auditSecret, xs_probeBaseUrl = the probeBase,
          xs_browserAuditBaseUrl = the auditBase, xs_allowInsecureApiHttp = the insecureApi,
          xs_allowInsecureProbeHttp = the insecureProbe, xs_allowInsecureBrowserAuditHttp = the insecureAudit,
          xs_allowInsecureWebhookHttp = the insecureWebhook, xs_executorId = the executorId, xs_pollIntervalMs = the poll,
          xs_leaseDurationMs = the leaseMs, xs_heartbeatIntervalMs = the beat, xs_maxExecutionMs = the maxMs \<rparr>)"

text \<open>\<open>superRefine\<close>: no issue is added.\<close>

definition audit_origin_allowed :: "config_host \<Rightarrow> executor_settings \<Rightarrow> url \<Rightarrow> bool" where
  "audit_origin_allowed H c u =
     (let loopbackHostname = is_loopback_hostname (cf_parseUrl H) (u_hostname u);
          protocolAllowed = (u_protocol u = ''https:''
            \<or> (u_protocol u = ''http:'' \<and> (loopbackHostname \<or> xs_allowInsecureBrowserAuditHttp c))) in
      \<not> (\<not> protocolAllowed \<or> u_username u \<noteq> [] \<or> u_password u \<noteq> [] \<or> u_pathname u \<noteq> ''/'' \<or> u_search u \<noteq> []
         \<or> u_hash u \<noteq> []))"

definition executor_refinements :: "config_host \<Rightarrow> executor_settings \<Rightarrow> bool" where
  "executor_refinements H c =
     (\<not> (xs_browserAuditBaseUrl c \<noteq> None \<and> xs_browserAuditSharedSecret c = None)
      \<and> (case cf_parseUrl H (xs_apiBaseUrl c) of
           None \<Rightarrow> False
         | Some u \<Rightarrow>
             credential_free_origin u
             \<and> \<not> (u_protocol u = ''http:'' \<and> \<not> is_loopback_hostname (cf_parseUrl H) (u_hostname u)
                  \<and> \<not> xs_allowInsecureApiHttp c))
      \<and> (case xs_browserAuditBaseUrl c of
           None \<Rightarrow> True
         | Some b \<Rightarrow> (case cf_parseUrl H b of None \<Rightarrow> False | Some u \<Rightarrow> audit_origin_allowed H c u))
      \<and> origin_ok H (xs_probeBaseUrl c)
      \<and> \<not> xs_heartbeatIntervalMs c * 3 > xs_leaseDurationMs c)"

definition parse_selfhost_executor_vars :: "config_host \<Rightarrow> settings \<Rightarrow> executor_settings option" where
  "parse_selfhost_executor_vars H env =
     (case executor_base H env of
        None \<Rightarrow> None
      | Some c \<Rightarrow> if executor_refinements H c then Some c else None)"

text \<open>The name an executor gives itself without a setting; \<open>sha256_hex\<close> and \<open>base36\<close> are the digest and
  \<open>toString(36)\<close>.\<close>

definition create_default_lease_owner ::
  "(string \<Rightarrow> string) \<Rightarrow> (nat \<Rightarrow> string) \<Rightarrow> string \<Rightarrow> nat \<Rightarrow> string \<Rightarrow> string" where
  "create_default_lease_owner sha256_hex base36 host processId nonce =
     (let hostDigest = take 16 (sha256_hex host);
          safeNonce = take 80 (filter (\<lambda>c. is_alnum c \<or> c \<in> set ''._:-'') nonce) in
      ''executor-'' @ hostDigest @ ''-'' @ base36 processId @ ''-'' @ (if safeNonce = [] then ''instance'' else safeNonce))"

text \<open>What \<open>main\<close> hands to the client, to the handlers and to \<open>runExecutor\<close>.\<close>

record executor_start =
  ex_client :: "url \<times> string"
  ex_probeOrigin :: string
  ex_auditEndpoint :: "url option"
  ex_loop :: loop_options

definition executor_loop_options :: "string \<Rightarrow> executor_settings \<Rightarrow> loop_options" where
  "executor_loop_options owner c =
     \<lparr> lo_leaseOwner = owner, lo_leaseDurationMs = xs_leaseDurationMs c, lo_heartbeatIntervalMs = xs_heartbeatIntervalMs c,
       lo_maxExecutionMs = xs_maxExecutionMs c, lo_pollIntervalMs = xs_pollIntervalMs c \<rparr>"

definition executor_proc_config :: "string \<Rightarrow> int \<Rightarrow> executor_settings \<Rightarrow> proc_config" where
  "executor_proc_config owner shutdownTimeoutMs c =
     \<lparr> pc_lease = \<lparr> ls_owner = owner, ls_durationMs = xs_leaseDurationMs c \<rparr>,
       pc_heartbeatIntervalMs = xs_heartbeatIntervalMs c, pc_heartbeatShutdownTimeoutMs = shutdownTimeoutMs \<rparr>"

datatype start_failure_cause = BadClient string | BadProbe thrown | BadRunner string | BadLoop string

definition start_executor :: "runtime \<Rightarrow> string \<Rightarrow> executor_settings \<Rightarrow> start_failure_cause + executor_start" where
  "start_executor rt owner c =
     (case create_executor_api_client (rt_parseUrl rt)
             \<lparr> co_baseUrl = xs_apiBaseUrl c, co_internalSecret = xs_internalSecret c,
               co_requestTimeoutMs = 30000, co_allowInsecureHttp = xs_allowInsecureApiHttp c \<rparr> of
        Inl e \<Rightarrow> Inl (BadClient e)
      | Inr client \<Rightarrow>
          (case parse_probe_base_url (rt_parseUrl rt) (xs_probeBaseUrl c) (xs_allowInsecureProbeHttp c) of
             Inl e \<Rightarrow> Inl (BadProbe e)
           | Inr origin \<Rightarrow>
               (case audit_endpoint rt \<lparr> ao_sharedSecret = xs_browserAuditSharedSecret c,
                       ao_baseUrl = xs_browserAuditBaseUrl c, ao_allowInsecureHttp = xs_allowInsecureBrowserAuditHttp c \<rparr> of
                  Inl e \<Rightarrow> Inl (BadRunner e)
                | Inr endpoint \<Rightarrow>
                    (case validate_executor_loop_options (executor_loop_options owner c) of
                       Inl e \<Rightarrow> Inl (BadLoop e)
                     | Inr _ \<Rightarrow>
                         Inr \<lparr> ex_client = client, ex_probeOrigin = origin, ex_auditEndpoint = endpoint,
                               ex_loop = executor_loop_options owner c \<rparr>))))"

section \<open>Scheduler and console\<close>

record scheduler_settings =
  ss_apiBaseUrl :: string
  ss_internalSecret :: string
  ss_pollIntervalSeconds :: int

definition parse_selfhost_scheduler_vars :: "config_host \<Rightarrow> settings \<Rightarrow> scheduler_settings option" where
  "parse_selfhost_scheduler_vars H env =
     (let apiBase = url_or H ''http://127.0.0.1:8788'' (env ''SELFHOST_SCHEDULER_API_BASE_URL'');
          internal = secret_field (env ''SELFHOST_INTERNAL_SECRET'');
          poll = number_field H ''60'' 1 86400 (env ''SELFHOST_SCHEDULER_POLL_INTERVAL_SECONDS'') in
      if apiBase = None \<or> internal = None \<or> poll = None \<or> \<not> origin_ok H (the apiBase) then None
      else Some \<lparr> ss_apiBaseUrl = the apiBase, ss_internalSecret = the internal, ss_pollIntervalSeconds = the poll \<rparr>)"

definition control_base_url_field :: "config_host \<Rightarrow> string option \<Rightarrow> string option" where
  "control_base_url_field H v =
     (case optional_field (cf_url H) v of
        None \<Rightarrow> None
      | Some None \<Rightarrow> Some ''http://127.0.0.1:8788''
      | Some (Some s) \<Rightarrow> Some s)"

record console_settings =
  cs_controlBaseUrl :: string
  cs_adminToken :: string

definition parse_selfhost_console_vars :: "config_host \<Rightarrow> settings \<Rightarrow> console_settings option" where
  "parse_selfhost_console_vars H env =
     (let control = control_base_url_field H (env ''CONTROL_BASE_URL'');
          token = secret_field (env ''SELFHOST_ADMIN_TOKEN'') in
      if control = None \<or> token = None \<or> \<not> origin_ok H (the control) then None
      else Some \<lparr> cs_controlBaseUrl = the control, cs_adminToken = the token \<rparr>)"

definition parse_web_env :: "config_host \<Rightarrow> settings \<Rightarrow> string option" where
  "parse_web_env H env = control_base_url_field H (env ''CONTROL_BASE_URL'')"

section \<open>The API\<close>

definition default_selfhost_max_artifact_bytes :: int where "default_selfhost_max_artifact_bytes = 25000000"
definition maximum_selfhost_max_artifact_bytes :: int where "maximum_selfhost_max_artifact_bytes = 250000000"

datatype scheduler_mode = Embedded | External | Disabled

record api_settings =
  as_host :: string
  as_port :: int
  as_databasePath :: string
  as_artifactsPath :: string
  as_artifactUploadBaseUrl :: "string option"
  as_maxArtifactBytes :: int
  as_artifactUploadTtlSeconds :: int
  as_retentionDays :: int
  as_migrationBackup :: bool
  as_adminToken :: "string option"
  as_adminTokenNext :: "string option"
  as_internalSecret :: string
  as_internalSecretNext :: "string option"
  as_regionId :: string
  as_regionLabel :: "string option"
  as_probeBaseUrl :: string
  as_browserAuditBaseUrl :: "string option"
  as_maxTargetAttempts :: int
  as_schedulerMode :: scheduler_mode
  as_schedulerPollIntervalSeconds :: int

definition nonempty_or :: "string \<Rightarrow> string option \<Rightarrow> string option" where
  "nonempty_or preset v = (case v of None \<Rightarrow> Some preset | Some s \<Rightarrow> if s = [] then None else Some s)"

definition trimmed_nonempty_or :: "string \<Rightarrow> string option \<Rightarrow> string option" where
  "trimmed_nonempty_or preset v = (case v of None \<Rightarrow> Some preset | Some s \<Rightarrow> if js_trim s = [] then None else Some (js_trim s))"

definition region_id_field :: "string option \<Rightarrow> string option" where
  "region_id_field v =
     (case v of
        None \<Rightarrow> Some default_selfhost_region_id
      | Some s \<Rightarrow> if runtime_region_id_ok (js_trim s) then Some (js_trim s) else None)"

definition region_label_field :: "string \<Rightarrow> string option" where
  "region_label_field s = (if len_between 1 120 (js_trim s) then Some (js_trim s) else None)"

definition scheduler_mode_field :: "string option \<Rightarrow> scheduler_mode option" where
  "scheduler_mode_field v =
     (case v of
        None \<Rightarrow> Some Embedded
      | Some s \<Rightarrow>
          if s = ''embedded'' then Some Embedded
          else if s = ''external'' then Some External
          else if s = ''disabled'' then Some Disabled else None)"

text \<open>A positive integer without a bound of its own is at most the largest safe integer.\<close>

definition max_safe_integer :: int where "max_safe_integer = 9007199254740991"

definition api_base :: "config_host \<Rightarrow> settings \<Rightarrow> api_settings option" where
  "api_base H env =
     (let host = nonempty_or ''0.0.0.0'' (env ''SELFHOST_API_HOST'');
          port = number_field H ''8788'' 1 max_safe_integer (env ''SELFHOST_API_PORT'');
          database = nonempty_or ''./data/webperf.sqlite'' (env ''SELFHOST_DATABASE_PATH'');
          artifacts = trimmed_nonempty_or ''./data/artifacts'' (env ''SELFHOST_ARTIFACTS_PATH'');
          uploadBase = optional_field (cf_url H) (env ''SELFHOST_ARTIFACT_UPLOAD_BASE_URL'');
          maxBytes = number_field H (show_int default_selfhost_max_artifact_bytes) 1 maximum_selfhost_max_artifact_bytes
            (env ''SELFHOST_MAX_ARTIFACT_BYTES'');
          ttl = number_field H ''900'' 60 3600 (env ''SELFHOST_ARTIFACT_UPLOAD_TTL_SECONDS'');
          retention = number_field H ''30'' 1 max_safe_integer (env ''SELFHOST_RETENTION_DAYS'');
          backup = normalized_boolean ''false'' (env ''SELFHOST_MIGRATION_BACKUP'');
          admin = optional_field (\<lambda>s. secret_field (Some s)) (env ''SELFHOST_ADMIN_TOKEN'');
          adminNext = optional_field (\<lambda>s. secret_field (Some s)) (env ''SELFHOST_ADMIN_TOKEN_NEXT'');
          internal = secret_field (env ''SELFHOST_INTERNAL_SECRET'');
          internalNext = optional_field (\<lambda>s. secret_field (Some s)) (env ''SELFHOST_INTERNAL_SECRET_NEXT'');
          region = region_id_field (env ''SELFHOST_REGION_ID'');
          label = optional_field region_label_field (env ''SELFHOST_REGION_LABEL'');
          probeBase = url_or H default_selfhost_probe_base_url (env ''SELFHOST_PROBE_BASE_URL'');
          auditBase = optional_field (cf_url H) (env ''SELFHOST_BROWSER_AUDIT_BASE_URL'');
          attempts = number_field H ''3'' 1 20 (env ''SELFHOST_MAX_TARGET_ATTEMPTS'');
          mode = scheduler_mode_field (env ''SELFHOST_SCHEDULER_MODE'');
          poll = number_field H ''60'' 1 86400 (env ''SELFHOST_SCHEDULER_POLL_INTERVAL_SECONDS'') in
      if host = None \<or> port = None \<or> database = None \<or> artifacts = None \<or> uploadBase = None \<or> maxBytes = None \<or> ttl = None
         \<or> retention = None \<or> backup = None \<or> admin = None \<or> adminNext = None \<or> internal = None \<or> internalNext = None
         \<or> region = None \<or> label = None \<or> probeBase = None \<or> auditBase = None \<or> attempts = None \<or> mode = None \<or> poll = None
      then None
      else Some
        \<lparr> as_host = the host, as_port = the port, as_databasePath = the database, as_artifactsPath = the artifacts,
          as_artifactUploadBaseUrl = the uploadBase, as_maxArtifactBytes = the maxBytes,
          as_artifactUploadTtlSeconds = the ttl, as_retentionDays = the retention, as_migrationBackup = the backup,
          as_adminToken = the admin, as_adminTokenNext = the adminNext, as_internalSecret = the internal,
          as_internalSecretNext = the internalNext, as_regionId = the region, as_regionLabel = the label,
          as_probeBaseUrl = the probeBase, as_browserAuditBaseUrl = the auditBase, as_maxTargetAttempts = the attempts,
          as_schedulerMode = the mode, as_schedulerPollIntervalSeconds = the poll \<rparr>)"

definition api_refinements :: "config_host \<Rightarrow> api_settings \<Rightarrow> bool" where
  "api_refinements H c =
     (as_adminToken c \<noteq> None
      \<and> (case as_artifactUploadBaseUrl c of None \<Rightarrow> True | Some b \<Rightarrow> origin_ok H b)
      \<and> origin_ok H (as_probeBaseUrl c))"

definition parse_selfhost_api_vars :: "config_host \<Rightarrow> settings \<Rightarrow> api_settings option" where
  "parse_selfhost_api_vars H env =
     (case api_base H env of
        None \<Rightarrow> None
      | Some c \<Rightarrow> if api_refinements H c then Some c else None)"

text \<open>\<open>parseRuntime\<close>: the origin of the uploads in place of their address.\<close>

definition parse_runtime :: "config_host \<Rightarrow> settings \<Rightarrow> api_settings throws" where
  "parse_runtime H env =
     (case parse_selfhost_api_vars H env of
        None \<Rightarrow> throw ''ZodError''
      | Some c \<Rightarrow>
          (case as_artifactUploadBaseUrl c of
             None \<Rightarrow> return c
           | Some b \<Rightarrow>
               if b = [] then return (c\<lparr>as_artifactUploadBaseUrl := None\<rparr>)
               else (case resolve_artifact_upload_base_url (cf_parseUrl H) b of
                       Inl e \<Rightarrow> Inl e
                     | Inr origin \<Rightarrow> return (c\<lparr>as_artifactUploadBaseUrl := Some origin\<rparr>))))"

section \<open>Accepted settings start the processes\<close>

lemma number_field_Some:
  "number_field H preset lo hi v = Some n \<Longrightarrow> lo \<le> n \<and> n \<le> hi \<and> is_safe_integer n"
  by (auto simp: number_field_def split: option.splits if_splits)

lemma secret_field_Some: "secret_field v = Some s \<Longrightarrow> 16 \<le> length s \<and> js_trim s = s"
  by (auto simp: secret_field_def split: option.splits if_splits)

lemma optional_secret_Some:
  "optional_field (\<lambda>s. secret_field (Some s)) v = Some (Some s) \<Longrightarrow> 16 \<le> length s \<and> js_trim s = s"
  by (auto simp: optional_field_def dest: secret_field_Some split: option.splits if_splits)

lemma executor_id_Some: "optional_field executor_id_field v = Some (Some s) \<Longrightarrow> 1 \<le> length s \<and> length s \<le> 120"
  by (auto simp: optional_field_def executor_id_field_def len_between_def split: option.splits if_splits)

definition executor_settings_ok :: "executor_settings \<Rightarrow> bool" where
  "executor_settings_ok c =
     (16 \<le> length (xs_internalSecret c) \<and> js_trim (xs_internalSecret c) = xs_internalSecret c
      \<and> opt_ok (\<lambda>i. 1 \<le> length i \<and> length i \<le> 120) (xs_executorId c)
      \<and> 100 \<le> xs_pollIntervalMs c \<and> xs_pollIntervalMs c \<le> 60000 \<and> 10000 \<le> xs_leaseDurationMs c \<and> xs_leaseDurationMs c \<le> 3600000
      \<and> 1000 \<le> xs_heartbeatIntervalMs c \<and> xs_heartbeatIntervalMs c \<le> 600000
      \<and> 1000 \<le> xs_maxExecutionMs c \<and> xs_maxExecutionMs c \<le> 86400000)"

lemma executor_base_ok:
  assumes "executor_base H env = Some c"
  shows "executor_settings_ok c"
proof -
  have fields: "secret_field (env ''SELFHOST_INTERNAL_SECRET'') = Some (xs_internalSecret c)"
    "optional_field executor_id_field (env ''SELFHOST_EXECUTOR_ID'') = Some (xs_executorId c)"
    "number_field H ''1000'' 100 60000 (env ''SELFHOST_EXECUTOR_POLL_INTERVAL_MS'') = Some (xs_pollIntervalMs c)"
    "number_field H ''60000'' 10000 3600000 (env ''SELFHOST_EXECUTOR_LEASE_DURATION_MS'') = Some (xs_leaseDurationMs c)"
    "number_field H ''20000'' 1000 600000 (env ''SELFHOST_EXECUTOR_HEARTBEAT_INTERVAL_MS'') = Some (xs_heartbeatIntervalMs c)"
    "number_field H ''900000'' 1000 86400000 (env ''SELFHOST_EXECUTOR_MAX_EXECUTION_MS'') = Some (xs_maxExecutionMs c)"
    using assms unfolding executor_base_def Let_def by (auto split: if_splits)
  have "opt_ok (\<lambda>i. 1 \<le> length i \<and> length i \<le> 120) (xs_executorId c)"
    using fields(2) executor_id_Some by (cases "xs_executorId c") auto
  then show ?thesis
    unfolding executor_settings_ok_def
    using secret_field_Some [OF fields(1)] number_field_Some [OF fields(3)] number_field_Some [OF fields(4)]
      number_field_Some [OF fields(5)] number_field_Some [OF fields(6)] by blast
qed

lemma default_owner_length:
  assumes "length (base36 pid) \<le> 50"
  shows "1 \<le> length (create_default_lease_owner sha256_hex base36 host pid nonce)"
    and "length (create_default_lease_owner sha256_hex base36 host pid nonce) \<le> 160"
proof -
  let ?n = "take 80 (filter (\<lambda>c. is_alnum c \<or> c \<in> set ''._:-'') nonce)"
  have "length (if ?n = [] then ''instance'' else ?n) \<le> 80" by auto
  moreover have "length (take 16 (sha256_hex host)) \<le> 16" by simp
  moreover have "length (create_default_lease_owner sha256_hex base36 host pid nonce)
      = 9 + length (take 16 (sha256_hex host)) + 1 + length (base36 pid) + 1 + length (if ?n = [] then ''instance'' else ?n)"
    unfolding create_default_lease_owner_def Let_def by (simp only: length_append list.size)
  ultimately show "1 \<le> length (create_default_lease_owner sha256_hex base36 host pid nonce)"
    "length (create_default_lease_owner sha256_hex base36 host pid nonce) \<le> 160" using assms by linarith+
qed

definition lease_owner_of :: "(string \<Rightarrow> string) \<Rightarrow> (nat \<Rightarrow> string) \<Rightarrow> string \<Rightarrow> nat \<Rightarrow> string \<Rightarrow> executor_settings \<Rightarrow> string" where
  "lease_owner_of sha256_hex base36 host pid nonce c =
     (case xs_executorId c of Some i \<Rightarrow> i | None \<Rightarrow> create_default_lease_owner sha256_hex base36 host pid nonce)"

lemma client_accepts:
  assumes "executor_settings_ok c" "executor_refinements H c"
  shows "\<exists>u. create_executor_api_client (cf_parseUrl H)
      \<lparr> co_baseUrl = xs_apiBaseUrl c, co_internalSecret = xs_internalSecret c, co_requestTimeoutMs = 30000,
        co_allowInsecureHttp = xs_allowInsecureApiHttp c \<rparr> = Inr (u, xs_internalSecret c)"
proof -
  from assms(2) obtain u where u: "cf_parseUrl H (xs_apiBaseUrl c) = Some u" "credential_free_origin u"
    "\<not> (u_protocol u = ''http:'' \<and> \<not> is_loopback_hostname (cf_parseUrl H) (u_hostname u) \<and> \<not> xs_allowInsecureApiHttp c)"
    by (auto simp: executor_refinements_def split: option.splits)
  moreover have "\<not> length (xs_internalSecret c) < 16" "js_trim (xs_internalSecret c) = xs_internalSecret c"
    using assms(1) by (auto simp: executor_settings_ok_def)
  ultimately show ?thesis
    by (auto simp: create_executor_api_client_def is_safe_integer_def credential_free_origin_def Let_def)
qed

lemma runner_accepts:
  assumes "executor_refinements H c" "rt_parseUrl rt = cf_parseUrl H"
  shows "\<exists>e. audit_endpoint rt \<lparr> ao_sharedSecret = xs_browserAuditSharedSecret c, ao_baseUrl = xs_browserAuditBaseUrl c,
      ao_allowInsecureHttp = xs_allowInsecureBrowserAuditHttp c \<rparr> = Inr e
      \<and> (xs_browserAuditBaseUrl c \<noteq> None \<and> xs_browserAuditBaseUrl c \<noteq> Some [] \<longrightarrow> e \<noteq> None \<and> xs_browserAuditSharedSecret c \<noteq> None)"
proof (cases "xs_browserAuditBaseUrl c")
  case None
  then show ?thesis by (simp add: audit_endpoint_def)
next
  case (Some b)
  from assms(1) Some obtain u where u: "cf_parseUrl H b = Some u" "audit_origin_allowed H c u" "xs_browserAuditSharedSecret c \<noteq> None"
    by (auto simp: executor_refinements_def split: option.splits)
  then have "resolve_browser_audit_endpoint (cf_parseUrl H) b (xs_allowInsecureBrowserAuditHttp c)
      = Inr (u\<lparr>u_pathname := ''/audit'', u_search := [], u_hash := []\<rparr>)"
    by (auto simp: resolve_browser_audit_endpoint_def audit_origin_allowed_def Let_def)
  then show ?thesis using Some u(3) assms(2) by (simp add: audit_endpoint_def)
qed

lemma loop_accepts:
  assumes "executor_settings_ok c" "xs_heartbeatIntervalMs c * 3 \<le> xs_leaseDurationMs c" "1 \<le> length owner" "length owner \<le> 160"
  shows "validate_executor_loop_options (executor_loop_options owner c) = Inr ()"
  using assms
  by (auto simp: validate_executor_loop_options_def executor_loop_options_def executor_settings_ok_def is_safe_integer_def not_less)

lemma probe_refusal:
  assumes "executor_refinements H c" "xs_probeBaseUrl c \<noteq> []"
    and "parse_probe_base_url (cf_parseUrl H) (xs_probeBaseUrl c) (xs_allowInsecureProbeHttp c) = Inl e"
  shows "\<exists>u. cf_parseUrl H (xs_probeBaseUrl c) = Some u \<and> u_protocol u = ''http:'' \<and> \<not> xs_allowInsecureProbeHttp c
      \<and> \<not> is_loopback_hostname (cf_parseUrl H) (u_hostname u)"
  using assms by (auto simp: parse_probe_base_url_def resolve_probe_measure_url_def executor_refinements_def origin_ok_def
      credential_free_origin_def Let_def split: option.splits if_splits)


text \<open>The same for the API: the storage has its keys, uploads an origin, and there is a token for the administrator.\<close>

lemma long_secret: "16 \<le> length s \<Longrightarrow> js_trim s = s \<Longrightarrow> assert_storage_secret s l = Inr ()"
proof -
  assume s: "16 \<le> length s" "js_trim s = s"
  have "length s \<le> utf8_length s" by (induction s) (auto simp: utf8_length_def)
  with s show ?thesis by (auto simp: assert_storage_secret_def)
qed

lemma api_base_ok:
  assumes "api_base H env = Some c"
  shows "16 \<le> length (as_internalSecret c) \<and> js_trim (as_internalSecret c) = as_internalSecret c"
    and "opt_ok (\<lambda>s. 16 \<le> length s \<and> js_trim s = s) (as_internalSecretNext c)"
    and "opt_ok (\<lambda>s. 16 \<le> length s \<and> js_trim s = s) (as_adminToken c)"
    and "60 \<le> as_artifactUploadTtlSeconds c \<and> as_artifactUploadTtlSeconds c \<le> 3600"
    and "1 \<le> as_retentionDays c \<and> 1 \<le> as_maxTargetAttempts c \<and> as_maxTargetAttempts c \<le> 20"
proof -
  have fields: "secret_field (env ''SELFHOST_INTERNAL_SECRET'') = Some (as_internalSecret c)"
    "optional_field (\<lambda>s. secret_field (Some s)) (env ''SELFHOST_INTERNAL_SECRET_NEXT'') = Some (as_internalSecretNext c)"
    "optional_field (\<lambda>s. secret_field (Some s)) (env ''SELFHOST_ADMIN_TOKEN'') = Some (as_adminToken c)"
    "number_field H ''900'' 60 3600 (env ''SELFHOST_ARTIFACT_UPLOAD_TTL_SECONDS'') = Some (as_artifactUploadTtlSeconds c)"
    "number_field H ''30'' 1 max_safe_integer (env ''SELFHOST_RETENTION_DAYS'') = Some (as_retentionDays c)"
    "number_field H ''3'' 1 20 (env ''SELFHOST_MAX_TARGET_ATTEMPTS'') = Some (as_maxTargetAttempts c)"
    using assms unfolding api_base_def Let_def by (auto split: if_splits)
  show "16 \<le> length (as_internalSecret c) \<and> js_trim (as_internalSecret c) = as_internalSecret c"
    by (rule secret_field_Some [OF fields(1)])
  show "opt_ok (\<lambda>s. 16 \<le> length s \<and> js_trim s = s) (as_internalSecretNext c)"
    using fields(2) optional_secret_Some by (cases "as_internalSecretNext c") auto
  show "opt_ok (\<lambda>s. 16 \<le> length s \<and> js_trim s = s) (as_adminToken c)"
    using fields(3) optional_secret_Some by (cases "as_adminToken c") auto
  show "60 \<le> as_artifactUploadTtlSeconds c \<and> as_artifactUploadTtlSeconds c \<le> 3600"
    using number_field_Some [OF fields(4)] by blast
  show "1 \<le> as_retentionDays c \<and> 1 \<le> as_maxTargetAttempts c \<and> as_maxTargetAttempts c \<le> 20"
    using number_field_Some [OF fields(5)] number_field_Some [OF fields(6)] by blast
qed

lemma accepted_settings_start_the_api:
  assumes "parse_selfhost_api_vars H env = Some c"
  shows "\<exists>c'. parse_runtime H env = Inr c' \<and> as_internalSecret c' = as_internalSecret c"
    and "\<exists>S. create_storage_crypto C (as_internalSecret c) (as_internalSecretNext c) = Inr S"
    and "\<exists>token. as_adminToken c = Some token \<and> 16 \<le> length token"
proof -
  from assms have base: "api_base H env = Some c" and fine: "api_refinements H c"
    by (auto simp: parse_selfhost_api_vars_def split: option.splits if_splits)
  note ok = api_base_ok [OF base]
  show "\<exists>token. as_adminToken c = Some token \<and> 16 \<le> length token"
    using fine ok(3) by (cases "as_adminToken c") (auto simp: api_refinements_def)
  show "\<exists>S. create_storage_crypto C (as_internalSecret c) (as_internalSecretNext c) = Inr S"
    using ok(1,2) by (cases "as_internalSecretNext c") (auto simp: create_storage_crypto_def long_secret)
  show "\<exists>c'. parse_runtime H env = Inr c' \<and> as_internalSecret c' = as_internalSecret c"
  proof (cases "as_artifactUploadBaseUrl c")
    case None
    then show ?thesis using assms by (simp add: parse_runtime_def)
  next
    case (Some b)
    then obtain u where "cf_parseUrl H b = Some u" "credential_free_origin u"
      using fine by (auto simp: api_refinements_def origin_ok_def split: option.splits)
    then have "resolve_artifact_upload_base_url (cf_parseUrl H) b = Inr (url_origin u)"
      by (auto simp: resolve_artifact_upload_base_url_def credential_free_origin_def)
    then show ?thesis using assms Some by (simp add: parse_runtime_def)
  qed
qed

section \<open>The end of the executor process\<close>

text \<open>Signals, errors nobody caught and the end of \<open>main\<close>, as events of the process. \<open>ep_serving\<close> is set while
  \<open>requestActiveShutdown\<close> is; \<open>ep_exit\<close> is a forced exit, \<open>ep_exitCode\<close> the code of an ordinary one.\<close>

datatype shutdown_reason = Sigint | Sigterm | UnhandledRejection | UncaughtException

datatype process_event =
    ProcessSignal shutdown_reason
  | ProcessError shutdown_reason
  | GraceTimeout
  | MainReturns
  | MainThrows

record executor_process =
  ep_serving :: bool
  ep_aborted :: bool
  ep_graceTimer :: bool
  ep_fatalReported :: bool
  ep_exitCode :: int
  ep_exit :: "int option"
  ep_ended :: bool

definition new_process :: executor_process where
  "new_process =
     \<lparr> ep_serving = True, ep_aborted = False, ep_graceTimer = False, ep_fatalReported = False, ep_exitCode = 0,
       ep_exit = None, ep_ended = False \<rparr>"

definition request_shutdown :: "shutdown_reason \<Rightarrow> executor_process \<Rightarrow> executor_process" where
  "request_shutdown reason p =
     (if ep_aborted p
      then (if reason = Sigint \<or> reason = Sigterm then p\<lparr>ep_exit := Some 1\<rparr> else p)
      else p\<lparr>ep_aborted := True, ep_graceTimer := True\<rparr>)"

text \<open>The source is nothing for \<open>main\<close>.\<close>

definition report_fatal_error :: "shutdown_reason option \<Rightarrow> executor_process \<Rightarrow> executor_process" where
  "report_fatal_error source p =
     (if ep_fatalReported p then p
      else
        let q = p\<lparr>ep_fatalReported := True, ep_exitCode := 1\<rparr> in
        case source of
          None \<Rightarrow> q
        | Some reason \<Rightarrow> if ep_serving q then request_shutdown reason q else q\<lparr>ep_exit := Some 1\<rparr>)"

definition leave_main :: "executor_process \<Rightarrow> executor_process" where
  "leave_main p = p\<lparr>ep_graceTimer := False, ep_serving := False\<rparr>"

fun process_event_step :: "process_event \<Rightarrow> executor_process \<Rightarrow> executor_process" where
  "process_event_step e p =
     (if ep_ended p \<or> ep_exit p \<noteq> None then p
      else case e of
        ProcessSignal reason \<Rightarrow> if ep_serving p then request_shutdown reason p else p
      | ProcessError reason \<Rightarrow> report_fatal_error (Some reason) p
      | GraceTimeout \<Rightarrow> if ep_graceTimer p then p\<lparr>ep_exit := Some 1\<rparr> else p
      | MainReturns \<Rightarrow> (leave_main p)\<lparr>ep_ended := True\<rparr>
      | MainThrows \<Rightarrow> (report_fatal_error None (leave_main p))\<lparr>ep_ended := True\<rparr>)"

definition exit_status :: "executor_process \<Rightarrow> int option" where
  "exit_status p = (case ep_exit p of Some c \<Rightarrow> Some c | None \<Rightarrow> if ep_ended p then Some (ep_exitCode p) else None)"

definition process_ok :: "executor_process \<Rightarrow> bool" where
  "process_ok p =
     ((ep_exit p = None \<or> ep_exit p = Some 1)
      \<and> (ep_fatalReported p \<longleftrightarrow> ep_exitCode p = 1) \<and> (ep_exitCode p = 0 \<or> ep_exitCode p = 1)
      \<and> (ep_fatalReported p \<and> ep_serving p \<and> ep_exit p = None \<longrightarrow> ep_aborted p)
      \<and> (ep_serving p \<and> ep_exit p = None \<longrightarrow> (ep_graceTimer p \<longleftrightarrow> ep_aborted p)))"

lemma process_event_ok: "process_ok p \<Longrightarrow> process_ok (process_event_step e p)"
  by (cases e) (auto simp: process_ok_def request_shutdown_def report_fatal_error_def leave_main_def Let_def
      split: option.splits)

lemma process_run_ok: "process_ok (fold process_event_step es new_process)"
proof (induction es rule: rev_induct)
  case Nil
  then show ?case by (simp add: process_ok_def new_process_def)
next
  case (snoc e es)
  then show ?case using process_event_ok by simp
qed

lemma main_goes_on_until:
  "ep_ended (fold process_event_step es new_process) \<or> ep_serving (fold process_event_step es new_process)"
  by (induction es rule: rev_induct)
    (auto simp: new_process_def request_shutdown_def report_fatal_error_def leave_main_def Let_def
      split: process_event.splits option.splits)

text \<open>A process that ended did so with status 0 exactly when nothing fatal was reported and nothing forced it; one asked
  to shut down has its timer running until \<open>main\<close> ends, and the next signal or the timer ends it.\<close>

lemma executor_process_ends:
  assumes "p = fold process_event_step es new_process"
  shows "exit_status p = Some 0 \<longleftrightarrow> ep_ended p \<and> ep_exit p = None \<and> \<not> ep_fatalReported p"
    and "exit_status p = None \<Longrightarrow> ep_aborted p \<Longrightarrow>
      exit_status (process_event_step GraceTimeout p) = Some 1 \<and> exit_status (process_event_step (ProcessSignal Sigterm) p) = Some 1"
    and "exit_status p = None \<Longrightarrow> ep_fatalReported p \<Longrightarrow> ep_aborted p"
proof -
  have ok: "process_ok p" using process_run_ok assms by simp
  have on: "ep_ended p \<or> ep_serving p" using main_goes_on_until assms by simp
  show "exit_status p = Some 0 \<longleftrightarrow> ep_ended p \<and> ep_exit p = None \<and> \<not> ep_fatalReported p"
    using ok by (auto simp: exit_status_def process_ok_def split: option.splits)
  show "exit_status (process_event_step GraceTimeout p) = Some 1 \<and> exit_status (process_event_step (ProcessSignal Sigterm) p) = Some 1"
    if "exit_status p = None" "ep_aborted p"
    using that ok on by (auto simp: exit_status_def process_ok_def request_shutdown_def split: option.splits if_splits)
  show "exit_status p = None \<Longrightarrow> ep_fatalReported p \<Longrightarrow> ep_aborted p"
    using ok on by (auto simp: exit_status_def process_ok_def split: option.splits if_splits)
qed

section \<open>Witness\<close>

definition demo_origin :: url where
  "demo_origin = \<lparr> u_protocol = ''https:'', u_username = [], u_password = [], u_hostname = ''h'', u_port = [],
     u_pathname = ''/'', u_search = [], u_hash = [] \<rparr>"

definition demo_config_host :: config_host where
  "demo_config_host =
     \<lparr> cf_toNumber = (\<lambda>s. map_of [(''1000'', 1000), (''60000'', 60000), (''20000'', 20000), (''900000'', 900000)] s),
       cf_url = Some, cf_parseUrl = (\<lambda>s. if s = [] then None else Some demo_origin) \<rparr>"

definition demo_settings :: settings where
  "demo_settings = [''SELFHOST_INTERNAL_SECRET'' \<mapsto> ''0123456789abcdef'', ''PROBE_SHARED_SECRET'' \<mapsto> ''fedcba9876543210'']"

definition demo_executor :: executor_settings where
  "demo_executor =
     \<lparr> xs_apiBaseUrl = ''http://127.0.0.1:8788'', xs_internalSecret = ''0123456789abcdef'',
       xs_probeSharedSecret = ''fedcba9876543210'', xs_browserAuditSharedSecret = None,
       xs_probeBaseUrl = default_selfhost_probe_base_url, xs_browserAuditBaseUrl = None, xs_allowInsecureApiHttp = False,
       xs_allowInsecureProbeHttp = False, xs_allowInsecureBrowserAuditHttp = False, xs_allowInsecureWebhookHttp = False,
       xs_executorId = None, xs_pollIntervalMs = 1000, xs_leaseDurationMs = 60000, xs_heartbeatIntervalMs = 20000,
       xs_maxExecutionMs = 900000 \<rparr>"

definition demo_start_runtime :: runtime where
  "demo_start_runtime =
     \<lparr> rt_parseUrl = cf_parseUrl demo_config_host, rt_hmac = (\<lambda>_ _. []), rt_localeCompare = (\<lambda>_ _. 0), rt_isUrl = (\<lambda>_. False),
       rt_auditJson = \<lparr> aj_policy = (\<lambda>_. JNull), aj_cookie = (\<lambda>_. JNull) \<rparr> \<rparr>"

lemma demo_settings_parse: "parse_selfhost_executor_vars demo_config_host demo_settings = Some demo_executor"
proof -
  have trims: "js_trim ''0123456789abcdef'' = ''0123456789abcdef''" "js_trim ''fedcba9876543210'' = ''fedcba9876543210''"
    by code_simp+
  have "executor_base demo_config_host demo_settings = Some demo_executor"
    by (simp add: executor_base_def demo_settings_def demo_config_host_def demo_executor_def url_or_def secret_field_def trims
        optional_field_def flag_field_def number_field_def is_safe_integer_def)
  moreover have "executor_refinements demo_config_host demo_executor"
    by (simp add: executor_refinements_def demo_executor_def demo_config_host_def demo_origin_def credential_free_origin_def
        origin_ok_def default_selfhost_probe_base_url_def)
  ultimately show ?thesis by (simp add: parse_selfhost_executor_vars_def)
qed


end
