(* ===== verification/Debug_Proxy.thy ===== *)
theory Debug_Proxy
  imports Outbound_Policy Js_Number
begin

text \<open>
  The debug proxy of the compose setup (\<open>infra/docker-compose/debug-proxy.ts\<close>, \<open>debug-proxy-policy.ts\<close>): its target, the
  headers it drops, the bounded body and one exchange. Header names are in lower case, as \<open>Headers\<close> gives them; bytes are
  characters. The upstream request is an argument; \<open>parse_url\<close> and \<open>to_number\<close> are the URL constructor and \<open>Number\<close>.
\<close>

type_synonym header_list = "(string \<times> string) list"

definition debug_target :: "(string \<Rightarrow> url option) \<Rightarrow> string option \<Rightarrow> url throws" where
  "debug_target parse_url v =
     (let trimmed = (case v of None \<Rightarrow> [] | Some s \<Rightarrow> js_trim s) in
      if trimmed = [] then throw ''DEBUG_PROXY_TARGET is required''
      else (case parse_url trimmed of
              None \<Rightarrow> throw ''Invalid URL''
            | Some u \<Rightarrow>
                if u_protocol u \<notin> {''http:'', ''https:''} \<or> u_username u \<noteq> [] \<or> u_password u \<noteq> []
                then throw ''DEBUG_PROXY_TARGET must be an HTTP(S) origin without credentials''
                else return (u\<lparr>u_pathname := ''/'', u_search := [], u_hash := []\<rparr>)))"

definition debug_port :: "(string \<Rightarrow> rat option) \<Rightarrow> string option \<Rightarrow> int throws" where
  "debug_port to_number v =
     (case to_number (case v of None \<Rightarrow> ''8789'' | Some s \<Rightarrow> s) of
        None \<Rightarrow> throw ''DEBUG_PROXY_PORT must be a valid TCP port''
      | Some q \<Rightarrow>
          if of_int \<lfloor>q\<rfloor> \<noteq> q \<or> \<lfloor>q\<rfloor> < 1 \<or> \<lfloor>q\<rfloor> > 65535 then throw ''DEBUG_PROXY_PORT must be a valid TCP port''
          else return \<lfloor>q\<rfloor>)"

definition resolve_debug_proxy_upstream :: "url \<Rightarrow> url \<Rightarrow> url" where
  "resolve_debug_proxy_upstream target requestUrl =
     target\<lparr>u_pathname := u_pathname requestUrl, u_search := u_search requestUrl, u_hash := []\<rparr>"

section \<open>Headers\<close>

definition debug_hop_by_hop_headers :: "string list" where
  "debug_hop_by_hop_headers =
     [''connection'', ''keep-alive'', ''proxy-authenticate'', ''proxy-authorization'', ''proxy-connection'', ''te'',
      ''trailer'', ''transfer-encoding'', ''upgrade'']"

text \<open>\<open>Headers.get\<close>, and \<open>delete\<close>, which throws for what is no header name.\<close>

definition header_token_char :: "char \<Rightarrow> bool" where
  "header_token_char c = (is_alnum c \<or> c \<in> set ''!#$%&*+-.^_`|~'' \<or> c = CHR 0x27)"

definition debug_header_value :: "string \<Rightarrow> header_list \<Rightarrow> string option" where
  "debug_header_value n hs =
     (case filter (\<lambda>h. fst h = n) hs of [] \<Rightarrow> None | found \<Rightarrow> Some (join '', '' (map snd found)))"

definition delete_header :: "string \<Rightarrow> header_list \<Rightarrow> header_list throws" where
  "delete_header n hs =
     (if n = [] \<or> \<not> list_all header_token_char n then throw ''Invalid header name''
      else return (filter (\<lambda>h. fst h \<noteq> js_lower n) hs))"

fun delete_headers :: "string list \<Rightarrow> header_list \<Rightarrow> header_list throws" where
  "delete_headers [] hs = return hs"
| "delete_headers (n # ns) hs =
     (case delete_header n hs of Inl e \<Rightarrow> Inl e | Inr hs' \<Rightarrow> delete_headers ns hs')"

definition connection_headers :: "header_list \<Rightarrow> string list" where
  "connection_headers hs =
     filter (\<lambda>n. n \<noteq> [])
       (map (\<lambda>n. js_lower (js_trim n)) (split_char CHR '','' (case debug_header_value ''connection'' hs of None \<Rightarrow> [] | Some v \<Rightarrow> v)))"

definition strip_hop_by_hop_headers :: "header_list \<Rightarrow> header_list throws" where
  "strip_hop_by_hop_headers hs = delete_headers (connection_headers hs @ debug_hop_by_hop_headers) hs"

section \<open>The bounded body\<close>

text \<open>The chunks of a body, and whether reading fails after them. The buffer is its length and the bytes written.\<close>

record debug_body =
  db_contentLength :: "string option"
  db_chunks :: "string list option"
  db_fails :: bool

datatype body_read = NoBody | BodyBytes string | BodyTooLong | BodyReadFailed

definition debug_next_capacity :: "int \<Rightarrow> int \<Rightarrow> int \<Rightarrow> int" where
  "debug_next_capacity maxBytes byteSize capacity =
     (if byteSize > capacity then min maxBytes (max byteSize (capacity * 2)) else capacity)"

fun read_debug_chunks :: "int \<Rightarrow> string list \<Rightarrow> int \<Rightarrow> string \<Rightarrow> (int \<times> string) option" where
  "read_debug_chunks maxBytes [] capacity bytes = Some (capacity, bytes)"
| "read_debug_chunks maxBytes (c # cs) capacity bytes =
     (let byteSize = int (length bytes) + int (length c) in
      if byteSize > maxBytes then None
      else read_debug_chunks maxBytes cs (debug_next_capacity maxBytes byteSize capacity) (bytes @ c))"

definition read_bounded_debug_proxy_body :: "debug_body \<Rightarrow> int \<Rightarrow> body_read throws" where
  "read_bounded_debug_proxy_body b maxBytes =
     (if \<not> is_safe_integer maxBytes \<or> maxBytes < 1 then throw ''Debug proxy request body limit must be a positive integer''
      else if (case db_contentLength b of
                 None \<Rightarrow> False
               | Some s \<Rightarrow> s \<noteq> [] \<and> list_all is_digit s
                   \<and> (\<not> is_safe_integer (int (read_digits s)) \<or> int (read_digits s) > maxBytes))
      then return BodyTooLong
      else (case db_chunks b of
              None \<Rightarrow> return NoBody
            | Some cs \<Rightarrow>
                (case read_debug_chunks maxBytes cs (min maxBytes 8192) [] of
                   None \<Rightarrow> return BodyTooLong
                 | Some (capacity, bytes) \<Rightarrow> return (if db_fails b then BodyReadFailed else BodyBytes bytes))))"

definition maximum_debug_proxy_request_bytes :: int where
  "maximum_debug_proxy_request_bytes = 8 * 1024 * 1024"

lemma read_debug_chunks_Some:
  assumes "read_debug_chunks maxBytes cs capacity bytes = Some (k, r)" "int (length bytes) \<le> capacity" "capacity \<le> maxBytes"
  shows "r = bytes @ concat cs \<and> int (length r) \<le> k \<and> k \<le> maxBytes"
  using assms
proof (induction cs arbitrary: capacity bytes)
  case (Cons c cs)
  let ?n = "int (length bytes) + int (length c)" and ?k = "debug_next_capacity maxBytes (int (length bytes) + int (length c)) capacity"
  from Cons.prems have n: "?n \<le> maxBytes" "read_debug_chunks maxBytes cs ?k (bytes @ c) = Some (k, r)"
    by (auto simp: Let_def split: if_splits)
  have "int (length (bytes @ c)) \<le> ?k" "?k \<le> maxBytes"
    using n(1) Cons.prems(3) by (auto simp: debug_next_capacity_def)
  from Cons.IH [OF n(2) this] show ?case by (elim conjE) simp
qed simp

section \<open>One exchange\<close>

record debug_request =
  dq_method :: string
  dq_url :: url
  dq_headers :: header_list
  dq_body :: debug_body

record upstream_request =
  uq_url :: url
  uq_method :: string
  uq_headers :: header_list
  uq_body :: "string option"

record upstream_response =
  us_status :: int
  us_headers :: header_list
  us_content :: string

datatype debug_answer = AnswerThrew | AnswerTooLarge | AnswerUnavailable | AnswerPassed int header_list string

text \<open>The answer, with the request that went upstream, if one did; \<open>None\<close> of \<open>upstream\<close> is a fetch that failed. What
  is thrown before the \<open>try\<close> leaves the handler.\<close>

definition debug_exchange ::
  "url \<Rightarrow> (upstream_request \<Rightarrow> upstream_response option) \<Rightarrow> debug_request \<Rightarrow> debug_answer \<times> upstream_request option" where
  "debug_exchange target upstream q =
     (case strip_hop_by_hop_headers (dq_headers q) of
        Inl e \<Rightarrow> (AnswerThrew, None)
      | Inr stripped \<Rightarrow>
          let hs = filter (\<lambda>h. fst h \<noteq> ''host'') stripped;
              send = (\<lambda>body.
                let u = \<lparr> uq_url = resolve_debug_proxy_upstream target (dq_url q), uq_method = dq_method q, uq_headers = hs,
                          uq_body = body \<rparr> in
                (case upstream u of
                   None \<Rightarrow> AnswerUnavailable
                 | Some r \<Rightarrow>
                     (case strip_hop_by_hop_headers (us_headers r) of
                        Inl e \<Rightarrow> AnswerUnavailable
                      | Inr rs \<Rightarrow> AnswerPassed (us_status r) rs (us_content r)), Some u)) in
          if dq_method q = ''GET'' \<or> dq_method q = ''HEAD'' then send None
          else (case read_bounded_debug_proxy_body (dq_body q) maximum_debug_proxy_request_bytes of
                  Inl e \<Rightarrow> (AnswerUnavailable, None)
                | Inr NoBody \<Rightarrow> send None
                | Inr (BodyBytes bytes) \<Rightarrow> send (Some bytes)
                | Inr BodyTooLong \<Rightarrow> (AnswerTooLarge, None)
                | Inr BodyReadFailed \<Rightarrow> (AnswerUnavailable, None)))"

lemma delete_headers_Inr:
  "delete_headers ns hs = Inr r \<Longrightarrow> r = filter (\<lambda>h. fst h \<notin> js_lower ` set ns) hs"
proof (induction ns arbitrary: hs)
  case (Cons n ns)
  then have r: "r = filter (\<lambda>h. fst h \<notin> js_lower ` set ns) (filter (\<lambda>h. fst h \<noteq> js_lower n) hs)"
    using Cons.IH by (auto simp: delete_header_def simp del: filter_filter split: if_splits)
  show ?case unfolding r filter_filter by (rule filter_cong) auto
qed simp

lemma hop_by_hop_stripped:
  assumes "strip_hop_by_hop_headers hs = Inr r" "(n, v) \<in> set r"
  shows "(n, v) \<in> set hs" "n \<notin> set debug_hop_by_hop_headers" "n \<notin> set (connection_headers hs)"
proof -
  note f = delete_headers_Inr [OF assms(1) [unfolded strip_hop_by_hop_headers_def]]
  have hop: "map js_lower debug_hop_by_hop_headers = debug_hop_by_hop_headers" by code_simp
  then have "js_lower ` set debug_hop_by_hop_headers = set debug_hop_by_hop_headers" by (metis set_map)
  moreover have "set (connection_headers hs) \<subseteq> js_lower ` set (connection_headers hs)"
  proof
    fix n
    assume n: "n \<in> set (connection_headers hs)"
    then have "js_lower n = n" by (auto simp: connection_headers_def)
    with n show "n \<in> js_lower ` set (connection_headers hs)" by (metis image_eqI)
  qed
  ultimately show "(n, v) \<in> set hs" "n \<notin> set debug_hop_by_hop_headers" "n \<notin> set (connection_headers hs)"
    using f assms(2) by (auto simp: image_Un)
qed

text \<open>What goes upstream goes to the target, without the headers of the connection, and with the whole body within the
  limit; a body that is too long is refused before anything is sent.\<close>

theorem debug_proxy_forwards_bounded_requests:
  assumes "debug_exchange target upstream q = (a, Some u)"
  shows "url_origin (uq_url u) = url_origin target \<and> u_username (uq_url u) = u_username target
    \<and> (\<forall>(n, v) \<in> set (uq_headers u). (n, v) \<in> set (dq_headers q) \<and> n \<noteq> ''host''
         \<and> n \<notin> set debug_hop_by_hop_headers \<and> n \<notin> set (connection_headers (dq_headers q)))
    \<and> (case uq_body u of
         None \<Rightarrow> dq_method q \<in> {''GET'', ''HEAD''} \<or> db_chunks (dq_body q) = None
       | Some bytes \<Rightarrow> int (length bytes) \<le> maximum_debug_proxy_request_bytes
           \<and> (\<exists>cs. db_chunks (dq_body q) = Some cs \<and> bytes = concat cs))"
proof -
  from assms obtain hs where hs: "strip_hop_by_hop_headers (dq_headers q) = Inr hs"
    by (auto simp: debug_exchange_def split: sum.splits)
  have parts: "uq_url u = resolve_debug_proxy_upstream target (dq_url q)" "uq_headers u = filter (\<lambda>h. fst h \<noteq> ''host'') hs"
    "uq_body u = None \<and> dq_method q \<in> {''GET'', ''HEAD''}
     \<or> (\<exists>r. read_bounded_debug_proxy_body (dq_body q) maximum_debug_proxy_request_bytes = Inr r
         \<and> (r = NoBody \<and> uq_body u = None \<or> (\<exists>bytes. r = BodyBytes bytes \<and> uq_body u = Some bytes)))"
    using assms hs by (auto simp: debug_exchange_def Let_def split: sum.splits body_read.splits if_splits)
  have "\<forall>(n, v) \<in> set (uq_headers u). (n, v) \<in> set (dq_headers q) \<and> n \<noteq> ''host''
         \<and> n \<notin> set debug_hop_by_hop_headers \<and> n \<notin> set (connection_headers (dq_headers q))"
    using hop_by_hop_stripped [OF hs] by (auto simp: parts(2))
  moreover have "case uq_body u of
         None \<Rightarrow> dq_method q \<in> {''GET'', ''HEAD''} \<or> db_chunks (dq_body q) = None
       | Some bytes \<Rightarrow> int (length bytes) \<le> maximum_debug_proxy_request_bytes
           \<and> (\<exists>cs. db_chunks (dq_body q) = Some cs \<and> bytes = concat cs)"
    using parts(3) by (auto simp: read_bounded_debug_proxy_body_def split: if_splits option.splits prod.splits
        dest!: read_debug_chunks_Some simp: maximum_debug_proxy_request_bytes_def)
  ultimately show ?thesis by (simp add: parts(1) resolve_debug_proxy_upstream_def url_origin_def url_host_def)
qed

end
