(* ===== verification/Spec2Isabelle.thy ===== *)
theory Spec2Isabelle
  imports Report_Core List_Query Resource_Properties Retention Scheduler_Loop Executor_Safety
    Outbound_Properties Url_Properties Network_Properties Webhook_Properties Audit_Properties
    Api_Agreement Browser_Proxy Browser_Worker Database_Files Process_Heartbeat Configuration Debug_Proxy
begin

text \<open>
  A verification of the core of webperf-selfhosted, a self-hosted web performance monitor: a control-plane API
  with an SQLite database, an executor that leases work from it, a scheduler that triggers recurring checks, and
  the shared packages with the contracts and the report logic.

  The program, and which theory models which part.

  \<^item> \<open>packages/contracts/src\<close>: the data and its schemas. \<open>Contracts\<close> (records for the resources, one per
    interface of the source), \<open>Schemas\<close> (each zod schema as a predicate on the record), \<open>Browser_Contracts\<close>
    (browser audits: policy, the flow DSL and its grammar, artifacts, results), \<open>Execution_Contracts\<close>
    (execution jobs, their JSON payloads with decoders, contexts and results).
  \<^item> \<open>packages/report-core/src/index.ts\<close>: \<open>Report_Core\<close>. Job status and summary, comparison of two runs of a
    check, the monitor's verdict, the CSV report.
  \<^item> \<open>packages/domain-core/src\<close>: \<open>List_Query\<close> (filters and pages of the list routes) and \<open>Scheduler_Loop\<close> (one
    dispatch request, the polling loop with its backoff, what is logged of an error).
  \<^item> \<open>apps/api/src/repository.ts\<close> and the tables of its migrations: \<open>Tables\<close> (rows, keyed tables, the locale
    \<open>keyed_store\<close>), \<open>Execution_Queue\<close> (the table \<open>execution_jobs\<close> and every statement on it), \<open>Repository\<close> (the
    database as a record of tables, and every method as a function on it). A transaction is a function whose
    error result leaves the database as it was.
  \<^item> \<open>apps/api/src/database\<close>: \<open>Retention\<close> (the batched deletion of old data, of \<open>operations.ts\<close>), \<open>Sqlite_Migrations\<close>
    (the runner of \<open>sqlite.ts\<close> and the migration that encrypts payloads), \<open>Database_Files\<close> (verification, doctor, backup
    and restore of \<open>operations.ts\<close>); \<open>apps/api/src/storage-crypto.ts\<close>: \<open>Storage_Crypto\<close>.
  \<^item> \<open>apps/api/src/browser-audit-upload-token.ts\<close>: \<open>Upload_Token\<close>; \<open>browser-audit-artifact-store.ts\<close>: \<open>Artifact_Store\<close>;
    \<open>redaction.ts\<close>: \<open>Redaction\<close>; the metrics of the queue: \<open>Runtime_Metrics\<close>.
  \<^item> \<open>apps/api/src/index.ts\<close>, \<open>auth.ts\<close> and \<open>json-body.ts\<close>: each handler a program (\<open>Programs\<close>) over the world of
    \<open>Api_Base\<close>: database, store of artifacts, clock and identifiers. \<open>Api_Execution\<close> (the transport of the executor),
    \<open>Api_Resources\<close> (properties, route sets, checks), \<open>Api_Runs\<close> (jobs, runs, audits), \<open>Api_Lists\<close>, \<open>Api_Derived\<close>
    (reports, comparisons, exports, analyses, event streams), \<open>Api_Artifacts\<close>, \<open>Api_Rpc\<close> (the RPC procedures),
    \<open>Api_Routes\<close> (authentication and the route of a request). \<open>Request_Steps\<close> and \<open>Request_Routes\<close> show for every
    handler what it may do to the world; \<open>Request_Properties\<close> and \<open>Api_Agreement\<close> rest on them.
  \<^item> \<open>apps/executor/src/runner.ts\<close> with \<open>execution-utils.ts\<close> and \<open>diagnostics.ts\<close>: \<open>Executor_Loop\<close>. The claim
    loop over a script of rounds, and the processing of one job as a state machine over events, where handler,
    heartbeat, time limit and shutdown interleave.
  \<^item> \<open>apps/executor/src/outbound-http.ts\<close>: \<open>Outbound_Policy\<close> (the address policy, the pinned request, the events of
    its socket), with \<open>Address_Parsing\<close> (its parser of IPv6 texts agrees with the platform's scanner) and
    \<open>Outbound_Properties\<close>; \<open>client.ts\<close>: \<open>Executor_Client\<close>.
  \<^item> The handlers of the executor, \<open>network-handler.ts\<close>, \<open>webhook-handler.ts\<close> and \<open>browser-audit-handler.ts\<close>:
    \<open>Network_Handler\<close>, \<open>Webhook_Handler\<close>, \<open>Audit_Handler\<close>, each a program over the host of \<open>Handler_Base\<close>, which
    gives the clock, the abort signal, the control plane and the network, and over the trace of what was asked of
    it. \<open>Handler_Base\<close> has the rules of partial correctness; the properties are in \<open>Network_Properties\<close>,
    \<open>Webhook_Properties\<close> and \<open>Audit_Properties\<close>.
  \<^item> The URL policy and the request signatures of \<open>packages/domain-core/src/index.ts\<close>, and their verification in
    \<open>apps/browser-audit-lighthouse/src/signatures.ts\<close>: \<open>Url_Policy\<close>, \<open>Url_Properties\<close>.
  \<^item> \<open>apps/browser-audit-lighthouse/src\<close>: \<open>Browser_Network\<close> (\<open>network-policy.ts\<close>), \<open>Browser_Proxy\<close>
    (\<open>network-proxy.ts\<close>), \<open>Browser_Redaction\<close> (\<open>redaction.ts\<close>), \<open>Browser_Worker\<close> (\<open>index.ts\<close>, \<open>config.ts\<close>,
    \<open>capabilities.ts\<close>).
  \<^item> \<open>packages/config/src\<close> and the start and end of the executor process: \<open>Configuration\<close>; the heartbeat file:
    \<open>Process_Heartbeat\<close>. \<open>infra/docker-compose/debug-proxy.ts\<close>: \<open>Debug_Proxy\<close>.

  The language: \<open>Prelude\<close>, \<open>Js_Base\<close> (strings, \<open>JSON.stringify\<close>), \<open>Js_Collections\<close> (\<open>Map\<close>), \<open>Js_Number\<close>
  (double arithmetic as rationals rounded to 53 bits, used where delays are scaled by 0.9 or 1.1), \<open>Js_Url\<close>
  (the components of a parsed URL; patterns), \<open>Js_Net\<close> (IP addresses and block lists of Node's \<open>net\<close>), \<open>Js_Json\<close>
  (\<open>JSON.stringify\<close> is injective), \<open>Js_Base64\<close>.

  How the parts interact. A request passes authentication and its route to a handler, which calls the repository;
  the executor reaches the repository through the requests of its transport, the scheduler through the dispatch
  request, the browser worker through signed requests of the executor and the uploads its token opens. \<open>Queue_Safety\<close>
  states the life of one execution job as the relation \<open>row_step\<close> and proves that every call of the repository moves
  every row by such a step (\<open>repo_step_row\<close>): the detailed methods implement the abstract state machine. The locales
  \<open>request_relation\<close>, \<open>saving_relation\<close> and \<open>transport_relation\<close> carry that over to requests: what any request does to
  the database is a sequence of calls of the repository. \<open>Queue_Properties\<close> and \<open>Resource_Properties\<close> derive, for every
  reachable database, exclusive leases, the choice of a claim, bounded attempts, the outcome of failures, what
  the end of an execution leaves in its resource, and who may write results. \<open>Executor_Properties\<close> shows what the
  executor guarantees alone; \<open>Executor_Safety\<close> composes both: the locale \<open>lease_service\<close> is what the executor relies
  on, the repository behind the API is its interpretation, and the deadline the executor computes itself is never later
  than the lease in the database. \<open>Configuration\<close> shows that accepted settings meet what the loop and the API ask of
  them, \<open>Browser_Worker\<close> that the worker accepts what the executor signs. The locale \<open>keyed_store\<close> is the interface of
  the tables of saved resources, interpreted on each of them.

  Properties, in the order of the manifest: the lease of a working executor; exclusive leases; claims; final
  statuses and attempts; failures; the table's constraints; settled resources; guarded results; retention; requests as
  steps of the repository, tokens, the agreement of RPC and REST, event streams; the executor's reports and aborts;
  addresses, pinned requests and bounded responses; what the handlers store, send and sign; the browser's network and
  proxy; redacted artifacts; the worker, the settings and the heartbeat file; encrypted payloads, migrations and
  restores; upload tokens; CSV; pages; artifacts on disk, their uploads and downloads; metrics.

  Conventions. Timestamps are milliseconds in the years 0 to 9999 (the ISO strings of the code have a fixed width, so
  their order is the order of instants). Strings are lists of 8-bit code units. In the repository a cell the code stores
  encrypted is \<open>Sealed\<close> content or \<open>Unreadable\<close>; \<open>Storage_Crypto\<close> has the envelopes. What the platform or a library
  decides is a parameter: the URL parser and printer, HMAC, ciphers and digests, \<open>JSON.parse\<close>, the text of exports
  and responses, \<open>localeCompare\<close>, the decoding of RPC inputs, the OpenAPI documents; what the network, the clock, the
  file system and the random generator do is in scripts, events and arguments. Rows with equal sort keys come in insertion order. A handler
  runs without another one between its reading and its saving, except where an upload waits for its bytes
  (\<open>upr_meanwhile\<close>). Response headers are modelled only where the HTTP response is made, texts of zod issues never.
  Loops of the source recur on the list they walk; the batches of the retention are bounded by the code's own limit of
  200, and no fuel is used.

  Not modelled. The browser automation (\<open>audit.ts\<close>), which drives Puppeteer and Lighthouse; the console and the user
  interface, which are Svelte components over the API; the route contracts and OpenAPI documents, which are tables
  handed to a library; the tooling, which runs other programs; the file descriptors of one platform; the migrations
  that define tables or rewrite data of the discontinued regional runtime. Rows of that runtime and documents in the
  formats before the present one are taken to be absent.
\<close>

end
